(* ===== verification/Atta_Prelude.thy ===== *)
theory Atta_Prelude
  imports Main "HOL-Library.Word"
begin

text \<open>
  The prelude of the development: what every component shares and no component owns.

  \<^item> The state-and-error functions: a Rust \<open>async fn\<close> that returns \<open>Result<A, E>\<close> and works on
    shared state is a function \<open>'s \<Rightarrow> ('e + 'a) \<times> 's\<close>. What an early return through \<open>?\<close> had already
    written stays written, so the state is returned beside the error too.
  \<^item> The string operations of the Rust standard library the code calls. A \<open>string\<close> is the list of
    the bytes of the UTF-8 text, so \<open>length\<close> is Rust's \<open>len()\<close>. White space and letter case
    are those of ASCII.
  \<^item> JSON values (\<open>serde_json::Value\<close>). An object is a \<open>BTreeMap\<close>: an association list that
    insertion keeps sorted by key. A float is kept as its IEEE bit pattern: nothing modelled here
    computes with one.
  \<^item> The collections of proof rules (\<open>named_theorems\<close>) that the component theories fill.
\<close>

section \<open>Collections of rules\<close>

named_theorems io_simps \<open>unfolding of the state-and-error functions\<close>
named_theorems keeps_intros \<open>operations that keep an invariant of the state\<close>
named_theorems str_simps \<open>equations for evaluating the string operations\<close>

section \<open>State and errors\<close>

type_synonym ('s, 'e, 'a) io = "'s \<Rightarrow> ('e + 'a) \<times> 's"

definition retE :: "'a \<Rightarrow> ('s, 'e, 'a) io" where
  "retE x = (\<lambda>s. (Inr x, s))"

definition failE :: "'e \<Rightarrow> ('s, 'e, 'a) io" where
  "failE e = (\<lambda>s. (Inl e, s))"

text \<open>The \<open>?\<close> operator: go on with the value, or return the error.\<close>

definition bindE :: "('s, 'e, 'a) io \<Rightarrow> ('a \<Rightarrow> ('s, 'e, 'b) io) \<Rightarrow> ('s, 'e, 'b) io" where
  "bindE m k = (\<lambda>s. case m s of (Inl e, t) \<Rightarrow> (Inl e, t) | (Inr x, t) \<Rightarrow> k x t)"

text \<open>\<open>match\<close> on a result: both arms go on from the state reached.\<close>

definition tryE :: "('s, 'e, 'a) io \<Rightarrow> ('e + 'a \<Rightarrow> ('s, 'f, 'b) io) \<Rightarrow> ('s, 'f, 'b) io" where
  "tryE m k = (\<lambda>s. case m s of (r, t) \<Rightarrow> k r t)"

definition getE :: "('s, 'e, 's) io" where
  "getE = (\<lambda>s. (Inr s, s))"

definition modifyE :: "('s \<Rightarrow> 's) \<Rightarrow> ('s, 'e, unit) io" where
  "modifyE f = (\<lambda>s. (Inr (), f s))"

definition liftE :: "'e + 'a \<Rightarrow> ('s, 'e, 'a) io" where
  "liftE r = (\<lambda>s. (r, s))"

text \<open>\<open>opt.ok_or(e)?\<close>\<close>

definition ok_or :: "'e \<Rightarrow> 'a option \<Rightarrow> 'e + 'a" where
  "ok_or e v = (case v of None \<Rightarrow> Inl e | Some x \<Rightarrow> Inr x)"

text \<open>The \<open>?\<close> operator where there is no state.\<close>

definition and_then :: "'e + 'a \<Rightarrow> ('a \<Rightarrow> 'e + 'b) \<Rightarrow> 'e + 'b" where
  "and_then r k = (case r of Inl e \<Rightarrow> Inl e | Inr x \<Rightarrow> k x)"

text \<open>A \<open>for\<close> loop whose body may return early through \<open>?\<close>.\<close>

fun forE :: "'a list \<Rightarrow> ('a \<Rightarrow> ('s, 'e, unit) io) \<Rightarrow> ('s, 'e, unit) io" where
  "forE [] f = retE ()"
| "forE (x # xs) f = bindE (f x) (\<lambda>_. forE xs f)"

lemma retE_apply [simp, io_simps]: "retE x s = (Inr x, s)"
  by (simp add: retE_def)

lemma failE_apply [simp, io_simps]: "failE e s = (Inl e, s)"
  by (simp add: failE_def)

lemma getE_apply [simp, io_simps]: "getE s = (Inr s, s)"
  by (simp add: getE_def)

lemma modifyE_apply [simp, io_simps]: "modifyE f s = (Inr (), f s)"
  by (simp add: modifyE_def)

lemma liftE_apply [simp, io_simps]: "liftE r s = (r, s)"
  by (simp add: liftE_def)

lemma bindE_apply [io_simps]:
  "bindE m k s = (case m s of (Inl e, t) \<Rightarrow> (Inl e, t) | (Inr x, t) \<Rightarrow> k x t)"
  by (simp add: bindE_def)

lemma tryE_apply [io_simps]: "tryE m k s = (case m s of (r, t) \<Rightarrow> k r t)"
  by (simp add: tryE_def)

lemma bindE_ok: "m s = (Inr x, t) \<Longrightarrow> bindE m k s = k x t"
  by (simp add: bindE_def)

lemma bindE_err: "m s = (Inl e, t) \<Longrightarrow> bindE m k s = (Inl e, t)"
  by (simp add: bindE_def)

lemma bindE_okD:
  assumes "bindE m k s = (Inr y, u)"
  obtains x t where "m s = (Inr x, t)" and "k x t = (Inr y, u)"
  using assms by (auto simp: bindE_def split: prod.splits sum.splits)

lemma and_then_simps [simp]: "and_then (Inl e) k = Inl e" "and_then (Inr x) k = k x"
  by (simp_all add: and_then_def)

lemma and_then_eq_iff:
  "and_then r k = Inr y \<longleftrightarrow> (\<exists>x. r = Inr x \<and> k x = Inr y)"
  "and_then r k = Inl e \<longleftrightarrow> r = Inl e \<or> (\<exists>x. r = Inr x \<and> k x = Inl e)"
  by (cases r; simp)+

text \<open>Checks made one after another: the first error is the result.\<close>

fun each :: "('a \<Rightarrow> 'e + unit) \<Rightarrow> 'a list \<Rightarrow> 'e + unit" where
  "each f [] = Inr ()"
| "each f (x # xs) = and_then (f x) (\<lambda>_. each f xs)"

lemma each_ok: "each g xs = Inr u \<longleftrightarrow> (\<forall>x \<in> set xs. g x = Inr ())"
  by (induction xs) (auto simp: and_then_eq_iff)

lemma each_err: "each g xs = Inl e \<Longrightarrow> \<exists>x \<in> set xs. g x = Inl e"
  by (induction xs) (auto simp: and_then_eq_iff)

lemma ok_or_simps [simp]: "ok_or e None = Inl e" "ok_or e (Some x) = Inr x"
  by (simp_all add: ok_or_def)

lemma ok_or_eq_iff [simp]:
  "ok_or e v = Inr x \<longleftrightarrow> v = Some x"
  "ok_or e v = Inl e' \<longleftrightarrow> v = None \<and> e' = e"
  by (auto simp: ok_or_def split: option.splits)

subsection \<open>Invariants of operations\<close>

text \<open>
  \<open>keeps P m\<close>: whatever \<open>m\<close> returns, a value or an error, it leaves a state with \<open>P\<close> where it
  found one. The rules below follow the way operations are built; each operation's own rule
  joins the collection \<open>keeps_intros\<close>.
\<close>

definition keeps :: "('s \<Rightarrow> bool) \<Rightarrow> ('s, 'e, 'a) io \<Rightarrow> bool" where
  "keeps P m \<longleftrightarrow> (\<forall>s. P s \<longrightarrow> P (snd (m s)))"

lemma keepsI: "(\<And>s. P s \<Longrightarrow> P (snd (m s))) \<Longrightarrow> keeps P m"
  by (simp add: keeps_def)

lemma keepsD: "keeps P m \<Longrightarrow> P s \<Longrightarrow> P (snd (m s))"
  by (simp add: keeps_def)

lemma keeps_run: "keeps P m \<Longrightarrow> m s = (r, t) \<Longrightarrow> P s \<Longrightarrow> P t"
  by (metis keeps_def snd_conv)

lemma keeps_retE [keeps_intros]: "keeps P (retE x)"
  by (simp add: keeps_def)

lemma keeps_failE [keeps_intros]: "keeps P (failE e)"
  by (simp add: keeps_def)

lemma keeps_getE [keeps_intros]: "keeps P getE"
  by (simp add: keeps_def)

lemma keeps_liftE [keeps_intros]: "keeps P (liftE r)"
  by (simp add: keeps_def)

lemma keeps_Pair [simp]: "keeps P (Pair r)"
  by (simp add: keeps_def)

lemma keeps_modifyE: "(\<And>s. P s \<Longrightarrow> P (f s)) \<Longrightarrow> keeps P (modifyE f)"
  by (simp add: keeps_def)

lemma keeps_bindE [keeps_intros]:
  assumes "keeps P m" and "\<And>x. keeps P (k x)"
  shows "keeps P (bindE m k)"
  unfolding keeps_def
proof (intro allI impI)
  fix s assume "P s"
  with assms(1) have "P (snd (m s))" by (rule keepsD)
  with assms(2) show "P (snd (bindE m k s))"
    by (cases "m s") (auto simp: bindE_def keeps_def split: sum.split)
qed

lemma keeps_tryE [keeps_intros]:
  assumes "keeps P m" and "\<And>r. keeps P (k r)"
  shows "keeps P (tryE m k)"
  unfolding keeps_def
proof (intro allI impI)
  fix s assume "P s"
  with assms(1) have "P (snd (m s))" by (rule keepsD)
  with assms(2) show "P (snd (tryE m k s))"
    by (cases "m s") (auto simp: tryE_def keeps_def)
qed

lemma keeps_forE [keeps_intros]: "(\<And>x. x \<in> set xs \<Longrightarrow> keeps P (f x)) \<Longrightarrow> keeps P (forE xs f)"
  by (induction xs) (auto intro: keeps_intros)

lemma keeps_if [keeps_intros]:
  "(b \<Longrightarrow> keeps P m) \<Longrightarrow> (\<not> b \<Longrightarrow> keeps P n) \<Longrightarrow> keeps P (if b then m else n)"
  by simp

lemma keeps_case_option [keeps_intros]:
  "keeps P m \<Longrightarrow> (\<And>x. keeps P (k x)) \<Longrightarrow> keeps P (case v of None \<Rightarrow> m | Some x \<Rightarrow> k x)"
  by (simp split: option.split)

lemma keeps_case_sum [keeps_intros]:
  "(\<And>x. keeps P (k x)) \<Longrightarrow> (\<And>x. keeps P (l x)) \<Longrightarrow>
   keeps P (case v of Inl x \<Rightarrow> k x | Inr y \<Rightarrow> l y)"
  by (simp split: sum.split)

lemma keeps_Let [keeps_intros]: "keeps P (f v) \<Longrightarrow> keeps P (let x = v in f x)"
  by simp

subsection \<open>Triples\<close>

text \<open>
  \<open>triple P m Q R\<close>: from a state with \<open>P\<close>, a value \<open>x\<close> comes with a state in \<open>Q x\<close> and an error \<open>e\<close>
  with a state in \<open>R e\<close>. Where the state of an error matters as much as that of a value, \<open>R\<close>
  carries what an early return leaves behind.
\<close>

definition triple ::
  "('s \<Rightarrow> bool) \<Rightarrow> ('s, 'e, 'a) io \<Rightarrow> ('a \<Rightarrow> 's \<Rightarrow> bool) \<Rightarrow> ('e \<Rightarrow> 's \<Rightarrow> bool) \<Rightarrow> bool" where
  "triple P m Q R \<longleftrightarrow> (\<forall>s. P s \<longrightarrow> (case m s of (Inr x, t) \<Rightarrow> Q x t | (Inl e, t) \<Rightarrow> R e t))"

lemma tripleI:
  "(\<And>s x t. P s \<Longrightarrow> m s = (Inr x, t) \<Longrightarrow> Q x t) \<Longrightarrow>
   (\<And>s e t. P s \<Longrightarrow> m s = (Inl e, t) \<Longrightarrow> R e t) \<Longrightarrow> triple P m Q R"
  by (auto simp: triple_def split: prod.split sum.split)

lemma triple_ok: "triple P m Q R \<Longrightarrow> P s \<Longrightarrow> m s = (Inr x, t) \<Longrightarrow> Q x t"
  unfolding triple_def by fastforce

lemma triple_err: "triple P m Q R \<Longrightarrow> P s \<Longrightarrow> m s = (Inl e, t) \<Longrightarrow> R e t"
  unfolding triple_def by fastforce

lemma triple_bindE:
  assumes "triple P m M R" and "\<And>x. triple (M x) (k x) Q R"
  shows "triple P (bindE m k) Q R"
proof (rule tripleI)
  fix s x t assume "P s" and run: "bindE m k s = (Inr x, t)"
  from run obtain y u where "m s = (Inr y, u)" "k y u = (Inr x, t)"
    by (rule bindE_okD)
  with triple_ok [OF assms(1) \<open>P s\<close>] triple_ok [OF assms(2)] show "Q x t" by blast
next
  fix s e t assume "P s" and run: "bindE m k s = (Inl e, t)"
  show "R e t"
  proof (cases "m s")
    case (Pair r u)
    show ?thesis
    proof (cases r)
      case (Inl e')
      with run Pair triple_err [OF assms(1) \<open>P s\<close>] show ?thesis by (simp add: bindE_def)
    next
      case (Inr y)
      with Pair triple_ok [OF assms(1) \<open>P s\<close>] have "M y u" by simp
      with run Pair Inr triple_err [OF assms(2)] show ?thesis by (simp add: bindE_def)
    qed
  qed
qed

lemma triple_tryE:
  assumes "triple P m (\<lambda>x. M (Inr x)) (\<lambda>e. M (Inl e))" and "\<And>r. triple (M r) (k r) Q R"
  shows "triple P (tryE m k) Q R"
proof (rule tripleI)
  fix s x t assume "P s" and run: "tryE m k s = (Inr x, t)"
  obtain r u where m: "m s = (r, u)" by fastforce
  with assms(1) \<open>P s\<close> have "M r u" by (cases r) (auto dest: triple_ok triple_err)
  with m run triple_ok [OF assms(2)] show "Q x t" by (simp add: tryE_def)
next
  fix s e t assume "P s" and run: "tryE m k s = (Inl e, t)"
  obtain r u where m: "m s = (r, u)" by fastforce
  with assms(1) \<open>P s\<close> have "M r u" by (cases r) (auto dest: triple_ok triple_err)
  with m run triple_err [OF assms(2)] show "R e t" by (simp add: tryE_def)
qed

lemma triple_retE: "(\<And>s. P s \<Longrightarrow> Q x s) \<Longrightarrow> triple P (retE x) Q R"
  by (simp add: triple_def)

lemma triple_failE: "(\<And>s. P s \<Longrightarrow> R e s) \<Longrightarrow> triple P (failE e) Q R"
  by (simp add: triple_def)

lemma triple_pre: "triple P m Q R \<Longrightarrow> (\<And>s. P' s \<Longrightarrow> P s) \<Longrightarrow> triple P' m Q R"
  by (simp add: triple_def)

lemma triple_post:
  "triple P m Q R \<Longrightarrow> (\<And>x s. Q x s \<Longrightarrow> Q' x s) \<Longrightarrow> (\<And>e s. R e s \<Longrightarrow> R' e s) \<Longrightarrow> triple P m Q' R'"
  unfolding triple_def by (fastforce split: prod.split sum.split)

lemma keeps_triple: "keeps P m \<longleftrightarrow> triple P m (\<lambda>_. P) (\<lambda>_. P)"
  by (auto simp: keeps_def triple_def split: prod.split sum.split) (metis prod.collapse sum.exhaust)+

section \<open>Strings\<close>

definition is_ws :: "char \<Rightarrow> bool" where
  "is_ws c \<longleftrightarrow> c = CHR '' '' \<or> (9 \<le> (of_char c :: nat) \<and> (of_char c :: nat) \<le> 13)"

definition trim_start :: "string \<Rightarrow> string" where
  "trim_start s = dropWhile is_ws s"

definition trim_end :: "string \<Rightarrow> string" where
  "trim_end s = rev (dropWhile is_ws (rev s))"

definition trim :: "string \<Rightarrow> string" where
  "trim s = trim_end (trim_start s)"

text \<open>\<open>trim_matches(c)\<close> strips the character from both ends.\<close>

definition trim_char :: "char \<Rightarrow> string \<Rightarrow> string" where
  "trim_char c s = rev (dropWhile (\<lambda>x. x = c) (rev (dropWhile (\<lambda>x. x = c) s)))"

fun strip_prefix :: "string \<Rightarrow> string \<Rightarrow> string option" where
  "strip_prefix [] s = Some s"
| "strip_prefix (p # ps) [] = None"
| "strip_prefix (p # ps) (c # cs) = (if p = c then strip_prefix ps cs else None)"

definition starts_with :: "string \<Rightarrow> string \<Rightarrow> bool" where
  "starts_with s p \<longleftrightarrow> strip_prefix p s \<noteq> None"

definition ends_with :: "string \<Rightarrow> string \<Rightarrow> bool" where
  "ends_with s p \<longleftrightarrow> strip_prefix (rev p) (rev s) \<noteq> None"

text \<open>\<open>s.split_once(p)\<close>: what is before and after the first occurrence of \<open>p\<close>.\<close>

fun split_once :: "string \<Rightarrow> string \<Rightarrow> (string \<times> string) option" where
  "split_once p [] = (if p = [] then Some ([], []) else None)"
| "split_once p (c # cs) =
     (case strip_prefix p (c # cs) of
        Some r \<Rightarrow> Some ([], r)
      | None \<Rightarrow> map_option (\<lambda>(l, r). (c # l, r)) (split_once p cs))"

definition contains :: "string \<Rightarrow> string \<Rightarrow> bool" where
  "contains s p \<longleftrightarrow> split_once p s \<noteq> None"

text \<open>\<open>to_lowercase\<close> on ASCII.\<close>

definition lower_char :: "char \<Rightarrow> char" where
  "lower_char c =
     (if 65 \<le> (of_char c :: nat) \<and> (of_char c :: nat) \<le> 90 then char_of ((of_char c :: nat) + 32) else c)"

definition to_lower :: "string \<Rightarrow> string" where
  "to_lower s = map lower_char s"

fun join :: "string \<Rightarrow> string list \<Rightarrow> string" where
  "join sep [] = []"
| "join sep [x] = x"
| "join sep (x # y # ys) = x @ sep @ join sep (y # ys)"

text \<open>A text between single quotes, as the error messages write names.\<close>

definition squote :: "string \<Rightarrow> string" where
  "squote s = CHR 0x27 # s @ [CHR 0x27]"

abbreviation em_dash :: string where
  "em_dash \<equiv> [CHR 0xE2, CHR 0x80, CHR 0x94]"

text \<open>The first word of \<open>split_whitespace\<close>, and all of them.\<close>

definition first_word :: "string \<Rightarrow> string" where
  "first_word s = takeWhile (\<lambda>c. \<not> is_ws c) (trim_start s)"

text \<open>Decimal printing of an unsigned integer.\<close>

fun show_nat :: "nat \<Rightarrow> string" where
  "show_nat n = (if n < 10 then [char_of (48 + n)] else show_nat (n div 10) @ [char_of (48 + n mod 10)])"

declare show_nat.simps [simp del]

subsection \<open>Facts about the string operations\<close>

lemma strip_prefix_Some_iff [simp]: "strip_prefix p s = Some r \<longleftrightarrow> s = p @ r"
  by (induction p s rule: strip_prefix.induct) auto

lemma strip_prefix_None_iff: "strip_prefix p s = None \<longleftrightarrow> (\<forall>r. s \<noteq> p @ r)"
  using strip_prefix_Some_iff by (metis not_None_eq)

lemma starts_with_iff: "starts_with s p \<longleftrightarrow> (\<exists>r. s = p @ r)"
  by (auto simp: starts_with_def)

lemma ends_with_iff: "ends_with s p \<longleftrightarrow> (\<exists>r. s = r @ p)"
proof -
  have "rev s = rev p @ r \<longleftrightarrow> s = rev r @ p" for r
    by (metis rev_append rev_rev_ident)
  then show ?thesis
    by (auto simp: ends_with_def) (metis rev_rev_ident)
qed

lemma split_once_Some: "split_once p s = Some (l, r) \<Longrightarrow> s = l @ p @ r"
proof (induction p s arbitrary: l rule: split_once.induct)
  case (1 p)
  then show ?case by (auto split: if_splits)
next
  case (2 p c cs)
  then show ?case by (fastforce split: option.splits)
qed

lemma split_once_None: "split_once p s = None \<Longrightarrow> s \<noteq> l @ p @ r"
proof (induction p s arbitrary: l rule: split_once.induct)
  case (1 p)
  then show ?case by (auto split: if_splits)
next
  case (2 p c cs)
  from "2.prems" have np: "strip_prefix p (c # cs) = None" and nr: "split_once p cs = None"
    by (auto split: option.splits)
  show ?case
  proof (cases l)
    case Nil
    with np show ?thesis by (metis append_Nil strip_prefix_Some_iff option.distinct(1))
  next
    case (Cons d l')
    with "2.IH" [OF np nr, of l'] show ?thesis by auto
  qed
qed

lemma contains_iff: "contains s p \<longleftrightarrow> (\<exists>l r. s = l @ p @ r)"
proof (cases "split_once p s")
  case None
  then show ?thesis using split_once_None [OF None] by (auto simp: contains_def)
next
  case (Some lr)
  obtain l r where "lr = (l, r)" by fastforce
  with Some show ?thesis using split_once_Some [of p s l r] by (auto simp: contains_def)
qed

lemma contains_appendI1: "contains a p \<Longrightarrow> contains (a @ b) p"
  by (metis append.assoc contains_iff)

lemma contains_appendI2: "contains b p \<Longrightarrow> contains (a @ b) p"
  by (metis append.assoc contains_iff)

lemma contains_set: "contains s p \<Longrightarrow> set p \<subseteq> set s"
  by (auto simp: contains_iff)

text \<open>\<open>split_once\<close> gives the first occurrence.\<close>

lemma split_once_first:
  "split_once p s = Some (l, r) \<Longrightarrow> p \<noteq> [] \<Longrightarrow> s = l' @ p @ r' \<Longrightarrow> length l \<le> length l'"
proof (induction p s arbitrary: l l' rule: split_once.induct)
  case (1 p)
  then show ?case by auto
next
  case (2 p c cs)
  show ?case
  proof (cases "strip_prefix p (c # cs)")
    case (Some x)
    with "2.prems"(1) show ?thesis by simp
  next
    case None
    with "2.prems"(1) obtain l1 where l1: "split_once p cs = Some (l1, r)" and l: "l = c # l1"
      by auto
    show ?thesis
    proof (cases l')
      case Nil
      with "2.prems"(3) have "strip_prefix p (c # cs) = Some r'" by simp
      with None show ?thesis by simp
    next
      case (Cons d l2)
      with "2.prems"(3) have "cs = l2 @ p @ r'" by simp
      from "2.IH" [OF None l1 "2.prems"(2) this] l Cons show ?thesis by simp
    qed
  qed
qed

lemma trim_start_Nil_iff: "trim_start s = [] \<longleftrightarrow> (\<forall>c \<in> set s. is_ws c)"
  by (simp add: trim_start_def dropWhile_eq_Nil_conv)

lemma trim_end_Nil_iff: "trim_end s = [] \<longleftrightarrow> (\<forall>c \<in> set s. is_ws c)"
  by (simp add: trim_end_def dropWhile_eq_Nil_conv)

lemma trim_end_last: "trim_end s \<noteq> [] \<Longrightarrow> \<not> is_ws (last (trim_end s))"
proof -
  assume "trim_end s \<noteq> []"
  then have "dropWhile is_ws (rev s) \<noteq> []" by (simp add: trim_end_def)
  then have "\<not> is_ws (hd (dropWhile is_ws (rev s)))" by (rule hd_dropWhile)
  then show ?thesis by (simp add: trim_end_def last_rev)
qed

lemma trim_start_hd: "trim_start s \<noteq> [] \<Longrightarrow> \<not> is_ws (hd (trim_start s))"
  unfolding trim_start_def by (rule hd_dropWhile)

lemma trim_end_prefix: "\<exists>w. s = trim_end s @ w \<and> (\<forall>c \<in> set w. is_ws c)"
proof -
  have "rev s = takeWhile is_ws (rev s) @ dropWhile is_ws (rev s)" by simp
  then have "s = trim_end s @ rev (takeWhile is_ws (rev s))"
    by (metis trim_end_def rev_append rev_rev_ident)
  then show ?thesis by (metis set_rev set_takeWhileD)
qed

lemma trim_start_suffix: "\<exists>w. s = w @ trim_start s \<and> (\<forall>c \<in> set w. is_ws c)"
  unfolding trim_start_def by (metis set_takeWhileD takeWhile_dropWhile_id)

lemma trim_Nil_iff: "trim s = [] \<longleftrightarrow> (\<forall>c \<in> set s. is_ws c)"
proof -
  obtain w where w: "s = w @ trim_start s" "\<forall>c \<in> set w. is_ws c"
    using trim_start_suffix by blast
  then have "set s = set w \<union> set (trim_start s)" by (metis set_append)
  with w(2) show ?thesis by (auto simp: trim_def trim_end_Nil_iff)
qed

lemma hd_trim: "trim s \<noteq> [] \<Longrightarrow> \<not> is_ws (hd (trim s))"
proof -
  assume ne: "trim s \<noteq> []"
  obtain w where w: "trim_start s = trim s @ w"
    using trim_end_prefix [of "trim_start s"] unfolding trim_def by blast
  with ne have "hd (trim_start s) = hd (trim s)" "trim_start s \<noteq> []" by auto
  then show ?thesis using trim_start_hd by metis
qed

lemma last_trim: "trim s \<noteq> [] \<Longrightarrow> \<not> is_ws (last (trim s))"
  unfolding trim_def by (rule trim_end_last)

lemma trim_decomp: "\<exists>v w. s = v @ trim s @ w"
  using trim_start_suffix [of s] trim_end_prefix [of "trim_start s"] unfolding trim_def by metis

lemma length_trim: "length (trim s) \<le> length s"
proof -
  obtain v w where "s = v @ trim s @ w" using trim_decomp by blast
  then have "length s = length v + length (trim s) + length w" by (metis add.assoc length_append)
  then show ?thesis by simp
qed

lemma dropWhile_id: "s = [] \<or> \<not> P (hd s) \<Longrightarrow> dropWhile P s = s"
  by (cases s) auto

text \<open>A text with no white space at its ends is its own trim.\<close>

lemma trim_id: "s = [] \<or> (\<not> is_ws (hd s) \<and> \<not> is_ws (last s)) \<Longrightarrow> trim s = s"
  unfolding trim_def trim_start_def trim_end_def
  by (metis dropWhile_id hd_rev rev_is_Nil_conv rev_rev_ident)

lemma trim_trim [simp]: "trim (trim s) = trim s"
  by (metis hd_trim last_trim trim_id)

lemma length_to_lower [simp]: "length (to_lower s) = length s"
  by (simp add: to_lower_def)

lemma to_lower_append [simp]: "to_lower (a @ b) = to_lower a @ to_lower b"
  by (simp add: to_lower_def)

lemma lower_char_not_upper: "\<not> (65 \<le> (of_char (lower_char c) :: nat) \<and> (of_char (lower_char c) :: nat) \<le> 90)"
  by (auto simp: lower_char_def of_char_of)

text \<open>No text contains an upper-case letter after \<open>to_lowercase\<close>.\<close>

lemma to_lower_no_upper: "c \<in> set (to_lower s) \<Longrightarrow> \<not> (65 \<le> (of_char c :: nat) \<and> (of_char c :: nat) \<le> 90)"
  unfolding to_lower_def using lower_char_not_upper by auto

section \<open>JSON values\<close>

datatype json =
    JNull
  | JBool bool
  | JInt int
  | JFloat "64 word"
  | JStr string
  | JArr "json list"
  | JObj "(string \<times> json) list"

text \<open>The byte order of the keys of a \<open>BTreeMap<String, Value>\<close>.\<close>

fun key_less :: "string \<Rightarrow> string \<Rightarrow> bool" where
  "key_less s [] = False"
| "key_less [] (c # cs) = True"
| "key_less (a # as) (c # cs) =
     ((of_char a :: nat) < of_char c \<or> (a = c \<and> key_less as cs))"

fun obj_insert :: "string \<Rightarrow> json \<Rightarrow> (string \<times> json) list \<Rightarrow> (string \<times> json) list" where
  "obj_insert k v [] = [(k, v)]"
| "obj_insert k v ((k', v') # m) =
     (if k = k' then (k, v) # m
      else if key_less k k' then (k, v) # (k', v') # m
      else (k', v') # obj_insert k v m)"

text \<open>The \<open>json!({ ... })\<close> macro on an object literal.\<close>

definition mk_obj :: "(string \<times> json) list \<Rightarrow> json" where
  "mk_obj kvs = JObj (fold (\<lambda>(k, v) m. obj_insert k v m) kvs [])"

fun jget :: "json \<Rightarrow> string \<Rightarrow> json option" where
  "jget (JObj m) k = map_of m k"
| "jget _ k = None"

fun as_str :: "json \<Rightarrow> string option" where
  "as_str (JStr s) = Some s"
| "as_str _ = None"

fun as_bool :: "json \<Rightarrow> bool option" where
  "as_bool (JBool b) = Some b"
| "as_bool _ = None"

fun as_array :: "json \<Rightarrow> json list option" where
  "as_array (JArr xs) = Some xs"
| "as_array _ = None"

fun as_object :: "json \<Rightarrow> (string \<times> json) list option" where
  "as_object (JObj m) = Some m"
| "as_object _ = None"

text \<open>\<open>v.get(k).and_then(|v| v.as_str())\<close>\<close>

definition jget_str :: "json \<Rightarrow> string \<Rightarrow> string option" where
  "jget_str v k = Option.bind (jget v k) as_str"

text \<open>The text of a JSON string literal as \<open>serde_json\<close> prints it.\<close>

definition hex_digit :: "nat \<Rightarrow> char" where
  "hex_digit n = (if n < 10 then char_of (48 + n) else char_of (87 + n))"

definition json_esc_char :: "char \<Rightarrow> string" where
  "json_esc_char c =
     (let n = (of_char c :: nat) in
      if n = 34 then [CHR 0x5C, CHR 0x22]
      else if n = 92 then [CHR 0x5C, CHR 0x5C]
      else if n = 8 then [CHR 0x5C, CHR ''b'']
      else if n = 9 then [CHR 0x5C, CHR ''t'']
      else if n = 10 then [CHR 0x5C, CHR ''n'']
      else if n = 12 then [CHR 0x5C, CHR ''f'']
      else if n = 13 then [CHR 0x5C, CHR ''r'']
      else if n < 32 then [CHR 0x5C, CHR ''u'', CHR ''0'', CHR ''0'', hex_digit (n div 16), hex_digit (n mod 16)]
      else [c])"

definition json_str_text :: "string \<Rightarrow> string" where
  "json_str_text s = [CHR 0x22] @ concat (map json_esc_char s) @ [CHR 0x22]"

lemma map_of_obj_insert [simp]: "map_of (obj_insert k v m) = (map_of m)(k \<mapsto> v)"
  by (induction k v m rule: obj_insert.induct) (auto simp: fun_eq_iff)

lemma map_of_fold_obj_insert:
  "map_of (fold (\<lambda>(k, v) m. obj_insert k v m) kvs m) = map_of m ++ map_of (rev kvs)"
proof (induction kvs arbitrary: m)
  case Nil
  then show ?case by simp
next
  case (Cons kv kvs)
  obtain k v where kv: "kv = (k, v)" by fastforce
  show ?case
    by (simp add: kv Cons.IH map_add_def fun_eq_iff split: option.split)
qed

lemma jget_mk_obj: "jget (mk_obj kvs) k = map_of (rev kvs) k"
  by (simp add: mk_obj_def map_of_fold_obj_insert)

lemma as_str_Some_iff [simp]: "as_str v = Some s \<longleftrightarrow> v = JStr s"
  by (cases v) auto

lemma as_object_Some_iff [simp]: "as_object v = Some m \<longleftrightarrow> v = JObj m"
  by (cases v) auto

end
