(* ===== verification/Atta_Types.thy ===== *)
theory Atta_Types
  imports Atta_Prelude
begin

text \<open>
  The domain types of \<open>crates/types/src\<close>: errors (\<open>error.rs\<close>), actors, roles and authorisation
  (\<open>auth.rs\<close>), tools (\<open>tool.rs\<close>), flows (\<open>flow.rs\<close>), approvals (\<open>approval.rs\<close>), tasks
  (\<open>task.rs\<close>), events (\<open>event.rs\<close>) and cron jobs (\<open>cron.rs\<close>), field by field. Record fields
  carry a short prefix where the source has the same field name in several structs. A \<open>Uuid\<close> is a
  128-bit word, a \<open>DateTime<Utc>\<close> the number of nanoseconds since the epoch.

  \<open>env\<close> holds what the program reads from outside: the successive clock readings, the fresh
  identifiers, the failures of the database driver and of the event bus, the textual forms of
  identifiers, dates and JSON values (crates \<open>uuid\<close>, \<open>chrono\<close> and \<open>serde_json\<close>), the meaning of a
  cron expression (crate \<open>cron\<close>: an error text, or the next instant after a given one, if any) and
  whether the driver enforces foreign keys (\<open>sqlx\<close> turns them on by default).
\<close>

type_synonym uuid = "128 word"
type_synonym timestamp = int
type_synonym u64 = "64 word"
type_synonym u32 = "32 word"

section \<open>Errors\<close>

datatype bus_error =
    PublishFailed string string
  | SubscribeFailed string string
  | ConnectionLost string

datatype store_error =
    StoreNotFound (entity_type: string) (entity_id: string)
  | Duplicate string string
  | Database string
  | Serialization string

datatype authz_error =
    AuthzPermissionDenied string string string
  | ActorNotFound string
  | PolicyError string

datatype audit_error =
    RecordFailed string
  | QueryFailed string

datatype runtime_error =
    ExecutionTimeout nat
  | ResourceExceeded string
  | CapacityExhausted

datatype agent_error =
    MaxIterations u32
  | ToolCallFailed string string
  | LlmFailed string
  | AgentTimeout nat

datatype llm_error =
    RequestFailed string
  | LlmRateLimited u64
  | ContextWindowExceeded nat nat
  | InvalidResponse string
  | AuthError string

datatype atta_error =
    Bus bus_error
  | Store store_error
  | Auth authz_error
  | Audit audit_error
  | Runtime runtime_error
  | Agent agent_error
  | Llm llm_error
  | FlowNotFound string
  | SkillNotFound string
  | ToolNotFound string
  | PermissionDenied string
  | SandboxViolation string
  | IntegrityCheckFailed
  | UntrustedPublisher
  | Validation string
  | NotFound string string
  | AlreadyExists string string
  | McpServerNotFound string
  | McpServerNotConnected string
  | SecretNotFound string
  | NoIdToken
  | NoAgentDefined string
  | ChannelError string
  | ChannelCapacityExhausted string
  | ParallelExecutionPartialFailure nat nat
  | NoAvailableNodes
  | NoSuitableNodes "string list"
  | DependencyMissing string string
  | RateLimited string
  | SecurityViolation string
  | EmergencyStopped string
  | ApprovalDenied string
  | ApprovalTimeout string nat
  | MissingVariable string
  | Conflict string string u64 u64
  | OtherError string

section \<open>Actors, roles and decisions\<close>

datatype actor_type = UserActor | AgentActor | ServiceActor | SystemActor

record actor =
  actor_type :: actor_type
  actor_id :: string

definition actor_system :: actor where
  "actor_system = \<lparr>actor_type = SystemActor, actor_id = ''system''\<rparr>"

definition actor_user :: "string \<Rightarrow> actor" where
  "actor_user i = \<lparr>actor_type = UserActor, actor_id = i\<rparr>"

datatype action = Create | Read | Update | Delete | Execute | Approve | Register | Manage

datatype resource_type =
    RTask | RFlow | RSkill | RTool | RNode | RSecret | RAuditLog | RApproval | RPackage | RMcp
  | RRemoteAgent | RChannel

record resource =
  res_type :: resource_type
  res_id :: "string option"

definition resource_new :: "resource_type \<Rightarrow> string \<Rightarrow> resource" where
  "resource_new rt i = \<lparr>res_type = rt, res_id = Some i\<rparr>"

definition resource_all :: "resource_type \<Rightarrow> resource" where
  "resource_all rt = \<lparr>res_type = rt, res_id = None\<rparr>"

datatype authz_decision = Allow | Deny string | RequireApproval string

datatype role = Owner | Admin | Operator | Developer | Approver | Viewer

section \<open>Tools\<close>

datatype tool_binding =
    McpBinding (server_name: string)
  | BuiltinBinding string
  | NativeBinding string

datatype risk_level = Low | Medium | High

text \<open>The risk levels in their order of severity.\<close>

instantiation risk_level :: linorder
begin

fun risk_rank :: "risk_level \<Rightarrow> nat" where
  "risk_rank Low = 0"
| "risk_rank Medium = 1"
| "risk_rank High = 2"

definition less_eq_risk_level :: "risk_level \<Rightarrow> risk_level \<Rightarrow> bool" where
  "less_eq_risk_level a b \<longleftrightarrow> risk_rank a \<le> risk_rank b"

definition less_risk_level :: "risk_level \<Rightarrow> risk_level \<Rightarrow> bool" where
  "less_risk_level a b \<longleftrightarrow> risk_rank a < risk_rank b"

instance
proof
  fix a b c :: risk_level
  show "a < b \<longleftrightarrow> a \<le> b \<and> \<not> b \<le> a"
    by (auto simp: less_eq_risk_level_def less_risk_level_def)
  show "a \<le> a"
    by (simp add: less_eq_risk_level_def)
  show "a \<le> b \<Longrightarrow> b \<le> c \<Longrightarrow> a \<le> c"
    by (simp add: less_eq_risk_level_def)
  show "a \<le> b \<Longrightarrow> b \<le> a \<Longrightarrow> a = b"
    by (cases a; cases b) (simp_all add: less_eq_risk_level_def)
  show "a \<le> b \<or> b \<le> a"
    by (auto simp: less_eq_risk_level_def)
qed

end

lemmas risk_order_simps = less_eq_risk_level_def less_risk_level_def

record tool_def =
  tool_name :: string
  tool_description :: string
  tool_binding :: tool_binding
  tool_risk :: risk_level
  tool_parameters :: json

record tool_schema =
  schema_name :: string
  schema_description :: string
  schema_parameters :: json

definition tool_schema_from :: "tool_def \<Rightarrow> tool_schema" where
  "tool_schema_from t =
     \<lparr>schema_name = tool_name t, schema_description = tool_description t,
      schema_parameters = tool_parameters t\<rparr>"

section \<open>Approvals\<close>

datatype approval_status = Pending | Approved | Denied | RequestChanges | Expired

record tool_info =
  ti_name :: string
  ti_description :: string
  ti_risk_level :: string

record approval_context =
  ac_summary :: string
  ac_diff_summary :: "string option"
  ac_test_results :: "string option"
  ac_risk_assessment :: string
  ac_pending_tools :: "tool_info list"

record approval_request =
  ap_id :: uuid
  ap_task_id :: uuid
  ap_requested_by :: actor
  ap_approver_role :: role
  ap_context :: approval_context
  ap_status :: approval_status
  ap_created_at :: timestamp
  ap_resolved_at :: "timestamp option"
  ap_resolved_by :: "actor option"
  ap_timeout :: nat
  ap_timeout_at :: timestamp

section \<open>Flows\<close>

datatype state_type = StartState | AgentState | GateState | ParallelState | EndState

datatype notify_channel =
    NotifyEmail string string
  | NotifyWebhook string
  | NotifyEventBus string

record gate_def =
  gate_approver_role :: string
  gate_timeout :: string
  gate_on_timeout :: string
  gate_notify :: "notify_channel list option"
  gate_context :: "string list option"

record transition_def =
  tr_to :: string
  tr_when :: "string option"
  tr_auto :: "bool option"

datatype on_enter_action =
    PublishEvent string
  | SetVariable string json
  | Log string

record branch_def =
  br_agent :: string
  br_skill :: string
  br_input_mapping :: "(string \<times> string) list option"

datatype join_strategy = JoinAll | FailFast

record state_def =
  sd_type :: state_type
  sd_agent :: "string option"
  sd_skill :: "string option"
  sd_gate :: "gate_def option"
  sd_on_enter :: "on_enter_action list option"
  sd_transitions :: "transition_def list"
  sd_branches :: "branch_def list option"
  sd_join_strategy :: "join_strategy option"
  sd_timeout_secs :: "u64 option"

record error_policy =
  ep_max_retries :: u32
  ep_retry_states :: "string list"
  ep_fallback :: string

text \<open>
  The states are a \<open>HashMap<String, StateDef>\<close>: an association list with distinct keys, in the
  order in which the map happens to be iterated.
\<close>

record flow_def =
  fd_id :: string
  fd_version :: string
  fd_name :: "string option"
  fd_description :: "string option"
  fd_initial_state :: string
  fd_states :: "(string \<times> state_def) list"
  fd_on_error :: "error_policy option"
  fd_skills :: "string list"
  fd_source :: string

record state_transition =
  st_from :: string
  st_to :: string
  st_reason :: string
  st_timestamp :: timestamp

record flow_state =
  fs_task_id :: uuid
  fs_current_state :: string
  fs_history :: "state_transition list"
  fs_pending_approval :: "approval_request option"
  fs_retry_count :: u32

definition flow_state_default :: flow_state where
  "flow_state_default =
     \<lparr>fs_task_id = 0, fs_current_state = [], fs_history = [], fs_pending_approval = None,
      fs_retry_count = 0\<rparr>"

datatype cond_expr =
    CNe string string
  | CIdent string
  | CEq string string
  | CAnd cond_expr cond_expr
  | COr cond_expr cond_expr
  | CNot cond_expr

section \<open>Tasks\<close>

datatype task_status = Running | WaitingApproval | Completed | Failed string | Cancelled

record task =
  t_id :: uuid
  t_flow_id :: string
  t_current_state :: string
  t_state_data :: json
  t_input :: json
  t_output :: "json option"
  t_status :: task_status
  t_created_by :: actor
  t_created_at :: timestamp
  t_updated_at :: timestamp
  t_completed_at :: "timestamp option"
  t_version :: u64

definition task_validate :: "task \<Rightarrow> atta_error + unit" where
  "task_validate t =
     (if trim (t_flow_id t) = [] then Inl (Validation ''task flow_id cannot be empty'') else Inr ())"

record task_filter =
  tf_status :: "task_status option"
  tf_flow_id :: "string option"
  tf_created_by :: "string option"
  tf_limit :: nat
  tf_offset :: nat

section \<open>Events\<close>

record entity_ref =
  er_type :: resource_type
  er_id :: string

record event_envelope =
  ev_event_id :: uuid
  ev_type :: string
  ev_occurred_at :: timestamp
  ev_actor :: actor
  ev_entity :: entity_ref
  ev_correlation_id :: uuid
  ev_payload :: json

section \<open>Cron jobs\<close>

datatype cron_run_status = CronRunning | CronCompleted | CronFailed

record cron_job =
  cj_id :: string
  cj_name :: string
  cj_schedule :: string
  cj_command :: string
  cj_config :: json
  cj_enabled :: bool
  cj_created_by :: string
  cj_created_at :: timestamp
  cj_updated_at :: timestamp
  cj_last_run_at :: "timestamp option"
  cj_next_run_at :: "timestamp option"

record cron_run =
  cr_id :: string
  cr_job_id :: string
  cr_status :: cron_run_status
  cr_started_at :: timestamp
  cr_completed_at :: "timestamp option"
  cr_output :: "string option"
  cr_error :: "string option"
  cr_triggered_by :: string

section \<open>What the program reads from outside\<close>

record env =
  clk :: "nat \<Rightarrow> timestamp"
  new_uuid :: "nat \<Rightarrow> uuid"
  db_err :: "nat \<Rightarrow> string option"
  bus_err :: "nat \<Rightarrow> atta_error option"
  uuid_show :: "uuid \<Rightarrow> string"
  uuid_parse :: "string \<Rightarrow> uuid option"
  ts_show :: "timestamp \<Rightarrow> string"
  ts_parse :: "string \<Rightarrow> timestamp option"
  json_show :: "json \<Rightarrow> string"
  sched :: "string \<Rightarrow> string + (timestamp \<Rightarrow> timestamp option)"
  fk_on :: bool

text \<open>
  What the code relies on of the crates \<open>uuid\<close> and \<open>chrono\<close>: a printed identifier or date reads
  back as itself.
\<close>

definition env_texts_ok :: "env \<Rightarrow> bool" where
  "env_texts_ok E \<longleftrightarrow>
     (\<forall>u. uuid_parse E (uuid_show E u) = Some u) \<and> (\<forall>t. ts_parse E (ts_show E t) = Some t)"

end
