(* ===== verification/Table.thy ===== *)
theory Table
  imports Atta_Prelude
begin

text \<open>
  Tables with a primary key, as the SQL statements of the store use them: a table is the list of
  its rows in the order of insertion, a row is found by its key, and a table holds a key once.
  The statements are \<open>INSERT\<close> (which fails on a key that is there), \<open>INSERT ... ON CONFLICT DO
  UPDATE\<close>, \<open>UPDATE ... WHERE key = ?\<close> and \<open>DELETE ... WHERE key = ?\<close>; the last two
  report how many rows they touched. The locale \<open>keyed_rows\<close> states what the store's operations rely
  on; it is interpreted on these very functions.
\<close>

type_synonym ('k, 'r) table = "('k \<times> 'r) list"

definition tbl_get :: "('k, 'r) table \<Rightarrow> 'k \<Rightarrow> 'r option" where
  "tbl_get t k = map_of t k"

definition tbl_insert :: "'k \<Rightarrow> 'r \<Rightarrow> ('k, 'r) table \<Rightarrow> ('k, 'r) table option" where
  "tbl_insert k r t = (if tbl_get t k = None then Some (t @ [(k, r)]) else None)"

definition tbl_update :: "'k \<Rightarrow> ('r \<Rightarrow> 'r) \<Rightarrow> ('k, 'r) table \<Rightarrow> ('k, 'r) table" where
  "tbl_update k f t = map (\<lambda>(k', r). (k', if k' = k then f r else r)) t"

text \<open>\<open>ON CONFLICT(key) DO UPDATE SET ...\<close>: \<open>f\<close> is the update of the row that is there.\<close>

definition tbl_upsert :: "'k \<Rightarrow> 'r \<Rightarrow> ('r \<Rightarrow> 'r) \<Rightarrow> ('k, 'r) table \<Rightarrow> ('k, 'r) table" where
  "tbl_upsert k r f t = (if tbl_get t k = None then t @ [(k, r)] else tbl_update k f t)"

definition tbl_delete :: "'k \<Rightarrow> ('k, 'r) table \<Rightarrow> ('k, 'r) table" where
  "tbl_delete k t = filter (\<lambda>(k', r). k' \<noteq> k) t"

definition tbl_affected :: "'k \<Rightarrow> ('k, 'r) table \<Rightarrow> nat" where
  "tbl_affected k t = length (filter (\<lambda>(k', r). k' = k) t)"

definition tbl_ok :: "('k, 'r) table \<Rightarrow> bool" where
  "tbl_ok t \<longleftrightarrow> distinct (map fst t)"

section \<open>Rows after a statement\<close>

lemma tbl_get_Nil [simp]: "tbl_get [] k = None"
  by (simp add: tbl_get_def)

lemma tbl_get_snoc: "tbl_get (t @ [(k, r)]) j = (case tbl_get t j of Some x \<Rightarrow> Some x | None \<Rightarrow> if j = k then Some r else None)"
  by (simp add: tbl_get_def map_add_def split: option.split)

lemma tbl_get_update:
  "tbl_get (tbl_update k f t) j = (if j = k then map_option f (tbl_get t k) else tbl_get t j)"
  by (induction t) (auto simp: tbl_get_def tbl_update_def)

lemma tbl_get_insert:
  "tbl_insert k r t = Some t' \<Longrightarrow> tbl_get t' j = (if j = k then Some r else tbl_get t j)"
  by (auto simp: tbl_insert_def tbl_get_snoc split: if_splits option.splits)

lemma tbl_get_upsert:
  "tbl_get (tbl_upsert k r f t) j =
     (if j = k then Some (case tbl_get t k of None \<Rightarrow> r | Some x \<Rightarrow> f x) else tbl_get t j)"
  by (auto simp: tbl_upsert_def tbl_get_snoc tbl_get_update split: option.splits)

lemma tbl_get_delete: "tbl_get (tbl_delete k t) j = (if j = k then None else tbl_get t j)"
  by (induction t) (auto simp: tbl_get_def tbl_delete_def)

lemma tbl_get_None_iff: "tbl_get t k = None \<longleftrightarrow> k \<notin> set (map fst t)"
  unfolding tbl_get_def by (simp add: map_of_eq_None_iff)

lemma tbl_get_mem: "tbl_ok t \<Longrightarrow> tbl_get t k = Some r \<longleftrightarrow> (k, r) \<in> set t"
  unfolding tbl_get_def tbl_ok_def by (rule map_of_eq_Some_iff)

lemma tbl_affected_zero: "tbl_affected k t = 0 \<longleftrightarrow> tbl_get t k = None"
  by (induction t) (auto simp: tbl_affected_def tbl_get_def)

lemma tbl_insert_None: "tbl_insert k r t = None \<longleftrightarrow> tbl_get t k \<noteq> None"
  by (simp add: tbl_insert_def)

section \<open>The key stays a key\<close>

lemma fst_tbl_update [simp]: "map fst (tbl_update k f t) = map fst t"
  by (induction t) (auto simp: tbl_update_def)

lemma tbl_ok_Nil [simp]: "tbl_ok []"
  by (simp add: tbl_ok_def)

lemma tbl_ok_update [simp]: "tbl_ok (tbl_update k f t) = tbl_ok t"
  by (simp add: tbl_ok_def)

lemma tbl_ok_insert: "tbl_insert k r t = Some t' \<Longrightarrow> tbl_ok t \<Longrightarrow> tbl_ok t'"
  by (auto simp: tbl_insert_def tbl_ok_def tbl_get_None_iff split: if_splits)

lemma tbl_ok_filter: "tbl_ok t \<Longrightarrow> tbl_ok (filter P t)"
  by (simp add: tbl_ok_def distinct_map_filter)

lemma tbl_ok_upsert: "tbl_ok t \<Longrightarrow> tbl_ok (tbl_upsert k r f t)"
  by (auto simp: tbl_upsert_def tbl_ok_def tbl_get_None_iff)

lemma tbl_ok_delete: "tbl_ok t \<Longrightarrow> tbl_ok (tbl_delete k t)"
  unfolding tbl_ok_def tbl_delete_def by (induction t) auto

section \<open>The interface\<close>

text \<open>
  What a client of one table sees: a lookup, a write under a key that keeps every other key, a
  removal, and an invariant that they all keep. Two writes under different keys commute as far as
  lookups can tell, and a write after a removal is a plain write.
\<close>

locale keyed_rows =
  fixes lookup :: "'t \<Rightarrow> 'k \<Rightarrow> 'r option"
    and put :: "'k \<Rightarrow> 'r \<Rightarrow> 't \<Rightarrow> 't"
    and remove :: "'k \<Rightarrow> 't \<Rightarrow> 't"
    and rows_ok :: "'t \<Rightarrow> bool"
  assumes lookup_put: "rows_ok t \<Longrightarrow> lookup (put k r t) j = (if j = k then Some r else lookup t j)"
    and lookup_remove: "rows_ok t \<Longrightarrow> lookup (remove k t) j = (if j = k then None else lookup t j)"
    and rows_ok_put: "rows_ok t \<Longrightarrow> rows_ok (put k r t)"
    and rows_ok_remove: "rows_ok t \<Longrightarrow> rows_ok (remove k t)"
begin

lemma put_put: "rows_ok t \<Longrightarrow> lookup (put k r (put k r' t)) = lookup (put k r t)"
  by (rule ext) (simp add: lookup_put rows_ok_put)

lemma put_commute:
  "rows_ok t \<Longrightarrow> k \<noteq> k' \<Longrightarrow> lookup (put k r (put k' r' t)) = lookup (put k' r' (put k r t))"
  by (rule ext) (simp add: lookup_put rows_ok_put)

lemma put_remove: "rows_ok t \<Longrightarrow> lookup (put k r (remove k t)) = lookup (put k r t)"
  by (rule ext) (simp add: lookup_put lookup_remove rows_ok_remove)

lemma remove_absent: "rows_ok t \<Longrightarrow> lookup t k = None \<Longrightarrow> lookup (remove k t) = lookup t"
  by (rule ext) (simp add: lookup_remove)

text \<open>A sequence of writes and removals: only the last statement about a key matters.\<close>

fun run :: "('k \<times> 'r option) list \<Rightarrow> 't \<Rightarrow> 't" where
  "run [] t = t"
| "run ((k, Some r) # ss) t = run ss (put k r t)"
| "run ((k, None) # ss) t = run ss (remove k t)"

lemma rows_ok_run: "rows_ok t \<Longrightarrow> rows_ok (run ss t)"
  by (induction ss t rule: run.induct) (simp_all add: rows_ok_put rows_ok_remove)

lemma lookup_run:
  "rows_ok t \<Longrightarrow>
   lookup (run ss t) k = (case map_of (rev ss) k of None \<Rightarrow> lookup t k | Some v \<Rightarrow> v)"
  by (induction ss t rule: run.induct)
    (auto simp: lookup_put lookup_remove rows_ok_put rows_ok_remove map_add_def
          split: option.split)

end

interpretation tbl: keyed_rows tbl_get "\<lambda>k r. tbl_upsert k r (\<lambda>_. r)" tbl_delete tbl_ok
  by unfold_locales
    (auto simp: tbl_get_upsert tbl_get_delete tbl_ok_upsert tbl_ok_delete split: option.split)

lemmas tbl_gets = tbl_get_update tbl_get_upsert tbl_get_delete tbl_get_snoc

end
