(* ===== verification/Store_Core.thy ===== *)
theory Store_Core
  imports Atta_Types Table "HOL-Library.List_Lexorder"
begin

text \<open>
  The desktop state store (\<open>crates/store/src/sqlite.rs\<close>): the tables behind tasks, flow states, flow
  definitions and approvals, and the operations of \<open>TaskStore\<close>, \<open>FlowStore\<close> and
  \<open>ApprovalStore\<close>. A row holds the typed value of each column; the JSON text columns are
  kept as the value they parse to. An operation maps the database to its result and the
  database after it; what it writes in a transaction it writes at once or not at all. The
  instant \<open>now\<close> that an operation reads from the clock is an argument. The failures of the
  driver are added in \<open>World\<close>.
\<close>

section \<open>Rows\<close>

text \<open>The order of texts, for \<open>ORDER BY\<close> and comparisons of a text column: that of their bytes.\<close>

definition text_order :: "string \<Rightarrow> nat list" where
  "text_order s = map of_char s"

record task_row =
  rw_flow_id :: string
  rw_current_state :: string
  rw_status :: string
  rw_error_message :: "string option"
  rw_state_data :: json
  rw_input :: json
  rw_output :: "json option"
  rw_created_by :: actor
  rw_created_at :: timestamp
  rw_updated_at :: timestamp
  rw_completed_at :: "timestamp option"
  rw_version :: u64

record flow_state_row =
  fr_current_state :: string
  fr_history :: "state_transition list"
  fr_retry_count :: u32
  fr_updated_at :: timestamp

record flow_def_row =
  dr_version :: string
  dr_name :: "string option"
  dr_description :: "string option"
  dr_definition :: flow_def
  dr_created_at :: timestamp
  dr_updated_at :: timestamp

record approval_row =
  ar_task_id :: uuid
  ar_requested_by :: actor
  ar_approver_role :: role
  ar_status :: approval_status
  ar_context :: approval_context
  ar_resolved_by :: "actor option"
  ar_resolved_at :: "timestamp option"
  ar_comment :: "string option"
  ar_timeout_at :: timestamp
  ar_created_at :: timestamp

record db =
  db_tasks :: "(uuid, task_row) table"
  db_flow_states :: "(uuid, flow_state_row) table"
  db_flow_defs :: "(string, flow_def_row) table"
  db_approvals :: "(uuid, approval_row) table"
  db_roles :: "(string \<times> role) list"
  db_cron_jobs :: "(string, cron_job) table"
  db_cron_runs :: "(string, cron_run) table"

definition db_empty :: db where
  "db_empty =
     \<lparr>db_tasks = [], db_flow_states = [], db_flow_defs = [], db_approvals = [], db_roles = [],
      db_cron_jobs = [], db_cron_runs = []\<rparr>"

section \<open>The status column\<close>

fun task_status_to_db :: "task_status \<Rightarrow> string \<times> string option" where
  "task_status_to_db Running = (''running'', None)"
| "task_status_to_db WaitingApproval = (''waiting_approval'', None)"
| "task_status_to_db Completed = (''completed'', None)"
| "task_status_to_db (Failed e) = (''failed'', Some e)"
| "task_status_to_db Cancelled = (''cancelled'', None)"

definition task_status_from_db :: "string \<Rightarrow> string option \<Rightarrow> task_status" where
  "task_status_from_db s err =
     (if s = ''running'' then Running
      else if s = ''waiting_approval'' then WaitingApproval
      else if s = ''completed'' then Completed
      else if s = ''failed'' then Failed (case err of None \<Rightarrow> [] | Some e \<Rightarrow> e)
      else if s = ''cancelled'' then Cancelled
      else Failed (''unknown status: '' @ s))"

text \<open>What is written into the two columns reads back as the status.\<close>

lemma task_status_db_roundtrip:
  "task_status_from_db (fst (task_status_to_db st)) (snd (task_status_to_db st)) = st"
  by (cases st) (simp_all add: task_status_from_db_def)

lemma task_status_to_db_inj: "task_status_to_db a = task_status_to_db b \<Longrightarrow> a = b"
  by (metis task_status_db_roundtrip)

section \<open>Tasks\<close>

definition task_from_row :: "uuid \<Rightarrow> task_row \<Rightarrow> task" where
  "task_from_row i r =
     \<lparr>t_id = i, t_flow_id = rw_flow_id r, t_current_state = rw_current_state r,
      t_state_data = rw_state_data r, t_input = rw_input r, t_output = rw_output r,
      t_status = task_status_from_db (rw_status r) (rw_error_message r),
      t_created_by = rw_created_by r, t_created_at = rw_created_at r,
      t_updated_at = rw_updated_at r, t_completed_at = rw_completed_at r,
      t_version = rw_version r\<rparr>"

definition task_row_of :: "task \<Rightarrow> u64 \<Rightarrow> task_row" where
  "task_row_of t v =
     \<lparr>rw_flow_id = t_flow_id t, rw_current_state = t_current_state t,
      rw_status = fst (task_status_to_db (t_status t)),
      rw_error_message = snd (task_status_to_db (t_status t)),
      rw_state_data = t_state_data t, rw_input = t_input t, rw_output = t_output t,
      rw_created_by = t_created_by t, rw_created_at = t_created_at t,
      rw_updated_at = t_updated_at t, rw_completed_at = t_completed_at t, rw_version = v\<rparr>"

text \<open>What the driver reports when an \<open>INSERT\<close> meets a key that is there.\<close>

definition unique_failed :: "string \<Rightarrow> string \<Rightarrow> atta_error" where
  "unique_failed op col = Store (Database (op @ '': UNIQUE constraint failed: '' @ col))"

definition create_task :: "task \<Rightarrow> db \<Rightarrow> (atta_error + unit) \<times> db" where
  "create_task t d =
     (case tbl_insert (t_id t) (task_row_of t (t_version t)) (db_tasks d) of
        None \<Rightarrow> (Inl (unique_failed ''insert task'' ''tasks.id''), d)
      | Some ts \<Rightarrow> (Inr (), d\<lparr>db_tasks := ts\<rparr>))"

definition get_task :: "uuid \<Rightarrow> db \<Rightarrow> (atta_error + task option) \<times> db" where
  "get_task i d = (Inr (map_option (task_from_row i) (tbl_get (db_tasks d) i)), d)"

definition update_task_status ::
  "'z env_scheme \<Rightarrow> uuid \<Rightarrow> task_status \<Rightarrow> timestamp \<Rightarrow> db \<Rightarrow> (atta_error + unit) \<times> db" where
  "update_task_status E i st now d =
     (let (status_str, error_msg) = task_status_to_db st;
          completed = (if st = Completed then Some now else None);
          ts = tbl_update i (\<lambda>r. r\<lparr>rw_status := status_str, rw_error_message := error_msg,
                                   rw_updated_at := now, rw_completed_at := completed\<rparr>) (db_tasks d)
      in if tbl_affected i (db_tasks d) = 0
         then (Inl (Store (StoreNotFound ''task'' (uuid_show E i))), d)
         else (Inr (), d\<lparr>db_tasks := ts\<rparr>))"

text \<open>
  \<open>merge_task_state_data\<close>: the keys of \<open>data\<close> replace those of the stored object, one level deep.
  When either value is no object the column is written back unchanged.
\<close>

definition shallow_merge :: "json \<Rightarrow> json \<Rightarrow> json" where
  "shallow_merge cur data =
     (case (as_object cur, as_object data) of
        (Some m, Some p) \<Rightarrow> JObj (fold (\<lambda>(k, v) m. obj_insert k v m) p m)
      | _ \<Rightarrow> cur)"

definition merge_task_state_data ::
  "'z env_scheme \<Rightarrow> uuid \<Rightarrow> json \<Rightarrow> timestamp \<Rightarrow> db \<Rightarrow> (atta_error + unit) \<times> db" where
  "merge_task_state_data E i data now d =
     (case tbl_get (db_tasks d) i of
        None \<Rightarrow> (Inl (Store (StoreNotFound ''task'' (uuid_show E i))), d)
      | Some r0 \<Rightarrow>
          (Inr (), d\<lparr>db_tasks := tbl_update i
             (\<lambda>r. r\<lparr>rw_state_data := shallow_merge (rw_state_data r0) data, rw_updated_at := now\<rparr>)
             (db_tasks d)\<rparr>))"

section \<open>Flow definitions and flow states\<close>

definition save_flow_def :: "flow_def \<Rightarrow> timestamp \<Rightarrow> db \<Rightarrow> (atta_error + unit) \<times> db" where
  "save_flow_def f now d =
     (Inr (), d\<lparr>db_flow_defs := tbl_upsert (fd_id f)
        \<lparr>dr_version = fd_version f, dr_name = fd_name f, dr_description = fd_description f,
         dr_definition = f, dr_created_at = now, dr_updated_at = now\<rparr>
        (\<lambda>r. r\<lparr>dr_version := fd_version f, dr_name := fd_name f,
               dr_description := fd_description f, dr_definition := f, dr_updated_at := now\<rparr>)
        (db_flow_defs d)\<rparr>)"

definition store_get_flow_def :: "string \<Rightarrow> db \<Rightarrow> (atta_error + flow_def option) \<times> db" where
  "store_get_flow_def i d = (Inr (map_option dr_definition (tbl_get (db_flow_defs d) i)), d)"

definition store_list_flow_defs :: "db \<Rightarrow> (atta_error + flow_def list) \<times> db" where
  "store_list_flow_defs d =
     (Inr (map (dr_definition \<circ> snd) (sort_key (\<lambda>(k, r). map (of_char :: char \<Rightarrow> nat) k) (db_flow_defs d))), d)"

definition delete_flow_def :: "string \<Rightarrow> db \<Rightarrow> (atta_error + unit) \<times> db" where
  "delete_flow_def i d =
     (if tbl_affected i (db_flow_defs d) = 0
      then (Inl (Store (StoreNotFound ''flow_def'' i)), d)
      else (Inr (), d\<lparr>db_flow_defs := tbl_delete i (db_flow_defs d)\<rparr>))"

definition save_flow_state :: "uuid \<Rightarrow> flow_state \<Rightarrow> timestamp \<Rightarrow> db \<Rightarrow> (atta_error + unit) \<times> db" where
  "save_flow_state i s now d =
     (Inr (), d\<lparr>db_flow_states := tbl_upsert i
        \<lparr>fr_current_state = fs_current_state s, fr_history = fs_history s,
         fr_retry_count = fs_retry_count s, fr_updated_at = now\<rparr>
        (\<lambda>r. r\<lparr>fr_current_state := fs_current_state s, fr_history := fs_history s,
               fr_retry_count := fs_retry_count s, fr_updated_at := now\<rparr>)
        (db_flow_states d)\<rparr>)"

text \<open>The table has no column for the pending approval: it reads back as \<open>None\<close>.\<close>

definition get_flow_state :: "uuid \<Rightarrow> db \<Rightarrow> (atta_error + flow_state option) \<times> db" where
  "get_flow_state i d =
     (Inr (map_option (\<lambda>r. \<lparr>fs_task_id = i, fs_current_state = fr_current_state r,
                            fs_history = fr_history r, fs_pending_approval = None,
                            fs_retry_count = fr_retry_count r\<rparr>)
             (tbl_get (db_flow_states d) i)), d)"

text \<open>
  \<open>create_task_with_flow\<close>: both rows in one transaction, after the check that the flow is known.
  The task starts at version 0 whatever the argument says.
\<close>

definition create_task_with_flow ::
  "task \<Rightarrow> flow_state \<Rightarrow> timestamp \<Rightarrow> db \<Rightarrow> (atta_error + unit) \<times> db" where
  "create_task_with_flow t s now d =
     (if tbl_get (db_flow_defs d) (t_flow_id t) = None then (Inl (FlowNotFound (t_flow_id t)), d)
      else
        case tbl_insert (t_id t) (task_row_of t 0) (db_tasks d) of
          None \<Rightarrow> (Inl (unique_failed ''insert task in tx'' ''tasks.id''), d)
        | Some ts \<Rightarrow>
            (case tbl_insert (t_id t)
                    \<lparr>fr_current_state = fs_current_state s, fr_history = fs_history s,
                     fr_retry_count = fs_retry_count s, fr_updated_at = now\<rparr> (db_flow_states d) of
               None \<Rightarrow> (Inl (unique_failed ''insert flow state in tx'' ''flow_states.task_id''), d)
             | Some fs \<Rightarrow> (Inr (), d\<lparr>db_tasks := ts, db_flow_states := fs\<rparr>)))"

text \<open>
  \<open>advance_task\<close>: the row is written only where it still has the expected version (an optimistic
  lock), and the transition joins the history; without a flow state the transaction rolls back.
\<close>

definition advance_task ::
  "'z env_scheme \<Rightarrow> uuid \<Rightarrow> task_status \<Rightarrow> string \<Rightarrow> state_transition \<Rightarrow> u64 \<Rightarrow> timestamp \<Rightarrow> db \<Rightarrow>
   (atta_error + unit) \<times> db" where
  "advance_task E i new_status new_state transition expected now d =
     (let (status_str, error_msg) = task_status_to_db new_status in
      case tbl_get (db_tasks d) i of
        None \<Rightarrow> (Inl (Conflict ''task'' (uuid_show E i) expected expected), d)
      | Some r0 \<Rightarrow>
          if rw_version r0 \<noteq> expected
          then (Inl (Conflict ''task'' (uuid_show E i) expected (rw_version r0)), d)
          else
            case tbl_get (db_flow_states d) i of
              None \<Rightarrow> (Inl (Store (StoreNotFound ''flow_state'' (uuid_show E i))), d)
            | Some f0 \<Rightarrow>
                (Inr (),
                 d\<lparr>db_tasks := tbl_update i
                     (\<lambda>r. r\<lparr>rw_status := status_str, rw_error_message := error_msg,
                            rw_current_state := new_state, rw_updated_at := now,
                            rw_version := expected + 1\<rparr>) (db_tasks d),
                   db_flow_states := tbl_upsert i
                     \<lparr>fr_current_state = new_state, fr_history = fr_history f0 @ [transition],
                      fr_retry_count = fr_retry_count f0, fr_updated_at = now\<rparr>
                     (\<lambda>r. r\<lparr>fr_current_state := new_state,
                            fr_history := fr_history f0 @ [transition], fr_updated_at := now\<rparr>)
                     (db_flow_states d)\<rparr>))"

section \<open>Approvals\<close>

definition approval_from_row :: "uuid \<Rightarrow> approval_row \<Rightarrow> approval_request" where
  "approval_from_row i r =
     \<lparr>ap_id = i, ap_task_id = ar_task_id r, ap_requested_by = ar_requested_by r,
      ap_approver_role = ar_approver_role r, ap_context = ar_context r, ap_status = ar_status r,
      ap_created_at = ar_created_at r, ap_resolved_at = ar_resolved_at r,
      ap_resolved_by = ar_resolved_by r,
      ap_timeout = nat (ar_timeout_at r - ar_created_at r), ap_timeout_at = ar_timeout_at r\<rparr>"

definition save_approval :: "approval_request \<Rightarrow> db \<Rightarrow> (atta_error + unit) \<times> db" where
  "save_approval a d =
     (Inr (), d\<lparr>db_approvals := tbl_upsert (ap_id a)
        \<lparr>ar_task_id = ap_task_id a, ar_requested_by = ap_requested_by a,
         ar_approver_role = ap_approver_role a, ar_status = ap_status a, ar_context = ap_context a,
         ar_resolved_by = ap_resolved_by a, ar_resolved_at = ap_resolved_at a, ar_comment = None,
         ar_timeout_at = ap_timeout_at a, ar_created_at = ap_created_at a\<rparr>
        (\<lambda>r. r\<lparr>ar_status := ap_status a, ar_resolved_by := ap_resolved_by a,
               ar_resolved_at := ap_resolved_at a\<rparr>) (db_approvals d)\<rparr>)"

definition get_approval :: "uuid \<Rightarrow> db \<Rightarrow> (atta_error + approval_request option) \<times> db" where
  "get_approval i d = (Inr (map_option (approval_from_row i) (tbl_get (db_approvals d) i)), d)"

definition update_approval_status ::
  "'z env_scheme \<Rightarrow> uuid \<Rightarrow> approval_status \<Rightarrow> actor \<Rightarrow> string option \<Rightarrow> timestamp \<Rightarrow> db \<Rightarrow>
   (atta_error + unit) \<times> db" where
  "update_approval_status E i st by_actor comment now d =
     (if tbl_affected i (db_approvals d) = 0
      then (Inl (Store (StoreNotFound ''approval'' (uuid_show E i))), d)
      else (Inr (), d\<lparr>db_approvals := tbl_update i
             (\<lambda>r. r\<lparr>ar_status := st, ar_resolved_by := Some by_actor, ar_resolved_at := Some now,
                    ar_comment := comment\<rparr>) (db_approvals d)\<rparr>))"

section \<open>Roles\<close>

definition get_roles_for_actor :: "string \<Rightarrow> db \<Rightarrow> (atta_error + role list) \<times> db" where
  "get_roles_for_actor a d = (Inr (map snd (filter (\<lambda>(b, r). b = a) (db_roles d))), d)"

definition bind_role :: "string \<Rightarrow> role \<Rightarrow> db \<Rightarrow> (atta_error + unit) \<times> db" where
  "bind_role a r d =
     (Inr (), if (a, r) \<in> set (db_roles d) then d else d\<lparr>db_roles := db_roles d @ [(a, r)]\<rparr>)"

definition unbind_role :: "string \<Rightarrow> role \<Rightarrow> db \<Rightarrow> (atta_error + unit) \<times> db" where
  "unbind_role a r d = (Inr (), d\<lparr>db_roles := filter (\<lambda>x. x \<noteq> (a, r)) (db_roles d)\<rparr>)"

section \<open>Cron jobs and their runs\<close>

text \<open>
  \<open>INSERT OR REPLACE\<close> first deletes the row that is there. For a job that deletion cascades to its runs
  (\<open>REFERENCES cron_jobs(id) ON DELETE CASCADE\<close>) where the driver enforces foreign keys; there a run also
  needs its job.
\<close>

definition delete_job_cascade :: "'z env_scheme \<Rightarrow> string \<Rightarrow> db \<Rightarrow> db" where
  "delete_job_cascade E i d =
     d\<lparr>db_cron_jobs := tbl_delete i (db_cron_jobs d),
       db_cron_runs := (if fk_on E \<and> tbl_get (db_cron_jobs d) i \<noteq> None
                        then filter (\<lambda>(_, r). cr_job_id r \<noteq> i) (db_cron_runs d) else db_cron_runs d)\<rparr>"

definition save_cron_job :: "'z env_scheme \<Rightarrow> cron_job \<Rightarrow> db \<Rightarrow> (atta_error + unit) \<times> db" where
  "save_cron_job E j d =
     (let d1 = delete_job_cascade E (cj_id j) d
      in (Inr (), d1\<lparr>db_cron_jobs := db_cron_jobs d1 @ [(cj_id j, j)]\<rparr>))"

definition get_cron_job :: "string \<Rightarrow> db \<Rightarrow> (atta_error + cron_job option) \<times> db" where
  "get_cron_job i d = (Inr (tbl_get (db_cron_jobs d) i), d)"

definition list_cron_jobs :: "string option \<Rightarrow> db \<Rightarrow> (atta_error + cron_job list) \<times> db" where
  "list_cron_jobs status d =
     (let keep = (\<lambda>j. if status = Some ''active'' then cj_enabled j
                      else if status = Some ''paused'' then \<not> cj_enabled j else True)
      in (Inr (sort_key (\<lambda>j. - cj_created_at j) (filter keep (map snd (db_cron_jobs d)))), d))"

definition delete_cron_job :: "'z env_scheme \<Rightarrow> string \<Rightarrow> db \<Rightarrow> (atta_error + unit) \<times> db" where
  "delete_cron_job E i d = (Inr (), delete_job_cascade E i d)"

definition save_cron_run :: "'z env_scheme \<Rightarrow> cron_run \<Rightarrow> db \<Rightarrow> (atta_error + unit) \<times> db" where
  "save_cron_run E r d =
     (if fk_on E \<and> tbl_get (db_cron_jobs d) (cr_job_id r) = None
      then (Inl (Store (Database ''save cron run: FOREIGN KEY constraint failed'')), d)
      else (Inr (), d\<lparr>db_cron_runs := tbl_delete (cr_id r) (db_cron_runs d) @ [(cr_id r, r)]\<rparr>))"

definition list_cron_runs :: "string \<Rightarrow> nat \<Rightarrow> db \<Rightarrow> (atta_error + cron_run list) \<times> db" where
  "list_cron_runs i limit d =
     (Inr (take limit (sort_key (\<lambda>r. - cr_started_at r) (filter (\<lambda>r. cr_job_id r = i) (map snd (db_cron_runs d))))), d)"

section \<open>Listing tasks and approvals\<close>

text \<open>\<open>str::replace(c, r)\<close> for a one-character pattern.\<close>

definition replace_char :: "char \<Rightarrow> string \<Rightarrow> string \<Rightarrow> string" where
  "replace_char c r s = concat (map (\<lambda>x. if x = c then r else [x]) s)"

definition backslash :: char where
  "backslash = CHR 0x5C"

definition like_escape :: "string \<Rightarrow> string" where
  "like_escape s =
     replace_char (CHR ''_'') [backslash, CHR ''_'']
       (replace_char (CHR ''%'') [backslash, CHR ''%'']
         (replace_char backslash [backslash, backslash] s))"

text \<open>
  SQLite's \<open>text LIKE pattern ESCAPE '\'\<close>: \<open>%\<close> stands for any text, \<open>_\<close> for one character, the
  escape character takes the next one literally, and letters match in either case.
\<close>

fun like :: "string \<Rightarrow> string \<Rightarrow> bool" where
  "like [] t = (t = [])"
| "like (p # ps) t =
     (if p = CHR ''%'' then (like ps t \<or> (case t of [] \<Rightarrow> False | _ # t' \<Rightarrow> like (p # ps) t'))
      else if p = backslash \<and> ps \<noteq> []
      then (case (t, ps) of (c # t', q # qs) \<Rightarrow> lower_char c = lower_char q \<and> like qs t' | _ \<Rightarrow> False)
      else (case t of
              [] \<Rightarrow> False
            | c # t' \<Rightarrow> (p = CHR ''_'' \<or> lower_char c = lower_char p) \<and> like ps t'))"

text \<open>\<open>serde_json::to_string(&actor)\<close>, the text of the column \<open>created_by\<close>.\<close>

fun actor_type_text :: "actor_type \<Rightarrow> string" where
  "actor_type_text UserActor = ''user''"
| "actor_type_text AgentActor = ''agent''"
| "actor_type_text ServiceActor = ''service''"
| "actor_type_text SystemActor = ''system''"

definition actor_json_text :: "actor \<Rightarrow> string" where
  "actor_json_text a =
     ''{\"actor_type\":'' @ json_str_text (actor_type_text (actor_type a)) @
     '',\"id\":'' @ json_str_text (actor_id a) @ ''}''"

definition max_query_limit :: nat where
  "max_query_limit = 1000"

definition task_matches :: "task_filter \<Rightarrow> task_row \<Rightarrow> bool" where
  "task_matches f r \<longleftrightarrow>
     (case tf_status f of None \<Rightarrow> True | Some st \<Rightarrow> rw_status r = fst (task_status_to_db st)) \<and>
     (case tf_flow_id f of None \<Rightarrow> True | Some i \<Rightarrow> rw_flow_id r = i) \<and>
     (case tf_created_by f of
        None \<Rightarrow> True
      | Some who \<Rightarrow> like (''%'' @ like_escape who @ ''%'') (actor_json_text (rw_created_by r)))"

definition list_tasks :: "task_filter \<Rightarrow> db \<Rightarrow> (atta_error + task list) \<times> db" where
  "list_tasks f d =
     (let limit = min max_query_limit (max 1 (tf_limit f));
          rows = sort_key (\<lambda>(_, r). - rw_created_at r)
                   (filter (\<lambda>(_, r). task_matches f r) (db_tasks d))
      in (Inr (map (\<lambda>(i, r). task_from_row i r) (take limit (drop (tf_offset f) rows))), d))"

fun role_text :: "role \<Rightarrow> string" where
  "role_text Owner = ''owner''"
| "role_text Admin = ''admin''"
| "role_text Operator = ''operator''"
| "role_text Developer = ''developer''"
| "role_text Approver = ''approver''"
| "role_text Viewer = ''viewer''"

record approval_filter =
  af_status :: "approval_status option"
  af_approver_role :: "string option"
  af_task_id :: "uuid option"
  af_limit :: nat
  af_offset :: nat

definition approval_matches :: "approval_filter \<Rightarrow> approval_row \<Rightarrow> bool" where
  "approval_matches f r \<longleftrightarrow>
     (case af_status f of None \<Rightarrow> True | Some st \<Rightarrow> ar_status r = st) \<and>
     (case af_approver_role f of None \<Rightarrow> True | Some x \<Rightarrow> role_text (ar_approver_role r) = x) \<and>
     (case af_task_id f of None \<Rightarrow> True | Some i \<Rightarrow> ar_task_id r = i)"

definition list_approvals :: "approval_filter \<Rightarrow> db \<Rightarrow> (atta_error + approval_request list) \<times> db" where
  "list_approvals f d =
     (let rows = sort_key (\<lambda>(_, r). - ar_created_at r)
                   (filter (\<lambda>(_, r). approval_matches f r) (db_approvals d))
      in (Inr (map (\<lambda>(i, r). approval_from_row i r) (take (af_limit f) (drop (af_offset f) rows))), d))"

section \<open>Facts about the operations\<close>

subsection \<open>The listing filter\<close>

definition like_esc_char :: "char \<Rightarrow> string" where
  "like_esc_char c =
     (if c = backslash \<or> c = CHR ''%'' \<or> c = CHR ''_'' then [backslash, c] else [c])"

lemma like_escape_conv: "like_escape s = concat (map like_esc_char s)"
  by (induction s) (auto simp: like_escape_def replace_char_def like_esc_char_def backslash_def)

lemma like_percent: "like (CHR ''%'' # ps) t \<longleftrightarrow> (\<exists>u v. t = u @ v \<and> like ps v)"
proof (induction t)
  case Nil
  show ?case by simp
next
  case (Cons c t)
  show ?case
  proof
    assume "like (CHR ''%'' # ps) (c # t)"
    then have "like ps (c # t) \<or> like (CHR ''%'' # ps) t" by simp
    then show "\<exists>u v. c # t = u @ v \<and> like ps v"
      using Cons.IH by (metis append_Cons append_Nil)
  next
    assume "\<exists>u v. c # t = u @ v \<and> like ps v"
    then obtain u v where uv: "c # t = u @ v" "like ps v" by blast
    then show "like (CHR ''%'' # ps) (c # t)"
      using Cons.IH by (cases u) auto
  qed
qed

lemma like_all: "like ''%'' t = True"
  using like_percent [of "[]" t] by simp

lemma like_esc_char_step:
  "like (like_esc_char c @ ps) t \<longleftrightarrow>
     (case t of [] \<Rightarrow> False | x # t' \<Rightarrow> lower_char x = lower_char c \<and> like ps t')"
  by (auto simp: like_esc_char_def backslash_def split: list.splits)

lemma like_escaped:
  "like (like_escape s @ ps) t \<longleftrightarrow> (\<exists>u v. t = u @ v \<and> to_lower u = to_lower s \<and> like ps v)"
proof (induction s arbitrary: t)
  case Nil
  show ?case by (simp add: like_escape_conv to_lower_def)
next
  case (Cons c s)
  have "like (like_escape (c # s) @ ps) t \<longleftrightarrow>
     (case t of [] \<Rightarrow> False | x # t' \<Rightarrow> lower_char x = lower_char c \<and> like (like_escape s @ ps) t')"
    using like_esc_char_step [of c "like_escape s @ ps" t] by (simp add: like_escape_conv)
  also have "\<dots> \<longleftrightarrow> (\<exists>u v. t = u @ v \<and> to_lower u = to_lower (c # s) \<and> like ps v)"
  proof (cases t)
    case Nil
    then show ?thesis by (simp add: to_lower_def)
  next
    case t: (Cons x t')
    show ?thesis
    proof
      assume "case t of [] \<Rightarrow> False | x # t' \<Rightarrow> lower_char x = lower_char c \<and> like (like_escape s @ ps) t'"
      then obtain u v where "lower_char x = lower_char c" "t' = u @ v" "to_lower u = to_lower s" "like ps v"
        using t Cons.IH by auto
      then show "\<exists>u v. t = u @ v \<and> to_lower u = to_lower (c # s) \<and> like ps v"
        using t by (intro exI [of _ "x # u"] exI [of _ v]) (simp add: to_lower_def)
    next
      assume "\<exists>u v. t = u @ v \<and> to_lower u = to_lower (c # s) \<and> like ps v"
      then obtain u v where uv: "t = u @ v" "to_lower u = to_lower (c # s)" "like ps v" by blast
      then obtain y u' where u: "u = y # u'" by (cases u) (auto simp: to_lower_def)
      with uv t Cons.IH show "case t of [] \<Rightarrow> False | x # t' \<Rightarrow> lower_char x = lower_char c \<and> like (like_escape s @ ps) t'"
        by (auto simp: to_lower_def)
    qed
  qed
  finally show ?case .
qed

lemma to_lower_append_split:
  "to_lower t = a @ b @ c \<longleftrightarrow> (\<exists>u v w. t = u @ v @ w \<and> to_lower u = a \<and> to_lower v = b \<and> to_lower w = c)"
  by (simp add: to_lower_def map_eq_append_conv append_eq_map_conv) blast

text \<open>The filter on the creator is a search for the text itself, in either letter case.\<close>

lemma like_contains: "like (''%'' @ like_escape s @ ''%'') t \<longleftrightarrow> contains (to_lower t) (to_lower s)"
proof -
  have "like (''%'' @ like_escape s @ ''%'') t \<longleftrightarrow>
      (\<exists>u v. t = u @ v \<and> (\<exists>w x. v = w @ x \<and> to_lower w = to_lower s \<and> like ''%'' x))"
    using like_percent [of "like_escape s @ ''%''" t] by (simp add: like_escaped)
  also have "\<dots> \<longleftrightarrow> (\<exists>u w x. t = u @ w @ x \<and> to_lower w = to_lower s)"
    by (simp only: like_all) blast
  also have "\<dots> \<longleftrightarrow> contains (to_lower t) (to_lower s)"
    unfolding contains_iff by (auto simp: to_lower_append_split)
  finally show ?thesis .
qed

subsection \<open>Keys and the pairing of a task with its flow state\<close>

text \<open>A path through the states of a flow: each transition starts where the one before it ended.\<close>

fun hist_path :: "string \<Rightarrow> state_transition list \<Rightarrow> string \<Rightarrow> bool" where
  "hist_path a [] b = (a = b)"
| "hist_path a (t # ts) b = (st_from t = a \<and> hist_path (st_to t) ts b)"

lemma hist_path_snoc: "hist_path a (ts @ [t]) b \<longleftrightarrow> hist_path a ts (st_from t) \<and> st_to t = b"
  by (induction a ts b rule: hist_path.induct) auto

definition keys_ok :: "db \<Rightarrow> bool" where
  "keys_ok d \<longleftrightarrow> tbl_ok (db_tasks d) \<and> tbl_ok (db_flow_states d) \<and> tbl_ok (db_flow_defs d) \<and> tbl_ok (db_approvals d) \<and>
     distinct (db_roles d) \<and> tbl_ok (db_cron_jobs d) \<and> tbl_ok (db_cron_runs d)"

text \<open>
  \<open>paired d\<close>: a flow state belongs to a task, names the state the task is in, and its history is
  a path that ends there.
\<close>

definition paired_rows :: "task_row \<Rightarrow> flow_state_row \<Rightarrow> bool" where
  "paired_rows r f \<longleftrightarrow>
     fr_current_state f = rw_current_state r \<and> (\<exists>a. hist_path a (fr_history f) (rw_current_state r))"

definition paired :: "db \<Rightarrow> bool" where
  "paired d \<longleftrightarrow>
     (\<forall>i f. tbl_get (db_flow_states d) i = Some f \<longrightarrow>
        (\<exists>r. tbl_get (db_tasks d) i = Some r \<and> paired_rows r f))"

lemma pairedD:
  "paired d \<Longrightarrow> tbl_get (db_tasks d) i = Some r \<Longrightarrow> tbl_get (db_flow_states d) i = Some f \<Longrightarrow> paired_rows r f"
  by (fastforce simp: paired_def)

definition task_version :: "db \<Rightarrow> uuid \<Rightarrow> u64 option" where
  "task_version d i = map_option rw_version (tbl_get (db_tasks d) i)"

text \<open>The writes of \<open>advance_task\<close> and the reasons for its refusals.\<close>

lemma advance_task_ok_iff:
  "(\<exists>d'. advance_task E i st s tr v now d = (Inr (), d')) \<longleftrightarrow>
   task_version d i = Some v \<and> tbl_get (db_flow_states d) i \<noteq> None"
  by (auto simp: advance_task_def task_version_def split: prod.split option.split)

lemma advance_task_err: "advance_task E i st s tr v now d = (Inl e, d') \<Longrightarrow> d' = d"
  by (auto simp: advance_task_def split: prod.splits option.splits if_splits)

lemma advance_task_okE:
  assumes "advance_task E i st s tr v now d = (Inr u, d')"
  obtains r f where "tbl_get (db_tasks d) i = Some r" and "rw_version r = v"
    and "tbl_get (db_flow_states d) i = Some f"
    and "\<And>j. tbl_get (db_tasks d') j =
           (if j = i then Some (r\<lparr>rw_status := fst (task_status_to_db st),
                                  rw_error_message := snd (task_status_to_db st),
                                  rw_current_state := s, rw_updated_at := now, rw_version := v + 1\<rparr>)
            else tbl_get (db_tasks d) j)"
    and "\<And>j. tbl_get (db_flow_states d') j =
           (if j = i then Some (f\<lparr>fr_current_state := s, fr_history := fr_history f @ [tr], fr_updated_at := now\<rparr>)
            else tbl_get (db_flow_states d) j)"
    and "db_flow_defs d' = db_flow_defs d" and "db_approvals d' = db_approvals d"
    and "keys_ok d \<Longrightarrow> keys_ok d'"
  using assms
  by (auto simp: advance_task_def tbl_gets keys_ok_def tbl_ok_upsert
           split: prod.splits option.splits if_splits)

lemma paired_advance_task:
  assumes "paired d" and "advance_task E i st s tr v now d = (r, d')"
    and "\<And>row. tbl_get (db_tasks d) i = Some row \<Longrightarrow> rw_version row = v \<Longrightarrow> st_from tr = rw_current_state row"
    and "st_to tr = s"
  shows "paired d'"
proof (cases r)
  case (Inl e)
  with assms(1,2) advance_task_err show ?thesis by blast
next
  case (Inr u)
  with assms(2) have "advance_task E i st s tr v now d = (Inr u, d')" by simp
  then show ?thesis
  proof (rule advance_task_okE)
    fix row f
    assume row: "tbl_get (db_tasks d) i = Some row" "rw_version row = v" and f: "tbl_get (db_flow_states d) i = Some f"
      and T: "\<And>j. tbl_get (db_tasks d') j = (if j = i then Some (row\<lparr>rw_status := fst (task_status_to_db st),
                rw_error_message := snd (task_status_to_db st), rw_current_state := s, rw_updated_at := now,
                rw_version := v + 1\<rparr>) else tbl_get (db_tasks d) j)"
      and F: "\<And>j. tbl_get (db_flow_states d') j = (if j = i then Some (f\<lparr>fr_current_state := s,
                fr_history := fr_history f @ [tr], fr_updated_at := now\<rparr>) else tbl_get (db_flow_states d) j)"
    from pairedD [OF assms(1) row(1) f] obtain a where "hist_path a (fr_history f) (st_from tr)"
      using assms(3) [OF row] by (auto simp: paired_rows_def)
    then have "hist_path a (fr_history f @ [tr]) s"
      using assms(4) by (simp add: hist_path_snoc)
    then show "paired d'"
      using assms(1) unfolding paired_def T F paired_rows_def by auto
  qed
qed

lemma pairedE:
  assumes "paired d" and "tbl_get (db_flow_states d) i = Some f"
  obtains r where "tbl_get (db_tasks d) i = Some r" and "paired_rows r f"
  using assms by (auto simp: paired_def)

lemma pairedI:
  "(\<And>i f. tbl_get (db_flow_states d) i = Some f \<Longrightarrow> \<exists>r. tbl_get (db_tasks d) i = Some r \<and> paired_rows r f) \<Longrightarrow> paired d"
  by (simp add: paired_def)

lemma paired_create_task_with_flow:
  assumes d: "paired d" and run: "create_task_with_flow t s now d = (r, d')"
    and start: "fs_current_state s = t_current_state t" "fs_history s = []"
  shows "paired d'"
proof (cases r)
  case (Inl e)
  with run d show ?thesis
    by (auto simp: create_task_with_flow_def split: if_splits option.splits)
next
  case (Inr u)
  with run obtain ts fs where ts: "tbl_insert (t_id t) (task_row_of t 0) (db_tasks d) = Some ts"
    and fs: "tbl_insert (t_id t) \<lparr>fr_current_state = fs_current_state s, fr_history = fs_history s,
               fr_retry_count = fs_retry_count s, fr_updated_at = now\<rparr> (db_flow_states d) = Some fs"
    and d': "d' = d\<lparr>db_tasks := ts, db_flow_states := fs\<rparr>"
    by (auto simp: create_task_with_flow_def split: if_splits option.splits)
  show ?thesis
  proof (rule pairedI)
    fix i f assume "tbl_get (db_flow_states d') i = Some f"
    then show "\<exists>r. tbl_get (db_tasks d') i = Some r \<and> paired_rows r f"
      using start d' tbl_get_insert [OF ts] tbl_get_insert [OF fs]
      by (cases "i = t_id t") (auto simp: paired_rows_def task_row_of_def elim: pairedE [OF d])
  qed
qed

lemma paired_task_update:
  assumes d: "paired d" and g: "\<And>r. rw_current_state (g r) = rw_current_state r"
  shows "paired (d\<lparr>db_tasks := tbl_update i g (db_tasks d)\<rparr>)"
proof (rule pairedI)
  fix j f assume "tbl_get (db_flow_states (d\<lparr>db_tasks := tbl_update i g (db_tasks d)\<rparr>)) j = Some f"
  then obtain r where "tbl_get (db_tasks d) j = Some r" "paired_rows r f"
    by (auto elim: pairedE [OF d])
  then show "\<exists>r. tbl_get (db_tasks (d\<lparr>db_tasks := tbl_update i g (db_tasks d)\<rparr>)) j = Some r \<and> paired_rows r f"
    using g by (auto simp: tbl_get_update paired_rows_def)
qed

lemma paired_update_task_status:
  "paired d \<Longrightarrow> update_task_status E i st now d = (r, d') \<Longrightarrow> paired d'"
  by (auto simp: update_task_status_def Let_def intro: paired_task_update split: prod.splits if_splits)

lemma paired_merge_task_state_data:
  "paired d \<Longrightarrow> merge_task_state_data E i data now d = (r, d') \<Longrightarrow> paired d'"
  by (auto simp: merge_task_state_data_def intro: paired_task_update split: option.splits)

lemma paired_create_task:
  assumes d: "paired d" and "create_task t d = (r, d')"
  shows "paired d'"
proof (rule pairedI)
  fix i f assume "tbl_get (db_flow_states d') i = Some f"
  with assms(2) have "tbl_get (db_flow_states d) i = Some f"
    by (auto simp: create_task_def split: option.splits)
  then obtain r0 where "tbl_get (db_tasks d) i = Some r0" "paired_rows r0 f" by (rule pairedE [OF d])
  with assms(2) show "\<exists>r. tbl_get (db_tasks d') i = Some r \<and> paired_rows r f"
    by (auto simp: create_task_def tbl_insert_def tbl_get_snoc split: option.splits if_splits)
qed

lemma keys_ok_ops:
  "keys_ok d \<Longrightarrow> create_task t d = (r1, d1) \<Longrightarrow> keys_ok d1"
  "keys_ok d \<Longrightarrow> update_task_status E i st now d = (r2, d2) \<Longrightarrow> keys_ok d2"
  "keys_ok d \<Longrightarrow> merge_task_state_data E i data now d = (r3, d3) \<Longrightarrow> keys_ok d3"
  "keys_ok d \<Longrightarrow> save_flow_state i s now d = (r4, d4) \<Longrightarrow> keys_ok d4"
  "keys_ok d \<Longrightarrow> create_task_with_flow t s now d = (r5, d5) \<Longrightarrow> keys_ok d5"
  "keys_ok d \<Longrightarrow> advance_task E i st s' tr v now d = (r6, d6) \<Longrightarrow> keys_ok d6"
  "keys_ok d \<Longrightarrow> save_flow_def fd now d = (r7, d7) \<Longrightarrow> keys_ok d7"
  "keys_ok d \<Longrightarrow> delete_flow_def fi d = (r8, d8) \<Longrightarrow> keys_ok d8"
  "keys_ok d \<Longrightarrow> save_approval ap d = (r9, d9) \<Longrightarrow> keys_ok d9"
  "keys_ok d \<Longrightarrow> update_approval_status E i ast who com now d = (r10, d10) \<Longrightarrow> keys_ok d10"
proof -
  show "keys_ok d \<Longrightarrow> create_task t d = (r1, d1) \<Longrightarrow> keys_ok d1"
    by (auto simp: create_task_def keys_ok_def tbl_ok_insert split: option.splits)
  show "keys_ok d \<Longrightarrow> update_task_status E i st now d = (r2, d2) \<Longrightarrow> keys_ok d2"
    by (auto simp: update_task_status_def keys_ok_def Let_def split: prod.splits if_splits)
  show "keys_ok d \<Longrightarrow> merge_task_state_data E i data now d = (r3, d3) \<Longrightarrow> keys_ok d3"
    by (auto simp: merge_task_state_data_def keys_ok_def split: option.splits)
  show "keys_ok d \<Longrightarrow> save_flow_state i s now d = (r4, d4) \<Longrightarrow> keys_ok d4"
    by (auto simp: save_flow_state_def keys_ok_def tbl_ok_upsert)
  show "keys_ok d \<Longrightarrow> create_task_with_flow t s now d = (r5, d5) \<Longrightarrow> keys_ok d5"
    by (auto simp: create_task_with_flow_def keys_ok_def tbl_ok_insert split: if_splits option.splits)
  show "keys_ok d6" if "keys_ok d" and adv: "advance_task E i st s' tr v now d = (r6, d6)"
    using that by (cases r6) (auto dest: advance_task_err elim!: advance_task_okE)
  show "keys_ok d \<Longrightarrow> save_flow_def fd now d = (r7, d7) \<Longrightarrow> keys_ok d7"
    by (auto simp: save_flow_def_def keys_ok_def tbl_ok_upsert)
  show "keys_ok d \<Longrightarrow> delete_flow_def fi d = (r8, d8) \<Longrightarrow> keys_ok d8"
    by (auto simp: delete_flow_def_def keys_ok_def tbl_ok_delete split: if_splits)
  show "keys_ok d \<Longrightarrow> save_approval ap d = (r9, d9) \<Longrightarrow> keys_ok d9"
    by (auto simp: save_approval_def keys_ok_def tbl_ok_upsert)
  show "keys_ok d \<Longrightarrow> update_approval_status E i ast who com now d = (r10, d10) \<Longrightarrow> keys_ok d10"
    by (auto simp: update_approval_status_def keys_ok_def split: if_splits)
qed

lemma tbl_ok_put_last: "tbl_ok t \<Longrightarrow> tbl_ok (tbl_delete k t @ [(k, r)])"
  by (auto simp: tbl_ok_def tbl_delete_def distinct_map_filter)

lemma keys_ok_more_ops:
  "keys_ok d \<Longrightarrow> bind_role a ro d = (r1, d1) \<Longrightarrow> keys_ok d1"
  "keys_ok d \<Longrightarrow> unbind_role a ro d = (r2, d2) \<Longrightarrow> keys_ok d2"
  "keys_ok d \<Longrightarrow> save_cron_job E j d = (r3, d3) \<Longrightarrow> keys_ok d3"
  "keys_ok d \<Longrightarrow> delete_cron_job E ji d = (r4, d4) \<Longrightarrow> keys_ok d4"
  "keys_ok d \<Longrightarrow> save_cron_run E run d = (r5, d5) \<Longrightarrow> keys_ok d5"
  by (auto simp: keys_ok_def bind_role_def unbind_role_def save_cron_job_def delete_cron_job_def
      delete_job_cascade_def save_cron_run_def Let_def tbl_ok_put_last tbl_ok_filter tbl_ok_delete
      split: if_splits)

lemma map_of_shallow_merge:
  assumes "distinct (map fst p)"
  shows "jget (shallow_merge (JObj m) (JObj p)) k =
         (case map_of p k of Some v \<Rightarrow> Some v | None \<Rightarrow> map_of m k)"
proof -
  have "map_of (rev p) = map_of p"
    using assms by (intro map_of_eqI) (auto simp: rev_map [symmetric])
  then show ?thesis
    by (simp add: shallow_merge_def map_of_fold_obj_insert map_add_def split: option.split)
qed

section \<open>Optimistic locking\<close>

text \<open>
  What the engine relies on when it writes a task: \<open>swap k v x d\<close> writes \<open>x\<close> under the key \<open>k\<close> only
  where the version is still \<open>v\<close>, and moves the version on; it reports a refusal and then changes nothing.
\<close>

locale versioned_rows =
  fixes ver :: "'d \<Rightarrow> 'k \<Rightarrow> 'v option"
    and swap :: "'k \<Rightarrow> 'v \<Rightarrow> 'x \<Rightarrow> 'd \<Rightarrow> ('e + unit) \<times> 'd"
    and next_ver :: "'v \<Rightarrow> 'v"
  assumes swap_ok: "swap k v x d = (Inr u, d') \<Longrightarrow> ver d k = Some v \<and> ver d' k = Some (next_ver v)"
    and swap_err: "swap k v x d = (Inl e, d') \<Longrightarrow> d' = d"
    and swap_other: "j \<noteq> k \<Longrightarrow> swap k v x d = (r, d') \<Longrightarrow> ver d' j = ver d j"
    and next_neq: "next_ver v \<noteq> v"
begin

text \<open>Of two writers that read the same version only the first gets through.\<close>

lemma second_refused:
  assumes "swap k v x d = (Inr u, d1)"
  shows "\<exists>e. swap k v y d1 = (Inl e, d1)"
proof (cases "swap k v y d1")
  case (Pair r d2)
  from swap_ok [OF assms] next_neq have "ver d1 k \<noteq> Some v" by simp
  with Pair swap_ok have "\<nexists>w. r = Inr w" by blast
  then obtain e where "r = Inl e" by (cases r) auto
  with Pair swap_err show ?thesis by blast
qed

fun swaps :: "('k \<times> 'v \<times> 'x) list \<Rightarrow> 'd \<Rightarrow> 'd" where
  "swaps [] d = d"
| "swaps ((k, v, x) # ws) d = swaps ws (snd (swap k v x d))"

fun wins :: "'k \<Rightarrow> ('k \<times> 'v \<times> 'x) list \<Rightarrow> 'd \<Rightarrow> nat" where
  "wins j [] d = 0"
| "wins j ((k, v, x) # ws) d =
     (if j = k \<and> isl (fst (swap k v x d)) = False then 1 else 0) + wins j ws (snd (swap k v x d))"

text \<open>After any sequence of writes the version has moved on once for each write that got through.\<close>

lemma ver_swaps: "ver (swaps ws d) j = map_option (next_ver ^^ wins j ws d) (ver d j)"
proof (induction ws arbitrary: d)
  case Nil
  show ?case by (cases "ver d j") auto
next
  case (Cons w ws)
  obtain k v x where w: "w = (k, v, x)" by (cases w) auto
  obtain r d' where s: "swap k v x d = (r, d')" by fastforce
  show ?case
  proof (cases "j = k \<and> \<not> isl r")
    case True
    then obtain u where u: "r = Inr u" by (cases r) auto
    with True s swap_ok have "ver d j = Some v" "ver d' j = Some (next_ver v)" by blast+
    with True w s u Cons.IH [of d'] show ?thesis
      by (simp add: funpow_swap1)
  next
    case False
    then have "ver d' j = ver d j"
      using s swap_err [of k v x d] swap_other [of j k v x d] by (cases r) force+
    with False w s Cons.IH [of d'] show ?thesis by auto
  qed
qed

end

type_synonym advance_args = "task_status \<times> string \<times> state_transition \<times> timestamp"

definition advance_swap ::
  "'z env_scheme \<Rightarrow> uuid \<Rightarrow> u64 \<Rightarrow> advance_args \<Rightarrow> db \<Rightarrow> (atta_error + unit) \<times> db" where
  "advance_swap E i v = (\<lambda>(st, s, tr, now). advance_task E i st s tr v now)"

lemma advance_task_other:
  "advance_task E k st s tr v now d = (r, d') \<Longrightarrow> j \<noteq> k \<Longrightarrow> task_version d' j = task_version d j"
  by (cases r) (auto simp: task_version_def dest: advance_task_err elim!: advance_task_okE)

interpretation adv: versioned_rows task_version "advance_swap E" "\<lambda>v. v + 1" for E
  by unfold_locales
    (auto simp: advance_swap_def task_version_def elim!: advance_task_okE
          dest: advance_task_err advance_task_other [unfolded task_version_def] split: prod.splits)

lemmas store_defs =
  create_task_def get_task_def update_task_status_def merge_task_state_data_def save_flow_def_def
  store_get_flow_def_def delete_flow_def_def save_flow_state_def get_flow_state_def
  create_task_with_flow_def advance_task_def save_approval_def get_approval_def
  update_approval_status_def

end
