(* ===== verification/World.thy ===== *)
theory World
  imports Store_Core
begin

text \<open>
  What the control plane works on: the database, the events delivered to the bus, the flow
  definitions the engine has cached, and how many clock readings, fresh identifiers, store
  calls and publications there have been. The environment answers each of them by its number, so every
  interleaving of failures is some environment:
  \<^item> \<open>others E n\<close> is what other requests do to the database before the \<open>n\<close>-th store call,
  \<^item> \<open>db_err E n\<close> the driver's failure of that call; a failed call writes nothing,
  \<^item> \<open>bus_err E n\<close> the failure of the \<open>n\<close>-th publication.
  The event constructors are those of \<open>EventEnvelope\<close> (\<open>crates/types/src/event.rs\<close>).
\<close>

record genv = env +
  others :: "nat \<Rightarrow> db \<Rightarrow> db"

record world =
  w_db :: db
  w_log :: "(string \<times> event_envelope) list"
  w_flows :: "(string, flow_def) table"
  w_clk :: nat
  w_uid :: nat
  w_calls :: nat
  w_pubs :: nat

type_synonym 'a wio = "(world, atta_error, 'a) io"

definition now_io :: "genv \<Rightarrow> timestamp wio" where
  "now_io E = (\<lambda>w. (Inr (clk E (w_clk w)), w\<lparr>w_clk := Suc (w_clk w)\<rparr>))"

definition fresh_uuid :: "genv \<Rightarrow> uuid wio" where
  "fresh_uuid E = (\<lambda>w. (Inr (new_uuid E (w_uid w)), w\<lparr>w_uid := Suc (w_uid w)\<rparr>))"

definition store_call :: "genv \<Rightarrow> (db \<Rightarrow> (atta_error + 'a) \<times> db) \<Rightarrow> 'a wio" where
  "store_call E op = (\<lambda>w.
     let n = w_calls w; d = others E n (w_db w) in
     case db_err E n of
       Some m \<Rightarrow> (Inl (Store (Database m)), w\<lparr>w_db := d, w_calls := Suc n\<rparr>)
     | None \<Rightarrow> (case op d of (r, d') \<Rightarrow> (r, w\<lparr>w_db := d', w_calls := Suc n\<rparr>)))"

definition store_call_now :: "genv \<Rightarrow> (timestamp \<Rightarrow> db \<Rightarrow> (atta_error + 'a) \<times> db) \<Rightarrow> 'a wio" where
  "store_call_now E op = bindE (now_io E) (\<lambda>now. store_call E (op now))"

definition publish :: "genv \<Rightarrow> string \<Rightarrow> event_envelope \<Rightarrow> unit wio" where
  "publish E topic ev = (\<lambda>w.
     let n = w_pubs w in
     case bus_err E n of
       Some e \<Rightarrow> (Inl e, w\<lparr>w_pubs := Suc n\<rparr>)
     | None \<Rightarrow> (Inr (), w\<lparr>w_pubs := Suc n, w_log := w_log w @ [(topic, ev)]\<rparr>))"

section \<open>Events\<close>

definition event_new ::
  "genv \<Rightarrow> string \<Rightarrow> entity_ref \<Rightarrow> actor \<Rightarrow> uuid \<Rightarrow> json \<Rightarrow> event_envelope wio" where
  "event_new E ty ent who corr payload =
     bindE (fresh_uuid E) (\<lambda>i.
     bindE (now_io E) (\<lambda>t.
       retE \<lparr>ev_event_id = i, ev_type = ty, ev_occurred_at = t, ev_actor = who, ev_entity = ent,
             ev_correlation_id = corr, ev_payload = payload\<rparr>))"

definition entity_task :: "genv \<Rightarrow> uuid \<Rightarrow> entity_ref" where
  "entity_task E i = \<lparr>er_type = RTask, er_id = uuid_show E i\<rparr>"

definition juuid :: "genv \<Rightarrow> uuid \<Rightarrow> json" where
  "juuid E i = JStr (uuid_show E i)"

definition ev_task_created :: "genv \<Rightarrow> task \<Rightarrow> event_envelope wio" where
  "ev_task_created E t =
     event_new E ''atta.task.created'' (entity_task E (t_id t)) (t_created_by t) (t_id t)
       (mk_obj [(''flow_id'', JStr (t_flow_id t)), (''current_state'', JStr (t_current_state t))])"

definition ev_flow_advanced :: "genv \<Rightarrow> uuid \<Rightarrow> string \<Rightarrow> string \<Rightarrow> event_envelope wio" where
  "ev_flow_advanced E i from to =
     event_new E ''atta.flow.advanced'' (entity_task E i) actor_system i
       (mk_obj [(''from'', JStr from), (''to'', JStr to)])"

definition ev_agent_assigned :: "genv \<Rightarrow> uuid \<Rightarrow> string \<Rightarrow> event_envelope wio" where
  "ev_agent_assigned E i agent_type =
     event_new E ''atta.agent.assigned'' (entity_task E i) actor_system i
       (mk_obj [(''agent_type'', JStr agent_type)])"

definition ev_agent_completed :: "genv \<Rightarrow> uuid \<Rightarrow> json \<Rightarrow> u32 \<Rightarrow> event_envelope wio" where
  "ev_agent_completed E i output iterations =
     event_new E ''atta.agent.completed'' (entity_task E i) actor_system i
       (mk_obj [(''output'', output), (''iterations'', JInt (uint iterations))])"

definition ev_agent_error :: "genv \<Rightarrow> uuid \<Rightarrow> string \<Rightarrow> event_envelope wio" where
  "ev_agent_error E i err =
     event_new E ''atta.agent.error'' (entity_task E i) actor_system i
       (mk_obj [(''error'', JStr err)])"

definition ev_approval_requested :: "genv \<Rightarrow> uuid \<Rightarrow> uuid \<Rightarrow> event_envelope wio" where
  "ev_approval_requested E i a =
     event_new E ''atta.approval.requested'' (entity_task E i) actor_system i
       (mk_obj [(''approval_id'', juuid E a)])"

definition ev_approval_expired :: "genv \<Rightarrow> uuid \<Rightarrow> uuid \<Rightarrow> event_envelope wio" where
  "ev_approval_expired E i a =
     event_new E ''atta.approval.expired'' (entity_task E i) actor_system i
       (mk_obj [(''approval_id'', juuid E a)])"

definition ev_flow_retry :: "genv \<Rightarrow> uuid \<Rightarrow> string \<Rightarrow> u32 \<Rightarrow> event_envelope wio" where
  "ev_flow_retry E i state attempt =
     event_new E ''atta.flow.retry'' (entity_task E i) actor_system i
       (mk_obj [(''state'', JStr state), (''attempt'', JInt (uint attempt))])"

section \<open>Invariants of the world\<close>

text \<open>
  A property \<open>I\<close> of the database is kept by every operation below when it is kept by the store
  operations they call and by what the other requests do; the cached definitions stay \<open>W\<close>.
\<close>

definition db_inv :: "(string, flow_def) table \<Rightarrow> (db \<Rightarrow> bool) \<Rightarrow> world \<Rightarrow> bool" where
  "db_inv W I w \<longleftrightarrow> w_flows w = W \<and> I (w_db w)"

definition others_keep :: "genv \<Rightarrow> (db \<Rightarrow> bool) \<Rightarrow> bool" where
  "others_keep E I \<longleftrightarrow> (\<forall>n d. I d \<longrightarrow> I (others E n d))"

definition quiet :: "genv \<Rightarrow> bool" where
  "quiet E \<longleftrightarrow> (\<forall>n d. others E n d = d) \<and> (\<forall>n. db_err E n = None) \<and> (\<forall>n. bus_err E n = None)"

lemma keeps_now_io [keeps_intros]: "keeps (db_inv W I) (now_io E)"
  by (rule keepsI) (simp add: now_io_def db_inv_def)

lemma keeps_fresh_uuid [keeps_intros]: "keeps (db_inv W I) (fresh_uuid E)"
  by (rule keepsI) (simp add: fresh_uuid_def db_inv_def)

lemma keeps_publish [keeps_intros]: "keeps (db_inv W I) (publish E topic ev)"
  by (rule keepsI) (simp add: publish_def db_inv_def Let_def split: option.split)

lemma keeps_event_new [keeps_intros]: "keeps (db_inv W I) (event_new E ty ent who corr p)"
  unfolding event_new_def by (intro keeps_intros)

lemmas event_defs =
  ev_task_created_def ev_flow_advanced_def ev_agent_assigned_def ev_agent_completed_def
  ev_agent_error_def ev_approval_requested_def ev_approval_expired_def ev_flow_retry_def

lemma keeps_events [keeps_intros]:
  "keeps (db_inv W I) (ev_task_created E t)"
  "keeps (db_inv W I) (ev_flow_advanced E i from to)"
  "keeps (db_inv W I) (ev_agent_assigned E i a)"
  "keeps (db_inv W I) (ev_agent_completed E i out k)"
  "keeps (db_inv W I) (ev_agent_error E i err)"
  "keeps (db_inv W I) (ev_approval_requested E i u)"
  "keeps (db_inv W I) (ev_approval_expired E i u)"
  "keeps (db_inv W I) (ev_flow_retry E i s m)"
  unfolding event_defs by (intro keeps_intros)+

lemma keeps_store_call:
  assumes "others_keep E I" and "\<And>d r d'. I d \<Longrightarrow> op d = (r, d') \<Longrightarrow> I d'"
  shows "keeps (db_inv W I) (store_call E op)"
proof (rule keepsI)
  fix w assume "db_inv W I w"
  with assms(1) have "I (others E (w_calls w) (w_db w))" and "w_flows w = W"
    by (simp_all add: db_inv_def others_keep_def)
  with assms(2) show "db_inv W I (snd (store_call E op w))"
    by (auto simp: store_call_def db_inv_def Let_def split: option.split prod.split)
qed

lemma keeps_store_call_now:
  assumes "others_keep E I" and "\<And>now d r d'. I d \<Longrightarrow> op now d = (r, d') \<Longrightarrow> I d'"
  shows "keeps (db_inv W I) (store_call_now E op)"
  unfolding store_call_now_def using assms by (intro keeps_intros keeps_store_call) auto

text \<open>In a quiet environment a store call is the operation itself.\<close>

lemma store_call_quiet:
  "quiet E \<Longrightarrow> store_call E op w =
     (case op (w_db w) of (r, d) \<Rightarrow> (r, w\<lparr>w_db := d, w_calls := Suc (w_calls w)\<rparr>))"
  by (simp add: store_call_def quiet_def Let_def)

lemma store_call_now_quiet:
  "quiet E \<Longrightarrow> op (clk E (w_clk w)) (w_db w) = (r, d) \<Longrightarrow>
   store_call_now E op w = (r, w\<lparr>w_db := d, w_clk := Suc (w_clk w), w_calls := Suc (w_calls w)\<rparr>)"
  by (simp add: store_call_now_def bindE_def now_io_def store_call_quiet)

lemma publish_quiet:
  "quiet E \<Longrightarrow> publish E topic ev w =
     (Inr (), w\<lparr>w_pubs := Suc (w_pubs w), w_log := w_log w @ [(topic, ev)]\<rparr>)"
  by (simp add: publish_def quiet_def Let_def)

lemmas world_defs = now_io_def fresh_uuid_def store_call_def store_call_now_def publish_def event_new_def

end
