(* ===== verification/Condition.thy ===== *)
theory Condition
  imports Atta_Types
begin

text \<open>
  The condition language of flow transitions (\<open>crates/core/src/condition.rs\<close>): \<open>parse_cond\<close> splits the
  text at the loosest operator (\<open>OR\<close>, then \<open>AND\<close>, then a leading \<open>NOT\<close>, then \<open>!=\<close> and
  \<open>==\<close>), and \<open>eval_expr\<close> evaluates the tree on the task, its flow state and the tool registry. The
  registry is the function \<open>tools\<close> from names to definitions. Where a condition asks for the time
  (only \<open>timeout\<close> does, and only with a pending approval) the reading is the argument \<open>now\<close>.
\<close>

section \<open>Parsing\<close>

function parse_cond :: "string \<Rightarrow> atta_error + cond_expr" where
  "parse_cond s0 =
     (let s = trim s0 in
      if s = [] then Inl (Validation ''empty condition expression'')
      else case split_once '' OR '' s of
        Some (l, r) \<Rightarrow>
          and_then (parse_cond (trim l)) (\<lambda>a. and_then (parse_cond (trim r)) (\<lambda>b. Inr (COr a b)))
      | None \<Rightarrow>
        (case split_once '' AND '' s of
          Some (l, r) \<Rightarrow>
            and_then (parse_cond (trim l)) (\<lambda>a. and_then (parse_cond (trim r)) (\<lambda>b. Inr (CAnd a b)))
        | None \<Rightarrow>
          (case strip_prefix ''NOT '' s of
            Some rest \<Rightarrow> and_then (parse_cond (trim rest)) (\<lambda>a. Inr (CNot a))
          | None \<Rightarrow>
            (case split_once '' != '' s of
              Some (k, v) \<Rightarrow> Inr (CNe (trim k) (trim_char (CHR 0x22) (trim v)))
            | None \<Rightarrow>
              (case split_once '' == '' s of
                Some (k, v) \<Rightarrow> Inr (CEq (trim k) (trim_char (CHR 0x22) (trim v)))
              | None \<Rightarrow> Inr (CIdent s))))))"
  by pat_completeness auto

lemma length_split_once:
  "split_once p s = Some (l, r) \<Longrightarrow> length s = length l + length p + length r"
  by (auto dest: split_once_Some)

lemma split_shorter:
  assumes "split_once p (trim s) = Some (l, r)" and "p \<noteq> []"
  shows "length (trim l) < length s" and "length (trim r) < length s"
proof -
  have "length l + length p + length r \<le> length s"
    using length_split_once [OF assms(1)] length_trim [of s] by simp
  moreover have "0 < length p" using assms(2) by simp
  ultimately show "length (trim l) < length s" "length (trim r) < length s"
    using length_trim [of l] length_trim [of r] by linarith+
qed

lemma strip_shorter:
  assumes "strip_prefix p (trim s) = Some r" and "p \<noteq> []"
  shows "length (trim r) < length s"
proof -
  from assms(1) have "length (trim s) = length p + length r" by simp
  moreover have "0 < length p" using assms(2) by simp
  ultimately show ?thesis using length_trim [of s] length_trim [of r] by linarith
qed

termination parse_cond
  by (relation "measure length")
    (auto intro: split_shorter strip_shorter simp del: strip_prefix_Some_iff)

declare parse_cond.simps [simp del]

section \<open>Evaluation\<close>

text \<open>The built-in conditions and the boolean keys of \<open>state_data\<close>.\<close>

definition approval_is :: "flow_state \<Rightarrow> approval_status \<Rightarrow> bool" where
  "approval_is fs st = (case fs_pending_approval fs of None \<Rightarrow> False | Some a \<Rightarrow> ap_status a = st)"

definition is_high_risk :: "(string \<Rightarrow> tool_def option) \<Rightarrow> json \<Rightarrow> bool" where
  "is_high_risk tools v =
     (case as_str v of
        None \<Rightarrow> False
      | Some name \<Rightarrow> (case tools name of None \<Rightarrow> False | Some t \<Rightarrow> tool_risk t = High))"

definition eval_ident ::
  "timestamp \<Rightarrow> (string \<Rightarrow> tool_def option) \<Rightarrow> task \<Rightarrow> flow_state \<Rightarrow> string \<Rightarrow> atta_error + bool" where
  "eval_ident now tools t fs name =
     (if name = ''approved'' then Inr (approval_is fs Approved)
      else if name = ''denied'' then Inr (approval_is fs Denied)
      else if name = ''needs_changes'' then Inr (approval_is fs RequestChanges)
      else if name = ''timeout''
      then Inr (case fs_pending_approval fs of None \<Rightarrow> False | Some a \<Rightarrow> ap_timeout_at a < now)
      else if name = ''has_high_risk_tools''
      then Inr (list_ex (is_high_risk tools)
             (case Option.bind (jget (t_state_data t) ''planned_tools'') as_array of
                None \<Rightarrow> [] | Some xs \<Rightarrow> xs))
      else if name = ''all_tools_done''
      then Inr (case Option.bind (jget (t_state_data t) ''pending_tools'') as_array of
                  None \<Rightarrow> True | Some xs \<Rightarrow> xs = [])
      else if name = ''all_done''
      then Inr (jget_str (t_state_data t) ''agent_status'' = Some ''completed'')
      else case jget (t_state_data t) name of
             Some v \<Rightarrow> Inr (case as_bool v of None \<Rightarrow> False | Some b \<Rightarrow> b)
           | None \<Rightarrow> Inr False)"

definition state_text :: "task \<Rightarrow> string \<Rightarrow> string" where
  "state_text t k = (case jget_str (t_state_data t) k of None \<Rightarrow> [] | Some s \<Rightarrow> s)"

fun eval_expr ::
  "timestamp \<Rightarrow> (string \<Rightarrow> tool_def option) \<Rightarrow> task \<Rightarrow> flow_state \<Rightarrow> cond_expr \<Rightarrow> atta_error + bool" where
  "eval_expr now tools t fs (CIdent name) = eval_ident now tools t fs name"
| "eval_expr now tools t fs (CEq k v) = Inr (state_text t k = v)"
| "eval_expr now tools t fs (CNe k v) = Inr (state_text t k \<noteq> v)"
| "eval_expr now tools t fs (CAnd a b) =
     and_then (eval_expr now tools t fs a) (\<lambda>l. and_then (eval_expr now tools t fs b) (\<lambda>r. Inr (l \<and> r)))"
| "eval_expr now tools t fs (COr a b) =
     and_then (eval_expr now tools t fs a) (\<lambda>l. and_then (eval_expr now tools t fs b) (\<lambda>r. Inr (l \<or> r)))"
| "eval_expr now tools t fs (CNot a) = and_then (eval_expr now tools t fs a) (\<lambda>v. Inr (\<not> v))"

definition evaluate ::
  "timestamp \<Rightarrow> (string \<Rightarrow> tool_def option) \<Rightarrow> task \<Rightarrow> flow_state \<Rightarrow> string \<Rightarrow> atta_error + bool" where
  "evaluate now tools t fs cond = and_then (parse_cond cond) (eval_expr now tools t fs)"

section \<open>When parsing succeeds\<close>

lemma trim_hd_last:
  assumes "trim s \<noteq> []"
  shows "trim s \<noteq> CHR '' '' # x" and "trim s \<noteq> x @ '' ''"
proof -
  have sp: "is_ws (CHR '' '')" by (simp add: is_ws_def)
  show "trim s \<noteq> CHR '' '' # x"
    using hd_trim [OF assms] sp by auto
  show "trim s \<noteq> x @ '' ''"
  proof
    assume "trim s = x @ '' ''"
    then have "last (trim s) = CHR '' ''" by simp
    with last_trim [OF assms] sp show False by simp
  qed
qed

lemma trim_ne_I: "c \<in> set s \<Longrightarrow> \<not> is_ws c \<Longrightarrow> trim s \<noteq> []"
  by (auto simp: trim_Nil_iff)

text \<open>The two sides of an operator that stands inside a trimmed text are not blank.\<close>

lemma sides_ne:
  assumes "trim s = l @ CHR '' '' # m @ '' '' @ r"
  shows "trim l \<noteq> []" and "trim r \<noteq> []"
proof -
  have ne: "trim s \<noteq> []" using assms by simp
  have "l \<noteq> []"
    using trim_hd_last(1) [OF ne, of "m @ '' '' @ r"] assms by auto
  then show "trim l \<noteq> []"
    using hd_trim [OF ne] assms by (intro trim_ne_I [of "hd l"]) auto
  have "r \<noteq> []"
    using trim_hd_last(2) [OF ne, of "l @ CHR '' '' # m"] assms by auto
  then show "trim r \<noteq> []"
    using last_trim [OF ne] assms by (intro trim_ne_I [of "last r"]) auto
qed

lemma strip_not_ne:
  assumes "trim s = ''NOT '' @ r"
  shows "trim r \<noteq> []"
proof -
  have ne: "trim s \<noteq> []" using assms by simp
  have "r \<noteq> []"
    using trim_hd_last(2) [OF ne, of "''NOT''"] assms by auto
  then show ?thesis
    using last_trim [OF ne] assms by (intro trim_ne_I [of "last r"]) auto
qed

lemma parse_cond_total: "trim s \<noteq> [] \<Longrightarrow> \<exists>e. parse_cond s = Inr e"
proof (induction s rule: measure_induct_rule [of length])
  case (less s)
  note ne = less.prems
  consider (orr) l r where "split_once '' OR '' (trim s) = Some (l, r)"
    | (andd) l r where "split_once '' OR '' (trim s) = None" "split_once '' AND '' (trim s) = Some (l, r)"
    | (nott) r where "split_once '' OR '' (trim s) = None" "split_once '' AND '' (trim s) = None"
        "strip_prefix ''NOT '' (trim s) = Some r"
    | (atom) "split_once '' OR '' (trim s) = None" "split_once '' AND '' (trim s) = None"
        "strip_prefix ''NOT '' (trim s) = None"
    by (metis not_None_eq surj_pair)
  then show ?case
  proof cases
    case orr
    have "trim l \<noteq> []" "trim r \<noteq> []"
      using sides_ne [of s l "''OR''" r] split_once_Some [OF orr] by auto
    with less.IH split_shorter [OF orr] obtain a b where "parse_cond (trim l) = Inr a" "parse_cond (trim r) = Inr b"
      by (metis list.distinct(1) trim_trim)
    with ne orr show ?thesis by (subst parse_cond.simps) (simp add: Let_def)
  next
    case andd
    have "trim l \<noteq> []" "trim r \<noteq> []"
      using sides_ne [of s l "''AND''" r] split_once_Some [OF andd(2)] by auto
    with less.IH split_shorter [OF andd(2)] obtain a b where "parse_cond (trim l) = Inr a" "parse_cond (trim r) = Inr b"
      by (metis list.distinct(1) trim_trim)
    with ne andd show ?thesis by (subst parse_cond.simps) (simp add: Let_def)
  next
    case nott
    have "trim r \<noteq> []"
      using strip_not_ne [of s r] nott(3) by simp
    with less.IH strip_shorter [OF nott(3)] obtain a where "parse_cond (trim r) = Inr a"
      by (metis list.distinct(1) trim_trim)
    with ne nott show ?thesis by (subst parse_cond.simps) (simp add: Let_def)
  next
    case atom
    with ne show ?thesis
      by (subst parse_cond.simps) (auto simp: Let_def split: option.split prod.split)
  qed
qed

lemma parse_cond_blank: "trim s = [] \<Longrightarrow> parse_cond s = Inl (Validation ''empty condition expression'')"
  by (subst parse_cond.simps) simp

lemma eval_expr_total: "\<exists>b. eval_expr now tools t fs e = Inr b"
  by (induction e) (auto simp: eval_ident_def split: option.split)

section \<open>Printing and reading back\<close>

text \<open>
  The canonical text of a condition: the words of the expression with one space between them.
  \<open>canon n e\<close> says that \<open>e\<close> needs no parentheses (there are none in the language): operators
  nest to the right and from the loosest to the tightest, and names are words that are no operator.
\<close>

definition plain :: "string \<Rightarrow> bool" where
  "plain w \<longleftrightarrow> (\<forall>c \<in> set w. \<not> is_ws c \<and> c \<noteq> CHR 0x22)"

definition name_ok :: "string \<Rightarrow> bool" where
  "name_ok w \<longleftrightarrow> plain w \<and> w \<noteq> [] \<and> w \<notin> {''OR'', ''AND'', ''NOT'', ''!='', ''==''}"

definition quoted :: "string \<Rightarrow> string" where
  "quoted v = CHR 0x22 # v @ [CHR 0x22]"

fun cond_words :: "cond_expr \<Rightarrow> string list" where
  "cond_words (CIdent n) = [n]"
| "cond_words (CEq k v) = [k, ''=='', quoted v]"
| "cond_words (CNe k v) = [k, ''!='', quoted v]"
| "cond_words (CAnd a b) = cond_words a @ ''AND'' # cond_words b"
| "cond_words (COr a b) = cond_words a @ ''OR'' # cond_words b"
| "cond_words (CNot a) = ''NOT'' # cond_words a"

definition show_cond :: "cond_expr \<Rightarrow> string" where
  "show_cond e = join '' '' (cond_words e)"

fun canon :: "nat \<Rightarrow> cond_expr \<Rightarrow> bool" where
  "canon n (CIdent x) = name_ok x"
| "canon n (CEq k v) = (name_ok k \<and> plain v)"
| "canon n (CNe k v) = (name_ok k \<and> plain v)"
| "canon n (CNot a) = canon 2 a"
| "canon n (CAnd a b) = (n \<le> 1 \<and> canon 2 a \<and> canon 1 b)"
| "canon n (COr a b) = (n = 0 \<and> canon 1 a \<and> canon 0 b)"

subsection \<open>Splitting at spaces\<close>

fun spl :: "string \<Rightarrow> string list" where
  "spl [] = [[]]"
| "spl (c # cs) = (if c = CHR '' '' then [] # spl cs else (c # hd (spl cs)) # tl (spl cs))"

lemma spl_ne [simp]: "spl s \<noteq> []"
  by (induction s) auto

lemma spl_append: "spl (l @ CHR '' '' # r) = spl l @ spl r"
proof (induction l)
  case Nil
  show ?case by simp
next
  case (Cons c l)
  have "spl l \<noteq> []" by simp
  with Cons show ?case by (simp del: spl_ne)
qed

lemma spl_word: "CHR '' '' \<notin> set w \<Longrightarrow> spl w = [w]"
  by (induction w) auto

lemma join_snd: "ts \<noteq> [] \<Longrightarrow> join sep (t # ts) = t @ sep @ join sep ts"
  by (cases ts) auto

lemma join_append:
  "ts \<noteq> [] \<Longrightarrow> us \<noteq> [] \<Longrightarrow> join sep (ts @ us) = join sep ts @ sep @ join sep us"
proof (induction ts)
  case Nil
  then show ?case by simp
next
  case (Cons t ts)
  then show ?case by (cases "ts = []") (simp_all add: join_snd)
qed

lemma join_spl: "join '' '' (spl s) = s"
proof (induction s)
  case Nil
  show ?case by simp
next
  case (Cons c s)
  show ?case
  proof (cases "c = CHR '' ''")
    case True
    with Cons.IH show ?thesis by (simp add: join_snd)
  next
    case False
    have "join '' '' ((c # hd (spl s)) # tl (spl s)) = c # join '' '' (hd (spl s) # tl (spl s))"
      by (cases "tl (spl s)") auto
    with False Cons.IH show ?thesis by simp
  qed
qed

definition no_space :: "string list \<Rightarrow> bool" where
  "no_space ts \<longleftrightarrow> (\<forall>t \<in> set ts. CHR '' '' \<notin> set t)"

lemma spl_join: "ts \<noteq> [] \<Longrightarrow> no_space ts \<Longrightarrow> spl (join '' '' ts) = ts"
proof (induction ts)
  case Nil
  then show ?case by simp
next
  case (Cons t ts)
  then show ?case
    by (cases "ts = []") (auto simp: join_snd spl_append spl_word no_space_def)
qed

text \<open>An operator with its two spaces occurs in a text of words only where the word occurs.\<close>

lemma op_occurs:
  assumes "join '' '' ts = l @ CHR '' '' # w @ '' '' @ r" and "ts \<noteq> []" and "no_space ts"
    and "CHR '' '' \<notin> set w"
  shows "ts = spl l @ w # spl r"
proof -
  have "ts = spl (l @ CHR '' '' # (w @ CHR '' '' # r))"
    using assms spl_join [OF assms(2,3)] by simp
  also have "\<dots> = spl l @ w # spl r"
    by (simp only: spl_append spl_word [OF assms(4)]) simp
  finally show ?thesis .
qed

lemma split_op_None:
  assumes "w \<notin> set ts" and "ts \<noteq> []" and "no_space ts" and "CHR '' '' \<notin> set w"
  shows "split_once (CHR '' '' # w @ '' '') (join '' '' ts) = None"
proof (rule ccontr)
  assume "\<not> ?thesis"
  then obtain l r where "split_once (CHR '' '' # w @ '' '') (join '' '' ts) = Some (l, r)" by auto
  from split_once_Some [OF this] op_occurs [OF _ assms(2-4)] assms(1) show False
    by (metis append.assoc append_Cons in_set_conv_decomp)
qed

lemma split_op_Some:
  assumes "w \<notin> set ts" and "ts \<noteq> []" and "us \<noteq> []" and ns: "no_space (ts @ w # us)"
    and w: "CHR '' '' \<notin> set w"
  shows "split_once (CHR '' '' # w @ '' '') (join '' '' (ts @ w # us)) = Some (join '' '' ts, join '' '' us)"
proof -
  let ?p = "CHR '' '' # w @ '' ''" and ?s = "join '' '' (ts @ w # us)"
  have s: "?s = join '' '' ts @ ?p @ join '' '' us"
    using assms(2,3) by (simp add: join_append join_snd)
  then have "contains ?s ?p" unfolding contains_iff by blast
  then obtain l r where lr: "split_once ?p ?s = Some (l, r)" by (auto simp: contains_def)
  from split_once_Some [OF lr] have s': "?s = l @ ?p @ r" .
  from split_once_first [OF lr _ s] have le: "length l \<le> length (join '' '' ts)" by simp
  have words: "ts @ w # us = spl l @ w # spl r"
    by (rule op_occurs [OF _ _ ns w]) (use s' in simp_all)
  have "length ts \<le> length (spl l)"
  proof (rule ccontr)
    assume "\<not> ?thesis"
    then have lt: "length (spl l) < length ts" by simp
    have "(ts @ w # us) ! length (spl l) = w" using words by simp
    with lt have "w \<in> set ts" by (metis nth_append nth_mem)
    with assms(1) show False by simp
  qed
  then obtain z where z: "spl l = ts @ z"
    using words by (metis append_eq_append_conv_if append_take_drop_id)
  have "length (join '' '' ts) \<le> length (join '' '' (spl l))"
    unfolding z using assms(2) by (cases "z = []") (simp_all add: join_append)
  with le have "length l = length (join '' '' ts)" by (simp add: join_spl)
  with s s' have "l = join '' '' ts" "r = join '' '' us" by auto
  with lr show ?thesis by simp
qed

subsection \<open>The words of a canonical condition\<close>

definition sides_plain :: "string list \<Rightarrow> bool" where
  "sides_plain ts \<longleftrightarrow> ts \<noteq> [] \<and> (\<forall>t \<in> set ts. t \<noteq> [] \<and> (\<forall>c \<in> set t. \<not> is_ws c))"

lemma sides_plain_no_space: "sides_plain ts \<Longrightarrow> no_space ts"
  by (fastforce simp: sides_plain_def no_space_def is_ws_def)

lemma trim_join: "sides_plain ts \<Longrightarrow> trim (join '' '' ts) = join '' '' ts"
proof -
  assume sp: "sides_plain ts"
  have ends: "join '' '' ts \<noteq> [] \<and> hd (join '' '' ts) \<in> set (hd ts) \<and> last (join '' '' ts) \<in> set (last ts)"
    if "ts \<noteq> []" "\<forall>t \<in> set ts. t \<noteq> []" for ts
    using that
  proof (induction ts)
    case Nil
    then show ?case by simp
  next
    case (Cons t ts)
    then show ?case by (cases "ts = []") (auto simp: join_snd)
  qed
  have "\<forall>c \<in> set (hd ts). \<not> is_ws c" "\<forall>c \<in> set (last ts). \<not> is_ws c"
    using sp by (auto simp: sides_plain_def)
  then show ?thesis
    using ends [of ts] sp by (intro trim_id) (auto simp: sides_plain_def)
qed

lemma plain_quoted: "plain v \<Longrightarrow> \<forall>c \<in> set (quoted v). \<not> is_ws c"
  by (auto simp: plain_def quoted_def is_ws_def)

lemma cond_words_plain: "canon n e \<Longrightarrow> sides_plain (cond_words e)"
proof (induction e arbitrary: n)
  case (CNe k v)
  then show ?case
    using plain_quoted [of v]
    by (auto simp: sides_plain_def name_ok_def plain_def quoted_def is_ws_def)
next
  case (CEq k v)
  then show ?case
    using plain_quoted [of v]
    by (auto simp: sides_plain_def name_ok_def plain_def quoted_def is_ws_def)
next
  case (CAnd a b)
  then have "sides_plain (cond_words a)" "sides_plain (cond_words b)" by auto
  then show ?case by (auto simp: sides_plain_def is_ws_def)
next
  case (COr a b)
  then have "sides_plain (cond_words a)" "sides_plain (cond_words b)" by auto
  then show ?case by (auto simp: sides_plain_def is_ws_def)
next
  case (CNot a)
  then have "sides_plain (cond_words a)" by auto
  then show ?case by (auto simp: sides_plain_def is_ws_def)
qed (auto simp: sides_plain_def name_ok_def plain_def)

lemma quoted_no_op: "quoted v \<noteq> CHR ''O'' # x" "quoted v \<noteq> CHR ''A'' # x" "quoted v \<noteq> CHR ''N'' # x"
  "quoted v \<noteq> CHR ''='' # x" "quoted v \<noteq> CHR ''!'' # x"
  by (simp_all add: quoted_def)

lemma canon_mono: "canon n e \<Longrightarrow> m \<le> n \<Longrightarrow> canon m e"
  by (cases e) auto

lemma no_or: "canon 1 e \<Longrightarrow> ''OR'' \<notin> set (cond_words e)"
proof (induction e)
  case (CAnd a b)
  moreover have "canon 1 a" using CAnd.prems canon_mono [of 2 a 1] by simp
  ultimately show ?case by simp
next
  case (CNot a)
  moreover have "canon 1 a" using CNot.prems canon_mono [of 2 a 1] by simp
  ultimately show ?case by simp
qed (auto simp: name_ok_def quoted_def)

lemma no_and: "canon 2 e \<Longrightarrow> ''AND'' \<notin> set (cond_words e)"
  by (induction e) (auto simp: name_ok_def quoted_def)

lemma strip_not_join:
  assumes "sides_plain (t # ts)" and "t \<noteq> ''NOT''"
  shows "strip_prefix ''NOT '' (join '' '' (t # ts)) = None"
proof (rule ccontr)
  assume "\<not> ?thesis"
  then obtain r where "strip_prefix ''NOT '' (join '' '' (t # ts)) = Some r" by blast
  then have "join '' '' (t # ts) = ''NOT'' @ CHR '' '' # r"
    unfolding strip_prefix_Some_iff by simp
  then have "spl (join '' '' (t # ts)) = ''NOT'' # spl r"
    by (simp only: spl_append) (simp add: spl_word)
  moreover have "spl (join '' '' (t # ts)) = t # ts"
    using assms(1) by (intro spl_join sides_plain_no_space) auto
  ultimately show False using assms(2) by simp
qed

lemma trim_plain: "plain w \<Longrightarrow> trim w = w"
proof (rule trim_id)
  assume "plain w"
  then show "w = [] \<or> \<not> is_ws (hd w) \<and> \<not> is_ws (last w)"
    by (cases "w = []") (simp_all add: plain_def)
qed

lemma trim_quoted: "plain v \<Longrightarrow> trim_char (CHR 0x22) (trim (quoted v)) = v"
proof -
  assume v: "plain v"
  have "trim (quoted v) = quoted v"
    by (rule trim_id) (simp add: quoted_def is_ws_def)
  moreover have "trim_char (CHR 0x22) (quoted v) = v"
  proof -
    have nq: "dropWhile (\<lambda>x. x = CHR 0x22) (u @ w) = u @ w" if "u \<noteq> []" "\<forall>c \<in> set u. c \<noteq> CHR 0x22" for u w
      using that by (cases u) auto
    show ?thesis
    proof (cases "v = []")
      case True
      then show ?thesis by (simp add: trim_char_def quoted_def)
    next
      case False
      then show ?thesis
        using v nq [of v "''\"''"] nq [of "rev v" "[]"] by (simp add: trim_char_def quoted_def plain_def)
    qed
  qed
  ultimately show ?thesis by simp
qed

subsection \<open>Reading a canonical text\<close>

lemma parse_words:
  assumes "sides_plain ts"
  shows "parse_cond (join '' '' ts) =
     (let s = join '' '' ts in
      case split_once '' OR '' s of
        Some (l, r) \<Rightarrow>
          and_then (parse_cond (trim l)) (\<lambda>a. and_then (parse_cond (trim r)) (\<lambda>b. Inr (COr a b)))
      | None \<Rightarrow>
        (case split_once '' AND '' s of
          Some (l, r) \<Rightarrow>
            and_then (parse_cond (trim l)) (\<lambda>a. and_then (parse_cond (trim r)) (\<lambda>b. Inr (CAnd a b)))
        | None \<Rightarrow>
          (case strip_prefix ''NOT '' s of
            Some rest \<Rightarrow> and_then (parse_cond (trim rest)) (\<lambda>a. Inr (CNot a))
          | None \<Rightarrow>
            (case split_once '' != '' s of
              Some (k, v) \<Rightarrow> Inr (CNe (trim k) (trim_char (CHR 0x22) (trim v)))
            | None \<Rightarrow>
              (case split_once '' == '' s of
                Some (k, v) \<Rightarrow> Inr (CEq (trim k) (trim_char (CHR 0x22) (trim v)))
              | None \<Rightarrow> Inr (CIdent s))))))"
proof -
  obtain t us where ts: "ts = t # us" and t: "t \<noteq> []"
    using assms by (cases ts) (auto simp: sides_plain_def)
  then have "join '' '' ts \<noteq> []"
    by (cases us) auto
  with trim_join [OF assms] show ?thesis
    by (subst parse_cond.simps) (simp only: Let_def if_False)
qed

lemma split_words_None:
  "w \<notin> set ts \<Longrightarrow> sides_plain ts \<Longrightarrow> CHR '' '' \<notin> set w \<Longrightarrow>
   split_once (CHR '' '' # w @ '' '') (join '' '' ts) = None"
  by (rule split_op_None) (auto simp: sides_plain_no_space sides_plain_def)

lemma split_words_Some:
  assumes "w \<notin> set ts" and "sides_plain ts" and "sides_plain us" and "sides_plain [w]"
  shows "split_once (CHR '' '' # w @ '' '') (join '' '' (ts @ w # us)) = Some (join '' '' ts, join '' '' us)"
proof (rule split_op_Some)
  have "sides_plain (ts @ w # us)" using assms by (auto simp: sides_plain_def)
  then show "no_space (ts @ w # us)" by (rule sides_plain_no_space)
  show "CHR '' '' \<notin> set w" using assms(4) sides_plain_no_space by (fastforce simp: no_space_def)
qed (use assms in \<open>auto simp: sides_plain_def\<close>)

lemma words_or: "canon 1 e \<Longrightarrow> split_once '' OR '' (show_cond e) = None"
  using split_words_None [of "''OR''" "cond_words e"] no_or cond_words_plain
  by (simp add: show_cond_def)

lemma words_and: "canon 2 e \<Longrightarrow> split_once '' AND '' (show_cond e) = None"
  using split_words_None [of "''AND''" "cond_words e"] no_and cond_words_plain
  by (simp add: show_cond_def)

lemma trim_show: "canon n e \<Longrightarrow> trim (show_cond e) = show_cond e"
  unfolding show_cond_def by (intro trim_join cond_words_plain)

lemmas parse_show = parse_words [OF cond_words_plain, folded show_cond_def]

lemma parse_show_or:
  assumes "canon 1 a" and "canon 0 b" and "parse_cond (show_cond a) = Inr a" and "parse_cond (show_cond b) = Inr b"
  shows "parse_cond (show_cond (COr a b)) = Inr (COr a b)"
proof -
  have c: "canon 0 (COr a b)" using assms by simp
  have "split_once '' OR '' (show_cond (COr a b)) = Some (show_cond a, show_cond b)"
    using split_words_Some [of "''OR''" "cond_words a" "cond_words b"] no_or [OF assms(1)]
      cond_words_plain [OF assms(1)] cond_words_plain [OF assms(2)]
    by (simp add: show_cond_def sides_plain_def is_ws_def)
  with assms show ?thesis
    by (simp add: parse_show [OF c] Let_def trim_show [OF assms(1)] trim_show [OF assms(2)])
qed

lemma parse_show_and:
  assumes "canon 2 a" and "canon 1 b" and "parse_cond (show_cond a) = Inr a" and "parse_cond (show_cond b) = Inr b"
  shows "parse_cond (show_cond (CAnd a b)) = Inr (CAnd a b)"
proof -
  have c: "canon 1 (CAnd a b)" using assms by simp
  have "split_once '' AND '' (show_cond (CAnd a b)) = Some (show_cond a, show_cond b)"
    using split_words_Some [of "''AND''" "cond_words a" "cond_words b"] no_and [OF assms(1)]
      cond_words_plain [OF assms(1)] cond_words_plain [OF assms(2)]
    by (simp add: show_cond_def sides_plain_def is_ws_def)
  with assms show ?thesis
    by (simp add: parse_show [OF c] Let_def words_or [OF c] trim_show [OF assms(1)] trim_show [OF assms(2)])
qed

lemma parse_show_not:
  assumes "canon 2 a" and "parse_cond (show_cond a) = Inr a"
  shows "parse_cond (show_cond (CNot a)) = Inr (CNot a)"
proof -
  have c: "canon 2 (CNot a)" using assms by simp
  have "cond_words a \<noteq> []" using cond_words_plain [OF assms(1)] by (simp add: sides_plain_def)
  then have "show_cond (CNot a) = ''NOT '' @ show_cond a"
    by (simp add: show_cond_def join_snd)
  then have strip: "strip_prefix ''NOT '' (show_cond (CNot a)) = Some (show_cond a)"
    by (simp only: strip_prefix_Some_iff)
  from assms(2) show ?thesis
    by (simp add: parse_show [OF c] Let_def words_or [OF canon_mono [OF c]] words_and [OF c]
        trim_show [OF assms(1)] strip del: strip_prefix.simps strip_prefix_Some_iff)
qed

lemma parse_show_cmp:
  assumes "name_ok k" and "plain v" and "e = CNe k v \<or> e = CEq k v"
  shows "parse_cond (show_cond e) = Inr e"
proof -
  have c: "canon 2 e" using assms by auto
  have kk: "plain k" "k \<noteq> []" "k \<noteq> ''NOT''" "k \<noteq> ''!=''" "k \<noteq> ''==''"
    using assms(1) by (auto simp: name_ok_def)
  have sp: "sides_plain [k]" "sides_plain [quoted v]"
    using kk plain_quoted [OF assms(2)] by (auto simp: sides_plain_def plain_def quoted_def)
  have strip: "strip_prefix ''NOT '' (show_cond e) = None"
  proof -
    obtain ts where "cond_words e = k # ts" using assms(3) by auto
    then show ?thesis
      using strip_not_join [of k ts] kk(3) cond_words_plain [OF c] by (simp add: show_cond_def)
  qed
  have ne: "split_once '' != '' (show_cond (CNe k v)) = Some (k, quoted v)"
    using split_words_Some [of "''!=''" "[k]" "[quoted v]"] sp kk
    by (simp add: show_cond_def sides_plain_def is_ws_def)
  have eq: "split_once '' == '' (show_cond (CEq k v)) = Some (k, quoted v)"
    using split_words_Some [of "''==''" "[k]" "[quoted v]"] sp kk
    by (simp add: show_cond_def sides_plain_def is_ws_def)
  have nn: "split_once '' != '' (show_cond (CEq k v)) = None"
    using split_words_None [of "''!=''" "cond_words (CEq k v)"] kk cond_words_plain [of 2 "CEq k v"] assms(1,2)
    by (simp add: show_cond_def quoted_def)
  note common = parse_show [OF c] Let_def words_or [OF canon_mono [OF c]] words_and [OF c] strip
    trim_plain [OF kk(1)] trim_quoted [OF assms(2)]
  show ?thesis
    using assms(3)
  proof
    assume e: "e = CNe k v"
    show ?thesis using common ne unfolding e by (simp del: strip_prefix.simps split_once.simps)
  next
    assume e: "e = CEq k v"
    show ?thesis using common eq nn unfolding e by (simp del: strip_prefix.simps split_once.simps)
  qed
qed

lemma parse_show_ident:
  assumes "name_ok x"
  shows "parse_cond (show_cond (CIdent x)) = Inr (CIdent x)"
proof -
  have c: "canon 2 (CIdent x)" using assms by simp
  have x: "x \<notin> {''OR'', ''AND'', ''NOT'', ''!='', ''==''}" using assms by (simp add: name_ok_def)
  have sp: "sides_plain [x]" using cond_words_plain [OF c] by simp
  have "strip_prefix ''NOT '' x = None" using strip_not_join [of x "[]"] sp x by simp
  moreover have "split_once '' != '' x = None" "split_once '' == '' x = None"
    using split_words_None [of "''!=''" "[x]"] split_words_None [of "''==''" "[x]"] sp x by auto
  ultimately show ?thesis
    using parse_show [OF c] words_or [OF canon_mono [OF c]] words_and [OF c]
    by (simp add: show_cond_def Let_def del: strip_prefix.simps split_once.simps)
qed

lemma parse_show_canon: "canon n e \<Longrightarrow> parse_cond (show_cond e) = Inr e"
proof (induction e arbitrary: n)
  case (CNe k v)
  then show ?case by (intro parse_show_cmp) auto
next
  case (CEq k v)
  then show ?case by (intro parse_show_cmp) auto
next
  case (CIdent x)
  then show ?case by (intro parse_show_ident) simp
next
  case (CAnd a b)
  then show ?case by (intro parse_show_and) auto
next
  case (COr a b)
  then show ?case by (intro parse_show_or) auto
next
  case (CNot a)
  then show ?case by (intro parse_show_not) auto
qed

end
