(* ===== verification/Flow_Engine.thy ===== *)
theory Flow_Engine
  imports World Condition
begin

text \<open>
  The flow state machine (\<open>crates/core/src/flow_engine.rs\<close>): the cache of flow definitions and its
  validation, the creation of a task, its advance through the states of its flow, the error policy, forced
  transitions and parallel states. Every operation works on the \<open>world\<close>: it reads and writes the
  database through store calls, each of which may fail or find the work of others, and it publishes events.
  The iteration order of a \<open>HashMap\<close> is the order of the association list. The failure of a poisoned
  lock and the log output are left out.
\<close>

section \<open>The registry of flow definitions\<close>

definition lookup_flow :: "string \<Rightarrow> (string, flow_def) table \<Rightarrow> atta_error + flow_def" where
  "lookup_flow i fs = ok_or (FlowNotFound i) (tbl_get fs i)"

definition get_flow_def :: "string \<Rightarrow> flow_def wio" where
  "get_flow_def i = (\<lambda>w. (lookup_flow i (w_flows w), w))"

definition cache_flow :: "flow_def \<Rightarrow> (string, flow_def) table \<Rightarrow> (string, flow_def) table" where
  "cache_flow f fs = tbl_upsert (fd_id f) f (\<lambda>_. f) fs"

definition load_flows :: "genv \<Rightarrow> unit wio" where
  "load_flows E = bindE (store_call E store_list_flow_defs) (\<lambda>flows.
     modifyE (\<lambda>w. w\<lparr>w_flows := fold cache_flow flows (w_flows w)\<rparr>))"

definition list_flow_defs :: "flow_def list wio" where
  "list_flow_defs = (\<lambda>w. (Inr (map snd (w_flows w)), w))"

definition list_flows :: "(string \<times> string option) list wio" where
  "list_flows = (\<lambda>w. (Inr (map (\<lambda>(_, f). (fd_id f, fd_name f)) (w_flows w)), w))"

subsection \<open>Validation\<close>

definition has_state :: "flow_def \<Rightarrow> string \<Rightarrow> bool" where
  "has_state f s \<longleftrightarrow> map_of (fd_states f) s \<noteq> None"

definition is_auto :: "transition_def \<Rightarrow> bool" where
  "is_auto tr = (case tr_auto tr of None \<Rightarrow> False | Some b \<Rightarrow> b)"

definition invalid_if :: "bool \<Rightarrow> string \<Rightarrow> atta_error + unit" where
  "invalid_if b msg = (if b then Inl (Validation msg) else Inr ())"

definition count_states :: "state_type \<Rightarrow> flow_def \<Rightarrow> nat" where
  "count_states st f = length (filter (\<lambda>(_, sd). sd_type sd = st) (fd_states f))"

definition validate_state :: "flow_def \<Rightarrow> string \<times> state_def \<Rightarrow> atta_error + unit" where
  "validate_state f = (\<lambda>(name, sd).
     and_then (invalid_if (sd_type sd = GateState \<and> sd_gate sd = None)
       (''gate state '' @ squote name @ '' in flow '' @ squote (fd_id f) @ '' must have a '' @ squote ''gate'' @ '' field'')) (\<lambda>_.
     and_then (if sd_type sd = GateState
               then each (\<lambda>tr. invalid_if (is_auto tr)
                 (''gate state '' @ squote name @ '' in flow '' @ squote (fd_id f) @
                  '' must not have auto transitions (bypasses approval)'')) (sd_transitions sd)
               else Inr ()) (\<lambda>_.
     each (\<lambda>tr. invalid_if (\<not> has_state f (tr_to tr))
       (''transition target '' @ squote (tr_to tr) @ '' from state '' @ squote name @ '' not found in flow '' @ squote (fd_id f)))
       (sd_transitions sd))))"

definition validate_policy :: "flow_def \<Rightarrow> error_policy \<Rightarrow> atta_error + unit" where
  "validate_policy f p =
     and_then (invalid_if (\<not> has_state f (ep_fallback p))
       (''error policy fallback state '' @ squote (ep_fallback p) @ '' not found in flow '' @ squote (fd_id f))) (\<lambda>_.
     each (\<lambda>s. invalid_if (\<not> has_state f s)
       (''error policy retry state '' @ squote s @ '' not found in flow '' @ squote (fd_id f))) (ep_retry_states p))"

definition validate_flow_def :: "flow_def \<Rightarrow> atta_error + unit" where
  "validate_flow_def f =
     and_then (invalid_if (count_states StartState f \<noteq> 1)
       (''flow '' @ squote (fd_id f) @ '' must have exactly one Start state, found '' @ show_nat (count_states StartState f))) (\<lambda>_.
     and_then (invalid_if (count_states EndState f = 0)
       (''flow '' @ squote (fd_id f) @ '' must have at least one End state'')) (\<lambda>_.
     and_then (each (validate_state f) (fd_states f)) (\<lambda>_.
     (case fd_on_error f of None \<Rightarrow> Inr () | Some p \<Rightarrow> validate_policy f p))))"

definition register_flow_def :: "flow_def \<Rightarrow> unit wio" where
  "register_flow_def f = bindE (liftE (validate_flow_def f)) (\<lambda>_.
     modifyE (\<lambda>w. w\<lparr>w_flows := cache_flow f (w_flows w)\<rparr>))"

text \<open>
  \<open>load_flows_from_dir\<close>: \<open>entries\<close> are the files of the directory in the order the system lists
  them, each with its extension and with the definition it parses to, if it can be read and does. A file with
  another extension, an unreadable one and an invalid definition are skipped.
\<close>

fun load_flows_from_dir :: "(string \<times> flow_def option) list \<Rightarrow> nat wio" where
  "load_flows_from_dir [] = retE 0"
| "load_flows_from_dir ((ext, content) # es) =
     (if ext \<noteq> ''yaml'' \<and> ext \<noteq> ''yml'' then load_flows_from_dir es
      else case content of
             None \<Rightarrow> load_flows_from_dir es
           | Some f \<Rightarrow>
               (case validate_flow_def f of
                  Inl _ \<Rightarrow> load_flows_from_dir es
                | Inr _ \<Rightarrow> bindE (modifyE (\<lambda>w. w\<lparr>w_flows := cache_flow f (w_flows w)\<rparr>)) (\<lambda>_.
                             bindE (load_flows_from_dir es) (\<lambda>n. retE (Suc n)))))"

section \<open>One transition\<close>

text \<open>The status that the target state gives to the task.\<close>

definition end_status :: "task \<Rightarrow> task_status" where
  "end_status t =
     (case jget (t_state_data t) ''error'' of
        None \<Rightarrow> Completed
      | Some v \<Rightarrow> Failed (case as_str v of None \<Rightarrow> ''flow reached failure state'' | Some s \<Rightarrow> s))"

definition status_on_enter :: "task \<Rightarrow> state_def option \<Rightarrow> task_status" where
  "status_on_enter t sd =
     (case sd of
        None \<Rightarrow> Running
      | Some d \<Rightarrow> (case sd_type d of EndState \<Rightarrow> end_status t | GateState \<Rightarrow> WaitingApproval | _ \<Rightarrow> Running))"

definition enter_action :: "genv \<Rightarrow> task \<Rightarrow> string \<Rightarrow> on_enter_action \<Rightarrow> unit wio" where
  "enter_action E t state a =
     (case a of
        PublishEvent ty \<Rightarrow>
          bindE (event_new E ty (entity_task E (t_id t)) actor_system (t_id t)
                   (mk_obj [(''task_id'', juuid E (t_id t)), (''state'', JStr state)])) (\<lambda>ev.
          publish E ty ev)
      | SetVariable key v \<Rightarrow>
          store_call_now E (\<lambda>now. merge_task_state_data E (t_id t) (JObj [(key, v)]) now)
      | Log msg \<Rightarrow> retE ())"

definition execute_on_enter :: "genv \<Rightarrow> task \<Rightarrow> string \<Rightarrow> on_enter_action list option \<Rightarrow> unit wio" where
  "execute_on_enter E t state acts =
     (case acts of None \<Rightarrow> retE () | Some xs \<Rightarrow> forE xs (enter_action E t state))"

definition transition_record :: "task \<Rightarrow> string \<Rightarrow> timestamp \<Rightarrow> state_transition" where
  "transition_record t target now =
     \<lparr>st_from = t_current_state t, st_to = target,
      st_reason = ''transition from '' @ t_current_state t @ '' to '' @ target, st_timestamp = now\<rparr>"

definition transition :: "genv \<Rightarrow> task \<Rightarrow> string \<Rightarrow> unit wio" where
  "transition E t target =
     bindE (get_flow_def (t_flow_id t)) (\<lambda>f.
     bindE (now_io E) (\<lambda>now0.
     let sd = map_of (fd_states f) target in
     bindE (store_call_now E (\<lambda>now. advance_task E (t_id t) (status_on_enter t sd) target
              (transition_record t target now0) (t_version t) now)) (\<lambda>_.
     bindE (ev_flow_advanced E (t_id t) (t_current_state t) target) (\<lambda>ev.
     bindE (publish E ''atta.flow.advanced'' ev) (\<lambda>_.
     (case sd of None \<Rightarrow> retE () | Some d \<Rightarrow> execute_on_enter E t target (sd_on_enter d)))))))"

definition force_transition :: "genv \<Rightarrow> task \<Rightarrow> string \<Rightarrow> unit wio" where
  "force_transition E t target =
     bindE (get_flow_def (t_flow_id t)) (\<lambda>f.
     if \<not> has_state f target
     then failE (Validation (''target state '' @ squote target @ '' not found in flow '' @ squote (t_flow_id t)))
     else transition E t target)"

text \<open>The result says whether the policy has taken the error over.\<close>

definition handle_error_policy :: "genv \<Rightarrow> task \<Rightarrow> flow_def \<Rightarrow> flow_state \<Rightarrow> atta_error \<Rightarrow> bool wio" where
  "handle_error_policy E t f fs err =
     (case fd_on_error f of
        None \<Rightarrow> retE False
      | Some p \<Rightarrow>
          if t_current_state t \<notin> set (ep_retry_states p) then retE False
          else if fs_retry_count fs < ep_max_retries p
          then let n = fs_retry_count fs + 1 in
               bindE (store_call_now E (save_flow_state (t_id t) (fs\<lparr>fs_retry_count := n\<rparr>))) (\<lambda>_.
               bindE (ev_flow_retry E (t_id t) (t_current_state t) n) (\<lambda>ev.
               bindE (publish E ''atta.flow.retry'' ev) (\<lambda>_. retE True)))
          else bindE (force_transition E t (ep_fallback p)) (\<lambda>_. retE True))"

section \<open>Parallel states\<close>

subsection \<open>First visit: one task per branch\<close>

definition join_text :: "join_strategy \<Rightarrow> string" where
  "join_text js = (case js of JoinAll \<Rightarrow> ''all'' | FailFast \<Rightarrow> ''fail_fast'')"

text \<open>The input of a branch: the parent's data, or what the mapping picks from it.\<close>

definition branch_input :: "task \<Rightarrow> branch_def \<Rightarrow> json" where
  "branch_input t b =
     (case br_input_mapping b of
        None \<Rightarrow> t_state_data t
      | Some m \<Rightarrow> JObj (fold (\<lambda>(tk, sk) acc.
          case jget (t_state_data t) sk of None \<Rightarrow> acc | Some v \<Rightarrow> obj_insert tk v acc) m []))"

definition branch_task :: "task \<Rightarrow> branch_def \<Rightarrow> uuid \<Rightarrow> timestamp \<Rightarrow> timestamp \<Rightarrow> task" where
  "branch_task t b i created updated =
     \<lparr>t_id = i, t_flow_id = t_flow_id t @ ''/_parallel/'' @ br_skill b, t_current_state = ''start'',
      t_state_data = mk_obj [], t_input = branch_input t b, t_output = None, t_status = Running,
      t_created_by = actor_system, t_created_at = created, t_updated_at = updated,
      t_completed_at = None, t_version = 0\<rparr>"

definition spawn_branch :: "genv \<Rightarrow> task \<Rightarrow> nat \<Rightarrow> branch_def \<Rightarrow> string wio" where
  "spawn_branch E t n b =
     bindE (fresh_uuid E) (\<lambda>i.
     bindE (now_io E) (\<lambda>created.
     bindE (now_io E) (\<lambda>updated.
     bindE (store_call E (create_task (branch_task t b i created updated))) (\<lambda>_.
     bindE (event_new E ''atta.parallel.branch_spawned'' (entity_task E (t_id t)) actor_system (t_id t)
              (mk_obj [(''parent_task_id'', juuid E (t_id t)), (''branch_task_id'', juuid E i),
                       (''branch_index'', JInt (int n)), (''agent'', JStr (br_agent b)),
                       (''skill'', JStr (br_skill b))])) (\<lambda>ev.
     bindE (publish E ''atta.parallel.branch_spawned'' ev) (\<lambda>_.
     retE (uuid_show E i)))))))"

fun spawn_branches :: "genv \<Rightarrow> task \<Rightarrow> nat \<Rightarrow> branch_def list \<Rightarrow> string list wio" where
  "spawn_branches E t n [] = retE []"
| "spawn_branches E t n (b # bs) =
     bindE (spawn_branch E t n b) (\<lambda>i. bindE (spawn_branches E t (Suc n) bs) (\<lambda>is. retE (i # is)))"

definition spawn_phase :: "genv \<Rightarrow> task \<Rightarrow> branch_def list \<Rightarrow> join_strategy \<Rightarrow> unit wio" where
  "spawn_phase E t bs js =
     bindE (spawn_branches E t 0 bs) (\<lambda>ids.
     bindE (now_io E) (\<lambda>spawned.
     store_call_now E (merge_task_state_data E (t_id t)
       (mk_obj [(''_parallel'', mk_obj [(''branch_tasks'', JArr (map JStr ids)),
                  (''join_strategy'', JStr (join_text js)), (''spawned_at'', JStr (ts_show E spawned))])]))))"

subsection \<open>Later visits: the branches are polled\<close>

text \<open>\<open>serde_json::from_value::<Vec<String>>\<close>: an array of strings, or nothing.\<close>

fun json_strings :: "json list \<Rightarrow> string list option" where
  "json_strings [] = Some []"
| "json_strings (v # vs) =
     Option.bind (as_str v) (\<lambda>s. map_option ((#) s) (json_strings vs))"

definition parallel_field :: "task \<Rightarrow> string \<Rightarrow> json option" where
  "parallel_field t k = Option.bind (jget (t_state_data t) ''_parallel'') (\<lambda>p. jget p k)"

definition branch_ids :: "task \<Rightarrow> string list" where
  "branch_ids t =
     (case Option.bind (parallel_field t ''branch_tasks'') (\<lambda>v. Option.bind (as_array v) json_strings) of
        None \<Rightarrow> [] | Some is \<Rightarrow> is)"

definition parse_branch_id :: "genv \<Rightarrow> string \<Rightarrow> uuid wio" where
  "parse_branch_id E s = liftE (ok_or (Validation ''invalid branch task id'') (uuid_parse E s))"

text \<open>\<open>all_completed\<close>, \<open>any_failed\<close> and \<open>branch_results\<close>.\<close>

record poll =
  po_all :: bool
  po_failed :: bool
  po_results :: "(string \<times> json) list"

definition error_obj :: "string \<Rightarrow> json" where
  "error_obj e = mk_obj [(''error'', JStr e)]"

fun poll_branches :: "genv \<Rightarrow> join_strategy \<Rightarrow> string list \<Rightarrow> poll \<Rightarrow> poll wio" where
  "poll_branches E js [] p = retE p"
| "poll_branches E js (s # ss) p =
     bindE (parse_branch_id E s) (\<lambda>i.
     bindE (store_call E (get_task i)) (\<lambda>found.
     case found of
       None \<Rightarrow> poll_branches E js ss (p\<lparr>po_all := False\<rparr>)
     | Some b \<Rightarrow>
         (case t_status b of
            Completed \<Rightarrow>
              poll_branches E js ss (p\<lparr>po_results := obj_insert s
                (case t_output b of None \<Rightarrow> mk_obj [(''_no_output'', JBool True)] | Some v \<Rightarrow> v) (po_results p)\<rparr>)
          | Failed e \<Rightarrow>
              let p' = p\<lparr>po_failed := True, po_results := obj_insert s (error_obj e) (po_results p)\<rparr>
              in if js = FailFast then retE p' else poll_branches E js ss p'
          | _ \<Rightarrow> poll_branches E js ss (p\<lparr>po_all := False\<rparr>))))"

text \<open>\<open>num_seconds\<close> drops the fraction, towards zero.\<close>

definition num_seconds :: "int \<Rightarrow> int" where
  "num_seconds ns = (if 0 \<le> ns then ns div 1000000000 else - ((- ns) div 1000000000))"

definition timeout_text :: "u64 \<Rightarrow> string" where
  "timeout_text secs = ''parallel branch timed out after '' @ show_nat (unat secs) @ ''s''"

fun fail_branches :: "genv \<Rightarrow> u64 \<Rightarrow> string list \<Rightarrow> poll \<Rightarrow> poll wio" where
  "fail_branches E secs [] p = retE p"
| "fail_branches E secs (s # ss) p =
     (if map_of (po_results p) s \<noteq> None then fail_branches E secs ss p
      else
        bindE (parse_branch_id E s) (\<lambda>i.
        bindE (store_call_now E (update_task_status E i (Failed (timeout_text secs)))) (\<lambda>_.
        fail_branches E secs ss
          (p\<lparr>po_results := obj_insert s (error_obj (timeout_text secs)) (po_results p), po_failed := True\<rparr>))))"

definition check_timeout :: "genv \<Rightarrow> task \<Rightarrow> state_def \<Rightarrow> string list \<Rightarrow> poll \<Rightarrow> poll wio" where
  "check_timeout E t sd ids p =
     (if po_all p then retE p
      else case sd_timeout_secs sd of
        None \<Rightarrow> retE p
      | Some secs \<Rightarrow>
          (case Option.bind (Option.bind (parallel_field t ''spawned_at'') as_str) (ts_parse E) of
             None \<Rightarrow> retE p
           | Some spawned \<Rightarrow>
               bindE (now_io E) (\<lambda>now.
               if num_seconds (now - spawned) < sint secs then retE p
               else bindE (fail_branches E secs ids p) (\<lambda>p'. retE (p'\<lparr>po_all := True\<rparr>)))))"

text \<open>
  The two ways to join. The task is read again first: a version that has moved on defers the join. The
  transition itself works on the task as it was when the poll began.
\<close>

definition join_with :: "genv \<Rightarrow> task \<Rightarrow> state_def \<Rightarrow> json \<Rightarrow> unit wio" where
  "join_with E t sd patch =
     bindE (store_call E (get_task (t_id t))) (\<lambda>found.
     bindE (liftE (ok_or (NotFound ''task'' (uuid_show E (t_id t))) found)) (\<lambda>cur.
     if t_version cur \<noteq> t_version t then retE ()
     else
       bindE (store_call_now E (merge_task_state_data E (t_id t) patch)) (\<lambda>_.
       case List.find is_auto (sd_transitions sd) of
         None \<Rightarrow> retE ()
       | Some tr \<Rightarrow> transition E t (tr_to tr))))"

definition join_phase :: "genv \<Rightarrow> task \<Rightarrow> state_def \<Rightarrow> join_strategy \<Rightarrow> poll \<Rightarrow> unit wio" where
  "join_phase E t sd js p =
     (if po_failed p \<and> js = FailFast
      then join_with E t sd (mk_obj [(''_parallel_results'', JObj (po_results p)),
                                     (''error'', JStr ''parallel branch failed (fail_fast)'')])
      else if po_all p \<and> \<not> po_failed p
      then join_with E t sd (mk_obj [(''_parallel_results'', JObj (po_results p))])
      else retE ())"

definition handle_parallel_state :: "genv \<Rightarrow> task \<Rightarrow> state_def \<Rightarrow> unit wio" where
  "handle_parallel_state E t sd =
     (let bs = (case sd_branches sd of None \<Rightarrow> [] | Some bs \<Rightarrow> bs);
          js = (case sd_join_strategy sd of None \<Rightarrow> JoinAll | Some js \<Rightarrow> js);
          ids = branch_ids t
      in if bs = [] then retE ()
         else if ids = [] then spawn_phase E t bs js
         else
           bindE (poll_branches E js ids \<lparr>po_all = True, po_failed = False, po_results = []\<rparr>) (\<lambda>p.
           bindE (check_timeout E t sd ids p) (\<lambda>p'.
           join_phase E t sd js p')))"

section \<open>Advancing a task\<close>

datatype scan_result = Moved | Handled | Stay

definition try_transition :: "genv \<Rightarrow> task \<Rightarrow> flow_def \<Rightarrow> flow_state \<Rightarrow> string \<Rightarrow> scan_result wio" where
  "try_transition E t f fs target =
     tryE (transition E t target) (\<lambda>r.
       case r of
         Inr _ \<Rightarrow> retE Moved
       | Inl e \<Rightarrow> bindE (handle_error_policy E t f fs e) (\<lambda>handled.
                   if handled then retE Handled else failE e))"

text \<open>The transitions of a state in their order; the first that applies is taken.\<close>

fun scan_transitions ::
  "genv \<Rightarrow> (string \<Rightarrow> tool_def option) \<Rightarrow> task \<Rightarrow> flow_def \<Rightarrow> flow_state \<Rightarrow> transition_def list \<Rightarrow>
   scan_result wio" where
  "scan_transitions E tools t f fs [] = retE Stay"
| "scan_transitions E tools t f fs (tr # trs) =
     (if is_auto tr then try_transition E t f fs (tr_to tr)
      else case tr_when tr of
        None \<Rightarrow> scan_transitions E tools t f fs trs
      | Some c \<Rightarrow>
          bindE getE (\<lambda>w.
          bindE (liftE (evaluate (clk E (w_clk w)) tools t fs c)) (\<lambda>b.
          if b then try_transition E t f fs (tr_to tr)
          else scan_transitions E tools t f fs trs)))"

text \<open>One round of the loop of \<open>advance_by_id\<close>; the result says whether there is another.\<close>

definition advance_round :: "genv \<Rightarrow> (string \<Rightarrow> tool_def option) \<Rightarrow> uuid \<Rightarrow> bool wio" where
  "advance_round E tools i =
     bindE (store_call E (get_task i)) (\<lambda>found.
     bindE (liftE (ok_or (NotFound ''task'' (uuid_show E i)) found)) (\<lambda>t.
     bindE (get_flow_def (t_flow_id t)) (\<lambda>f.
     bindE (liftE (ok_or (Validation (''state '' @ squote (t_current_state t) @ '' not found in flow '' @
              squote (t_flow_id t))) (map_of (fd_states f) (t_current_state t)))) (\<lambda>sd.
     if sd_type sd = EndState then retE False
     else if sd_type sd = ParallelState then bindE (handle_parallel_state E t sd) (\<lambda>_. retE False)
     else
       bindE (store_call E (get_flow_state (t_id t))) (\<lambda>fso.
       let fs = (case fso of None \<Rightarrow> flow_state_default | Some fs \<Rightarrow> fs) in
       bindE (scan_transitions E tools t f fs (sd_transitions sd)) (\<lambda>r. retE (r = Moved)))))))"

definition max_cascade_depth :: nat where
  "max_cascade_depth = 100"

definition cascade_error :: "genv \<Rightarrow> uuid \<Rightarrow> atta_error" where
  "cascade_error E i =
     Validation (''flow advance exceeded maximum cascade depth ('' @ show_nat max_cascade_depth @
       '') for task '' @ uuid_show E i)"

fun advance_rounds :: "genv \<Rightarrow> (string \<Rightarrow> tool_def option) \<Rightarrow> nat \<Rightarrow> uuid \<Rightarrow> unit wio" where
  "advance_rounds E tools 0 i = failE (cascade_error E i)"
| "advance_rounds E tools (Suc n) i =
     bindE (advance_round E tools i) (\<lambda>more. if more then advance_rounds E tools n i else retE ())"

definition advance_by_id :: "genv \<Rightarrow> (string \<Rightarrow> tool_def option) \<Rightarrow> uuid \<Rightarrow> unit wio" where
  "advance_by_id E tools i = advance_rounds E tools max_cascade_depth i"

section \<open>Creating a task\<close>

definition new_task :: "uuid \<Rightarrow> flow_def \<Rightarrow> string \<Rightarrow> json \<Rightarrow> actor \<Rightarrow> timestamp \<Rightarrow> task" where
  "new_task i f flow_id input who now =
     \<lparr>t_id = i, t_flow_id = flow_id, t_current_state = fd_initial_state f, t_state_data = mk_obj [],
      t_input = input, t_output = None, t_status = Running, t_created_by = who, t_created_at = now,
      t_updated_at = now, t_completed_at = None, t_version = 0\<rparr>"

definition new_flow_state :: "uuid \<Rightarrow> flow_def \<Rightarrow> flow_state" where
  "new_flow_state i f =
     \<lparr>fs_task_id = i, fs_current_state = fd_initial_state f, fs_history = [],
      fs_pending_approval = None, fs_retry_count = 0\<rparr>"

definition engine_create_task ::
  "genv \<Rightarrow> (string \<Rightarrow> tool_def option) \<Rightarrow> string \<Rightarrow> json \<Rightarrow> actor \<Rightarrow> task wio" where
  "engine_create_task E tools flow_id input who =
     bindE (get_flow_def flow_id) (\<lambda>f.
     bindE (now_io E) (\<lambda>now.
     bindE (fresh_uuid E) (\<lambda>i.
     let t = new_task i f flow_id input who now in
     bindE (store_call_now E (create_task_with_flow t (new_flow_state i f))) (\<lambda>_.
     bindE (ev_task_created E t) (\<lambda>ev.
     bindE (publish E ''atta.task.created'' ev) (\<lambda>_.
     bindE (advance_by_id E tools (t_id t)) (\<lambda>_.
     retE t)))))))"

end
