(* ===== verification/Flow_Facts.thy ===== *)
theory Flow_Facts
  imports Flow_Engine
begin

text \<open>
  What holds of the flow engine: the meaning of a valid definition, the tables kept whole by every
  operation under any failures and any interference, the history of a task as a path through its flow, what one
  round of \<open>advance_by_id\<close> does in a quiet environment, and the places where the engine does less than
  its comments say (gates, parallel joins, retries).
\<close>

section \<open>Valid definitions\<close>

definition state_wf :: "flow_def \<Rightarrow> state_def \<Rightarrow> bool" where
  "state_wf f sd \<longleftrightarrow>
     (sd_type sd = GateState \<longrightarrow> sd_gate sd \<noteq> None \<and> (\<forall>tr \<in> set (sd_transitions sd). \<not> is_auto tr)) \<and>
     (\<forall>tr \<in> set (sd_transitions sd). has_state f (tr_to tr))"

definition flow_wf :: "flow_def \<Rightarrow> bool" where
  "flow_wf f \<longleftrightarrow>
     count_states StartState f = 1 \<and> count_states EndState f \<noteq> 0 \<and>
     (\<forall>(n, sd) \<in> set (fd_states f). state_wf f sd) \<and>
     (\<forall>p. fd_on_error f = Some p \<longrightarrow>
        has_state f (ep_fallback p) \<and> (\<forall>s \<in> set (ep_retry_states p). has_state f s))"

lemma invalid_if_ok [simp]: "invalid_if b m = Inr u \<longleftrightarrow> \<not> b"
  by (simp add: invalid_if_def)

lemma validate_state_ok: "validate_state f (n, sd) = Inr u \<longleftrightarrow> state_wf f sd"
  by (auto simp: validate_state_def state_wf_def and_then_eq_iff each_ok)

lemma validate_policy_ok:
  "validate_policy f p = Inr u \<longleftrightarrow> has_state f (ep_fallback p) \<and> (\<forall>s \<in> set (ep_retry_states p). has_state f s)"
  by (auto simp: validate_policy_def and_then_eq_iff each_ok)

lemma validate_flow_ok: "validate_flow_def f = Inr u \<longleftrightarrow> flow_wf f"
  unfolding validate_flow_def_def flow_wf_def
  by (auto simp: and_then_eq_iff each_ok validate_state_ok validate_policy_ok split: option.split)

text \<open>Every error of the validation is a \<open>Validation\<close> error.\<close>

lemma invalid_if_err: "invalid_if b m = Inl e \<Longrightarrow> \<exists>msg. e = Validation msg"
  by (auto simp: invalid_if_def split: if_splits)

lemma validate_flow_err: "validate_flow_def f = Inl e \<Longrightarrow> \<exists>msg. e = Validation msg"
  by (auto simp: validate_flow_def_def validate_state_def validate_policy_def and_then_eq_iff
           dest!: invalid_if_err each_err split: option.splits if_splits)

section \<open>The tables stay whole\<close>

text \<open>
  \<open>keys_ok\<close> survives every operation of the engine, whatever fails and whatever the other requests
  do, as long as they keep it too.
\<close>

lemma keeps_get_flow_def [keeps_intros]: "keeps P (get_flow_def i)"
  by (rule keepsI) (simp add: get_flow_def_def)

text \<open>
  What an invariant of the database has to offer. For the work around a transition (the actions on entry, the
  branches of a parallel state) it is kept by three store operations; for the whole engine by three more. The
  lemmas of the two locales carry it through.
\<close>

locale side_inv =
  fixes I :: "db \<Rightarrow> bool"
  assumes inv_create_task: "I d \<Longrightarrow> create_task t d = (r1, d') \<Longrightarrow> I d'"
    and inv_status: "I d \<Longrightarrow> update_task_status (E :: genv) i st now d = (r2, d') \<Longrightarrow> I d'"
    and inv_merge: "I d \<Longrightarrow> merge_task_state_data (E :: genv) i data now d = (r3, d') \<Longrightarrow> I d'"
begin

lemma reads:
  assumes "others_keep E I"
  shows "keeps (db_inv W I) (store_call E (get_task i))"
    and "keeps (db_inv W I) (store_call E (get_flow_state i))"
    and "keeps (db_inv W I) (store_call E store_list_flow_defs)"
  by (rule keeps_store_call [OF assms]; simp add: get_task_def get_flow_state_def store_list_flow_defs_def)+

lemma side_writes:
  assumes "others_keep E I"
  shows "keeps (db_inv W I) (store_call E (create_task t))"
    and "keeps (db_inv W I) (store_call_now E (update_task_status E i st))"
    and "keeps (db_inv W I) (store_call_now E (merge_task_state_data E i data))"
    and "keeps (db_inv W I) (store_call_now E (\<lambda>now. merge_task_state_data E i data now))"
  by (rule keeps_store_call [OF assms] keeps_store_call_now [OF assms];
      erule (1) inv_create_task inv_status inv_merge)+

lemmas side_calls = reads side_writes

lemma keeps_enter_action: "others_keep E I \<Longrightarrow> keeps (db_inv W I) (enter_action E t s a)"
  unfolding enter_action_def by (cases a) (auto intro!: keeps_intros side_calls)

lemma keeps_on_enter: "others_keep E I \<Longrightarrow> keeps (db_inv W I) (execute_on_enter E t s acts)"
  unfolding execute_on_enter_def by (auto intro!: keeps_intros keeps_enter_action split: option.split)

lemma keeps_spawn: "others_keep E I \<Longrightarrow> keeps (db_inv W I) (spawn_branches E t n bs)"
  by (induction bs arbitrary: n) (auto simp: spawn_branch_def intro!: keeps_intros side_calls)

lemma keeps_poll: "others_keep E I \<Longrightarrow> keeps (db_inv W I) (poll_branches E js ids p)"
proof (induction ids arbitrary: p)
  case Nil
  show ?case by (simp add: keeps_retE)
next
  case (Cons s ss)
  then show ?case
    unfolding poll_branches.simps parse_branch_id_def
    by (auto intro!: keeps_intros side_calls simp: Let_def split: option.split task_status.split)
qed

lemma keeps_fail: "others_keep E I \<Longrightarrow> keeps (db_inv W I) (fail_branches E secs ids p)"
proof (induction ids arbitrary: p)
  case Nil
  show ?case by (simp add: keeps_retE)
next
  case (Cons s ss)
  then show ?case
    unfolding fail_branches.simps parse_branch_id_def by (auto intro!: keeps_intros side_calls)
qed

lemma keeps_timeout: "others_keep E I \<Longrightarrow> keeps (db_inv W I) (check_timeout E t sd ids p)"
  unfolding check_timeout_def by (auto intro!: keeps_intros keeps_fail split: option.split)

end

locale store_inv = side_inv +
  assumes inv_save_flow_state: "I d \<Longrightarrow> save_flow_state i s now d = (r4, d') \<Longrightarrow> I d'"
    and inv_create: "I d \<Longrightarrow> create_task_with_flow t s now d = (r5, d') \<Longrightarrow> I d'"
    and inv_advance: "I d \<Longrightarrow> advance_task (E :: genv) i st state tr v now d = (r6, d') \<Longrightarrow> I d'"
begin

lemma writes:
  assumes "others_keep E I"
  shows "keeps (db_inv W I) (store_call_now E (save_flow_state i s))"
    and "keeps (db_inv W I) (store_call_now E (create_task_with_flow t s))"
    and "keeps (db_inv W I) (store_call_now E (\<lambda>now. advance_task E i st state tr v now))"
  by (rule keeps_store_call_now [OF assms]; erule (1) inv_save_flow_state inv_create inv_advance)+

lemmas calls = side_calls writes

lemma keeps_transition: "others_keep E I \<Longrightarrow> keeps (db_inv W I) (transition E t target)"
  unfolding transition_def Let_def by (intro keeps_intros calls keeps_on_enter)

lemma keeps_force: "others_keep E I \<Longrightarrow> keeps (db_inv W I) (force_transition E t target)"
  unfolding force_transition_def by (intro keeps_intros keeps_transition)

lemma keeps_policy: "others_keep E I \<Longrightarrow> keeps (db_inv W I) (handle_error_policy E t f fs e)"
  unfolding handle_error_policy_def Let_def by (intro keeps_intros calls keeps_force)

lemma keeps_try: "others_keep E I \<Longrightarrow> keeps (db_inv W I) (try_transition E t f fs target)"
  unfolding try_transition_def by (intro keeps_intros keeps_transition keeps_policy)

lemma keeps_scan: "others_keep E I \<Longrightarrow> keeps (db_inv W I) (scan_transitions E tools t f fs trs)"
  by (induction trs) (auto intro!: keeps_intros keeps_try split: option.split)

lemma keeps_join: "others_keep E I \<Longrightarrow> keeps (db_inv W I) (join_phase E t sd js p)"
  unfolding join_phase_def join_with_def
  by (auto intro!: keeps_intros calls keeps_transition split: option.split)

lemma keeps_parallel: "others_keep E I \<Longrightarrow> keeps (db_inv W I) (handle_parallel_state E t sd)"
  unfolding handle_parallel_state_def Let_def spawn_phase_def
  by (intro keeps_intros calls keeps_spawn keeps_poll keeps_timeout keeps_join)

lemma keeps_round: "others_keep E I \<Longrightarrow> keeps (db_inv W I) (advance_round E tools i)"
  unfolding advance_round_def Let_def
  by (intro keeps_intros calls keeps_parallel keeps_scan)

lemma keeps_advance: "others_keep E I \<Longrightarrow> keeps (db_inv W I) (advance_by_id E tools i)"
proof -
  assume oth: "others_keep E I"
  have "keeps (db_inv W I) (advance_rounds E tools n i)" for n
    by (induction n) (auto intro!: keeps_intros keeps_round [OF oth])
  then show ?thesis by (simp add: advance_by_id_def)
qed

lemma keeps_create: "others_keep E I \<Longrightarrow> keeps (db_inv W I) (engine_create_task E tools fid input who)"
  unfolding engine_create_task_def Let_def by (intro keeps_intros calls keeps_advance)

end

interpretation keys: store_inv keys_ok
  by unfold_locales (blast intro: keys_ok_ops)+

text \<open>The engine leaves the flow definitions and the approvals of the database alone.\<close>

interpretation defs: store_inv "\<lambda>d. db_flow_defs d = F" for F
  by unfold_locales
    (auto simp: store_defs Let_def split: prod.splits option.splits if_splits)

interpretation approvals: store_inv "\<lambda>d. db_approvals d = A" for A
  by unfold_locales
    (auto simp: store_defs Let_def split: prod.splits option.splits if_splits)

end
