(* ===== verification/Flow_Safety.thy ===== *)
theory Flow_Safety
  imports Flow_Facts
begin

text \<open>
  The history of a task under interference. Other requests may change the database before every store call and
  any call and publication may fail; what they must respect is the version discipline of the
  tasks (\<open>respectful\<close>). Under it the engine keeps \<open>paired\<close>: the history of a task is a path of
  transitions that ends in the state the task is in. The engine's own writes respect the discipline too.
  The theory also holds the case in which \<open>paired\<close> is lost: the retry of the error policy.
\<close>

section \<open>The version discipline\<close>

text \<open>A task stays, and its state changes only together with its version, which grows.\<close>

definition step_ok :: "db \<Rightarrow> db \<Rightarrow> bool" where
  "step_ok d d' \<longleftrightarrow>
     (\<forall>i r. tbl_get (db_tasks d) i = Some r \<longrightarrow>
        (\<exists>r'. tbl_get (db_tasks d') i = Some r' \<and>
           (rw_version r < rw_version r' \<or>
            rw_version r' = rw_version r \<and> rw_current_state r' = rw_current_state r)))"

definition respectful :: "genv \<Rightarrow> bool" where
  "respectful E \<longleftrightarrow> (\<forall>n d. step_ok d (others E n d) \<and> (paired d \<longrightarrow> paired (others E n d)))"

lemma respectful_keeps: "respectful E \<Longrightarrow> others_keep E paired"
  by (simp add: respectful_def others_keep_def)

text \<open>What a reader of a task knows of it from then on.\<close>

definition knows :: "task \<Rightarrow> db \<Rightarrow> bool" where
  "knows t d \<longleftrightarrow>
     (\<exists>r. tbl_get (db_tasks d) (t_id t) = Some r \<and> t_version t \<le> rw_version r \<and>
          (rw_version r = t_version t \<longrightarrow> rw_current_state r = t_current_state t))"

lemma knows_step:
  assumes "knows t d" and "step_ok d d'"
  shows "knows t d'"
proof -
  from assms(1) obtain r where r: "tbl_get (db_tasks d) (t_id t) = Some r" "t_version t \<le> rw_version r"
    "rw_version r = t_version t \<longrightarrow> rw_current_state r = t_current_state t"
    by (auto simp: knows_def)
  from assms(2) r(1) obtain r' where r': "tbl_get (db_tasks d') (t_id t) = Some r'"
    and alt: "rw_version r < rw_version r' \<or>
              rw_version r' = rw_version r \<and> rw_current_state r' = rw_current_state r"
    unfolding step_ok_def by blast
  from alt show ?thesis
  proof
    assume "rw_version r < rw_version r'"
    with r(2) have "t_version t < rw_version r'" by (rule order.strict_trans1)
    with r' show ?thesis by (auto simp: knows_def)
  next
    assume "rw_version r' = rw_version r \<and> rw_current_state r' = rw_current_state r"
    with r r' show ?thesis by (auto simp: knows_def)
  qed
qed

lemma knows_others: "respectful E \<Longrightarrow> others_keep E (\<lambda>d. paired d \<and> knows t d)"
  unfolding respectful_def others_keep_def using knows_step by blast

lemma knows_task_update:
  assumes "\<And>r. rw_current_state (g r) = rw_current_state r" and "\<And>r. rw_version (g r) = rw_version r"
  shows "knows t d \<Longrightarrow> knows t (d\<lparr>db_tasks := tbl_update i g (db_tasks d)\<rparr>)"
  using assms by (fastforce simp: knows_def tbl_get_update)

lemma knows_ops:
  "knows t d \<Longrightarrow> update_task_status E i st now d = (r2, d2) \<Longrightarrow> knows t d2"
  "knows t d \<Longrightarrow> merge_task_state_data E i data now d = (r3, d3) \<Longrightarrow> knows t d3"
  "knows t d \<Longrightarrow> create_task t' d = (r4, d4) \<Longrightarrow> knows t d4"
  by (auto simp: update_task_status_def merge_task_state_data_def Let_def intro: knows_task_update
           split: prod.splits option.splits if_splits)
    (auto simp: create_task_def knows_def tbl_insert_def tbl_get_snoc split: option.splits if_splits)

section \<open>Transitions\<close>

interpretation knowing: side_inv "\<lambda>d. paired d \<and> knows t d" for t
  by unfold_locales
    (blast intro: paired_create_task paired_update_task_status paired_merge_task_state_data knows_ops)+

interpretation pairing: side_inv paired
  by unfold_locales
    (blast intro: paired_create_task paired_update_task_status paired_merge_task_state_data)+

lemma triple_advance_call:
  assumes "respectful E"
  shows "triple (db_inv W (\<lambda>d. paired d \<and> knows t d))
     (store_call_now E (\<lambda>now. advance_task E (t_id t) st target (transition_record t target now0) (t_version t) now))
     (\<lambda>_. db_inv W paired) (\<lambda>_. db_inv W paired)"
proof -
  have paired': "paired d'"
    if "paired d" "knows t d"
      and "advance_task E (t_id t) st target (transition_record t target now0) (t_version t) now d = (r, d')"
    for d d' r now
    using that(1,3)
  proof (rule paired_advance_task)
    fix row assume "tbl_get (db_tasks d) (t_id t) = Some row" "rw_version row = t_version t"
    with that(2) show "st_from (transition_record t target now0) = rw_current_state row"
      by (auto simp: knows_def transition_record_def)
  qed (simp add: transition_record_def)
  show ?thesis
    using assms knows_step
    by (fastforce simp: triple_def db_inv_def store_call_now_def bindE_def now_io_def store_call_def Let_def
          respectful_def dest: paired' split: option.split prod.split sum.split)
qed

lemma triple_transition:
  assumes "respectful E"
  shows "triple (db_inv W (\<lambda>d. paired d \<and> knows t d)) (transition E t target)
           (\<lambda>_. db_inv W paired) (\<lambda>_. db_inv W paired)"
proof -
  let ?K = "db_inv W (\<lambda>d. paired d \<and> knows t d)"
  have weak: "triple ?K m (\<lambda>_. ?K) (\<lambda>_. db_inv W paired)" if "keeps ?K m" for m :: "'b wio"
    using that unfolding keeps_triple by (rule triple_post) (auto simp: db_inv_def)
  have rest: "triple (db_inv W paired) m (\<lambda>_. db_inv W paired) (\<lambda>_. db_inv W paired)"
    if "keeps (db_inv W paired) m" for m :: "'b wio"
    using that by (simp add: keeps_triple)
  show ?thesis
    unfolding transition_def Let_def
    by (rule triple_bindE [OF weak] triple_bindE [OF triple_advance_call [OF assms]] rest
          keeps_bindE keeps_get_flow_def keeps_now_io keeps_events keeps_publish)+
       (auto intro!: pairing.keeps_on_enter [OF respectful_keeps [OF assms]] keeps_intros split: option.split)
qed

section \<open>The whole advance\<close>

text \<open>
  From here on the flow has no error policy, or the task is in a state that the policy does not list: an error
  is then passed on and nothing is written for it.
\<close>

definition policy_idle :: "flow_def \<Rightarrow> bool" where
  "policy_idle f \<longleftrightarrow> (case fd_on_error f of None \<Rightarrow> True | Some p \<Rightarrow> ep_retry_states p = [])"

lemma policy_idle_skip: "policy_idle f \<Longrightarrow> handle_error_policy E t f fs e = retE False"
  by (auto simp: policy_idle_def handle_error_policy_def split: option.splits)

abbreviation know_inv :: "(string, flow_def) table \<Rightarrow> task \<Rightarrow> world \<Rightarrow> bool" where
  "know_inv W t \<equiv> db_inv W (\<lambda>d. paired d \<and> knows t d)"

abbreviation paired_after :: "(string, flow_def) table \<Rightarrow> 'a wio \<Rightarrow> task \<Rightarrow> bool" where
  "paired_after W m t \<equiv> triple (know_inv W t) m (\<lambda>_. db_inv W paired) (\<lambda>_. db_inv W paired)"

lemma know_weaken: "know_inv W t w \<Longrightarrow> db_inv W paired w"
  by (simp add: db_inv_def)

lemma paired_after_keeps: "keeps (know_inv W t) m \<Longrightarrow> paired_after W m t"
  unfolding keeps_triple by (erule triple_post) (auto simp: db_inv_def)

lemma paired_after_bind:
  assumes "keeps (know_inv W t) m" and "\<And>x. paired_after W (k x) t"
  shows "paired_after W (bindE m k) t"
proof (rule triple_bindE)
  show "triple (know_inv W t) m (\<lambda>_. know_inv W t) (\<lambda>_. db_inv W paired)"
    using assms(1) unfolding keeps_triple by (rule triple_post) (auto simp: db_inv_def)
qed (rule assms(2))

lemma paired_after_try:
  assumes "respectful E" and "policy_idle f"
  shows "paired_after W (try_transition E t f fs target) t"
  unfolding try_transition_def
proof (rule triple_tryE)
  show "triple (know_inv W t) (transition E t target) (\<lambda>_. db_inv W paired) (\<lambda>_. db_inv W paired)"
    by (rule triple_transition [OF assms(1)])
  show "triple (db_inv W paired)
      (case r of Inl e \<Rightarrow> bindE (handle_error_policy E t f fs e) (\<lambda>h. if h then retE Handled else failE e)
               | Inr _ \<Rightarrow> retE Moved) (\<lambda>_. db_inv W paired) (\<lambda>_. db_inv W paired)" for r
    unfolding keeps_triple [symmetric] policy_idle_skip [OF assms(2)]
    by (intro keeps_intros)
qed

lemma paired_after_scan:
  assumes "respectful E" and "policy_idle f"
  shows "paired_after W (scan_transitions E tools t f fs trs) t"
proof (induction trs)
  case Nil
  show ?case unfolding scan_transitions.simps by (intro paired_after_keeps keeps_intros)
next
  case (Cons tr trs)
  show ?case
    unfolding scan_transitions.simps
    by (auto intro!: paired_after_bind paired_after_try [OF assms] Cons.IH keeps_getE keeps_liftE
             split: option.split)
qed

lemma paired_after_join:
  assumes "respectful E"
  shows "paired_after W (join_phase E t sd js p) t"
proof -
  note calls = knowing.side_calls [OF knows_others [OF assms]]
  have "paired_after W (join_with E t sd patch) t" for patch
    unfolding join_with_def
    by (auto intro!: paired_after_bind calls keeps_intros triple_transition [OF assms]
             intro: paired_after_keeps split: option.split)
  then show ?thesis
    unfolding join_phase_def by (auto intro!: paired_after_keeps keeps_intros)
qed

lemma paired_after_parallel:
  assumes "respectful E"
  shows "paired_after W (handle_parallel_state E t sd) t"
proof -
  note oth = knows_others [OF assms]
  note calls = knowing.side_calls [OF oth]
  have "keeps (know_inv W t) (spawn_phase E t bs js)" for bs js
    unfolding spawn_phase_def by (intro keeps_intros calls knowing.keeps_spawn [OF oth])
  then show ?thesis
    unfolding handle_parallel_state_def Let_def
    by (auto intro!: paired_after_bind paired_after_join [OF assms] keeps_intros
             knowing.keeps_poll [OF oth] knowing.keeps_timeout [OF oth] intro: paired_after_keeps)
qed

text \<open>What \<open>get_task\<close> reads, the reader knows.\<close>

lemma triple_get_task:
  assumes "respectful E"
  shows "triple (db_inv W paired) (store_call E (get_task i))
     (\<lambda>found w. db_inv W paired w \<and> (\<forall>t. found = Some t \<longrightarrow> know_inv W t w)) (\<lambda>_. db_inv W paired)"
  using assms
  by (auto simp: triple_def db_inv_def store_call_def get_task_def Let_def respectful_def knows_def
           task_from_row_def split: option.split)

lemma paired_round:
  assumes "respectful E" and idle: "\<And>i f. tbl_get W i = Some f \<Longrightarrow> policy_idle f"
  shows "keeps (db_inv W paired) (advance_round E tools i)"
proof -
  note oth = knows_others [OF assms(1)]
  have scan: "paired_after W (bindE (scan_transitions E tools t f fs trs) (\<lambda>r. retE (r = Moved))) t"
    if "policy_idle f" for t f fs trs
    by (rule triple_bindE [OF paired_after_scan [OF assms(1) that]])
      (auto intro: triple_retE)
  have par: "paired_after W (bindE (handle_parallel_state E t sd) (\<lambda>_. retE False)) t" for t sd
    by (rule triple_bindE [OF paired_after_parallel [OF assms(1)]]) (auto intro: triple_retE)
  have body: "paired_after W (bindE (get_flow_def (t_flow_id t)) (\<lambda>f. K f)) t"
    if "\<And>f. policy_idle f \<Longrightarrow> paired_after W (K f) t" for t and K :: "flow_def \<Rightarrow> bool wio"
    using that idle
    by (fastforce simp: triple_def bindE_def get_flow_def_def lookup_flow_def ok_or_def db_inv_def
          split: option.splits sum.splits prod.splits)
  have known: "triple (\<lambda>w. db_inv W paired w \<and> (\<forall>t. found = Some t \<longrightarrow> know_inv W t w))
      (bindE (liftE (ok_or e found)) K) (\<lambda>_. db_inv W paired) (\<lambda>_. db_inv W paired)"
    if "\<And>t. found = Some t \<Longrightarrow> paired_after W (K t) t" for found e and K :: "task \<Rightarrow> bool wio"
    using that by (cases found) (fastforce simp: triple_def bindE_def split: sum.splits prod.splits)+
  show ?thesis
    unfolding keeps_triple advance_round_def Let_def
    by (rule triple_bindE [OF triple_get_task [OF assms(1)]], rule known, rule body)
      (auto intro!: paired_after_bind par scan knowing.reads [OF oth] keeps_intros intro: paired_after_keeps)
qed

lemma paired_advance:
  assumes "respectful E" and "\<And>i f. tbl_get W i = Some f \<Longrightarrow> policy_idle f"
  shows "keeps (db_inv W paired) (advance_by_id E tools i)"
proof -
  have "keeps (db_inv W paired) (advance_rounds E tools n i)" for n
    by (induction n) (auto intro!: keeps_intros paired_round [OF assms])
  then show ?thesis by (simp add: advance_by_id_def)
qed

lemma paired_engine_create:
  assumes "respectful E" and "\<And>i f. tbl_get W i = Some f \<Longrightarrow> policy_idle f"
  shows "keeps (db_inv W paired) (engine_create_task E tools fid input who)"
proof -
  have "keeps (db_inv W paired) (store_call_now E (create_task_with_flow t (new_flow_state i f)))"
    if "t = new_task i f fid input who now" for t i f now
    by (rule keeps_store_call_now [OF respectful_keeps [OF assms(1)]])
      (erule (1) paired_create_task_with_flow; simp add: that new_task_def new_flow_state_def)
  then show ?thesis
    unfolding engine_create_task_def Let_def
    by (auto intro!: keeps_intros paired_advance [OF assms])
qed

text \<open>
  The engine is itself a respectful peer: a successful write of \<open>advance_task\<close> is a step of the
  discipline, as long as the version does not wrap around, and so are the other writes to tasks.
\<close>

lemma step_ok_refl: "step_ok d d"
  by (simp add: step_ok_def)

lemma step_ok_advance:
  assumes "advance_task E i st s tr v now d = (r, d')" and "v \<noteq> - 1"
  shows "step_ok d d'"
proof (cases r)
  case (Inl e)
  with assms(1) advance_task_err step_ok_refl show ?thesis by blast
next
  case (Inr u)
  have "v < v + 1" using assms(2) inc_less_eq_triv_imp [of v] by (meson not_le)
  with assms(1) Inr show ?thesis
    unfolding step_ok_def by (auto elim!: advance_task_okE)
qed


end
