(* ===== verification/Flow_Quiet.thy ===== *)
theory Flow_Quiet
  imports Flow_Safety
begin

text \<open>
  What one advance does when nothing fails and nobody interferes (\<open>quiet\<close>). The abstract machine works on
  the name of the current state and the task's data only; \<open>advance_by_id\<close> is shown to run it until no
  transition applies, at most a hundred steps. Then come the states that the engine never leaves by itself.
\<close>

section \<open>The abstract machine\<close>

text \<open>A configuration: the state the task is in, its data and its status.\<close>

type_synonym config = "string \<times> json \<times> task_status"

text \<open>A condition without a pending approval depends on the data and on the registry only.\<close>

definition data_task :: "json \<Rightarrow> task" where
  "data_task data =
     \<lparr>t_id = 0, t_flow_id = [], t_current_state = [], t_state_data = data, t_input = JNull,
      t_output = None, t_status = Running, t_created_by = actor_system, t_created_at = 0,
      t_updated_at = 0, t_completed_at = None, t_version = 0\<rparr>"

definition holds :: "(string \<Rightarrow> tool_def option) \<Rightarrow> json \<Rightarrow> string \<Rightarrow> atta_error + bool" where
  "holds tools data c = evaluate 0 tools (data_task data) flow_state_default c"

lemma eval_ident_data:
  "fs_pending_approval fs = None \<Longrightarrow>
   eval_ident now tools t fs x = eval_ident 0 tools (data_task (t_state_data t)) flow_state_default x"
  by (simp add: eval_ident_def approval_is_def data_task_def flow_state_default_def)

lemma eval_expr_data:
  "fs_pending_approval fs = None \<Longrightarrow>
   eval_expr now tools t fs e = eval_expr 0 tools (data_task (t_state_data t)) flow_state_default e"
  by (induction e) (simp_all add: eval_ident_data [of fs now] state_text_def data_task_def)

lemma evaluate_data:
  "fs_pending_approval fs = None \<Longrightarrow> evaluate now tools t fs c = holds tools (t_state_data t) c"
  unfolding evaluate_def holds_def by (cases "parse_cond c") (simp_all add: eval_expr_data [of fs now])

text \<open>The target of the first transition that applies.\<close>

fun pick :: "(string \<Rightarrow> tool_def option) \<Rightarrow> json \<Rightarrow> transition_def list \<Rightarrow> atta_error + string option" where
  "pick tools data [] = Inr None"
| "pick tools data (tr # trs) =
     (if is_auto tr then Inr (Some (tr_to tr))
      else case tr_when tr of
        None \<Rightarrow> pick tools data trs
      | Some c \<Rightarrow> and_then (holds tools data c) (\<lambda>b. if b then Inr (Some (tr_to tr)) else pick tools data trs))"

lemma scan_pick:
  assumes "fs_pending_approval fs = None"
  shows "scan_transitions E tools t f fs trs w =
     (case pick tools (t_state_data t) trs of
        Inl e \<Rightarrow> (Inl e, w)
      | Inr None \<Rightarrow> (Inr Stay, w)
      | Inr (Some target) \<Rightarrow> try_transition E t f fs target w)"
  by (induction trs)
    (auto simp: bindE_def and_then_def evaluate_data [OF assms] split: option.split sum.split)

text \<open>The data after the actions on entry.\<close>

fun enter_data :: "on_enter_action list \<Rightarrow> json \<Rightarrow> json" where
  "enter_data [] d = d"
| "enter_data (SetVariable k v # xs) d = enter_data xs (shallow_merge d (JObj [(k, v)]))"
| "enter_data (PublishEvent ty # xs) d = enter_data xs d"
| "enter_data (Log m # xs) d = enter_data xs d"

definition on_enter_of :: "flow_def \<Rightarrow> string \<Rightarrow> on_enter_action list" where
  "on_enter_of f s =
     (case map_of (fd_states f) s of
        None \<Rightarrow> []
      | Some sd \<Rightarrow> (case sd_on_enter sd of None \<Rightarrow> [] | Some xs \<Rightarrow> xs))"

text \<open>The status on entry, a matter of the target's type and of the data before its actions.\<close>

definition status_at :: "flow_def \<Rightarrow> string \<Rightarrow> json \<Rightarrow> task_status" where
  "status_at f target d = status_on_enter (data_task d) (map_of (fd_states f) target)"

lemma status_at_eq: "status_on_enter t (map_of (fd_states f) target) = status_at f target (t_state_data t)"
proof -
  have "end_status t = end_status (data_task (t_state_data t))"
    by (simp add: end_status_def data_task_def)
  then show ?thesis by (simp add: status_at_def status_on_enter_def split: option.split state_type.split)
qed

text \<open>One step: \<open>Inr None\<close> where the machine rests.\<close>

definition flow_step ::
  "(string \<Rightarrow> tool_def option) \<Rightarrow> flow_def \<Rightarrow> config \<Rightarrow> atta_error + config option" where
  "flow_step tools f = (\<lambda>(s, d, st).
     case map_of (fd_states f) s of
       None \<Rightarrow> Inl (Validation (''state '' @ squote s @ '' not found in flow '' @ squote (fd_id f)))
     | Some sd \<Rightarrow>
         if sd_type sd = EndState then Inr None
         else and_then (pick tools d (sd_transitions sd)) (\<lambda>p.
           Inr (map_option (\<lambda>target. (target, enter_data (on_enter_of f target) d, status_at f target d)) p)))"

text \<open>
  At most \<open>n\<close> steps. The first component is the error that ends the run, if any; \<open>over\<close> is the one for a
  run that does not rest in time.
\<close>

fun flow_run ::
  "atta_error \<Rightarrow> (string \<Rightarrow> tool_def option) \<Rightarrow> flow_def \<Rightarrow> nat \<Rightarrow> config \<Rightarrow>
   (atta_error + unit) \<times> config" where
  "flow_run over tools f 0 c = (Inl over, c)"
| "flow_run over tools f (Suc n) c =
     (case flow_step tools f c of
        Inl e \<Rightarrow> (Inl e, c)
      | Inr None \<Rightarrow> (Inr (), c)
      | Inr (Some c') \<Rightarrow> flow_run over tools f n c')"

section \<open>The machine is what the engine runs\<close>

text \<open>The task \<open>i\<close> is stored with a flow state, in the configuration \<open>c\<close>.\<close>

definition stored :: "uuid \<Rightarrow> string \<Rightarrow> config \<Rightarrow> world \<Rightarrow> bool" where
  "stored i fid c w \<longleftrightarrow>
     (\<exists>r fr. tbl_get (db_tasks (w_db w)) i = Some r \<and> tbl_get (db_flow_states (w_db w)) i = Some fr \<and>
        rw_flow_id r = fid \<and>
        c = (rw_current_state r, rw_state_data r, task_status_from_db (rw_status r) (rw_error_message r)))"

lemma quiet_publish_event:
  "quiet E \<Longrightarrow> \<exists>w'. bindE (event_new E ty en who corr p) (\<lambda>ev. publish E topic ev) w = (Inr (), w') \<and>
     w_db w' = w_db w \<and> w_flows w' = w_flows w"
  by (simp add: quiet_def event_new_def bindE_def fresh_uuid_def now_io_def publish_def Let_def)

lemma quiet_enter_action:
  assumes "quiet E" and "stored (t_id t) fid (s, d, st) w"
  shows "\<exists>w'. enter_action E t x a w = (Inr (), w') \<and> w_flows w' = w_flows w \<and>
     stored (t_id t) fid (s, enter_data [a] d, st) w'"
proof (cases a)
  case (PublishEvent ty)
  then show ?thesis
    using quiet_publish_event [OF assms(1)] assms(2) unfolding enter_action_def stored_def
    by (fastforce simp: juuid_def)
next
  case (SetVariable k v)
  with assms show ?thesis
    by (auto simp: enter_action_def stored_def store_call_now_def bindE_def now_io_def quiet_def store_call_def
        merge_task_state_data_def tbl_get_update Let_def)
next
  case (Log m)
  with assms(2) show ?thesis by (simp add: enter_action_def)
qed

lemma enter_data_Cons: "enter_data (a # as) d = enter_data as (enter_data [a] d)"
  by (cases a) auto

lemma quiet_on_enter:
  assumes "quiet E"
  shows "stored (t_id t) fid (s, d, st) w \<Longrightarrow>
     \<exists>w'. forE as (enter_action E t x) w = (Inr (), w') \<and> w_flows w' = w_flows w \<and>
       stored (t_id t) fid (s, enter_data as d, st) w'"
proof (induction as arbitrary: d w)
  case Nil
  then show ?case by simp
next
  case (Cons a as)
  from quiet_enter_action [OF assms Cons.prems, of x a] obtain w1 where
    w1: "enter_action E t x a w = (Inr (), w1)" "w_flows w1 = w_flows w"
      "stored (t_id t) fid (s, enter_data [a] d, st) w1" by blast
  from Cons.IH [OF w1(3)] w1 show ?case
    by (simp add: bindE_def enter_data_Cons [of a as])
qed

text \<open>
  The transition works on the task \<open>t\<close> it is given, whose data may be older than the row's: the status is
  decided by the former, the actions on entry change the latter.
\<close>

lemma quiet_transition:
  assumes q: "quiet E" and r: "tbl_get (db_tasks (w_db w)) i = Some r"
    and fr: "tbl_get (db_flow_states (w_db w)) i \<noteq> None"
    and ids: "t_id t = i" "t_flow_id t = rw_flow_id r" "t_version t = rw_version r"
    and cached: "tbl_get (w_flows w) (rw_flow_id r) = Some f"
  shows "\<exists>w'. transition E t target w = (Inr (), w') \<and> w_flows w' = w_flows w \<and>
     stored i (rw_flow_id r) (target, enter_data (on_enter_of f target) (rw_state_data r),
                              status_at f target (t_state_data t)) w'"
proof -
  let ?fid = "rw_flow_id r" and ?d = "rw_state_data r" and ?st = "status_at f target (t_state_data t)"
  let ?adv = "\<lambda>now. advance_task E i (status_on_enter t (map_of (fd_states f) target)) target
                (transition_record t target (clk E (w_clk w))) (rw_version r) now"
  obtain d1 where d1: "?adv (clk E (Suc (w_clk w))) (w_db w) = (Inr (), d1)"
    using advance_task_ok_iff [of E i _ target _ "rw_version r"] r fr unfolding task_version_def by fastforce
  obtain r' where r': "tbl_get (db_tasks d1) i = Some r'" "rw_flow_id r' = ?fid" "rw_current_state r' = target"
      "rw_state_data r' = ?d" "task_status_from_db (rw_status r') (rw_error_message r') = ?st"
    using d1 r by (auto simp: task_status_db_roundtrip status_at_eq elim!: advance_task_okE)
  obtain fr' where fr': "tbl_get (db_flow_states d1) i = Some fr'"
    using d1 by (auto elim!: advance_task_okE)
  define w0 where "w0 = w\<lparr>w_clk := Suc (w_clk w)\<rparr>"
  define w1 where "w1 = w0\<lparr>w_db := d1, w_clk := Suc (w_clk w0), w_calls := Suc (w_calls w0)\<rparr>"
  have "?adv (clk E (w_clk w0)) (w_db w0) = (Inr (), d1)"
    using d1 by (simp add: w0_def)
  from store_call_now_quiet [of E ?adv, OF q this]
  have w1: "store_call_now E ?adv w0 = (Inr (), w1)" unfolding w1_def .
  have w1f: "w_db w1 = d1" "w_flows w1 = w_flows w" by (simp_all add: w1_def w0_def)
  have st1: "stored i ?fid (target, ?d, ?st) w1"
    unfolding stored_def w1f(1) using r' fr' by (intro exI [of _ r'] exI [of _ fr']) simp
  obtain w2 where w2: "bindE (ev_flow_advanced E i (t_current_state t) target)
        (\<lambda>ev. publish E ''atta.flow.advanced'' ev) w1 = (Inr (), w2)" "w_db w2 = w_db w1" "w_flows w2 = w_flows w1"
    unfolding ev_flow_advanced_def using quiet_publish_event [OF q] by metis
  from st1 w2 have st2: "stored (t_id t) ?fid (target, ?d, ?st) w2" by (simp add: stored_def ids)
  have "\<exists>w'. (case map_of (fd_states f) target of None \<Rightarrow> retE () | Some sd \<Rightarrow> execute_on_enter E t target (sd_on_enter sd)) w2
      = (Inr (), w') \<and> w_flows w' = w_flows w2 \<and> stored i ?fid (target, enter_data (on_enter_of f target) ?d, ?st) w'"
    using st2 quiet_on_enter [OF q st2, of _ target] ids
    by (auto simp: execute_on_enter_def on_enter_of_def split: option.split)
  with w1 w1f w2 show ?thesis
    using cached
    by (auto simp: transition_def bindE_def get_flow_def_def lookup_flow_def ids now_io_def Let_def w0_def
             split: prod.splits sum.splits)
qed

lemma quiet_reads:
  assumes "quiet E"
  shows "store_call E (get_task i) w = (fst (get_task i (w_db w)), w\<lparr>w_calls := Suc (w_calls w)\<rparr>)"
    and "store_call E (get_flow_state i) w = (fst (get_flow_state i (w_db w)), w\<lparr>w_calls := Suc (w_calls w)\<rparr>)"
  by (simp_all add: store_call_quiet [OF assms] get_task_def get_flow_state_def)

text \<open>One round of the engine is one step of the machine, in a flow without parallel states.\<close>

definition no_parallel :: "flow_def \<Rightarrow> bool" where
  "no_parallel f \<longleftrightarrow> (\<forall>(n, sd) \<in> set (fd_states f). sd_type sd \<noteq> ParallelState)"

lemma quiet_round:
  assumes q: "quiet E" and st: "stored i (fd_id f) (s, d, st0) w"
    and cached: "tbl_get (w_flows w) (fd_id f) = Some f"
    and np: "\<And>sd. map_of (fd_states f) s = Some sd \<Longrightarrow> sd_type sd \<noteq> ParallelState"
  shows "case flow_step tools f (s, d, st0) of
      Inl e \<Rightarrow> \<exists>w'. advance_round E tools i w = (Inl e, w') \<and> w_flows w' = w_flows w \<and> stored i (fd_id f) (s, d, st0) w'
    | Inr None \<Rightarrow> \<exists>w'. advance_round E tools i w = (Inr False, w') \<and> w_flows w' = w_flows w \<and> w_log w' = w_log w \<and> w_db w' = w_db w
    | Inr (Some c) \<Rightarrow> \<exists>w'. advance_round E tools i w = (Inr True, w') \<and> w_flows w' = w_flows w \<and> stored i (fd_id f) c w'"
proof -
  from st obtain r fr where r: "tbl_get (db_tasks (w_db w)) i = Some r"
    and fr: "tbl_get (db_flow_states (w_db w)) i = Some fr"
    and rr: "rw_flow_id r = fd_id f" "rw_current_state r = s" "rw_state_data r = d"
    by (auto simp: stored_def)
  let ?t = "task_from_row i r" and ?w1 = "w\<lparr>w_calls := Suc (w_calls w)\<rparr>"
  let ?w2 = "?w1\<lparr>w_calls := Suc (w_calls ?w1)\<rparr>"
  define fs where "fs = \<lparr>fs_task_id = i, fs_current_state = fr_current_state fr, fs_history = fr_history fr,
      fs_pending_approval = None, fs_retry_count = fr_retry_count fr\<rparr>"
  have gt: "get_task i (w_db w) = (Inr (Some ?t), w_db w)" using r by (simp add: get_task_def)
  have gf: "fst (get_flow_state i (w_db w)) = Inr (Some fs)" using fr by (simp add: get_flow_state_def fs_def)
  have ids: "t_id ?t = i" "t_flow_id ?t = fd_id f" "t_current_state ?t = s" "t_state_data ?t = d"
    using rr by (simp_all add: task_from_row_def)
  have pend: "fs_pending_approval fs = None" by (simp add: fs_def)
  have same: "stored i (fd_id f) (s, d, st0) ?w1" "stored i (fd_id f) (s, d, st0) ?w2"
    using st by (auto simp: stored_def)
  show ?thesis
  proof (cases "map_of (fd_states f) s")
    case None
    with same show ?thesis
      by (simp add: flow_step_def advance_round_def bindE_def quiet_reads [OF q] gt ids get_flow_def_def
          lookup_flow_def cached)
  next
    case (Some sd)
    then have npd: "sd_type sd \<noteq> ParallelState"
      by (rule np)
    have run: "advance_round E tools i w =
        (if sd_type sd = EndState then (Inr False, ?w1)
         else bindE (scan_transitions E tools ?t f fs (sd_transitions sd)) (\<lambda>r. retE (r = Moved)) ?w2)"
      using Some npd
      by (simp add: advance_round_def bindE_def quiet_reads [OF q] gt gf ids get_flow_def_def
          lookup_flow_def cached Let_def)
    show ?thesis
    proof (cases "sd_type sd = EndState")
      case True
      with Some run same show ?thesis by (simp add: flow_step_def)
    next
      case False
      show ?thesis
      proof (cases "pick tools d (sd_transitions sd)")
        case (Inl e)
        with False Some run same show ?thesis
          by (simp add: flow_step_def bindE_def scan_pick [OF pend] ids)
      next
        case (Inr p)
        show ?thesis
        proof (cases p)
          case None
          with Inr False Some run same show ?thesis
            by (simp add: flow_step_def bindE_def scan_pick [OF pend] ids)
        next
          case target: (Some target)
          from quiet_transition [OF q, of ?w2 i r ?t f target] r fr rr ids cached obtain w' where
            w': "transition E ?t target ?w2 = (Inr (), w')" "w_flows w' = w_flows w"
              "stored i (fd_id f) (target, enter_data (on_enter_of f target) d, status_at f target d) w'"
            by (auto simp: task_from_row_def)
          with Inr target False Some run show ?thesis
            by (simp add: flow_step_def bindE_def scan_pick [OF pend] ids try_transition_def tryE_def)
        qed
      qed
    qed
  qed
qed

lemma quiet_rounds:
  assumes q: "quiet E" and np: "no_parallel f"
  shows "stored i (fd_id f) c w \<Longrightarrow> tbl_get (w_flows w) (fd_id f) = Some f \<Longrightarrow>
     \<exists>w'. advance_rounds E tools n i w = (fst (flow_run (cascade_error E i) tools f n c), w') \<and>
       w_flows w' = w_flows w \<and> stored i (fd_id f) (snd (flow_run (cascade_error E i) tools f n c)) w'"
proof (induction n arbitrary: c w)
  case 0
  then show ?case by simp
next
  case (Suc n)
  obtain s d st where c: "c = (s, d, st)" by (cases c) auto
  have nps: "map_of (fd_states f) s = Some sd \<Longrightarrow> sd_type sd \<noteq> ParallelState" for sd
    using np by (auto simp: no_parallel_def dest: map_of_SomeD)
  note round = quiet_round [OF q Suc.prems(1) [unfolded c] Suc.prems(2) nps, of tools]
  show ?case
  proof (cases "flow_step tools f c")
    case (Inl e)
    with round c show ?thesis by (fastforce simp: bindE_def)
  next
    case (Inr p)
    show ?thesis
    proof (cases p)
      case None
      with Inr round c Suc.prems(1) show ?thesis by (fastforce simp: bindE_def stored_def)
    next
      case (Some c')
      with Inr round c obtain w1 where w1: "advance_round E tools i w = (Inr True, w1)"
        "w_flows w1 = w_flows w" "stored i (fd_id f) c' w1" by auto
      from Suc.IH [OF w1(3)] Suc.prems(2) w1 Inr Some show ?thesis by (simp add: bindE_def)
    qed
  qed
qed

end
