(* ===== verification/Flow_Limits.thy ===== *)
theory Flow_Limits
  imports Flow_Quiet
begin

text \<open>
  The configurations that the engine does not leave, and the writes that undo others: gates whose transitions
  ask for an approval, parallel joins with a failed branch, the retry of the error policy.
\<close>

section \<open>Rest\<close>

lemma advance_first_round:
  assumes "advance_round E tools i w = (Inr False, w')"
  shows "advance_by_id E tools i w = (Inr (), w')"
proof -
  obtain n where "max_cascade_depth = Suc n"
    by (metis max_cascade_depth_def not0_implies_Suc zero_neq_numeral)
  moreover have "advance_rounds E tools (Suc n) i w = (Inr (), w')"
    using assms by (simp add: bindE_def)
  ultimately show ?thesis unfolding advance_by_id_def by metis
qed

lemma quiet_rest:
  assumes "quiet E" and "stored i (fd_id f) c w" and "tbl_get (w_flows w) (fd_id f) = Some f"
    and "flow_step tools f c = Inr None"
    and "\<And>sd. map_of (fd_states f) (fst c) = Some sd \<Longrightarrow> sd_type sd \<noteq> ParallelState"
  shows "\<exists>w'. advance_by_id E tools i w = (Inr (), w') \<and> w_db w' = w_db w \<and> w_log w' = w_log w \<and>
     w_flows w' = w_flows w"
proof -
  obtain s d st where c: "c = (s, d, st)" by (cases c) auto
  from quiet_round [OF assms(1) assms(2) [unfolded c] assms(3), of tools] assms(4,5) c
  obtain w' where "advance_round E tools i w = (Inr False, w')" "w_flows w' = w_flows w"
    "w_log w' = w_log w" "w_db w' = w_db w"
    by auto
  then show ?thesis using advance_first_round by blast
qed

section \<open>Gates\<close>

definition approval_words :: "string list" where
  "approval_words = [''approved'', ''denied'', ''needs_changes'', ''timeout'']"

lemma parse_name: "name_ok x \<Longrightarrow> parse_cond x = Inr (CIdent x)"
  using parse_show_ident [of x] by (simp add: show_cond_def)

lemma approval_words_closed: "c \<in> set approval_words \<Longrightarrow> holds tools d c = Inr False"
proof -
  assume c: "c \<in> set approval_words"
  then have "name_ok c"
    by (auto simp: approval_words_def name_ok_def plain_def is_ws_def)
  with c show ?thesis
    by (auto simp: holds_def evaluate_def parse_name approval_words_def eval_ident_def approval_is_def
        flow_state_default_def)
qed

text \<open>The transitions of a gate that wait for the outcome of an approval.\<close>

definition waits_for_approval :: "state_def \<Rightarrow> bool" where
  "waits_for_approval sd \<longleftrightarrow>
     (\<forall>tr \<in> set (sd_transitions sd). \<not> is_auto tr \<and>
        (case tr_when tr of None \<Rightarrow> True | Some c \<Rightarrow> c \<in> set approval_words))"

lemma pick_gate: "waits_for_approval sd \<Longrightarrow> pick tools d (sd_transitions sd) = Inr None"
proof -
  have "(\<forall>tr \<in> set trs. \<not> is_auto tr \<and> (case tr_when tr of None \<Rightarrow> True | Some c \<Rightarrow> c \<in> set approval_words))
    \<Longrightarrow> pick tools d trs = Inr None" for trs
    by (induction trs) (auto simp: approval_words_closed split: option.splits)
  then show "waits_for_approval sd \<Longrightarrow> ?thesis" by (simp add: waits_for_approval_def)
qed

section \<open>Joins\<close>

text \<open>A join of all branches, one of which has failed, does nothing.\<close>

lemma join_all_failed: "po_failed p \<Longrightarrow> join_phase E t sd JoinAll p = retE ()"
  by (simp add: join_phase_def)

definition terminal_branch :: "genv \<Rightarrow> db \<Rightarrow> string \<Rightarrow> bool" where
  "terminal_branch E d s \<longleftrightarrow>
     (case uuid_parse E s of
        None \<Rightarrow> False
      | Some i \<Rightarrow> (case tbl_get (db_tasks d) i of
                    None \<Rightarrow> False
                  | Some r \<Rightarrow> rw_status r \<in> {''completed'', ''failed''}))"

definition failed_branch :: "genv \<Rightarrow> db \<Rightarrow> string \<Rightarrow> bool" where
  "failed_branch E d s \<longleftrightarrow>
     (case uuid_parse E s of
        None \<Rightarrow> False
      | Some i \<Rightarrow> (case tbl_get (db_tasks d) i of None \<Rightarrow> False | Some r \<Rightarrow> rw_status r = ''failed''))"

lemma poll_terminal:
  assumes "quiet E"
  shows "\<forall>s \<in> set ids. terminal_branch E (w_db w) s \<Longrightarrow>
    \<exists>p' w'. poll_branches E JoinAll ids p w = (Inr p', w') \<and> w_db w' = w_db w \<and> w_log w' = w_log w \<and>
      w_flows w' = w_flows w \<and>
      (po_failed p' \<longleftrightarrow> po_failed p \<or> (\<exists>s \<in> set ids. failed_branch E (w_db w) s)) \<and> po_all p' = po_all p"
proof (induction ids arbitrary: p w)
  case Nil
  then show ?case by simp
next
  case (Cons s ids)
  from Cons.prems obtain i r where i: "uuid_parse E s = Some i" and r: "tbl_get (db_tasks (w_db w)) i = Some r"
    and st: "rw_status r = ''completed'' \<or> rw_status r = ''failed''"
    by (auto simp: terminal_branch_def split: option.splits)
  let ?w1 = "w\<lparr>w_calls := Suc (w_calls w)\<rparr>"
  have rest: "\<forall>s \<in> set ids. terminal_branch E (w_db ?w1) s" using Cons.prems by simp
  have "\<exists>p1. poll_branches E JoinAll (s # ids) p w = poll_branches E JoinAll ids p1 ?w1 \<and>
     po_failed p1 = (po_failed p \<or> failed_branch E (w_db w) s) \<and> po_all p1 = po_all p"
    using st
  proof
    assume ok: "rw_status r = ''completed''"
    then show ?thesis
      using i r by (fastforce simp: bindE_def parse_branch_id_def quiet_reads [OF assms] get_task_def
          task_from_row_def task_status_from_db_def failed_branch_def)
  next
    assume bad: "rw_status r = ''failed''"
    then show ?thesis
      using i r by (fastforce simp: bindE_def parse_branch_id_def quiet_reads [OF assms] get_task_def
          task_from_row_def task_status_from_db_def failed_branch_def Let_def)
  qed
  then obtain p1 where p1: "poll_branches E JoinAll (s # ids) p w = poll_branches E JoinAll ids p1 ?w1"
    "po_failed p1 = (po_failed p \<or> failed_branch E (w_db w) s)" "po_all p1 = po_all p" by blast
  from Cons.IH [OF rest, of p1] p1 show ?case by auto
qed

lemma join_all_stuck:
  assumes q: "quiet E" and r: "tbl_get (db_tasks (w_db w)) i = Some r"
    and cached: "tbl_get (w_flows w) (rw_flow_id r) = Some f"
    and sd: "map_of (fd_states f) (rw_current_state r) = Some sd" "sd_type sd = ParallelState"
      "sd_branches sd \<noteq> None" "sd_branches sd \<noteq> Some []" "sd_join_strategy sd \<noteq> Some FailFast"
    and ids: "branch_ids (task_from_row i r) \<noteq> []"
      "\<forall>s \<in> set (branch_ids (task_from_row i r)). terminal_branch E (w_db w) s"
      "\<exists>s \<in> set (branch_ids (task_from_row i r)). failed_branch E (w_db w) s"
  shows "\<exists>w'. advance_by_id E tools i w = (Inr (), w') \<and> w_db w' = w_db w \<and> w_log w' = w_log w"
proof -
  let ?t = "task_from_row i r" and ?w1 = "w\<lparr>w_calls := Suc (w_calls w)\<rparr>"
  let ?p = "\<lparr>po_all = True, po_failed = False, po_results = []\<rparr>"
  have js: "(case sd_join_strategy sd of None \<Rightarrow> JoinAll | Some js \<Rightarrow> js) = JoinAll"
    using sd(5) by (cases "sd_join_strategy sd") (auto intro: join_strategy.exhaust)
  have bs: "(case sd_branches sd of None \<Rightarrow> [] | Some bs \<Rightarrow> bs) \<noteq> []"
    using sd(3,4) by (auto split: option.splits)
  from poll_terminal [OF q, of "branch_ids ?t" ?w1 ?p] ids obtain p' w' where
    p': "poll_branches E JoinAll (branch_ids ?t) ?p ?w1 = (Inr p', w')" "w_db w' = w_db w" "w_log w' = w_log w"
      "po_failed p'" "po_all p'" by auto
  have "handle_parallel_state E ?t sd ?w1 = (Inr (), w')"
    unfolding handle_parallel_state_def Let_def js
    using bs ids(1) p' by (simp add: bindE_def check_timeout_def join_all_failed)
  then have "advance_round E tools i w = (Inr False, w')"
    using r cached sd(1,2) p'
    by (simp add: advance_round_def bindE_def quiet_reads [OF q] get_task_def get_flow_def_def lookup_flow_def
        task_from_row_def)
  with p' show ?thesis using advance_first_round by blast
qed

text \<open>
  A \<open>fail_fast\<close> join with a failed branch writes an error into the task's data and takes the first automatic
  transition, but decides the status on the data as it was read before.
\<close>

lemma fail_fast_join:
  assumes q: "quiet E" and r: "tbl_get (db_tasks (w_db w)) i = Some r"
    and fr: "tbl_get (db_flow_states (w_db w)) i \<noteq> None"
    and t: "t = task_from_row i r" and cached: "tbl_get (w_flows w) (rw_flow_id r) = Some f"
    and p: "po_failed p" and tr: "List.find is_auto (sd_transitions sd) = Some tr"
  shows "\<exists>w'. join_phase E t sd FailFast p w = (Inr (), w') \<and>
     stored i (rw_flow_id r)
       (tr_to tr,
        enter_data (on_enter_of f (tr_to tr)) (shallow_merge (rw_state_data r)
          (mk_obj [(''_parallel_results'', JObj (po_results p)),
                   (''error'', JStr ''parallel branch failed (fail_fast)'')])),
        status_at f (tr_to tr) (rw_state_data r)) w'"
proof -
  let ?patch = "mk_obj [(''_parallel_results'', JObj (po_results p)),
                        (''error'', JStr ''parallel branch failed (fail_fast)'')]"
  let ?w1 = "w\<lparr>w_calls := Suc (w_calls w)\<rparr>"
  let ?g = "\<lambda>x. x\<lparr>rw_state_data := shallow_merge (rw_state_data r) ?patch, rw_updated_at := clk E (w_clk w)\<rparr>"
  define w2 where "w2 = w\<lparr>w_clk := Suc (w_clk w), w_calls := Suc (Suc (w_calls w)),
      w_db := (w_db w)\<lparr>db_tasks := tbl_update i ?g (db_tasks (w_db w))\<rparr>\<rparr>"
  have w2: "store_call_now E (merge_task_state_data E i ?patch) ?w1 = (Inr (), w2)"
    "w_db w2 = (w_db w)\<lparr>db_tasks := tbl_update i ?g (db_tasks (w_db w))\<rparr>" "w_flows w2 = w_flows w"
    using r store_call_now_quiet [OF q, of "merge_task_state_data E i ?patch" ?w1]
    by (simp_all add: merge_task_state_data_def w2_def)
  have r2: "tbl_get (db_tasks (w_db w2)) i = Some (?g r)"
    using w2 r by (simp add: tbl_get_update)
  from quiet_transition [OF q r2, of t f "tr_to tr"] fr w2 t cached obtain w' where
    w': "transition E t (tr_to tr) w2 = (Inr (), w')"
      "stored i (rw_flow_id r) (tr_to tr, enter_data (on_enter_of f (tr_to tr)) (shallow_merge (rw_state_data r) ?patch),
         status_at f (tr_to tr) (rw_state_data r)) w'"
    by (auto simp: task_from_row_def)
  have "t_id t = i" "t_version t = rw_version r" using t by (simp_all add: task_from_row_def)
  then have "join_phase E t sd FailFast p w = (Inr (), w')"
    using p tr r w2(1) w'(1)
    by (simp add: join_phase_def join_with_def bindE_def quiet_reads [OF q] get_task_def task_from_row_def)
  with w'(2) show ?thesis by blast
qed

section \<open>The retry of the error policy\<close>

text \<open>
  The database is quiet, the next publication fails and the one after it succeeds. The transition has been
  committed when its event fails to go out; the policy then saves the flow state it was given, which is that of before.
\<close>

definition next_publish_fails :: "genv \<Rightarrow> world \<Rightarrow> atta_error \<Rightarrow> bool" where
  "next_publish_fails E w e \<longleftrightarrow>
     (\<forall>n d. others E n d = d) \<and> (\<forall>n. db_err E n = None) \<and>
     bus_err E (w_pubs w) = Some e \<and> bus_err E (Suc (w_pubs w)) = None"

lemma store_call_still:
  "(\<forall>n d. others E n d = d) \<Longrightarrow> (\<forall>n. db_err E n = None) \<Longrightarrow>
   store_call E op w = (case op (w_db w) of (r, d) \<Rightarrow> (r, w\<lparr>w_db := d, w_calls := Suc (w_calls w)\<rparr>))"
  by (simp add: store_call_def Let_def)

lemma retry_after_failed_publish:
  assumes env: "next_publish_fails E w e"
    and r: "tbl_get (db_tasks (w_db w)) i = Some r" and fr: "tbl_get (db_flow_states (w_db w)) i = Some fr"
    and cached: "tbl_get (w_flows w) (rw_flow_id r) = Some f"
    and pol: "fd_on_error f = Some p" "rw_current_state r \<in> set (ep_retry_states p)"
      "fr_retry_count fr < ep_max_retries p"
    and t: "t = task_from_row i r"
    and fs: "fst (get_flow_state i (w_db w)) = Inr (Some fs)"
  shows "\<exists>w' r' fr'. try_transition E t f fs target w = (Inr Handled, w') \<and>
     tbl_get (db_tasks (w_db w')) i = Some r' \<and> rw_current_state r' = target \<and> rw_version r' = rw_version r + 1 \<and>
     tbl_get (db_flow_states (w_db w')) i = Some fr' \<and> fr_current_state fr' = fr_current_state fr \<and>
     fr_history fr' = fr_history fr \<and> fr_retry_count fr' = fr_retry_count fr + 1"
proof -
  have still: "\<forall>n d. others E n d = d" "\<forall>n. db_err E n = None"
    and b0: "bus_err E (w_pubs w) = Some e" and b1: "bus_err E (Suc (w_pubs w)) = None"
    using env by (auto simp: next_publish_fails_def)
  note call = store_call_still [OF still]
  have ids: "t_id t = i" "t_flow_id t = rw_flow_id r" "t_version t = rw_version r" "t_current_state t = rw_current_state r"
    using t by (simp_all add: task_from_row_def)
  let ?rec = "transition_record t target (clk E (w_clk w))"
  obtain d1 where d1: "advance_task E i (status_on_enter t (map_of (fd_states f) target)) target ?rec (rw_version r)
      (clk E (Suc (w_clk w))) (w_db w) = (Inr (), d1)"
    using advance_task_ok_iff [of E i _ target _ "rw_version r"] r fr unfolding task_version_def by fastforce
  obtain r' where r': "tbl_get (db_tasks d1) i = Some r'" "rw_current_state r' = target" "rw_version r' = rw_version r + 1"
    using d1 r by (auto elim!: advance_task_okE)
  have fr1: "tbl_get (db_flow_states d1) i \<noteq> None" using d1 by (auto elim!: advance_task_okE)
  have fsv: "fs_current_state fs = fr_current_state fr" "fs_history fs = fr_history fr" "fs_retry_count fs = fr_retry_count fr"
    using fs fr by (auto simp: get_flow_state_def)
  obtain w1 where w1: "transition E t target w = (Inl e, w1)" "w_db w1 = d1" "w_pubs w1 = Suc (w_pubs w)"
    using d1 cached b0
    by (simp add: transition_def bindE_def get_flow_def_def lookup_flow_def ids now_io_def Let_def store_call_now_def
        call ev_flow_advanced_def event_new_def fresh_uuid_def publish_def)
  let ?fs' = "fs\<lparr>fs_retry_count := fr_retry_count fr + 1\<rparr>"
  obtain w2 where w2: "handle_error_policy E t f fs e w1 = (Inr True, w2)"
    "w_db w2 = snd (save_flow_state i ?fs' (clk E (w_clk w1)) d1)"
    using pol w1(2,3) b1 fsv
    by (simp add: handle_error_policy_def bindE_def ids store_call_now_def now_io_def call save_flow_state_def Let_def
        ev_flow_retry_def event_new_def fresh_uuid_def publish_def)
  have "try_transition E t f fs target w = (Inr Handled, w2)"
    using w1(1) w2(1) by (simp add: try_transition_def tryE_def bindE_def)
  moreover have "db_tasks (w_db w2) = db_tasks d1" using w2(2) by (simp add: save_flow_state_def)
  moreover have "\<exists>fr'. tbl_get (db_flow_states (w_db w2)) i = Some fr' \<and> fr_current_state fr' = fr_current_state fr \<and>
     fr_history fr' = fr_history fr \<and> fr_retry_count fr' = fr_retry_count fr + 1"
    using fr1 fsv by (auto simp: w2(2) save_flow_state_def tbl_get_upsert)
  ultimately show ?thesis using r' by metis
qed

end
