(* ===== verification/Flow_Props.thy ===== *)
theory Flow_Props
  imports Flow_Limits
begin

text \<open>
  The properties of the flow engine and of the condition language, and a small flow on which they are applied:
  \<open>init\<close> moves on by itself to \<open>review\<close>, a gate that waits for an approval; \<open>fork\<close> is a parallel state.
\<close>

section \<open>A sample world\<close>

definition demo_env :: genv where
  "demo_env =
     \<lparr>clk = int, new_uuid = of_nat, db_err = (\<lambda>_. None), bus_err = (\<lambda>_. None),
      uuid_show = (\<lambda>u. show_nat (unat u)), uuid_parse = (\<lambda>s. if s = ''b1'' then Some 1 else None),
      ts_show = (\<lambda>t. []), ts_parse = (\<lambda>s. None), json_show = (\<lambda>v. []),
      sched = (\<lambda>s. if s = ''hourly'' then Inr (\<lambda>t. Some (t + 3600000000000)) else Inl ''bad''),
      fk_on = True, others = (\<lambda>_ d. d)\<rparr>"

definition demo_state :: "state_type \<Rightarrow> transition_def list \<Rightarrow> state_def" where
  "demo_state ty trs =
     \<lparr>sd_type = ty, sd_agent = None, sd_skill = None, sd_gate = None, sd_on_enter = None,
      sd_transitions = trs, sd_branches = None, sd_join_strategy = None, sd_timeout_secs = None\<rparr>"

definition demo_gate :: gate_def where
  "demo_gate =
     \<lparr>gate_approver_role = ''approver'', gate_timeout = ''1h'', gate_on_timeout = ''done'',
      gate_notify = None, gate_context = None\<rparr>"

definition auto_to :: "string \<Rightarrow> transition_def" where
  "auto_to s = \<lparr>tr_to = s, tr_when = None, tr_auto = Some True\<rparr>"

definition when_to :: "string \<Rightarrow> string \<Rightarrow> transition_def" where
  "when_to c s = \<lparr>tr_to = s, tr_when = Some c, tr_auto = None\<rparr>"

definition demo_fork :: "join_strategy option \<Rightarrow> state_def" where
  "demo_fork js = (demo_state ParallelState [auto_to ''done''])
     \<lparr>sd_branches := Some [\<lparr>br_agent = ''react'', br_skill = ''scan'', br_input_mapping = None\<rparr>],
      sd_join_strategy := js\<rparr>"

definition demo_flow :: flow_def where
  "demo_flow =
     \<lparr>fd_id = ''demo'', fd_version = ''1'', fd_name = None, fd_description = None,
      fd_initial_state = ''init'',
      fd_states = [(''init'', demo_state StartState [auto_to ''review'']),
                   (''review'', (demo_state GateState [when_to ''approved'' ''done''])\<lparr>sd_gate := Some demo_gate\<rparr>),
                   (''done'', demo_state EndState [])],
      fd_on_error = None, fd_skills = [], fd_source = ''lib''\<rparr>"

definition demo_row :: "string \<Rightarrow> string \<Rightarrow> string \<Rightarrow> json \<Rightarrow> task_row" where
  "demo_row fid s st d =
     \<lparr>rw_flow_id = fid, rw_current_state = s, rw_status = st, rw_error_message = None,
      rw_state_data = d, rw_input = JNull, rw_output = None, rw_created_by = actor_system, rw_created_at = 0,
      rw_updated_at = 0, rw_completed_at = None, rw_version = 0\<rparr>"

definition demo_fstate :: "string \<Rightarrow> flow_state_row" where
  "demo_fstate s = \<lparr>fr_current_state = s, fr_history = [], fr_retry_count = 0, fr_updated_at = 0\<rparr>"

definition demo_db :: "string \<Rightarrow> string \<Rightarrow> json \<Rightarrow> db" where
  "demo_db s st d =
     \<lparr>db_tasks = [(7, demo_row ''demo'' s st d)], db_flow_states = [(7, demo_fstate s)],
      db_flow_defs = [], db_approvals = [], db_roles = [], db_cron_jobs = [], db_cron_runs = []\<rparr>"

definition demo_world :: "flow_def \<Rightarrow> db \<Rightarrow> world" where
  "demo_world f d =
     \<lparr>w_db = d, w_log = [], w_flows = [(fd_id f, f)], w_clk = 0, w_uid = 0, w_calls = 0, w_pubs = 0\<rparr>"

lemmas demo_simps =
  demo_env_def demo_state_def demo_gate_def auto_to_def when_to_def demo_fork_def demo_flow_def demo_row_def
  demo_fstate_def demo_db_def demo_world_def

lemma demo_quiet: "quiet demo_env"
  by (simp add: quiet_def demo_env_def)

lemma demo_respectful: "respectful demo_env"
  by (simp add: respectful_def demo_env_def step_ok_refl)

lemma demo_stored:
  "stored 7 ''demo'' (s, d, task_status_from_db st None) (demo_world f (demo_db s st d))"
  by (simp add: stored_def demo_world_def demo_db_def demo_row_def tbl_get_def)

lemma demo_cached: "tbl_get (w_flows (demo_world f d)) (fd_id f) = Some f"
  by (simp add: demo_world_def tbl_get_def)

section \<open>Properties\<close>

text \<open>
  C1. For a cached flow in which no state is parallel, with no failure and no interference, advancing a stored task runs
  the abstract state machine of the flow: the call returns what the machine returns (in particular, the cascade error
  exactly when it has not come to rest within 100 steps) and the task ends in the state, with the data and the status,
  that the machine ends in. Flows with parallel states are the subject of C5.
\<close>

theorem advance_runs_flow:
  assumes "quiet E" and "no_parallel f" and "stored i (fd_id f) c w"
    and "tbl_get (w_flows w) (fd_id f) = Some f"
  shows "\<exists>w'. advance_by_id E tools i w = (fst (flow_run (cascade_error E i) tools f 100 c), w') \<and>
     stored i (fd_id f) (snd (flow_run (cascade_error E i) tools f 100 c)) w'"
  using quiet_rounds [OF assms(1,2,3,4), of tools 100]
  by (auto simp: advance_by_id_def max_cascade_depth_def)

theorem advance_runs_flow_witness:
  "\<exists>w'. advance_by_id demo_env (\<lambda>_. None) 7 (demo_world demo_flow (demo_db ''init'' ''running'' (JObj []))) =
     (fst (flow_run (cascade_error demo_env 7) (\<lambda>_. None) demo_flow 100 (''init'', JObj [], Running)), w') \<and>
     stored 7 ''demo'' (snd (flow_run (cascade_error demo_env 7) (\<lambda>_. None) demo_flow 100 (''init'', JObj [], Running))) w'"
  using advance_runs_flow [OF demo_quiet, of demo_flow 7 "(''init'', JObj [], Running)"
      "demo_world demo_flow (demo_db ''init'' ''running'' (JObj []))" "\<lambda>_. None"]
    demo_stored [of "''init''" "JObj []" "''running''" demo_flow] demo_cached [of demo_flow]
  by (simp add: no_parallel_def demo_simps task_status_from_db_def)





text \<open>
  Whatever fails, and whatever the other requests do as long as they keep keys unique, creating a task and
  advancing one keep the primary keys of all tables unique.
\<close>

theorem engine_keeps_keys:
  assumes "others_keep E keys_ok" and "keys_ok (w_db w)"
  shows "keys_ok (w_db (snd (advance_by_id E tools i w))) \<and>
         keys_ok (w_db (snd (engine_create_task E tools fid input who w)))"
proof
  show "keys_ok (w_db (snd (advance_by_id E tools i w)))"
    using keepsD [OF keys.keeps_advance [OF assms(1)], of "w_flows w" w] assms(2) by (simp add: db_inv_def)
  show "keys_ok (w_db (snd (engine_create_task E tools fid input who w)))"
    using keepsD [OF keys.keeps_create [OF assms(1)], of "w_flows w" w] assms(2) by (simp add: db_inv_def)
qed

theorem engine_keeps_keys_witness:
  "keys_ok (w_db (snd (advance_by_id demo_env (\<lambda>_. None) 7 (demo_world demo_flow db_empty)))) \<and>
   keys_ok (w_db (snd (engine_create_task demo_env (\<lambda>_. None) ''demo'' JNull actor_system (demo_world demo_flow db_empty))))"
proof -
  have "others_keep demo_env keys_ok" by (simp add: others_keep_def demo_env_def)
  moreover have "keys_ok (w_db (demo_world demo_flow db_empty))"
    by (simp add: keys_ok_def demo_world_def db_empty_def)
  ultimately show ?thesis by (rule engine_keeps_keys)
qed

text \<open>
  C3. The validation accepts exactly the well-formed definitions: one Start state, some End state, every gate with
  its gate field and without automatic transitions, every transition, fallback and retry state defined.
\<close>

theorem validation_exact: "validate_flow_def f = Inr () \<longleftrightarrow> flow_wf f"
  by (rule validate_flow_ok)

text \<open>
  C4. A task at a gate whose transitions wait for the outcome of an approval never leaves it by \<open>advance_by_id\<close>,
  whatever the approvals table says: the call returns and changes nothing.
\<close>

theorem gate_never_opens:
  assumes "quiet E" and "stored i (fd_id f) (s, d, st) w" and "tbl_get (w_flows w) (fd_id f) = Some f"
    and "map_of (fd_states f) s = Some sd" and "sd_type sd = GateState" and "waits_for_approval sd"
  shows "\<exists>w'. advance_by_id E tools i w = (Inr (), w') \<and> w_db w' = w_db w \<and> w_log w' = w_log w"
proof -
  have "flow_step tools f (s, d, st) = Inr None"
    using assms(4-6) by (simp add: flow_step_def pick_gate)
  with quiet_rest [OF assms(1-3)] assms(4,5) show ?thesis by auto
qed

text \<open>A gate of the sample flow, with its approval granted in the store.\<close>

definition granted_db :: db where
  "granted_db = (demo_db ''review'' ''waiting_approval'' (JObj []))
     \<lparr>db_approvals := [(3,
        \<lparr>ar_task_id = 7, ar_requested_by = actor_system, ar_approver_role = Approver, ar_status = Approved,
         ar_context = \<lparr>ac_summary = [], ac_diff_summary = None, ac_test_results = None, ac_risk_assessment = [],
                       ac_pending_tools = []\<rparr>,
         ar_resolved_by = Some (actor_user ''boss''), ar_resolved_at = Some 5, ar_comment = None,
         ar_timeout_at = 9, ar_created_at = 1\<rparr>)]\<rparr>"

theorem gate_never_opens_witness:
  "\<exists>w'. advance_by_id demo_env (\<lambda>_. None) 7 (demo_world demo_flow granted_db) = (Inr (), w') \<and>
     w_db w' = w_db (demo_world demo_flow granted_db) \<and> w_log w' = w_log (demo_world demo_flow granted_db)"
proof (rule gate_never_opens [OF demo_quiet, of 7 demo_flow "''review''" "JObj []" WaitingApproval])
  show "stored 7 (fd_id demo_flow) (''review'', JObj [], WaitingApproval) (demo_world demo_flow granted_db)"
    by (simp add: stored_def demo_world_def granted_db_def demo_db_def demo_row_def tbl_get_def demo_flow_def
        task_status_from_db_def)
  show "tbl_get (w_flows (demo_world demo_flow granted_db)) (fd_id demo_flow) = Some demo_flow"
    by (rule demo_cached)
  show "map_of (fd_states demo_flow) ''review'' =
      Some ((demo_state GateState [when_to ''approved'' ''done''])\<lparr>sd_gate := Some demo_gate\<rparr>)"
    by (simp add: demo_flow_def)
qed (simp_all add: demo_state_def waits_for_approval_def when_to_def is_auto_def approval_words_def)

text \<open>
  C5. A stored task of a cached flow is in a parallel state whose join strategy is not fail-fast; all its branches have
  ended and one of them has failed. With no failure and no interference, \<open>advance_by_id\<close> never leaves the state: the
  call returns and changes neither the database nor the log of published events. (While a branch is still running the
  call may fail it for its timeout, which is a change; from then on all have ended.)
\<close>

theorem failed_branch_blocks_join_all:
  assumes "quiet E" and "tbl_get (db_tasks (w_db w)) i = Some r"
    and "tbl_get (w_flows w) (rw_flow_id r) = Some f"
    and "map_of (fd_states f) (rw_current_state r) = Some sd" and "sd_type sd = ParallelState"
    and "sd_branches sd = Some bs" and "bs \<noteq> []" and "sd_join_strategy sd \<noteq> Some FailFast"
    and "branch_ids (task_from_row i r) \<noteq> []"
    and "\<forall>s \<in> set (branch_ids (task_from_row i r)). terminal_branch E (w_db w) s"
    and "\<exists>s \<in> set (branch_ids (task_from_row i r)). failed_branch E (w_db w) s"
  shows "\<exists>w'. advance_by_id E tools i w = (Inr (), w') \<and> w_db w' = w_db w \<and> w_log w' = w_log w"
  using assms by (intro join_all_stuck) auto

text \<open>The task \<open>7\<close> forked into the branch \<open>b1\<close>, which is the task \<open>1\<close> and has failed.\<close>

definition fork_data :: json where
  "fork_data = JObj [(''_parallel'', JObj [(''branch_tasks'', JArr [JStr ''b1''])])]"

definition fork_flow :: "join_strategy option \<Rightarrow> flow_def" where
  "fork_flow js = demo_flow\<lparr>fd_states := [(''fork'', demo_fork js), (''done'', demo_state EndState [])]\<rparr>"

definition fork_db :: db where
  "fork_db = (demo_db ''fork'' ''running'' fork_data)
     \<lparr>db_tasks := [(7, demo_row ''demo'' ''fork'' ''running'' fork_data),
                   (1, demo_row ''demo/_parallel/scan'' ''start'' ''failed'' (JObj []))]\<rparr>"

lemma fork_ids: "branch_ids (task_from_row 7 (demo_row ''demo'' ''fork'' ''running'' fork_data)) = [''b1'']"
  by (simp add: branch_ids_def parallel_field_def task_from_row_def demo_row_def fork_data_def)

lemma fork_rows:
  "tbl_get (db_tasks fork_db) 7 = Some (demo_row ''demo'' ''fork'' ''running'' fork_data)"
  "tbl_get (db_tasks fork_db) 1 = Some (demo_row ''demo/_parallel/scan'' ''start'' ''failed'' (JObj []))"
  by (simp_all add: fork_db_def tbl_get_def)

lemma fork_failed: "terminal_branch demo_env fork_db ''b1''" "failed_branch demo_env fork_db ''b1''"
  by (simp_all add: terminal_branch_def failed_branch_def fork_rows demo_env_def demo_row_def)

theorem failed_branch_blocks_join_all_witness:
  "\<exists>w'. advance_by_id demo_env (\<lambda>_. None) 7 (demo_world (fork_flow None) fork_db) = (Inr (), w') \<and>
     w_db w' = w_db (demo_world (fork_flow None) fork_db) \<and> w_log w' = w_log (demo_world (fork_flow None) fork_db)"
proof (rule failed_branch_blocks_join_all [OF demo_quiet])
  show "tbl_get (db_tasks (w_db (demo_world (fork_flow None) fork_db))) 7 =
      Some (demo_row ''demo'' ''fork'' ''running'' fork_data)"
    by (simp add: demo_world_def fork_rows)
  show "tbl_get (w_flows (demo_world (fork_flow None) fork_db)) (rw_flow_id (demo_row ''demo'' ''fork'' ''running'' fork_data))
      = Some (fork_flow None)"
    by (simp add: demo_world_def fork_flow_def demo_flow_def demo_row_def tbl_get_def)
  show "map_of (fd_states (fork_flow None)) (rw_current_state (demo_row ''demo'' ''fork'' ''running'' fork_data))
      = Some (demo_fork None)"
    by (simp add: fork_flow_def demo_row_def)
  show "sd_branches (demo_fork None) = Some [\<lparr>br_agent = ''react'', br_skill = ''scan'', br_input_mapping = None\<rparr>]"
    by (simp add: demo_fork_def)
  show "[\<lparr>br_agent = ''react'', br_skill = ''scan'', br_input_mapping = None\<rparr>] \<noteq> []"
    by (rule list.distinct)
qed (simp_all add: demo_fork_def demo_state_def fork_ids fork_failed demo_world_def)

text \<open>
  A \<open>fail_fast\<close> join with a failed branch that moves on to an End state records the parent as completed,
  not as failed, although it writes the error into the parent's data: the status is decided on the data read
  before the write.
\<close>

theorem fail_fast_completes_parent:
  assumes "quiet E" and "tbl_get (db_tasks (w_db w)) i = Some r" and "tbl_get (db_flow_states (w_db w)) i \<noteq> None"
    and "tbl_get (w_flows w) (rw_flow_id r) = Some f" and "po_failed p"
    and "List.find is_auto (sd_transitions sd) = Some tr"
    and "map_of (fd_states f) (tr_to tr) = Some target" and "sd_type target = EndState"
    and "sd_on_enter target = None" and "rw_state_data r = JObj m" and "map_of m ''error'' = None"
  shows "\<exists>w' r'. join_phase E (task_from_row i r) sd FailFast p w = (Inr (), w') \<and>
     tbl_get (db_tasks (w_db w')) i = Some r' \<and> rw_current_state r' = tr_to tr \<and>
     task_status_from_db (rw_status r') (rw_error_message r') = Completed \<and>
     jget (rw_state_data r') ''error'' = Some (JStr ''parallel branch failed (fail_fast)'')"
proof -
  let ?patch = "mk_obj [(''_parallel_results'', JObj (po_results p)),
                        (''error'', JStr ''parallel branch failed (fail_fast)'')]"
  from fail_fast_join [OF assms(1-3) refl assms(4-6)] obtain w' where
    w': "join_phase E (task_from_row i r) sd FailFast p w = (Inr (), w')"
      "stored i (rw_flow_id r) (tr_to tr, enter_data (on_enter_of f (tr_to tr)) (shallow_merge (rw_state_data r) ?patch),
         status_at f (tr_to tr) (rw_state_data r)) w'" by blast
  have "status_at f (tr_to tr) (rw_state_data r) = Completed"
    using assms(7,8,10,11) by (simp add: status_at_def status_on_enter_def end_status_def data_task_def)
  moreover have "enter_data (on_enter_of f (tr_to tr)) x = x" for x
    using assms(7,9) by (simp add: on_enter_of_def)
  moreover have "jget (shallow_merge (JObj m) ?patch) ''error'' = Some (JStr ''parallel branch failed (fail_fast)'')"
  proof -
    obtain q where q: "?patch = JObj q" by (simp add: mk_obj_def)
    have d: "distinct (map fst q)" and e: "map_of q ''error'' = Some (JStr ''parallel branch failed (fail_fast)'')"
      using q by (auto simp: mk_obj_def)
    show ?thesis unfolding q map_of_shallow_merge [OF d] using e by simp
  qed
  ultimately show ?thesis using w' assms(10) by (auto simp: stored_def)
qed

theorem fail_fast_completes_parent_witness:
  "\<exists>w' r'. join_phase demo_env (task_from_row 7 (demo_row ''demo'' ''fork'' ''running'' fork_data))
       (demo_fork (Some FailFast)) FailFast \<lparr>po_all = True, po_failed = True, po_results = []\<rparr>
       (demo_world (fork_flow (Some FailFast)) fork_db) = (Inr (), w') \<and>
     tbl_get (db_tasks (w_db w')) 7 = Some r' \<and> rw_current_state r' = tr_to (auto_to ''done'') \<and>
     task_status_from_db (rw_status r') (rw_error_message r') = Completed \<and>
     jget (rw_state_data r') ''error'' = Some (JStr ''parallel branch failed (fail_fast)'')"
proof (rule fail_fast_completes_parent [OF demo_quiet])
  show "tbl_get (db_tasks (w_db (demo_world (fork_flow (Some FailFast)) fork_db))) 7 =
      Some (demo_row ''demo'' ''fork'' ''running'' fork_data)"
    by (simp add: demo_world_def fork_rows)
  show "tbl_get (w_flows (demo_world (fork_flow (Some FailFast)) fork_db))
      (rw_flow_id (demo_row ''demo'' ''fork'' ''running'' fork_data)) = Some (fork_flow (Some FailFast))"
    by (simp add: demo_world_def fork_flow_def demo_flow_def demo_row_def tbl_get_def)
  show "List.find is_auto (sd_transitions (demo_fork (Some FailFast))) = Some (auto_to ''done'')"
    by (simp add: demo_fork_def demo_state_def auto_to_def is_auto_def)
  show "map_of (fd_states (fork_flow (Some FailFast))) (tr_to (auto_to ''done'')) = Some (demo_state EndState [])"
    by (simp add: fork_flow_def auto_to_def)
  show "rw_state_data (demo_row ''demo'' ''fork'' ''running'' fork_data) =
      JObj [(''_parallel'', JObj [(''branch_tasks'', JArr [JStr ''b1''])])]"
    by (simp add: demo_row_def fork_data_def)
qed (simp_all add: demo_world_def fork_db_def demo_db_def demo_state_def tbl_get_def)

text \<open>
  When a transition is committed but its event cannot be published, the error policy's retry overwrites the flow
  state with the one read before: the task is in the target state with its version moved on, while its flow state
  still names the old state and its history has lost the committed transition.
\<close>

theorem retry_rewinds_flow_state:
  assumes "next_publish_fails E w e"
    and "tbl_get (db_tasks (w_db w)) i = Some r" and "tbl_get (db_flow_states (w_db w)) i = Some fr"
    and "tbl_get (w_flows w) (rw_flow_id r) = Some f"
    and "map_of (fd_states f) (rw_current_state r) = Some sd" and "sd_type sd \<notin> {EndState, ParallelState}"
    and "fd_on_error f = Some p" and "rw_current_state r \<in> set (ep_retry_states p)"
    and "fr_retry_count fr < ep_max_retries p"
    and "pick tools (rw_state_data r) (sd_transitions sd) = Inr (Some target)"
  shows "\<exists>w' r' fr'. advance_by_id E tools i w = (Inr (), w') \<and>
     tbl_get (db_tasks (w_db w')) i = Some r' \<and> rw_current_state r' = target \<and> rw_version r' = rw_version r + 1 \<and>
     tbl_get (db_flow_states (w_db w')) i = Some fr' \<and> fr_current_state fr' = fr_current_state fr \<and>
     fr_history fr' = fr_history fr \<and> fr_retry_count fr' = fr_retry_count fr + 1"
proof -
  let ?t = "task_from_row i r" and ?w2 = "w\<lparr>w_calls := Suc (Suc (w_calls w))\<rparr>"
  define fs where "fs = \<lparr>fs_task_id = i, fs_current_state = fr_current_state fr, fs_history = fr_history fr,
      fs_pending_approval = None, fs_retry_count = fr_retry_count fr\<rparr>"
  have env: "next_publish_fails E ?w2 e" using assms(1) by (simp add: next_publish_fails_def)
  have still: "\<forall>n d. others E n d = d" "\<forall>n. db_err E n = None"
    using assms(1) by (auto simp: next_publish_fails_def)
  have gf: "fst (get_flow_state i (w_db w)) = Inr (Some fs)" using assms(3) by (simp add: get_flow_state_def fs_def)
  from retry_after_failed_publish [OF env, of i r fr f p ?t fs target] assms gf obtain w' r' fr' where
    w': "try_transition E ?t f fs target ?w2 = (Inr Handled, w')"
      "tbl_get (db_tasks (w_db w')) i = Some r'" "rw_current_state r' = target" "rw_version r' = rw_version r + 1"
      "tbl_get (db_flow_states (w_db w')) i = Some fr'" "fr_current_state fr' = fr_current_state fr"
      "fr_history fr' = fr_history fr" "fr_retry_count fr' = fr_retry_count fr + 1"
    by auto
  have "scan_transitions E tools ?t f fs (sd_transitions sd) ?w2 = (Inr Handled, w')"
    using assms(10) w'(1) by (simp add: scan_pick fs_def task_from_row_def)
  then have "advance_round E tools i w = (Inr False, w')"
    using assms(2-6) gf
    by (simp add: advance_round_def bindE_def store_call_still [OF still] get_task_def get_flow_state_def
        get_flow_def_def lookup_flow_def task_from_row_def fs_def)
  with w' show ?thesis using advance_first_round by blast
qed

definition retry_env :: genv where
  "retry_env = demo_env\<lparr>bus_err := \<lambda>n. if n = 0 then Some (Bus (PublishFailed [] [])) else None\<rparr>"

definition retry_flow :: flow_def where
  "retry_flow = demo_flow\<lparr>fd_on_error := Some \<lparr>ep_max_retries = 3, ep_retry_states = [''init''], ep_fallback = ''done''\<rparr>\<rparr>"

theorem retry_rewinds_flow_state_witness:
  "\<exists>w' r' fr'. advance_by_id retry_env (\<lambda>_. None) 7 (demo_world retry_flow (demo_db ''init'' ''running'' (JObj []))) = (Inr (), w') \<and>
     tbl_get (db_tasks (w_db w')) 7 = Some r' \<and> rw_current_state r' = ''review'' \<and>
     rw_version r' = rw_version (demo_row ''demo'' ''init'' ''running'' (JObj [])) + 1 \<and>
     tbl_get (db_flow_states (w_db w')) 7 = Some fr' \<and> fr_current_state fr' = fr_current_state (demo_fstate ''init'') \<and>
     fr_history fr' = fr_history (demo_fstate ''init'') \<and>
     fr_retry_count fr' = fr_retry_count (demo_fstate ''init'') + 1"
proof (rule retry_rewinds_flow_state)
  let ?w = "demo_world retry_flow (demo_db ''init'' ''running'' (JObj []))"
  show "next_publish_fails retry_env ?w (Bus (PublishFailed [] []))"
    by (simp add: next_publish_fails_def retry_env_def demo_env_def demo_world_def)
  show "tbl_get (db_tasks (w_db ?w)) 7 = Some (demo_row ''demo'' ''init'' ''running'' (JObj []))"
    by (simp add: demo_world_def demo_db_def tbl_get_def)
  show "tbl_get (db_flow_states (w_db ?w)) 7 = Some (demo_fstate ''init'')"
    by (simp add: demo_world_def demo_db_def tbl_get_def)
  show "tbl_get (w_flows ?w) (rw_flow_id (demo_row ''demo'' ''init'' ''running'' (JObj []))) = Some retry_flow"
    by (simp add: demo_world_def retry_flow_def demo_flow_def demo_row_def tbl_get_def)
  show "map_of (fd_states retry_flow) (rw_current_state (demo_row ''demo'' ''init'' ''running'' (JObj []))) =
      Some (demo_state StartState [auto_to ''review''])"
    by (simp add: retry_flow_def demo_flow_def demo_row_def)
  show "fd_on_error retry_flow = Some \<lparr>ep_max_retries = 3, ep_retry_states = [''init''], ep_fallback = ''done''\<rparr>"
    by (simp add: retry_flow_def)
qed (simp_all add: demo_state_def demo_row_def demo_fstate_def auto_to_def is_auto_def)

text \<open>
  C6. Of two writers that have read the same version of a task, the second is refused with a conflict that names
  the version it finds, and its refusal leaves the database as the first left it.
\<close>

theorem no_lost_update:
  assumes "advance_task E i st s tr v now d = (Inr (), d1)"
  shows "advance_task E i st' s' tr' v now' d1 = (Inl (Conflict ''task'' (uuid_show E i) v (v + 1)), d1)"
proof -
  from assms obtain r where "tbl_get (db_tasks d1) i = Some r" "rw_version r = v + 1"
    by (auto elim!: advance_task_okE)
  then show ?thesis by (simp add: advance_task_def split: prod.split)
qed

theorem no_lost_update_witness:
  "\<exists>d1. advance_task demo_env 7 Running ''review'' \<lparr>st_from = ''init'', st_to = ''review'', st_reason = [], st_timestamp = 0\<rparr>
      0 1 (demo_db ''init'' ''running'' (JObj [])) = (Inr (), d1) \<and>
   advance_task demo_env 7 Completed ''done'' \<lparr>st_from = ''init'', st_to = ''done'', st_reason = [], st_timestamp = 0\<rparr>
      0 2 d1 = (Inl (Conflict ''task'' (uuid_show demo_env 7) 0 (0 + 1)), d1)"
proof -
  let ?tr = "\<lparr>st_from = ''init'', st_to = ''review'', st_reason = [], st_timestamp = 0\<rparr>"
  have "task_version (demo_db ''init'' ''running'' (JObj [])) 7 = Some 0"
    "tbl_get (db_flow_states (demo_db ''init'' ''running'' (JObj []))) 7 \<noteq> None"
    by (simp_all add: task_version_def demo_db_def tbl_get_def demo_row_def)
  then obtain d1 where "advance_task demo_env 7 Running ''review'' ?tr 0 1 (demo_db ''init'' ''running'' (JObj [])) = (Inr (), d1)"
    using advance_task_ok_iff by blast
  with no_lost_update [OF this] show ?thesis by blast
qed

text \<open>
  Advancing does not look at the status: a cancelled task whose state has a transition that applies is moved on
  like any other, and its status is overwritten.
\<close>

theorem cancelled_task_moves_on:
  assumes "quiet E" and "stored i (fd_id f) (s, d, Cancelled) w" and "tbl_get (w_flows w) (fd_id f) = Some f"
    and "no_parallel f"
    and "flow_step tools f (s, d, Cancelled) = Inr (Some c)" and "flow_step tools f c = Inr None"
  shows "\<exists>w'. advance_by_id E tools i w = (Inr (), w') \<and> stored i (fd_id f) c w'"
proof -
  have "flow_run over tools f (Suc (Suc n)) (s, d, Cancelled) = (Inr (), c)" for over n
    using assms(5,6) by simp
  from this [of _ 98] have "flow_run over tools f 100 (s, d, Cancelled) = (Inr (), c)" for over
    by simp
  with quiet_rounds [OF assms(1,4,2,3), of tools 100] show ?thesis
    by (auto simp: advance_by_id_def max_cascade_depth_def)
qed

theorem cancelled_task_moves_on_witness:
  "\<exists>w'. advance_by_id demo_env (\<lambda>_. None) 7 (demo_world demo_flow (demo_db ''init'' ''cancelled'' (JObj []))) = (Inr (), w') \<and>
     stored 7 (fd_id demo_flow) (''review'', JObj [], WaitingApproval) w'"
proof (rule cancelled_task_moves_on [OF demo_quiet])
  show "stored 7 (fd_id demo_flow) (''init'', JObj [], Cancelled) (demo_world demo_flow (demo_db ''init'' ''cancelled'' (JObj [])))"
    using demo_stored [of "''init''" "JObj []" "''cancelled''" demo_flow]
    by (simp add: demo_flow_def task_status_from_db_def)
  show "flow_step (\<lambda>_. None) demo_flow (''init'', JObj [], Cancelled) = Inr (Some (''review'', JObj [], WaitingApproval))"
    by (simp add: flow_step_def demo_simps is_auto_def on_enter_of_def status_at_def status_on_enter_def)
  show "flow_step (\<lambda>_. None) demo_flow (''review'', JObj [], WaitingApproval) = Inr None"
    using pick_gate [of "(demo_state GateState [when_to ''approved'' ''done''])\<lparr>sd_gate := Some demo_gate\<rparr>" "\<lambda>_. None" "JObj []"]
    by (simp add: flow_step_def demo_flow_def demo_state_def waits_for_approval_def when_to_def is_auto_def approval_words_def)
  show "tbl_get (w_flows (demo_world demo_flow (demo_db ''init'' ''cancelled'' (JObj [])))) (fd_id demo_flow) = Some demo_flow"
    by (rule demo_cached)
qed (simp add: no_parallel_def demo_flow_def demo_state_def)

text \<open>
  Evaluating a condition fails exactly when its text is blank; every other text, however odd, parses and
  evaluates to a truth value.
\<close>

theorem condition_fails_iff_blank: "(\<exists>e. evaluate now tools t fs c = Inl e) \<longleftrightarrow> trim c = []"
proof
  assume "\<exists>e. evaluate now tools t fs c = Inl e"
  then obtain e where e: "evaluate now tools t fs c = Inl e" by blast
  show "trim c = []"
  proof (rule ccontr)
    assume "trim c \<noteq> []"
    then obtain x where "parse_cond c = Inr x" using parse_cond_total by blast
    with e eval_expr_total [of now tools t fs x] show False by (auto simp: evaluate_def)
  qed
next
  assume "trim c = []"
  then show "\<exists>e. evaluate now tools t fs c = Inl e"
    by (simp add: evaluate_def parse_cond_blank)
qed

text \<open>
  C7. The parser reads back what the canonical printer writes: operators nested from the loosest to the tightest,
  names and values without spaces and quotes.
\<close>

theorem condition_roundtrip:
  assumes "canon 0 e"
  shows "parse_cond (show_cond e) = Inr e"
  using assms by (rule parse_show_canon)

theorem condition_roundtrip_witness:
  "parse_cond (show_cond (COr (CAnd (CIdent ''approved'') (CNot (CEq ''stage'' ''beta''))) (CNe ''env'' ''prod''))) =
   Inr (COr (CAnd (CIdent ''approved'') (CNot (CEq ''stage'' ''beta''))) (CNe ''env'' ''prod''))"
  by (rule condition_roundtrip) (simp add: name_ok_def plain_def is_ws_def)

text \<open>
  Listing tasks for a creator, within the page, returns exactly the tasks in the JSON text of whose creator the
  name occurs, in either letter case: not only the creator's own.
\<close>

theorem list_tasks_by_creator:
  assumes "tf_created_by f = Some who" and "tf_status f = None" and "tf_flow_id f = None" and "tf_offset f = 0"
    and "length (db_tasks d) \<le> 1000" and "length (db_tasks d) \<le> tf_limit f"
  shows "\<exists>ts. list_tasks f d = (Inr ts, d) \<and>
     set ts = {task_from_row i r | i r. (i, r) \<in> set (db_tasks d) \<and>
                 contains (to_lower (actor_json_text (rw_created_by r))) (to_lower who)}"
proof -
  let ?rows = "sort_key (\<lambda>(_, r). - rw_created_at r) (filter (\<lambda>(_, r). task_matches f r) (db_tasks d))"
  let ?limit = "min max_query_limit (max 1 (tf_limit f))"
  have "length ?rows \<le> length (db_tasks d)" by simp
  also have "length (db_tasks d) \<le> ?limit" using assms(5,6) by (simp add: max_query_limit_def)
  finally have "take ?limit (drop (tf_offset f) ?rows) = ?rows" using assms(4) by simp
  then have "list_tasks f d = (Inr (map (\<lambda>(i, r). task_from_row i r) ?rows), d)"
    by (simp add: list_tasks_def Let_def)
  moreover have "task_matches f r \<longleftrightarrow> contains (to_lower (actor_json_text (rw_created_by r))) (to_lower who)" for r
    using assms(1-3) by (simp add: task_matches_def like_contains [simplified])
  ultimately show ?thesis by auto
qed

text \<open>Among the tasks of \<open>bob\<close> are those of \<open>bobby\<close>.\<close>

definition bob_filter :: task_filter where
  "bob_filter = \<lparr>tf_status = None, tf_flow_id = None, tf_created_by = Some ''bob'', tf_limit = 20, tf_offset = 0\<rparr>"

definition bobby_db :: db where
  "bobby_db = db_empty\<lparr>db_tasks :=
     [(1, (demo_row ''demo'' ''init'' ''running'' JNull)\<lparr>rw_created_by := actor_user ''bobby''\<rparr>)]\<rparr>"

theorem list_tasks_by_creator_witness:
  "\<exists>ts. list_tasks bob_filter bobby_db = (Inr ts, bobby_db) \<and>
     (\<exists>t \<in> set ts. t_created_by t = actor_user ''bobby'')"
proof -
  let ?r = "(demo_row ''demo'' ''init'' ''running'' JNull)\<lparr>rw_created_by := actor_user ''bobby''\<rparr>"
  have "contains (to_lower (actor_json_text (rw_created_by ?r))) (to_lower ''bob'')"
    by code_simp
  moreover have "(1, ?r) \<in> set (db_tasks bobby_db)" by (simp add: bobby_db_def)
  ultimately show ?thesis
    using list_tasks_by_creator [of bob_filter "''bob''" bobby_db]
    by (fastforce simp: bob_filter_def bobby_db_def db_empty_def task_from_row_def)
qed

end
