(* ===== verification/Error_Text.thy ===== *)
theory Error_Text
  imports Atta_Types
begin

text \<open>
  The \<open>Display\<close> texts of the errors (\<open>crates/types/src/error.rs\<close>), as the \<open>#[error]\<close> attributes give them.
  Durations are whole seconds.
\<close>

text \<open>The \<open>{:?}\<close> of a string: quotes and control characters are escaped.\<close>

definition debug_char :: "char \<Rightarrow> string" where
  "debug_char c =
     (if c = CHR 0x22 \<or> c = CHR 0x5C then [CHR 0x5C, c]
      else if c = CHR 0x09 then [CHR 0x5C, CHR ''t'']
      else if c = CHR 0x0A then [CHR 0x5C, CHR ''n'']
      else if c = CHR 0x0D then [CHR 0x5C, CHR ''r'']
      else if c = CHR 0x00 then [CHR 0x5C, CHR ''0'']
      else if of_char c < (16 :: nat) then [CHR 0x5C] @ ''u{'' @ [hex_digit (of_char c)] @ ''}''
      else if of_char c < (32 :: nat) \<or> of_char c = (127 :: nat)
      then [CHR 0x5C] @ ''u{'' @ [hex_digit (of_char c div 16), hex_digit (of_char c mod 16)] @ ''}''
      else [c])"

definition debug_str :: "string \<Rightarrow> string" where
  "debug_str s = [CHR 0x22] @ concat (map debug_char s) @ [CHR 0x22]"

fun debug_strs :: "string list \<Rightarrow> string" where
  "debug_strs [] = []"
| "debug_strs [s] = debug_str s"
| "debug_strs (s # ss) = debug_str s @ '', '' @ debug_strs ss"

fun bus_error_show :: "bus_error \<Rightarrow> string" where
  "bus_error_show (PublishFailed t s) = ''failed to publish event to topic '' @ squote t @ '': '' @ s"
| "bus_error_show (SubscribeFailed t s) = ''failed to subscribe to topic '' @ squote t @ '': '' @ s"
| "bus_error_show (ConnectionLost s) = ''connection lost: '' @ s"

fun store_error_show :: "store_error \<Rightarrow> string" where
  "store_error_show (StoreNotFound k i) = ''entity not found: '' @ k @ '' '' @ i"
| "store_error_show (Duplicate k i) = ''duplicate entity: '' @ k @ '' '' @ i"
| "store_error_show (Database m) = ''database error: '' @ m"
| "store_error_show (Serialization m) = ''serialization error: '' @ m"

fun authz_error_show :: "authz_error \<Rightarrow> string" where
  "authz_error_show (AuthzPermissionDenied a b r) =
     ''permission denied: '' @ a @ '' cannot '' @ b @ '' on '' @ r"
| "authz_error_show (ActorNotFound a) = ''actor not found: '' @ a"
| "authz_error_show (PolicyError m) = ''policy evaluation error: '' @ m"

fun audit_error_show :: "audit_error \<Rightarrow> string" where
  "audit_error_show (RecordFailed m) = ''failed to record audit entry: '' @ m"
| "audit_error_show (QueryFailed m) = ''audit query failed: '' @ m"

fun runtime_error_show :: "runtime_error \<Rightarrow> string" where
  "runtime_error_show (ExecutionTimeout n) = ''execution timeout after '' @ show_nat n @ ''s''"
| "runtime_error_show (ResourceExceeded m) = ''resource limit exceeded: '' @ m"
| "runtime_error_show CapacityExhausted = ''node capacity exhausted''"

fun agent_error_show :: "agent_error \<Rightarrow> string" where
  "agent_error_show (MaxIterations n) = ''max iterations reached: '' @ show_nat (unat n)"
| "agent_error_show (ToolCallFailed t e) = ''tool call failed: '' @ t @ '': '' @ e"
| "agent_error_show (LlmFailed m) = ''llm error: '' @ m"
| "agent_error_show (AgentTimeout n) = ''agent timeout after '' @ show_nat n @ ''s''"

fun llm_error_show :: "llm_error \<Rightarrow> string" where
  "llm_error_show (RequestFailed m) = ''request failed: '' @ m"
| "llm_error_show (LlmRateLimited n) = ''rate limited: retry after '' @ show_nat (unat n) @ ''s''"
| "llm_error_show (ContextWindowExceeded u l) =
     ''context window exceeded: used '' @ show_nat u @ '' of '' @ show_nat l @ '' tokens''"
| "llm_error_show (InvalidResponse m) = ''invalid response: '' @ m"
| "llm_error_show (AuthError m) = ''auth error: '' @ m"

fun error_show :: "atta_error \<Rightarrow> string" where
  "error_show (Bus e) = bus_error_show e"
| "error_show (Store e) = store_error_show e"
| "error_show (Auth e) = authz_error_show e"
| "error_show (Audit e) = audit_error_show e"
| "error_show (Runtime e) = runtime_error_show e"
| "error_show (Agent e) = agent_error_show e"
| "error_show (Llm e) = llm_error_show e"
| "error_show (FlowNotFound i) = ''flow not found: '' @ i"
| "error_show (SkillNotFound i) = ''skill not found: '' @ i"
| "error_show (ToolNotFound i) = ''tool not found: '' @ i"
| "error_show (PermissionDenied p) = ''permission denied: '' @ p"
| "error_show (SandboxViolation p) = ''sandbox violation: '' @ p"
| "error_show IntegrityCheckFailed = ''integrity check failed''"
| "error_show UntrustedPublisher = ''untrusted publisher''"
| "error_show (Validation m) = ''validation error: '' @ m"
| "error_show (NotFound k i) = ''not found: '' @ k @ '' '' @ i"
| "error_show (AlreadyExists k i) = ''already exists: '' @ k @ '' '' @ i"
| "error_show (McpServerNotFound i) = ''mcp server not found: '' @ i"
| "error_show (McpServerNotConnected i) = ''mcp server not connected: '' @ i"
| "error_show (SecretNotFound i) = ''secret not found: '' @ i"
| "error_show NoIdToken = ''no id token in OIDC response''"
| "error_show (NoAgentDefined s) = ''no agent defined for state: '' @ s"
| "error_show (ChannelError m) = ''channel error: '' @ m"
| "error_show (ChannelCapacityExhausted m) = ''channel capacity exhausted: '' @ m"
| "error_show (ParallelExecutionPartialFailure s t) =
     ''parallel execution partial failure: '' @ show_nat s @ ''/'' @ show_nat t @ '' succeeded''"
| "error_show NoAvailableNodes = ''no available nodes''"
| "error_show (NoSuitableNodes ls) = ''no suitable nodes for labels: ['' @ debug_strs ls @ '']''"
| "error_show (DependencyMissing n v) = ''dependency missing: '' @ n @ '' '' @ v"
| "error_show (RateLimited m) = ''rate limited: '' @ m"
| "error_show (SecurityViolation m) = ''security violation: '' @ m"
| "error_show (EmergencyStopped m) = ''emergency stopped: '' @ m"
| "error_show (ApprovalDenied t) = ''approval denied for tool: '' @ t"
| "error_show (ApprovalTimeout t n) =
     ''approval timeout for tool '' @ squote t @ '' after '' @ show_nat n @ ''s''"
| "error_show (MissingVariable v) = ''missing variable: '' @ v"
| "error_show (Conflict k i expected actual) =
     ''conflict: '' @ k @ '' '' @ i @ '' version mismatch (expected '' @ show_nat (unat expected) @ '', actual '' @
     show_nat (unat actual) @ '')''"
| "error_show (OtherError m) = m"

end
