(* ===== verification/Auth.thy ===== *)
theory Auth
  imports World Error_Text
begin

text \<open>
  Authorisation (\<open>crates/auth/src\<close>): the role table of \<open>rbac.rs\<close>, its check against the role bindings of the
  store, the \<open>AllowAll\<close> of the desktop edition, and the batch check of the trait. The locale \<open>authorizer\<close> is
  the trait \<open>Authz\<close> as its clients use it; both implementations interpret it.
\<close>

section \<open>The role table\<close>

definition role_has_permission :: "role \<Rightarrow> action \<Rightarrow> resource_type \<Rightarrow> bool" where
  "role_has_permission ro act rt =
     (case ro of
        Owner \<Rightarrow> True
      | Admin \<Rightarrow> True
      | Operator \<Rightarrow>
          act = Read \<or> (act, rt) \<in> {(Create, RTask), (Update, RTask), (Delete, RTask), (Execute, RTask), (Create, RFlow)}
      | Developer \<Rightarrow>
          act = Read \<or> (act, rt) \<in> {(Create, RTask), (Create, RFlow), (Update, RFlow), (Delete, RFlow),
                                   (Create, RSkill), (Update, RSkill), (Register, RMcp)}
      | Approver \<Rightarrow> act = Read \<or> (act, rt) = (Update, RApproval)
      | Viewer \<Rightarrow> act = Read)"

section \<open>The two authorisers\<close>

text \<open>The texts of \<open>{:?}\<close> on actions and resource types.\<close>

fun action_debug :: "action \<Rightarrow> string" where
  "action_debug Create = ''Create''" | "action_debug Read = ''Read''" | "action_debug Update = ''Update''"
| "action_debug Delete = ''Delete''" | "action_debug Execute = ''Execute''" | "action_debug Approve = ''Approve''"
| "action_debug Register = ''Register''" | "action_debug Manage = ''Manage''"

fun restype_debug :: "resource_type \<Rightarrow> string" where
  "restype_debug RTask = ''Task''" | "restype_debug RFlow = ''Flow''" | "restype_debug RSkill = ''Skill''"
| "restype_debug RTool = ''Tool''" | "restype_debug RNode = ''Node''" | "restype_debug RSecret = ''Secret''"
| "restype_debug RAuditLog = ''AuditLog''" | "restype_debug RApproval = ''Approval''"
| "restype_debug RPackage = ''Package''" | "restype_debug RMcp = ''Mcp''"
| "restype_debug RRemoteAgent = ''RemoteAgent''" | "restype_debug RChannel = ''Channel''"

definition load_failed :: "string \<Rightarrow> atta_error \<Rightarrow> string" where
  "load_failed who e = ''failed to load roles for actor '' @ squote who @ '': '' @ error_show e"

definition rbac_check :: "genv \<Rightarrow> actor \<Rightarrow> action \<Rightarrow> resource \<Rightarrow> authz_decision wio" where
  "rbac_check E who act res =
     (if actor_id who = ''system'' then retE Allow
      else tryE (store_call E (get_roles_for_actor (actor_id who))) (\<lambda>r.
        case r of
          Inl e \<Rightarrow> retE (Deny (load_failed (actor_id who) e))
        | Inr roles \<Rightarrow>
            if roles = [] then retE (Deny (''actor '' @ squote (actor_id who) @ '' has no assigned roles''))
            else if list_ex (\<lambda>ro. role_has_permission ro act (res_type res)) roles then retE Allow
            else retE (Deny (''actor '' @ squote (actor_id who) @ '' does not have permission to '' @
                             action_debug act @ '' on '' @ restype_debug (res_type res)))))"

definition allow_all_check :: "actor \<Rightarrow> action \<Rightarrow> resource \<Rightarrow> authz_decision wio" where
  "allow_all_check who act res = retE Allow"

text \<open>The default \<open>check_batch\<close> of the trait, and that of \<open>AllowAll\<close>.\<close>

fun check_batch ::
  "(actor \<Rightarrow> action \<Rightarrow> resource \<Rightarrow> authz_decision wio) \<Rightarrow> actor \<Rightarrow> (action \<times> resource) list \<Rightarrow>
   authz_decision list wio" where
  "check_batch chk who [] = retE []"
| "check_batch chk who ((act, res) # cs) =
     bindE (chk who act res) (\<lambda>d. bindE (check_batch chk who cs) (\<lambda>ds. retE (d # ds)))"

definition allow_all_batch :: "actor \<Rightarrow> (action \<times> resource) list \<Rightarrow> authz_decision list wio" where
  "allow_all_batch who cs = retE (replicate (length cs) Allow)"

section \<open>The interface\<close>

text \<open>
  What a client of an authoriser relies on: a check always gives a decision, writes nothing and leaves the flow
  cache and the event log alone, and the system actor may do everything.
\<close>

definition unchanged :: "world \<Rightarrow> world \<Rightarrow> bool" where
  "unchanged w w' \<longleftrightarrow> w_db w' = w_db w \<and> w_flows w' = w_flows w \<and> w_log w' = w_log w"

lemma unchanged_refl [simp]: "unchanged w w"
  by (simp add: unchanged_def)

lemma unchanged_trans: "unchanged u v \<Longrightarrow> unchanged v w \<Longrightarrow> unchanged u w"
  by (simp add: unchanged_def)

locale authorizer =
  fixes check :: "actor \<Rightarrow> action \<Rightarrow> resource \<Rightarrow> authz_decision wio"
  assumes check_decides: "\<exists>dec w'. check who act res w = (Inr dec, w') \<and> unchanged w w'"
    and check_system: "check actor_system act res w = (Inr dec, w') \<Longrightarrow> dec = Allow"
begin

lemma batch_decides:
  "\<exists>ds w'. check_batch check who cs w = (Inr ds, w') \<and> length ds = length cs \<and> unchanged w w'"
proof (induction cs arbitrary: w)
  case Nil
  show ?case by simp
next
  case (Cons c cs)
  obtain act res where c: "c = (act, res)" by fastforce
  obtain dec w1 where w1: "check who act res w = (Inr dec, w1)" "unchanged w w1"
    using check_decides by blast
  obtain ds w2 where w2: "check_batch check who cs w1 = (Inr ds, w2)" "length ds = length cs" "unchanged w1 w2"
    using Cons.IH by blast
  from w1 w2 show ?case
    by (auto simp: c bindE_def intro: unchanged_trans)
qed

lemma batch_system: "check_batch check actor_system cs w = (Inr ds, w') \<Longrightarrow> ds = replicate (length cs) Allow"
proof (induction cs arbitrary: w ds w')
  case Nil
  then show ?case by simp
next
  case (Cons c cs)
  obtain act res where c: "c = (act, res)" by fastforce
  obtain dec w1 where w1: "check actor_system act res w = (Inr dec, w1)"
    using check_decides by blast
  with Cons.prems obtain ds' w2 where "check_batch check actor_system cs w1 = (Inr ds', w2)" "ds = dec # ds'"
    by (auto simp: c bindE_def split: prod.splits sum.splits)
  with Cons.IH check_system [OF w1] show ?case by simp
qed

end

interpretation allow_all: authorizer allow_all_check
  by unfold_locales (simp_all add: allow_all_check_def)

lemma rbac_decides:
  assumes "\<And>n d. others E n d = d"
  shows "\<exists>dec w'. rbac_check E who act res w = (Inr dec, w') \<and> unchanged w w'"
  using assms
  by (auto simp: rbac_check_def tryE_def store_call_def get_roles_for_actor_def unchanged_def Let_def
           split: option.split)

text \<open>
  An environment in which nobody else writes while one request is served; the driver and the bus may fail.
\<close>

definition alone :: "genv \<Rightarrow> genv" where
  "alone E = E\<lparr>others := \<lambda>_ d. d\<rparr>"

interpretation rbac: authorizer "rbac_check (alone E)" for E
proof unfold_locales
  show "\<exists>dec w'. rbac_check (alone E) who act res w = (Inr dec, w') \<and> unchanged w w'" for who act res w
    by (rule rbac_decides) (simp add: alone_def)
  show "rbac_check (alone E) actor_system act res w = (Inr dec, w') \<Longrightarrow> dec = Allow" for act res w dec w'
    by (simp add: rbac_check_def actor_system_def)
qed

section \<open>What the role table gives\<close>

text \<open>Everything a role may do beyond reading.\<close>

definition role_grants :: "role \<Rightarrow> (action \<times> resource_type) set" where
  "role_grants ro = {(act, rt). role_has_permission ro act rt \<and> act \<noteq> Read}"

lemma everyone_reads: "role_has_permission ro Read rt"
  by (cases ro) (simp_all add: role_has_permission_def)

lemma viewer_only_reads: "role_grants Viewer = {}"
  by (auto simp: role_grants_def role_has_permission_def)

lemma approver_grants: "role_grants Approver = {(Update, RApproval)}"
  by (auto simp: role_grants_def role_has_permission_def)

lemma rbac_allow_iff:
  assumes "quiet E"
  shows "fst (rbac_check E who act res w) = Inr Allow \<longleftrightarrow>
     actor_id who = ''system'' \<or>
     (\<exists>ro. (actor_id who, ro) \<in> set (db_roles (w_db w)) \<and> role_has_permission ro act (res_type res))"
proof -
  let ?roles = "map snd (filter (\<lambda>(b, r). b = actor_id who) (db_roles (w_db w)))"
  have "list_ex (\<lambda>ro. role_has_permission ro act (res_type res)) ?roles \<longleftrightarrow>
      (\<exists>ro. (actor_id who, ro) \<in> set (db_roles (w_db w)) \<and> role_has_permission ro act (res_type res))"
    by (fastforce simp: list_ex_iff)
  moreover have "?roles = [] \<Longrightarrow> \<not> list_ex (\<lambda>ro. role_has_permission ro act (res_type res)) ?roles"
    by simp
  ultimately show ?thesis
    by (cases "actor_id who = ''system''"; cases "?roles = []")
      (simp_all add: rbac_check_def tryE_def store_call_quiet [OF assms] get_roles_for_actor_def)
qed

end
