(* ===== verification/Api.thy ===== *)
theory Api
  imports Flow_Limits Auth
begin

text \<open>
  The HTTP handlers of the control plane (\<open>crates/core/src/server\<close>): tasks, flows and approvals, and the shared
  helpers of \<open>response.rs\<close>. A handler maps a request to a response and the world after it. An early
  \<open>return\<close> of a response is the error side of \<open>io\<close>; \<open>respond\<close> merges the two. The authoriser of the
  application state is the argument \<open>chk\<close>.
\<close>

section \<open>Requests and responses\<close>

record current_user =
  cu_actor :: actor
  cu_roles :: "role list"

definition desktop_owner :: current_user where
  "desktop_owner = \<lparr>cu_actor = actor_user ''owner'', cu_roles = [Owner]\<rparr>"

datatype body =
    BError string atta_error
  | BTask task
  | BTasks "task list"
  | BApproval approval_request
  | BApprovals "approval_request list"
  | BFlow flow_def
  | BFlows "flow_def list"
  | BJob cron_job
  | BJobs "cron_job list"
  | BRun cron_run
  | BRuns "cron_run list"
  | BJson json
  | BNotImplemented string
  | BEmpty

datatype response = Resp (code: nat) (content: body)

type_synonym 'a handler = "(world, response, 'a) io"
type_synonym checker = "actor \<Rightarrow> action \<Rightarrow> resource \<Rightarrow> authz_decision wio"

definition respond :: "response handler \<Rightarrow> world \<Rightarrow> response \<times> world" where
  "respond m w = (case m w of (Inl r, w') \<Rightarrow> (r, w') | (Inr r, w') \<Rightarrow> (r, w'))"

definition error_code :: "atta_error \<Rightarrow> string" where
  "error_code e =
     (case e of
        NotFound _ _ \<Rightarrow> ''not_found''
      | FlowNotFound _ \<Rightarrow> ''not_found''
      | SkillNotFound _ \<Rightarrow> ''not_found''
      | ToolNotFound _ \<Rightarrow> ''not_found''
      | Validation _ \<Rightarrow> ''validation_error''
      | _ \<Rightarrow> ''internal_error'')"

definition error_response :: "nat \<Rightarrow> atta_error \<Rightarrow> response" where
  "error_response st e = Resp st (BError (error_code e) e)"

definition check_authz :: "checker \<Rightarrow> current_user \<Rightarrow> action \<Rightarrow> resource \<Rightarrow> unit handler" where
  "check_authz chk user act res =
     tryE (chk (cu_actor user) act res) (\<lambda>r.
       case r of
         Inl e \<Rightarrow> failE (error_response 500 e)
       | Inr Allow \<Rightarrow> retE ()
       | Inr (Deny reason) \<Rightarrow> failE (error_response 403 (PermissionDenied reason))
       | Inr (RequireApproval ro) \<Rightarrow>
           failE (error_response 403 (PermissionDenied (''requires approval from '' @ ro))))"

definition or_500 :: "'a wio \<Rightarrow> 'a handler" where
  "or_500 m = tryE m (\<lambda>r. case r of Inl e \<Rightarrow> failE (error_response 500 e) | Inr x \<Rightarrow> retE x)"

definition parse_id :: "genv \<Rightarrow> string \<Rightarrow> string \<Rightarrow> uuid handler" where
  "parse_id E what s =
     (case uuid_parse E s of
        None \<Rightarrow> failE (error_response 400 (Validation (''invalid '' @ what @ '' id: '' @ s)))
      | Some i \<Rightarrow> retE i)"

definition not_implemented :: "string \<Rightarrow> response" where
  "not_implemented feature = Resp 501 (BNotImplemented (feature @ '' is not yet implemented''))"

section \<open>Tasks\<close>

record list_tasks_query =
  ltq_status :: "string option"
  ltq_flow_id :: "string option"
  ltq_limit :: "nat option"
  ltq_offset :: "nat option"

definition parse_task_status :: "string \<Rightarrow> task_status option" where
  "parse_task_status s =
     (if s = ''running'' then Some Running
      else if s = ''waiting_approval'' then Some WaitingApproval
      else if s = ''completed'' then Some Completed
      else if s = ''failed'' then Some (Failed [])
      else if s = ''cancelled'' then Some Cancelled
      else None)"

definition or_default :: "'a \<Rightarrow> 'a option \<Rightarrow> 'a" where
  "or_default d v = (case v of None \<Rightarrow> d | Some x \<Rightarrow> x)"

definition isolation :: "current_user \<Rightarrow> string option" where
  "isolation user =
     (if list_ex (\<lambda>ro. ro = Owner \<or> ro = Admin) (cu_roles user) then None else Some (actor_id (cu_actor user)))"

definition api_list_tasks :: "genv \<Rightarrow> current_user \<Rightarrow> list_tasks_query \<Rightarrow> response handler" where
  "api_list_tasks E user q =
     (let f = \<lparr>tf_status = Option.bind (ltq_status q) parse_task_status, tf_flow_id = ltq_flow_id q,
               tf_created_by = isolation user, tf_limit = or_default 20 (ltq_limit q),
               tf_offset = or_default 0 (ltq_offset q)\<rparr>
      in bindE (or_500 (store_call E (list_tasks f))) (\<lambda>ts. retE (Resp 200 (BTasks ts))))"

definition max_input_size :: nat where
  "max_input_size = 1048576"

definition api_create_task ::
  "genv \<Rightarrow> (string \<Rightarrow> tool_def option) \<Rightarrow> checker \<Rightarrow> current_user \<Rightarrow> string \<Rightarrow> json \<Rightarrow> response handler" where
  "api_create_task E tools chk user fid input =
     bindE (check_authz chk user Create (resource_all RTask)) (\<lambda>_.
     let size = length (json_show E input) in
     if max_input_size < size
     then failE (error_response 400 (Validation
            (''task input exceeds maximum size ('' @ show_nat size @ ''B > 1MB)'')))
     else
       tryE (engine_create_task E tools fid input (cu_actor user)) (\<lambda>r.
         case r of
           Inr t \<Rightarrow> retE (Resp 201 (BTask t))
         | Inl (FlowNotFound i) \<Rightarrow> retE (error_response 404 (FlowNotFound i))
         | Inl (Validation m) \<Rightarrow> retE (error_response 400 (Validation m))
         | Inl e \<Rightarrow> retE (error_response 500 e)))"

definition api_get_task :: "genv \<Rightarrow> checker \<Rightarrow> current_user \<Rightarrow> string \<Rightarrow> response handler" where
  "api_get_task E chk user s =
     bindE (check_authz chk user Read (resource_new RTask s)) (\<lambda>_.
     bindE (parse_id E ''task'' s) (\<lambda>i.
     bindE (or_500 (store_call E (get_task i))) (\<lambda>found.
     case found of
       Some t \<Rightarrow> retE (Resp 200 (BTask t))
     | None \<Rightarrow> retE (error_response 404 (NotFound ''task'' s)))))"

definition terminal_status :: "task_status \<Rightarrow> bool" where
  "terminal_status st \<longleftrightarrow> (case st of Completed \<Rightarrow> True | Failed _ \<Rightarrow> True | Cancelled \<Rightarrow> True | _ \<Rightarrow> False)"

definition api_delete_task :: "genv \<Rightarrow> checker \<Rightarrow> current_user \<Rightarrow> string \<Rightarrow> response handler" where
  "api_delete_task E chk user s =
     bindE (check_authz chk user Delete (resource_new RTask s)) (\<lambda>_.
     bindE (parse_id E ''task'' s) (\<lambda>i.
     bindE (or_500 (store_call E (get_task i))) (\<lambda>found.
     case found of
       None \<Rightarrow> failE (error_response 404 (NotFound ''task'' s))
     | Some t \<Rightarrow>
         if \<not> terminal_status (t_status t)
         then failE (error_response 409 (Validation ''can only delete completed, failed, or cancelled tasks''))
         else
           bindE (or_500 (store_call_now E (update_task_status E i Cancelled))) (\<lambda>_.
           retE (Resp 204 BEmpty)))))"

definition api_cancel_task :: "genv \<Rightarrow> checker \<Rightarrow> current_user \<Rightarrow> string \<Rightarrow> response handler" where
  "api_cancel_task E chk user s =
     bindE (check_authz chk user Update (resource_new RTask s)) (\<lambda>_.
     bindE (parse_id E ''task'' s) (\<lambda>i.
     bindE (or_500 (store_call_now E (update_task_status E i Cancelled))) (\<lambda>_.
     bindE (tryE (bindE (event_new E ''atta.task.cancelled'' (entity_task E i) (cu_actor user) i
                    (mk_obj [(''task_id'', juuid E i)])) (\<lambda>ev. publish E ''atta.task.cancelled'' ev))
             (\<lambda>_. retE ())) (\<lambda>_.
     retE (Resp 200 (BJson (mk_obj [(''status'', JStr ''cancelled'')])))))))"

section \<open>Flows\<close>

definition api_list_flows :: "genv \<Rightarrow> checker \<Rightarrow> current_user \<Rightarrow> response handler" where
  "api_list_flows E chk user =
     bindE (check_authz chk user Read (resource_all RFlow)) (\<lambda>_.
     bindE (or_500 (store_call E store_list_flow_defs)) (\<lambda>fs. retE (Resp 200 (BFlows fs))))"

definition valid_or_400 :: "flow_def \<Rightarrow> unit handler" where
  "valid_or_400 f = (case validate_flow_def f of Inl e \<Rightarrow> failE (error_response 400 e) | Inr _ \<Rightarrow> retE ())"

definition api_create_flow :: "genv \<Rightarrow> checker \<Rightarrow> current_user \<Rightarrow> flow_def \<Rightarrow> response handler" where
  "api_create_flow E chk user f =
     bindE (check_authz chk user Create (resource_all RFlow)) (\<lambda>_.
     bindE (valid_or_400 f) (\<lambda>_.
     let g = f\<lparr>fd_source := ''imported''\<rparr> in
     bindE (or_500 (store_call_now E (save_flow_def g))) (\<lambda>_.
     bindE (or_500 (register_flow_def g)) (\<lambda>_.
     retE (Resp 201 (BFlow g))))))"

definition api_get_flow :: "checker \<Rightarrow> current_user \<Rightarrow> string \<Rightarrow> response handler" where
  "api_get_flow chk user i =
     bindE (check_authz chk user Read (resource_new RFlow i)) (\<lambda>_.
     tryE (get_flow_def i) (\<lambda>r.
       case r of
         Inr f \<Rightarrow> retE (Resp 200 (BFlow f))
       | Inl (FlowNotFound j) \<Rightarrow> retE (error_response 404 (FlowNotFound j))
       | Inl e \<Rightarrow> retE (error_response 500 e)))"

definition api_update_flow :: "genv \<Rightarrow> checker \<Rightarrow> current_user \<Rightarrow> string \<Rightarrow> flow_def \<Rightarrow> response handler" where
  "api_update_flow E chk user i f =
     bindE (check_authz chk user Update (resource_new RFlow i)) (\<lambda>_.
     bindE (valid_or_400 f) (\<lambda>_.
     bindE (or_500 (store_call E (store_get_flow_def i))) (\<lambda>found.
     case found of
       None \<Rightarrow> failE (error_response 404 (FlowNotFound i))
     | Some old \<Rightarrow>
         let g = f\<lparr>fd_source := fd_source old, fd_id := i\<rparr> in
         bindE (or_500 (store_call_now E (save_flow_def g))) (\<lambda>_.
         bindE (or_500 (register_flow_def g)) (\<lambda>_.
         retE (Resp 200 (BFlow g)))))))"

definition api_delete_flow :: "genv \<Rightarrow> checker \<Rightarrow> current_user \<Rightarrow> string \<Rightarrow> response handler" where
  "api_delete_flow E chk user i =
     bindE (check_authz chk user Delete (resource_new RFlow i)) (\<lambda>_.
     bindE (or_500 (store_call E (store_get_flow_def i))) (\<lambda>found.
     case found of
       None \<Rightarrow> failE (error_response 404 (FlowNotFound i))
     | Some f \<Rightarrow>
         if fd_source f \<noteq> ''imported''
         then failE (error_response 403 (Validation ''cannot delete builtin flow''))
         else
           bindE (or_500 (store_call E (delete_flow_def i))) (\<lambda>_. retE (Resp 204 BEmpty))))"

section \<open>Approvals\<close>

record list_approvals_query =
  laq_status :: "string option"
  laq_limit :: "nat option"
  laq_offset :: "nat option"

definition parse_approval_status :: "string \<Rightarrow> approval_status option" where
  "parse_approval_status s =
     (if s = ''pending'' then Some Pending
      else if s = ''approved'' then Some Approved
      else if s = ''denied'' then Some Denied
      else if s = ''request_changes'' then Some RequestChanges
      else if s = ''expired'' then Some Expired
      else None)"

definition api_list_approvals :: "genv \<Rightarrow> checker \<Rightarrow> current_user \<Rightarrow> list_approvals_query \<Rightarrow> response handler" where
  "api_list_approvals E chk user q =
     bindE (check_authz chk user Read (resource_all RApproval)) (\<lambda>_.
     bindE (or_500 (store_call E (list_approvals
       \<lparr>af_status = Option.bind (laq_status q) parse_approval_status, af_approver_role = None, af_task_id = None,
        af_limit = or_default 20 (laq_limit q), af_offset = or_default 0 (laq_offset q)\<rparr>))) (\<lambda>as.
     retE (Resp 200 (BApprovals as))))"

definition api_get_approval :: "genv \<Rightarrow> checker \<Rightarrow> current_user \<Rightarrow> string \<Rightarrow> response handler" where
  "api_get_approval E chk user s =
     bindE (check_authz chk user Read (resource_new RApproval s)) (\<lambda>_.
     bindE (parse_id E ''approval'' s) (\<lambda>i.
     bindE (or_500 (store_call E (get_approval i))) (\<lambda>found.
     case found of
       Some a \<Rightarrow> retE (Resp 200 (BApproval a))
     | None \<Rightarrow> retE (error_response 404 (NotFound ''approval'' s)))))"

record approval_action =
  aa_comment :: "string option"
  aa_reason :: "string option"
  aa_feedback :: "string option"

definition resolve_comment :: "approval_action \<Rightarrow> string option" where
  "resolve_comment a =
     (case aa_comment a of
        Some c \<Rightarrow> Some c
      | None \<Rightarrow> (case aa_reason a of Some r \<Rightarrow> Some r | None \<Rightarrow> aa_feedback a))"

text \<open>The three handlers that resolve an approval differ in the status and in the word of the answer.\<close>

definition api_resolve ::
  "approval_status \<Rightarrow> string \<Rightarrow> genv \<Rightarrow> (string \<Rightarrow> tool_def option) \<Rightarrow> checker \<Rightarrow> current_user \<Rightarrow> string \<Rightarrow>
   approval_action \<Rightarrow> response handler" where
  "api_resolve st word E tools chk user s a =
     bindE (check_authz chk user Approve (resource_new RApproval s)) (\<lambda>_.
     bindE (parse_id E ''approval'' s) (\<lambda>i.
     bindE (or_500 (store_call_now E (update_approval_status E i st (cu_actor user) (resolve_comment a)))) (\<lambda>_.
     bindE (tryE (store_call E (get_approval i)) (\<lambda>r.
        case r of
          Inr (Some ap) \<Rightarrow> tryE (advance_by_id E tools (ap_task_id ap)) (\<lambda>_. retE ())
        | _ \<Rightarrow> retE ())) (\<lambda>_.
     retE (Resp 200 (BJson (mk_obj [(''status'', JStr word)])))))))"

definition api_approve where "api_approve = api_resolve Approved ''approved''"
definition api_deny where "api_deny = api_resolve Denied ''denied''"
definition api_request_changes where "api_request_changes = api_resolve RequestChanges ''changes_requested''"

end
