(* ===== verification/Api_Props.thy ===== *)
theory Api_Props
  imports Api Flow_Props
begin

text \<open>
  The properties of authorisation and of the HTTP handlers: every guarded handler stops at a denial, what the role
  table gives under RBAC, and what the handlers of flows and approvals leave behind.
\<close>

section \<open>Guards\<close>

text \<open>\<open>guarded\<close>: where the authoriser denies, the response is its 403 and nothing else happens.\<close>

definition guarded :: "checker \<Rightarrow> current_user \<Rightarrow> action \<Rightarrow> resource \<Rightarrow> response handler \<Rightarrow> bool" where
  "guarded chk user act res h \<longleftrightarrow>
     (\<forall>w reason w'. chk (cu_actor user) act res w = (Inr (Deny reason), w') \<longrightarrow>
        respond h w = (error_response 403 (PermissionDenied reason), w'))"

lemma guarded_check: "guarded chk user act res (bindE (check_authz chk user act res) k)"
  by (simp add: guarded_def respond_def bindE_def check_authz_def tryE_def)

definition allows :: "checker \<Rightarrow> current_user \<Rightarrow> bool" where
  "allows chk user \<longleftrightarrow> (\<forall>act res w. chk (cu_actor user) act res w = (Inr Allow, w))"

lemma allows_check: "allows chk user \<Longrightarrow> check_authz chk user act res w = (Inr (), w)"
  by (simp add: allows_def check_authz_def tryE_def)

lemma allow_all_allows: "allows allow_all_check user"
  by (simp add: allows_def allow_all_check_def)

lemma or_500_ok: "m w = (Inr x, w') \<Longrightarrow> or_500 m w = (Inr x, w')"
  by (simp add: or_500_def tryE_def)

lemma bindE_run: "m w = (Inr x, w') \<Longrightarrow> bindE m k w = k x w'"
  by (rule bindE_ok)

text \<open>
  C8. Every handler of tasks, flows and approvals except the listing of tasks asks the authoriser first: a denial
  is answered with 403, and what the authoriser leaves is the final world.
\<close>

theorem handlers_are_guarded:
  "guarded chk user Create (resource_all RTask) (api_create_task E tools chk user fid input) \<and>
   guarded chk user Read (resource_new RTask s) (api_get_task E chk user s) \<and>
   guarded chk user Delete (resource_new RTask s) (api_delete_task E chk user s) \<and>
   guarded chk user Update (resource_new RTask s) (api_cancel_task E chk user s) \<and>
   guarded chk user Read (resource_all RFlow) (api_list_flows E chk user) \<and>
   guarded chk user Create (resource_all RFlow) (api_create_flow E chk user f) \<and>
   guarded chk user Read (resource_new RFlow s) (api_get_flow chk user s) \<and>
   guarded chk user Update (resource_new RFlow s) (api_update_flow E chk user s f) \<and>
   guarded chk user Delete (resource_new RFlow s) (api_delete_flow E chk user s) \<and>
   guarded chk user Read (resource_all RApproval) (api_list_approvals E chk user q) \<and>
   guarded chk user Read (resource_new RApproval s) (api_get_approval E chk user s) \<and>
   guarded chk user Approve (resource_new RApproval s) (api_approve E tools chk user s a) \<and>
   guarded chk user Approve (resource_new RApproval s) (api_deny E tools chk user s a) \<and>
   guarded chk user Approve (resource_new RApproval s) (api_request_changes E tools chk user s a)"
  unfolding api_create_task_def api_get_task_def api_delete_task_def api_cancel_task_def api_list_flows_def
    api_create_flow_def api_get_flow_def api_update_flow_def api_delete_flow_def api_list_approvals_def
    api_get_approval_def api_approve_def api_deny_def api_request_changes_def api_resolve_def
  by (intro conjI guarded_check)

section \<open>Roles\<close>


definition role_db :: "string \<Rightarrow> role \<Rightarrow> db" where
  "role_db who ro = (demo_db ''review'' ''waiting_approval'' (JObj []))\<lparr>db_roles := [(who, ro)]\<rparr>"


text \<open>
  Under RBAC an actor whose only role is Approver cannot approve: the handler asks for the action Approve,
  which the table gives to Owner and Admin only, and answers 403 with the database as it was.
\<close>

theorem approver_cannot_approve:
  assumes "quiet E" and "actor_id (cu_actor user) \<noteq> ''system''"
    and "\<forall>ro. (actor_id (cu_actor user), ro) \<in> set (db_roles (w_db w)) \<longrightarrow> ro = Approver"
  shows "\<exists>r w'. respond (api_approve E tools (rbac_check E) user s a) w = (r, w') \<and> code r = 403 \<and> unchanged w w'"
proof -
  let ?res = "resource_new RApproval s"
  obtain dec w' where run: "rbac_check E (cu_actor user) Approve ?res w = (Inr dec, w')" "unchanged w w'"
    using rbac_decides [of E "cu_actor user" Approve ?res w] assms(1) by (auto simp: quiet_def)
  have "dec \<noteq> Allow"
    using rbac_allow_iff [OF assms(1), of "cu_actor user" Approve ?res w] run assms(2,3)
    by (auto simp: role_has_permission_def)
  moreover have "dec \<noteq> RequireApproval x" for x
    using run(1) by (auto simp: rbac_check_def tryE_def split: if_splits prod.splits sum.splits)
  ultimately obtain reason where "dec = Deny reason" by (cases dec) auto
  with run have "respond (api_approve E tools (rbac_check E) user s a) w = (error_response 403 (PermissionDenied reason), w')"
    using guarded_check [unfolded guarded_def]
    unfolding api_approve_def api_resolve_def by blast
  with run(2) show ?thesis by (simp add: error_response_def)
qed

definition plain_user :: "string \<Rightarrow> current_user" where
  "plain_user who = \<lparr>cu_actor = actor_user who, cu_roles = [Viewer]\<rparr>"

definition no_words :: approval_action where
  "no_words = \<lparr>aa_comment = None, aa_reason = None, aa_feedback = None\<rparr>"

theorem approver_cannot_approve_witness:
  "\<exists>r w'. respond (api_approve demo_env (\<lambda>_. None) (rbac_check demo_env) (plain_user ''ann'') ''b1'' no_words)
       (demo_world demo_flow (role_db ''ann'' Approver)) = (r, w') \<and> code r = 403 \<and>
     unchanged (demo_world demo_flow (role_db ''ann'' Approver)) w'"
  by (rule approver_cannot_approve [OF demo_quiet])
    (simp_all add: plain_user_def actor_user_def demo_world_def role_db_def)

section \<open>Approvals\<close>

text \<open>
  Approving writes the decision over whatever decision was there, answers 200, and then advances the task; a task
  at a gate that waits for the approval is left where it is.
\<close>

theorem approve_overwrites_and_moves_nothing:
  assumes "quiet E" and "allows chk user" and "uuid_parse E s = Some a"
    and "tbl_get (db_approvals (w_db w)) a = Some ar" and "ar_task_id ar = i"
    and "stored i (fd_id f) (st0, d, st) w" and "tbl_get (w_flows w) (fd_id f) = Some f"
    and "map_of (fd_states f) st0 = Some sd" and "sd_type sd = GateState" and "waits_for_approval sd"
  shows "\<exists>w' ar'. respond (api_approve E tools chk user s act) w =
       (Resp 200 (BJson (mk_obj [(''status'', JStr ''approved'')])), w') \<and>
     tbl_get (db_approvals (w_db w')) a = Some ar' \<and> ar_status ar' = Approved \<and> ar_resolved_by ar' = Some (cu_actor user) \<and>
     db_tasks (w_db w') = db_tasks (w_db w) \<and> w_log w' = w_log w"
proof -
  let ?upd = "update_approval_status E a Approved (cu_actor user) (resolve_comment act)"
  let ?g = "\<lambda>r. r\<lparr>ar_status := Approved, ar_resolved_by := Some (cu_actor user), ar_resolved_at := Some (clk E (w_clk w)),
                   ar_comment := resolve_comment act\<rparr>"
  define d1 where "d1 = (w_db w)\<lparr>db_approvals := tbl_update a ?g (db_approvals (w_db w))\<rparr>"
  define w1 where "w1 = w\<lparr>w_db := d1, w_clk := Suc (w_clk w), w_calls := Suc (w_calls w)\<rparr>"
  define w2 where "w2 = w1\<lparr>w_calls := Suc (w_calls w1)\<rparr>"
  have "?upd (clk E (w_clk w)) (w_db w) = (Inr (), d1)"
    using assms(4) by (simp add: update_approval_status_def tbl_affected_zero d1_def)
  from store_call_now_quiet [of E ?upd, OF assms(1) this]
  have upd: "store_call_now E ?upd w = (Inr (), w1)" unfolding w1_def .
  have row: "tbl_get (db_approvals d1) a = Some (?g ar)" using assms(4) by (simp add: d1_def tbl_get_update)
  have get: "store_call E (get_approval a) w1 = (Inr (Some (approval_from_row a (?g ar))), w2)"
    using row by (simp add: store_call_quiet [OF assms(1)] get_approval_def w1_def w2_def)
  have st2: "stored i (fd_id f) (st0, d, st) w2"
    using assms(6) by (simp add: stored_def w2_def w1_def d1_def)
  have "flow_step tools f (st0, d, st) = Inr None"
    using assms(8-10) by (simp add: flow_step_def pick_gate)
  then obtain w3 where w3: "advance_by_id E tools i w2 = (Inr (), w3)" "w_db w3 = w_db w2" "w_log w3 = w_log w2"
    using quiet_rest [OF assms(1) st2, of tools] assms(7-9) by (auto simp: w2_def w1_def)
  have tid: "ap_task_id (approval_from_row a (?g ar)) = i" using assms(5) by (simp add: approval_from_row_def)
  have "api_approve E tools chk user s act w = (Inr (Resp 200 (BJson (mk_obj [(''status'', JStr ''approved'')]))), w3)"
    unfolding api_approve_def api_resolve_def parse_id_def assms(3)
    by (simp add: bindE_def allows_check [OF assms(2)] or_500_def tryE_def upd get tid w3(1))
  then show ?thesis
    using w3(2,3) row by (simp add: respond_def w2_def w1_def d1_def)
qed

definition denied_db :: db where
  "denied_db = granted_db\<lparr>db_approvals := tbl_update 3 (\<lambda>r. r\<lparr>ar_status := Denied\<rparr>) (db_approvals granted_db)\<rparr>"

definition approving_env :: genv where
  "approving_env = demo_env\<lparr>uuid_parse := \<lambda>s. if s = ''a3'' then Some 3 else None\<rparr>"

theorem approve_overwrites_and_moves_nothing_witness:
  "\<exists>w' ar'. respond (api_approve approving_env (\<lambda>_. None) allow_all_check desktop_owner ''a3'' no_words) (demo_world demo_flow denied_db) =
       (Resp 200 (BJson (mk_obj [(''status'', JStr ''approved'')])), w') \<and>
     tbl_get (db_approvals (w_db w')) 3 = Some ar' \<and> ar_status ar' = Approved \<and>
     ar_resolved_by ar' = Some (cu_actor desktop_owner) \<and>
     db_tasks (w_db w') = db_tasks (w_db (demo_world demo_flow denied_db)) \<and>
     w_log w' = w_log (demo_world demo_flow denied_db)"
proof (rule approve_overwrites_and_moves_nothing [OF _ allow_all_allows, of _ _ 3 _ _ 7])
  show "quiet approving_env" by (simp add: quiet_def approving_env_def demo_env_def)
  show "uuid_parse approving_env ''a3'' = Some 3" by (simp add: approving_env_def)
  show "tbl_get (db_approvals (w_db (demo_world demo_flow denied_db))) 3 =
      Some ((snd (hd (db_approvals granted_db)))\<lparr>ar_status := Denied\<rparr>)"
    by (simp add: demo_world_def denied_db_def granted_db_def tbl_get_def tbl_update_def)
  show "ar_task_id ((snd (hd (db_approvals granted_db)))\<lparr>ar_status := Denied\<rparr>) = 7"
    by (simp add: granted_db_def)
  show "stored 7 (fd_id demo_flow) (''review'', JObj [], WaitingApproval) (demo_world demo_flow denied_db)"
    by (simp add: stored_def demo_world_def denied_db_def granted_db_def demo_db_def demo_row_def tbl_get_def
        demo_flow_def task_status_from_db_def)
  show "tbl_get (w_flows (demo_world demo_flow denied_db)) (fd_id demo_flow) = Some demo_flow"
    by (rule demo_cached)
  show "map_of (fd_states demo_flow) ''review'' =
      Some ((demo_state GateState [when_to ''approved'' ''done''])\<lparr>sd_gate := Some demo_gate\<rparr>)"
    by (simp add: demo_flow_def)
qed (simp_all add: demo_state_def waits_for_approval_def when_to_def is_auto_def approval_words_def)

section \<open>Flows\<close>

text \<open>
  A created flow is valid, stored and cached: the handler answers 201 exactly for a well-formed definition, and then
  the store and the cache hold the same definition, marked as imported.
\<close>

theorem create_flow_stores_and_caches:
  assumes "quiet E" and "allows chk user"
  shows "\<exists>r w'. respond (api_create_flow E chk user f) w = (r, w') \<and>
     (code r = 201 \<longleftrightarrow> flow_wf f) \<and>
     (flow_wf f \<longrightarrow> fst (store_get_flow_def (fd_id f) (w_db w')) = Inr (Some (f\<lparr>fd_source := ''imported''\<rparr>)) \<and>
                  tbl_get (w_flows w') (fd_id f) = Some (f\<lparr>fd_source := ''imported''\<rparr>)) \<and>
     (\<not> flow_wf f \<longrightarrow> code r = 400 \<and> w' = w)"
proof (cases "validate_flow_def f")
  case (Inl e)
  then have "\<not> flow_wf f" using validate_flow_ok by (metis Inl_Inr_False)
  moreover have "respond (api_create_flow E chk user f) w = (error_response 400 e, w)"
    by (simp add: api_create_flow_def bindE_def allows_check [OF assms(2)] valid_or_400_def Inl respond_def)
  ultimately show ?thesis by (simp add: error_response_def)
next
  case (Inr u)
  then have wf: "flow_wf f" using validate_flow_ok by blast
  let ?g = "f\<lparr>fd_source := ''imported''\<rparr>"
  have "flow_wf ?g"
    using wf by (simp add: flow_wf_def state_wf_def has_state_def count_states_def)
  then have vg: "validate_flow_def ?g = Inr ()" by (simp add: validate_flow_ok)
  obtain d1 where d1: "save_flow_def ?g (clk E (w_clk w)) (w_db w) = (Inr (), d1)"
    by (simp add: save_flow_def_def)
  define w1 where "w1 = w\<lparr>w_db := d1, w_clk := Suc (w_clk w), w_calls := Suc (w_calls w)\<rparr>"
  from store_call_now_quiet [of E "save_flow_def ?g", OF assms(1) d1]
  have save: "store_call_now E (save_flow_def ?g) w = (Inr (), w1)" unfolding w1_def .
  define w2 where "w2 = w1\<lparr>w_flows := cache_flow ?g (w_flows w1)\<rparr>"
  have "api_create_flow E chk user f w = (Inr (Resp 201 (BFlow ?g)), w2)"
    by (simp add: api_create_flow_def bindE_def allows_check [OF assms(2)] valid_or_400_def Inr Let_def or_500_def
        tryE_def save register_flow_def_def vg w2_def)
  then have "respond (api_create_flow E chk user f) w = (Resp 201 (BFlow ?g), w2)" by (simp add: respond_def)
  moreover have "fst (store_get_flow_def (fd_id f) (w_db w2)) = Inr (Some ?g)"
    using d1 by (auto simp: w2_def w1_def store_get_flow_def_def save_flow_def_def tbl_get_upsert split: option.split)
  moreover have "tbl_get (w_flows w2) (fd_id f) = Some ?g"
    by (simp add: w2_def cache_flow_def tbl_get_upsert split: option.split)
  ultimately show ?thesis using wf by simp
qed

theorem create_flow_stores_and_caches_witness:
  "\<exists>r w'. respond (api_create_flow demo_env allow_all_check desktop_owner demo_flow) (demo_world demo_flow db_empty) = (r, w') \<and>
     (code r = 201 \<longleftrightarrow> flow_wf demo_flow) \<and>
     (flow_wf demo_flow \<longrightarrow>
        fst (store_get_flow_def (fd_id demo_flow) (w_db w')) = Inr (Some (demo_flow\<lparr>fd_source := ''imported''\<rparr>)) \<and>
        tbl_get (w_flows w') (fd_id demo_flow) = Some (demo_flow\<lparr>fd_source := ''imported''\<rparr>)) \<and>
     (\<not> flow_wf demo_flow \<longrightarrow> code r = 400 \<and> w' = demo_world demo_flow db_empty)"
  by (rule create_flow_stores_and_caches [OF demo_quiet allow_all_allows])

text \<open>
  Deleting a flow removes it from the store only. The engine's cache keeps it: reading the flow still answers 200
  with the deleted definition, while creating a task for it answers 404.
\<close>

theorem deleted_flow_stays_cached:
  assumes "quiet E" and "allows chk user" and "tbl_get (db_flow_defs (w_db w)) i = Some row"
    and "fd_source (dr_definition row) = ''imported''" and "tbl_get (w_flows w) i = Some f"
    and "length (json_show E input) \<le> max_input_size"
  shows "\<exists>w' w1 w2. respond (api_delete_flow E chk user i) w = (Resp 204 BEmpty, w') \<and>
     respond (api_get_flow chk user i) w' = (Resp 200 (BFlow f), w1) \<and>
     respond (api_create_task E tools chk user i input) w' = (error_response 404 (FlowNotFound i), w2)"
proof -
  define w1 where "w1 = w\<lparr>w_calls := Suc (w_calls w)\<rparr>"
  define d where "d = (w_db w)\<lparr>db_flow_defs := tbl_delete i (db_flow_defs (w_db w))\<rparr>"
  define w' where "w' = w1\<lparr>w_db := d, w_calls := Suc (w_calls w1)\<rparr>"
  have del: "api_delete_flow E chk user i w = (Inr (Resp 204 BEmpty), w')"
    using assms(3,4)
    by (simp add: api_delete_flow_def bindE_def allows_check [OF assms(2)] or_500_def tryE_def
        store_call_quiet [OF assms(1)] store_get_flow_def_def delete_flow_def_def tbl_affected_zero w'_def w1_def d_def)
  have cached: "tbl_get (w_flows w') i = Some f" using assms(5) by (simp add: w'_def w1_def)
  have gone: "tbl_get (db_flow_defs (w_db w')) i = None" by (simp add: w'_def d_def tbl_get_delete)
  have get: "api_get_flow chk user i w' = (Inr (Resp 200 (BFlow f)), w')"
    using cached by (simp add: api_get_flow_def bindE_def allows_check [OF assms(2)] tryE_def get_flow_def_def lookup_flow_def)
  have "\<exists>w2. engine_create_task E tools i input (cu_actor user) w' = (Inl (FlowNotFound i), w2)"
    using cached gone
    by (simp add: engine_create_task_def bindE_def get_flow_def_def lookup_flow_def now_io_def fresh_uuid_def Let_def
        store_call_now_def store_call_quiet [OF assms(1)] create_task_with_flow_def new_task_def)
  then obtain w2 where "engine_create_task E tools i input (cu_actor user) w' = (Inl (FlowNotFound i), w2)" ..
  then have "api_create_task E tools chk user i input w' = (Inr (error_response 404 (FlowNotFound i)), w2)"
    using assms(6) by (simp add: api_create_task_def bindE_def allows_check [OF assms(2)] Let_def tryE_def)
  with del get show ?thesis by (auto simp: respond_def)
qed

definition imported_db :: db where
  "imported_db = snd (save_flow_def (demo_flow\<lparr>fd_source := ''imported''\<rparr>) 0 db_empty)"

theorem deleted_flow_stays_cached_witness:
  "\<exists>w' w1 w2. respond (api_delete_flow demo_env allow_all_check desktop_owner ''demo'') (demo_world demo_flow imported_db) = (Resp 204 BEmpty, w') \<and>
     respond (api_get_flow allow_all_check desktop_owner ''demo'') w' = (Resp 200 (BFlow demo_flow), w1) \<and>
     respond (api_create_task demo_env (\<lambda>_. None) allow_all_check desktop_owner ''demo'' JNull) w' =
       (error_response 404 (FlowNotFound ''demo''), w2)"
proof (rule deleted_flow_stays_cached [OF demo_quiet allow_all_allows])
  show "tbl_get (db_flow_defs (w_db (demo_world demo_flow imported_db))) ''demo'' =
      Some \<lparr>dr_version = ''1'', dr_name = None, dr_description = None,
            dr_definition = demo_flow\<lparr>fd_source := ''imported''\<rparr>, dr_created_at = 0, dr_updated_at = 0\<rparr>"
    by (simp add: demo_world_def imported_db_def save_flow_def_def db_empty_def tbl_upsert_def tbl_get_def demo_flow_def)
  show "tbl_get (w_flows (demo_world demo_flow imported_db)) ''demo'' = Some demo_flow"
    using demo_cached [of demo_flow imported_db] by (simp add: demo_flow_def)
qed (simp_all add: demo_env_def)

end
