(* ===== verification/Cron.thy ===== *)
theory Cron
  imports Api_Props
begin

text \<open>
  The cron engine (\<open>crates/core/src/cron_engine.rs\<close>) and its handlers (\<open>server/handlers/cron.rs\<close>). The
  meaning of a cron expression is the environment's \<open>sched\<close>. \<open>trigger_job\<close> ends by spawning a task that
  publishes the event; here the event is returned with the run, and \<open>cron_publish\<close> is the spawned task.
\<close>

section \<open>The engine\<close>

definition bad_cron :: "string \<Rightarrow> string \<Rightarrow> atta_error" where
  "bad_cron expr e = Validation (''invalid cron expression '' @ squote expr @ '': '' @ e)"

definition no_cron_job :: "string \<Rightarrow> atta_error" where
  "no_cron_job i = Validation (''cron job '' @ squote i @ '' not found'')"

text \<open>\<open>schedule.upcoming(Utc).next()\<close> reads the clock.\<close>

definition next_fire :: "genv \<Rightarrow> (timestamp \<Rightarrow> timestamp option) \<Rightarrow> timestamp option wio" where
  "next_fire E nx = bindE (now_io E) (\<lambda>now. retE (nx now))"

definition cron_schedule :: "genv \<Rightarrow> cron_job \<Rightarrow> cron_job wio" where
  "cron_schedule E j =
     (case sched E (cj_schedule j) of
        Inl e \<Rightarrow> failE (bad_cron (cj_schedule j) e)
      | Inr nx \<Rightarrow>
          bindE (next_fire E nx) (\<lambda>next.
          let j' = j\<lparr>cj_next_run_at := next\<rparr> in
          bindE (store_call E (save_cron_job E j')) (\<lambda>_. retE j')))"

definition cron_cancel :: "genv \<Rightarrow> string \<Rightarrow> unit wio" where
  "cron_cancel E i = store_call E (delete_cron_job E i)"

definition cron_list :: "genv \<Rightarrow> string option \<Rightarrow> cron_job list wio" where
  "cron_list E status = store_call E (list_cron_jobs status)"

definition cron_get :: "genv \<Rightarrow> string \<Rightarrow> cron_job option wio" where
  "cron_get E i = store_call E (get_cron_job i)"

definition cron_history :: "genv \<Rightarrow> string \<Rightarrow> nat \<Rightarrow> cron_run list wio" where
  "cron_history E i limit = store_call E (list_cron_runs i limit)"

definition trigger_job :: "genv \<Rightarrow> string \<Rightarrow> string \<Rightarrow> (cron_run \<times> event_envelope) wio" where
  "trigger_job E i who =
     bindE (store_call E (get_cron_job i)) (\<lambda>found.
     bindE (liftE (ok_or (no_cron_job i) found)) (\<lambda>j.
     bindE (fresh_uuid E) (\<lambda>rid.
     bindE (now_io E) (\<lambda>now.
     let run = \<lparr>cr_id = uuid_show E rid, cr_job_id = i, cr_status = CronRunning, cr_started_at = now,
                cr_completed_at = None, cr_output = None, cr_error = None, cr_triggered_by = who\<rparr> in
     bindE (store_call E (save_cron_run E run)) (\<lambda>_.
     bindE (case sched E (cj_schedule j) of
              Inl _ \<Rightarrow> retE (cj_next_run_at j)
            | Inr nx \<Rightarrow> next_fire E nx) (\<lambda>next.
     bindE (store_call E (save_cron_job E
              (j\<lparr>cj_last_run_at := Some now, cj_updated_at := now, cj_next_run_at := next\<rparr>))) (\<lambda>_.
     bindE (fresh_uuid E) (\<lambda>eid.
     bindE (fresh_uuid E) (\<lambda>corr.
     bindE (event_new E ''atta.cron.triggered'' (entity_task E eid) actor_system corr
              (mk_obj [(''job_id'', JStr (cj_id j)), (''run_id'', JStr (uuid_show E rid)),
                       (''command'', JStr (cj_command j)), (''config'', cj_config j),
                       (''triggered_by'', JStr who)])) (\<lambda>ev.
     retE (run, ev)))))))))))"

text \<open>The spawned task: without its event the run is marked as failed.\<close>

definition cron_publish :: "genv \<Rightarrow> cron_run \<Rightarrow> event_envelope \<Rightarrow> unit wio" where
  "cron_publish E run ev =
     tryE (publish E ''atta.cron.triggered'' ev) (\<lambda>r.
       case r of
         Inr _ \<Rightarrow> retE ()
       | Inl e \<Rightarrow>
           bindE (now_io E) (\<lambda>now.
           tryE (store_call E (save_cron_run E
             (run\<lparr>cr_status := CronFailed, cr_completed_at := Some now,
                  cr_error := Some (''failed to publish execution event: '' @ error_show e)\<rparr>))) (\<lambda>_. retE ())))"

text \<open>A tick triggers the active jobs that are due; a failure is logged and the next job is tried.\<close>

definition job_due :: "timestamp \<Rightarrow> cron_job \<Rightarrow> bool" where
  "job_due now j = (case cj_next_run_at j of None \<Rightarrow> False | Some t \<Rightarrow> t \<le> now)"

definition cron_tick :: "genv \<Rightarrow> unit wio" where
  "cron_tick E =
     bindE (now_io E) (\<lambda>now.
     bindE (store_call E (list_cron_jobs (Some ''active''))) (\<lambda>jobs.
     forE jobs (\<lambda>j. if job_due now j then tryE (trigger_job E (cj_id j) ''scheduler'') (\<lambda>_. retE ()) else retE ())))"

definition cron_update :: "genv \<Rightarrow> string \<Rightarrow> string option \<Rightarrow> bool option \<Rightarrow> cron_job wio" where
  "cron_update E i expr enabled =
     bindE (store_call E (get_cron_job i)) (\<lambda>found.
     bindE (liftE (ok_or (no_cron_job i) found)) (\<lambda>j.
     bindE (case expr of
              None \<Rightarrow> retE j
            | Some x \<Rightarrow>
                (case sched E x of
                   Inl e \<Rightarrow> failE (bad_cron x e)
                 | Inr nx \<Rightarrow> bindE (next_fire E nx) (\<lambda>next. retE (j\<lparr>cj_schedule := x, cj_next_run_at := next\<rparr>)))) (\<lambda>j1.
     let j2 = (case enabled of None \<Rightarrow> j1 | Some b \<Rightarrow> j1\<lparr>cj_enabled := b\<rparr>) in
     bindE (now_io E) (\<lambda>now.
     let j3 = j2\<lparr>cj_updated_at := now\<rparr> in
     bindE (store_call E (save_cron_job E j3)) (\<lambda>_. retE j3)))))"

section \<open>The handlers\<close>

text \<open>\<open>running\<close>: whether the application state has a cron engine.\<close>

definition need_engine :: "bool \<Rightarrow> unit handler" where
  "need_engine running = (if running then retE () else failE (not_implemented ''Cron engine''))"

definition enabled_filter :: "bool option \<Rightarrow> string option" where
  "enabled_filter q = map_option (\<lambda>b. if b then ''active'' else ''disabled'') q"

definition api_list_jobs :: "genv \<Rightarrow> bool \<Rightarrow> checker \<Rightarrow> current_user \<Rightarrow> bool option \<Rightarrow> response handler" where
  "api_list_jobs E running chk user q =
     bindE (check_authz chk user Read (resource_all RTask)) (\<lambda>_.
     bindE (need_engine running) (\<lambda>_.
     bindE (or_500 (cron_list E (enabled_filter q))) (\<lambda>js. retE (Resp 200 (BJobs js)))))"

definition validation_as :: "nat \<Rightarrow> (world, atta_error, 'a) io \<Rightarrow> ('a \<Rightarrow> response) \<Rightarrow> response handler" where
  "validation_as st m ok = tryE m (\<lambda>r.
     case r of
       Inr x \<Rightarrow> retE (ok x)
     | Inl (Validation v) \<Rightarrow> retE (error_response st (Validation v))
     | Inl e \<Rightarrow> retE (error_response 500 e))"

record job_request =
  jr_name :: string
  jr_schedule :: string
  jr_command :: string
  jr_config :: json

definition api_create_job :: "genv \<Rightarrow> bool \<Rightarrow> checker \<Rightarrow> current_user \<Rightarrow> job_request \<Rightarrow> response handler" where
  "api_create_job E running chk user q =
     bindE (need_engine running) (\<lambda>_.
     bindE (check_authz chk user Create (resource_all RTask)) (\<lambda>_.
     bindE (or_500 (fresh_uuid E)) (\<lambda>i.
     bindE (or_500 (now_io E)) (\<lambda>created.
     bindE (or_500 (now_io E)) (\<lambda>updated.
     validation_as 400 (cron_schedule E
       \<lparr>cj_id = uuid_show E i, cj_name = jr_name q, cj_schedule = jr_schedule q, cj_command = jr_command q,
        cj_config = jr_config q, cj_enabled = True, cj_created_by = actor_id (cu_actor user),
        cj_created_at = created, cj_updated_at = updated, cj_last_run_at = None, cj_next_run_at = None\<rparr>)
       (\<lambda>j. Resp 201 (BJob j)))))))"

definition api_get_job :: "genv \<Rightarrow> bool \<Rightarrow> checker \<Rightarrow> current_user \<Rightarrow> string \<Rightarrow> response handler" where
  "api_get_job E running chk user i =
     bindE (check_authz chk user Read (resource_new RTask i)) (\<lambda>_.
     bindE (need_engine running) (\<lambda>_.
     bindE (or_500 (cron_get E i)) (\<lambda>found.
     case found of
       Some j \<Rightarrow> retE (Resp 200 (BJob j))
     | None \<Rightarrow> retE (error_response 404 (NotFound ''cron_job'' i)))))"

definition api_update_job ::
  "genv \<Rightarrow> bool \<Rightarrow> checker \<Rightarrow> current_user \<Rightarrow> string \<Rightarrow> string option \<Rightarrow> bool option \<Rightarrow> response handler" where
  "api_update_job E running chk user i expr enabled =
     bindE (need_engine running) (\<lambda>_.
     bindE (check_authz chk user Update (resource_new RTask i)) (\<lambda>_.
     validation_as 400 (cron_update E i expr enabled) (\<lambda>j. Resp 200 (BJob j))))"

definition api_delete_job :: "genv \<Rightarrow> bool \<Rightarrow> checker \<Rightarrow> current_user \<Rightarrow> string \<Rightarrow> response handler" where
  "api_delete_job E running chk user i =
     bindE (need_engine running) (\<lambda>_.
     bindE (check_authz chk user Delete (resource_new RTask i)) (\<lambda>_.
     bindE (or_500 (cron_cancel E i)) (\<lambda>_. retE (Resp 204 BEmpty))))"

text \<open>The response, and what is left to the spawned task.\<close>

definition api_trigger_job ::
  "genv \<Rightarrow> bool \<Rightarrow> checker \<Rightarrow> current_user \<Rightarrow> string \<Rightarrow> response handler" where
  "api_trigger_job E running chk user i =
     bindE (need_engine running) (\<lambda>_.
     bindE (check_authz chk user Execute (resource_new RTask i)) (\<lambda>_.
     validation_as 404
       (bindE (trigger_job E i ''manual'') (\<lambda>(run, ev). bindE (cron_publish E run ev) (\<lambda>_. retE run)))
       (\<lambda>run. Resp 200 (BRun run))))"

definition api_list_runs :: "genv \<Rightarrow> bool \<Rightarrow> string \<Rightarrow> nat option \<Rightarrow> response handler" where
  "api_list_runs E running i limit =
     bindE (need_engine running) (\<lambda>_.
     bindE (or_500 (cron_history E i (or_default 20 limit))) (\<lambda>rs. retE (Resp 200 (BRuns rs))))"

definition api_cron_status :: "bool \<Rightarrow> checker \<Rightarrow> current_user \<Rightarrow> response handler" where
  "api_cron_status running chk user =
     bindE (check_authz chk user Read (resource_all RTask)) (\<lambda>_.
     retE (Resp 200 (BJson (mk_obj [(''running'', JBool running)]))))"

section \<open>Properties\<close>

lemma save_cron_job_effect:
  "save_cron_job E j d = (r, d') \<Longrightarrow>
     tbl_get (db_cron_jobs d') k = (if k = cj_id j then Some j else tbl_get (db_cron_jobs d) k) \<and>
     (fk_on E \<longrightarrow> tbl_get (db_cron_jobs d) (cj_id j) \<noteq> None \<longrightarrow>
        db_cron_runs d' = filter (\<lambda>(_, x). cr_job_id x \<noteq> cj_id j) (db_cron_runs d))"
  by (auto simp: save_cron_job_def delete_job_cascade_def Let_def tbl_get_snoc tbl_get_delete split: option.split)

text \<open>
  Triggering a job erases its history, the run it has just recorded included: saving the job again replaces its row,
  and the replacement cascades to its runs. Until the run ends, the history of the job is empty.
\<close>

theorem trigger_erases_history:
  assumes "quiet E" and "fk_on E" and "tbl_get (db_cron_jobs (w_db w)) i = Some j" and "cj_id j = i"
  shows "\<exists>run ev w'. trigger_job E i who w = (Inr (run, ev), w') \<and> cr_job_id run = i \<and>
     list_cron_runs i limit (w_db w') = (Inr [], w_db w')"
proof -
  note call = store_call_quiet [OF assms(1)]
  define now where "now = clk E (w_clk w)"
  define run where "run = \<lparr>cr_id = uuid_show E (new_uuid E (w_uid w)), cr_job_id = i, cr_status = CronRunning,
      cr_started_at = now, cr_completed_at = None, cr_output = None, cr_error = None, cr_triggered_by = who\<rparr>"
  obtain d1 where d1: "save_cron_run E run (w_db w) = (Inr (), d1)" "db_cron_jobs d1 = db_cron_jobs (w_db w)"
    using assms(3) by (simp add: save_cron_run_def run_def)
  have erased: "list_cron_runs i limit d2 = (Inr [], d2)" if "save_cron_job E j' d1 = (Inr (), d2)" "cj_id j' = i" for j' d2
  proof -
    have "db_cron_runs d2 = filter (\<lambda>(_, x). cr_job_id x \<noteq> i) (db_cron_runs d1)"
      using save_cron_job_effect [OF that(1)] that(2) assms(2,3) d1(2) by simp
    then have "filter (\<lambda>r. cr_job_id r = i) (map snd (db_cron_runs d2)) = []"
      by (auto simp: filter_empty_conv)
    then show ?thesis by (simp add: list_cron_runs_def)
  qed
  obtain nxt w3 where w3: "(case sched E (cj_schedule j) of Inl _ \<Rightarrow> retE (cj_next_run_at j) | Inr nx \<Rightarrow> next_fire E nx)
       (w\<lparr>w_uid := Suc (w_uid w), w_clk := Suc (w_clk w), w_db := d1, w_calls := Suc (Suc (w_calls w))\<rparr>) = (Inr nxt, w3)"
    "w_db w3 = d1"
    by (cases "sched E (cj_schedule j)") (auto simp: next_fire_def bindE_def now_io_def)
  let ?j = "j\<lparr>cj_last_run_at := Some now, cj_updated_at := now, cj_next_run_at := nxt\<rparr>"
  obtain d2 where d2: "save_cron_job E ?j d1 = (Inr (), d2)" by (simp add: save_cron_job_def Let_def)
  have "\<exists>ev w'. trigger_job E i who w = (Inr (run, ev), w') \<and> w_db w' = d2"
    using assms(3) d1(1) d2 w3 unfolding run_def now_def
    by (simp add: trigger_job_def bindE_def call get_cron_job_def fresh_uuid_def now_io_def Let_def event_new_def)
  with erased [OF d2] assms(4) show ?thesis by (auto simp: run_def)
qed

definition demo_job :: cron_job where
  "demo_job = \<lparr>cj_id = ''j1'', cj_name = ''nightly'', cj_schedule = ''hourly'', cj_command = ''run'', cj_config = JObj [],
     cj_enabled = True, cj_created_by = ''owner'', cj_created_at = 0, cj_updated_at = 0, cj_last_run_at = None,
     cj_next_run_at = None\<rparr>"

definition cron_db :: db where
  "cron_db = db_empty\<lparr>db_cron_jobs := [(''j1'', demo_job)], db_cron_runs :=
     [(''r0'', \<lparr>cr_id = ''r0'', cr_job_id = ''j1'', cr_status = CronCompleted, cr_started_at = 0, cr_completed_at = Some 1,
                cr_output = None, cr_error = None, cr_triggered_by = ''manual''\<rparr>)]\<rparr>"

theorem trigger_erases_history_witness:
  "\<exists>run ev w'. trigger_job demo_env ''j1'' ''manual'' (demo_world demo_flow cron_db) = (Inr (run, ev), w') \<and>
     cr_job_id run = ''j1'' \<and> list_cron_runs ''j1'' 20 (w_db w') = (Inr [], w_db w')"
proof (rule trigger_erases_history [OF demo_quiet])
  show "fk_on demo_env" by (simp add: demo_env_def)
  show "tbl_get (db_cron_jobs (w_db (demo_world demo_flow cron_db))) ''j1'' = Some demo_job"
    by (simp add: demo_world_def cron_db_def tbl_get_def)
  show "cj_id demo_job = ''j1''" by (simp add: demo_job_def)
qed

text \<open>
  Listing jobs with \<open>enabled=false\<close> returns every job, the enabled ones too: the handler asks for the status
  \<open>disabled\<close>, which the store does not know.
\<close>

theorem disabled_filter_lists_all:
  assumes "quiet E" and "allows chk user"
  shows "\<exists>js w'. respond (api_list_jobs E True chk user (Some False)) w = (Resp 200 (BJobs js), w') \<and>
     set js = snd ` set (db_cron_jobs (w_db w))"
  by (simp add: api_list_jobs_def bindE_def allows_check [OF assms(2)] need_engine_def or_500_def tryE_def cron_list_def
      store_call_quiet [OF assms(1)] list_cron_jobs_def enabled_filter_def respond_def)

theorem disabled_filter_lists_all_witness:
  "\<exists>js w'. respond (api_list_jobs demo_env True allow_all_check desktop_owner (Some False)) (demo_world demo_flow cron_db) =
     (Resp 200 (BJobs js), w') \<and> set js = snd ` set (db_cron_jobs (w_db (demo_world demo_flow cron_db)))"
  by (rule disabled_filter_lists_all [OF demo_quiet allow_all_allows])

end
