(* ===== verification/Classifier.thy ===== *)
theory Classifier
  imports Atta_Types
begin

text \<open>
  Risk classification and shell command validation (\<open>crates/security/src/classifier.rs\<close>), the security policy
  (\<open>policy.rs\<close>) and the tool profiles (\<open>policy_pipeline.rs\<close>). Upper and lower case and white space are ASCII.
\<close>

section \<open>The policy\<close>

datatype tool_profile = Minimal | Coding | Messaging | Research | FullProfile | CustomProfile "string list"

datatype autonomy_level = ReadOnly | Supervised | FullAutonomy

record security_policy =
  sp_autonomy :: autonomy_level
  sp_command_allowlist :: "string list"
  sp_forbidden_paths :: "string list"
  sp_max_calls :: u32
  sp_max_high_risk :: u32
  sp_allow_network :: bool
  sp_max_write_size :: u64
  sp_workspace_root :: "string option"
  sp_allowed_roots :: "string list"
  sp_url_allowlist :: "string list"
  sp_url_blocklist :: "string list"
  sp_tool_profile :: tool_profile

definition policy_default :: security_policy where
  "policy_default =
     \<lparr>sp_autonomy = Supervised, sp_command_allowlist = [],
      sp_forbidden_paths = [''/etc/shadow'', ''/etc/passwd'', ''~/.ssh/id_*''],
      sp_max_calls = 60, sp_max_high_risk = 10, sp_allow_network = True, sp_max_write_size = 10485760,
      sp_workspace_root = None, sp_allowed_roots = [], sp_url_allowlist = [], sp_url_blocklist = [],
      sp_tool_profile = FullProfile\<rparr>"

section \<open>Profiles\<close>

definition group_fs :: "string list" where
  "group_fs = [''file_read'', ''file_write'', ''file_edit'', ''file_list'', ''apply_patch'']"

definition group_shell :: "string list" where
  "group_shell = [''shell'', ''bash'', ''exec'', ''process'']"

definition group_web :: "string list" where
  "group_web = [''web_fetch'', ''web_search'', ''http_request'', ''browser'']"

definition group_search :: "string list" where
  "group_search = [''search'', ''grep'', ''find'']"

definition group_memory :: "string list" where
  "group_memory = [''memory_store'', ''memory_search'', ''memory_recall'']"

definition group_messaging :: "string list" where
  "group_messaging = [''send_message'', ''email'', ''notification'', ''slack'']"

definition group_code :: "string list" where
  "group_code = [''code_analysis'', ''lint'', ''format'', ''test'']"

definition resolve_profile :: "tool_profile \<Rightarrow> string list option" where
  "resolve_profile p =
     (case p of
        FullProfile \<Rightarrow> None
      | Minimal \<Rightarrow> Some ([''file_read'', ''file_list''] @ group_search)
      | Coding \<Rightarrow> Some (group_fs @ group_shell @ group_search @ group_code @ group_memory)
      | Messaging \<Rightarrow> Some (group_messaging @ [''file_read''] @ group_search)
      | Research \<Rightarrow> Some (group_web @ group_search @ group_memory @ [''file_read''])
      | CustomProfile _ \<Rightarrow> None)"

definition filter_tools_by_profile :: "tool_schema list \<Rightarrow> tool_profile \<Rightarrow> tool_schema list" where
  "filter_tools_by_profile tools p =
     (case p of
        FullProfile \<Rightarrow> tools
      | CustomProfile names \<Rightarrow> filter (\<lambda>t. list_ex (\<lambda>n. n = schema_name t) names) tools
      | _ \<Rightarrow> (case resolve_profile p of
               Some allowed \<Rightarrow> filter (\<lambda>t. List.member allowed (schema_name t)) tools
             | None \<Rightarrow> tools))"

section \<open>Risk\<close>

definition sensitive_patterns :: "string list" where
  "sensitive_patterns =
     [''/etc/shadow'', ''/etc/passwd'', ''.ssh/'', ''.env'', ''.credentials'', ''id_rsa'', ''id_ed25519'',
      ''.aws/credentials'', ''.kube/config'']"

definition is_sensitive_path :: "string \<Rightarrow> bool" where
  "is_sensitive_path path = list_ex (contains path) sensitive_patterns"

definition classify :: "string \<Rightarrow> json \<Rightarrow> risk_level" where
  "classify tool args =
     (if List.member [''shell'', ''bash'', ''exec''] tool then High
      else if List.member [''file_write'', ''file_edit'', ''apply_patch''] tool then
        (case jget_str args ''path'' of
           Some path \<Rightarrow> if is_sensitive_path path then High else Medium
         | None \<Rightarrow> Medium)
      else if List.member [''process'', ''process_kill''] tool then High
      else if List.member [''git_push'', ''git_force_push''] tool then High
      else if List.member [''subagent_spawn'', ''subagent_manage''] tool then High
      else if tool = ''delegation'' then Medium
      else if List.member [''web_fetch'', ''web_search'', ''http_request'', ''git_ops'', ''git_commit'', ''git_branch'',
        ''cron'', ''cron_remove'', ''cron_update'', ''cron_run'', ''browser'', ''agents_send'', ''state_set'',
        ''pushover'', ''schedule'', ''delegate_status''] tool then Medium
      else if List.member [''file_read'', ''glob_search'', ''content_search'', ''memory_store'', ''memory_recall'',
        ''memory_forget'', ''screenshot'', ''pdf_read'', ''echo'', ''time'', ''cron_list'', ''cron_runs'',
        ''subagent_list'', ''agents_list'', ''agents_inbox'', ''state_get'', ''task_plan'', ''image_info'',
        ''url_validation'', ''cli_discovery''] tool then Low
      else Medium)"

section \<open>Shell commands\<close>

text \<open>
  The loop of \<open>split_unquoted_segments\<close>: \<open>sq\<close> and \<open>dq\<close> say whether a quote is open, \<open>acc\<close> is the
  current segment, reversed. A backslash takes the next byte along.
\<close>

abbreviation bslash :: char where "bslash \<equiv> CHR 0x5C"
abbreviation squot :: char where "squot \<equiv> CHR 0x27"
abbreviation dquot :: char where "dquot \<equiv> CHR 0x22"

function (sequential) raw_segments :: "bool \<Rightarrow> bool \<Rightarrow> string \<Rightarrow> string \<Rightarrow> string list" where
  "raw_segments sq dq acc [] = [rev acc]"
| "raw_segments sq dq acc (c # cs) =
     (if c = bslash \<and> \<not> sq then
        (case cs of [] \<Rightarrow> [rev (c # acc)] | d # ds \<Rightarrow> raw_segments sq dq (d # c # acc) ds)
      else if c = squot \<and> \<not> dq then raw_segments (\<not> sq) dq (c # acc) cs
      else if c = dquot \<and> \<not> sq then raw_segments sq (\<not> dq) (c # acc) cs
      else if \<not> sq \<and> \<not> dq \<and> (c = CHR ''&'' \<or> c = CHR ''|'') \<and> cs \<noteq> [] \<and> hd cs = c then
        rev acc # raw_segments sq dq [] (tl cs)
      else if \<not> sq \<and> \<not> dq \<and> (c = CHR '';'' \<or> c = CHR ''|'' \<or> c = CHR ''&'') then
        rev acc # raw_segments sq dq [] cs
      else raw_segments sq dq (c # acc) cs)"
  by pat_completeness auto

termination
  by (relation "measure (\<lambda>(_, _, _, s). length s)") auto

definition split_unquoted_segments :: "string \<Rightarrow> string list" where
  "split_unquoted_segments command = filter (\<lambda>s. s \<noteq> []) (map trim (raw_segments False False [] command))"

definition dangerous_patterns :: "string list" where
  "dangerous_patterns =
     [''rm -rf /'', '':(){ :|:& };:'', ''mkfs.'', ''dd if='', ''> /dev/sd'', ''chmod -R 777 /'',
      ''curl | sh'', ''wget | sh'', ''curl | bash'', ''wget | bash'']"

text \<open>\<open>trim_end_matches('*')\<close>.\<close>

definition trim_end_char :: "char \<Rightarrow> string \<Rightarrow> string" where
  "trim_end_char c s = rev (dropWhile (\<lambda>x. x = c) (rev s))"

definition command_matches :: "string \<Rightarrow> string \<Rightarrow> bool" where
  "command_matches cmd pat =
     (if contains pat ''*'' then starts_with cmd (trim_end_char (CHR ''*'') pat) else cmd = pat)"

definition violation_if :: "bool \<Rightarrow> string \<Rightarrow> atta_error + unit" where
  "violation_if b m = (if b then Inl (SecurityViolation m) else Inr ())"

definition validate_single_segment :: "security_policy \<Rightarrow> string \<Rightarrow> atta_error + unit" where
  "validate_single_segment policy seg =
     (if seg = [] then Inr ()
      else
        and_then (each (\<lambda>p. violation_if (contains (to_lower seg) p)
          (''dangerous command pattern detected: '' @ p)) dangerous_patterns) (\<lambda>_.
        and_then (violation_if
          (sp_command_allowlist policy \<noteq> [] \<and> \<not> list_ex (command_matches (first_word seg)) (sp_command_allowlist policy))
          (''command '' @ squote (first_word seg) @ '' not in allowlist'')) (\<lambda>_.
        each (\<lambda>f. violation_if (contains seg f) (''command accesses forbidden path: '' @ f))
          (sp_forbidden_paths policy))))"

definition validate_shell_command :: "security_policy \<Rightarrow> string \<Rightarrow> atta_error + unit" where
  "validate_shell_command policy command =
     each (\<lambda>seg. validate_single_segment policy (trim seg)) (split_unquoted_segments command)"
section \<open>Splitting loses nothing\<close>

definition operator_char :: "char \<Rightarrow> bool" where
  "operator_char c \<longleftrightarrow> c = CHR '';'' \<or> c = CHR ''|'' \<or> c = CHR ''&''"

lemma contains_Nil [simp]: "contains s []"
  by (force simp: contains_iff)

lemma append_eq_append_Cons:
  assumes "a @ c # b = l @ x"
  shows "(\<exists>u. l = a @ c # u \<and> b = u @ x) \<or> (\<exists>u. a = l @ u \<and> x = u @ c # b)"
proof -
  from assms obtain us where "a = l @ us \<and> us @ c # b = x \<or> a @ us = l \<and> c # b = us @ x"
    by (auto simp: append_eq_append_conv2)
  then show ?thesis by (cases us) auto
qed

lemma contains_across:
  assumes "contains (a @ c # b) t" and "c \<notin> set t"
  shows "contains a t \<or> contains b t"
proof (cases "t = []")
  case False
  obtain l r where "a @ c # b = l @ t @ r" using assms(1) by (auto simp: contains_iff)
  from append_eq_append_Cons [OF this] consider (left) u where "l = a @ c # u" "b = u @ t @ r"
    | (mid) u where "a = l @ u" "t @ r = u @ c # b"
    by blast
  then show ?thesis
  proof cases
    case left
    then show ?thesis by (auto simp: contains_iff)
  next
    case mid
    from append_eq_append_Cons [OF mid(2) [symmetric]] assms(2) obtain v where "u = t @ v" by auto
    then show ?thesis using mid(1) by (auto simp: contains_iff)
  qed
qed simp

lemma contains_Cons: "contains (c # b) t \<Longrightarrow> c \<notin> set t \<Longrightarrow> contains b t"
  using contains_across [of "[]" c b t] contains_set [of "[]" t] by auto

text \<open>A text without operator characters is within one segment, however it is quoted.\<close>

lemma raw_segments_contain:
  assumes "contains (rev acc @ s) t" and "\<And>c. c \<in> set t \<Longrightarrow> \<not> operator_char c"
  shows "\<exists>g \<in> set (raw_segments sq dq acc s). contains g t"
  using assms
proof (induction sq dq acc s rule: raw_segments.induct)
  case (1 sq dq acc)
  then show ?case by simp
next
  case (2 sq dq acc c cs)
  note IH = 2(1-6) and t = 2(7) and op = 2(8)
  have cut: "contains (rev acc) t \<or> contains cs t" if "operator_char c"
    using contains_across t op that by blast
  show ?case
  proof (cases "c = bslash \<and> \<not> sq")
    case True
    then show ?thesis
      using IH(1) t op by (cases cs) (auto simp: operator_char_def)
  next
    case not_esc: False
    show ?thesis
    proof (cases "c = squot \<and> \<not> dq")
      case True
      then show ?thesis using IH(2) not_esc t op by simp
    next
      case not_sq: False
      show ?thesis
      proof (cases "c = dquot \<and> \<not> sq")
        case True
        then show ?thesis using IH(3) not_esc not_sq t op by simp
      next
        case not_dq: False
        show ?thesis
        proof (cases "\<not> sq \<and> \<not> dq \<and> (c = CHR ''&'' \<or> c = CHR ''|'') \<and> cs \<noteq> [] \<and> hd cs = c")
          case True
          then obtain ds where cs: "cs = c # ds" by (cases cs) auto
          have c: "operator_char c" using True by (auto simp: operator_char_def)
          then have "contains (rev acc) t \<or> contains ds t"
            using cut [OF c] contains_Cons [of c ds t] op [of c] unfolding cs by argo
          then have "\<exists>g \<in> set (rev acc # raw_segments sq dq [] (tl cs)). contains g t"
            using IH(4) [OF not_esc not_sq not_dq True _ op] cs by auto
          then show ?thesis
            unfolding raw_segments.simps(2) if_not_P [OF not_esc] if_not_P [OF not_sq] if_not_P [OF not_dq] if_P [OF True] .
        next
          case not_two: False
          show ?thesis
          proof (cases "\<not> sq \<and> \<not> dq \<and> (c = CHR '';'' \<or> c = CHR ''|'' \<or> c = CHR ''&'')")
            case True
            then have "operator_char c" by (auto simp: operator_char_def)
            then have "contains (rev acc) t \<or> contains cs t" by (rule cut)
            then have "\<exists>g \<in> set (rev acc # raw_segments sq dq [] cs). contains g t"
              using IH(5) [OF not_esc not_sq not_dq not_two True _ op] by auto
            then show ?thesis
              unfolding raw_segments.simps(2) if_not_P [OF not_esc] if_not_P [OF not_sq] if_not_P [OF not_dq]
                if_not_P [OF not_two] if_P [OF True] .
          next
            case False
            have "\<exists>g \<in> set (raw_segments sq dq (c # acc) cs). contains g t"
              using IH(6) [OF not_esc not_sq not_dq not_two False _ op] t by simp
            then show ?thesis
              unfolding raw_segments.simps(2) if_not_P [OF not_esc] if_not_P [OF not_sq] if_not_P [OF not_dq]
                if_not_P [OF not_two] if_not_P [OF False] .
          qed
        qed
      qed
    qed
  qed
qed
section \<open>What the validation refuses\<close>

text \<open>A text that splitting and trimming leave in one piece.\<close>

definition plain_text :: "string \<Rightarrow> bool" where
  "plain_text t \<longleftrightarrow> t \<noteq> [] \<and> \<not> is_ws (hd t) \<and> \<not> is_ws (last t) \<and> (\<forall>c \<in> set t. \<not> operator_char c)"

lemma trim_split_ws:
  "\<exists>v w. s = v @ trim s @ w \<and> (\<forall>c \<in> set v. is_ws c) \<and> (\<forall>c \<in> set w. is_ws c)"
proof -
  obtain v where "s = v @ trim_start s" "\<forall>c \<in> set v. is_ws c" using trim_start_suffix by blast
  moreover obtain w where "trim_start s = trim s @ w" "\<forall>c \<in> set w. is_ws c"
    using trim_end_prefix [of "trim_start s"] by (auto simp: trim_def)
  ultimately show ?thesis by (metis append.assoc)
qed

lemma contains_strip_front:
  "contains (v @ s) t \<Longrightarrow> \<forall>c \<in> set v. is_ws c \<Longrightarrow> t \<noteq> [] \<Longrightarrow> \<not> is_ws (hd t) \<Longrightarrow> contains s t"
proof (induction v)
  case (Cons c v)
  then obtain l r where e: "c # v @ s = l @ t @ r" by (auto simp: contains_iff)
  with Cons.prems(2-4) have "l \<noteq> []" by (cases t) auto
  with e have "contains (v @ s) t" by (cases l) (auto simp: contains_iff)
  with Cons show ?case by simp
qed simp

lemma contains_rev: "contains (rev s) (rev t) \<longleftrightarrow> contains s t"
proof -
  have "contains (rev s) (rev t)" if st: "contains s t" for s t :: string
  proof -
    obtain l r where "s = l @ t @ r" using st by (auto simp: contains_iff)
    then have "rev s = rev r @ rev t @ rev l" by simp
    then show ?thesis by (auto simp: contains_iff)
  qed
  from this [of s t] this [of "rev s" "rev t"] show ?thesis by auto
qed

lemma contains_trim:
  assumes "contains s t" and "t \<noteq> []" and "\<not> is_ws (hd t)" and "\<not> is_ws (last t)"
  shows "contains (trim s) t"
proof -
  obtain v w where s: "s = v @ trim s @ w" "\<forall>c \<in> set v. is_ws c" "\<forall>c \<in> set w. is_ws c"
    using trim_split_ws by blast
  have "contains (trim s @ w) t"
    using contains_strip_front [of v "trim s @ w" t] assms s by simp
  then have "contains (rev w @ rev (trim s)) (rev t)"
    using contains_rev [of "trim s @ w" t] by simp
  then have "contains (rev (trim s)) (rev t)"
    by (rule contains_strip_front) (use assms s(3) in \<open>auto simp: hd_rev\<close>)
  then show ?thesis by (simp add: contains_rev)
qed

lemma segment_contains:
  assumes "contains command t" and "plain_text t"
  shows "\<exists>g \<in> set (split_unquoted_segments command). contains g t \<and> g \<noteq> []"
proof -
  have "\<exists>g \<in> set (raw_segments False False [] command). contains g t"
    by (rule raw_segments_contain) (use assms in \<open>auto simp: plain_text_def\<close>)
  then obtain g where g: "g \<in> set (raw_segments False False [] command)" "contains g t" by blast
  from g(2) assms(2) have "contains (trim g) t" by (auto simp: plain_text_def intro: contains_trim)
  moreover from this assms(2) have "trim g \<noteq> []" using contains_set [of "[]" t] by (auto simp: plain_text_def)
  ultimately show ?thesis using g(1) by (auto simp: split_unquoted_segments_def)
qed

lemma contains_to_lower: "contains s t \<Longrightarrow> contains (to_lower s) (to_lower t)"
  unfolding contains_iff using to_lower_append by metis

definition refused :: "atta_error + unit \<Rightarrow> bool" where
  "refused r \<longleftrightarrow> (\<exists>m. r = Inl (SecurityViolation m))"

lemma and_then_refused: "refused (and_then r k) \<longleftrightarrow> refused r \<or> (\<exists>x. r = Inr x \<and> refused (k x))"
  by (cases r) (auto simp: refused_def)

lemma refused_violation_if [simp]: "refused (violation_if b m) \<longleftrightarrow> b"
  by (simp add: refused_def violation_if_def)

lemma each_refused:
  "(\<And>x. x \<in> set xs \<Longrightarrow> f x = Inr () \<or> refused (f x)) \<Longrightarrow>
     (each f xs = Inr () \<or> refused (each f xs)) \<and> (refused (each f xs) \<longleftrightarrow> (\<exists>x \<in> set xs. refused (f x)))"
  by (induction xs) (auto simp: and_then_refused and_then_eq_iff, auto simp: refused_def)

lemma violation_if_cases: "violation_if b m = Inr () \<or> refused (violation_if b m)"
  by (simp add: violation_if_def refused_def)

lemma each_violation:
  "each (\<lambda>x. violation_if (b x) (m x)) xs = Inr () \<or> refused (each (\<lambda>x. violation_if (b x) (m x)) xs)"
  "refused (each (\<lambda>x. violation_if (b x) (m x)) xs) \<longleftrightarrow> (\<exists>x \<in> set xs. b x)"
  using each_refused [where f = "\<lambda>x. violation_if (b x) (m x)", OF violation_if_cases, of xs] unfolding refused_violation_if by blast+

lemma segment_refused:
  "refused (validate_single_segment policy seg) \<longleftrightarrow>
     seg \<noteq> [] \<and> ((\<exists>p \<in> set dangerous_patterns. contains (to_lower seg) p) \<or>
       (sp_command_allowlist policy \<noteq> [] \<and>
        \<not> list_ex (command_matches (first_word seg)) (sp_command_allowlist policy)) \<or>
       (\<exists>f \<in> set (sp_forbidden_paths policy). contains seg f))"
  "validate_single_segment policy seg = Inr () \<or> refused (validate_single_segment policy seg)"
proof -
  let ?D = "each (\<lambda>p. violation_if (contains (to_lower seg) p) (''dangerous command pattern detected: '' @ p))
    dangerous_patterns"
  let ?A = "sp_command_allowlist policy \<noteq> [] \<and>
    \<not> list_ex (command_matches (first_word seg)) (sp_command_allowlist policy)"
  let ?F = "each (\<lambda>f. violation_if (contains seg f) (''command accesses forbidden path: '' @ f))
    (sp_forbidden_paths policy)"
  have D: "?D = Inr () \<or> refused ?D" "refused ?D \<longleftrightarrow> (\<exists>p \<in> set dangerous_patterns. contains (to_lower seg) p)"
    by (rule each_violation)+
  have F: "?F = Inr () \<or> refused ?F" "refused ?F \<longleftrightarrow> (\<exists>f \<in> set (sp_forbidden_paths policy). contains seg f)"
    by (rule each_violation)+
  have no: "\<not> refused (Inr () :: atta_error + unit)" by (simp add: refused_def)
  have V: "validate_single_segment policy seg = (if seg = [] then Inr () else
      and_then ?D (\<lambda>_. and_then (violation_if ?A (''command '' @ squote (first_word seg) @ '' not in allowlist''))
        (\<lambda>_. ?F)))"
    by (simp add: validate_single_segment_def)
  note cases = D(1) F(1) violation_if_cases [of ?A "''command '' @ squote (first_word seg) @ '' not in allowlist''"]
  show "refused (validate_single_segment policy seg) \<longleftrightarrow>
     seg \<noteq> [] \<and> ((\<exists>p \<in> set dangerous_patterns. contains (to_lower seg) p) \<or> ?A \<or>
       (\<exists>f \<in> set (sp_forbidden_paths policy). contains seg f))"
    unfolding V D(2) [symmetric] F(2) [symmetric] using cases no
    by (auto simp: and_then_refused simp del: list_ex_iff)
  show "validate_single_segment policy seg = Inr () \<or> refused (validate_single_segment policy seg)"
    unfolding V using cases no by (auto simp: and_then_refused simp del: list_ex_iff)
qed

lemma trim_segment: "g \<in> set (split_unquoted_segments command) \<Longrightarrow> trim g = g \<and> g \<noteq> []"
  by (auto simp: split_unquoted_segments_def)

lemma command_refused:
  "refused (validate_shell_command policy command) \<longleftrightarrow>
     (\<exists>g \<in> set (split_unquoted_segments command). refused (validate_single_segment policy g))"
  "validate_shell_command policy command = Inr () \<or> refused (validate_shell_command policy command)"
  using each_refused [of "split_unquoted_segments command" "\<lambda>seg. validate_single_segment policy (trim seg)",
      OF segment_refused(2)] trim_segment [of _ command]
  by (auto simp: validate_shell_command_def)
section \<open>Properties\<close>

text \<open>
  C14. No quoting or chaining hides a forbidden text. The text is one without the operator characters \<open>;\<close>, \<open>|\<close> and
  \<open>&\<close> and without white space at its ends, and it is a forbidden path of the policy, or its lower case is a dangerous
  pattern; a command that contains such a text, anywhere, is refused. This covers \<open>rm -rf /\<close>, \<open>mkfs.\<close>, \<open>dd if=\<close> and
  \<open>> /dev/sd\<close> in any case of their letters. It does not cover the patterns with a pipe, which the splitting takes
  apart, nor \<open>chmod -R 777 /\<close>, whose capital letter no lowered command contains (\<open>capital_pattern_never_fires\<close>).
\<close>

theorem shell_refuses_hidden_text:
  assumes "contains command t" and "plain_text t"
    and "t \<in> set (sp_forbidden_paths policy) \<or> to_lower t \<in> set dangerous_patterns"
  shows "refused (validate_shell_command policy command)"
proof -
  obtain g where g: "g \<in> set (split_unquoted_segments command)" "contains g t" "g \<noteq> []"
    using segment_contains [OF assms(1,2)] by blast
  have "refused (validate_single_segment policy g)"
    using assms(3) g(2,3) contains_to_lower [OF g(2)] by (auto simp: segment_refused)
  with g(1) show ?thesis by (auto simp: command_refused)
qed

theorem shell_refuses_hidden_text_witness:
  "refused (validate_shell_command policy_default ''echo ok; /bin/RM -rf /home &'')"
  by (rule shell_refuses_hidden_text [of _ "''RM -rf /''"]) code_simp+

lemma raw_segments_single:
  "(\<And>c. c \<in> set s \<Longrightarrow> \<not> operator_char c) \<Longrightarrow> raw_segments sq dq acc s = [rev acc @ s]"
  by (induction sq dq acc s rule: raw_segments.induct)
    (auto simp: operator_char_def split: list.splits)

lemma first_word_trim: "first_word (trim s) = first_word s"
proof -
  let ?P = "\<lambda>c. \<not> is_ws c"
  obtain w where w: "trim_start s = trim s @ w" "\<forall>c \<in> set w. is_ws c"
    using trim_end_prefix [of "trim_start s"] by (auto simp: trim_def)
  have "trim_start (trim s) = trim s"
    unfolding trim_start_def using hd_trim [of s] by (intro dropWhile_id) blast
  moreover have "takeWhile ?P (trim s @ w) = takeWhile ?P (trim s)"
    using w(2) by (cases w) (auto simp: takeWhile_append takeWhile_eq_all_conv [THEN iffD2])
  ultimately show ?thesis by (simp add: first_word_def w(1))
qed

text \<open>
  A newline ends a command for the shell and not for the validation: after an allowed name and a newline, any text
  without operators is accepted that avoids the dangerous patterns and forbidden paths, whatever commands it names.
\<close>

theorem newline_escapes_allowlist:
  assumes "name \<in> set (sp_command_allowlist policy)" and "name \<noteq> []"
    and "\<forall>c \<in> set name. \<not> is_ws c \<and> c \<noteq> CHR ''*''"
    and "command = name @ CHR 0x0A # rest"
    and "\<forall>c \<in> set command. \<not> operator_char c"
    and "\<forall>p \<in> set dangerous_patterns. \<not> contains (to_lower command) p"
    and "\<forall>f \<in> set (sp_forbidden_paths policy). \<not> contains command f"
  shows "validate_shell_command policy command = Inr ()"
proof -
  have segs: "set (split_unquoted_segments command) \<subseteq> {trim command}"
    using raw_segments_single [of command False False "[]"] assms(5)
    by (auto simp: split_unquoted_segments_def)
  obtain v w where vw: "command = v @ trim command @ w" using trim_decomp by blast
  have sub: "contains command t" if "contains (trim command) t" for t
    using that by (subst vw) (intro contains_appendI1 contains_appendI2)
  have sub_lower: "contains (to_lower command) t" if "contains (to_lower (trim command)) t" for t
    by (subst vw) (use that in \<open>auto intro: contains_appendI1 contains_appendI2\<close>)
  have "is_ws (CHR 0x0A)" by (simp add: is_ws_def)
  moreover have "trim_start (name @ CHR 0x0A # rest) = name @ CHR 0x0A # rest"
    using assms(2,3) by (cases name) (auto simp: trim_start_def)
  moreover have "takeWhile (\<lambda>c. \<not> is_ws c) (name @ CHR 0x0A # rest) = name"
    using assms(3) calculation(1) by (simp add: takeWhile_append)
  ultimately have "first_word (trim command) = name"
    unfolding first_word_trim by (simp add: assms(4) first_word_def)
  moreover have "command_matches name name"
    using assms(3) contains_set [of name "''*''"] by (auto simp: command_matches_def)
  ultimately have "\<not> refused (validate_single_segment policy (trim command))"
    using assms(1,6,7) sub sub_lower by (auto simp: segment_refused list_ex_iff)
  with segs command_refused [of policy command] show ?thesis by auto
qed

theorem newline_escapes_allowlist_witness:
  "validate_shell_command (policy_default\<lparr>sp_command_allowlist := [''ls'']\<rparr>) (''ls'' @ CHR 0x0A # ''reboot'') = Inr ()"
  by (rule newline_escapes_allowlist [where name = "''ls''" and rest = "''reboot''"]) code_simp+

text \<open>
  A dangerous pattern that never fires: the text is put in lower case before the patterns are looked for, and one of
  them has a capital letter. The command it names is accepted by the default policy.
\<close>

theorem capital_pattern_never_fires:
  "''chmod -R 777 /'' \<in> set dangerous_patterns \<and> (\<forall>s. \<not> contains (to_lower s) ''chmod -R 777 /'') \<and>
   validate_shell_command policy_default ''chmod -R 777 /'' = Inr ()"
proof (intro conjI allI notI)
  show "''chmod -R 777 /'' \<in> set dangerous_patterns" by (simp add: dangerous_patterns_def)
  show False if "contains (to_lower s) ''chmod -R 777 /''" for s
    using contains_set [OF that] to_lower_no_upper [of "CHR ''R''" s] by simp
  show "validate_shell_command policy_default ''chmod -R 777 /'' = Inr ()" by code_simp
qed

end
