(* ===== verification/Security_State.thy ===== *)
theory Security_State
  imports Classifier
begin

text \<open>
  The stateful parts of the security crate: the rate tracker (\<open>tracker.rs\<close>), the emergency stop
  (\<open>estop/manager.rs\<close>) and the approval manager with its backends (\<open>approval/\<close>). Clock readings, random
  codes, file errors and the answers of people are arguments.
\<close>

section \<open>The rate tracker\<close>

record tracker =
  tk_calls :: "timestamp list"
  tk_high :: "timestamp list"

definition tracker_new :: tracker where
  "tracker_new = \<lparr>tk_calls = [], tk_high = []\<rparr>"

definition window :: int where
  "window = 60000000000"

text \<open>Both methods do the same to their own queue: drop what has expired, add the call, count.\<close>

definition expire :: "timestamp \<Rightarrow> timestamp list \<Rightarrow> timestamp list" where
  "expire now q = dropWhile (\<lambda>t. t < now - window) q"

definition record_at :: "timestamp \<Rightarrow> timestamp list \<Rightarrow> u32 \<times> timestamp list" where
  "record_at now q = (let q' = expire now q @ [now] in (of_nat (length q'), q'))"

definition record_call :: "timestamp \<Rightarrow> tracker \<Rightarrow> u32 \<times> tracker" where
  "record_call now t = (let (n, q) = record_at now (tk_calls t) in (n, t\<lparr>tk_calls := q\<rparr>))"

definition record_high_risk_call :: "timestamp \<Rightarrow> tracker \<Rightarrow> u32 \<times> tracker" where
  "record_high_risk_call now t = (let (n, q) = record_at now (tk_high t) in (n, t\<lparr>tk_high := q\<rparr>))"

definition current_count :: "timestamp \<Rightarrow> tracker \<Rightarrow> u32 \<times> tracker" where
  "current_count now t = (let q = expire now (tk_calls t) in (of_nat (length q), t\<lparr>tk_calls := q\<rparr>))"

definition current_high_risk_count :: "timestamp \<Rightarrow> tracker \<Rightarrow> u32 \<times> tracker" where
  "current_high_risk_count now t = (let q = expire now (tk_high t) in (of_nat (length q), t\<lparr>tk_high := q\<rparr>))"

text \<open>
  The use the guard makes of it: a call is admitted when its count is at most \<open>limit\<close>. The state is the queue
  and the calls admitted so far.
\<close>

definition admit :: "u32 \<Rightarrow> timestamp list \<times> timestamp list \<Rightarrow> timestamp \<Rightarrow> timestamp list \<times> timestamp list" where
  "admit limit s now =
     (let (n, q) = record_at now (fst s) in (q, if n > limit then snd s else snd s @ [now]))"

section \<open>The emergency stop\<close>

datatype estop_level = KillAll | NetworkKill | DomainBlock "string list" | ToolFreeze "string list"

record estop_state =
  es_kill_all :: bool
  es_network_kill :: bool
  es_blocked_domains :: "string list"
  es_frozen_tools :: "string list"
  es_activated_at :: "string option"
  es_resume_otp :: "string option"

definition estop_default :: estop_state where
  "estop_default = \<lparr>es_kill_all = False, es_network_kill = False, es_blocked_domains = [], es_frozen_tools = [],
     es_activated_at = None, es_resume_otp = None\<rparr>"

text \<open>The state file as \<open>load\<close> finds it; \<open>parse\<close> and \<open>print\<close> are the derived JSON forms of the state.\<close>

datatype estop_file = NoFile | Unreadable | Content string

definition fail_closed :: "string \<Rightarrow> estop_state" where
  "fail_closed now = estop_default\<lparr>es_kill_all := True, es_activated_at := Some now\<rparr>"

definition estop_load :: "(string \<Rightarrow> estop_state option) \<Rightarrow> string \<Rightarrow> estop_file \<Rightarrow> estop_state" where
  "estop_load parse now file =
     (case file of
        NoFile \<Rightarrow> estop_default
      | Unreadable \<Rightarrow> fail_closed now
      | Content c \<Rightarrow> (case parse c of Some s \<Rightarrow> s | None \<Rightarrow> fail_closed now))"

text \<open>\<open>format!("{:06}", n)\<close>.\<close>

definition otp_text :: "nat \<Rightarrow> string" where
  "otp_text n = replicate (6 - length (show_nat n)) (CHR ''0'') @ show_nat n"

fun push_new :: "string list \<Rightarrow> string list \<Rightarrow> string list" where
  "push_new old [] = old"
| "push_new old (x # xs) = push_new (if List.member old x then old else old @ [x]) xs"

definition estop_apply :: "string \<Rightarrow> nat \<Rightarrow> estop_level \<Rightarrow> estop_state \<Rightarrow> estop_state" where
  "estop_apply now otp level s0 =
     (let s = s0\<lparr>es_activated_at := Some now\<rparr> in
      case level of
        KillAll \<Rightarrow> s\<lparr>es_kill_all := True, es_resume_otp := Some (otp_text otp)\<rparr>
      | NetworkKill \<Rightarrow> s\<lparr>es_network_kill := True\<rparr>
      | DomainBlock ds \<Rightarrow> s\<lparr>es_blocked_domains := push_new (es_blocked_domains s) ds\<rparr>
      | ToolFreeze ts \<Rightarrow> s\<lparr>es_frozen_tools := push_new (es_frozen_tools s) ts\<rparr>)"

type_synonym estop_manager = "estop_state \<times> estop_file"

text \<open>\<open>io\<close> is the file error of \<open>persist\<close>, if any; the state in memory has then changed already.\<close>

definition persist :: "(estop_state \<Rightarrow> string) \<Rightarrow> string option \<Rightarrow> estop_state \<Rightarrow> estop_file \<Rightarrow>
    (atta_error + unit) \<times> estop_manager" where
  "persist print io s file =
     (case io of Some e \<Rightarrow> (Inl (OtherError e), (s, file)) | None \<Rightarrow> (Inr (), (s, Content (print s))))"

definition estop_activate ::
  "(estop_state \<Rightarrow> string) \<Rightarrow> string option \<Rightarrow> string \<Rightarrow> nat \<Rightarrow> estop_level \<Rightarrow> estop_manager \<Rightarrow>
   (atta_error + unit) \<times> estop_manager" where
  "estop_activate print io now otp level m = persist print io (estop_apply now otp level (fst m)) (snd m)"

definition estop_resume ::
  "(estop_state \<Rightarrow> string) \<Rightarrow> string option \<Rightarrow> string option \<Rightarrow> estop_manager \<Rightarrow> (atta_error + unit) \<times> estop_manager" where
  "estop_resume print io otp m =
     (let s = fst m;
          verdict =
            (if \<not> es_kill_all s then Inr ()
             else case (es_resume_otp s, otp) of
               (Some expected, Some provided) \<Rightarrow>
                 if expected = provided then Inr () else Inl (SecurityViolation ''invalid E-Stop resume OTP'')
             | (Some _, None) \<Rightarrow> Inl (SecurityViolation ''E-Stop KillAll resume requires OTP'')
             | (None, _) \<Rightarrow> Inr ())
      in case verdict of
           Inl e \<Rightarrow> (Inl e, m)
         | Inr _ \<Rightarrow> persist print io estop_default (snd m))"

definition network_tools :: "string list" where
  "network_tools = [''web_fetch'', ''web_search'', ''http_request'', ''browser'']"

definition stopped_if :: "bool \<Rightarrow> string \<Rightarrow> atta_error + unit" where
  "stopped_if b m = (if b then Inl (EmergencyStopped m) else Inr ())"

text \<open>The dash of the messages is the three bytes of U+2014.\<close>

definition estop_check :: "estop_state \<Rightarrow> string \<Rightarrow> json \<Rightarrow> atta_error + unit" where
  "estop_check s tool args =
     and_then (stopped_if (es_kill_all s) (''E-Stop KillAll active '' @ em_dash @ '' all tool calls blocked'')) (\<lambda>_.
     and_then (stopped_if (es_network_kill s \<and> List.member network_tools tool)
       (''E-Stop NetworkKill active '' @ em_dash @ '' tool '' @ squote tool @ '' blocked'')) (\<lambda>_.
     and_then (case jget_str args ''url'' of
                 None \<Rightarrow> Inr ()
               | Some url \<Rightarrow> each (\<lambda>d. stopped_if (contains url d)
                   (''E-Stop DomainBlock active '' @ em_dash @ '' domain '' @ squote d @ '' blocked''))
                   (es_blocked_domains s)) (\<lambda>_.
     stopped_if (List.member (es_frozen_tools s) tool)
       (''E-Stop ToolFreeze active '' @ em_dash @ '' tool '' @ squote tool @ '' frozen''))))"

section \<open>The approval manager\<close>

record tool_approval_request =
  ta_tool_name :: string
  ta_arguments :: json
  ta_risk_level :: risk_level
  ta_description :: string

datatype tool_approval_response = Yes | No | Always

text \<open>What came of asking the backend: its answer or error, or nothing within the manager's time limit.\<close>

datatype backend_answer = Answered "atta_error + tool_approval_response" | NoAnswer

definition check_and_approve ::
  "nat \<Rightarrow> tool_approval_request \<Rightarrow> backend_answer \<Rightarrow> string list \<Rightarrow> (atta_error + unit) \<times> string list" where
  "check_and_approve timeout_secs q answer allow =
     (if List.member allow (ta_tool_name q) then (Inr (), allow)
      else case answer of
        NoAnswer \<Rightarrow> (Inl (ApprovalTimeout (ta_tool_name q) timeout_secs), allow)
      | Answered (Inl e) \<Rightarrow> (Inl e, allow)
      | Answered (Inr Yes) \<Rightarrow> (Inr (), allow)
      | Answered (Inr Always) \<Rightarrow> (Inr (), List.insert (ta_tool_name q) allow)
      | Answered (Inr No) \<Rightarrow> (Inl (ApprovalDenied (ta_tool_name q)), allow))"

definition clear_allowlist :: "string list \<Rightarrow> string list" where
  "clear_allowlist allow = []"

subsection \<open>The backends\<close>

text \<open>
  \<open>WsApprovalBackend\<close> and \<open>ChannelApprovalBackend\<close> keep the identifiers of the requests that wait. A reply
  takes its request out and is delivered; a reply to no waiting request is dropped.
\<close>

definition ws_decision :: "string \<Rightarrow> tool_approval_response" where
  "ws_decision d = (if d = ''yes'' then Yes else if d = ''always'' then Always else No)"

definition channel_decision :: "string \<Rightarrow> tool_approval_response" where
  "channel_decision d =
     (if List.member [''yes'', ''approve'', ''approved'', ''y''] d then Yes
      else if List.member [''always'', ''allow''] d then Always else No)"

definition handle_reply ::
  "(string \<Rightarrow> tool_approval_response) \<Rightarrow> string \<Rightarrow> string \<Rightarrow> string list \<Rightarrow> tool_approval_response option \<times> string list" where
  "handle_reply decide i decision pending =
     (if List.member pending i then (Some (decide decision), removeAll i pending) else (None, pending))"

text \<open>How the wait of a request ends; \<open>pending\<close> is the set of waiting requests at that moment.\<close>

datatype wait_end = Delivered tool_approval_response | SenderDropped | WaitTimeout

definition finish_wait ::
  "nat \<Rightarrow> string \<Rightarrow> string \<Rightarrow> wait_end \<Rightarrow> string list \<Rightarrow> (atta_error + tool_approval_response) \<times> string list" where
  "finish_wait timeout_secs tool i how pending =
     (case how of
        Delivered r \<Rightarrow> (Inr r, pending)
      | SenderDropped \<Rightarrow> (Inr No, removeAll i pending)
      | WaitTimeout \<Rightarrow> (Inl (ApprovalTimeout tool timeout_secs), removeAll i pending))"

text \<open>
  A request: it is registered, the prompt is sent, and the reply is awaited. \<open>others\<close> is what other requests and
  replies do to the pending set meanwhile. The two backends differ in what a failed prompt leaves behind.
\<close>

definition ws_request ::
  "nat \<Rightarrow> tool_approval_request \<Rightarrow> string \<Rightarrow> bool \<Rightarrow> (string list \<Rightarrow> string list) \<Rightarrow> wait_end \<Rightarrow> string list \<Rightarrow>
   (atta_error + tool_approval_response) \<times> string list" where
  "ws_request timeout_secs q i closed others how pending =
     (let p = List.insert i pending in
      if closed then (Inl (SecurityViolation ''WebSocket approval channel closed''), p)
      else finish_wait timeout_secs (ta_tool_name q) i how (others p))"

definition channel_request ::
  "nat \<Rightarrow> tool_approval_request \<Rightarrow> string \<Rightarrow> atta_error option \<Rightarrow> (string list \<Rightarrow> string list) \<Rightarrow> wait_end \<Rightarrow>
   string list \<Rightarrow> (atta_error + tool_approval_response) \<times> string list" where
  "channel_request timeout_secs q i send_err others how pending =
     (let p = List.insert i pending in
      case send_err of
        Some e \<Rightarrow> (Inl e, removeAll i p)
      | None \<Rightarrow> finish_wait timeout_secs (ta_tool_name q) i how (others p))"
text \<open>
  The webhook backend: without a URL it denies, and the POST is not awaited, so it cannot fail the request. A
  callback is checked against the requesters that may decide.
\<close>

record webhook_config =
  wh_url :: string
  wh_callback_base :: "string option"
  wh_timeout_secs :: nat
  wh_allowed_requesters :: "string list"

definition webhook_request ::
  "webhook_config \<Rightarrow> tool_approval_request \<Rightarrow> string \<Rightarrow> (string list \<Rightarrow> string list) \<Rightarrow> wait_end \<Rightarrow> string list \<Rightarrow>
   (atta_error + tool_approval_response) \<times> string list" where
  "webhook_request cfg q i others how pending =
     (if wh_url cfg = [] then (Inr No, pending)
      else finish_wait (wh_timeout_secs cfg) (ta_tool_name q) i how (others (List.insert i pending)))"

definition handle_callback ::
  "webhook_config \<Rightarrow> string \<Rightarrow> string \<Rightarrow> string option \<Rightarrow> string list \<Rightarrow>
   (atta_error + tool_approval_response) \<times> string list" where
  "handle_callback cfg i decision requester pending =
     (let who = (case requester of None \<Rightarrow> [] | Some r \<Rightarrow> r) in
      if wh_allowed_requesters cfg \<noteq> [] \<and> \<not> list_ex (\<lambda>r. r = who) (wh_allowed_requesters cfg)
      then (Inl (PermissionDenied (''requester '' @ squote who @ '' not authorized for approvals'')), pending)
      else case handle_reply ws_decision i decision pending of
             (Some r, p) \<Rightarrow> (Inr r, p)
           | (None, p) \<Rightarrow> (Inl (Validation (''no pending request with id '' @ squote i)), p))"

text \<open>
  The terminal backend: the answer is the line typed, and an argument line of more than 40 bytes is cut at byte 37. A cut
  inside a character panics, the result None.
\<close>

definition cli_decision :: "string \<Rightarrow> tool_approval_response" where
  "cli_decision line =
     (let s = to_lower (trim line) in
      if List.member [''y'', ''yes''] s then Yes else if List.member [''a'', ''always''] s then Always else No)"

definition is_continuation :: "char \<Rightarrow> bool" where
  "is_continuation c \<longleftrightarrow> 128 \<le> (of_char c :: nat) \<and> (of_char c :: nat) < 192"

definition cli_line :: "string \<Rightarrow> string option" where
  "cli_line line =
     (if length line \<le> 40 then Some line
      else if is_continuation (line ! 37) then None
      else Some (take 37 line @ ''...''))"

section \<open>The backends as an interface\<close>

text \<open>
  What a backend owes its caller: a request whose prompt goes out leaves no entry of its own behind when nothing but its
  own reply touches the pending set.
\<close>

definition own_reply :: "string \<Rightarrow> wait_end \<Rightarrow> string list \<Rightarrow> string list" where
  "own_reply i how p = (case how of Delivered _ \<Rightarrow> removeAll i p | _ \<Rightarrow> p)"

locale approval_backend =
  fixes request :: "'c \<Rightarrow> string \<Rightarrow> wait_end \<Rightarrow> string list \<Rightarrow> (atta_error + tool_approval_response) \<times> string list"
    and sendable :: "'c \<Rightarrow> bool"
  assumes tidy: "sendable c \<Longrightarrow> set (snd (request c i how p)) \<subseteq> set p"
begin

fun run_requests :: "('c \<times> string \<times> wait_end) list \<Rightarrow> string list \<Rightarrow> string list" where
  "run_requests [] p = p"
| "run_requests ((c, i, how) # rs) p = run_requests rs (snd (request c i how p))"

lemma nothing_left: "list_all (\<lambda>(c, _). sendable c) rs \<Longrightarrow> set (run_requests rs p) \<subseteq> set p"
proof (induction rs p rule: run_requests.induct)
  case (2 c i how rs p)
  then have "set (run_requests rs (snd (request c i how p))) \<subseteq> set (snd (request c i how p))" by simp
  also have "\<dots> \<subseteq> set p" using 2(2) by (intro tidy) simp
  finally show ?case by simp
qed simp

end

definition channel_ask where
  "channel_ask c i how p = (case c of (n, q, err) \<Rightarrow> channel_request n q i err (own_reply i how) how p)"

definition ws_ask where
  "ws_ask c i how p = (case c of (n, q, closed) \<Rightarrow> ws_request n q i closed (own_reply i how) how p)"

definition webhook_ask where
  "webhook_ask c i how p = (case c of (cfg, q) \<Rightarrow> webhook_request cfg q i (own_reply i how) how p)"

lemma finish_wait_tidy: "set (snd (finish_wait n tool i how (own_reply i how (List.insert i p)))) \<subseteq> set p"
  by (cases how) (auto simp: finish_wait_def own_reply_def)

interpretation channel_backend: approval_backend channel_ask "\<lambda>_. True"
  by unfold_locales (auto simp: channel_ask_def channel_request_def Let_def split: option.splits dest: finish_wait_tidy [THEN subsetD])

interpretation webhook_backend: approval_backend webhook_ask "\<lambda>_. True"
  by unfold_locales (auto simp: webhook_ask_def webhook_request_def split: if_splits dest: finish_wait_tidy [THEN subsetD])

interpretation ws_backend: approval_backend ws_ask "\<lambda>(_, _, closed). \<not> closed"
  by unfold_locales (auto simp: ws_ask_def ws_request_def Let_def dest: finish_wait_tidy [THEN subsetD])

text \<open>The WebSocket backend is not tidy when its channel is closed: the request stays registered.\<close>

lemma ws_closed_leaks: "i \<in> set (snd (ws_ask (n, q, True) i how p))"
  by (simp add: ws_ask_def ws_request_def)

section \<open>The rate limit\<close>

lemma dropWhile_sorted: "sorted q \<Longrightarrow> dropWhile (\<lambda>t. t < c) q = filter (\<lambda>t. c \<le> t) q" for c :: int
proof (induction q)
  case (Cons t q)
  then show ?case by (cases "t < c") (auto intro!: filter_True [symmetric])
qed simp

text \<open>The queue holds what is recent of all calls so far; a later reading forgets no more than it may.\<close>

definition recent :: "timestamp list \<Rightarrow> timestamp list \<Rightarrow> bool" where
  "recent past q \<longleftrightarrow> (past = [] \<and> q = []) \<or> (past \<noteq> [] \<and> q = filter (\<lambda>t. last past - window \<le> t) past)"

lemma expire_recent:
  assumes "recent past q" and "sorted (past @ [now])"
  shows "expire now q = filter (\<lambda>t. now - window \<le> t) past"
proof (cases "past = []")
  case False
  then have "last past \<le> now" using assms(2) by (auto simp: sorted_append)
  moreover have "sorted q" using assms False by (auto simp: recent_def sorted_append sorted_wrt_filter)
  ultimately show ?thesis
    using assms(1) False by (auto simp: expire_def dropWhile_sorted recent_def intro!: filter_cong)
qed (use assms in \<open>auto simp: recent_def expire_def\<close>)

lemma record_at_recent:
  assumes "recent past q" and "sorted (past @ [now])"
  shows "record_at now q =
    (of_nat (length (filter (\<lambda>t. now - window \<le> t) (past @ [now]))), filter (\<lambda>t. now - window \<le> t) (past @ [now]))"
  using expire_recent [OF assms] by (simp add: record_at_def Let_def window_def)

lemma length_filter_mono: "(\<And>x. P x \<Longrightarrow> Q x) \<Longrightarrow> length (filter P xs) \<le> length (filter Q xs)"
  by (induction xs) auto

lemma unat_of_nat_u32: "n < 2 ^ 32 \<Longrightarrow> unat (of_nat n :: u32) = n"
  by (simp add: unat_of_nat)

lemma admit_run:
  assumes "sorted ts" and "length ts < 2 ^ 32" and "foldl (admit limit) ([], []) ts = (q, adm)"
  shows "recent ts q \<and> (\<forall>P. length (filter P adm) \<le> length (filter P ts)) \<and>
    (\<forall>u. length (filter (\<lambda>s. u - window \<le> s \<and> s \<le> u) adm) \<le> unat limit)"
  using assms
proof (induction ts arbitrary: q adm rule: rev_induct)
  case Nil
  then show ?case by (simp add: recent_def)
next
  case (snoc t ts)
  obtain q0 adm0 where f: "foldl (admit limit) ([], []) ts = (q0, adm0)" by fastforce
  have ts: "sorted ts" "length ts < 2 ^ 32" using snoc.prems by (auto simp: sorted_append)
  note IH = snoc.IH [OF ts f]
  let ?W = "filter (\<lambda>s. t - window \<le> s) (ts @ [t])"
  have step: "admit limit (q0, adm0) t = (q, adm)" using snoc.prems(3) f by simp
  have q: "q = ?W" and adm: "adm = (if of_nat (length ?W) > limit then adm0 else adm0 @ [t])"
    using step unfolding admit_def fst_conv snd_conv record_at_recent [OF conjunct1 [OF IH] snoc.prems(1)]
    by (auto simp: Let_def)
  have len: "unat (of_nat (length ?W) :: u32) = length ?W"
    by (rule unat_of_nat_u32) (rule le_less_trans [OF length_filter_le snoc.prems(2)])
  have sub: "length (filter P adm) \<le> length (filter P (ts @ [t]))" for P
    using IH by (simp add: adm le_SucI)
  have "length (filter (\<lambda>s. u - window \<le> s \<and> s \<le> u) adm) \<le> unat limit" for u
  proof (cases "of_nat (length ?W) \<le> limit \<and> u - window \<le> t \<and> t \<le> u")
    case True
    have "length (filter (\<lambda>s. u - window \<le> s \<and> s \<le> u) adm) \<le>
        length (filter (\<lambda>s. u - window \<le> s \<and> s \<le> u) (ts @ [t]))" by (rule sub)
    also have "\<dots> \<le> length ?W"
      using True by (intro length_filter_mono) auto
    also have "\<dots> \<le> unat limit" using True len unfolding word_le_nat_alt by metis
    finally show ?thesis .
  next
    case False
    then have "filter (\<lambda>s. u - window \<le> s \<and> s \<le> u) adm = filter (\<lambda>s. u - window \<le> s \<and> s \<le> u) adm0"
      by (auto simp: adm not_le)
    then show ?thesis using IH by simp
  qed
  with sub q show ?case by (auto simp: recent_def)
qed
section \<open>What the emergency stop stops\<close>

definition stopped :: "estop_state \<Rightarrow> string \<Rightarrow> json \<Rightarrow> bool" where
  "stopped s tool args \<longleftrightarrow> (\<exists>m. estop_check s tool args = Inl (EmergencyStopped m))"

lemma stopped_if_iff: "stopped_if b m = Inr () \<longleftrightarrow> \<not> b" "stopped_if b m = Inl e \<longleftrightarrow> b \<and> e = EmergencyStopped m"
  by (auto simp: stopped_if_def)

lemma each_stopped:
  "each (\<lambda>d. stopped_if (b d) (m d)) ds = Inr () \<longleftrightarrow> (\<forall>d \<in> set ds. \<not> b d)"
  "each (\<lambda>d. stopped_if (b d) (m d)) ds = Inl e \<Longrightarrow> \<exists>d \<in> set ds. b d \<and> e = EmergencyStopped (m d)"
proof -
  show "each (\<lambda>d. stopped_if (b d) (m d)) ds = Inr () \<longleftrightarrow> (\<forall>d \<in> set ds. \<not> b d)"
    by (simp add: each_ok stopped_if_iff)
  show "each (\<lambda>d. stopped_if (b d) (m d)) ds = Inl e \<Longrightarrow> \<exists>d \<in> set ds. b d \<and> e = EmergencyStopped (m d)"
    by (drule each_err) (auto simp: stopped_if_iff)
qed

lemma estop_check_ok:
  "estop_check s tool args = Inr () \<longleftrightarrow>
     \<not> es_kill_all s \<and> \<not> (es_network_kill s \<and> tool \<in> set network_tools) \<and>
     (\<forall>url d. jget_str args ''url'' = Some url \<longrightarrow> d \<in> set (es_blocked_domains s) \<longrightarrow> \<not> contains url d) \<and>
     tool \<notin> set (es_frozen_tools s)"
  by (auto simp: estop_check_def and_then_eq_iff stopped_if_iff each_stopped split: option.split)

lemma stopped_iff: "stopped s tool args \<longleftrightarrow> estop_check s tool args \<noteq> Inr ()"
proof
  assume "estop_check s tool args \<noteq> Inr ()"
  then obtain e where e: "estop_check s tool args = Inl e" by (cases "estop_check s tool args") auto
  have "\<exists>m. e = EmergencyStopped m"
    using e by (cases "jget_str args ''url''")
      (auto simp: estop_check_def and_then_eq_iff stopped_if_iff dest!: each_stopped(2))
  with e show "stopped s tool args" by (auto simp: stopped_def)
qed (auto simp: stopped_def)

lemma set_push_new [simp]: "set (push_new old xs) = set old \<union> set xs"
  by (induction old xs rule: push_new.induct) auto

text \<open>Activating a level lifts nothing.\<close>

lemma estop_apply_monotone: "stopped s tool args \<Longrightarrow> stopped (estop_apply now otp level s) tool args"
  by (cases level) (auto simp: stopped_iff estop_check_ok estop_apply_def)

datatype estop_event = Activate "string option" string nat estop_level | Resume "string option" "string option"

fun estop_step :: "(estop_state \<Rightarrow> string) \<Rightarrow> estop_manager \<Rightarrow> estop_event \<Rightarrow> estop_manager" where
  "estop_step print m (Activate io now otp level) = snd (estop_activate print io now otp level m)"
| "estop_step print m (Resume io code) = snd (estop_resume print io code m)"

definition estop_run :: "(estop_state \<Rightarrow> string) \<Rightarrow> estop_manager \<Rightarrow> estop_event list \<Rightarrow> estop_manager" where
  "estop_run print = foldl (estop_step print)"

definition sealed :: "string \<Rightarrow> estop_manager \<Rightarrow> bool" where
  "sealed code m \<longleftrightarrow> es_kill_all (fst m) \<and> es_resume_otp (fst m) = Some code"

definition keeps_seal :: "string \<Rightarrow> estop_event \<Rightarrow> bool" where
  "keeps_seal code ev \<longleftrightarrow>
     (case ev of Activate _ _ _ level \<Rightarrow> level \<noteq> KillAll | Resume _ given \<Rightarrow> given \<noteq> Some code)"

lemma fst_snd_persist [simp]: "fst (snd (persist print io s file)) = s"
  by (simp add: persist_def split: option.split)

lemma sealed_step: "sealed code m \<Longrightarrow> keeps_seal code ev \<Longrightarrow> sealed code (estop_step print m ev)"
  by (cases ev)
    (auto simp: sealed_def keeps_seal_def estop_activate_def estop_apply_def estop_resume_def Let_def
      split: estop_level.splits option.splits)

lemma sealed_run: "sealed code m \<Longrightarrow> list_all (keeps_seal code) evs \<Longrightarrow> sealed code (estop_run print m evs)"
  unfolding estop_run_def by (induction evs arbitrary: m) (auto simp: sealed_step)

section \<open>Properties\<close>

text \<open>
  C13. In every 60 seconds at most \<open>limit\<close> calls are admitted, however the calls are spread: the windows slide with
  the calls.
\<close>

theorem rate_limit_holds:
  assumes "sorted ts" and "length ts < 2 ^ 32"
  shows "length (filter (\<lambda>s. u - window \<le> s \<and> s \<le> u) (snd (foldl (admit limit) ([], []) ts))) \<le> unat limit"
proof -
  obtain q adm where "foldl (admit limit) ([], []) ts = (q, adm)" by fastforce
  with admit_run [OF assms this] show ?thesis by simp
qed

theorem rate_limit_holds_witness:
  "length (filter (\<lambda>s. 60000000000 - window \<le> s \<and> s \<le> 60000000000)
     (snd (foldl (admit 2) ([], []) [0, 1, 2, 60000000000]))) \<le> unat (2 :: u32)"
  by (rule rate_limit_holds) simp_all

text \<open>
  C12. A full stop holds until its code is given: after KillAll, whatever levels are activated and whatever other codes
  are tried, with or without file errors, every call of every tool is stopped; the code of the stop lifts it.
\<close>

theorem stop_holds_until_code:
  assumes "list_all (keeps_seal (otp_text n)) evs"
    and "M = estop_run print (snd (estop_activate print io now n KillAll m)) evs"
  shows "(\<forall>tool args. stopped (fst M) tool args) \<and>
    fst (snd (estop_resume print io' (Some (otp_text n)) M)) = estop_default"
proof -
  have "sealed (otp_text n) (snd (estop_activate print io now n KillAll m))"
    by (simp add: sealed_def estop_activate_def estop_apply_def)
  then have "sealed (otp_text n) M" unfolding assms(2) by (rule sealed_run [OF _ assms(1)])
  then have M: "es_kill_all (fst M)" "es_resume_otp (fst M) = Some (otp_text n)" by (simp_all add: sealed_def)
  then have "stopped (fst M) tool args" for tool args by (simp add: stopped_iff estop_check_ok)
  with M show ?thesis by (simp add: estop_resume_def)
qed

definition some_attempts :: "estop_event list" where
  "some_attempts = [Resume None None, Activate None ''t1'' 7 NetworkKill, Resume (Some ''disk full'') None]"

theorem stop_holds_until_code_witness:
  "(\<forall>tool args. stopped (fst (estop_run (\<lambda>_. []) (snd (estop_activate (\<lambda>_. []) None ''t0'' 123456 KillAll
       (estop_default, NoFile))) some_attempts)) tool args) \<and>
   fst (snd (estop_resume (\<lambda>_. []) None (Some (otp_text 123456)) (estop_run (\<lambda>_. []) (snd (estop_activate (\<lambda>_. []) None
       ''t0'' 123456 KillAll (estop_default, NoFile))) some_attempts))) = estop_default"
  by (rule stop_holds_until_code [OF _ refl]) (simp add: some_attempts_def keeps_seal_def)

text \<open>
  The stop survives a restart: what an activation that returned without an error has set is what the next
  process loads.
\<close>

theorem stop_survives_restart:
  assumes "parse (print (estop_apply now n level (fst m))) = Some (estop_apply now n level (fst m))"
    and "estop_activate print io now n level m = (Inr (), m')"
  shows "estop_load parse later (snd m') = estop_apply now n level (fst m) \<and> fst m' = estop_apply now n level (fst m)"
  using assms(2) by (auto simp: estop_activate_def persist_def estop_load_def assms(1) split: option.splits)

theorem stop_survives_restart_witness:
  "let s = estop_apply ''t0'' 1 NetworkKill estop_default in
   estop_load (\<lambda>_. Some s) ''t1'' (Content ''net'') = s"
  using stop_survives_restart [of "\<lambda>_. Some (estop_apply ''t0'' 1 NetworkKill estop_default)" "\<lambda>_. ''net''" "''t0''" 1
      NetworkKill "(estop_default, NoFile)" None "(estop_apply ''t0'' 1 NetworkKill estop_default, Content ''net'')" "''t1''"]
  by (simp add: estop_activate_def persist_def)

text \<open>A stop state read back with no code is lifted without one: the answer to a damaged file is weaker than KillAll.\<close>

lemma damaged_file_needs_no_code:
  "parse c = None \<Longrightarrow>
     (\<forall>tool args. stopped (estop_load parse now (Content c)) tool args) \<and>
     fst (snd (estop_resume print io None (estop_load parse now (Content c), Content c))) = estop_default"
  by (simp add: estop_load_def fail_closed_def stopped_iff estop_check_ok estop_resume_def Let_def estop_default_def)

end
