(* ===== verification/Ip_Address.thy ===== *)
theory Ip_Address
  imports Atta_Types
begin

unbundle bit_operations_syntax

text \<open>
  IP addresses as the guard uses them (\<open>crates/security/src/guard.rs\<close>): the address types of the standard library,
  their parsers and texts, and the test for private and reserved ranges. Octets are bytes, segments 16 bits.
\<close>

datatype ip_addr = V4 "8 word" "8 word" "8 word" "8 word" | V6 "16 word list"

section \<open>Parsing\<close>

fun split_on :: "char \<Rightarrow> string \<Rightarrow> string list" where
  "split_on c [] = [[]]"
| "split_on c (x # xs) =
     (if x = c then [] # split_on c xs
      else (case split_on c xs of [] \<Rightarrow> [[x]] | y # ys \<Rightarrow> (x # y) # ys))"

definition is_digit :: "char \<Rightarrow> bool" where
  "is_digit c \<longleftrightarrow> 48 \<le> (of_char c :: nat) \<and> (of_char c :: nat) \<le> 57"

definition decimal :: "string \<Rightarrow> nat" where
  "decimal s = fold (\<lambda>c n. 10 * n + (of_char c - 48)) s 0"

text \<open>One to three digits, no leading zero, at most 255.\<close>

definition parse_octet :: "string \<Rightarrow> 8 word option" where
  "parse_octet s =
     (if s \<noteq> [] \<and> length s \<le> 3 \<and> list_all is_digit s \<and> (1 < length s \<longrightarrow> hd s \<noteq> CHR ''0'') \<and> decimal s \<le> 255
      then Some (of_nat (decimal s)) else None)"

definition parse_ipv4 :: "string \<Rightarrow> ip_addr option" where
  "parse_ipv4 s =
     (case map parse_octet (split_on (CHR ''.'') s) of
        [Some a, Some b, Some c, Some d] \<Rightarrow> Some (V4 a b c d)
      | _ \<Rightarrow> None)"

definition hex_value :: "char \<Rightarrow> nat option" where
  "hex_value c =
     (let n = of_char c in
      if 48 \<le> n \<and> n \<le> 57 then Some (n - 48)
      else if 97 \<le> n \<and> n \<le> 102 then Some (n - 87)
      else if 65 \<le> n \<and> n \<le> 70 then Some (n - 55)
      else None)"

fun hex_digits :: "nat \<Rightarrow> string \<Rightarrow> nat option" where
  "hex_digits acc [] = Some acc"
| "hex_digits acc (c # cs) = Option.bind (hex_value c) (\<lambda>v. hex_digits (16 * acc + v) cs)"

definition parse_group :: "string \<Rightarrow> 16 word option" where
  "parse_group s = (if s = [] \<or> 4 < length s then None else map_option of_nat (hex_digits 0 s))"

text \<open>Groups between colons; a dotted address may be the last two of at most \<open>limit\<close> groups, where it is allowed.\<close>

fun parse_groups :: "bool \<Rightarrow> nat \<Rightarrow> string list \<Rightarrow> 16 word list option" where
  "parse_groups v4 limit [] = Some []"
| "parse_groups v4 0 (p # ps) = None"
| "parse_groups v4 (Suc n) (p # ps) =
     (case (if v4 \<and> ps = [] \<and> 0 < n then parse_ipv4 p else None) of
        Some (V4 a b c d) \<Rightarrow> Some [push_bit 8 (ucast a) OR ucast b, push_bit 8 (ucast c) OR ucast d]
      | _ \<Rightarrow> Option.bind (parse_group p) (\<lambda>g. map_option ((#) g) (parse_groups v4 n ps)))"

definition colon_groups :: "bool \<Rightarrow> nat \<Rightarrow> string \<Rightarrow> 16 word list option" where
  "colon_groups v4 limit s = (if s = [] then Some [] else parse_groups v4 limit (split_on (CHR '':'') s))"

definition parse_ipv6 :: "string \<Rightarrow> ip_addr option" where
  "parse_ipv6 s =
     (case split_once ''::'' s of
        None \<Rightarrow> (case colon_groups True 8 s of
                  Some gs \<Rightarrow> if length gs = 8 then Some (V6 gs) else None | None \<Rightarrow> None)
      | Some (l, r) \<Rightarrow>
          (case colon_groups False 7 l of
             None \<Rightarrow> None
           | Some front \<Rightarrow>
               (case colon_groups True (7 - length front) r of
                  None \<Rightarrow> None
                | Some back \<Rightarrow> Some (V6 (front @ replicate (8 - length front - length back) 0 @ back)))))"

definition parse_ip :: "string \<Rightarrow> ip_addr option" where
  "parse_ip s = (case parse_ipv4 s of Some a \<Rightarrow> Some a | None \<Rightarrow> parse_ipv6 s)"

section \<open>Texts\<close>

definition show_ipv4 :: "8 word \<Rightarrow> 8 word \<Rightarrow> 8 word \<Rightarrow> 8 word \<Rightarrow> string" where
  "show_ipv4 a b c d = join ''.'' (map (\<lambda>o'. show_nat (unat o')) [a, b, c, d])"

fun show_hex :: "nat \<Rightarrow> string" where
  "show_hex n = (if n < 16 then [hex_digit n] else show_hex (n div 16) @ [hex_digit (n mod 16)])"

declare show_hex.simps [simp del]

text \<open>The longest run of zero segments, the first of them if there are more: its start and its length.\<close>

definition zero_run :: "16 word list \<Rightarrow> nat \<Rightarrow> nat" where
  "zero_run gs i = length (takeWhile (\<lambda>g. g = 0) (drop i gs))"

definition longest_run :: "16 word list \<Rightarrow> nat \<times> nat" where
  "longest_run gs = fold (\<lambda>i (s, n). if n < zero_run gs i then (i, zero_run gs i) else (s, n)) [0..<length gs] (0, 0)"

definition hex_groups :: "16 word list \<Rightarrow> string" where
  "hex_groups gs = join '':'' (map (\<lambda>g. show_hex (unat g)) gs)"

definition show_ipv6 :: "16 word list \<Rightarrow> string" where
  "show_ipv6 gs =
     (if take 6 gs = [0, 0, 0, 0, 0, 0xFFFF] \<and> length gs = 8
      then ''::ffff:'' @ show_ipv4 (ucast (drop_bit 8 (gs ! 6))) (ucast (gs ! 6)) (ucast (drop_bit 8 (gs ! 7))) (ucast (gs ! 7))
      else case longest_run gs of
        (s, n) \<Rightarrow>
          if 1 < n then hex_groups (take s gs) @ ''::'' @ hex_groups (drop (s + n) gs) else hex_groups gs)"

definition ip_show :: "ip_addr \<Rightarrow> string" where
  "ip_show ip = (case ip of V4 a b c d \<Rightarrow> show_ipv4 a b c d | V6 gs \<Rightarrow> show_ipv6 gs)"

section \<open>Private and reserved ranges\<close>

definition private_v4 :: "8 word \<Rightarrow> 8 word \<Rightarrow> 8 word \<Rightarrow> 8 word \<Rightarrow> bool" where
  "private_v4 a b c d \<longleftrightarrow>
     a = 127 \<or>
     (a = 10 \<or> (a = 172 \<and> 16 \<le> b \<and> b \<le> 31) \<or> (a = 192 \<and> b = 168)) \<or>
     (a = 169 \<and> b = 254) \<or>
     (a = 255 \<and> b = 255 \<and> c = 255 \<and> d = 255) \<or>
     (a = 0 \<and> b = 0 \<and> c = 0 \<and> d = 0) \<or>
     (a = 100 \<and> b AND 0xC0 = 64) \<or>
     (a = 192 \<and> b = 0 \<and> c = 0) \<or>
     (a = 198 \<and> b AND 0xFE = 18)"

definition private_v6 :: "16 word list \<Rightarrow> bool" where
  "private_v6 gs \<longleftrightarrow>
     gs = [0, 0, 0, 0, 0, 0, 0, 1] \<or> gs = [0, 0, 0, 0, 0, 0, 0, 0] \<or>
     gs ! 0 AND 0xFE00 = 0xFC00 \<or> gs ! 0 AND 0xFFC0 = 0xFE80"

definition is_private_ip :: "ip_addr \<Rightarrow> bool" where
  "is_private_ip ip = (case ip of V4 a b c d \<Rightarrow> private_v4 a b c d | V6 gs \<Rightarrow> private_v6 gs)"

section \<open>The ranges as blocks of addresses\<close>

text \<open>An address as a number, and a block: a first address and the number of fixed leading bits.\<close>

definition v4_number :: "8 word \<Rightarrow> 8 word \<Rightarrow> 8 word \<Rightarrow> 8 word \<Rightarrow> nat" where
  "v4_number a b c d = ((unat a * 256 + unat b) * 256 + unat c) * 256 + unat d"

definition in_block :: "nat \<Rightarrow> nat \<times> nat \<Rightarrow> bool" where
  "in_block n bl \<longleftrightarrow> fst bl \<le> n \<and> n < fst bl + 2 ^ (32 - snd bl)"

definition private_blocks :: "(nat \<times> nat) list" where
  "private_blocks =
     [(v4_number 127 0 0 0, 8), (v4_number 10 0 0 0, 8), (v4_number 172 16 0 0, 12), (v4_number 192 168 0 0, 16),
      (v4_number 169 254 0 0, 16), (v4_number 255 255 255 255, 32), (v4_number 0 0 0 0, 32),
      (v4_number 100 64 0 0, 10), (v4_number 192 0 0 0, 24), (v4_number 198 18 0 0, 15)]"

lemma unat8: "unat (x :: 8 word) < 256"
  using unsigned_less [of x] by simp

lemma and_C0: "(b :: 8 word) AND 0xC0 = 64 \<longleftrightarrow> 64 \<le> unat b \<and> unat b < 128"
proof -
  have "\<forall>n < 256. ((of_nat n :: 8 word) AND 0xC0 = 64) = (64 \<le> n \<and> n < 128)" by code_simp
  from this [rule_format, OF unat8 [of b]] show ?thesis by simp
qed

lemma and_FE: "(b :: 8 word) AND 0xFE = 18 \<longleftrightarrow> 18 \<le> unat b \<and> unat b < 20"
proof -
  have "\<forall>n < 256. ((of_nat n :: 8 word) AND 0xFE = 18) = (18 \<le> n \<and> n < 20)" by code_simp
  from this [rule_format, OF unat8 [of b]] show ?thesis by simp
qed

text \<open>Blocks on octet boundaries and inside an octet.\<close>

lemma block_div:
  "0 < m \<Longrightarrow> r < m \<Longrightarrow> x * m \<le> a * m + r \<and> a * m + r < (x + k) * m \<longleftrightarrow> x \<le> a \<and> a < x + k" for a x m r k :: nat
  by (simp add: less_eq_div_iff_mult_less_eq [symmetric] div_less_iff_less_mult [symmetric])

lemma block_arith:
  fixes a b c d :: nat
  assumes "b < 256" and "c < 256" and "d < 256"
  defines "N \<equiv> ((a * 256 + b) * 256 + c) * 256 + d"
  shows "x * 16777216 \<le> N \<and> N < x * 16777216 + 16777216 \<longleftrightarrow> a = x"
    and "y + k \<le> 256 \<Longrightarrow>
      x * 16777216 + y * 65536 \<le> N \<and> N < x * 16777216 + y * 65536 + k * 65536 \<longleftrightarrow> a = x \<and> y \<le> b \<and> b < y + k"
    and "x * 16777216 \<le> N \<and> N < x * 16777216 + 256 \<longleftrightarrow> a = x \<and> b = 0 \<and> c = 0"
proof -
  have N: "N = a * 16777216 + (b * 65536 + c * 256 + d)" "N = (a * 256 + b) * 65536 + (c * 256 + d)"
    "N = (a * 65536 + b * 256 + c) * 256 + d" by (simp_all add: N_def)
  have low: "b * 65536 + c * 256 + d < 16777216" "c * 256 + d < 65536" using assms(1-3) by linarith+
  show "x * 16777216 \<le> N \<and> N < x * 16777216 + 16777216 \<longleftrightarrow> a = x"
    using block_div [OF _ low(1), of x a 1] unfolding N(1) by auto
  show "x * 16777216 + y * 65536 \<le> N \<and> N < x * 16777216 + y * 65536 + k * 65536 \<longleftrightarrow> a = x \<and> y \<le> b \<and> b < y + k"
    if "y + k \<le> 256"
  proof -
    have eqs: "x * 16777216 + y * 65536 = (x * 256 + y) * 65536"
      "x * 16777216 + y * 65536 + k * 65536 = (x * 256 + y + k) * 65536" by simp_all
    have "x * 16777216 + y * 65536 \<le> N \<and> N < x * 16777216 + y * 65536 + k * 65536 \<longleftrightarrow>
        x * 256 + y \<le> a * 256 + b \<and> a * 256 + b < x * 256 + y + k"
      using block_div [OF _ low(2), of "x * 256 + y" "a * 256 + b" k] unfolding N(2) eqs by simp
    also have "\<dots> \<longleftrightarrow> a = x \<and> y \<le> b \<and> b < y + k"
    proof
      assume "x * 256 + y \<le> a * 256 + b \<and> a * 256 + b < x * 256 + y + k"
      then have le: "x * 256 + y \<le> a * 256 + b" "a * 256 + b < x * 256 + y + k" by simp_all
      then have "x \<le> a" "a \<le> x" using that assms(1) by linarith+
      with le show "a = x \<and> y \<le> b \<and> b < y + k" by simp
    qed simp
    finally show ?thesis .
  qed
  have eqs: "x * 16777216 = x * 65536 * 256" "x * 65536 * 256 + 256 = (x * 65536 + 1) * 256" by simp_all
  have "x * 16777216 \<le> N \<and> N < x * 16777216 + 256 \<longleftrightarrow>
      x * 65536 \<le> a * 65536 + b * 256 + c \<and> a * 65536 + b * 256 + c < x * 65536 + 1"
    using block_div [OF _ assms(3), of "x * 65536" "a * 65536 + b * 256 + c" 1] unfolding N(3) eqs by simp
  also have "\<dots> \<longleftrightarrow> a = x \<and> b = 0 \<and> c = 0"
  proof
    assume "x * 65536 \<le> a * 65536 + b * 256 + c \<and> a * 65536 + b * 256 + c < x * 65536 + 1"
    then have le: "x * 65536 \<le> a * 65536 + b * 256 + c" "a * 65536 + b * 256 + c < x * 65536 + 1" by simp_all
    then have "x \<le> a" "a \<le> x" using assms(1,2) by linarith+
    with le show "a = x \<and> b = 0 \<and> c = 0" by simp
  qed simp
  finally show "x * 16777216 \<le> N \<and> N < x * 16777216 + 256 \<longleftrightarrow> a = x \<and> b = 0 \<and> c = 0" .
qed

lemma single_arith:
  fixes a b c d :: nat
  assumes "a < 256" and "b < 256" and "c < 256" and "d < 256"
  shows "4294967295 \<le> ((a * 256 + b) * 256 + c) * 256 + d \<and> ((a * 256 + b) * 256 + c) * 256 + d < 4294967296 \<longleftrightarrow>
    a = 255 \<and> b = 255 \<and> c = 255 \<and> d = 255" (is "?L \<longleftrightarrow> ?R")
proof
  assume "?L"
  then have "4294967295 \<le> 16777216 * a + 65536 * b + 256 * c + d" by simp
  then have "255 \<le> a" "255 \<le> b" "255 \<le> c" "255 \<le> d" using assms by linarith+
  with assms show ?R by simp
qed simp

text \<open>
  The test for private IPv4 addresses accepts exactly the ten blocks it names: loopback, the three private ones, link
  local, broadcast, unspecified, carrier NAT, protocol assignments and benchmarking.
\<close>

theorem private_v4_exact:
  "private_v4 a b c d \<longleftrightarrow> list_ex (in_block (v4_number a b c d)) private_blocks"
proof -
  have eq: "x = y \<longleftrightarrow> unat x = unat y" for x y :: "8 word" by (simp add: unat_arith_simps)
  note bounds = unat8 [of a] unat8 [of b] unat8 [of c] unat8 [of d]
  have le: "x \<le> y \<longleftrightarrow> unat x \<le> unat y" for x y :: "8 word" by (rule word_le_nat_alt)
  define N where "N = ((unat a * 256 + unat b) * 256 + unat c) * 256 + unat d"
  note arith = block_arith [OF bounds(2-4), where a = "unat a", folded N_def]
  have "(4294967295 \<le> N \<and> N < 4294967296) = (unat a = 255 \<and> unat b = 255 \<and> unat c = 255 \<and> unat d = 255)"
    unfolding N_def by (rule single_arith [OF bounds])
  moreover have "(N = 0) = (unat a = 0 \<and> unat b = 0 \<and> unat c = 0 \<and> unat d = 0)"
    by (simp add: N_def conj_ac)
  moreover have "unat b = 168 \<longleftrightarrow> 168 \<le> unat b \<and> unat b < 169" "unat b = 254 \<longleftrightarrow> 254 \<le> unat b \<and> unat b < 255"
    "unat b \<le> 31 \<longleftrightarrow> unat b < 32"
    by auto
  ultimately show ?thesis
    using arith(1) [of 127] arith(1) [of 10] arith(2) [of 16 16 172] arith(2) [of 168 1 192] arith(2) [of 254 1 169]
      arith(2) [of 64 64 100] arith(3) [of 192] arith(2) [of 18 2 198]
    unfolding private_v4_def and_C0 and_FE
    unfolding eq le private_blocks_def in_block_def v4_number_def [of a b c d] N_def [symmetric]
    by (simp add: v4_number_def)
qed

section \<open>Numbers and fields\<close>

lemma decimal_append: "decimal (s @ [c]) = 10 * decimal s + (of_char c - 48)"
  by (simp add: decimal_def)

lemma show_nat_digits:
  "decimal (show_nat n) = n \<and> list_all is_digit (show_nat n) \<and> show_nat n \<noteq> [] \<and> (0 < n \<longrightarrow> hd (show_nat n) \<noteq> CHR ''0'')"
proof (induction n rule: show_nat.induct)
  case (1 n)
  have digit: "d < 10 \<Longrightarrow> of_char (char_of (48 + d) :: char) = 48 + d" for d :: nat
    by (simp add: of_char_of)
  show ?case
  proof (cases "n < 10")
    case True
    have "char_of (48 + n) \<noteq> CHR ''0''" if "0 < n"
    proof
      assume "char_of (48 + n) = CHR ''0''"
      then have "of_char (char_of (48 + n) :: char) = (of_char (CHR ''0'') :: nat)" by simp
      with digit [OF True] that show False by simp
    qed
    moreover have "show_nat n = [char_of (48 + n)]" using True by (subst show_nat.simps) simp
    ultimately show ?thesis using digit [OF True] True by (simp add: decimal_def is_digit_def)
  next
    case False
    then have eq: "show_nat n = show_nat (n div 10) @ [char_of (48 + n mod 10)]" by (subst show_nat.simps) simp
    have "n mod 10 < 10" by simp
    from digit [OF this] 1 [OF False] False show ?thesis
      unfolding eq decimal_append by (auto simp: is_digit_def div_greater_zero_iff)
  qed
qed

lemma split_on_none: "c \<notin> set s \<Longrightarrow> split_on c s = [s]"
  by (induction s) auto

lemma split_on_append: "c \<notin> set s \<Longrightarrow> split_on c (s @ c # t) = s # split_on c t"
  by (induction s) auto

lemma split_on_join:
  "xs \<noteq> [] \<Longrightarrow> \<forall>x \<in> set xs. c \<notin> set x \<Longrightarrow> split_on c (join [c] xs) = xs"
  by (induction "[c]" xs rule: join.induct) (auto simp: split_on_none split_on_append)

lemma join_split_on: "join [c] (split_on c s) = s"
proof (induction s)
  case (Cons x s)
  have "split_on c s \<noteq> []" by (induction s) (auto split: list.split)
  then show ?case using Cons by (cases "split_on c s"; cases "tl (split_on c s)") auto
qed simp

end
