(* ===== verification/Guard.thy ===== *)
theory Guard
  imports Security_State Scrub Ip_Address Error_Text
begin

text \<open>
  The security guard around the tool registry (\<open>crates/security/src/guard.rs\<close>): every call of a tool passes the
  emergency stop, the autonomy level with its approval, the rate limits, and the checks of commands, network, paths and
  URLs; the result is scrubbed. The file system (\<open>canonicalize\<close>), the people that approve, the event channel, the
  clock and the leak detector's regular expressions are the environment; the inner registry is a parameter.
\<close>

section \<open>Paths\<close>

text \<open>
  \<open>Path::parent\<close> and \<open>file_name\<close> on Unix: trailing separators and \<open>.\<close> components do not count; the root has
  neither.
\<close>

function strip_tail :: "string \<Rightarrow> string" where
  "strip_tail s =
     (if ends_with s ''/'' \<and> 1 < length s then strip_tail (butlast s)
      else if ends_with s ''/.'' then strip_tail (butlast s)
      else s)"
  by pat_completeness auto

termination
  by (relation "measure length") (auto simp: ends_with_iff)

declare strip_tail.simps [simp del]

definition last_component :: "string \<Rightarrow> string" where
  "last_component s = rev (takeWhile (\<lambda>c. c \<noteq> CHR ''/'') (rev s))"

definition path_parent :: "string \<Rightarrow> string option" where
  "path_parent path =
     (let t = strip_tail path in
      if t = [] \<or> t = ''/'' then None
      else let d = take (length t - length (last_component t)) t in
           Some (strip_tail d))"

definition path_file_name :: "string \<Rightarrow> string option" where
  "path_file_name path =
     (let f = last_component (strip_tail path) in if f = [] \<or> f = ''..'' \<or> f = ''.'' then None else Some f)"

definition path_join :: "string \<Rightarrow> string \<Rightarrow> string" where
  "path_join p f =
     (if starts_with f ''/'' then f
      else if p = [] \<or> ends_with p ''/'' then p @ f else p @ ''/'' @ f)"

definition canonical_path :: "(string \<Rightarrow> string option) \<Rightarrow> string \<Rightarrow> string" where
  "canonical_path canon path =
     (case canon path of
        Some p \<Rightarrow> p
      | None \<Rightarrow>
          (case Option.bind (path_parent path) canon of
             Some p \<Rightarrow> path_join p (case path_file_name path of None \<Rightarrow> [] | Some f \<Rightarrow> f)
           | None \<Rightarrow> path))"

definition root_text :: "(string \<Rightarrow> string option) \<Rightarrow> string \<Rightarrow> string" where
  "root_text canon root = (case canon root of Some p \<Rightarrow> p | None \<Rightarrow> root)"

definition inside_roots :: "security_policy \<Rightarrow> (string \<Rightarrow> string option) \<Rightarrow> string \<Rightarrow> bool" where
  "inside_roots policy canon p \<longleftrightarrow>
     (case sp_workspace_root policy of
        None \<Rightarrow> True
      | Some root \<Rightarrow>
          starts_with p (root_text canon root) \<or>
          list_ex (\<lambda>a. starts_with p (root_text canon a)) (sp_allowed_roots policy))"

definition validate_path :: "security_policy \<Rightarrow> (string \<Rightarrow> string option) \<Rightarrow> string \<Rightarrow> atta_error + string" where
  "validate_path policy canon path =
     (if contains path [CHR 0x00] then Inl (SecurityViolation ''null byte in path'')
      else
        let p = canonical_path canon path in
        and_then (each (\<lambda>f. violation_if (contains p f) (''access to forbidden path: '' @ f)) (sp_forbidden_paths policy)) (\<lambda>_.
        if inside_roots policy canon p then Inr p else Inl (SandboxViolation path)))"

section \<open>URLs\<close>

definition without_scheme :: "string \<Rightarrow> string" where
  "without_scheme url =
     (case strip_prefix ''https://'' url of
        Some r \<Rightarrow> r
      | None \<Rightarrow> (case strip_prefix ''http://'' url of Some r \<Rightarrow> r | None \<Rightarrow> url))"

definition extract_domain :: "string \<Rightarrow> string" where
  "extract_domain url =
     to_lower (takeWhile (\<lambda>c. c \<noteq> CHR '':'') (takeWhile (\<lambda>c. c \<noteq> CHR ''/'') (without_scheme url)))"

definition domain_matches :: "string \<Rightarrow> string \<Rightarrow> bool" where
  "domain_matches domain d \<longleftrightarrow> domain = d \<or> ends_with domain (''.'' @ d)"

definition is_ip_literal :: "string \<Rightarrow> bool" where
  "is_ip_literal host \<longleftrightarrow> parse_ipv4 host \<noteq> None \<or> starts_with host ''['' \<or> parse_ipv6 host \<noteq> None"

definition trim_brackets :: "string \<Rightarrow> string" where
  "trim_brackets s = trim_end_char (CHR '']'') (dropWhile (\<lambda>c. c = CHR ''['') s)"

definition validate_url_domain :: "security_policy \<Rightarrow> string \<Rightarrow> atta_error + unit" where
  "validate_url_domain policy url =
     (let domain = extract_domain url in
      and_then (each (\<lambda>b. violation_if (domain_matches domain b) (''domain '' @ squote domain @ '' is blocked''))
        (sp_url_blocklist policy)) (\<lambda>_.
      and_then (violation_if (sp_url_allowlist policy \<noteq> [] \<and> \<not> list_ex (domain_matches domain) (sp_url_allowlist policy))
        (''domain '' @ squote domain @ '' is not in allowlist'')) (\<lambda>_.
      if is_ip_literal domain then
        (case parse_ip (trim_brackets domain) of
           Some ip \<Rightarrow> violation_if (is_private_ip ip)
             (''SSRF blocked: IP '' @ squote (ip_show ip) @ '' is in a private/reserved range'')
         | None \<Rightarrow> Inr ())
      else Inr ())))"

text \<open>\<open>lookup\<close> is what the resolver answers for the host: addresses, or the text of its error.\<close>

definition resolve_and_validate_ip :: "string \<Rightarrow> string + ip_addr list \<Rightarrow> atta_error + ip_addr" where
  "resolve_and_validate_ip host lookup =
     (case lookup of
        Inl e \<Rightarrow> Inl (SecurityViolation (''DNS resolution failed for '' @ squote host @ '': '' @ e))
      | Inr ips \<Rightarrow>
          (case ips of
             [] \<Rightarrow> Inl (SecurityViolation (''DNS resolution returned no addresses for '' @ squote host))
           | first # _ \<Rightarrow>
               and_then (each (\<lambda>ip. violation_if (is_private_ip ip)
                 (''SSRF blocked: '' @ squote host @ '' resolves to private IP '' @ ip_show ip)) ips) (\<lambda>_. Inr first)))"

section \<open>The check of a call\<close>

datatype approval_event = EvPending string | EvGranted string | EvDenied string

record genv_guard =
  ge_now :: "nat \<Rightarrow> timestamp"
  ge_answer :: "nat \<Rightarrow> backend_answer"
  ge_event_sent :: "nat \<Rightarrow> bool"
  ge_canon :: "string \<Rightarrow> string option"
  ge_leak :: "string \<Rightarrow> string"

text \<open>The configuration: the policy, the time limit of the approval manager and the event channel, if there are any.\<close>

record guard_config =
  gc_policy :: security_policy
  gc_manager :: "nat option"
  gc_events :: bool

record 'w guard =
  gd_estop :: "estop_state option"
  gd_tracker :: tracker
  gd_allow :: "string list"
  gd_events :: "approval_event list"
  gd_ticks :: nat
  gd_asks :: nat
  gd_sends :: nat
  gd_inner :: 'w

type_synonym ('w, 'a) gio = "('w guard, atta_error, 'a) io"

text \<open>\<open>try_send\<close>: the event is in the channel, or it is dropped with a warning.\<close>

definition send_event :: "genv_guard \<Rightarrow> guard_config \<Rightarrow> approval_event \<Rightarrow> ('w, unit) gio" where
  "send_event G cfg ev =
     (if gc_events cfg then modifyE (\<lambda>g. g\<lparr>gd_sends := Suc (gd_sends g),
        gd_events := (if ge_event_sent G (gd_sends g) then gd_events g @ [ev] else gd_events g)\<rparr>)
      else retE ())"

definition ask_manager :: "genv_guard \<Rightarrow> nat \<Rightarrow> tool_approval_request \<Rightarrow> ('w, unit) gio" where
  "ask_manager G timeout_secs q = (\<lambda>g.
     if List.member (gd_allow g) (ta_tool_name q) then (Inr (), g)
     else case check_and_approve timeout_secs q (ge_answer G (gd_asks g)) (gd_allow g) of
       (r, allow) \<Rightarrow> (r, g\<lparr>gd_allow := allow, gd_asks := Suc (gd_asks g)\<rparr>))"

fun risk_debug :: "risk_level \<Rightarrow> string" where
  "risk_debug Low = ''Low''" | "risk_debug Medium = ''Medium''" | "risk_debug High = ''High''"

definition check_autonomy :: "genv_guard \<Rightarrow> guard_config \<Rightarrow> string \<Rightarrow> json \<Rightarrow> risk_level \<Rightarrow> ('w, unit) gio" where
  "check_autonomy G cfg tool args risk =
     (case sp_autonomy (gc_policy cfg) of
        ReadOnly \<Rightarrow>
          if risk = Low then retE ()
          else failE (PermissionDenied (''tool '' @ squote tool @ '' requires '' @ risk_debug risk @
                 '' risk level, but autonomy is ReadOnly''))
      | Supervised \<Rightarrow>
          if risk \<noteq> High then retE ()
          else (case gc_manager cfg of
             None \<Rightarrow> failE (PermissionDenied (''tool '' @ squote tool @ '' is high-risk and requires approval in Supervised mode''))
           | Some timeout_secs \<Rightarrow>
               bindE (send_event G cfg (EvPending tool)) (\<lambda>_.
               tryE (ask_manager G timeout_secs \<lparr>ta_tool_name = tool, ta_arguments = args, ta_risk_level = risk,
                       ta_description = ''High-risk tool '' @ squote tool @ '' in Supervised mode''\<rparr>) (\<lambda>r.
               case r of
                 Inr _ \<Rightarrow> send_event G cfg (EvGranted tool)
               | Inl e \<Rightarrow> bindE (send_event G cfg (EvDenied tool)) (\<lambda>_. failE e))))
      | FullAutonomy \<Rightarrow> retE ())"

definition track :: "genv_guard \<Rightarrow> (timestamp \<Rightarrow> tracker \<Rightarrow> u32 \<times> tracker) \<Rightarrow> ('w, u32) gio" where
  "track G rec = (\<lambda>g. case rec (ge_now G (gd_ticks g)) (gd_tracker g) of
     (n, t) \<Rightarrow> (Inr n, g\<lparr>gd_tracker := t, gd_ticks := Suc (gd_ticks g)\<rparr>))"

definition check_rates :: "genv_guard \<Rightarrow> guard_config \<Rightarrow> risk_level \<Rightarrow> ('w, unit) gio" where
  "check_rates G cfg risk =
     bindE (track G record_call) (\<lambda>total.
     if total > sp_max_calls (gc_policy cfg)
     then failE (RateLimited (''exceeded '' @ show_nat (unat (sp_max_calls (gc_policy cfg))) @ '' calls/minute (current: '' @
            show_nat (unat total) @ '')''))
     else if risk = High then
       bindE (track G record_high_risk_call) (\<lambda>n.
       if n > sp_max_high_risk (gc_policy cfg)
       then failE (RateLimited (''exceeded '' @ show_nat (unat (sp_max_high_risk (gc_policy cfg))) @
              '' high-risk calls/minute (current: '' @ show_nat (unat n) @ '')''))
       else retE ())
     else retE ())"

definition shell_tools :: "string list" where
  "shell_tools = [''shell'', ''bash'', ''exec'']"

definition file_tools :: "string list" where
  "file_tools = [''file_read'', ''file_write'', ''file_edit'', ''apply_patch'']"

definition check_command :: "security_policy \<Rightarrow> string \<Rightarrow> json \<Rightarrow> atta_error + unit" where
  "check_command policy tool args =
     (if List.member shell_tools tool
      then (case jget_str args ''command'' of Some c \<Rightarrow> validate_shell_command policy c | None \<Rightarrow> Inr ())
      else Inr ())"

definition check_network :: "security_policy \<Rightarrow> string \<Rightarrow> atta_error + unit" where
  "check_network policy tool =
     violation_if (\<not> sp_allow_network policy \<and> List.member network_tools tool)
       (''network access denied for tool '' @ squote tool)"

fun set_field :: "json \<Rightarrow> string \<Rightarrow> json \<Rightarrow> json" where
  "set_field (JObj m) k v = JObj (obj_insert k v m)"
| "set_field j k v = j"

definition effective_args :: "security_policy \<Rightarrow> (string \<Rightarrow> string option) \<Rightarrow> string \<Rightarrow> json \<Rightarrow> atta_error + json" where
  "effective_args policy canon tool args =
     (if List.member file_tools tool
      then (case jget_str args ''path'' of
              Some path \<Rightarrow> and_then (validate_path policy canon path) (\<lambda>p. Inr (set_field args ''path'' (JStr p)))
            | None \<Rightarrow> Inr args)
      else Inr args)"

definition check_url :: "security_policy \<Rightarrow> string \<Rightarrow> json \<Rightarrow> atta_error + unit" where
  "check_url policy tool args =
     (if List.member network_tools tool
      then (case jget_str args ''url'' of Some u \<Rightarrow> validate_url_domain policy u | None \<Rightarrow> Inr ())
      else Inr ())"

definition check_permission :: "genv_guard \<Rightarrow> guard_config \<Rightarrow> string \<Rightarrow> json \<Rightarrow> ('w, json) gio" where
  "check_permission G cfg tool args =
     (let policy = gc_policy cfg; risk = classify tool args in
      bindE getE (\<lambda>g.
      bindE (liftE (case gd_estop g of None \<Rightarrow> Inr () | Some s \<Rightarrow> estop_check s tool args)) (\<lambda>_.
      bindE (check_autonomy G cfg tool args risk) (\<lambda>_.
      bindE (check_rates G cfg risk) (\<lambda>_.
      bindE (liftE (check_command policy tool args)) (\<lambda>_.
      bindE (liftE (check_network policy tool)) (\<lambda>_.
      bindE (liftE (effective_args policy (ge_canon G) tool args)) (\<lambda>safe.
      bindE (liftE (check_url policy tool args)) (\<lambda>_.
      retE safe)))))))))"

section \<open>The registry\<close>

definition guard_list_schemas :: "guard_config \<Rightarrow> tool_schema list \<Rightarrow> tool_schema list" where
  "guard_list_schemas cfg all = filter_tools_by_profile all (sp_tool_profile (gc_policy cfg))"

definition scrub_with_detector :: "genv_guard \<Rightarrow> json \<Rightarrow> json" where
  "scrub_with_detector G v = map_strings (ge_leak G) v"

type_synonym 'w registry = "string \<Rightarrow> json \<Rightarrow> 'w \<Rightarrow> (atta_error + json) \<times> 'w"

definition call_inner :: "'w registry \<Rightarrow> string \<Rightarrow> json \<Rightarrow> ('w, json) gio" where
  "call_inner inner tool args = (\<lambda>g. case inner tool args (gd_inner g) of (r, w) \<Rightarrow> (r, g\<lparr>gd_inner := w\<rparr>))"

definition guard_invoke :: "genv_guard \<Rightarrow> guard_config \<Rightarrow> 'w registry \<Rightarrow> string \<Rightarrow> json \<Rightarrow> ('w, json) gio" where
  "guard_invoke G cfg inner tool args =
     bindE (check_permission G cfg tool args) (\<lambda>safe.
     bindE (call_inner inner tool safe) (\<lambda>result.
     retE (scrub_with_detector G (scrub_json_value result))))"

end
