(* ===== verification/Guard_Props.thy ===== *)
theory Guard_Props
  imports Guard
begin

text \<open>
  What the guard guarantees, and the addresses and paths that its checks do not see.
\<close>

section \<open>Mediation\<close>

definition approved :: "genv_guard \<Rightarrow> 'w guard \<Rightarrow> string \<Rightarrow> bool" where
  "approved G g tool \<longleftrightarrow> tool \<in> set (gd_allow g) \<or>
     ge_answer G (gd_asks g) = Answered (Inr Yes) \<or> ge_answer G (gd_asks g) = Answered (Inr Always)"

text \<open>The calls of the last minute, this one among them, are as many as the policy admits; for a high risk, those too.\<close>

definition within_rates :: "genv_guard \<Rightarrow> security_policy \<Rightarrow> 'w guard \<Rightarrow> risk_level \<Rightarrow> bool" where
  "within_rates G policy g risk \<longleftrightarrow>
     (let (total, t) = record_call (ge_now G (gd_ticks g)) (gd_tracker g) in
      total \<le> sp_max_calls policy \<and>
      (risk = High \<longrightarrow> fst (record_high_risk_call (ge_now G (Suc (gd_ticks g))) t) \<le> sp_max_high_risk policy))"

definition admissible :: "genv_guard \<Rightarrow> guard_config \<Rightarrow> 'w guard \<Rightarrow> string \<Rightarrow> json \<Rightarrow> bool" where
  "admissible G cfg g tool args \<longleftrightarrow>
     (let policy = gc_policy cfg; risk = classify tool args in
      (case gd_estop g of None \<Rightarrow> True | Some s \<Rightarrow> \<not> stopped s tool args) \<and>
      (sp_autonomy policy = ReadOnly \<longrightarrow> risk = Low) \<and>
      (sp_autonomy policy = Supervised \<longrightarrow> risk = High \<longrightarrow> approved G g tool) \<and>
      check_command policy tool args = Inr () \<and>
      (sp_allow_network policy \<or> tool \<notin> set network_tools) \<and>
      check_url policy tool args = Inr () \<and> within_rates G policy g risk)"

text \<open>The checks touch the guard's own state only.\<close>

lemma keeps_inner_modify: "keeps (\<lambda>g. gd_inner g = w) (send_event G cfg ev)"
  by (auto simp: keeps_def send_event_def)

lemma keeps_inner_ask: "keeps (\<lambda>g. gd_inner g = w) (ask_manager G n q)"
  by (auto simp: keeps_def ask_manager_def split: prod.split)

lemma keeps_inner_track: "keeps (\<lambda>g. gd_inner g = w) (track G rec)"
  by (auto simp: keeps_def track_def split: prod.split)

lemmas keeps_inner = keeps_inner_modify keeps_inner_ask keeps_inner_track

lemma keeps_inner_autonomy: "keeps (\<lambda>g. gd_inner g = w) (check_autonomy G cfg tool args risk)"
  unfolding check_autonomy_def
  by (auto intro!: keeps_intros keeps_inner split: autonomy_level.split option.split sum.split)

lemma keeps_inner_rates: "keeps (\<lambda>g. gd_inner g = w) (check_rates G cfg risk)"
  unfolding check_rates_def by (auto intro!: keeps_intros keeps_inner)

lemma keeps_inner_permission: "keeps (\<lambda>g. gd_inner g = w) (check_permission G cfg tool args)"
  unfolding check_permission_def Let_def
  by (intro keeps_intros keeps_inner_autonomy keeps_inner_rates)

text \<open>Asking a person leaves the clock and the tracker alone, so the rates are those of the state before the call.\<close>

lemma keeps_tracker_autonomy:
  "keeps (\<lambda>g. gd_tracker g = t \<and> gd_ticks g = n) (check_autonomy G cfg tool args risk)"
proof -
  have "keeps (\<lambda>g. gd_tracker g = t \<and> gd_ticks g = n) (send_event G cfg ev)"
    "keeps (\<lambda>g. gd_tracker g = t \<and> gd_ticks g = n) (ask_manager G m q)" for ev m q
    by (auto simp: keeps_def send_event_def ask_manager_def split: prod.split)
  then show ?thesis
    unfolding check_autonomy_def
    by (auto intro!: keeps_intros split: autonomy_level.split option.split sum.split)
qed

lemma track_ok:
  assumes "track G rec g = (Inr n, g')"
  shows "n = fst (rec (ge_now G (gd_ticks g)) (gd_tracker g))"
    and "g' = g\<lparr>gd_tracker := snd (rec (ge_now G (gd_ticks g)) (gd_tracker g)), gd_ticks := Suc (gd_ticks g)\<rparr>"
  using assms by (auto simp: track_def split: prod.splits)

lemma check_rates_ok:
  assumes "check_rates G cfg risk g = (Inr u, g')"
  shows "within_rates G (gc_policy cfg) g risk"
proof -
  from assms obtain total g1 where t: "track G record_call g = (Inr total, g1)"
    and total: "\<not> total > sp_max_calls (gc_policy cfg)"
    and high: "risk = High \<Longrightarrow> \<exists>n g2. track G record_high_risk_call g1 = (Inr n, g2) \<and> \<not> n > sp_max_high_risk (gc_policy cfg)"
    unfolding check_rates_def by (elim bindE_okD) (force elim: bindE_okD split: if_splits)
  have "fst (record_high_risk_call (ge_now G (gd_ticks g1)) (gd_tracker g1)) \<le> sp_max_high_risk (gc_policy cfg)"
    if "risk = High"
    using high [OF that] by (auto simp: not_less dest: track_ok(1))
  with total track_ok [OF t] show ?thesis
    by (auto simp: within_rates_def not_less split: prod.split)
qed

lemma check_autonomy_ok:
  assumes "check_autonomy G cfg tool args risk g = (Inr u, g')"
  shows "(sp_autonomy (gc_policy cfg) = ReadOnly \<longrightarrow> risk = Low) \<and>
    (sp_autonomy (gc_policy cfg) = Supervised \<longrightarrow> risk = High \<longrightarrow> approved G g tool)"
proof -
  have asked: "approved G g tool"
    if "ask_manager G n q (snd (send_event G cfg ev g)) = (Inr v, h)" "ta_tool_name q = tool" for n q ev v h
    using that
    by (auto simp: approved_def ask_manager_def send_event_def check_and_approve_def
        split: if_splits prod.splits backend_answer.splits sum.splits tool_approval_response.splits)
  show ?thesis
    using assms
    by (auto simp: check_autonomy_def bindE_def tryE_def send_event_def
        split: autonomy_level.splits if_splits option.splits prod.splits sum.splits
        intro!: asked [of _ _ "EvPending tool"])
qed

lemma check_permission_ok:
  assumes "check_permission G cfg tool args g = (Inr safe, g')"
  shows "admissible G cfg g tool args \<and> effective_args (gc_policy cfg) (ge_canon G) tool args = Inr safe"
proof -
  from assms obtain g1 g2 u1 u2 where
      es: "(case gd_estop g of None \<Rightarrow> Inr () | Some s \<Rightarrow> estop_check s tool args) = Inr ()"
    and au: "check_autonomy G cfg tool args (classify tool args) g = (Inr u1, g1)"
    and ra: "check_rates G cfg (classify tool args) g1 = (Inr u2, g2)"
    and cm: "check_command (gc_policy cfg) tool args = Inr ()"
    and nw: "check_network (gc_policy cfg) tool = Inr ()"
    and ea: "effective_args (gc_policy cfg) (ge_canon G) tool args = Inr safe"
    and cu: "check_url (gc_policy cfg) tool args = Inr ()"
    unfolding check_permission_def Let_def by (auto elim!: bindE_okD)
  have "case gd_estop g of None \<Rightarrow> True | Some s \<Rightarrow> \<not> stopped s tool args"
    using es by (auto simp: stopped_iff split: option.splits)
  moreover have "sp_allow_network (gc_policy cfg) \<or> tool \<notin> set network_tools"
    using nw by (auto simp: check_network_def violation_if_def split: if_splits)
  moreover have "gd_tracker g1 = gd_tracker g \<and> gd_ticks g1 = gd_ticks g"
    by (rule keeps_run [OF keeps_tracker_autonomy au]) simp
  then have "within_rates G (gc_policy cfg) g (classify tool args)"
    using check_rates_ok [OF ra] by (simp only: within_rates_def)
  ultimately have "admissible G cfg g tool args"
    using check_autonomy_ok [OF au] cm cu unfolding admissible_def Let_def by (intro conjI) simp_all
  with ea show ?thesis by simp
qed

text \<open>
  C10. Nothing reaches the tools past the guard: a call either leaves the registry as it was, or every check has passed
  (emergency stop, autonomy, a person's approval where it is asked for, the rates of all calls and of those of high risk,
  command, network, path, URL) and the registry was called with the checked arguments.
\<close>

theorem guard_mediates:
  "gd_inner (snd (guard_invoke G cfg inner tool args g)) = gd_inner g \<or>
   (admissible G cfg g tool args \<and>
    (\<exists>safe. effective_args (gc_policy cfg) (ge_canon G) tool args = Inr safe \<and>
       gd_inner (snd (guard_invoke G cfg inner tool args g)) = snd (inner tool safe (gd_inner g))))"
proof -
  obtain r g1 where c: "check_permission G cfg tool args g = (r, g1)" by fastforce
  have same: "gd_inner g1 = gd_inner g"
    using keeps_run [OF keeps_inner_permission c, of "gd_inner g"] by simp
  show ?thesis
  proof (cases r)
    case (Inl e)
    then show ?thesis using c same by (simp add: guard_invoke_def bindE_def)
  next
    case (Inr safe)
    then show ?thesis
      using c same check_permission_ok [of G cfg tool args g safe g1]
      by (auto simp: guard_invoke_def bindE_def call_inner_def split: prod.split sum.split)
  qed
qed

section \<open>Paths\<close>

text \<open>What a checked path is: no null byte, no forbidden text, and text that begins with one of the roots.\<close>

lemma validate_path_ok:
  "validate_path policy canon path = Inr p \<longleftrightarrow>
     \<not> contains path [CHR 0x00] \<and> p = canonical_path canon path \<and>
     (\<forall>f \<in> set (sp_forbidden_paths policy). \<not> contains p f) \<and> inside_roots policy canon p"
  by (auto simp: validate_path_def Let_def and_then_eq_iff each_ok violation_if_def)

text \<open>
  The sandbox compares texts, not directories: a file whose canonical path merely begins with the text of the workspace
  root, as in a sibling directory whose name extends the root's, is inside for the guard.
\<close>

theorem sandbox_admits_siblings:
  assumes "sp_workspace_root policy = Some root" and "canon root = Some r" and "canon path = Some (r @ suffix)"
    and "\<not> contains path [CHR 0x00]" and "\<forall>f \<in> set (sp_forbidden_paths policy). \<not> contains (r @ suffix) f"
  shows "validate_path policy canon path = Inr (r @ suffix)"
  using assms by (simp add: validate_path_ok canonical_path_def inside_roots_def root_text_def starts_with_iff)

theorem sandbox_admits_siblings_witness:
  "validate_path (policy_default\<lparr>sp_workspace_root := Some ''/ws''\<rparr>) Some ''/ws-private/key'' = Inr ''/ws-private/key''"
  using sandbox_admits_siblings [of "policy_default\<lparr>sp_workspace_root := Some ''/ws''\<rparr>" "''/ws''" Some "''/ws''"
      "''/ws-private/key''" "''-private/key''"]
  by (simp add: policy_default_def) code_simp

section \<open>Addresses\<close>

lemma length_show_nat: "n < 1000 \<Longrightarrow> length (show_nat n) \<le> 3 \<and> (1 < length (show_nat n) \<longrightarrow> 0 < n)"
  by (simp add: show_nat.simps [of n] show_nat.simps [of "n div 10"] show_nat.simps [of "n div 10 div 10"])

lemma parse_show_octet: "parse_octet (show_nat (unat x)) = Some x"
proof -
  have "unat x < 1000" "unat x \<le> 255" using unat8 [of x] by simp_all
  with show_nat_digits [of "unat x"] length_show_nat [of "unat x"] show ?thesis
    by (auto simp: parse_octet_def)
qed

lemma digit_chars:
  assumes "c \<in> set (show_nat n)"
  shows "c \<noteq> CHR ''.'' \<and> c \<noteq> CHR '':'' \<and> c \<noteq> CHR ''/'' \<and> c \<noteq> CHR ''['' \<and> c \<noteq> CHR '']'' \<and> lower_char c = c"
proof -
  have "is_digit c" using assms show_nat_digits [of n] by (auto simp: list_all_iff)
  then show ?thesis by (auto simp: is_digit_def lower_char_def)
qed

text \<open>A printed address reads back as itself.\<close>

lemma parse_show_ipv4: "parse_ipv4 (show_ipv4 a b c d) = Some (V4 a b c d)"
proof -
  let ?xs = "map (\<lambda>o'. show_nat (unat o')) [a, b, c, d]"
  have "split_on (CHR ''.'') (show_ipv4 a b c d) = ?xs"
    unfolding show_ipv4_def by (rule split_on_join) (use digit_chars in auto)
  then show ?thesis by (simp add: parse_ipv4_def parse_show_octet)
qed

lemma show_ipv4_chars:
  "c \<in> set (show_ipv4 a b x d) \<Longrightarrow> c \<noteq> CHR '':'' \<and> c \<noteq> CHR ''/'' \<and> c \<noteq> CHR ''['' \<and> c \<noteq> CHR '']'' \<and> lower_char c = c"
proof -
  have "lower_char (CHR ''.'') = CHR ''.''" by (simp add: lower_char_def)
  then show "c \<in> set (show_ipv4 a b x d) \<Longrightarrow> ?thesis" by (auto simp: show_ipv4_def dest: digit_chars)
qed

lemma violation_if_refused: "violation_if b m = Inr () \<longleftrightarrow> \<not> b"
  by (simp add: violation_if_def)

lemma and_then_ok_or_refused:
  "r = Inr () \<or> refused r \<Longrightarrow> k () = Inr () \<or> refused (k ()) \<Longrightarrow> and_then r k = Inr () \<or> refused (and_then r k)"
  by (cases r) (auto simp: refused_def)

lemma validate_url_cases: "validate_url_domain policy url = Inr () \<or> refused (validate_url_domain policy url)"
proof -
  let ?d = "extract_domain url"
  have "(if is_ip_literal ?d then (case parse_ip (trim_brackets ?d) of Some ip \<Rightarrow> violation_if (is_private_ip ip) (m ip)
      | None \<Rightarrow> Inr ()) else Inr ()) = Inr () \<or> refused (if is_ip_literal ?d then (case parse_ip (trim_brackets ?d) of
      Some ip \<Rightarrow> violation_if (is_private_ip ip) (m ip) | None \<Rightarrow> Inr ()) else Inr ())" for m
    using violation_if_cases by (auto split: option.split)
  then show ?thesis
    unfolding validate_url_domain_def Let_def by (intro and_then_ok_or_refused each_violation(1) violation_if_cases)
qed

text \<open>
  A request to a private IPv4 address written in decimal is refused under every policy, with any port and path, by
  name of the host alone.
\<close>

theorem private_literal_refused:
  assumes "private_v4 a b c d" and "scheme = ''http://'' \<or> scheme = ''https://''"
    and "rest = [] \<or> hd rest = CHR ''/'' \<or> hd rest = CHR '':''"
  shows "refused (validate_url_domain policy (scheme @ show_ipv4 a b c d @ rest))"
proof -
  let ?ip = "show_ipv4 a b c d"
  have "without_scheme (scheme @ ?ip @ rest) = ?ip @ rest"
    using assms(2) by (auto simp: without_scheme_def)
  moreover have "takeWhile (\<lambda>c. c \<noteq> CHR '':'') (takeWhile (\<lambda>c. c \<noteq> CHR ''/'') (?ip @ rest)) = ?ip"
  proof -
    have slash: "takeWhile (\<lambda>c. c \<noteq> CHR ''/'') (?ip @ rest) = ?ip @ takeWhile (\<lambda>c. c \<noteq> CHR ''/'') rest"
      using show_ipv4_chars by (intro takeWhile_append2) blast
    have colon: "takeWhile (\<lambda>c. c \<noteq> CHR '':'') (?ip @ y) = ?ip @ takeWhile (\<lambda>c. c \<noteq> CHR '':'') y" for y
      using show_ipv4_chars by (intro takeWhile_append2) blast
    have "takeWhile (\<lambda>c. c \<noteq> CHR '':'') (takeWhile (\<lambda>c. c \<noteq> CHR ''/'') rest) = []"
      using assms(3) by (cases rest) auto
    then show ?thesis unfolding slash colon by simp
  qed
  moreover have "to_lower ?ip = ?ip"
    using show_ipv4_chars [of _ a b c d] by (simp add: to_lower_def map_idI)
  ultimately have dom: "extract_domain (scheme @ ?ip @ rest) = ?ip" by (simp add: extract_domain_def)
  have nonempty: "?ip \<noteq> []" using show_nat_digits by (simp add: show_ipv4_def)
  have "hd ?ip \<noteq> CHR ''[''" "last ?ip \<noteq> CHR '']''"
    using show_ipv4_chars [OF hd_in_set [OF nonempty]] show_ipv4_chars [OF last_in_set [OF nonempty]] by blast+
  then have "dropWhile (\<lambda>c. c = CHR ''['') ?ip = ?ip" "dropWhile (\<lambda>c. c = CHR '']'') (rev ?ip) = rev ?ip"
    using nonempty by (auto intro!: dropWhile_id simp: hd_rev)
  then have "trim_brackets ?ip = ?ip" by (simp add: trim_brackets_def trim_end_char_def)
  then have "validate_url_domain policy (scheme @ ?ip @ rest) \<noteq> Inr ()"
    using assms(1)
    by (simp add: validate_url_domain_def Let_def dom and_then_eq_iff is_ip_literal_def parse_show_ipv4 parse_ip_def
        is_private_ip_def violation_if_def)
  with validate_url_cases show ?thesis by blast
qed

theorem private_literal_refused_witness:
  "refused (validate_url_domain policy_default (''http://'' @ show_ipv4 169 254 169 254 @ '':80/latest/meta-data''))"
  by (rule private_literal_refused) (simp_all add: private_v4_def)

text \<open>
  A user name in front of the host hides it: what the guard takes for the domain of such a URL is the user name, so a
  listed domain written there admits any host, private ones included.
\<close>

theorem user_part_hides_host:
  assumes "u \<in> set (sp_url_allowlist policy)" and "to_lower u = u" and "\<forall>c \<in> set u. c \<noteq> CHR ''/'' \<and> c \<noteq> CHR '':''"
    and "\<forall>b \<in> set (sp_url_blocklist policy). \<not> domain_matches u b" and "\<not> is_ip_literal u"
  shows "validate_url_domain policy (''http://'' @ u @ '':x@'' @ host) = Inr ()"
proof -
  have "takeWhile (\<lambda>c. c \<noteq> CHR ''/'') (u @ '':x@'' @ host) = u @ '':x@'' @ takeWhile (\<lambda>c. c \<noteq> CHR ''/'') host"
    using assms(3) by (subst takeWhile_append2) auto
  moreover have "takeWhile (\<lambda>c. c \<noteq> CHR '':'') (u @ '':x@'' @ y) = u" for y
    using assms(3) by (subst takeWhile_append2) auto
  ultimately have dom: "extract_domain (''http://'' @ u @ '':x@'' @ host) = u"
    using assms(2) by (simp add: extract_domain_def without_scheme_def)
  have "list_ex (domain_matches u) (sp_url_allowlist policy)"
    using assms(1) by (auto simp: list_ex_iff domain_matches_def)
  then show ?thesis
    unfolding validate_url_domain_def Let_def dom using assms(4,5) by (simp add: and_then_eq_iff each_ok violation_if_def)
qed

theorem user_part_hides_host_witness:
  "validate_url_domain (policy_default\<lparr>sp_url_allowlist := [''example.org'']\<rparr>) (''http://'' @ ''example.org'' @ '':x@'' @ ''127.0.0.1/'') =
     Inr ()"
  by (rule user_part_hides_host) code_simp+

text \<open>Two more ways past the address check: a capital in the scheme, and an IPv6 literal, of which only the bracket is seen.\<close>

lemma other_literals_pass:
  "validate_url_domain policy_default ''HTTP://127.0.0.1/'' = Inr ()"
  "validate_url_domain policy_default ''http://[::1]/'' = Inr ()"
  by code_simp+

text \<open>The tool profile filters what is listed; a tool that is not listed can be called all the same.\<close>

lemma profile_filters_the_list_only:
  "guard_list_schemas cfg [\<lparr>schema_name = ''time'', schema_description = [], schema_parameters = JNull\<rparr>] = []"
  if "sp_tool_profile (gc_policy cfg) = Minimal"
  using that by (simp add: guard_list_schemas_def filter_tools_by_profile_def resolve_profile_def group_search_def)

end
