(* ===== verification/Loop_Detector.thy ===== *)
theory Loop_Detector
  imports Atta_Types
begin

text \<open>
  The loop detector of the agent (\<open>LoopDetector\<close> in \<open>crates/agent/src/tool_executor.rs\<close>): it counts
  identical calls, looks for an alternation of two calls among the last four, and compares the last five outputs.

  The hash values are those of \<open>DefaultHasher\<close>, whose function the standard library leaves open: \<open>aenv\<close>
  has it as a parameter, with the JSON parser of \<open>serde_json\<close>. No theorem asks anything of the hash function.
\<close>

record aenv = env +
  ae_hash_call :: "string \<Rightarrow> string \<Rightarrow> u64"
  ae_hash_text :: "string \<Rightarrow> u64"
  ae_json_parse :: "string \<Rightarrow> json option"

record loop_detector =
  ld_counts :: "(u64, u32) map"
  ld_max :: u32
  ld_history :: "(string \<times> u64) list"
  ld_outputs :: "u64 list"
  ld_window :: nat

definition detector_new :: "u32 \<Rightarrow> loop_detector" where
  "detector_new m = \<lparr>ld_counts = Map.empty, ld_max = m, ld_history = [], ld_outputs = [], ld_window = 30\<rparr>"

definition call_hash :: "aenv \<Rightarrow> string \<Rightarrow> json \<Rightarrow> u64" where
  "call_hash A tool args = ae_hash_call A tool (json_show A args)"

text \<open>\<open>pop_front\<close> when the window is full, then \<open>push_back\<close>.\<close>

definition push_window :: "nat \<Rightarrow> 'a \<Rightarrow> 'a list \<Rightarrow> 'a list" where
  "push_window n x xs = (if length xs \<ge> n then tl xs else xs) @ [x]"

definition ping_pong :: "(string \<times> u64) list \<Rightarrow> bool" where
  "ping_pong h \<longleftrightarrow> length h \<ge> 4 \<and> (let n = length h in
     snd (h ! (n - 4)) = snd (h ! (n - 2)) \<and> snd (h ! (n - 3)) = snd (h ! (n - 1)) \<and>
     snd (h ! (n - 4)) \<noteq> snd (h ! (n - 3)))"

definition detector_record :: "aenv \<Rightarrow> string \<Rightarrow> json \<Rightarrow> (loop_detector, atta_error, unit) io" where
  "detector_record A tool args = (\<lambda>d.
     if ld_max d = 0 then (Inr (), d)
     else
       let key = call_hash A tool args;
           n = (case ld_counts d key of None \<Rightarrow> 0 | Some n \<Rightarrow> n) + 1;
           d1 = d\<lparr>ld_counts := (ld_counts d)(key \<mapsto> n)\<rparr>
       in if n > ld_max d
          then (Inl (SecurityViolation (''loop detected: tool '' @ squote tool @ '' called '' @ show_nat (unat n) @
                  '' times with same arguments (max '' @ show_nat (unat (ld_max d)) @ '')'')), d1)
          else
            let h = push_window (ld_window d) (tool, key) (ld_history d);
                d2 = d1\<lparr>ld_history := h\<rparr>
            in if ping_pong h
               then (Inl (SecurityViolation (''loop detected: ping-pong pattern between '' @
                       squote (fst (h ! (length h - 4))) @ '' and '' @ squote (fst (h ! (length h - 3))))), d2)
               else (Inr (), d2))"

definition detector_record_output :: "aenv \<Rightarrow> json \<Rightarrow> loop_detector \<Rightarrow> loop_detector" where
  "detector_record_output A v d = d\<lparr>ld_outputs := push_window 10 (ae_hash_text A (json_show A v)) (ld_outputs d)\<rparr>"

definition no_progress :: "u64 list \<Rightarrow> bool" where
  "no_progress hs \<longleftrightarrow> length hs \<ge> 5 \<and> (\<forall>h \<in> set (take 5 (rev hs)). h = last hs)"

definition check_progress :: "loop_detector \<Rightarrow> atta_error + unit" where
  "check_progress d =
     (if no_progress (ld_outputs d)
      then Inl (SecurityViolation (''loop detected: no progress '' @ em_dash @ '' last 5 tool outputs are identical''))
      else Inr ())"

definition detector_reset :: "loop_detector \<Rightarrow> loop_detector" where
  "detector_reset d = d\<lparr>ld_counts := Map.empty, ld_history := [], ld_outputs := []\<rparr>"

section \<open>What acceptance means\<close>

text \<open>
  A run of accepted calls: \<open>record\<close> on one call after the other, none refused. The counters then hold how often each
  hash value was seen, and the history the last thirty calls.
\<close>

definition accept :: "aenv \<Rightarrow> (string \<times> json) list \<Rightarrow> (loop_detector, atta_error, unit) io" where
  "accept A calls = forE calls (\<lambda>(tool, args). detector_record A tool args)"

definition key_of :: "aenv \<Rightarrow> string \<times> json \<Rightarrow> u64" where
  "key_of A c = call_hash A (fst c) (snd c)"

definition seen :: "aenv \<Rightarrow> (string \<times> json) list \<Rightarrow> u64 \<Rightarrow> nat" where
  "seen A calls k = length (filter (\<lambda>c. key_of A c = k) calls)"

definition last_n :: "nat \<Rightarrow> 'a list \<Rightarrow> 'a list" where
  "last_n n xs = drop (length xs - n) xs"

lemma push_last_n: "0 < n \<Longrightarrow> push_window n x (last_n n xs) = last_n n (xs @ [x])"
  by (auto simp: push_window_def last_n_def drop_Suc tl_drop Suc_diff_le)

lemma length_push_window: "length xs \<le> n \<Longrightarrow> 0 < n \<Longrightarrow> length (push_window n x xs) \<le> n"
  by (auto simp: push_window_def)

definition tracks :: "aenv \<Rightarrow> u32 \<Rightarrow> (string \<times> json) list \<Rightarrow> loop_detector \<Rightarrow> bool" where
  "tracks A m calls d \<longleftrightarrow>
     ld_max d = m \<and> ld_window d = 30 \<and>
     (\<forall>k. seen A calls k \<le> unat m \<and>
        (case ld_counts d k of None \<Rightarrow> seen A calls k = 0 | Some n \<Rightarrow> unat n = seen A calls k)) \<and>
     ld_history d = last_n 30 (map (\<lambda>c. (fst c, key_of A c)) calls)"

lemma tracks_new: "tracks A m [] (detector_new m)"
  by (simp add: tracks_def detector_new_def seen_def last_n_def)

text \<open>One accepted call keeps the books. The limit is below the greatest counter, so no counter wraps.\<close>

lemma detector_record_tracks:
  assumes t: "tracks A m calls d" and m: "0 < m" "m < -1"
    and ok: "detector_record A tool args d = (Inr (), d')"
  shows "tracks A m (calls @ [(tool, args)]) d' \<and> \<not> ping_pong (ld_history d')"
proof -
  define k where "k = call_hash A tool args"
  define n where "n = (case ld_counts d k of None \<Rightarrow> 0 | Some n \<Rightarrow> n) + 1"
  define h where "h = push_window 30 (tool, k) (ld_history d)"
  from t have mx: "ld_max d = m" and wd: "ld_window d = 30" by (simp_all add: tracks_def)
  from ok mx wd m have le: "n \<le> m" and np: "\<not> ping_pong h"
    and d': "d' = d\<lparr>ld_counts := (ld_counts d)(k \<mapsto> n), ld_history := h\<rparr>"
    by (auto simp: detector_record_def Let_def k_def [symmetric] n_def h_def split: if_splits)
  have old: "unat (n - 1) = seen A calls k"
  proof -
    from t have "case ld_counts d k of None \<Rightarrow> seen A calls k = 0 | Some n \<Rightarrow> unat n = seen A calls k"
      by (simp add: tracks_def)
    then show ?thesis by (simp add: n_def split: option.splits)
  qed
  have "n - 1 < -1"
  proof -
    from t old have "unat (n - 1) \<le> unat m" by (simp add: tracks_def)
    then have "n - 1 \<le> m" by (simp add: word_le_nat_alt)
    with m(2) show ?thesis by simp
  qed
  then have "unat (n - 1 + 1) = unat (n - 1) + 1"
    by (metis unatSuc add.commute less_irrefl add_eq_0_iff add.inverse_inverse Suc_eq_plus1)
  then have new: "unat n = seen A calls k + 1" using old by simp
  from t have hist: "h = last_n 30 (map (\<lambda>c. (fst c, key_of A c)) (calls @ [(tool, args)]))"
    by (simp add: h_def tracks_def push_last_n key_of_def k_def)
  have up: "unat n \<le> unat m" using le by (simp add: word_le_nat_alt)
  have "tracks A m (calls @ [(tool, args)]) d'"
    unfolding tracks_def
  proof (intro conjI allI)
    show "ld_max d' = m" "ld_window d' = 30" using d' mx wd by simp_all
    show "ld_history d' = last_n 30 (map (\<lambda>c. (fst c, key_of A c)) (calls @ [(tool, args)]))"
      using d' hist by simp
    fix j
    have at: "seen A (calls @ [(tool, args)]) j = seen A calls j + (if j = k then 1 else 0)"
      by (simp add: seen_def key_of_def k_def)
    from t have tj: "seen A calls j \<le> unat m"
      "case ld_counts d j of None \<Rightarrow> seen A calls j = 0 | Some n \<Rightarrow> unat n = seen A calls j"
      by (simp_all add: tracks_def)
    show "seen A (calls @ [(tool, args)]) j \<le> unat m"
      using at tj(1) new up by auto
    show "case ld_counts d' j of None \<Rightarrow> seen A (calls @ [(tool, args)]) j = 0
      | Some n \<Rightarrow> unat n = seen A (calls @ [(tool, args)]) j"
      using at tj(2) new d' by (cases "j = k") (simp_all split: option.splits)
  qed
  with np d' show ?thesis by simp
qed

lemma accept_snoc:
  "accept A (calls @ [c]) d = bindE (accept A calls) (\<lambda>_. detector_record A (fst c) (snd c)) d"
proof (induction calls arbitrary: d)
  case Nil
  then show ?case by (cases c) (auto simp: accept_def bindE_def split: prod.split sum.split)
next
  case (Cons x xs)
  then show ?case by (auto simp: accept_def bindE_def split: prod.split sum.split)
qed

lemma accept_tracks:
  "accept A calls (detector_new m) = (Inr (), d) \<Longrightarrow> 0 < m \<Longrightarrow> m < -1 \<Longrightarrow>
   tracks A m calls d \<and> \<not> ping_pong (ld_history d)"
proof (induction calls arbitrary: d rule: rev_induct)
  case Nil
  then have "d = detector_new m" by (simp add: accept_def)
  moreover have "\<not> ping_pong (ld_history (detector_new m))" by (simp add: ping_pong_def detector_new_def)
  ultimately show ?case using tracks_new by simp
next
  case (snoc c calls)
  from snoc.prems(1) obtain u d1
    where a: "accept A calls (detector_new m) = (Inr u, d1)"
      and r: "detector_record A (fst c) (snd c) d1 = (Inr (), d)"
    unfolding accept_snoc by (rule bindE_okD) blast
  from a snoc.IH snoc.prems(2,3) have "tracks A m calls d1" by simp
  from detector_record_tracks [OF this snoc.prems(2,3) r] show ?case by simp
qed

text \<open>Every prefix of an accepted run was accepted.\<close>

lemma accept_prefix:
  assumes "accept A (calls @ rest) d = (Inr (), d')"
  shows "\<exists>d1. accept A calls d = (Inr (), d1)"
  using assms
proof (induction rest arbitrary: d' rule: rev_induct)
  case Nil
  then show ?case by simp
next
  case (snoc c rest)
  then have "accept A ((calls @ rest) @ [c]) d = (Inr (), d')" by simp
  then obtain u d1 where "accept A (calls @ rest) d = (Inr u, d1)"
    unfolding accept_snoc by (rule bindE_okD)
  with snoc.IH show ?case by simp
qed

lemma seen_count: "count_list calls c \<le> seen A calls (key_of A c)"
  by (induction calls) (auto simp: seen_def)

text \<open>What is accepted repeats no call more often than the limit, and never alternates between two calls.\<close>

lemma accepted_repeats:
  "accept A calls (detector_new m) = (Inr (), d) \<Longrightarrow> 0 < m \<Longrightarrow> m < -1 \<Longrightarrow> count_list calls c \<le> unat m"
  using accept_tracks [of A calls m d] seen_count [of calls c A] order_trans
  unfolding tracks_def by blast

lemma ping_pong_last:
  "ping_pong (xs @ [a, b, c, e]) \<longleftrightarrow> snd a = snd c \<and> snd b = snd e \<and> snd a \<noteq> snd b"
  by (simp add: ping_pong_def nth_append Let_def)

lemma last_n_append: "length ys \<le> n \<Longrightarrow> last_n n (xs @ ys) = last_n (n - length ys) xs @ ys"
  by (simp add: last_n_def)

lemma accepted_alternation:
  assumes "accept A (pre @ [a, b, a, b] @ post) (detector_new m) = (Inr (), d)" and m: "0 < m" "m < -1"
  shows "key_of A a = key_of A b"
proof -
  from assms(1) obtain d1 where "accept A (pre @ [a, b, a, b]) (detector_new m) = (Inr (), d1)"
    using accept_prefix [of A "pre @ [a, b, a, b]" post] by auto
  from accept_tracks [OF this m]
  have t: "tracks A m (pre @ [a, b, a, b]) d1" and n: "\<not> ping_pong (ld_history d1)" by simp_all
  let ?f = "\<lambda>c. (fst c, key_of A c)"
  from t have "ld_history d1 = last_n 30 (map ?f pre @ [?f a, ?f b, ?f a, ?f b])"
    by (simp add: tracks_def)
  also have "\<dots> = last_n 26 (map ?f pre) @ [?f a, ?f b, ?f a, ?f b]"
    by (subst last_n_append) simp_all
  finally show ?thesis using n by (simp add: ping_pong_last)
qed

text \<open>The verdict on progress depends on the recorded outputs only; a refused call records none.\<close>

lemma detector_record_outputs: "detector_record A tool args d = (r, d') \<Longrightarrow> ld_outputs d' = ld_outputs d"
  by (auto simp: detector_record_def Let_def split: if_splits)

lemma check_progress_refuses: "(\<exists>e. check_progress d = Inl e) \<longleftrightarrow> no_progress (ld_outputs d)"
  by (simp add: check_progress_def)

end
