(* ===== verification/Conversation.thy ===== *)
theory Conversation
  imports Loop_Detector
begin

text \<open>
  Messages and the conversation of an agent: the types of \<open>crates/agent/src/llm.rs\<close> and
  \<open>ConversationContext\<close> of \<open>crates/agent/src/context.rs\<close>, with the truncation to a token budget.
\<close>

section \<open>Messages\<close>

record tool_call =
  tc_id :: string
  tc_name :: string
  tc_args :: json

datatype message =
    SystemMsg string
  | UserMsg string
  | AssistantMsg string
  | ToolCallsMsg "tool_call list"
  | ToolResultMsg (tr_msg_id: string) (tr_msg_content: string)

datatype llm_response = LlmMessage string | LlmToolCalls "tool_call list"

record token_usage =
  tu_input :: u64
  tu_output :: u64

record llm_result =
  lr_response :: llm_response
  lr_usage :: "token_usage option"

record model_info =
  mi_id :: string
  mi_window :: nat
  mi_tools :: bool
  mi_provider :: string
  mi_streaming :: bool

datatype thinking_level = ThinkLow | ThinkMedium | ThinkHigh | ThinkExtended u32

record chat_options =
  co_thinking :: thinking_level
  co_temperature :: "u32 option"

section \<open>The conversation\<close>

record conversation =
  cv_messages :: "message list"
  cv_max_tokens :: nat

definition context_new :: "nat \<Rightarrow> conversation" where
  "context_new n = \<lparr>cv_messages = [], cv_max_tokens = n\<rparr>"

fun is_system :: "message \<Rightarrow> bool" where
  "is_system (SystemMsg s) = True"
| "is_system _ = False"

definition set_system :: "string \<Rightarrow> conversation \<Rightarrow> conversation" where
  "set_system s c = c\<lparr>cv_messages := SystemMsg s # filter (\<lambda>m. \<not> is_system m) (cv_messages c)\<rparr>"

definition push_msg :: "message \<Rightarrow> conversation \<Rightarrow> conversation" where
  "push_msg m c = c\<lparr>cv_messages := cv_messages c @ [m]\<rparr>"

definition add_user :: "string \<Rightarrow> conversation \<Rightarrow> conversation" where
  "add_user s = push_msg (UserMsg s)"

definition add_assistant :: "string \<Rightarrow> conversation \<Rightarrow> conversation" where
  "add_assistant s = push_msg (AssistantMsg s)"

definition add_assistant_tool_calls :: "tool_call list \<Rightarrow> conversation \<Rightarrow> conversation" where
  "add_assistant_tool_calls calls = push_msg (ToolCallsMsg calls)"

definition add_tool_result :: "string \<Rightarrow> string \<Rightarrow> conversation \<Rightarrow> conversation" where
  "add_tool_result i s = push_msg (ToolResultMsg i s)"

text \<open>Four bytes count as a token, and a message as one at least.\<close>

definition call_size :: "env \<Rightarrow> tool_call \<Rightarrow> nat" where
  "call_size E c = length (tc_name c) + length (json_show E (tc_args c)) + length (tc_id c)"

fun message_size :: "env \<Rightarrow> message \<Rightarrow> nat" where
  "message_size E (SystemMsg s) = length s"
| "message_size E (UserMsg s) = length s"
| "message_size E (AssistantMsg s) = length s"
| "message_size E (ToolCallsMsg calls) = sum_list (map (call_size E) calls)"
| "message_size E (ToolResultMsg i s) = length s"

definition estimate_tokens :: "env \<Rightarrow> message \<Rightarrow> nat" where
  "estimate_tokens E m = max 1 (message_size E m div 4)"

definition total_tokens :: "env \<Rightarrow> message list \<Rightarrow> nat" where
  "total_tokens E ms = sum_list (map (estimate_tokens E) ms)"

text \<open>The loop from the newest message back, until one does not fit any more. The list is the reversed conversation.\<close>

fun keep_newest :: "env \<Rightarrow> nat \<Rightarrow> nat \<Rightarrow> message list \<Rightarrow> message list" where
  "keep_newest E budget used [] = []"
| "keep_newest E budget used (m # ms) =
     (let t = estimate_tokens E m in
      if used + t > budget then [] else m # keep_newest E budget (used + t) ms)"

definition split_system :: "message list \<Rightarrow> message option \<times> message list" where
  "split_system ms = (case ms of m # rest \<Rightarrow> if is_system m then (Some m, rest) else (None, ms) | [] \<Rightarrow> (None, []))"

definition truncate_to_fit :: "env \<Rightarrow> conversation \<Rightarrow> conversation" where
  "truncate_to_fit E c =
     (if total_tokens E (cv_messages c) \<le> cv_max_tokens c then c
      else case split_system (cv_messages c) of
        (sys, rest) \<Rightarrow>
          let budget = cv_max_tokens c - (case sys of None \<Rightarrow> 0 | Some m \<Rightarrow> estimate_tokens E m);
              kept = rev (keep_newest E budget 0 (rev rest))
          in c\<lparr>cv_messages := (case sys of None \<Rightarrow> kept | Some m \<Rightarrow> m # kept)\<rparr>)"

fun user_text :: "message \<Rightarrow> string option" where
  "user_text (UserMsg s) = Some s"
| "user_text _ = None"

definition last_user_message :: "conversation \<Rightarrow> string option" where
  "last_user_message c =
     (case List.map_filter user_text (rev (cv_messages c)) of [] \<Rightarrow> None | s # _ \<Rightarrow> Some s)"

section \<open>What truncation keeps\<close>

lemma total_tokens_append [simp]: "total_tokens E (xs @ ys) = total_tokens E xs + total_tokens E ys"
  by (simp add: total_tokens_def)

lemma total_tokens_Cons [simp]: "total_tokens E (x # xs) = estimate_tokens E x + total_tokens E xs"
  by (simp add: total_tokens_def)

lemma total_tokens_Nil [simp]: "total_tokens E [] = 0"
  by (simp add: total_tokens_def)

lemma total_tokens_rev [simp]: "total_tokens E (rev xs) = total_tokens E xs"
  by (simp add: total_tokens_def flip: rev_map)

lemma estimate_pos: "0 < estimate_tokens E m"
  by (simp add: estimate_tokens_def)

lemma keep_newest_spec:
  "\<exists>rest. ms = keep_newest E b u ms @ rest \<and>
     (u \<le> b \<longrightarrow> u + total_tokens E (keep_newest E b u ms) \<le> b) \<and>
     (rest = [] \<or> u + total_tokens E (keep_newest E b u ms) + estimate_tokens E (hd rest) > b)"
proof (induction E b u ms rule: keep_newest.induct)
  case (1 E b u)
  then show ?case by simp
next
  case (2 E b u m ms)
  show ?case
  proof (cases "u + estimate_tokens E m > b")
    case True
    then show ?thesis by simp
  next
    case False
    from "2.IH" [OF refl False] obtain rest where
      "ms = keep_newest E b (u + estimate_tokens E m) ms @ rest"
      "u + estimate_tokens E m + total_tokens E (keep_newest E b (u + estimate_tokens E m) ms) \<le> b"
      "rest = [] \<or> u + estimate_tokens E m + total_tokens E (keep_newest E b (u + estimate_tokens E m) ms) +
         estimate_tokens E (hd rest) > b"
      using False by auto
    with False show ?thesis by (intro exI [of _ rest]) (auto simp: add.assoc)
  qed
qed

text \<open>
  The reference for truncation: the system message stays, and of the rest the longest suffix whose estimate fits what is
  left of the budget.
\<close>

definition longest_suffix :: "env \<Rightarrow> nat \<Rightarrow> message list \<Rightarrow> message list \<Rightarrow> bool" where
  "longest_suffix E b ms kept \<longleftrightarrow>
     (\<exists>pre. ms = pre @ kept) \<and> total_tokens E kept \<le> b \<and>
     (\<forall>pre' kept'. ms = pre' @ kept' \<and> total_tokens E kept' \<le> b \<longrightarrow> length kept' \<le> length kept)"

lemma longer_suffix:
  assumes "a @ k = b @ k'" and "length k < length k'"
  shows "\<exists>mid. mid \<noteq> [] \<and> k' = mid @ k \<and> a = b @ mid"
  using assms by (auto simp: append_eq_append_conv2)

lemma keep_newest_longest: "longest_suffix E b ms (rev (keep_newest E b 0 (rev ms)))"
proof -
  let ?k = "keep_newest E b 0 (rev ms)"
  obtain rest where r: "rev ms = ?k @ rest" "total_tokens E ?k \<le> b"
    "rest = [] \<or> total_tokens E ?k + estimate_tokens E (hd rest) > b"
    using keep_newest_spec [of "rev ms" E b 0] by auto
  have ms: "ms = rev rest @ rev ?k" using r(1) by (metis rev_append rev_rev_ident)
  have "length kept' \<le> length (rev ?k)" if k': "ms = pre' @ kept'" "total_tokens E kept' \<le> b" for pre' kept'
  proof (rule ccontr)
    assume "\<not> length kept' \<le> length (rev ?k)"
    then have longer: "length (rev ?k) < length kept'" by simp
    have "rev rest @ rev ?k = pre' @ kept'" using ms k'(1) by (rule trans [OF sym])
    from longer_suffix [OF this longer] obtain mid where
      mid: "mid \<noteq> []" "kept' = mid @ rev ?k" "rev rest = pre' @ mid" by blast
    then obtain m mid' where m: "mid = mid' @ [m]" by (cases mid rule: rev_cases) auto
    from mid(3) have "rest = rev mid @ rev pre'" by (metis rev_append rev_rev_ident)
    with m have "rest = m # rev mid' @ rev pre'" by simp
    with r(3) have "total_tokens E ?k + estimate_tokens E m > b" by simp
    with mid(2) m k'(2) show False by simp
  qed
  with ms r(2) show ?thesis unfolding longest_suffix_def by auto
qed

lemma longest_suffix_unique:
  assumes "longest_suffix E b ms k" and "longest_suffix E b ms k'"
  shows "k = k'"
proof -
  from assms obtain p p' where s: "ms = p @ k" "ms = p' @ k'" and l: "length k = length k'"
    unfolding longest_suffix_def by (metis le_antisym)
  then have "p @ k = p' @ k'" by simp
  with l show ?thesis using append_eq_append_conv by blast
qed

definition system_part :: "message list \<Rightarrow> message list" where
  "system_part ms = (case split_system ms of (None, _) \<Rightarrow> [] | (Some m, _) \<Rightarrow> [m])"

definition truncated :: "env \<Rightarrow> conversation \<Rightarrow> conversation \<Rightarrow> bool" where
  "truncated E c c' \<longleftrightarrow>
     (if total_tokens E (cv_messages c) \<le> cv_max_tokens c then c' = c
      else \<exists>kept. c' = c\<lparr>cv_messages := system_part (cv_messages c) @ kept\<rparr> \<and>
        longest_suffix E (cv_max_tokens c - total_tokens E (system_part (cv_messages c)))
          (snd (split_system (cv_messages c))) kept)"

lemma truncate_to_fit_eq:
  "truncate_to_fit E c =
     (if total_tokens E (cv_messages c) \<le> cv_max_tokens c then c
      else c\<lparr>cv_messages := system_part (cv_messages c) @
        rev (keep_newest E (cv_max_tokens c - total_tokens E (system_part (cv_messages c))) 0
          (rev (snd (split_system (cv_messages c)))))\<rparr>)"
  unfolding truncate_to_fit_def system_part_def
  by (cases "split_system (cv_messages c)"; cases "fst (split_system (cv_messages c))") (simp_all add: Let_def)

lemma truncate_truncated: "truncated E c (truncate_to_fit E c)"
proof (cases "total_tokens E (cv_messages c) \<le> cv_max_tokens c")
  case True
  then show ?thesis by (simp add: truncated_def truncate_to_fit_eq)
next
  case False
  then show ?thesis
    unfolding truncated_def truncate_to_fit_eq if_not_P [OF False] using keep_newest_longest by blast
qed

lemma truncated_unique: "truncated E c c1 \<Longrightarrow> truncated E c c2 \<Longrightarrow> c1 = c2"
  unfolding truncated_def by (auto split: if_splits dest: longest_suffix_unique)

lemma truncate_bound:
  "total_tokens E (cv_messages (truncate_to_fit E c)) \<le>
     max (cv_max_tokens c) (total_tokens E (system_part (cv_messages c)))"
proof -
  have "total_tokens E k \<le> b" if "longest_suffix E b ms k" for b ms k
    using that by (simp add: longest_suffix_def)
  with truncate_truncated [of E c] show ?thesis
    unfolding truncated_def by (fastforce split: if_splits)
qed

text \<open>A conversation that fits is left as it is, so a second truncation changes nothing where the system message fits.\<close>

lemma truncate_idem:
  assumes "total_tokens E (system_part (cv_messages c)) \<le> cv_max_tokens c"
  shows "truncate_to_fit E (truncate_to_fit E c) = truncate_to_fit E c"
proof -
  have "cv_max_tokens (truncate_to_fit E c) = cv_max_tokens c"
    by (simp add: truncate_to_fit_eq)
  with truncate_bound [of E c] assms show ?thesis
    by (subst truncate_to_fit_eq) simp
qed

end
