(* ===== verification/Tool_Executor.thy ===== *)
theory Tool_Executor
  imports Conversation Error_Text Guard
begin

text \<open>
  The execution of tool calls: \<open>crates/agent/src/hooks.rs\<close> and \<open>crates/agent/src/tool_executor.rs\<close>.

  The registry, the hooks and whatever they act on are parameters over a world \<open>'w\<close>. What the scheduler decides is read
  from that world as well: which of completion, timeout and cancellation comes first (\<open>rg_race\<close>, with the world the
  interrupted call leaves behind), the order in which parallel calls take effect (\<open>rg_pick\<close>) and how long a call took.
  Parallel calls are atomic here: they are interleaved as wholes, in any order.

  A slice of a text at a byte that is not a character boundary panics. \<open>fault\<close> is an error of the code or a panic, which
  ends the whole run.
\<close>

datatype fault = Fails atta_error | Panics

definition lift_fault :: "('s, atta_error, 'a) io \<Rightarrow> ('s, fault, 'a) io" where
  "lift_fault m = (\<lambda>s. case m s of (Inl e, t) \<Rightarrow> (Inl (Fails e), t) | (Inr x, t) \<Rightarrow> (Inr x, t))"

section \<open>Hooks\<close>

datatype hook_outcome = HookAllow | ModifyArgs json | Block string

record 'w hook =
  hk_before :: "string \<Rightarrow> json \<Rightarrow> ('w, atta_error, hook_outcome) io"
  hk_after :: "string \<Rightarrow> json \<Rightarrow> atta_error + json \<Rightarrow> ('w, atta_error, json option) io"
  hk_before_llm :: "json list \<Rightarrow> ('w, atta_error, hook_outcome) io"
  hk_after_llm :: "json \<Rightarrow> ('w, atta_error, json option) io"

fun run_before :: "'w hook list \<Rightarrow> string \<Rightarrow> json \<Rightarrow> ('w, atta_error, hook_outcome \<times> json) io" where
  "run_before [] tool args = retE (HookAllow, args)"
| "run_before (h # hs) tool args =
     bindE (hk_before h tool args) (\<lambda>out. case out of
        Block reason \<Rightarrow> retE (Block reason, args)
      | ModifyArgs new \<Rightarrow> run_before hs tool new
      | HookAllow \<Rightarrow> run_before hs tool args)"

fun run_after :: "'w hook list \<Rightarrow> json option \<Rightarrow> string \<Rightarrow> json \<Rightarrow> atta_error + json \<Rightarrow>
    ('w, atta_error, json option) io" where
  "run_after [] repl tool args res = retE repl"
| "run_after (h # hs) repl tool args res =
     bindE (hk_after h tool args res) (\<lambda>new.
     run_after hs (case new of None \<Rightarrow> repl | Some v \<Rightarrow> Some v) tool args res)"

fun run_before_llm :: "'w hook list \<Rightarrow> json list \<Rightarrow> ('w, atta_error, hook_outcome \<times> json list) io" where
  "run_before_llm [] msgs = retE (HookAllow, msgs)"
| "run_before_llm (h # hs) msgs =
     bindE (hk_before_llm h msgs) (\<lambda>out. case out of
        Block reason \<Rightarrow> retE (Block reason, msgs)
      | ModifyArgs new \<Rightarrow> run_before_llm hs (case as_array new of None \<Rightarrow> msgs | Some a \<Rightarrow> a)
      | HookAllow \<Rightarrow> run_before_llm hs msgs)"

fun run_after_llm :: "'w hook list \<Rightarrow> json option \<Rightarrow> json \<Rightarrow> ('w, atta_error, json option) io" where
  "run_after_llm [] repl resp = retE repl"
| "run_after_llm (h # hs) repl resp =
     bindE (hk_after_llm h resp) (\<lambda>new.
     run_after_llm hs (case new of None \<Rightarrow> repl | Some v \<Rightarrow> Some v) resp)"

section \<open>One call\<close>

datatype race = Finishes | TimesOut | IsCancelled

record 'w tool_registry =
  rg_get :: "'w \<Rightarrow> string \<Rightarrow> tool_def option"
  rg_invoke :: "'w registry"
  rg_race :: "string \<Rightarrow> json \<Rightarrow> 'w \<Rightarrow> race \<times> 'w"
  rg_pick :: "'w \<Rightarrow> nat"
  rg_elapsed :: "'w \<Rightarrow> u64"

record 'w exec_config =
  te_timeout :: nat
  te_cancel :: bool
  te_max_repeated :: u32
  te_hooks :: "'w hook list option"
  te_max_output :: nat

text \<open>Durations are in nanoseconds.\<close>

definition exec_config_default :: "'w exec_config" where
  "exec_config_default =
     \<lparr>te_timeout = 120000000000, te_cancel = False, te_max_repeated = 3, te_hooks = None, te_max_output = 100000\<rparr>"

record tool_result =
  tr_call_id :: string
  tr_tool_name :: string
  tr_result :: "atta_error + json"

definition invoke_with_timeout :: "'w tool_registry \<Rightarrow> 'w exec_config \<Rightarrow> string \<Rightarrow> json \<Rightarrow> ('w, atta_error, json) io" where
  "invoke_with_timeout R cfg tool args = (\<lambda>w.
     case rg_race R tool args w of
       (TimesOut, w') \<Rightarrow> (Inl (Agent (AgentTimeout (te_timeout cfg))), w')
     | (IsCancelled, w') \<Rightarrow>
         if te_cancel cfg then (Inl (SecurityViolation ''tool execution cancelled''), w') else rg_invoke R tool args w'
     | (Finishes, w') \<Rightarrow> rg_invoke R tool args w')"

text \<open>\<open>&s[..n]\<close>: the first \<open>n\<close> bytes, where they end at a character boundary.\<close>

definition continuation :: "char \<Rightarrow> bool" where
  "continuation c \<longleftrightarrow> 128 \<le> (of_char c :: nat) \<and> (of_char c :: nat) < 192"

definition prefix_slice :: "string \<Rightarrow> nat \<Rightarrow> string option" where
  "prefix_slice s n =
     (if n > length s then None
      else if n < length s \<and> continuation (s ! n) then None
      else Some (take n s))"

definition truncate_output :: "env \<Rightarrow> json \<Rightarrow> nat \<Rightarrow> fault + json" where
  "truncate_output E v n =
     (if n = 0 then Inr v
      else let s = json_show E v in
        if length s \<le> n then Inr v
        else case prefix_slice s n of
          None \<Rightarrow> Inl Panics
        | Some t \<Rightarrow> Inr (mk_obj [(''output'', JStr t), (''truncated'', JBool True),
            (''original_length'', JInt (int (length s))), (''max_length'', JInt (int n))]))"

text \<open>The errors of the hooks and of the tool are results; only a panic is none.\<close>

definition hooked_args :: "'w exec_config \<Rightarrow> string \<Rightarrow> json \<Rightarrow> ('w, atta_error, json) io" where
  "hooked_args cfg tool args =
     (case te_hooks cfg of
        None \<Rightarrow> retE args
      | Some hooks \<Rightarrow> bindE (run_before hooks tool args) (\<lambda>(out, new).
          case out of
            Block reason \<Rightarrow> failE (SecurityViolation (''hook blocked tool '' @ squote tool @ '': '' @ reason))
          | ModifyArgs _ \<Rightarrow> retE new
          | HookAllow \<Rightarrow> retE args))"

definition after_hooks :: "'w exec_config \<Rightarrow> string \<Rightarrow> json \<Rightarrow> atta_error + json \<Rightarrow> ('w, atta_error, json) io" where
  "after_hooks cfg tool args res =
     (case te_hooks cfg of
        None \<Rightarrow> liftE res
      | Some hooks \<Rightarrow> bindE (run_after hooks None tool args res) (\<lambda>repl.
          case repl of Some v \<Rightarrow> retE v | None \<Rightarrow> liftE res))"

definition invoke_with_hooks_and_timeout ::
  "env \<Rightarrow> 'w tool_registry \<Rightarrow> 'w exec_config \<Rightarrow> string \<Rightarrow> json \<Rightarrow> ('w, fault, json) io" where
  "invoke_with_hooks_and_timeout E R cfg tool args =
     bindE (lift_fault (hooked_args cfg tool args)) (\<lambda>eff.
     tryE (invoke_with_timeout R cfg tool eff) (\<lambda>res.
     bindE (lift_fault (after_hooks cfg tool eff res)) (\<lambda>v.
     liftE (truncate_output E v (te_max_output cfg)))))"

section \<open>A batch of calls\<close>

definition should_execute_parallel :: "'w tool_registry \<Rightarrow> 'w \<Rightarrow> tool_call list \<Rightarrow> bool" where
  "should_execute_parallel R w calls \<longleftrightarrow>
     length calls > 1 \<and>
     \<not> (\<exists>c \<in> set calls. case rg_get R w (tc_name c) of None \<Rightarrow> False | Some d \<Rightarrow> tool_risk d = High)"

definition result_of :: "tool_call \<Rightarrow> atta_error + json \<Rightarrow> tool_result" where
  "result_of c r = \<lparr>tr_call_id = tc_id c, tr_tool_name = tc_name c, tr_result = r\<rparr>"

text \<open>One call made by \<open>f\<close>, as an entry of the list of results.\<close>

definition call_entry :: "(string \<Rightarrow> json \<Rightarrow> ('w, fault, json) io) \<Rightarrow> tool_call \<Rightarrow> ('w, fault, tool_result) io" where
  "call_entry f c =
     tryE (f (tc_name c) (tc_args c)) (\<lambda>r. case r of
        Inl Panics \<Rightarrow> failE Panics
      | Inl (Fails e) \<Rightarrow> retE (result_of c (Inl e))
      | Inr v \<Rightarrow> retE (result_of c (Inr v)))"

text \<open>
  \<open>join_all\<close>: the world chooses which of the pending calls takes effect next; the results are in the order of the calls.
\<close>

function run_parallel ::
  "'w tool_registry \<Rightarrow> (tool_call \<Rightarrow> ('w, fault, tool_result) io) \<Rightarrow> tool_call list \<Rightarrow> ('w, fault, tool_result list) io" where
  "run_parallel R f calls =
     (if calls = [] then retE []
      else (\<lambda>w. let k = rg_pick R w mod length calls in
        bindE (f (calls ! k)) (\<lambda>r.
        bindE (run_parallel R f (take k calls @ drop (Suc k) calls)) (\<lambda>rs.
        retE (take k rs @ r # drop k rs))) w))"
  by pat_completeness auto
termination
proof (relation "measure (\<lambda>(R, f, calls). length calls)", goal_cases)
  case 1
  then show ?case by simp
next
  case (2 R f calls w k)
  then have "k < length calls" by simp
  then show ?case by simp
qed

declare run_parallel.simps [simp del]

fun run_sequential :: "(tool_call \<Rightarrow> ('w, fault, tool_result) io) \<Rightarrow> tool_call list \<Rightarrow> ('w, fault, tool_result list) io" where
  "run_sequential f [] = retE []"
| "run_sequential f (c # cs) = bindE (f c) (\<lambda>r. bindE (run_sequential f cs) (\<lambda>rs. retE (r # rs)))"

text \<open>The plain executor of the research phase: no timeout, no hooks, no truncation.\<close>

definition plain_call :: "'w tool_registry \<Rightarrow> tool_call \<Rightarrow> ('w, fault, tool_result) io" where
  "plain_call R = call_entry (\<lambda>tool args. lift_fault (rg_invoke R tool args))"

definition execute_tools_parallel :: "'w tool_registry \<Rightarrow> tool_call list \<Rightarrow> ('w, fault, tool_result list) io" where
  "execute_tools_parallel R calls = run_parallel R (plain_call R) calls"

definition execute_tools_sequential :: "'w tool_registry \<Rightarrow> tool_call list \<Rightarrow> ('w, fault, tool_result list) io" where
  "execute_tools_sequential R calls = run_sequential (plain_call R) calls"

definition execute_tools :: "'w tool_registry \<Rightarrow> tool_call list \<Rightarrow> ('w, fault, tool_result list) io" where
  "execute_tools R calls = (\<lambda>w.
     if should_execute_parallel R w calls then execute_tools_parallel R calls w else execute_tools_sequential R calls w)"

section \<open>The configured executor\<close>

text \<open>
  The detector sees the whole batch before the first call is made. A refusal is one result, for the call that was refused;
  \<open>calls[0]\<close> panics where the batch is empty.
\<close>

fun record_calls :: "aenv \<Rightarrow> tool_call list \<Rightarrow> (loop_detector, tool_call \<times> atta_error, unit) io" where
  "record_calls A [] = retE ()"
| "record_calls A (c # cs) = (\<lambda>d. case detector_record A (tc_name c) (tc_args c) d of
     (Inl e, d') \<Rightarrow> (Inl (c, e), d')
   | (Inr _, d') \<Rightarrow> record_calls A cs d')"

definition loop_check :: "aenv \<Rightarrow> tool_call list \<Rightarrow> (loop_detector, fault, tool_result option) io" where
  "loop_check A calls = (\<lambda>d. case record_calls A calls d of
     (Inl (c, e), d') \<Rightarrow> (Inr (Some (result_of c (Inl e))), d')
   | (Inr _, d') \<Rightarrow> (case check_progress d' of
        Inr _ \<Rightarrow> (Inr None, d')
      | Inl e \<Rightarrow> (case calls of [] \<Rightarrow> (Inl Panics, d') | c # _ \<Rightarrow> (Inr (Some (result_of c (Inl e))), d'))))"

definition note_output :: "aenv \<Rightarrow> tool_result \<Rightarrow> loop_detector \<Rightarrow> loop_detector" where
  "note_output A r d = (case tr_result r of Inr v \<Rightarrow> detector_record_output A v d | Inl _ \<Rightarrow> d)"

record 'w exec =
  ex_detector :: "loop_detector option"
  ex_world :: 'w

type_synonym ('w, 'a) eio = "('w exec, fault, 'a) io"

definition on_world :: "('w, fault, 'a) io \<Rightarrow> ('w, 'a) eio" where
  "on_world m = (\<lambda>x. case m (ex_world x) of (r, w) \<Rightarrow> (r, x\<lparr>ex_world := w\<rparr>))"

definition guard_batch :: "aenv \<Rightarrow> tool_call list \<Rightarrow> ('w, tool_result option) eio" where
  "guard_batch A calls = (\<lambda>x. case ex_detector x of
     None \<Rightarrow> (Inr None, x)
   | Some d \<Rightarrow> (case loop_check A calls d of (r, d') \<Rightarrow> (r, x\<lparr>ex_detector := Some d'\<rparr>)))"

definition note_outputs :: "aenv \<Rightarrow> tool_result list \<Rightarrow> ('w, unit) eio" where
  "note_outputs A rs = modifyE (\<lambda>x. x\<lparr>ex_detector := map_option (fold (note_output A) rs) (ex_detector x)\<rparr>)"

definition configured_call ::
  "env \<Rightarrow> 'w tool_registry \<Rightarrow> 'w exec_config \<Rightarrow> tool_call \<Rightarrow> ('w, fault, tool_result) io" where
  "configured_call E R cfg = call_entry (invoke_with_hooks_and_timeout E R cfg)"

definition noted_call :: "aenv \<Rightarrow> 'w tool_registry \<Rightarrow> 'w exec_config \<Rightarrow> tool_call \<Rightarrow> ('w, tool_result) eio" where
  "noted_call A R cfg c =
     bindE (on_world (configured_call (env.truncate A) R cfg c)) (\<lambda>r.
     bindE (note_outputs A [r]) (\<lambda>_. retE r))"

fun noted_calls :: "aenv \<Rightarrow> 'w tool_registry \<Rightarrow> 'w exec_config \<Rightarrow> tool_call list \<Rightarrow> ('w, tool_result list) eio" where
  "noted_calls A R cfg [] = retE []"
| "noted_calls A R cfg (c # cs) =
     bindE (noted_call A R cfg c) (\<lambda>r. bindE (noted_calls A R cfg cs) (\<lambda>rs. retE (r # rs)))"

definition execute_tools_configured ::
  "aenv \<Rightarrow> 'w tool_registry \<Rightarrow> 'w exec_config \<Rightarrow> tool_call list \<Rightarrow> ('w, tool_result list) eio" where
  "execute_tools_configured A R cfg calls =
     bindE (guard_batch A calls) (\<lambda>refusal. case refusal of
        Some r \<Rightarrow> retE [r]
      | None \<Rightarrow> (\<lambda>x.
          if should_execute_parallel R (ex_world x) calls
          then bindE (on_world (run_parallel R (configured_call (env.truncate A) R (cfg\<lparr>te_max_repeated := 0\<rparr>)) calls)) (\<lambda>rs.
               bindE (note_outputs A rs) (\<lambda>_. retE rs)) x
          else noted_calls A R cfg calls x))"

end
