(* ===== verification/Llm.thy ===== *)
theory Llm
  imports Tool_Executor
begin

text \<open>
  What stands between the agent loop and the model: the provider interface with its default methods
  (\<open>crates/agent/src/llm.rs\<close>), the dispatchers that read tool calls out of an answer
  (\<open>crates/agent/src/dispatcher\<close>), the reassembly of a streamed answer and the chunks of a streamed text
  (\<open>crates/agent/src/react.rs\<close>), and the research phase (\<open>crates/agent/src/research.rs\<close>).
\<close>

section \<open>Providers\<close>

datatype stream_chunk =
    TextDelta string
  | ToolCallDelta nat "string option" "string option" string
  | StreamDone

type_synonym llm_stream = "(atta_error + stream_chunk) list"

record 'w llm =
  llm_chat :: "message list \<Rightarrow> tool_schema list \<Rightarrow> ('w, atta_error, llm_response) io"
  llm_chat_with_usage :: "message list \<Rightarrow> tool_schema list \<Rightarrow> chat_options \<Rightarrow> ('w, atta_error, llm_result) io"
  llm_chat_stream :: "message list \<Rightarrow> tool_schema list \<Rightarrow> chat_options \<Rightarrow> ('w, atta_error, llm_stream) io"
  llm_model_info :: model_info

text \<open>The default methods of the trait: what a provider does that implements only \<open>chat\<close> and \<open>model_info\<close>.\<close>

definition call_delta :: "env \<Rightarrow> nat \<Rightarrow> tool_call \<Rightarrow> stream_chunk" where
  "call_delta E i c = ToolCallDelta i (Some (tc_id c)) (Some (tc_name c)) (json_show E (tc_args c))"

fun response_stream :: "env \<Rightarrow> llm_response \<Rightarrow> llm_stream" where
  "response_stream E (LlmMessage text) = [Inr (TextDelta text), Inr StreamDone]"
| "response_stream E (LlmToolCalls calls) =
     map (\<lambda>(i, c). Inr (call_delta E i c)) (enumerate 0 calls) @ [Inr StreamDone]"

definition default_llm ::
  "env \<Rightarrow> (message list \<Rightarrow> tool_schema list \<Rightarrow> ('w, atta_error, llm_response) io) \<Rightarrow> model_info \<Rightarrow> 'w llm" where
  "default_llm E chat info =
     \<lparr>llm_chat = chat,
      llm_chat_with_usage = (\<lambda>ms ts opts. bindE (chat ms ts) (\<lambda>r. retE \<lparr>lr_response = r, lr_usage = None\<rparr>)),
      llm_chat_stream = (\<lambda>ms ts opts. bindE (chat ms ts) (\<lambda>r. retE (response_stream E r))),
      llm_model_info = info\<rparr>"

section \<open>Dispatchers\<close>

datatype dispatch_result = FinalAnswer string | DispatchCalls "tool_call list"

datatype dispatcher = NativeDispatcher | XmlDispatcher

definition select_dispatcher :: "model_info \<Rightarrow> dispatcher" where
  "select_dispatcher info = (if mi_tools info then NativeDispatcher else XmlDispatcher)"

fun should_send_tool_specs :: "dispatcher \<Rightarrow> bool" where
  "should_send_tool_specs NativeDispatcher = True"
| "should_send_tool_specs XmlDispatcher = False"

text \<open>\<open>str::replace\<close>, for a pattern that is not empty.\<close>

function replace_all :: "string \<Rightarrow> string \<Rightarrow> string \<Rightarrow> string" where
  "replace_all p r s =
     (if p = [] then s
      else case split_once p s of None \<Rightarrow> s | Some (l, rest) \<Rightarrow> l @ r @ replace_all p r rest)"
  by pat_completeness auto
termination
  by (relation "measure (\<lambda>(p, r, s). length s)") (auto dest: split_once_Some)

declare replace_all.simps [simp del]

definition xml_open :: string where "xml_open = ''<tool_call>''"
definition xml_close :: string where "xml_close = ''</tool_call>''"

definition normalize_tags :: "string \<Rightarrow> string" where
  "normalize_tags s =
     fold (\<lambda>(p, r). replace_all p r)
       [(''<toolcall>'', xml_open), (''</toolcall>'', xml_close), (''<tool-call>'', xml_open),
        (''</tool-call>'', xml_close), (''<invoke>'', xml_open), (''</invoke>'', xml_close)] s"

text \<open>The bodies between the tags, first to last; a tag that is not closed ends the search.\<close>

function tag_bodies :: "string \<Rightarrow> string list" where
  "tag_bodies s =
     (case split_once xml_open s of
        None \<Rightarrow> []
      | Some (_, rest) \<Rightarrow> (case split_once xml_close rest of
          None \<Rightarrow> []
        | Some (body, rest') \<Rightarrow> body # tag_bodies rest'))"
  by pat_completeness auto
termination
  by (relation "measure length") (auto dest!: split_once_Some simp: xml_open_def xml_close_def)

declare tag_bodies.simps [simp del]

text \<open>A body is a call where it parses and has a name. The counter makes the identifiers.\<close>

definition body_call :: "aenv \<Rightarrow> string \<Rightarrow> (string \<times> json) option" where
  "body_call A body =
     (case ae_json_parse A (trim body) of
        None \<Rightarrow> None
      | Some v \<Rightarrow>
          let name = (case jget_str v ''name'' of None \<Rightarrow> [] | Some n \<Rightarrow> n);
              args = (case jget v ''arguments'' of None \<Rightarrow> JObj [] | Some a \<Rightarrow> a)
          in if name = [] then None else Some (name, args))"

definition xml_call_id :: "u64 \<Rightarrow> string" where
  "xml_call_id n = ''xml_call_'' @ show_nat (unat n)"

fun number_calls :: "u64 \<Rightarrow> (string \<times> json) list \<Rightarrow> tool_call list \<times> u64" where
  "number_calls n [] = ([], n)"
| "number_calls n ((name, args) # cs) =
     (case number_calls (n + 1) cs of
        (calls, n') \<Rightarrow> (\<lparr>tc_id = xml_call_id n, tc_name = name, tc_args = args\<rparr> # calls, n'))"

definition extract_tool_calls :: "aenv \<Rightarrow> string \<Rightarrow> u64 \<Rightarrow> tool_call list \<times> u64" where
  "extract_tool_calls A text n =
     number_calls n (List.map_filter (body_call A) (tag_bodies (normalize_tags text)))"

fun parse_response :: "aenv \<Rightarrow> dispatcher \<Rightarrow> llm_response \<Rightarrow> u64 \<Rightarrow> dispatch_result \<times> u64" where
  "parse_response A NativeDispatcher (LlmMessage text) n = (FinalAnswer text, n)"
| "parse_response A NativeDispatcher (LlmToolCalls calls) n = (DispatchCalls calls, n)"
| "parse_response A XmlDispatcher (LlmMessage text) n =
     (case extract_tool_calls A text n of
        (calls, n') \<Rightarrow> (if calls = [] then FinalAnswer text else DispatchCalls calls, n'))"
| "parse_response A XmlDispatcher (LlmToolCalls calls) n = (DispatchCalls calls, n)"

section \<open>A streamed answer\<close>

record call_builder =
  cb_id :: string
  cb_name :: string
  cb_args :: string

definition builder_default :: call_builder where
  "builder_default = \<lparr>cb_id = [], cb_name = [], cb_args = []\<rparr>"

definition build_call :: "aenv \<Rightarrow> call_builder \<Rightarrow> tool_call" where
  "build_call A b = \<lparr>tc_id = cb_id b, tc_name = cb_name b,
     tc_args = (case ae_json_parse A (cb_args b) of None \<Rightarrow> JObj [] | Some v \<Rightarrow> v)\<rparr>"

definition pad_builders :: "nat \<Rightarrow> call_builder list \<Rightarrow> call_builder list" where
  "pad_builders i bs = bs @ replicate (Suc i - length bs) builder_default"

definition update_builder :: "string option \<Rightarrow> string option \<Rightarrow> string \<Rightarrow> call_builder \<Rightarrow> call_builder" where
  "update_builder i name args b =
     \<lparr>cb_id = (case i of None \<Rightarrow> cb_id b | Some x \<Rightarrow> x),
      cb_name = (case name of None \<Rightarrow> cb_name b | Some x \<Rightarrow> x),
      cb_args = cb_args b @ args\<rparr>"

text \<open>
  The loop over the stream: an error ends it with that error, \<open>Done\<close> ends it, and so does the end of the stream. With
  the result comes the list of chunks that were forwarded.
\<close>

fun collect_stream :: "llm_stream \<Rightarrow> string \<Rightarrow> call_builder list \<Rightarrow>
    (atta_error + string \<times> call_builder list) \<times> stream_chunk list" where
  "collect_stream [] text bs = (Inr (text, bs), [])"
| "collect_stream (Inl e # rest) text bs = (Inl e, [])"
| "collect_stream (Inr StreamDone # rest) text bs = (Inr (text, bs), [StreamDone])"
| "collect_stream (Inr (TextDelta d) # rest) text bs =
     (case collect_stream rest (text @ d) bs of (r, fwd) \<Rightarrow> (r, TextDelta d # fwd))"
| "collect_stream (Inr (ToolCallDelta i cid name args) # rest) text bs =
     (let bs1 = pad_builders i bs; bs2 = bs1[i := update_builder cid name args (bs1 ! i)] in
      case collect_stream rest text bs2 of (r, fwd) \<Rightarrow> (r, ToolCallDelta i cid name args # fwd))"

definition collected_response :: "aenv \<Rightarrow> string \<Rightarrow> call_builder list \<Rightarrow> llm_response" where
  "collected_response A text bs = (if bs \<noteq> [] then LlmToolCalls (map (build_call A) bs) else LlmMessage text)"

section \<open>Text chunks\<close>

text \<open>
  \<open>String::from_utf8_lossy\<close>: the longest prefix of a character that the bytes can begin with is taken whole, or
  replaced by U+FFFD.
\<close>

definition byte_in :: "nat \<Rightarrow> nat \<Rightarrow> char \<Rightarrow> bool" where
  "byte_in lo hi c \<longleftrightarrow> lo \<le> of_char c \<and> of_char c \<le> hi"

fun tail_step :: "nat \<Rightarrow> nat \<Rightarrow> string \<Rightarrow> nat \<times> bool" where
  "tail_step n 0 cs = (n, True)"
| "tail_step n (Suc k) [] = (n, False)"
| "tail_step n (Suc k) (c # cs) = (if continuation c then tail_step (Suc n) k cs else (n, False))"

fun second_step :: "nat \<Rightarrow> nat \<Rightarrow> nat \<Rightarrow> string \<Rightarrow> nat \<times> bool" where
  "second_step lo hi k [] = (1, False)"
| "second_step lo hi k (c # cs) = (if byte_in lo hi c then tail_step 2 k cs else (1, False))"

definition utf8_step :: "char \<Rightarrow> string \<Rightarrow> nat \<times> bool" where
  "utf8_step c cs =
     (if byte_in 0 127 c then (1, True)
      else if byte_in 194 223 c then second_step 128 191 0 cs
      else if byte_in 224 224 c then second_step 160 191 1 cs
      else if byte_in 237 237 c then second_step 128 159 1 cs
      else if byte_in 225 239 c then second_step 128 191 1 cs
      else if byte_in 240 240 c then second_step 144 191 2 cs
      else if byte_in 241 243 c then second_step 128 191 2 cs
      else if byte_in 244 244 c then second_step 128 143 2 cs
      else (1, False))"

lemma tail_step_pos: "n \<le> fst (tail_step n k cs)"
  by (induction n k cs rule: tail_step.induct) auto

lemma utf8_step_pos: "0 < fst (utf8_step c cs)"
proof -
  have "0 < fst (second_step lo hi k cs)" for lo hi k
    using tail_step_pos [of 2] by (cases cs) (auto intro: less_le_trans [of 0 2])
  then show ?thesis by (simp add: utf8_step_def)
qed

definition replacement_char :: string where
  "replacement_char = [CHR 0xEF, CHR 0xBF, CHR 0xBD]"

function utf8_lossy :: "string \<Rightarrow> string" where
  "utf8_lossy [] = []"
| "utf8_lossy (c # cs) =
     (case utf8_step c cs of (n, good) \<Rightarrow>
        (if good then take n (c # cs) else replacement_char) @ utf8_lossy (drop n (c # cs)))"
  by pat_completeness auto
termination
proof (relation "measure length", simp)
  fix c cs and n :: nat and good :: bool
  assume "(n, good) = utf8_step c cs"
  then have "0 < n" using utf8_step_pos [of c cs] by (metis fst_conv)
  then show "(drop n (c # cs), c # cs) \<in> measure length" by simp
qed

function byte_chunks :: "nat \<Rightarrow> string \<Rightarrow> string list" where
  "byte_chunks n s = (if s = [] \<or> n = 0 then [] else take n s # byte_chunks n (drop n s))"
  by pat_completeness auto
termination
  by (relation "measure (\<lambda>(n, s). length s)") auto

declare byte_chunks.simps [simp del]

definition text_chunks :: "string \<Rightarrow> string list" where
  "text_chunks s = map utf8_lossy (byte_chunks 80 s)"

end
