(* ===== verification/React.thy ===== *)
theory React
  imports Llm
begin

text \<open>
  The ReAct loop (\<open>crates/agent/src/react.rs\<close>) and the research phase before it (\<open>crates/agent/src/research.rs\<close>).

  An iteration truncates the context, asks the model, has the dispatcher read the answer, and then ends with the final
  answer, or executes the calls and appends their results. \<open>for iteration in 1..=max_iterations\<close> is recursion on the
  number of iterations left. The streaming run does the same with a stream of chunks and reports what it does.
\<close>

section \<open>State and configuration\<close>

datatype agent_delta =
    Thinking u32
  | TextChunk string
  | ToolStart string string
  | ToolComplete string string u64
  | ToolError string string string
  | DeltaApprovalPending string string string
  | DeltaApprovalGranted string string
  | DeltaDone u32
  | ClearProgress

datatype stream_event = ChunkEvent stream_chunk | DeltaEvent agent_delta

datatype research_trigger = NeverTrigger | AlwaysTrigger | KeywordTrigger | LengthTrigger nat

record research_config =
  rc_enabled :: bool
  rc_trigger :: research_trigger
  rc_keywords :: "string list"
  rc_max_iterations :: u32
  rc_tool_filter :: "string list"

record 'w agent_config =
  ac_llm :: "'w llm"
  ac_registry :: "'w tool_registry"
  ac_max_iterations :: u32
  ac_tools :: "tool_schema list"
  ac_thinking :: thinking_level
  ac_research :: "research_config option"
  ac_dispatcher :: "dispatcher option"
  ac_exec :: "'w exec_config"
  ac_usage_callback :: bool

text \<open>\<open>ag_usage\<close> is what the usage callback was told, \<open>ag_events\<close> what was sent to the channel of deltas.\<close>

record 'w agent =
  ag_context :: conversation
  ag_detector :: loop_detector
  ag_next_call :: u64
  ag_world :: 'w
  ag_usage :: "(string \<times> token_usage) list"
  ag_events :: "stream_event list"

type_synonym ('w, 'a) aio = "('w agent, fault, 'a) io"

definition react_new :: "'w llm \<Rightarrow> 'w tool_registry \<Rightarrow> u32 \<Rightarrow> 'w agent_config" where
  "react_new llm registry n =
     \<lparr>ac_llm = llm, ac_registry = registry, ac_max_iterations = n, ac_tools = [], ac_thinking = ThinkMedium,
      ac_research = None, ac_dispatcher = None, ac_exec = exec_config_default, ac_usage_callback = False\<rparr>"

definition agent_start :: "conversation \<Rightarrow> 'w \<Rightarrow> 'w agent" where
  "agent_start ctx w =
     \<lparr>ag_context = ctx, ag_detector = detector_new 3, ag_next_call = 0, ag_world = w, ag_usage = [], ag_events = []\<rparr>"

definition with_tool_exec_config :: "'w exec_config \<Rightarrow> 'w agent_config \<times> 'w agent \<Rightarrow> 'w agent_config \<times> 'w agent" where
  "with_tool_exec_config cfg = (\<lambda>(C, a).
     (C\<lparr>ac_exec := cfg\<rparr>,
      if te_max_repeated cfg > 0 then a\<lparr>ag_detector := detector_new (te_max_repeated cfg)\<rparr> else a))"

definition in_context :: "(conversation \<Rightarrow> conversation) \<Rightarrow> ('w, unit) aio" where
  "in_context f = modifyE (\<lambda>a. a\<lparr>ag_context := f (ag_context a)\<rparr>)"

definition in_world :: "('w, fault, 'a) io \<Rightarrow> ('w, 'a) aio" where
  "in_world m = (\<lambda>a. case m (ag_world a) of (r, w) \<Rightarrow> (r, a\<lparr>ag_world := w\<rparr>))"

definition emit :: "stream_event \<Rightarrow> ('w, unit) aio" where
  "emit ev = modifyE (\<lambda>a. a\<lparr>ag_events := ag_events a @ [ev]\<rparr>)"

definition emits :: "stream_event list \<Rightarrow> ('w, unit) aio" where
  "emits evs = modifyE (\<lambda>a. a\<lparr>ag_events := ag_events a @ evs\<rparr>)"

section \<open>The research phase\<close>

definition should_trigger :: "research_config \<Rightarrow> string \<Rightarrow> bool" where
  "should_trigger cfg msg =
     (rc_enabled cfg \<and>
      (case rc_trigger cfg of
         NeverTrigger \<Rightarrow> False
       | AlwaysTrigger \<Rightarrow> True
       | KeywordTrigger \<Rightarrow> (\<exists>kw \<in> set (rc_keywords cfg). contains (to_lower msg) (to_lower kw))
       | LengthTrigger n \<Rightarrow> length msg \<ge> n))"

definition filter_tools :: "tool_schema list \<Rightarrow> string list \<Rightarrow> tool_schema list" where
  "filter_tools all names = (if names = [] then all else filter (\<lambda>t. List.member names (schema_name t)) all)"

definition result_to_string :: "env \<Rightarrow> atta_error + json \<Rightarrow> string" where
  "result_to_string E r =
     (case r of Inr v \<Rightarrow> json_show E v | Inl e \<Rightarrow> json_show E (mk_obj [(''error'', JStr (error_show e))]))"

record research_result =
  rr_context :: string
  rr_tool_calls :: u32
  rr_summaries :: "string list"

definition research_prompt :: string where
  "research_prompt =
     ''You are a research assistant. Your job is to gather relevant facts '' @
     ''and context using the available tools. Do NOT provide a final answer '' @ em_dash @ '' '' @
     ''only collect information that will help answer the user'' @ [CHR 0x27] @ ''s question.''"

text \<open>The summary of a result; a cut at byte 200 inside a character panics.\<close>

definition summarize :: "env \<Rightarrow> tool_result \<Rightarrow> fault + string" where
  "summarize E r =
     (let text = result_to_string E (tr_result r); lead = tr_tool_name r @ ''('' @ tr_call_id r @ ''): '' in
      if length text > 200
      then (case prefix_slice text 200 of None \<Rightarrow> Inl Panics | Some t \<Rightarrow> Inr (lead @ t @ ''...''))
      else Inr (lead @ text))"

fun note_results :: "env \<Rightarrow> tool_result list \<Rightarrow> conversation \<times> u32 \<times> string list \<Rightarrow>
    fault + conversation \<times> u32 \<times> string list" where
  "note_results E [] acc = Inr acc"
| "note_results E (r # rs) (ctx, n, sums) =
     and_then (summarize E r) (\<lambda>s.
     note_results E rs
       (add_tool_result (tr_call_id r) (result_to_string E (tr_result r)) ctx, n + 1, sums @ [s]))"

fun research_loop :: "env \<Rightarrow> 'w llm \<Rightarrow> 'w tool_registry \<Rightarrow> tool_schema list \<Rightarrow> nat \<Rightarrow>
    conversation \<times> u32 \<times> string list \<Rightarrow> ('w, fault, research_result) io" where
  "research_loop E llm R tools 0 (ctx, n, sums) =
     retE \<lparr>rr_context = join [CHR 0x0A] sums, rr_tool_calls = n, rr_summaries = []\<rparr>"
| "research_loop E llm R tools (Suc k) (ctx, n, sums) =
     bindE (lift_fault (llm_chat llm (cv_messages ctx) tools)) (\<lambda>resp. case resp of
        LlmMessage text \<Rightarrow> retE \<lparr>rr_context = text, rr_tool_calls = n, rr_summaries = sums\<rparr>
      | LlmToolCalls calls \<Rightarrow>
          bindE (execute_tools R calls) (\<lambda>rs.
          bindE (liftE (note_results E rs (add_assistant_tool_calls calls ctx, n, sums))) (\<lambda>acc.
          research_loop E llm R tools k acc)))"

definition run_research_phase :: "env \<Rightarrow> 'w llm \<Rightarrow> 'w tool_registry \<Rightarrow> string \<Rightarrow> research_config \<Rightarrow>
    tool_schema list \<Rightarrow> ('w, fault, research_result) io" where
  "run_research_phase E llm R msg cfg all =
     research_loop E llm R (filter_tools all (rc_tool_filter cfg)) (unat (rc_max_iterations cfg))
       (add_user msg (set_system research_prompt (context_new 128000)), 0, [])"

definition maybe_run_research :: "aenv \<Rightarrow> 'w agent_config \<Rightarrow> ('w, unit) aio" where
  "maybe_run_research A C =
     (case ac_research C of
        None \<Rightarrow> retE ()
      | Some cfg \<Rightarrow> bindE getE (\<lambda>a.
          let msg = (case last_user_message (ag_context a) of None \<Rightarrow> [] | Some m \<Rightarrow> m) in
          if \<not> should_trigger cfg msg then retE ()
          else bindE (in_world (run_research_phase (env.truncate A) (ac_llm C) (ac_registry C) msg cfg (ac_tools C))) (\<lambda>r.
            if rr_context r = [] then retE ()
            else in_context (add_user (''[Research context]'' @ [CHR 0x0A] @ rr_context r)))))"

section \<open>The loop\<close>

definition tools_for_llm :: "'w agent_config \<Rightarrow> tool_schema list" where
  "tools_for_llm C =
     (case ac_dispatcher C of
        Some d \<Rightarrow> if should_send_tool_specs d then ac_tools C else []
      | None \<Rightarrow> ac_tools C)"

definition run_options :: "'w agent_config \<Rightarrow> chat_options" where
  "run_options C = \<lparr>co_thinking = ac_thinking C, co_temperature = None\<rparr>"

definition dispatch_response :: "aenv \<Rightarrow> 'w agent_config \<Rightarrow> llm_response \<Rightarrow> ('w, dispatch_result) aio" where
  "dispatch_response A C resp =
     (case ac_dispatcher C of
        Some d \<Rightarrow> (\<lambda>a. case parse_response A d resp (ag_next_call a) of
          (r, n) \<Rightarrow> (Inr r, a\<lparr>ag_next_call := n\<rparr>))
      | None \<Rightarrow> (case resp of LlmMessage t \<Rightarrow> retE (FinalAnswer t) | LlmToolCalls cs \<Rightarrow> retE (DispatchCalls cs)))"

definition note_usage :: "'w agent_config \<Rightarrow> llm_result \<Rightarrow> ('w, unit) aio" where
  "note_usage C res =
     (case lr_usage res of
        Some u \<Rightarrow> if ac_usage_callback C
          then modifyE (\<lambda>a. a\<lparr>ag_usage := ag_usage a @ [(mi_id (llm_model_info (ac_llm C)), u)]\<rparr>) else retE ()
      | None \<Rightarrow> retE ())"

text \<open>The executor works on the detector and the world of the agent.\<close>

definition act :: "aenv \<Rightarrow> 'w agent_config \<Rightarrow> tool_call list \<Rightarrow> ('w, tool_result list) aio" where
  "act A C calls = (\<lambda>a.
     case execute_tools_configured A (ac_registry C) (ac_exec C) calls
            \<lparr>ex_detector = Some (ag_detector a), ex_world = ag_world a\<rparr> of
       (r, x) \<Rightarrow> (r, a\<lparr>ag_detector := the (ex_detector x), ag_world := ex_world x\<rparr>))"

definition observe :: "env \<Rightarrow> tool_result list \<Rightarrow> conversation \<Rightarrow> conversation" where
  "observe E rs ctx = fold (\<lambda>r. add_tool_result (tr_call_id r) (result_to_string E (tr_result r))) rs ctx"

definition answer_json :: "string \<Rightarrow> json" where
  "answer_json t = mk_obj [(''answer'', JStr t)]"

definition think :: "aenv \<Rightarrow> 'w agent_config \<Rightarrow> ('w, llm_response) aio" where
  "think A C =
     bindE (in_context (truncate_to_fit (env.truncate A))) (\<lambda>_.
     bindE getE (\<lambda>a.
     bindE (in_world (lift_fault (llm_chat_with_usage (ac_llm C) (cv_messages (ag_context a)) (tools_for_llm C) (run_options C)))) (\<lambda>res.
     bindE (note_usage C res) (\<lambda>_. retE (lr_response res)))))"

definition react_step :: "aenv \<Rightarrow> 'w agent_config \<Rightarrow> ('w, json option) aio" where
  "react_step A C =
     bindE (think A C) (\<lambda>resp.
     bindE (dispatch_response A C resp) (\<lambda>d. case d of
        FinalAnswer text \<Rightarrow>
          bindE (in_context (add_assistant text)) (\<lambda>_. retE (Some (answer_json text)))
      | DispatchCalls calls \<Rightarrow>
          bindE (in_context (add_assistant_tool_calls calls)) (\<lambda>_.
          bindE (act A C calls) (\<lambda>rs.
          bindE (in_context (observe (env.truncate A) rs)) (\<lambda>_. retE None)))))"

fun react_loop :: "aenv \<Rightarrow> 'w agent_config \<Rightarrow> nat \<Rightarrow> ('w, json) aio" where
  "react_loop A C 0 = failE (Fails (Agent (MaxIterations (ac_max_iterations C))))"
| "react_loop A C (Suc k) =
     bindE (react_step A C) (\<lambda>out. case out of Some v \<Rightarrow> retE v | None \<Rightarrow> react_loop A C k)"

definition react_run :: "aenv \<Rightarrow> 'w agent_config \<Rightarrow> ('w, json) aio" where
  "react_run A C = bindE (maybe_run_research A C) (\<lambda>_. react_loop A C (unat (ac_max_iterations C)))"

section \<open>The streaming run\<close>

definition call_error_event :: "tool_call \<Rightarrow> atta_error \<Rightarrow> stream_event" where
  "call_error_event c e = DeltaEvent (ToolError (tc_name c) (tc_id c) (error_show e))"

text \<open>
  \<open>execute_tools_with_deltas\<close>: one call after the other, whatever their risk, with an event before and one after each.
\<close>

definition delta_check :: "aenv \<Rightarrow> tool_call list \<Rightarrow> ('w, tool_result option) aio" where
  "delta_check A calls = (\<lambda>a. case record_calls A calls (ag_detector a) of
     (Inl (c, e), d) \<Rightarrow>
       bindE (emit (call_error_event c e)) (\<lambda>_. retE (Some (result_of c (Inl e)))) (a\<lparr>ag_detector := d\<rparr>)
   | (Inr _, d) \<Rightarrow> (case check_progress d of
        Inr _ \<Rightarrow> (Inr None, a\<lparr>ag_detector := d\<rparr>)
      | Inl e \<Rightarrow> (case calls of
          [] \<Rightarrow> (Inl Panics, a\<lparr>ag_detector := d\<rparr>)
        | c # _ \<Rightarrow> bindE (emit (call_error_event c e)) (\<lambda>_. retE (Some (result_of c (Inl e)))) (a\<lparr>ag_detector := d\<rparr>))))"

definition delta_call :: "aenv \<Rightarrow> 'w agent_config \<Rightarrow> tool_call \<Rightarrow> ('w, tool_result) aio" where
  "delta_call A C c =
     bindE (emit (DeltaEvent (ToolStart (tc_name c) (tc_id c)))) (\<lambda>_.
     bindE (in_world (configured_call (env.truncate A) (ac_registry C) (ac_exec C) c)) (\<lambda>r.
     bindE (modifyE (\<lambda>a. a\<lparr>ag_detector := note_output A r (ag_detector a)\<rparr>)) (\<lambda>_.
     bindE getE (\<lambda>a.
     bindE (emit (case tr_result r of
        Inr _ \<Rightarrow> DeltaEvent (ToolComplete (tc_name c) (tc_id c) (rg_elapsed (ac_registry C) (ag_world a)))
      | Inl e \<Rightarrow> call_error_event c e)) (\<lambda>_. retE r)))))"

fun delta_calls :: "aenv \<Rightarrow> 'w agent_config \<Rightarrow> tool_call list \<Rightarrow> ('w, tool_result list) aio" where
  "delta_calls A C [] = retE []"
| "delta_calls A C (c # cs) =
     bindE (delta_call A C c) (\<lambda>r. bindE (delta_calls A C cs) (\<lambda>rs. retE (r # rs)))"

definition execute_tools_with_deltas :: "aenv \<Rightarrow> 'w agent_config \<Rightarrow> tool_call list \<Rightarrow> ('w, tool_result list) aio" where
  "execute_tools_with_deltas A C calls =
     bindE (delta_check A calls) (\<lambda>refusal. case refusal of Some r \<Rightarrow> retE [r] | None \<Rightarrow> delta_calls A C calls)"

definition think_streaming :: "aenv \<Rightarrow> 'w agent_config \<Rightarrow> ('w, llm_response) aio" where
  "think_streaming A C =
     bindE (in_context (truncate_to_fit (env.truncate A))) (\<lambda>_.
     bindE getE (\<lambda>a.
     bindE (in_world (lift_fault (llm_chat_stream (ac_llm C) (cv_messages (ag_context a)) (tools_for_llm C) (run_options C)))) (\<lambda>str.
     case collect_stream str [] [] of
       (r, fwd) \<Rightarrow>
         bindE (emits (map ChunkEvent fwd)) (\<lambda>_. case r of
            Inl e \<Rightarrow> failE (Fails e)
          | Inr (text, bs) \<Rightarrow> retE (collected_response A text bs)))))"

definition answer_events :: "u32 \<Rightarrow> string \<Rightarrow> stream_event list" where
  "answer_events i text =
     DeltaEvent ClearProgress # map (\<lambda>t. DeltaEvent (TextChunk t)) (text_chunks text) @ [DeltaEvent (DeltaDone i)]"

definition streaming_step :: "aenv \<Rightarrow> 'w agent_config \<Rightarrow> u32 \<Rightarrow> ('w, json option) aio" where
  "streaming_step A C i =
     bindE (emit (DeltaEvent (Thinking i))) (\<lambda>_.
     bindE (think_streaming A C) (\<lambda>resp.
     bindE (dispatch_response A C resp) (\<lambda>d. case d of
        DispatchCalls calls \<Rightarrow>
          bindE (in_context (add_assistant_tool_calls calls)) (\<lambda>_.
          bindE (execute_tools_with_deltas A C calls) (\<lambda>rs.
          bindE (in_context (observe (env.truncate A) rs)) (\<lambda>_. retE None)))
      | FinalAnswer text \<Rightarrow>
          bindE (in_context (add_assistant text)) (\<lambda>_.
          bindE (emits (answer_events i text)) (\<lambda>_. retE (Some (answer_json text)))))))"

fun streaming_loop :: "aenv \<Rightarrow> 'w agent_config \<Rightarrow> nat \<Rightarrow> u32 \<Rightarrow> ('w, json) aio" where
  "streaming_loop A C 0 i = failE (Fails (Agent (MaxIterations (ac_max_iterations C))))"
| "streaming_loop A C (Suc k) i =
     bindE (streaming_step A C i) (\<lambda>out. case out of Some v \<Rightarrow> retE v | None \<Rightarrow> streaming_loop A C k (i + 1))"

definition run_streaming :: "aenv \<Rightarrow> 'w agent_config \<Rightarrow> ('w, json) aio" where
  "run_streaming A C = bindE (maybe_run_research A C) (\<lambda>_. streaming_loop A C (unat (ac_max_iterations C)) 1)"

end
