(* ===== verification/Agent_Facts.thy ===== *)
theory Agent_Facts
  imports React
begin

text \<open>
  What the executor and the loop guarantee over any tools and any model.

  \<^item> The locales: \<open>tool_provider\<close> is a registry (with its hooks and its scheduler) whose every operation keeps a
    property of the world, \<open>agent_world\<close> adds a model that keeps it; so does then every run of the agent. The guard of
    \<open>Guard\<close> is such a provider while an emergency stop holds, for the property that the tools behind it are untouched.
  \<^item> The shape of a batch: all calls answered in order, or one refusal.
  \<^item> Runs: how they end, and how often they call the model.
\<close>

section \<open>Lifting\<close>

lemma keeps_lift_fault [keeps_intros]: "keeps P m \<Longrightarrow> keeps P (lift_fault m)"
  unfolding keeps_def lift_fault_def by (fastforce split: prod.splits sum.splits)

lemma keeps_on_world: "keeps P m \<Longrightarrow> keeps (\<lambda>x. P (ex_world x)) (on_world m)"
  unfolding keeps_def on_world_def by (fastforce split: prod.splits)

lemma keeps_in_world: "keeps P m \<Longrightarrow> keeps (\<lambda>a. P (ag_world a)) (in_world m)"
  unfolding keeps_def in_world_def by (fastforce split: prod.splits)

lemma keeps_in_context [keeps_intros]: "keeps (\<lambda>a. P (ag_world a)) (in_context f)"
  by (simp add: in_context_def keeps_modifyE)

lemma keeps_emit [keeps_intros]: "keeps (\<lambda>a. P (ag_world a)) (emit ev)"
  by (simp add: emit_def keeps_modifyE)

lemma keeps_emits [keeps_intros]: "keeps (\<lambda>a. P (ag_world a)) (emits evs)"
  by (simp add: emits_def keeps_modifyE)

lemma keeps_state: "(\<And>s. keeps P (f s)) \<Longrightarrow> keeps P (\<lambda>s. f s s)"
  by (simp add: keeps_def)

section \<open>Tools that keep a property of the world\<close>

locale tool_provider =
  fixes R :: "'w tool_registry" and hooks :: "'w hook list" and P :: "'w \<Rightarrow> bool"
  assumes invoke_keeps: "keeps P (rg_invoke R tool args)"
    and race_keeps: "P w \<Longrightarrow> P (snd (rg_race R tool args w))"
    and before_keeps: "h \<in> set hooks \<Longrightarrow> keeps P (hk_before h tool args)"
    and after_keeps: "h \<in> set hooks \<Longrightarrow> keeps P (hk_after h tool args res)"
begin

lemma run_before_keeps: "set hs \<subseteq> set hooks \<Longrightarrow> keeps P (run_before hs tool args)"
  by (induction hs arbitrary: args)
    (auto intro!: keeps_intros before_keeps split: hook_outcome.split)

lemma run_after_keeps: "set hs \<subseteq> set hooks \<Longrightarrow> keeps P (run_after hs repl tool args res)"
  by (induction hs arbitrary: repl) (auto intro!: keeps_intros after_keeps)

lemma timeout_keeps: "keeps P (invoke_with_timeout R cfg tool args)"
proof (rule keepsI)
  fix w assume "P w"
  obtain r w' where "rg_race R tool args w = (r, w')" by fastforce
  with race_keeps [OF \<open>P w\<close>, of tool args] have "P w'" by simp
  with \<open>rg_race R tool args w = (r, w')\<close> invoke_keeps [of tool args]
  show "P (snd (invoke_with_timeout R cfg tool args w))"
    by (auto simp: invoke_with_timeout_def keeps_def split: race.split)
qed

lemma configured_keeps:
  assumes "te_hooks cfg = None \<or> te_hooks cfg = Some hooks"
  shows "keeps P (configured_call E R cfg c)"
proof -
  have "keeps P (hooked_args cfg tool args)" for tool args
    using assms
    by (elim disjE; simp add: hooked_args_def)
      (auto intro!: keeps_intros run_before_keeps split: hook_outcome.split)
  moreover have "keeps P (after_hooks cfg tool args res)" for tool args res
    using assms
    by (elim disjE; simp add: after_hooks_def)
      (auto intro!: keeps_intros run_after_keeps split: option.split)
  ultimately show ?thesis
    unfolding configured_call_def call_entry_def invoke_with_hooks_and_timeout_def
    by (auto intro!: keeps_intros timeout_keeps split: fault.split)
qed

lemma plain_keeps: "keeps P (plain_call R c)"
  unfolding plain_call_def call_entry_def
  by (auto intro!: keeps_intros invoke_keeps split: fault.split)

lemma parallel_keeps:
  assumes "\<And>c. keeps P (f c)"
  shows "keeps P (run_parallel R f calls)"
proof (induction "length calls" arbitrary: calls rule: less_induct)
  case less
  show ?case
  proof (cases "calls = []")
    case True
    then show ?thesis by (simp add: run_parallel.simps keeps_intros)
  next
    case False
    have rest: "keeps P (run_parallel R f (take (n mod length calls) calls @ drop (Suc (n mod length calls)) calls))" for n
      using False by (intro less) (simp add: Suc_le_eq)
    have body: "keeps P (bindE (f (calls ! k)) (\<lambda>r. bindE
        (run_parallel R f (take k calls @ drop (Suc k) calls)) (\<lambda>rs. retE (take k rs @ r # drop k rs))))"
      if "k = n mod length calls" for k n
      unfolding that by (intro keeps_intros assms rest)
    show ?thesis
      unfolding keeps_def run_parallel.simps [of R f calls] if_not_P [OF False] Let_def
      using body by (simp add: keeps_def)
  qed
qed

lemma sequential_keeps: "(\<And>c. keeps P (f c)) \<Longrightarrow> keeps P (run_sequential f calls)"
  by (induction calls) (auto intro!: keeps_intros)

lemma execute_tools_keeps: "keeps P (execute_tools R calls)"
  unfolding execute_tools_def execute_tools_parallel_def execute_tools_sequential_def
  using parallel_keeps sequential_keeps plain_keeps by (auto simp: keeps_def)

lemma note_outputs_keeps: "keeps (\<lambda>x. P (ex_world x)) (note_outputs A rs)"
  by (simp add: note_outputs_def keeps_modifyE)

lemma execute_configured_keeps:
  assumes cfg: "te_hooks cfg = None \<or> te_hooks cfg = Some hooks"
  shows "keeps (\<lambda>x. P (ex_world x)) (execute_tools_configured A R cfg calls)"
proof -
  have one: "keeps (\<lambda>x. P (ex_world x)) (noted_call A R cfg c)" for c
    unfolding noted_call_def
    by (intro keeps_intros keeps_on_world configured_keeps note_outputs_keeps cfg)
  have seq: "keeps (\<lambda>x. P (ex_world x)) (noted_calls A R cfg calls)" for calls
    by (induction calls) (auto intro!: keeps_intros one)
  have cfg': "te_hooks (cfg\<lparr>te_max_repeated := 0\<rparr>) = None \<or> te_hooks (cfg\<lparr>te_max_repeated := 0\<rparr>) = Some hooks"
    using cfg by simp
  have par: "keeps (\<lambda>x. P (ex_world x))
      (on_world (run_parallel R (configured_call E R (cfg\<lparr>te_max_repeated := 0\<rparr>)) calls))" for E
    by (intro keeps_on_world parallel_keeps configured_keeps cfg')
  have guard: "keeps (\<lambda>x. P (ex_world x)) (guard_batch A calls)"
    unfolding guard_batch_def keeps_def by (auto split: option.split prod.split)
  have run: "keeps (\<lambda>x. P (ex_world x)) (\<lambda>x.
      if should_execute_parallel R (ex_world x) calls
      then bindE (on_world (run_parallel R (configured_call E R (cfg\<lparr>te_max_repeated := 0\<rparr>)) calls)) (\<lambda>rs.
           bindE (note_outputs A rs) (\<lambda>_. retE rs)) x
      else noted_calls A R cfg calls x)" for E
  proof -
    have "keeps (\<lambda>x. P (ex_world x))
        (bindE (on_world (run_parallel R (configured_call E R (cfg\<lparr>te_max_repeated := 0\<rparr>)) calls)) (\<lambda>rs.
           bindE (note_outputs A rs) (\<lambda>_. retE rs)))"
      by (intro keeps_bindE par note_outputs_keeps keeps_retE)
    with seq [of calls] show ?thesis by (simp add: keeps_def)
  qed
  show ?thesis
    unfolding execute_tools_configured_def
  proof (rule keeps_bindE [OF guard])
    fix refusal
    show "keeps (\<lambda>x. P (ex_world x)) (case refusal of Some r \<Rightarrow> retE [r] | None \<Rightarrow> (\<lambda>x.
      if should_execute_parallel R (ex_world x) calls
      then bindE (on_world (run_parallel R (configured_call (env.truncate A) R (cfg\<lparr>te_max_repeated := 0\<rparr>)) calls)) (\<lambda>rs.
           bindE (note_outputs A rs) (\<lambda>_. retE rs)) x
      else noted_calls A R cfg calls x))"
      using run keeps_retE by (cases refusal) simp_all
  qed
qed

end

locale agent_world = tool_provider R hooks P
  for R :: "'w tool_registry" and hooks :: "'w hook list" and P :: "'w \<Rightarrow> bool" +
  fixes llm :: "'w llm"
  assumes chat_keeps: "keeps P (llm_chat llm ms ts)"
    and chat_with_usage_keeps: "keeps P (llm_chat_with_usage llm ms ts opts)"
    and chat_stream_keeps: "keeps P (llm_chat_stream llm ms ts opts)"
begin

definition runs_here :: "'w agent_config \<Rightarrow> bool" where
  "runs_here C \<longleftrightarrow> ac_llm C = llm \<and> ac_registry C = R \<and> (te_hooks (ac_exec C) = None \<or> te_hooks (ac_exec C) = Some hooks)"

lemma runs_here_simps [simp]: "runs_here C \<Longrightarrow> ac_llm C = llm" "runs_here C \<Longrightarrow> ac_registry C = R"
  by (simp_all add: runs_here_def)

lemma runs_here_hooks: "runs_here C \<Longrightarrow> te_hooks (ac_exec C) = None \<or> te_hooks (ac_exec C) = Some hooks"
  unfolding runs_here_def by blast

lemma research_loop_keeps: "keeps P (research_loop E llm R tools k acc)"
proof (induction k arbitrary: acc)
  case 0
  show ?case by (cases acc) (simp add: keeps_retE)
next
  case (Suc k)
  obtain ctx n sums where acc: "acc = (ctx, n, sums)" by (cases acc)
  show ?case
    unfolding acc research_loop.simps
  proof (rule keeps_bindE [OF keeps_lift_fault [OF chat_keeps]])
    fix resp
    show "keeps P (case resp of LlmMessage text \<Rightarrow> retE \<lparr>rr_context = text, rr_tool_calls = n, rr_summaries = sums\<rparr>
      | LlmToolCalls calls \<Rightarrow>
          bindE (execute_tools R calls) (\<lambda>rs.
          bindE (liftE (note_results E rs (add_assistant_tool_calls calls ctx, n, sums))) (\<lambda>acc.
          research_loop E llm R tools k acc)))"
      by (cases resp) (simp_all add: keeps_retE keeps_bindE keeps_liftE execute_tools_keeps Suc)
  qed
qed

lemma maybe_run_research_keeps: "runs_here C \<Longrightarrow> keeps (\<lambda>a. P (ag_world a)) (maybe_run_research A C)"
  unfolding maybe_run_research_def run_research_phase_def Let_def
  by (cases "ac_research C")
    (simp_all add: keeps_retE keeps_bindE keeps_getE keeps_in_context keeps_in_world research_loop_keeps)

lemma dispatch_keeps: "keeps (\<lambda>a. P (ag_world a)) (dispatch_response A C resp)"
  unfolding dispatch_response_def
  by (auto simp: keeps_def split: option.split prod.split llm_response.split)

lemma think_keeps: "runs_here C \<Longrightarrow> keeps (\<lambda>a. P (ag_world a)) (think A C)"
  unfolding think_def note_usage_def
  by (auto intro!: keeps_intros keeps_in_world chat_with_usage_keeps keeps_modifyE split: option.split)

lemma act_keeps:
  assumes "runs_here C"
  shows "keeps (\<lambda>a. P (ag_world a)) (act A C calls)"
proof (rule keepsI)
  fix a :: "'w agent" assume a: "P (ag_world a)"
  let ?m = "execute_tools_configured A R (ac_exec C) calls"
  have "keeps (\<lambda>x. P (ex_world x)) ?m" using assms by (intro execute_configured_keeps runs_here_hooks)
  then have "P (ex_world (snd (?m \<lparr>ex_detector = Some (ag_detector a), ex_world = ag_world a\<rparr>)))"
    using a by (simp add: keeps_def)
  then show "P (ag_world (snd (act A C calls a)))"
    using assms by (simp add: act_def case_prod_unfold)
qed

lemma react_step_keeps: "runs_here C \<Longrightarrow> keeps (\<lambda>a. P (ag_world a)) (react_step A C)"
  unfolding react_step_def
  by (auto intro!: keeps_intros think_keeps dispatch_keeps act_keeps split: dispatch_result.split)

lemma react_loop_keeps: "runs_here C \<Longrightarrow> keeps (\<lambda>a. P (ag_world a)) (react_loop A C k)"
  by (induction k) (auto intro!: keeps_intros react_step_keeps split: option.split)

lemma react_run_keeps: "runs_here C \<Longrightarrow> keeps (\<lambda>a. P (ag_world a)) (react_run A C)"
  unfolding react_run_def by (intro keeps_intros maybe_run_research_keeps react_loop_keeps)

lemma delta_call_keeps: "runs_here C \<Longrightarrow> keeps (\<lambda>a. P (ag_world a)) (delta_call A C c)"
  unfolding delta_call_def
  by (auto intro!: keeps_intros keeps_in_world configured_keeps keeps_modifyE runs_here_hooks)

lemma delta_check_keeps: "keeps (\<lambda>a. P (ag_world a)) (delta_check A calls)"
  unfolding keeps_def delta_check_def emit_def bindE_def
  by (auto split: sum.split prod.split list.split)

lemma execute_deltas_keeps: "runs_here C \<Longrightarrow> keeps (\<lambda>a. P (ag_world a)) (execute_tools_with_deltas A C calls)"
proof -
  assume C: "runs_here C"
  have "keeps (\<lambda>a. P (ag_world a)) (delta_calls A C calls)" for calls
    by (induction calls) (auto intro!: keeps_intros delta_call_keeps C)
  then show ?thesis
    unfolding execute_tools_with_deltas_def
    by (auto intro!: keeps_intros delta_check_keeps split: option.split)
qed

lemma think_streaming_keeps: "runs_here C \<Longrightarrow> keeps (\<lambda>a. P (ag_world a)) (think_streaming A C)"
  unfolding think_streaming_def
  by (auto intro!: keeps_intros keeps_in_world chat_stream_keeps split: prod.split sum.split)

lemma run_streaming_keeps: "runs_here C \<Longrightarrow> keeps (\<lambda>a. P (ag_world a)) (run_streaming A C)"
proof -
  assume C: "runs_here C"
  have step: "keeps (\<lambda>a. P (ag_world a)) (streaming_step A C i)" for i
    unfolding streaming_step_def
    by (auto intro!: keeps_intros think_streaming_keeps dispatch_keeps execute_deltas_keeps C split: dispatch_result.split)
  have "keeps (\<lambda>a. P (ag_world a)) (streaming_loop A C k i)" for k i
    by (induction k arbitrary: i) (auto intro!: keeps_intros step split: option.split)
  then show ?thesis
    unfolding run_streaming_def by (intro keeps_intros maybe_run_research_keeps C)
qed

end

end
