(* ===== verification/Agent_Props.thy ===== *)
theory Agent_Props
  imports Agent_Facts Guard_Props
begin

text \<open>
  The properties of the agent: what an emergency stop means for a running agent (the guard of \<open>Guard\<close> under the loop of
  \<open>React\<close>), how a run ends, what the loop detector does to a run and to its conversation, and what truncation keeps.
\<close>

section \<open>An agent behind the guard\<close>

text \<open>
  The registry an agent is given is the guard around the tools. A call that is interrupted was waiting for an approval
  (\<open>ask\<close> says what the guard's own books are then), or was running in the registry behind the guard. The model is a
  service of its own: it has its own world beside that of the tools.
\<close>

definition guard_race :: "genv_guard \<Rightarrow> guard_config \<Rightarrow> 'w tool_registry \<Rightarrow> (string \<Rightarrow> json \<Rightarrow> 'w guard \<Rightarrow> race \<times> 'w guard) \<Rightarrow>
    string \<Rightarrow> json \<Rightarrow> 'w guard \<Rightarrow> race \<times> 'w guard" where
  "guard_race G cfg R ask tool args g =
     (case ask tool args g of
        (Finishes, _) \<Rightarrow> (case check_permission G cfg tool args g of
            (Inl e, _) \<Rightarrow> (Finishes, g)
          | (Inr safe, g') \<Rightarrow> (case rg_race R tool safe (gd_inner g) of
              (Finishes, w) \<Rightarrow> (Finishes, g\<lparr>gd_inner := w\<rparr>)
            | (r, w) \<Rightarrow> (r, g'\<lparr>gd_inner := w\<rparr>)))
      | (r, h) \<Rightarrow> (r, h\<lparr>gd_estop := gd_estop g, gd_inner := gd_inner g\<rparr>))"

definition guarded_registry :: "genv_guard \<Rightarrow> guard_config \<Rightarrow> 'w tool_registry \<Rightarrow>
    (string \<Rightarrow> json \<Rightarrow> 'w guard \<Rightarrow> race \<times> 'w guard) \<Rightarrow> 'w guard tool_registry" where
  "guarded_registry G cfg R ask =
     \<lparr>rg_get = (\<lambda>g. rg_get R (gd_inner g)), rg_invoke = guard_invoke G cfg (rg_invoke R),
      rg_race = guard_race G cfg R ask, rg_pick = (\<lambda>g. rg_pick R (gd_inner g)),
      rg_elapsed = (\<lambda>g. rg_elapsed R (gd_inner g))\<rparr>"

definition on_first :: "('w, 'e, 'a) io \<Rightarrow> ('w \<times> 'm, 'e, 'a) io" where
  "on_first m = (\<lambda>(w, v). case m w of (r, w') \<Rightarrow> (r, (w', v)))"

definition on_second :: "('m, 'e, 'a) io \<Rightarrow> ('w \<times> 'm, 'e, 'a) io" where
  "on_second m = (\<lambda>(w, v). case m v of (r, v') \<Rightarrow> (r, (w, v')))"

definition tools_beside :: "'w tool_registry \<Rightarrow> ('w \<times> 'm) tool_registry" where
  "tools_beside R =
     \<lparr>rg_get = (\<lambda>(w, v). rg_get R w), rg_invoke = (\<lambda>tool args. on_first (rg_invoke R tool args)),
      rg_race = (\<lambda>tool args (w, v). case rg_race R tool args w of (r, w') \<Rightarrow> (r, (w', v))),
      rg_pick = (\<lambda>(w, v). rg_pick R w), rg_elapsed = (\<lambda>(w, v). rg_elapsed R w)\<rparr>"

definition llm_beside :: "'m llm \<Rightarrow> ('w \<times> 'm) llm" where
  "llm_beside llm =
     \<lparr>llm_chat = (\<lambda>ms ts. on_second (llm_chat llm ms ts)),
      llm_chat_with_usage = (\<lambda>ms ts opts. on_second (llm_chat_with_usage llm ms ts opts)),
      llm_chat_stream = (\<lambda>ms ts opts. on_second (llm_chat_stream llm ms ts opts)),
      llm_model_info = llm_model_info llm\<rparr>"

text \<open>While every call is stopped, what is behind the guard stays \<open>w\<close>.\<close>

definition halted :: "'w \<Rightarrow> 'w guard \<Rightarrow> bool" where
  "halted w g \<longleftrightarrow> (\<exists>s. gd_estop g = Some s \<and> (\<forall>tool args. stopped s tool args)) \<and> gd_inner g = w"

lemma halted_refuses:
  assumes "halted w g"
  shows "\<exists>e. check_permission G cfg tool args g = (Inl e, g)"
proof -
  from assms obtain s where s: "gd_estop g = Some s" "stopped s tool args"
    unfolding halted_def by blast
  then obtain m where "estop_check s tool args = Inl (EmergencyStopped m)" unfolding stopped_def by blast
  with s(1) show ?thesis by (simp add: check_permission_def Let_def bindE_def)
qed

lemma halted_invoke: "keeps (halted w) (guard_invoke G cfg inner tool args)"
proof (rule keepsI)
  fix g assume h: "halted w g"
  obtain e where "check_permission G cfg tool args g = (Inl e, g)" using halted_refuses [OF h] by blast
  with h show "halted w (snd (guard_invoke G cfg inner tool args g))"
    by (simp add: guard_invoke_def bindE_def)
qed

lemma halted_race: "halted w g \<Longrightarrow> halted w (snd (guard_race G cfg R ask tool args g))"
proof -
  assume h: "halted w g"
  obtain e where "check_permission G cfg tool args g = (Inl e, g)" using halted_refuses [OF h] by blast
  with h show ?thesis
    by (auto simp: guard_race_def halted_def split: prod.split race.split)
qed

lemma keeps_on_first: "keeps P m \<Longrightarrow> keeps (\<lambda>(w, v). P w) (on_first m)"
  by (fastforce simp: keeps_def on_first_def split: prod.splits)

lemma keeps_on_second: "keeps (\<lambda>(w, v). P w) (on_second m)"
  by (auto simp: keeps_def on_second_def split: prod.splits)

interpretation halted_tools:
  tool_provider "tools_beside (guarded_registry G cfg R ask)" "[]" "\<lambda>(g, v). halted w g" for G cfg R ask w
proof (unfold_locales, goal_cases)
  case (1 tool args)
  show ?case
    unfolding tools_beside_def guarded_registry_def tool_registry.simps
    by (rule keeps_on_first [OF halted_invoke])
next
  case (2 x tool args)
  then show ?case
    using halted_race [of w "fst x" G cfg R ask tool args]
    by (cases x) (auto simp: tools_beside_def guarded_registry_def split: prod.split)
qed simp_all

interpretation halted_agent:
  agent_world "tools_beside (guarded_registry G cfg R ask)" "[]" "\<lambda>(g, v). halted w g" "llm_beside llm" for G cfg R ask w llm
  by unfold_locales (auto simp: llm_beside_def keeps_on_second)

text \<open>
  C17. An emergency stop holds the agent: whatever the model answers and whatever is interrupted, a run behind a guard
  whose stop refuses every call leaves the tools and what they act on as they were.
\<close>

theorem stopped_agent_touches_nothing:
  assumes "ac_llm C = llm_beside llm" and "ac_registry C = tools_beside (guarded_registry G cfg R ask)"
    and "te_hooks (ac_exec C) = None" and "fst (ag_world a) = g"
    and "gd_estop g = Some s" and "es_kill_all s"
    and "run \<in> {react_run A C, run_streaming A C}"
  shows "gd_inner (fst (ag_world (snd (run a)))) = gd_inner g"
proof -
  have "\<forall>tool args. stopped s tool args" using assms(6) by (simp add: stopped_iff estop_check_ok)
  with assms(4,5) have h: "(\<lambda>(g', v). halted (gd_inner g) g') (ag_world a)"
    by (cases "ag_world a") (simp add: halted_def)
  have C: "halted_agent.runs_here G cfg R ask llm C"
    unfolding halted_agent.runs_here_def using assms(1,2,3) by simp
  have "keeps (\<lambda>a. (\<lambda>(g', v). halted (gd_inner g) g') (ag_world a)) run"
    using assms(7) halted_agent.react_run_keeps [OF C] halted_agent.run_streaming_keeps [OF C] by blast
  from keepsD [OF this, OF h] show ?thesis
    by (auto simp: halted_def split: prod.splits)
qed

text \<open>An environment for examples: texts are empty, hash values zero.\<close>

definition demo_texts :: aenv where
  "demo_texts = \<lparr>clk = (\<lambda>n. 0), new_uuid = (\<lambda>n. 0), db_err = (\<lambda>n. None), bus_err = (\<lambda>n. None), uuid_show = (\<lambda>u. []),
     uuid_parse = (\<lambda>s. None), ts_show = (\<lambda>t. []), ts_parse = (\<lambda>s. None), json_show = (\<lambda>v. ''{}''),
     sched = (\<lambda>s. Inl []), fk_on = True, ae_hash_call = (\<lambda>n s. 0), ae_hash_text = (\<lambda>s. 0), ae_json_parse = (\<lambda>s. Some (JObj []))\<rparr>"

text \<open>A model that always asks for the same tool, and a tool that counts its calls.\<close>

definition nagging_llm :: "nat llm" where
  "nagging_llm = default_llm
     (env.truncate demo_texts)
     (\<lambda>ms ts n. (Inr (LlmToolCalls [\<lparr>tc_id = show_nat n, tc_name = ''shell'', tc_args = JObj []\<rparr>]), n + 1))
     \<lparr>mi_id = ''m'', mi_window = 9, mi_tools = True, mi_provider = ''p'', mi_streaming = False\<rparr>"

definition counting_tools :: "nat tool_registry" where
  "counting_tools = \<lparr>rg_get = (\<lambda>w n. None), rg_invoke = (\<lambda>tool args w. (Inr JNull, w + 1)),
     rg_race = (\<lambda>tool args w. (Finishes, w)), rg_pick = (\<lambda>w. 0), rg_elapsed = (\<lambda>w. 0)\<rparr>"

definition plain_guard :: "genv_guard" where
  "plain_guard = \<lparr>ge_now = int, ge_answer = (\<lambda>n. Answered (Inr Yes)), ge_event_sent = (\<lambda>n. True), ge_canon = Some,
     ge_leak = (\<lambda>s. s)\<rparr>"

definition full_guard_config :: guard_config where
  "full_guard_config = \<lparr>gc_policy = policy_default\<lparr>sp_autonomy := FullAutonomy\<rparr>, gc_manager = None, gc_events = False\<rparr>"

definition halted_demo :: "nat guard" where
  "halted_demo = \<lparr>gd_estop = Some (estop_default\<lparr>es_kill_all := True\<rparr>), gd_tracker = tracker_new,
     gd_allow = [], gd_events = [], gd_ticks = 0, gd_asks = 0, gd_sends = 0, gd_inner = 0\<rparr>"

definition guarded_demo :: "(nat guard \<times> nat) agent_config" where
  "guarded_demo = react_new (llm_beside nagging_llm)
     (tools_beside (guarded_registry plain_guard full_guard_config counting_tools (\<lambda>tool args g. (Finishes, g)))) 10"

theorem stopped_agent_touches_nothing_witness:
  "gd_inner (fst (ag_world (snd (react_run demo_texts guarded_demo (agent_start (context_new 1000) (halted_demo, 0)))))) =
     gd_inner halted_demo"
  by (rule stopped_agent_touches_nothing [of guarded_demo nagging_llm plain_guard full_guard_config counting_tools
        "\<lambda>tool args g. (Finishes, g)" _ _ "estop_default\<lparr>es_kill_all := True\<rparr>" _ demo_texts])
    (simp_all add: guarded_demo_def react_new_def exec_config_default_def agent_start_def halted_demo_def)

section \<open>How a run ends\<close>

inductive rounds :: "aenv \<Rightarrow> 'w agent_config \<Rightarrow> nat \<Rightarrow> 'w agent \<Rightarrow> 'w agent \<Rightarrow> bool" for A C where
  rounds_none: "rounds A C 0 a a"
| rounds_step: "react_step A C a = (Inr None, b) \<Longrightarrow> rounds A C n b c \<Longrightarrow> rounds A C (Suc n) a c"

lemma step_answer:
  assumes "react_step A C a = (Inr (Some v), b)"
  shows "\<exists>text. v = answer_json text \<and> last (cv_messages (ag_context b)) = AssistantMsg text"
proof -
  from assms obtain resp a1 d a2 where "dispatch_response A C resp a1 = (Inr d, a2)"
    and fin: "(case d of
        FinalAnswer text \<Rightarrow>
          bindE (in_context (add_assistant text)) (\<lambda>_. retE (Some (answer_json text)))
      | DispatchCalls calls \<Rightarrow>
          bindE (in_context (add_assistant_tool_calls calls)) (\<lambda>_.
          bindE (act A C calls) (\<lambda>rs.
          bindE (in_context (observe (env.truncate A) rs)) (\<lambda>_. retE None)))) a2 = (Inr (Some v), b)"
    unfolding react_step_def by (auto elim!: bindE_okD)
  show ?thesis
  proof (cases d)
    case (FinalAnswer t)
    with fin show ?thesis
      by (auto simp: bindE_def in_context_def add_assistant_def push_msg_def)
  next
    case (DispatchCalls calls)
    with fin show ?thesis by (auto elim!: bindE_okD)
  qed
qed

lemma loop_ends:
  "react_loop A C k a = (r, b) \<Longrightarrow>
   \<exists>n \<le> k. \<exists>a'. rounds A C n a a' \<and>
     (case r of
        Inr v \<Rightarrow> n < k \<and> react_step A C a' = (Inr (Some v), b)
      | Inl f \<Rightarrow> (n < k \<and> react_step A C a' = (Inl f, b)) \<or>
          (n = k \<and> f = Fails (Agent (MaxIterations (ac_max_iterations C))) \<and> b = a'))"
proof (induction k arbitrary: a)
  case 0
  then show ?case by (auto intro: rounds_none)
next
  case (Suc k)
  obtain s c where s: "react_step A C a = (s, c)" by fastforce
  show ?case
  proof (cases s)
    case (Inl f)
    with s Suc.prems have "r = Inl f" "b = c" by (simp_all add: bindE_def)
    with s Inl show ?thesis by (intro exI [of _ 0]) (auto intro: rounds_none)
  next
    case (Inr out)
    show ?thesis
    proof (cases out)
      case None
      with s Inr Suc.prems have "react_loop A C k c = (r, b)" by (simp add: bindE_def)
      from Suc.IH [OF this] obtain n a' where n: "n \<le> k" "rounds A C n c a'"
        "case r of
           Inr v \<Rightarrow> n < k \<and> react_step A C a' = (Inr (Some v), b)
         | Inl f \<Rightarrow> (n < k \<and> react_step A C a' = (Inl f, b)) \<or>
             (n = k \<and> f = Fails (Agent (MaxIterations (ac_max_iterations C))) \<and> b = a')" by blast
      have "rounds A C (Suc n) a a'" using s Inr None n(2) by (auto intro: rounds_step)
      with n(1,3) show ?thesis by (intro exI [of _ "Suc n"]) (auto split: sum.splits)
    next
      case (Some v)
      with s Inr Suc.prems have "r = Inr v" "b = c" by (simp_all add: bindE_def)
      with s Inr Some show ?thesis by (intro exI [of _ 0]) (auto intro: rounds_none)
    qed
  qed
qed

text \<open>
  C18. A run ends either in its research phase, with the failure of that phase, or, after the research phase if it has
  one, in at most \<open>max_iterations\<close> rounds of the model: with the answer of the model, which is then the last message of
  the conversation, with the error of a round, or with the error that the rounds are used up. (The calls of the model in
  the research phase come before these rounds; that phase has a bound of its own, \<open>rc_max_iterations\<close>.)
\<close>

theorem run_ends_in_time:
  assumes "react_run A C a = (r, b)"
  shows "(\<exists>f. maybe_run_research A C a = (Inl f, b) \<and> r = Inl f) \<or>
    (\<exists>a0. maybe_run_research A C a = (Inr (), a0) \<and>
      (\<exists>n \<le> unat (ac_max_iterations C). \<exists>a'. rounds A C n a0 a' \<and>
        (case r of
           Inr v \<Rightarrow> n < unat (ac_max_iterations C) \<and> react_step A C a' = (Inr (Some v), b) \<and>
             (\<exists>text. v = answer_json text \<and> last (cv_messages (ag_context b)) = AssistantMsg text)
         | Inl f \<Rightarrow> (n < unat (ac_max_iterations C) \<and> react_step A C a' = (Inl f, b)) \<or>
             (n = unat (ac_max_iterations C) \<and> f = Fails (Agent (MaxIterations (ac_max_iterations C))) \<and> b = a'))))"
proof -
  obtain q a0 where q: "maybe_run_research A C a = (q, a0)" by fastforce
  show ?thesis
  proof (cases q)
    case (Inl f)
    with q assms show ?thesis by (simp add: react_run_def bindE_def)
  next
    case ran: (Inr u)
    with q assms have "react_loop A C (unat (ac_max_iterations C)) a0 = (r, b)" by (simp add: react_run_def bindE_def)
    from loop_ends [OF this] obtain n a' where n: "n \<le> unat (ac_max_iterations C)" "rounds A C n a0 a'"
      "case r of
         Inr v \<Rightarrow> n < unat (ac_max_iterations C) \<and> react_step A C a' = (Inr (Some v), b)
       | Inl f \<Rightarrow> (n < unat (ac_max_iterations C) \<and> react_step A C a' = (Inl f, b)) \<or>
           (n = unat (ac_max_iterations C) \<and> f = Fails (Agent (MaxIterations (ac_max_iterations C))) \<and> b = a')"
      by blast
    have "case r of
         Inr v \<Rightarrow> n < unat (ac_max_iterations C) \<and> react_step A C a' = (Inr (Some v), b) \<and>
           (\<exists>text. v = answer_json text \<and> last (cv_messages (ag_context b)) = AssistantMsg text)
       | Inl f \<Rightarrow> (n < unat (ac_max_iterations C) \<and> react_step A C a' = (Inl f, b)) \<or>
           (n = unat (ac_max_iterations C) \<and> f = Fails (Agent (MaxIterations (ac_max_iterations C))) \<and> b = a')"
      using n(3) step_answer [of A C a' _ b] by (cases r) auto
    with n(1,2) q ran show ?thesis by auto
  qed
qed

text \<open>The nagging model uses all its rounds up; as it has no research phase it starts with them.\<close>

definition nagging_demo :: "(nat \<times> nat) agent_config" where
  "nagging_demo = react_new (llm_beside nagging_llm) (tools_beside counting_tools) 2"

theorem run_ends_in_time_witness:
  "\<exists>n \<le> 2. \<exists>a'. rounds demo_texts nagging_demo n (agent_start (context_new 1000) (0, 0)) a' \<and>
    (case fst (react_run demo_texts nagging_demo (agent_start (context_new 1000) (0, 0))) of
       Inr v \<Rightarrow> True
     | Inl f \<Rightarrow> n < 2 \<or> f = Fails (Agent (MaxIterations 2)))"
proof -
  let ?a = "agent_start (context_new 1000) (0, 0)"
  have m: "unat (ac_max_iterations nagging_demo) = 2" "ac_max_iterations nagging_demo = 2"
    "maybe_run_research demo_texts nagging_demo ?a = (Inr (), ?a)"
    by (simp_all add: nagging_demo_def react_new_def maybe_run_research_def)
  show ?thesis
    using run_ends_in_time [OF surjective_pairing [of "react_run demo_texts nagging_demo ?a"]]
    unfolding m by (fastforce split: sum.splits)
qed

section \<open>The loop detector and the run\<close>

lemma record_calls_outputs: "record_calls A calls d = (r, d') \<Longrightarrow> ld_outputs d' = ld_outputs d"
proof (induction calls arbitrary: d)
  case Nil
  then show ?case by simp
next
  case (Cons c cs)
  then show ?case
    by (auto split: prod.splits sum.splits dest!: detector_record_outputs)
qed

text \<open>With five equal outputs recorded, every batch is refused, or panics where it is empty, and nothing is recorded.\<close>

lemma stuck_batch:
  assumes "no_progress (ld_outputs d)" and "loop_check A calls d = (r, d')"
  shows "r \<noteq> Inr None \<and> ld_outputs d' = ld_outputs d"
proof -
  obtain q e where q: "record_calls A calls d = (q, e)" by fastforce
  from record_calls_outputs [OF q] assms(1) have "no_progress (ld_outputs e)" "ld_outputs e = ld_outputs d" by simp_all
  with q assms(2) show ?thesis
    by (auto simp: loop_check_def check_progress_def split: sum.splits list.splits)
qed

lemma stuck_act:
  assumes "no_progress (ld_outputs (ag_detector a))"
  shows "act A (C\<lparr>ac_registry := R\<rparr>) calls a = act A C calls a \<and>
    ld_outputs (ag_detector (snd (act A C calls a))) = ld_outputs (ag_detector a) \<and>
    ag_world (snd (act A C calls a)) = ag_world a"
proof -
  obtain r d where b: "loop_check A calls (ag_detector a) = (r, d)" by fastforce
  from stuck_batch [OF assms this] have nr: "r \<noteq> Inr None" and o: "ld_outputs d = ld_outputs (ag_detector a)" by simp_all
  have "execute_tools_configured A R' cfg calls \<lparr>ex_detector = Some (ag_detector a), ex_world = ag_world a\<rparr> =
      (case r of Inl f \<Rightarrow> Inl f | Inr q \<Rightarrow> Inr [the q], \<lparr>ex_detector = Some d, ex_world = ag_world a\<rparr>)" for R' cfg
    using b nr
    by (auto simp: execute_tools_configured_def guard_batch_def bindE_def split: sum.split option.split)
  with o show ?thesis by (simp add: act_def)
qed

lemma dispatch_state:
  "dispatch_response A C resp a = (r, b) \<Longrightarrow>
   ag_detector b = ag_detector a \<and> ag_world b = ag_world a \<and> ag_context b = ag_context a"
  by (auto simp: dispatch_response_def split: option.splits llm_response.splits prod.splits)

lemma think_detector: "think A C a = (r, b) \<Longrightarrow> ag_detector b = ag_detector a"
  by (auto simp: think_def note_usage_def in_context_def in_world_def bindE_def
      split: prod.splits sum.splits option.splits if_splits)

lemma other_registry:
  "think A (C\<lparr>ac_registry := R\<rparr>) = think A C"
  "dispatch_response A (C\<lparr>ac_registry := R\<rparr>) = dispatch_response A C"
proof -
  have "tools_for_llm (C\<lparr>ac_registry := R\<rparr>) = tools_for_llm C" "run_options (C\<lparr>ac_registry := R\<rparr>) = run_options C"
    by (simp_all add: tools_for_llm_def run_options_def split: option.split)
  moreover have "note_usage (C\<lparr>ac_registry := R\<rparr>) = note_usage C"
    by (rule ext) (simp add: note_usage_def split: option.split)
  ultimately show "think A (C\<lparr>ac_registry := R\<rparr>) = think A C"
    by (simp add: think_def)
  show "dispatch_response A (C\<lparr>ac_registry := R\<rparr>) = dispatch_response A C"
    by (rule ext) (simp add: dispatch_response_def split: option.split)
qed

lemma stuck_step:
  assumes "no_progress (ld_outputs (ag_detector a))"
  shows "react_step A (C\<lparr>ac_registry := R\<rparr>) a = react_step A C a \<and>
    ld_outputs (ag_detector (snd (react_step A C a))) = ld_outputs (ag_detector a)"
proof -
  obtain r b where t: "think A C a = (r, b)" by fastforce
  have b: "ag_detector b = ag_detector a" using think_detector [OF t] .
  show ?thesis
  proof (cases r)
    case (Inl f)
    with t b show ?thesis by (simp add: react_step_def bindE_def other_registry)
  next
    case (Inr resp)
    obtain q c where d: "dispatch_response A C resp b = (q, c)" by fastforce
    have c: "ag_detector c = ag_detector a" using dispatch_state [OF d] b by simp
    let ?c = "\<lambda>calls. c\<lparr>ag_context := add_assistant_tool_calls calls (ag_context c)\<rparr>"
    have stuck: "act A (C\<lparr>ac_registry := R\<rparr>) calls (?c calls) = act A C calls (?c calls)"
      "act A C calls (?c calls) = (s, e) \<Longrightarrow> ld_outputs (ag_detector e) = ld_outputs (ag_detector a)" for calls s e
      using stuck_act [of "?c calls" A R C calls] assms c by simp_all
    from t Inr d c stuck show ?thesis
      by (auto simp: react_step_def bindE_def other_registry in_context_def
          split: sum.split dispatch_result.split prod.split)
  qed
qed

lemma stuck_loop:
  "no_progress (ld_outputs (ag_detector a)) \<Longrightarrow> react_loop A (C\<lparr>ac_registry := R\<rparr>) k a = react_loop A C k a"
proof (induction k arbitrary: a)
  case 0
  then show ?case by simp
next
  case (Suc k)
  obtain r b where s: "react_step A C a = (r, b)" by fastforce
  with stuck_step [OF Suc.prems, of A R C] Suc.prems
  have "react_step A (C\<lparr>ac_registry := R\<rparr>) a = (r, b)" "no_progress (ld_outputs (ag_detector b))" by simp_all
  with s Suc.IH [of b] show ?case by (simp add: bindE_def split: sum.split option.split)
qed

text \<open>
  The detector of missing progress never lets go: once five equal outputs are recorded, no further call of the run
  reaches the tools, whatever the calls are. The run is the same with any other registry in the place of its own.
\<close>

theorem stuck_run_never_acts:
  assumes "no_progress (ld_outputs (ag_detector a))" and "ac_research C = None"
  shows "react_run A C a = react_run A (C\<lparr>ac_registry := R\<rparr>) a"
  using stuck_loop [OF assms(1), of A R C] assms(2)
  by (simp add: react_run_def maybe_run_research_def bindE_def)

definition five_same :: "(nat \<times> nat) agent" where
  "five_same = agent_start (context_new 1000) (0, 0)
     \<lparr>ag_detector := fold (\<lambda>_. detector_record_output demo_texts JNull) [(), (), (), (), ()] (detector_new 3)\<rparr>"

theorem stuck_run_never_acts_witness:
  "react_run demo_texts nagging_demo five_same =
     react_run demo_texts (nagging_demo\<lparr>ac_registry := tools_beside (counting_tools\<lparr>rg_invoke := (\<lambda>tool args w. (Inl NoIdToken, w + 2))\<rparr>)\<rparr>) five_same"
  by (rule stuck_run_never_acts)
    (simp_all add: five_same_def agent_start_def detector_new_def detector_record_output_def push_window_def no_progress_def
      nagging_demo_def react_new_def)

section \<open>Calls and their results\<close>

lemma call_entry_result:
  "call_entry f c w = (Inr r, w') \<Longrightarrow> \<exists>v. r = result_of c v"
  by (auto simp: call_entry_def tryE_def split: prod.splits sum.splits fault.splits)

lemma parallel_results:
  assumes "\<And>c w r w'. f c w = (Inr r, w') \<Longrightarrow> tr_call_id r = tc_id c"
  shows "run_parallel R f calls w = (Inr rs, w') \<Longrightarrow> map tr_call_id rs = map tc_id calls"
proof (induction "length calls" arbitrary: calls w rs w' rule: less_induct)
  case less
  show ?case
  proof (cases "calls = []")
    case True
    with less.prems show ?thesis by (simp add: run_parallel.simps)
  next
    case False
    define k where "k = rg_pick R w mod length calls"
    with False have k: "k < length calls" by simp
    from less.prems False obtain r w1 rs0 w2 where
        r: "f (calls ! k) w = (Inr r, w1)"
      and rs0: "run_parallel R f (take k calls @ drop (Suc k) calls) w1 = (Inr rs0, w2)"
      and rs: "rs = take k rs0 @ r # drop k rs0"
      unfolding run_parallel.simps [of R f calls] Let_def
      by (auto simp: k_def elim!: bindE_okD)
    have ids: "map tr_call_id rs0 = map tc_id (take k calls @ drop (Suc k) calls)"
      using k by (intro less.hyps [OF _ rs0]) simp
    have "map tr_call_id (take k rs0) = map tc_id (take k calls)"
      using ids k by (metis (no_types, lifting) append_eq_conv_conj length_take map_append min.absorb4 take_map length_map)
    moreover have "map tr_call_id (drop k rs0) = map tc_id (drop (Suc k) calls)"
      using ids k by (metis (no_types, lifting) append_eq_conv_conj length_take map_append min.absorb4 drop_map length_map)
    ultimately have "map tr_call_id rs = map tc_id (take k calls) @ tc_id (calls ! k) # map tc_id (drop (Suc k) calls)"
      using rs assms [OF r] by simp
    also have "\<dots> = map tc_id calls" using id_take_nth_drop [OF k] by (metis list.simps(9) map_append)
    finally show ?thesis .
  qed
qed

lemma on_world_ok: "on_world m x = (Inr v, y) \<Longrightarrow> \<exists>w. m (ex_world x) = (Inr v, w)"
  by (auto simp: on_world_def split: prod.splits)

lemma note_outputs_ok [simp]: "note_outputs A rs x = (Inl f, y) \<longleftrightarrow> False"
  by (simp add: note_outputs_def)

lemma configured_result: "configured_call E R cfg c w = (Inr r, w') \<Longrightarrow> tr_call_id r = tc_id c"
  unfolding configured_call_def by (drule call_entry_result) (auto simp: result_of_def)

lemma noted_results: "noted_calls A R cfg calls x = (Inr rs, y) \<Longrightarrow> map tr_call_id rs = map tc_id calls"
proof (induction calls arbitrary: x rs)
  case Nil
  then show ?case by simp
next
  case (Cons c cs)
  then obtain r x1 rs' where "noted_call A R cfg c x = (Inr r, x1)" "noted_calls A R cfg cs x1 = (Inr rs', y)" "rs = r # rs'"
    by (auto elim!: bindE_okD)
  moreover from this(1) obtain w where "configured_call (env.truncate A) R cfg c (ex_world x) = (Inr r, w)"
    unfolding noted_call_def by (auto elim!: bindE_okD dest: on_world_ok)
  ultimately show ?case using Cons.IH configured_result by fastforce
qed

lemma loop_check_refusal:
  "loop_check A calls d = (Inr (Some r), d') \<Longrightarrow> \<exists>c \<in> set calls. \<exists>e. r = result_of c (Inl e)"
proof -
  assume b: "loop_check A calls d = (Inr (Some r), d')"
  have rec: "record_calls A cs d = (Inl (c, e), d') \<Longrightarrow> c \<in> set cs" for cs c e d d'
    by (induction cs arbitrary: d) (auto split: prod.splits sum.splits)
  show ?thesis
    using b by (auto simp: loop_check_def split: prod.splits sum.splits list.splits dest: rec)
qed

lemma batch_results:
  assumes "execute_tools_configured A R cfg calls x = (Inr rs, y)"
  shows "map tr_call_id rs = map tc_id calls \<or> (\<exists>r d. ex_detector x = Some d \<and> loop_check A calls d = (Inr (Some r), the (ex_detector y)) \<and> rs = [r])"
proof -
  from assms obtain refusal x1 where g: "guard_batch A calls x = (Inr refusal, x1)"
    and rest: "(case refusal of Some r \<Rightarrow> retE [r]
      | None \<Rightarrow> (\<lambda>x. if should_execute_parallel R (ex_world x) calls
          then bindE (on_world (run_parallel R (configured_call (env.truncate A) R (cfg\<lparr>te_max_repeated := 0\<rparr>)) calls)) (\<lambda>rs.
               bindE (note_outputs A rs) (\<lambda>_. retE rs)) x
          else noted_calls A R cfg calls x)) x1 = (Inr rs, y)"
    unfolding execute_tools_configured_def by (rule bindE_okD)
  show ?thesis
  proof (cases refusal)
    case (Some r)
    with rest g show ?thesis
      by (auto simp: guard_batch_def split: option.splits prod.splits)
  next
    case None
    show ?thesis
    proof (cases "should_execute_parallel R (ex_world x1) calls")
      case True
      with None rest obtain x2 where
        "on_world (run_parallel R (configured_call (env.truncate A) R (cfg\<lparr>te_max_repeated := 0\<rparr>)) calls) x1 = (Inr rs, x2)"
        by (auto elim!: bindE_okD)
      then obtain w where
        "run_parallel R (configured_call (env.truncate A) R (cfg\<lparr>te_max_repeated := 0\<rparr>)) calls (ex_world x1) = (Inr rs, w)"
        by (blast dest: on_world_ok)
      then have "map tr_call_id rs = map tc_id calls"
        by (rule parallel_results [rotated]) (rule configured_result)
      then show ?thesis ..
    next
      case False
      with None rest show ?thesis using noted_results by auto
    qed
  qed
qed

text \<open>The calls of a conversation that no later message answers.\<close>

fun result_ids :: "message list \<Rightarrow> string list" where
  "result_ids [] = []"
| "result_ids (ToolResultMsg i s # ms) = i # result_ids ms"
| "result_ids (m # ms) = result_ids ms"

fun open_calls :: "message list \<Rightarrow> string list" where
  "open_calls [] = []"
| "open_calls (ToolCallsMsg cs # ms) = filter (\<lambda>i. \<not> List.member (result_ids ms) i) (map tc_id cs) @ open_calls ms"
| "open_calls (m # ms) = open_calls ms"

lemma open_calls_suffix: "open_calls (xs @ ys) = [] \<Longrightarrow> open_calls ys = []"
  by (induction xs rule: open_calls.induct) auto

lemma result_ids_append [simp]: "result_ids (xs @ ys) = result_ids xs @ result_ids ys"
  by (induction xs rule: result_ids.induct) auto

lemma open_calls_append: "open_calls xs = [] \<Longrightarrow> open_calls ys = [] \<Longrightarrow> open_calls (xs @ ys) = []"
  by (induction xs rule: open_calls.induct) (auto simp: filter_empty_conv List.member_iff)

lemma truncate_closes:
  assumes "open_calls (cv_messages c) = []"
  shows "open_calls (cv_messages (truncate_to_fit E c)) = []"
proof (cases "total_tokens E (cv_messages c) \<le> cv_max_tokens c")
  case True
  with assms show ?thesis by (simp add: truncate_to_fit_eq)
next
  case False
  with truncate_truncated [of E c] obtain pre kept where
      t: "truncate_to_fit E c = c\<lparr>cv_messages := system_part (cv_messages c) @ kept\<rparr>"
    and k: "snd (split_system (cv_messages c)) = pre @ kept"
    unfolding truncated_def longest_suffix_def by auto
  have "cv_messages c = system_part (cv_messages c) @ snd (split_system (cv_messages c))"
    by (auto simp: system_part_def split_system_def split: list.split option.split)
  with k assms have "open_calls kept = []" by (metis append_assoc open_calls_suffix)
  moreover have "open_calls (system_part (cv_messages c)) = []"
  proof -
    have "is_system m \<Longrightarrow> open_calls [m] = []" for m by (cases m) auto
    then show ?thesis by (auto simp: system_part_def split_system_def split: list.split option.split)
  qed
  ultimately show ?thesis using t by (simp add: open_calls_append)
qed

lemma observe_messages: "cv_messages (observe E rs c) = cv_messages c @
    map (\<lambda>r. ToolResultMsg (tr_call_id r) (result_to_string E (tr_result r))) rs"
  by (induction rs arbitrary: c) (simp_all add: observe_def add_tool_result_def push_msg_def)

lemma result_ids_results: "result_ids (map (\<lambda>r. ToolResultMsg (tr_call_id r) (t r)) rs) = map tr_call_id rs"
  by (induction rs) simp_all

lemma open_calls_results: "open_calls (map (\<lambda>r. ToolResultMsg (tr_call_id r) (t r)) rs) = []"
  by (induction rs) simp_all

lemma think_context:
  "think A C a = (Inr resp, b) \<Longrightarrow> ag_context b = truncate_to_fit (env.truncate A) (ag_context a)"
  by (auto simp: think_def note_usage_def in_context_def in_world_def bindE_def
      split: prod.splits sum.splits option.splits if_splits)

lemma step_none:
  assumes "react_step A C a = (Inr None, b)"
  obtains calls rs x y where
    "execute_tools_configured A (ac_registry C) (ac_exec C) calls x = (Inr rs, y)"
    "ex_detector x = Some (ag_detector a)" "ag_detector b = the (ex_detector y)"
    "cv_messages (ag_context b) = cv_messages (truncate_to_fit (env.truncate A) (ag_context a)) @
       ToolCallsMsg calls # map (\<lambda>r. ToolResultMsg (tr_call_id r) (result_to_string (env.truncate A) (tr_result r))) rs"
proof -
  from assms obtain resp a1 d a2 where t: "think A C a = (Inr resp, a1)"
    and d: "dispatch_response A C resp a1 = (Inr d, a2)"
    and fin: "(case d of
        FinalAnswer text \<Rightarrow>
          bindE (in_context (add_assistant text)) (\<lambda>_. retE (Some (answer_json text)))
      | DispatchCalls calls \<Rightarrow>
          bindE (in_context (add_assistant_tool_calls calls)) (\<lambda>_.
          bindE (act A C calls) (\<lambda>rs.
          bindE (in_context (observe (env.truncate A) rs)) (\<lambda>_. retE None)))) a2 = (Inr None, b)"
    unfolding react_step_def by (auto elim!: bindE_okD)
  have ctx: "ag_context a2 = truncate_to_fit (env.truncate A) (ag_context a)"
    using think_context [OF t] dispatch_state [OF d] by simp
  have det: "ag_detector a2 = ag_detector a"
    using think_detector [OF t] dispatch_state [OF d] by simp
  show thesis
  proof (cases d)
    case (FinalAnswer t)
    with fin show thesis by (auto simp: bindE_def in_context_def)
  next
    case (DispatchCalls calls)
    let ?a3 = "a2\<lparr>ag_context := add_assistant_tool_calls calls (ag_context a2)\<rparr>"
    from fin DispatchCalls obtain rs a4 where act: "act A C calls ?a3 = (Inr rs, a4)"
      and b: "b = a4\<lparr>ag_context := observe (env.truncate A) rs (ag_context a4)\<rparr>"
      by (auto simp: in_context_def elim!: bindE_okD)
    then obtain y where ex: "execute_tools_configured A (ac_registry C) (ac_exec C) calls
        \<lparr>ex_detector = Some (ag_detector ?a3), ex_world = ag_world ?a3\<rparr> = (Inr rs, y)"
      and a4: "ag_context a4 = ag_context ?a3" "ag_detector a4 = the (ex_detector y)"
      by (auto simp: act_def split: prod.splits)
    show thesis
      by (rule that [OF ex]) (simp_all add: b a4 det observe_messages ctx add_assistant_tool_calls_def push_msg_def)
  qed
qed

text \<open>
  C20. A round leaves no tool call without its result, unless the loop detector has refused the batch, as its check of
  the calls in the state of the detector before the round says: then the conversation ends with the calls and the one
  result of the refused call.
\<close>

theorem round_answers_its_calls:
  assumes "react_step A C a = (Inr None, b)" and "open_calls (cv_messages (ag_context a)) = []"
  shows "open_calls (cv_messages (ag_context b)) = [] \<or>
    (\<exists>before calls e. \<exists>c \<in> set calls.
       loop_check A calls (ag_detector a) = (Inr (Some (result_of c (Inl e))), ag_detector b) \<and>
       cv_messages (ag_context b) =
         before @ [ToolCallsMsg calls, ToolResultMsg (tc_id c) (result_to_string (env.truncate A) (Inl e))])"
proof -
  let ?E = "env.truncate A"
  from step_none [OF assms(1)] obtain calls rs x y where
      ex: "execute_tools_configured A (ac_registry C) (ac_exec C) calls x = (Inr rs, y)"
    and det: "ex_detector x = Some (ag_detector a)" "ag_detector b = the (ex_detector y)"
    and ms: "cv_messages (ag_context b) = cv_messages (truncate_to_fit ?E (ag_context a)) @
       ToolCallsMsg calls # map (\<lambda>r. ToolResultMsg (tr_call_id r) (result_to_string ?E (tr_result r))) rs" .
  have old: "open_calls (cv_messages (truncate_to_fit ?E (ag_context a))) = []"
    using truncate_closes [OF assms(2)] .
  from batch_results [OF ex] show ?thesis
  proof
    assume "map tr_call_id rs = map tc_id calls"
    then have "open_calls (ToolCallsMsg calls # map (\<lambda>r. ToolResultMsg (tr_call_id r) (result_to_string ?E (tr_result r))) rs) = []"
      by (simp add: open_calls_results result_ids_results filter_empty_conv List.member_iff)
    with old ms show ?thesis by (simp only: open_calls_append simp_thms)
  next
    assume "\<exists>r d. ex_detector x = Some d \<and> loop_check A calls d = (Inr (Some r), the (ex_detector y)) \<and> rs = [r]"
    then obtain r where r: "loop_check A calls (ag_detector a) = (Inr (Some r), ag_detector b)" "rs = [r]"
      using det by auto
    from loop_check_refusal [OF r(1)] obtain c e where "c \<in> set calls" "r = result_of c (Inl e)" by blast
    with r ms show ?thesis by (auto simp: result_of_def)
  qed
qed

text \<open>The nagging model again, with small numbers.\<close>

definition small_demo :: "(nat \<times> nat) agent_config" where
  "small_demo =
     \<lparr>ac_llm = llm_beside nagging_llm, ac_registry = tools_beside counting_tools, ac_max_iterations = 2, ac_tools = [],
      ac_thinking = ThinkMedium, ac_research = None, ac_dispatcher = None,
      ac_exec = \<lparr>te_timeout = 1, te_cancel = False, te_max_repeated = 3, te_hooks = None, te_max_output = 0\<rparr>,
      ac_usage_callback = False\<rparr>"

lemma small_round: "fst (react_step demo_texts small_demo (agent_start (context_new 9) (0, 0))) = Inr None"
  by code_simp

theorem round_answers_its_calls_witness:
  "let b = snd (react_step demo_texts small_demo (agent_start (context_new 9) (0, 0))) in
   open_calls (cv_messages (ag_context b)) = [] \<or>
    (\<exists>before calls e. \<exists>c \<in> set calls.
       loop_check demo_texts calls (detector_new 3) = (Inr (Some (result_of c (Inl e))), ag_detector b) \<and>
       cv_messages (ag_context b) =
         before @ [ToolCallsMsg calls, ToolResultMsg (tc_id c) (result_to_string (env.truncate demo_texts) (Inl e))])"
proof -
  have step: "react_step demo_texts small_demo (agent_start (context_new 9) (0, 0)) =
      (Inr None, snd (react_step demo_texts small_demo (agent_start (context_new 9) (0, 0))))"
    using small_round by (metis prod.collapse)
  show ?thesis
    using round_answers_its_calls [OF step] unfolding Let_def by (simp add: agent_start_def context_new_def)
qed

text \<open>
  A refused batch of two calls or more leaves calls without results in the conversation, where they stay: the executor
  returns the one result of the refused call.
\<close>

theorem refusal_leaves_calls_open:
  assumes "think A C a = (Inr (LlmToolCalls calls), b)" and "ac_dispatcher C = None"
    and "loop_check A calls (ag_detector b) = (Inr (Some r), d)"
    and "distinct (map tc_id calls)" and "2 \<le> length calls"
  shows "\<exists>b'. react_step A C a = (Inr None, b') \<and> open_calls (cv_messages (ag_context b')) \<noteq> []"
proof -
  obtain c e where c: "c \<in> set calls" "r = result_of c (Inl e)" using loop_check_refusal [OF assms(3)] by blast
  have "\<exists>c' \<in> set calls. tc_id c' \<noteq> tc_id c"
  proof (rule ccontr)
    assume "\<not> ?thesis"
    then have "set (map tc_id calls) \<subseteq> {tc_id c}" by auto
    then have "card (set (map tc_id calls)) \<le> 1" using card_mono [of "{tc_id c}"] by fastforce
    with distinct_card [OF assms(4)] assms(5) show False by simp
  qed
  then obtain c' where c': "c' \<in> set calls" "tc_id c' \<noteq> tc_id c" by blast
  let ?b' = "b\<lparr>ag_context := observe (env.truncate A) [r] (add_assistant_tool_calls calls (ag_context b)),
      ag_detector := d\<rparr>"
  have "act A C calls (b\<lparr>ag_context := add_assistant_tool_calls calls (ag_context b)\<rparr>) =
      (Inr [r], b\<lparr>ag_context := add_assistant_tool_calls calls (ag_context b), ag_detector := d\<rparr>)"
    using assms(3) by (simp add: act_def execute_tools_configured_def guard_batch_def bindE_def)
  then have "react_step A C a = (Inr None, ?b')"
    using assms(1,2) by (simp add: react_step_def dispatch_response_def bindE_def in_context_def)
  moreover have "tc_id c' \<in> set (open_calls [ToolCallsMsg calls, ToolResultMsg (tc_id c) t])" for t
    using c' by (simp add: List.member_iff)
  then have "open_calls (cv_messages (ag_context ?b')) \<noteq> []"
    using c(2) open_calls_suffix [of "cv_messages (ag_context b)"]
    by (fastforce simp: observe_messages add_assistant_tool_calls_def push_msg_def result_of_def)
  ultimately show ?thesis by blast
qed

definition twin_calls :: "tool_call list" where
  "twin_calls = [\<lparr>tc_id = ''a'', tc_name = ''shell'', tc_args = JObj []\<rparr>, \<lparr>tc_id = ''b'', tc_name = ''shell'', tc_args = JObj []\<rparr>]"

definition twin_demo :: "(nat \<times> nat) agent_config" where
  "twin_demo = small_demo\<lparr>ac_llm := default_llm (env.truncate demo_texts) (\<lambda>ms ts w. (Inr (LlmToolCalls twin_calls), w))
     \<lparr>mi_id = ''m'', mi_window = 9, mi_tools = True, mi_provider = ''p'', mi_streaming = False\<rparr>\<rparr>"

definition twin_start :: "(nat \<times> nat) agent" where
  "twin_start = agent_start (context_new 9) (0, 0) \<lparr>ag_detector := detector_new 1\<rparr>"

theorem refusal_leaves_calls_open_witness:
  "\<exists>b'. react_step demo_texts twin_demo twin_start = (Inr None, b') \<and> open_calls (cv_messages (ag_context b')) \<noteq> []"
proof (rule refusal_leaves_calls_open [of _ _ _ twin_calls twin_start])
  show "think demo_texts twin_demo twin_start = (Inr (LlmToolCalls twin_calls), twin_start)"
    by (simp add: think_def bindE_def in_context_def in_world_def lift_fault_def twin_demo_def small_demo_def default_llm_def
        note_usage_def twin_start_def agent_start_def context_new_def truncate_to_fit_eq)
  show "ac_dispatcher twin_demo = None" by (simp add: twin_demo_def small_demo_def)
  show "distinct (map tc_id twin_calls)" "2 \<le> length twin_calls" by (simp_all add: twin_calls_def)
  show "loop_check demo_texts twin_calls (ag_detector twin_start) =
      (Inr (Some (the (projr (fst (loop_check demo_texts twin_calls (detector_new 1)))))),
       snd (loop_check demo_texts twin_calls (detector_new 1)))"
    by (simp add: loop_check_def twin_calls_def twin_start_def agent_start_def detector_new_def detector_record_def Let_def
        call_hash_def demo_texts_def push_window_def ping_pong_def)
qed

section \<open>Truncation\<close>

text \<open>
  C21. Truncation to the token budget leaves a conversation that fits as it is, and of a longer one keeps the system
  message and the longest run of the newest messages that fits what is left of the budget.
\<close>

theorem truncation_exact: "c' = truncate_to_fit E c \<longleftrightarrow> truncated E c c'"
  using truncate_truncated truncated_unique by blast

text \<open>
  Truncation can keep the result of a call without the call, and drops the question of the user first: the model is
  sent a result it has not asked for.
\<close>

theorem truncation_orphans_a_result:
  assumes "cv_messages c = [SystemMsg s, UserMsg u, ToolCallsMsg calls, ToolResultMsg i t]"
    and "estimate_tokens E (SystemMsg s) + estimate_tokens E (ToolResultMsg i t) \<le> cv_max_tokens c"
    and "cv_max_tokens c < estimate_tokens E (SystemMsg s) + estimate_tokens E (ToolCallsMsg calls) + estimate_tokens E (ToolResultMsg i t)"
  shows "cv_messages (truncate_to_fit E c) = [SystemMsg s, ToolResultMsg i t]"
proof -
  have "\<not> total_tokens E (cv_messages c) \<le> cv_max_tokens c" using assms by simp
  moreover have "\<not> estimate_tokens E (ToolResultMsg i t) > cv_max_tokens c - estimate_tokens E (SystemMsg s)"
    "estimate_tokens E (ToolResultMsg i t) + estimate_tokens E (ToolCallsMsg calls) > cv_max_tokens c - estimate_tokens E (SystemMsg s)"
    using assms(2,3) by linarith+
  ultimately show ?thesis
    using assms(1) by (simp add: truncate_to_fit_eq system_part_def split_system_def Let_def)
qed

theorem truncation_orphans_a_result_witness:
  "cv_messages (truncate_to_fit (env.truncate demo_texts)
     \<lparr>cv_messages = [SystemMsg ''s'', UserMsg ''u'', ToolCallsMsg twin_calls, ToolResultMsg ''a'' ''ok''], cv_max_tokens = 3\<rparr>) =
   [SystemMsg ''s'', ToolResultMsg ''a'' ''ok'']"
  by (rule truncation_orphans_a_result [OF conversation.simps(1)])
    (simp_all add: estimate_tokens_def call_size_def twin_calls_def demo_texts_def env.defs)

end
