(* ===== verification/Agent_Stream.thy ===== *)
theory Agent_Stream
  imports Agent_Props
begin

text \<open>
  The streaming run against the plain run: with the default streaming of the provider trait, and parallel calls that take
  effect in their order, both do the same and differ in the reported events only. An empty list of tool calls is where
  they part: the plain run goes on, the streaming run takes it for an empty answer.
\<close>

section \<open>Simulation up to events\<close>

definition up :: "'w agent \<Rightarrow> 'w agent \<Rightarrow> bool" where
  "up a b \<longleftrightarrow> ag_context b = ag_context a \<and> ag_detector b = ag_detector a \<and> ag_world b = ag_world a \<and>
     ag_next_call b = ag_next_call a \<and> ag_usage b = ag_usage a"

definition sim :: "('w, 'a) aio \<Rightarrow> ('w, 'a) aio \<Rightarrow> bool" where
  "sim m m' \<longleftrightarrow> (\<forall>a b. up a b \<longrightarrow> fst (m a) = fst (m' b) \<and> (fst (m a) \<noteq> Inl Panics \<longrightarrow> up (snd (m a)) (snd (m' b))))"

lemma simI:
  "(\<And>a b r a'. up a b \<Longrightarrow> m a = (r, a') \<Longrightarrow> \<exists>b'. m' b = (r, b') \<and> (r \<noteq> Inl Panics \<longrightarrow> up a' b')) \<Longrightarrow> sim m m'"
  unfolding sim_def by (metis fst_conv snd_conv surj_pair)

lemma simD: "sim m m' \<Longrightarrow> up a b \<Longrightarrow> m a = (r, a') \<Longrightarrow> \<exists>b'. m' b = (r, b') \<and> (r \<noteq> Inl Panics \<longrightarrow> up a' b')"
  unfolding sim_def by (metis fst_conv snd_conv surj_pair)

lemma sim_bindE:
  assumes "sim m m'" and "\<And>x. sim (k x) (k' x)"
  shows "sim (bindE m k) (bindE m' k')"
proof (rule simI)
  fix a b r a' assume ab: "up a b" and run: "bindE m k a = (r, a')"
  obtain s c where m: "m a = (s, c)" by fastforce
  from simD [OF assms(1) ab m] obtain d where d: "m' b = (s, d)" "s \<noteq> Inl Panics \<longrightarrow> up c d" by blast
  show "\<exists>b'. bindE m' k' b = (r, b') \<and> (r \<noteq> Inl Panics \<longrightarrow> up a' b')"
  proof (cases s)
    case (Inl f)
    with m d run show ?thesis by (auto simp: bindE_def)
  next
    case (Inr x)
    with m run have "k x c = (r, a')" by (simp add: bindE_def)
    from simD [OF assms(2) _ this] d Inr show ?thesis by (simp add: bindE_def)
  qed
qed

lemma sim_retE: "sim (retE x) (retE x)"
  by (simp add: sim_def)

lemma sim_Pair [simp]: "sim (Pair r) (Pair r)"
  by (simp add: sim_def)

lemma sim_failE: "sim (failE f) (failE f)"
  by (simp add: sim_def)

lemma sim_emit: "sim m m' \<Longrightarrow> sim m (bindE (emit ev) (\<lambda>_. m'))"
  by (rule simI, drule simD) (auto simp: bindE_def emit_def up_def)

lemma sim_emits: "sim m m' \<Longrightarrow> sim m (bindE (emits evs) (\<lambda>_. m'))"
  by (rule simI, drule simD) (auto simp: bindE_def emits_def up_def)

lemma sim_in_context: "sim (in_context f) (in_context f)"
  by (auto simp: sim_def in_context_def up_def)

lemma sim_in_world: "sim (in_world m) (in_world m)"
  by (auto simp: sim_def in_world_def up_def split: prod.split)

lemma sim_dispatch: "sim (dispatch_response A C resp) (dispatch_response A C resp)"
  by (auto simp: sim_def dispatch_response_def up_def split: prod.split option.split llm_response.split)

section \<open>Thinking\<close>

text \<open>The builders collect what \<open>response_stream\<close> took apart.\<close>

definition builder_of :: "env \<Rightarrow> tool_call \<Rightarrow> call_builder" where
  "builder_of E c = \<lparr>cb_id = tc_id c, cb_name = tc_name c, cb_args = json_show E (tc_args c)\<rparr>"

lemma collect_calls:
  "fst (collect_stream (map (\<lambda>(i, c). Inr (call_delta E i c)) (enumerate (length bs) calls) @ [Inr StreamDone]) t bs) =
   Inr (t, bs @ map (builder_of E) calls)"
proof (induction calls arbitrary: bs)
  case Nil
  then show ?case by simp
next
  case (Cons c cs)
  have "(pad_builders (length bs) bs)[length bs := update_builder (Some (tc_id c)) (Some (tc_name c)) (json_show E (tc_args c))
      (pad_builders (length bs) bs ! length bs)] = bs @ [builder_of E c]"
    by (simp add: pad_builders_def nth_append update_builder_def builder_default_def builder_of_def)
  with Cons.IH [of "bs @ [builder_of E c]"] show ?case
    by (simp add: call_delta_def Let_def split: prod.split) (metis fst_conv)
qed

lemma collected_back:
  assumes "\<And>calls c. resp = LlmToolCalls calls \<Longrightarrow> c \<in> set calls \<Longrightarrow>
      ae_json_parse A (json_show A (tc_args c)) = Some (tc_args c)"
    and "resp \<noteq> LlmToolCalls []"
  shows "\<exists>t bs fwd. collect_stream (response_stream (env.truncate A) resp) [] [] = (Inr (t, bs), fwd) \<and>
    collected_response A t bs = resp"
proof (cases resp)
  case (LlmMessage t)
  then show ?thesis by (simp add: collected_response_def)
next
  case (LlmToolCalls calls)
  have "map (build_call A) (map (builder_of (env.truncate A)) calls) = calls"
    using assms(1) [OF LlmToolCalls] by (induction calls) (simp_all add: build_call_def builder_of_def env.defs)
  with LlmToolCalls assms(2) collect_calls [of "env.truncate A" "[]" calls "[]"] show ?thesis
    by (cases "collect_stream (response_stream (env.truncate A) resp) [] []") (simp add: collected_response_def)
qed

text \<open>A model that calls tools names one at least, and the arguments read back from their text.\<close>

definition readable_calls ::
  "aenv \<Rightarrow> (message list \<Rightarrow> tool_schema list \<Rightarrow> ('w, atta_error, llm_response) io) \<Rightarrow> bool" where
  "readable_calls A chat \<longleftrightarrow>
     (\<forall>ms ts w calls w'. chat ms ts w = (Inr (LlmToolCalls calls), w') \<longrightarrow> calls \<noteq> [] \<and>
        (\<forall>c \<in> set calls. ae_json_parse A (json_show A (tc_args c)) = Some (tc_args c)))"

lemma sim_think:
  assumes llm: "ac_llm C = default_llm (env.truncate A) chat info"
    and chat: "readable_calls A chat"
  shows "sim (think A C) (think_streaming A C)"
proof (rule simI)
  fix a b r a' assume ab: "up a b" and run: "think A C a = (r, a')"
  let ?ctx = "truncate_to_fit (env.truncate A) (ag_context a)"
  obtain s w where c: "chat (cv_messages ?ctx) (tools_for_llm C) (ag_world a) = (s, w)" by fastforce
  show "\<exists>b'. think_streaming A C b = (r, b') \<and> (r \<noteq> Inl Panics \<longrightarrow> up a' b')"
  proof (cases s)
    case (Inl e)
    with c run ab show ?thesis
      by (auto simp: think_def think_streaming_def llm default_llm_def bindE_def in_context_def in_world_def lift_fault_def up_def)
  next
    case (Inr resp)
    with c chat have "resp \<noteq> LlmToolCalls []" unfolding readable_calls_def by metis
    moreover have "ae_json_parse A (json_show A (tc_args k)) = Some (tc_args k)"
      if "resp = LlmToolCalls calls" "k \<in> set calls" for calls k
      using chat c Inr that unfolding readable_calls_def by blast
    ultimately obtain t bs fwd where
      "collect_stream (response_stream (env.truncate A) resp) [] [] = (Inr (t, bs), fwd)" "collected_response A t bs = resp"
      using collected_back [of resp A] by blast
    with Inr c run ab show ?thesis
      by (auto simp: think_def think_streaming_def llm default_llm_def bindE_def in_context_def in_world_def lift_fault_def
          note_usage_def emits_def up_def)
  qed
qed

section \<open>Acting\<close>

lemma parallel_fifo:
  assumes "\<And>w. rg_pick R w = 0"
  shows "run_parallel R f calls = run_sequential f calls"
proof (induction calls)
  case Nil
  then show ?case by (simp add: run_parallel.simps)
next
  case (Cons c cs)
  then show ?case
    by (intro ext) (simp add: run_parallel.simps [of R f "c # cs"] assms)
qed

lemma configured_ignores: "configured_call E R (cfg\<lparr>te_max_repeated := n\<rparr>) = configured_call E R cfg"
proof -
  have "hooked_args (cfg\<lparr>te_max_repeated := n\<rparr>) = hooked_args cfg" "after_hooks (cfg\<lparr>te_max_repeated := n\<rparr>) = after_hooks cfg"
    "invoke_with_timeout R (cfg\<lparr>te_max_repeated := n\<rparr>) = invoke_with_timeout R cfg"
    by (intro ext; simp add: hooked_args_def after_hooks_def invoke_with_timeout_def split: option.split race.split prod.split)+
  then show ?thesis
    by (intro ext) (simp add: configured_call_def invoke_with_hooks_and_timeout_def [abs_def])
qed

lemma configured_error: "configured_call E R cfg c w = (Inl f, w') \<Longrightarrow> f = Panics"
  by (auto simp: configured_call_def call_entry_def tryE_def split: prod.splits sum.splits fault.splits)

text \<open>One call after the other on the agent, without events.\<close>

definition quiet_call :: "aenv \<Rightarrow> 'w agent_config \<Rightarrow> tool_call \<Rightarrow> ('w, tool_result) aio" where
  "quiet_call A C c =
     bindE (in_world (configured_call (env.truncate A) (ac_registry C) (ac_exec C) c)) (\<lambda>r.
     bindE (modifyE (\<lambda>a. a\<lparr>ag_detector := note_output A r (ag_detector a)\<rparr>)) (\<lambda>_. retE r))"

fun quiet_calls :: "aenv \<Rightarrow> 'w agent_config \<Rightarrow> tool_call list \<Rightarrow> ('w, tool_result list) aio" where
  "quiet_calls A C [] = retE []"
| "quiet_calls A C (c # cs) = bindE (quiet_call A C c) (\<lambda>r. bindE (quiet_calls A C cs) (\<lambda>rs. retE (r # rs)))"

lemma sim_delta_call: "sim (quiet_call A C c) (delta_call A C c)"
proof -
  have noted: "sim (bindE (modifyE (\<lambda>a. a\<lparr>ag_detector := note_output A r (ag_detector a)\<rparr>)) (\<lambda>_. retE r))
    (bindE (modifyE (\<lambda>a. a\<lparr>ag_detector := note_output A r (ag_detector a)\<rparr>)) (\<lambda>_. bindE getE (\<lambda>a.
     bindE (emit (ev a)) (\<lambda>_. retE r))))" for r ev
    by (auto simp: sim_def bindE_def emit_def up_def)
  show ?thesis
    unfolding quiet_call_def delta_call_def
    by (intro sim_emit sim_bindE sim_in_world noted)
qed

lemma sim_delta_calls: "sim (quiet_calls A C calls) (delta_calls A C calls)"
  by (induction calls) (auto intro!: sim_bindE sim_retE sim_delta_call)

definition exec_of :: "'w agent \<Rightarrow> 'w exec" where
  "exec_of a = \<lparr>ex_detector = Some (ag_detector a), ex_world = ag_world a\<rparr>"

lemma noted_quiet:
  "noted_calls A (ac_registry C) (ac_exec C) calls (exec_of a) = (r, x) \<Longrightarrow>
   \<exists>d. ex_detector x = Some d \<and> quiet_calls A C calls a = (r, a\<lparr>ag_detector := d, ag_world := ex_world x\<rparr>)"
proof (induction calls arbitrary: a r x)
  case Nil
  then show ?case by (auto simp: exec_of_def)
next
  case (Cons c cs)
  obtain q w where one: "configured_call (env.truncate A) (ac_registry C) (ac_exec C) c (ag_world a) = (q, w)" by fastforce
  show ?case
  proof (cases q)
    case (Inl f)
    with one Cons.prems show ?thesis
      by (auto simp: noted_call_def on_world_def bindE_def exec_of_def quiet_call_def in_world_def)
  next
    case (Inr v)
    let ?a = "a\<lparr>ag_detector := note_output A v (ag_detector a), ag_world := w\<rparr>"
    obtain r' x' where rest: "noted_calls A (ac_registry C) (ac_exec C) cs (exec_of ?a) = (r', x')" by fastforce
    from Cons.IH [OF rest] obtain d where d: "ex_detector x' = Some d"
      "quiet_calls A C cs ?a = (r', ?a\<lparr>ag_detector := d, ag_world := ex_world x'\<rparr>)" by blast
    have "noted_call A (ac_registry C) (ac_exec C) c (exec_of a) = (Inr v, exec_of ?a)"
      using one Inr by (simp add: noted_call_def on_world_def bindE_def exec_of_def note_outputs_def)
    moreover have "quiet_call A C c a = (Inr v, ?a)"
      using one Inr by (simp add: quiet_call_def in_world_def bindE_def)
    ultimately show ?thesis using rest d Cons.prems
      by (cases r') (auto simp: bindE_def)
  qed
qed

text \<open>Recording the outputs after a batch, or after each call, comes to the same where nothing panics.\<close>

lemma batch_noted:
  "run_sequential (configured_call (env.truncate A) R cfg) calls (ex_world x) = (r, w) \<Longrightarrow>
   (case r of
      Inr rs \<Rightarrow> noted_calls A R cfg calls x =
        (Inr rs, x\<lparr>ex_detector := map_option (fold (note_output A) rs) (ex_detector x), ex_world := w\<rparr>)
    | Inl f \<Rightarrow> f = Panics \<and> fst (noted_calls A R cfg calls x) = Inl Panics)"
proof (induction calls arbitrary: x r w)
  case Nil
  then show ?case by (auto simp: option.map_id)
next
  case (Cons c cs)
  obtain q v where one: "configured_call (env.truncate A) R cfg c (ex_world x) = (q, v)" by fastforce
  show ?case
  proof (cases q)
    case (Inl f)
    with one Cons.prems configured_error [of "env.truncate A" R cfg c "ex_world x" f v] show ?thesis
      by (auto simp: noted_call_def on_world_def bindE_def)
  next
    case (Inr t)
    let ?x = "x\<lparr>ex_detector := map_option (note_output A t) (ex_detector x), ex_world := v\<rparr>"
    have n: "noted_call A R cfg c x = (Inr t, ?x)"
      using one Inr by (cases x) (simp add: noted_call_def on_world_def bindE_def note_outputs_def)
    obtain r' w' where rest: "run_sequential (configured_call (env.truncate A) R cfg) cs (ex_world ?x) = (r', w')" by fastforce
    from Cons.IH [OF rest] n one Inr rest Cons.prems show ?thesis
      by (cases r'; cases "noted_calls A R cfg cs ?x") (auto simp: bindE_def option.map_comp comp_def)
  qed
qed

lemma batch_quiet:
  assumes fifo: "\<And>w. rg_pick (ac_registry C) w = 0"
    and run: "(if par then bindE (on_world (run_parallel (ac_registry C) (configured_call (env.truncate A) (ac_registry C)
        (ac_exec C\<lparr>te_max_repeated := 0\<rparr>)) calls)) (\<lambda>rs. bindE (note_outputs A rs) (\<lambda>_. retE rs)) (exec_of a)
      else noted_calls A (ac_registry C) (ac_exec C) calls (exec_of a)) = (r, x)"
  shows "\<exists>b. quiet_calls A C calls a = (r, b) \<and>
    (r \<noteq> Inl Panics \<longrightarrow> up (a\<lparr>ag_detector := the (ex_detector x), ag_world := ex_world x\<rparr>) b)"
proof -
  obtain n y where n: "noted_calls A (ac_registry C) (ac_exec C) calls (exec_of a) = (n, y)" by fastforce
  from noted_quiet [OF n] obtain d where d: "ex_detector y = Some d"
    "quiet_calls A C calls a = (n, a\<lparr>ag_detector := d, ag_world := ex_world y\<rparr>)" by blast
  have "r = n \<and> (r \<noteq> Inl Panics \<longrightarrow> x = y)"
  proof (cases par)
    case False
    with run n show ?thesis by simp
  next
    case True
    obtain s w where s: "run_sequential (configured_call (env.truncate A) (ac_registry C) (ac_exec C)) calls (ex_world (exec_of a)) = (s, w)"
      by fastforce
    from True run have "bindE (on_world (run_sequential (configured_call (env.truncate A) (ac_registry C) (ac_exec C)) calls))
        (\<lambda>rs. bindE (note_outputs A rs) (\<lambda>_. retE rs)) (exec_of a) = (r, x)"
      by (simp add: parallel_fifo [OF fifo] configured_ignores)
    with s batch_noted [OF s] n show ?thesis
      by (cases s) (auto simp: bindE_def on_world_def note_outputs_def)
  qed
  with d show ?thesis by (auto simp: up_def)
qed

lemma delta_check_eq:
  "loop_check A calls (ag_detector a) = (q, d) \<Longrightarrow>
   \<exists>evs. delta_check A calls a = (q, a\<lparr>ag_detector := d, ag_events := evs\<rparr>)"
  by (cases "record_calls A calls (ag_detector a)")
    (auto simp: loop_check_def delta_check_def bindE_def emit_def split: sum.splits list.splits
      intro: exI [of _ "ag_events a"])

lemma sim_act:
  assumes fifo: "\<And>w. rg_pick (ac_registry C) w = 0"
  shows "sim (act A C calls) (execute_tools_with_deltas A C calls)"
proof (rule simI)
  fix a b r a' assume ab: "up a b" and run: "act A C calls a = (r, a')"
  obtain q d where q: "loop_check A calls (ag_detector a) = (q, d)" by fastforce
  with ab have "loop_check A calls (ag_detector b) = (q, d)" by (simp add: up_def)
  from delta_check_eq [OF this] obtain evs where
    db: "delta_check A calls b = (q, b\<lparr>ag_detector := d, ag_events := evs\<rparr>)" by blast
  show "\<exists>b'. execute_tools_with_deltas A C calls b = (r, b') \<and> (r \<noteq> Inl Panics \<longrightarrow> up a' b')"
  proof (cases "q = Inr None")
    case False
    with run q db ab show ?thesis
      by (cases q) (auto simp: act_def execute_tools_configured_def guard_batch_def execute_tools_with_deltas_def bindE_def up_def)
  next
    case True
    let ?a = "a\<lparr>ag_detector := d\<rparr>"
    let ?par = "should_execute_parallel (ac_registry C) (ag_world a) calls"
    obtain s x where s: "(if ?par then bindE (on_world (run_parallel (ac_registry C) (configured_call (env.truncate A) (ac_registry C)
        (ac_exec C\<lparr>te_max_repeated := 0\<rparr>)) calls)) (\<lambda>rs. bindE (note_outputs A rs) (\<lambda>_. retE rs)) (exec_of ?a)
      else noted_calls A (ac_registry C) (ac_exec C) calls (exec_of ?a)) = (s, x)" by fastforce
    from batch_quiet [OF fifo s] obtain c where c: "quiet_calls A C calls ?a = (s, c)"
      "s \<noteq> Inl Panics \<longrightarrow> up (?a\<lparr>ag_detector := the (ex_detector x), ag_world := ex_world x\<rparr>) c" by blast
    have "up ?a (b\<lparr>ag_detector := d, ag_events := evs\<rparr>)" using ab by (simp add: up_def)
    from simD [OF sim_delta_calls this c(1)] obtain e where e:
      "delta_calls A C calls (b\<lparr>ag_detector := d, ag_events := evs\<rparr>) = (s, e)" "s \<noteq> Inl Panics \<longrightarrow> up c e" by blast
    have "act A C calls a = (s, a\<lparr>ag_detector := the (ex_detector x), ag_world := ex_world x\<rparr>)"
    proof -
      have g: "guard_batch A calls (exec_of a) = (Inr None, exec_of ?a)"
        using q True by (simp add: guard_batch_def exec_of_def)
      have w: "ex_world (exec_of ?a) = ag_world a" by (simp add: exec_of_def)
      have "execute_tools_configured A (ac_registry C) (ac_exec C) calls (exec_of a) = (s, x)"
        unfolding execute_tools_configured_def bindE_ok [of "guard_batch A calls", OF g] option.case w by (rule s)
      then show ?thesis by (simp add: act_def exec_of_def)
    qed
    with run have "r = s" "a' = a\<lparr>ag_detector := the (ex_detector x), ag_world := ex_world x\<rparr>" by simp_all
    with db True e c(2) show ?thesis
      by (auto simp: execute_tools_with_deltas_def bindE_def up_def)
  qed
qed

section \<open>The two runs\<close>

lemma sim_step:
  assumes "ac_llm C = default_llm (env.truncate A) chat info"
    and "readable_calls A chat"
    and "\<And>w. rg_pick (ac_registry C) w = 0"
  shows "sim (react_step A C) (streaming_step A C i)"
  unfolding react_step_def streaming_step_def
proof (rule sim_emit, rule sim_bindE [OF sim_think [OF assms(1,2)]], rule sim_bindE [OF sim_dispatch])
  fix resp d
  show "sim
     (case d of
        FinalAnswer text \<Rightarrow>
          bindE (in_context (add_assistant text)) (\<lambda>_. retE (Some (answer_json text)))
      | DispatchCalls calls \<Rightarrow>
          bindE (in_context (add_assistant_tool_calls calls)) (\<lambda>_.
          bindE (act A C calls) (\<lambda>rs.
          bindE (in_context (observe (env.truncate A) rs)) (\<lambda>_. retE None))))
     (case d of
        DispatchCalls calls \<Rightarrow>
          bindE (in_context (add_assistant_tool_calls calls)) (\<lambda>_.
          bindE (execute_tools_with_deltas A C calls) (\<lambda>rs.
          bindE (in_context (observe (env.truncate A) rs)) (\<lambda>_. retE None)))
      | FinalAnswer text \<Rightarrow>
          bindE (in_context (add_assistant text)) (\<lambda>_.
          bindE (emits (answer_events i text)) (\<lambda>_. retE (Some (answer_json text)))))"
    by (cases d) (auto intro!: sim_bindE sim_in_context sim_act sim_emits sim_retE assms(3))
qed

lemma sim_loop:
  assumes "\<And>i. sim (react_step A C) (streaming_step A C i)"
  shows "sim (react_loop A C k) (streaming_loop A C k i)"
proof (induction k arbitrary: i)
  case 0
  show ?case using sim_failE by simp
next
  case (Suc k)
  have "sim (case v of Some x \<Rightarrow> retE x | None \<Rightarrow> react_loop A C k)
      (case v of Some x \<Rightarrow> retE x | None \<Rightarrow> streaming_loop A C k (i + 1))" for v
    using Suc sim_retE by (cases v) auto
  with assms show ?case by (simp add: sim_bindE)
qed

text \<open>
  C19. Where the provider streams by the default method of the trait, the model never asks for an empty list of calls, the
  printed arguments of the calls it asks for read back, and parallel calls take effect in their order: the streaming run
  returns what the plain run returns, and unless that is a panic it leaves the same conversation, detector, world and
  usage and differs in the reported events only.
\<close>

theorem streaming_equals_plain:
  assumes "ac_llm C = default_llm (env.truncate A) chat info"
    and "readable_calls A chat"
    and "\<And>w. rg_pick (ac_registry C) w = 0"
    and "react_run A C a = (r, b)"
  shows "\<exists>b'. run_streaming A C a = (r, b') \<and> (r \<noteq> Inl Panics \<longrightarrow> (\<exists>evs. b' = b\<lparr>ag_events := evs\<rparr>))"
proof -
  obtain q c where q: "maybe_run_research A C a = (q, c)" by fastforce
  show ?thesis
  proof (cases q)
    case (Inl f)
    have "b = b\<lparr>ag_events := ag_events b\<rparr>" by simp
    with q Inl assms(4) show ?thesis
      by (intro exI [of _ b] conjI impI exI [of _ "ag_events b"]) (auto simp: react_run_def run_streaming_def bindE_def)
  next
    case (Inr u)
    with q assms(4) have "react_loop A C (unat (ac_max_iterations C)) c = (r, b)" by (simp add: react_run_def bindE_def)
    moreover have "up c c" by (simp add: up_def)
    ultimately obtain b' where b': "streaming_loop A C (unat (ac_max_iterations C)) 1 c = (r, b')" "r \<noteq> Inl Panics \<longrightarrow> up b b'"
      using simD [OF sim_loop [OF sim_step [OF assms(1-3)]]] by blast
    have "up b b' \<Longrightarrow> b' = b\<lparr>ag_events := ag_events b'\<rparr>"
      by (cases b; cases b') (simp add: up_def)
    with b' q Inr show ?thesis by (auto simp: run_streaming_def bindE_def)
  qed
qed

definition stream_demo :: "nat agent_config" where
  "stream_demo = react_new nagging_llm counting_tools 2"

theorem streaming_equals_plain_witness:
  "\<exists>b'. run_streaming demo_texts stream_demo (agent_start (context_new 9) 0) =
      (fst (react_run demo_texts stream_demo (agent_start (context_new 9) 0)), b') \<and>
    (fst (react_run demo_texts stream_demo (agent_start (context_new 9) 0)) \<noteq> Inl Panics \<longrightarrow>
      (\<exists>evs. b' = snd (react_run demo_texts stream_demo (agent_start (context_new 9) 0))\<lparr>ag_events := evs\<rparr>))"
  by (rule streaming_equals_plain [OF _ _ _ surjective_pairing])
    (auto simp: readable_calls_def stream_demo_def react_new_def nagging_llm_def counting_tools_def demo_texts_def)

end
