(* ===== verification/Coordinator.thy ===== *)
theory Coordinator
  imports Agent_Stream Cron
begin

text \<open>
  The coordinator (\<open>crates/core/src/coordinator.rs\<close>): it subscribes to five topics, spawns an agent when a flow has entered
  an agent state, advances the flow when the agent is done, and runs the command of a cron job.

  A spawned task is a \<open>job\<close> in the state, and \<open>run_job\<close> is its body; so jobs and events interleave in any order. The
  text of the system prompt (\<open>crates/agent/src/prompt\<close>) and the printed input of the task are parameters. The usage
  records and the forwarding of deltas, tasks of their own that write to no table modelled here, are left out, as is
  the broadcast to web socket clients.
\<close>

datatype job =
    AgentJob uuid "tool_schema list" string string
  | CronJob string string "tool_schema list" string string

record 'm coord_env =
  ce_llm :: "'m llm"
  ce_registry :: "'m tool_registry"
  ce_schemas :: "'m \<Rightarrow> tool_schema list"
  ce_prompt :: "tool_schema list \<Rightarrow> string \<Rightarrow> string"
  ce_instructions :: "dispatcher \<Rightarrow> string option"
  ce_pretty :: "json \<Rightarrow> string"
  ce_get_tool :: "string \<Rightarrow> tool_def option"

record 'm coord =
  cd_world :: world
  cd_tools :: 'm
  cd_jobs :: "job list"

type_synonym ('m, 'a) cio = "('m coord, atta_error, 'a) io"

definition in_store :: "'a wio \<Rightarrow> ('m, 'a) cio" where
  "in_store m = (\<lambda>c. case m (cd_world c) of (r, w) \<Rightarrow> (r, c\<lparr>cd_world := w\<rparr>))"

definition spawn_job :: "job \<Rightarrow> ('m, unit) cio" where
  "spawn_job j = modifyE (\<lambda>c. c\<lparr>cd_jobs := cd_jobs c @ [j]\<rparr>)"

definition system_prompt :: "'m coord_env \<Rightarrow> 'm \<Rightarrow> string \<Rightarrow> string" where
  "system_prompt K v state =
     (let p = ce_prompt K (ce_schemas K v) state in
      case ce_instructions K (select_dispatcher (llm_model_info (ce_llm K))) of
        None \<Rightarrow> p
      | Some t \<Rightarrow> p @ [CHR 0x0A, CHR 0x0A] @ t)"

definition payload_str :: "event_envelope \<Rightarrow> string \<Rightarrow> string" where
  "payload_str ev k = (case jget_str (ev_payload ev) k of None \<Rightarrow> [] | Some s \<Rightarrow> s)"

section \<open>Handlers\<close>

definition spawn_agent :: "genv \<Rightarrow> 'm coord_env \<Rightarrow> task \<Rightarrow> uuid \<Rightarrow> string \<Rightarrow> state_def \<Rightarrow> ('m, unit) cio" where
  "spawn_agent E K t i to sd =
     bindE (in_store (ev_agent_assigned E i (case sd_agent sd of None \<Rightarrow> ''react'' | Some a \<Rightarrow> a))) (\<lambda>ev.
     bindE (in_store (publish E ''atta.agent.assigned'' ev)) (\<lambda>_.
     bindE getE (\<lambda>c.
     spawn_job (AgentJob i (ce_schemas K (cd_tools c)) (system_prompt K (cd_tools c) to) (ce_pretty K (t_input t))))))"

definition on_flow_advanced :: "genv \<Rightarrow> 'm coord_env \<Rightarrow> event_envelope \<Rightarrow> ('m, unit) cio" where
  "on_flow_advanced E K ev =
     (case uuid_parse E (er_id (ev_entity ev)) of
        None \<Rightarrow> retE ()
      | Some i \<Rightarrow>
          let to = payload_str ev ''to'' in
          bindE (in_store (store_call E (get_task i))) (\<lambda>found.
          case found of
            None \<Rightarrow> retE ()
          | Some t \<Rightarrow>
              tryE (in_store (get_flow_def (t_flow_id t))) (\<lambda>r.
              case r of
                Inl _ \<Rightarrow> retE ()
              | Inr f \<Rightarrow>
                  (case map_of (fd_states f) to of
                     None \<Rightarrow> retE ()
                   | Some sd \<Rightarrow> if sd_type sd \<noteq> AgentState then retE () else spawn_agent E K t i to sd))))"

definition on_agent_completed :: "genv \<Rightarrow> 'm coord_env \<Rightarrow> event_envelope \<Rightarrow> ('m, unit) cio" where
  "on_agent_completed E K ev =
     (case uuid_parse E (er_id (ev_entity ev)) of
        None \<Rightarrow> retE ()
      | Some i \<Rightarrow> in_store (advance_by_id E (ce_get_tool K) i))"

definition on_agent_error :: "genv \<Rightarrow> 'm coord_env \<Rightarrow> event_envelope \<Rightarrow> ('m, unit) cio" where
  "on_agent_error E K ev =
     (case uuid_parse E (er_id (ev_entity ev)) of
        None \<Rightarrow> retE ()
      | Some i \<Rightarrow> tryE (in_store (advance_by_id E (ce_get_tool K) i)) (\<lambda>_. retE ()))"

definition on_cron_triggered :: "'m coord_env \<Rightarrow> event_envelope \<Rightarrow> ('m, unit) cio" where
  "on_cron_triggered K ev =
     (let command = payload_str ev ''command'' in
      if command = [] then retE ()
      else bindE getE (\<lambda>c.
        spawn_job (CronJob (payload_str ev ''job_id'') (payload_str ev ''run_id'') (ce_schemas K (cd_tools c))
          (system_prompt K (cd_tools c) ''cron_execution'') command)))"

text \<open>The loops over the five streams: an error of a handler is logged.\<close>

definition coord_handle :: "genv \<Rightarrow> 'm coord_env \<Rightarrow> string \<times> event_envelope \<Rightarrow> 'm coord \<Rightarrow> 'm coord" where
  "coord_handle E K e c =
     (case e of (topic, ev) \<Rightarrow>
        if topic = ''atta.flow.advanced'' then snd (on_flow_advanced E K ev c)
        else if topic = ''atta.agent.completed'' then snd (on_agent_completed E K ev c)
        else if topic = ''atta.agent.error'' then snd (on_agent_error E K ev c)
        else if topic = ''atta.cron.triggered'' then snd (on_cron_triggered K ev c)
        else c)"

section \<open>The spawned tasks\<close>

definition agent_config_of :: "'m coord_env \<Rightarrow> tool_schema list \<Rightarrow> 'm agent_config" where
  "agent_config_of K tools =
     (react_new (ce_llm K) (ce_registry K) 10)
       \<lparr>ac_tools := tools, ac_dispatcher := Some (select_dispatcher (llm_model_info (ce_llm K))),
        ac_usage_callback := True\<rparr>"

definition first_context :: "string \<Rightarrow> string \<Rightarrow> conversation" where
  "first_context prompt msg = add_user msg (set_system prompt (context_new 128000))"

definition ignore :: "('m, 'a) cio \<Rightarrow> ('m, unit) cio" where
  "ignore m = tryE m (\<lambda>_. retE ())"

definition finish_agent :: "genv \<Rightarrow> uuid \<Rightarrow> fault + json \<Rightarrow> ('m, unit) cio" where
  "finish_agent E i result =
     (case result of
        Inr output \<Rightarrow>
          bindE (ignore (in_store (store_call_now E (merge_task_state_data E i
            (mk_obj [(''agent_output'', output), (''agent_status'', JStr ''completed'')]))))) (\<lambda>_.
          ignore (bindE (in_store (ev_agent_completed E i output 0)) (\<lambda>ev.
            in_store (publish E ''atta.agent.completed'' ev))))
      | Inl (Fails e) \<Rightarrow>
          bindE (ignore (in_store (store_call_now E (merge_task_state_data E i
            (mk_obj [(''agent_status'', JStr ''error''), (''error'', JStr (error_show e))]))))) (\<lambda>_.
          ignore (bindE (in_store (ev_agent_error E i (error_show e))) (\<lambda>ev.
            in_store (publish E ''atta.agent.error'' ev))))
      | Inl Panics \<Rightarrow> retE ())"

definition finish_cron :: "genv \<Rightarrow> string \<Rightarrow> string \<Rightarrow> fault + json \<Rightarrow> ('m, unit) cio" where
  "finish_cron E job_id run_id result =
     (case result of
        Inl Panics \<Rightarrow> retE ()
      | r \<Rightarrow>
          bindE (in_store (now_io E)) (\<lambda>started.
          bindE (in_store (now_io E)) (\<lambda>completed.
          let run = \<lparr>cr_id = run_id, cr_job_id = job_id, cr_status = CronCompleted, cr_started_at = started,
                     cr_completed_at = Some completed, cr_output = None, cr_error = None,
                     cr_triggered_by = ''scheduler''\<rparr> in
          ignore (in_store (store_call E (save_cron_run E (case r of
             Inr output \<Rightarrow> run\<lparr>cr_output := Some (json_show E output)\<rparr>
           | Inl (Fails e) \<Rightarrow> run\<lparr>cr_status := CronFailed, cr_error := Some (error_show e)\<rparr>
           | Inl Panics \<Rightarrow> run)))))))"

definition run_job :: "genv \<Rightarrow> aenv \<Rightarrow> 'm coord_env \<Rightarrow> job \<Rightarrow> 'm coord \<Rightarrow> 'm coord" where
  "run_job E A K j c =
     (case j of
        AgentJob i tools prompt msg \<Rightarrow>
          (case run_streaming A (agent_config_of K tools) (agent_start (first_context prompt msg) (cd_tools c)) of
             (r, a) \<Rightarrow> snd (finish_agent E i r (c\<lparr>cd_tools := ag_world a\<rparr>)))
      | CronJob job_id run_id tools prompt command \<Rightarrow>
          (case react_run A (agent_config_of K tools) (agent_start (first_context prompt command) (cd_tools c)) of
             (r, a) \<Rightarrow> snd (finish_cron E job_id run_id r (c\<lparr>cd_tools := ag_world a\<rparr>))))"

end
