(* ===== verification/Coordinator_Props.thy ===== *)
theory Coordinator_Props
  imports Coordinator
begin

text \<open>
  How the coordinator joins the flow engine, the agents and the cron engine: what an event does to the jobs and to the
  stored tasks, in a quiet environment (no driver or bus failure and no other request in between).
\<close>

section \<open>Store calls on the coordinator's state\<close>

lemma in_store_eq: "in_store m c = (fst (m (cd_world c)), c\<lparr>cd_world := snd (m (cd_world c))\<rparr>)"
  by (simp add: in_store_def split: prod.split)

lemma quiet_event_published:
  assumes "quiet E"
  shows "\<exists>x w'. bindE (in_store (event_new E ty en who corr p)) (\<lambda>ev. in_store (publish E topic ev)) c =
      (Inr (), c\<lparr>cd_world := w'\<rparr>) \<and> w_db w' = w_db (cd_world c) \<and> w_flows w' = w_flows (cd_world c) \<and>
      w_log w' = w_log (cd_world c) @ [(topic, x)] \<and> ev_entity x = en \<and> ev_payload x = p"
  unfolding bindE_def in_store_eq event_new_def fresh_uuid_def now_io_def
  by (simp add: publish_quiet [OF assms]) (intro exI conjI, rule refl, simp_all, simp_all)

section \<open>Which events start an agent\<close>




text \<open>A flow whose agent is waited for: its transition asks for the status that the finished agent leaves.\<close>

definition work_flow :: flow_def where
  "work_flow = demo_flow
     \<lparr>fd_id := ''work'', fd_initial_state := ''think'',
      fd_states := [(''think'', demo_state AgentState [when_to ''all_done'' ''done'']), (''done'', demo_state EndState [])]\<rparr>"

definition demo_coord_env :: "nat coord_env" where
  "demo_coord_env =
     \<lparr>ce_llm = nagging_llm, ce_registry = counting_tools, ce_schemas = (\<lambda>_. []), ce_prompt = (\<lambda>_ s. s),
      ce_instructions = (\<lambda>_. None), ce_pretty = (\<lambda>_. ''{}''), ce_get_tool = (\<lambda>_. None)\<rparr>"

definition demo_coord :: "nat coord" where
  "demo_coord =
     \<lparr>cd_world = (demo_world work_flow (demo_db ''think'' ''running'' (JObj [])))
        \<lparr>w_db := (demo_db ''think'' ''running'' (JObj []))
          \<lparr>db_tasks := [(1, demo_row ''work'' ''think'' ''running'' (JObj []))], db_flow_states := [(1, demo_fstate ''think'')]\<rparr>\<rparr>,
      cd_tools = 0, cd_jobs = []\<rparr>"



section \<open>The end of an agent\<close>

definition success_patch :: "json \<Rightarrow> json" where
  "success_patch output = mk_obj [(''agent_output'', output), (''agent_status'', JStr ''completed'')]"

lemma merge_stored:
  assumes "stored i fid (s, d, st) w"
  shows "\<exists>d'. merge_task_state_data E i p now (w_db w) = (Inr (), d') \<and>
     stored i fid (s, shallow_merge d p, st) (w\<lparr>w_db := d', w_clk := k, w_calls := m\<rparr>)"
proof -
  from assms obtain r fr where r: "tbl_get (db_tasks (w_db w)) i = Some r" "tbl_get (db_flow_states (w_db w)) i = Some fr"
    "rw_flow_id r = fid" "s = rw_current_state r" "d = rw_state_data r" "st = task_status_from_db (rw_status r) (rw_error_message r)"
    by (auto simp: stored_def)
  then show ?thesis by (simp add: merge_task_state_data_def stored_def tbl_get_update)
qed

lemma stored_cong: "w_db w' = w_db w \<Longrightarrow> stored i fid c w' = stored i fid c w"
  by (simp add: stored_def)

text \<open>
  C15. Where neither store nor bus fails and nothing interferes, the task is stored, its flow is cached and has no parallel
  state, and the text of its identifier reads back: when the agent of the task succeeds, its completion is announced,
  and the announcement moves the task: the flow runs on from the data with the output of the agent merged in.
\<close>

theorem finished_agent_moves_task:
  assumes "quiet E" and "no_parallel f" and "stored i (fd_id f) (s, d, st) (cd_world c)"
    and "tbl_get (w_flows (cd_world c)) (fd_id f) = Some f"
    and "uuid_parse E (uuid_show E i) = Some i"
    and "run_streaming A (agent_config_of K tools) (agent_start (first_context prompt msg) (cd_tools c)) = (Inr output, a)"
  shows "\<exists>ev. let c' = run_job E A K (AgentJob i tools prompt msg) c in
     w_log (cd_world c') = w_log (cd_world c) @ [(''atta.agent.completed'', ev)] \<and>
     stored i (fd_id f) (snd (flow_run (cascade_error E i) (ce_get_tool K) f 100 (s, shallow_merge d (success_patch output), st)))
       (cd_world (coord_handle E K (''atta.agent.completed'', ev) c'))"
proof -
  let ?w = "cd_world c" and ?c = "c\<lparr>cd_tools := ag_world a\<rparr>"
  obtain d1 where d1: "merge_task_state_data E i (success_patch output) (clk E (w_clk ?w)) (w_db ?w) = (Inr (), d1)"
    and st1: "stored i (fd_id f) (s, shallow_merge d (success_patch output), st)
        (?w\<lparr>w_db := d1, w_clk := Suc (w_clk ?w), w_calls := Suc (w_calls ?w)\<rparr>)"
    using merge_stored [OF assms(3)] by metis
  let ?w1 = "?w\<lparr>w_db := d1, w_clk := Suc (w_clk ?w), w_calls := Suc (w_calls ?w)\<rparr>"
  have merged: "ignore (in_store (store_call_now E (merge_task_state_data E i (success_patch output)))) ?c =
      (Inr (), ?c\<lparr>cd_world := ?w1\<rparr>)"
    using store_call_now_quiet [OF assms(1), of "merge_task_state_data E i (success_patch output)" ?w, OF d1]
    by (simp add: ignore_def tryE_def in_store_eq)
  obtain ev w2 where pub: "bindE (in_store (ev_agent_completed E i output 0))
        (\<lambda>ev. in_store (publish E ''atta.agent.completed'' ev)) (?c\<lparr>cd_world := ?w1\<rparr>) = (Inr (), ?c\<lparr>cd_world := w2\<rparr>)"
    and w2: "w_db w2 = w_db ?w1" "w_flows w2 = w_flows ?w1" "w_log w2 = w_log ?w1 @ [(''atta.agent.completed'', ev)]"
      "ev_entity ev = entity_task E i"
    using quiet_event_published [OF assms(1), of "''atta.agent.completed''" "entity_task E i" actor_system i
        "mk_obj [(''output'', output), (''iterations'', JInt (uint (0 :: u32)))]" "''atta.agent.completed''" "?c\<lparr>cd_world := ?w1\<rparr>"]
    unfolding ev_agent_completed_def by (auto simp: surjective)
  have "ignore (bindE (in_store (ev_agent_completed E i output 0))
        (\<lambda>ev. in_store (publish E ''atta.agent.completed'' ev))) (?c\<lparr>cd_world := ?w1\<rparr>) = (Inr (), ?c\<lparr>cd_world := w2\<rparr>)"
    unfolding ignore_def tryE_def pub by simp
  then have "finish_agent E i (Inr output) ?c = (Inr (), ?c\<lparr>cd_world := w2\<rparr>)"
    by (simp only: finish_agent_def sum.case success_patch_def [symmetric] bindE_apply merged prod.case)
  then have job: "run_job E A K (AgentJob i tools prompt msg) c = ?c\<lparr>cd_world := w2\<rparr>"
    by (simp add: run_job_def assms(6))
  have st2: "stored i (fd_id f) (s, shallow_merge d (success_patch output), st) w2" using st1 stored_cong [OF w2(1)] by simp
  obtain w3 where "advance_by_id E (ce_get_tool K) i w2 = (fst (flow_run (cascade_error E i) (ce_get_tool K) f 100
        (s, shallow_merge d (success_patch output), st)), w3)"
    and w3: "stored i (fd_id f) (snd (flow_run (cascade_error E i) (ce_get_tool K) f 100
        (s, shallow_merge d (success_patch output), st))) w3"
    using quiet_rounds [OF assms(1,2) st2, of "ce_get_tool K" 100] w2(2) assms(4)
    by (auto simp: advance_by_id_def max_cascade_depth_def)
  then have "cd_world (coord_handle E K (''atta.agent.completed'', ev) (?c\<lparr>cd_world := w2\<rparr>)) = w3"
    by (simp add: coord_handle_def on_agent_completed_def w2(4) entity_task_def assms(5) in_store_eq)
  with w3 w2(3) show ?thesis unfolding Let_def job by auto
qed

text \<open>A model that answers at once.\<close>

definition answering_env :: "nat coord_env" where
  "answering_env = demo_coord_env\<lparr>ce_llm := default_llm (env.truncate demo_texts) (\<lambda>ms ts n. (Inr (LlmMessage ''ok''), n + 1))
     \<lparr>mi_id = ''m'', mi_window = 9, mi_tools = True, mi_provider = ''p'', mi_streaming = False\<rparr>\<rparr>"

definition round_env :: genv where
  "round_env = demo_env\<lparr>uuid_parse := (\<lambda>s. if s = ''1'' then Some 1 else None)\<rparr>"

lemma round_quiet: "quiet round_env"
  by (simp add: quiet_def round_env_def demo_env_def)

lemma answering_answers:
  "\<exists>a. run_streaming demo_texts (agent_config_of answering_env []) (agent_start (first_context ''p'' ''m'') 0) =
     (Inr (answer_json ''ok''), a)"
proof -
  have k: "unat (ac_max_iterations (agent_config_of answering_env [])) = Suc 9"
    by (simp add: agent_config_of_def react_new_def)
  show ?thesis
    unfolding run_streaming_def k streaming_loop.simps
    by (simp add: bindE_apply maybe_run_research_def streaming_step_def think_streaming_def
        emit_def in_context_def in_world_def lift_fault_def dispatch_response_def answering_env_def default_llm_def
        agent_config_of_def react_new_def select_dispatcher_def demo_coord_env_def agent_start_def first_context_def
        truncate_to_fit_eq collected_response_def emits_def)
qed

lemma answering_runs:
  "fst (react_run demo_texts (agent_config_of answering_env []) (agent_start (first_context ''p'' ''m'') n)) =
     Inr (answer_json ''ok'')"
proof -
  have k: "unat (ac_max_iterations (agent_config_of answering_env [])) = Suc 9"
    by (simp add: agent_config_of_def react_new_def)
  show ?thesis
    unfolding react_run_def k react_loop.simps
    by (simp add: bindE_apply maybe_run_research_def react_step_def think_def note_usage_def
        in_context_def in_world_def lift_fault_def dispatch_response_def answering_env_def default_llm_def
        agent_config_of_def react_new_def select_dispatcher_def demo_coord_env_def agent_start_def first_context_def
        truncate_to_fit_eq)
qed

theorem finished_agent_moves_task_witness:
  "\<exists>ev. let c' = run_job round_env demo_texts answering_env (AgentJob 1 [] ''p'' ''m'') demo_coord in
     w_log (cd_world c') = [(''atta.agent.completed'', ev)] \<and>
     stored 1 ''work'' (snd (flow_run (cascade_error round_env 1) (\<lambda>_. None) work_flow 100
         (''think'', shallow_merge (JObj []) (success_patch (answer_json ''ok'')), Running)))
       (cd_world (coord_handle round_env answering_env (''atta.agent.completed'', ev) c'))"
proof -
  obtain a where "run_streaming demo_texts (agent_config_of answering_env [])
      (agent_start (first_context ''p'' ''m'') (cd_tools demo_coord)) = (Inr (answer_json ''ok''), a)"
    using answering_answers by (auto simp: demo_coord_def)
  moreover have "no_parallel work_flow" "fd_id work_flow = ''work''"
    by (simp_all add: no_parallel_def work_flow_def demo_state_def)
  moreover have "stored 1 ''work'' (''think'', JObj [], Running) (cd_world demo_coord)"
    "tbl_get (w_flows (cd_world demo_coord)) ''work'' = Some work_flow" "w_log (cd_world demo_coord) = []"
    by (simp_all add: stored_def demo_coord_def work_flow_def demo_simps tbl_get_def task_status_from_db_def)
  moreover have "uuid_parse round_env (uuid_show round_env 1) = Some 1"
    by (simp add: round_env_def demo_env_def show_nat.simps [of "Suc 0"] char_of_def bit_0)
  moreover have "ce_get_tool answering_env = (\<lambda>_. None)" by (simp add: answering_env_def demo_coord_env_def)
  ultimately show ?thesis
    using finished_agent_moves_task [OF round_quiet, of work_flow 1 "''think''" "JObj []" Running demo_coord demo_texts
        answering_env "[]" "''p''" "''m''" "answer_json ''ok''" a]
    by simp
qed

section \<open>Runs of cron jobs\<close>

text \<open>
  The result of a cron job replaces the record of its run: it is always triggered by the scheduler and begins when it
  ends, also for a run that a user has started earlier.
\<close>

theorem cron_result_rewrites_run:
  assumes "quiet E" and "tbl_get (db_cron_jobs (w_db (cd_world c))) job_id \<noteq> None"
    and "fst (react_run A (agent_config_of K tools) (agent_start (first_context prompt command) (cd_tools c))) \<noteq> Inl Panics"
  shows "\<exists>run. tbl_get (db_cron_runs (w_db (cd_world (run_job E A K (CronJob job_id run_id tools prompt command) c)))) run_id =
       Some run \<and> cr_triggered_by run = ''scheduler'' \<and> cr_started_at run = clk E (w_clk (cd_world c)) \<and>
     cr_status run \<in> {CronCompleted, CronFailed}"
proof -
  obtain r a where run: "react_run A (agent_config_of K tools) (agent_start (first_context prompt command) (cd_tools c)) = (r, a)"
    by fastforce
  note defs = run_job_def run finish_cron_def bindE_apply in_store_eq now_io_def ignore_def tryE_def
    store_call_quiet [OF assms(1)] save_cron_run_def Let_def tbl_get_snoc tbl_get_delete
  show ?thesis
  proof (cases r)
    case (Inr v)
    with assms(2) show ?thesis by (auto simp: defs)
  next
    case (Inl e)
    with assms(2,3) run show ?thesis by (cases e) (auto simp: defs)
  qed
qed

definition cron_coord :: "nat coord" where
  "cron_coord = demo_coord\<lparr>cd_world := demo_world demo_flow cron_db\<rparr>"

theorem cron_result_rewrites_run_witness:
  "\<exists>run. tbl_get (db_cron_runs (w_db (cd_world (run_job demo_env demo_texts answering_env
       (CronJob ''j1'' ''r0'' [] ''p'' ''m'') cron_coord)))) ''r0'' = Some run \<and>
     cr_triggered_by run = ''scheduler'' \<and> cr_started_at run = clk demo_env (w_clk (cd_world cron_coord)) \<and>
     cr_status run \<in> {CronCompleted, CronFailed}"
proof (rule cron_result_rewrites_run [OF demo_quiet])
  show "tbl_get (db_cron_jobs (w_db (cd_world cron_coord))) ''j1'' \<noteq> None"
    by (simp add: cron_coord_def demo_world_def cron_db_def tbl_get_def)
  show "fst (react_run demo_texts (agent_config_of answering_env []) (agent_start (first_context ''p'' ''m'') (cd_tools cron_coord)))
      \<noteq> Inl Panics"
    by (simp add: answering_runs)
qed

section \<open>The shipped flow of a code review\<close>

text \<open>\<open>flows/code-review.yaml\<close> as the engine loads it.\<close>

definition code_review_flow :: flow_def where
  "code_review_flow =
     \<lparr>fd_id = ''code_review'', fd_version = ''1.0'', fd_name = Some ''Code Review'',
      fd_description = Some ''Automated code review: analyze changes, gate for human approval, then apply fixes.'',
      fd_initial_state = ''start'',
      fd_states =
        [(''start'', demo_state StartState [auto_to ''analyze'']),
         (''analyze'', (demo_state AgentState [when_to ''has_high_risk_tools'' ''review_gate'', auto_to ''done''])
            \<lparr>sd_skill := Some ''code-review'', sd_on_enter := Some [Log ''Starting code analysis'']\<rparr>),
         (''review_gate'', (demo_state GateState [when_to ''approved'' ''apply_fixes'', when_to ''denied'' ''done''])
            \<lparr>sd_gate := Some \<lparr>gate_approver_role = ''developer'', gate_timeout = ''24h'', gate_on_timeout = ''done'',
               gate_notify = None, gate_context = None\<rparr>\<rparr>),
         (''apply_fixes'', (demo_state AgentState [auto_to ''done''])
            \<lparr>sd_skill := Some ''fix-bug'', sd_on_enter := Some [Log ''Applying approved fixes'']\<rparr>),
         (''done'', demo_state EndState [])],
      fd_on_error = Some \<lparr>ep_max_retries = 2, ep_retry_states = [''analyze'', ''apply_fixes''], ep_fallback = ''done''\<rparr>,
      fd_skills = [], fd_source = ''builtin''\<rparr>"

lemma review_not_awaited:
  "flow_run over tools code_review_flow 100 (''start'', JObj [], st) = (Inr (), (''done'', JObj [], Completed))"
proof -
  have n: "(100 :: nat) = Suc (Suc (Suc 97))" by simp
  have risk: "holds tools (JObj []) ''has_high_risk_tools'' = Inr False"
    by (simp add: holds_def evaluate_def parse_name name_ok_def plain_def is_ws_def eval_ident_def data_task_def)
  show ?thesis
    unfolding n flow_run.simps
    by (simp add: flow_step_def code_review_flow_def demo_state_def auto_to_def when_to_def is_auto_def risk
        on_enter_of_def status_at_def status_on_enter_def end_status_def data_task_def)
qed

lemma quiet_create:
  assumes "quiet E" and "no_parallel f"
    and "tbl_get (w_flows w) (fd_id f) = Some f" and "tbl_get (db_flow_defs (w_db w)) (fd_id f) \<noteq> None"
    and "tbl_get (db_tasks (w_db w)) i = None" and "tbl_get (db_flow_states (w_db w)) i = None"
    and "i = new_uuid E (w_uid w)"
    and "flow_run (cascade_error E i) tools f 100 (fd_initial_state f, mk_obj [], Running) = (Inr (), c)"
  shows "\<exists>t w'. engine_create_task E tools (fd_id f) input who w = (Inr t, w') \<and> t_id t = i \<and> stored i (fd_id f) c w'"
proof -
  define t where "t = new_task i f (fd_id f) input who (clk E (w_clk w))"
  let ?w0 = "w\<lparr>w_clk := Suc (w_clk w), w_uid := Suc (w_uid w)\<rparr>"
  have t: "t_id t = i" "t_flow_id t = fd_id f" by (simp_all add: t_def new_task_def)
  obtain d1 where d1: "create_task_with_flow t (new_flow_state i f) (clk E (Suc (w_clk w))) (w_db w) = (Inr (), d1)"
    and st: "\<And>w'. w_db w' = d1 \<Longrightarrow> stored i (fd_id f) (fd_initial_state f, mk_obj [], Running) w'"
  proof -
    obtain d1 where "create_task_with_flow t (new_flow_state i f) (clk E (Suc (w_clk w))) (w_db w) = (Inr (), d1)"
      using assms(4-6) t by (auto simp: create_task_with_flow_def tbl_insert_def)
    moreover from this have "tbl_get (db_tasks d1) i = Some (task_row_of t 0)"
      "\<exists>fr. tbl_get (db_flow_states d1) i = Some fr"
      using assms(5,6) t by (auto simp: create_task_with_flow_def tbl_insert_def tbl_get_snoc split: if_splits)
    then have "w_db w' = d1 \<Longrightarrow> stored i (fd_id f) (fd_initial_state f, mk_obj [], Running) w'" for w'
      by (auto simp: stored_def task_row_of_def t_def new_task_def task_status_from_db_def)
    ultimately show thesis using that by blast
  qed
  let ?w1 = "?w0\<lparr>w_db := d1, w_clk := Suc (w_clk ?w0), w_calls := Suc (w_calls w)\<rparr>"
  obtain w2 where pub: "bindE (ev_task_created E t) (\<lambda>ev. publish E ''atta.task.created'' ev) ?w1 = (Inr (), w2)"
    and w2: "w_db w2 = d1" "w_flows w2 = w_flows w"
    using quiet_publish_event [OF assms(1), of "''atta.task.created''" "entity_task E (t_id t)" "t_created_by t" "t_id t"
        "mk_obj [(''flow_id'', JStr (t_flow_id t)), (''current_state'', JStr (t_current_state t))]" "''atta.task.created''" ?w1]
    unfolding ev_task_created_def by auto
  obtain w3 where adv: "advance_by_id E tools i w2 = (Inr (), w3)" and w3: "stored i (fd_id f) c w3"
    using quiet_rounds [OF assms(1,2) st [OF w2(1)], of tools 100] w2(2) assms(3,8)
    by (auto simp: advance_by_id_def max_cascade_depth_def)
  from pub obtain ev w' where ev: "ev_task_created E t ?w1 = (Inr ev, w')" "publish E ''atta.task.created'' ev w' = (Inr (), w2)"
    by (auto elim: bindE_okD)
  have "store_call_now E (create_task_with_flow t (new_flow_state i f)) ?w0 = (Inr (), ?w1)"
    using store_call_now_quiet [OF assms(1), of "create_task_with_flow t (new_flow_state i f)" ?w0] d1 by simp
  then have "engine_create_task E tools (fd_id f) input who w = (Inr t, w3)"
    using ev adv assms(3,7) t_def t
    by (simp add: engine_create_task_def bindE_apply get_flow_def_def lookup_flow_def now_io_def fresh_uuid_def Let_def)
  with w3 t show ?thesis by auto
qed

text \<open>
  The shipped code review is completed the moment it is created, whatever the tools: its agent state is left by its
  automatic transition in the same call, before any agent has run.
\<close>

theorem review_completes_unreviewed:
  assumes "quiet E"
    and "tbl_get (w_flows w) ''code_review'' = Some code_review_flow"
    and "tbl_get (db_flow_defs (w_db w)) ''code_review'' \<noteq> None"
    and "tbl_get (db_tasks (w_db w)) (new_uuid E (w_uid w)) = None"
    and "tbl_get (db_flow_states (w_db w)) (new_uuid E (w_uid w)) = None"
  shows "\<exists>t w'. engine_create_task E tools ''code_review'' input who w = (Inr t, w') \<and>
     stored (t_id t) ''code_review'' (''done'', JObj [], Completed) w'"
proof -
  have f: "fd_id code_review_flow = ''code_review''" "fd_initial_state code_review_flow = ''start''" "no_parallel code_review_flow"
    by (simp_all add: code_review_flow_def no_parallel_def demo_state_def)
  show ?thesis
    using quiet_create [OF assms(1) f(3), unfolded f, OF assms(2-5) refl, of tools] review_not_awaited
    by (fastforce simp: mk_obj_def)
qed

definition review_world :: world where
  "review_world = demo_world code_review_flow (snd (save_flow_def code_review_flow 0 db_empty))"

theorem review_completes_unreviewed_witness:
  "\<exists>t w'. engine_create_task demo_env (\<lambda>_. None) ''code_review'' JNull actor_system review_world = (Inr t, w') \<and>
     stored (t_id t) ''code_review'' (''done'', JObj [], Completed) w'"
  by (rule review_completes_unreviewed [OF demo_quiet])
    (simp_all add: review_world_def demo_world_def save_flow_def_def code_review_flow_def db_empty_def tbl_upsert_def tbl_get_def)

end
