(* ===== verification/Reliable.thy ===== *)
theory Reliable
  imports Llm
begin

text \<open>
  Providers made of providers: the failover chain with exponential backoff (\<open>crates/agent/src/provider/reliable.rs\<close>) and
  the router by hints in the last user message (\<open>crates/agent/src/provider/router.rs\<close>).

  Instants and durations are in nanoseconds; \<open>now n\<close> is the \<open>n\<close>-th reading of the monotonic clock.
\<close>

section \<open>Backoff\<close>

record backoff =
  bo_until :: "nat option"
  bo_duration :: nat

abbreviation second :: nat where "second \<equiv> 1000000000"

definition backoff_new :: backoff where
  "backoff_new = \<lparr>bo_until = None, bo_duration = second\<rparr>"

definition backoff_enter :: "nat \<Rightarrow> backoff \<Rightarrow> backoff" where
  "backoff_enter t b = \<lparr>bo_until = Some (t + bo_duration b), bo_duration = min (bo_duration b * 2) (60 * second)\<rparr>"

definition backoff_reset :: "backoff \<Rightarrow> backoff" where
  "backoff_reset b = \<lparr>bo_until = None, bo_duration = second\<rparr>"

record 'w reliable =
  rl_backoff :: "backoff list"
  rl_ticks :: nat
  rl_world :: 'w

definition reliable_new :: "'w llm list \<Rightarrow> 'w \<Rightarrow> 'w reliable" where
  "reliable_new ps w = \<lparr>rl_backoff = map (\<lambda>_. backoff_new) ps, rl_ticks = 0, rl_world = w\<rparr>"

text \<open>The clock is read only where there is an instant to compare with.\<close>

definition available :: "(nat \<Rightarrow> nat) \<Rightarrow> nat \<Rightarrow> ('w reliable, atta_error, bool) io" where
  "available now i = (\<lambda>s. case bo_until (rl_backoff s ! i) of
     None \<Rightarrow> (Inr True, s)
   | Some u \<Rightarrow> (Inr (now (rl_ticks s) \<ge> u), s\<lparr>rl_ticks := Suc (rl_ticks s)\<rparr>))"

definition enter_backoff :: "(nat \<Rightarrow> nat) \<Rightarrow> nat \<Rightarrow> ('w reliable, atta_error, unit) io" where
  "enter_backoff now i = modifyE (\<lambda>s. s\<lparr>rl_backoff := (rl_backoff s)[i := backoff_enter (now (rl_ticks s)) (rl_backoff s ! i)],
     rl_ticks := Suc (rl_ticks s)\<rparr>)"

definition reset_backoff :: "nat \<Rightarrow> ('w reliable, atta_error, unit) io" where
  "reset_backoff i = modifyE (\<lambda>s. s\<lparr>rl_backoff := (rl_backoff s)[i := backoff_reset (rl_backoff s ! i)]\<rparr>)"

fun should_try_next :: "atta_error \<Rightarrow> bool" where
  "should_try_next (Llm (AuthError m)) = True"
| "should_try_next (Llm (LlmRateLimited n)) = True"
| "should_try_next (Llm (ContextWindowExceeded n k)) = True"
| "should_try_next (Llm (RequestFailed m)) = True"
| "should_try_next _ = False"

fun should_backoff :: "atta_error \<Rightarrow> bool" where
  "should_backoff (Llm (LlmRateLimited n)) = True"
| "should_backoff (Llm (RequestFailed m)) = True"
| "should_backoff _ = False"

definition in_provider :: "('w, atta_error, 'r) io \<Rightarrow> ('w reliable, atta_error, 'r) io" where
  "in_provider m = (\<lambda>s. case m (rl_world s) of (r, w) \<Rightarrow> (r, s\<lparr>rl_world := w\<rparr>))"

text \<open>The loop over the providers, for \<open>chat\<close> and \<open>chat_with_usage\<close> alike.\<close>

fun failover :: "(nat \<Rightarrow> nat) \<Rightarrow> ('w llm \<Rightarrow> ('w, atta_error, 'r) io) \<Rightarrow> nat \<Rightarrow> 'w llm list \<Rightarrow> atta_error option \<Rightarrow>
    ('w reliable, atta_error, 'r) io" where
  "failover now call i [] prev =
     failE (case prev of Some e \<Rightarrow> e | None \<Rightarrow> Llm (RequestFailed ''all providers exhausted''))"
| "failover now call i (p # ps) prev =
     bindE (available now i) (\<lambda>ok.
     if \<not> ok then failover now call (Suc i) ps prev
     else tryE (in_provider (call p)) (\<lambda>r. case r of
        Inr v \<Rightarrow> bindE (reset_backoff i) (\<lambda>_. retE v)
      | Inl e \<Rightarrow> bindE (if should_backoff e then enter_backoff now i else retE ()) (\<lambda>_.
          if should_try_next e then failover now call (Suc i) ps (Some e) else failE e)))"

definition reliable_chat :: "(nat \<Rightarrow> nat) \<Rightarrow> 'w llm list \<Rightarrow> message list \<Rightarrow> tool_schema list \<Rightarrow>
    ('w reliable, atta_error, llm_response) io" where
  "reliable_chat now ps ms ts = failover now (\<lambda>p. llm_chat p ms ts) 0 ps None"

definition reliable_chat_with_usage :: "(nat \<Rightarrow> nat) \<Rightarrow> 'w llm list \<Rightarrow> message list \<Rightarrow> tool_schema list \<Rightarrow> chat_options \<Rightarrow>
    ('w reliable, atta_error, llm_result) io" where
  "reliable_chat_with_usage now ps ms ts opts = failover now (\<lambda>p. llm_chat_with_usage p ms ts opts) 0 ps None"

definition reliable_model_info :: "'w llm list \<Rightarrow> model_info" where
  "reliable_model_info ps =
     (case ps of
        p # _ \<Rightarrow> llm_model_info p
      | [] \<Rightarrow> \<lparr>mi_id = ''reliable'', mi_window = 0, mi_tools = False, mi_provider = ''reliable'', mi_streaming = False\<rparr>)"

text \<open>Streaming is the default method of the trait: it goes through \<open>chat\<close>, without the options.\<close>

definition reliable_provider :: "env \<Rightarrow> (nat \<Rightarrow> nat) \<Rightarrow> 'w llm list \<Rightarrow> 'w reliable llm" where
  "reliable_provider E now ps =
     (default_llm E (reliable_chat now ps) (reliable_model_info ps))
       \<lparr>llm_chat_with_usage := reliable_chat_with_usage now ps\<rparr>"

section \<open>Routing\<close>

function split_ws :: "string \<Rightarrow> string list" where
  "split_ws s =
     (let t = trim_start s in
      if t = [] then [] else first_word t # split_ws (dropWhile (\<lambda>c. \<not> is_ws c) t))"
  by pat_completeness auto
termination
proof (relation "measure length", simp)
  fix s t :: string assume t: "t = trim_start s" "t \<noteq> []"
  then have "\<not> is_ws (hd t)" using trim_start_hd by metis
  with t(2) have "length (dropWhile (\<lambda>c. \<not> is_ws c) t) < length t"
    by (cases t) (auto intro: le_imp_less_Suc length_dropWhile_le)
  also have "length t \<le> length s" unfolding t(1) trim_start_def by (rule length_dropWhile_le)
  finally show "(dropWhile (\<lambda>c. \<not> is_ws c) t, s) \<in> measure length" by simp
qed

declare split_ws.simps [simp del]

text \<open>\<open>char::is_alphanumeric\<close> on ASCII.\<close>

definition is_alnum :: "char \<Rightarrow> bool" where
  "is_alnum c \<longleftrightarrow> byte_in 48 57 c \<or> byte_in 65 90 c \<or> byte_in 97 122 c"

definition hint_of_word :: "string \<Rightarrow> string option" where
  "hint_of_word w =
     (case strip_prefix ''hint:'' w of
        None \<Rightarrow> None
      | Some h \<Rightarrow> let h' = rev (dropWhile (\<lambda>c. \<not> is_alnum c) (rev h)) in if h' = [] then None else Some (to_lower h'))"

definition extract_hint :: "message list \<Rightarrow> string option" where
  "extract_hint ms =
     (case List.map_filter user_text (rev ms) of
        [] \<Rightarrow> None
      | t # _ \<Rightarrow> (case List.map_filter hint_of_word (split_ws t) of [] \<Rightarrow> None | h # _ \<Rightarrow> Some h))"

record 'w router =
  ro_routes :: "(string, 'w llm) map"
  ro_default :: "'w llm"

definition select_provider :: "'w router \<Rightarrow> message list \<Rightarrow> 'w llm" where
  "select_provider R ms =
     (case extract_hint ms of
        None \<Rightarrow> ro_default R
      | Some h \<Rightarrow> (case ro_routes R h of Some p \<Rightarrow> p | None \<Rightarrow> ro_default R))"

definition router_provider :: "env \<Rightarrow> 'w router \<Rightarrow> 'w llm" where
  "router_provider E R =
     (default_llm E (\<lambda>ms ts. llm_chat (select_provider R ms) ms ts) (llm_model_info (ro_default R)))
       \<lparr>llm_chat_with_usage := (\<lambda>ms ts opts. llm_chat_with_usage (select_provider R ms) ms ts opts)\<rparr>"

section \<open>What holds of them\<close>

text \<open>The backoff of every provider is a power of two of seconds below the cap, or the cap.\<close>

definition backoff_ok :: "backoff \<Rightarrow> bool" where
  "backoff_ok b \<longleftrightarrow> bo_duration b \<in> set (map (\<lambda>n. n * second) [1, 2, 4, 8, 16, 32, 60])"

definition reliable_ok :: "nat \<Rightarrow> 'w reliable \<Rightarrow> bool" where
  "reliable_ok n s \<longleftrightarrow> length (rl_backoff s) = n \<and> (\<forall>b \<in> set (rl_backoff s). backoff_ok b)"

lemma backoff_ok_ops: "backoff_ok backoff_new" "backoff_ok (backoff_reset b)" "backoff_ok b \<Longrightarrow> backoff_ok (backoff_enter t b)"
  by (auto simp: backoff_ok_def backoff_new_def backoff_reset_def backoff_enter_def)

lemma list_update_ok: "x \<in> set (xs[i := y]) \<Longrightarrow> \<forall>x \<in> set xs. P x \<Longrightarrow> P y \<Longrightarrow> P x"
  using set_update_subset_insert [of xs i y] by blast

lemma keeps_failover: "i + length ps \<le> n \<Longrightarrow> keeps (reliable_ok n) (failover now call i ps prev)"
proof (induction ps arbitrary: i prev)
  case Nil
  then show ?case by (simp add: keeps_failE)
next
  case (Cons p ps)
  have "keeps (reliable_ok n) (available now i)"
    by (auto simp: keeps_def available_def reliable_ok_def split: option.split)
  moreover have "keeps (reliable_ok n) (in_provider m)" for m :: "('w, atta_error, 'r) io"
    by (auto simp: keeps_def in_provider_def reliable_ok_def split: prod.split)
  moreover have "keeps (reliable_ok n) (enter_backoff now i)"
    using Cons.prems unfolding enter_backoff_def
    by (intro keeps_modifyE) (auto simp: reliable_ok_def intro: backoff_ok_ops elim!: list_update_ok)
  moreover have "keeps (reliable_ok n) (reset_backoff i)"
    unfolding reset_backoff_def
    by (intro keeps_modifyE) (auto simp: reliable_ok_def intro: backoff_ok_ops elim!: list_update_ok)
  ultimately show ?case
    using Cons by (auto intro!: keeps_intros)
qed

text \<open>While its instant has not come, a provider is not called: any other could stand in its place.\<close>

definition resting :: "(nat \<Rightarrow> nat) \<Rightarrow> nat \<Rightarrow> 'w reliable \<Rightarrow> bool" where
  "resting now i s \<longleftrightarrow> (\<exists>u. bo_until (rl_backoff s ! i) = Some u \<and> (\<forall>n \<ge> rl_ticks s. now n < u))"

lemma failover_skips:
  "resting now (i + k) s \<Longrightarrow> k < length ps \<Longrightarrow>
   failover now call i ps prev s = failover now call i (ps[k := q]) prev s"
proof (induction ps arbitrary: i k prev s)
  case Nil
  then show ?case by simp
next
  case (Cons p ps)
  show ?case
  proof (cases k)
    case 0
    with Cons.prems obtain u where "bo_until (rl_backoff s ! i) = Some u" "now (rl_ticks s) < u"
      unfolding resting_def by auto
    then have "available now i s = (Inr False, s\<lparr>rl_ticks := Suc (rl_ticks s)\<rparr>)" by (simp add: available_def)
    with 0 show ?thesis by (simp add: bindE_def)
  next
    case (Suc k')
    obtain ok t where a: "available now i s = (Inr ok, t)"
      by (cases "bo_until (rl_backoff s ! i)") (auto simp: available_def)
    have rest: "resting now (Suc i + k') t'"
      if "rl_backoff t' ! (Suc i + k') = rl_backoff s ! (i + k)" "rl_ticks s \<le> rl_ticks t'" for t'
      using Cons.prems(1) that Suc unfolding resting_def by auto
    have ta: "rl_backoff t = rl_backoff s" "rl_ticks s \<le> rl_ticks t" using a by (auto simp: available_def split: option.splits)
    have next': "failover now call (Suc i) ps l t' = failover now call (Suc i) (ps[k' := q]) l t'"
      if "rl_backoff t' ! (Suc i + k') = rl_backoff s ! (i + k)" "rl_ticks s \<le> rl_ticks t'" for l t'
      using Cons.IH [OF rest [OF that]] Cons.prems(2) Suc by simp
    show ?thesis
    proof (cases ok)
      case False
      with a Suc next' [of t] ta show ?thesis by (simp add: bindE_def)
    next
      case True
      obtain r w where "call p (rl_world t) = (r, w)" by fastforce
      with a True Suc ta next' show ?thesis
        by (auto simp: bindE_def tryE_def in_provider_def enter_backoff_def split: sum.split)
    qed
  qed
qed

text \<open>A rate limit, or a failed request, puts the provider to rest until its backoff has passed.\<close>

lemma failure_rests:
  assumes "should_backoff e" and "i < length (rl_backoff s)"
    and "\<forall>n > rl_ticks s. now n < now (rl_ticks s) + bo_duration (rl_backoff s ! i)"
  shows "resting now i (snd (enter_backoff now i s))"
  using assms(2,3) by (auto simp: resting_def enter_backoff_def backoff_enter_def)

text \<open>
  A provider that is in backoff is not called: as long as the clock shows less than the end of its backoff, the chain
  answers as it would with any other provider in its place.
\<close>

theorem backoff_is_respected:
  assumes "bo_until (rl_backoff s ! k) = Some u" and "\<forall>n \<ge> rl_ticks s. now n < u" and "k < length ps"
  shows "reliable_chat now ps ms ts s = reliable_chat now (ps[k := q]) ms ts s"
proof -
  have "resting now (0 + k) s" using assms(1,2) by (auto simp: resting_def)
  then show ?thesis unfolding reliable_chat_def by (rule failover_skips [OF _ assms(3)])
qed

definition constant_llm :: "atta_error + llm_response \<Rightarrow> nat llm" where
  "constant_llm r =
     \<lparr>llm_chat = (\<lambda>ms ts w. (r, w + 1)), llm_chat_with_usage = (\<lambda>ms ts opts w. (Inl NoIdToken, w)),
      llm_chat_stream = (\<lambda>ms ts opts w. (Inl NoIdToken, w)),
      llm_model_info = \<lparr>mi_id = [], mi_window = 0, mi_tools = False, mi_provider = [], mi_streaming = False\<rparr>\<rparr>"

theorem backoff_is_respected_witness:
  "let s = (reliable_new [constant_llm (Inl NoIdToken), constant_llm (Inr (LlmMessage ''b''))] 0)
         \<lparr>rl_backoff := [\<lparr>bo_until = Some 10, bo_duration = second\<rparr>, backoff_new]\<rparr> in
   reliable_chat (\<lambda>n. 9) [constant_llm (Inl NoIdToken), constant_llm (Inr (LlmMessage ''b''))] [] [] s =
   reliable_chat (\<lambda>n. 9) ([constant_llm (Inl NoIdToken), constant_llm (Inr (LlmMessage ''b''))][0 := constant_llm (Inr (LlmMessage ''a''))]) [] [] s"
  unfolding Let_def by (rule backoff_is_respected [of _ 0 10]) simp_all

text \<open>The durations stay on their ladder, however many requests are made.\<close>

lemma reliable_keeps_ladder:
  "keeps (reliable_ok (length ps)) (reliable_chat now ps ms ts)"
  "keeps (reliable_ok (length ps)) (reliable_chat_with_usage now ps ms ts opts)"
  "reliable_ok (length ps) (reliable_new ps w)"
proof -
  show "keeps (reliable_ok (length ps)) (reliable_chat now ps ms ts)"
    "keeps (reliable_ok (length ps)) (reliable_chat_with_usage now ps ms ts opts)"
    unfolding reliable_chat_def reliable_chat_with_usage_def by (rule keeps_failover; simp)+
  show "reliable_ok (length ps) (reliable_new ps w)"
    using backoff_ok_ops(1) by (auto simp: reliable_ok_def reliable_new_def)
qed

text \<open>What the chain returns was returned by one of its providers, an error too, unless none was tried.\<close>

lemma failover_returns:
  "failover now call i ps prev s = (r, t) \<Longrightarrow>
   (\<exists>p \<in> set ps. \<exists>w. fst (call p w) = r) \<or>
   r = Inl (case prev of Some e \<Rightarrow> e | None \<Rightarrow> Llm (RequestFailed ''all providers exhausted''))"
proof (induction ps arbitrary: i prev s)
  case Nil
  then show ?case by simp
next
  case (Cons p ps)
  obtain ok u where a: "available now i s = (Inr ok, u)"
    by (cases "bo_until (rl_backoff s ! i)") (auto simp: available_def)
  show ?case
  proof (cases ok)
    case False
    with a Cons.prems have "failover now call (Suc i) ps prev u = (r, t)" by (simp add: bindE_def)
    from Cons.IH [OF this] show ?thesis by auto
  next
    case True
    obtain q w where q: "call p (rl_world u) = (q, w)" by fastforce
    then have here: "fst (call p (rl_world u)) = q" by simp
    show ?thesis
    proof (cases q)
      case (Inr v)
      with a True q Cons.prems have "r = q" by (simp add: bindE_def tryE_def in_provider_def reset_backoff_def)
      with here show ?thesis by auto
    next
      case (Inl e)
      with a True q Cons.prems obtain u' where
        "(if should_try_next e then failover now call (Suc i) ps (Some e) else failE e) u' = (r, t)"
        by (cases "should_backoff e") (auto simp: bindE_def tryE_def in_provider_def enter_backoff_def)
      then have "r = Inl e \<or> failover now call (Suc i) ps (Some e) u' = (r, t)" by (auto split: if_splits)
      with Cons.IH [of "Suc i" "Some e" u'] here Inl show ?thesis by auto
    qed
  qed
qed

text \<open>
  The hint is put in lower case and the names of the routes are not: a route whose name has a capital letter is never
  taken.
\<close>

lemma extract_hint_lower: "extract_hint ms = Some h \<Longrightarrow> \<exists>t. h = to_lower t"
proof -
  have hint: "hint_of_word w = Some k \<Longrightarrow> \<exists>t. k = to_lower t" for w k
    by (auto simp: hint_of_word_def Let_def split: option.splits if_splits)
  have "k \<in> set (List.map_filter hint_of_word ws) \<Longrightarrow> \<exists>w. hint_of_word w = Some k" for k ws
    by (auto simp: List.map_filter_def)
  moreover assume "extract_hint ms = Some h"
  then obtain t where "h \<in> set (List.map_filter hint_of_word (split_ws t))"
    by (auto simp: extract_hint_def split: list.splits) (metis list.set_intros(1))
  ultimately show ?thesis using hint by blast
qed

lemma capital_routes_are_unreachable:
  assumes "c \<in> set name" and "65 \<le> (of_char c :: nat)" and "of_char c \<le> (90 :: nat)"
  shows "select_provider (R\<lparr>ro_routes := (ro_routes R)(name \<mapsto> p)\<rparr>) ms = select_provider R ms"
proof (cases "extract_hint ms")
  case None
  then show ?thesis by (simp add: select_provider_def)
next
  case (Some h)
  from extract_hint_lower [OF this] have "h \<noteq> name" using to_lower_no_upper assms by blast
  with Some show ?thesis by (simp add: select_provider_def split: option.split)
qed

end
