(* ===== verification/Bus.thy ===== *)
theory Bus
  imports Atta_Types
begin

text \<open>
  The in-process event bus (\<open>crates/bus/src/inproc.rs\<close>) and the hub of web socket clients
  (\<open>crates/core/src/ws_hub.rs\<close>).

  A broadcast channel belongs to the crate \<open>tokio\<close>: \<open>chan_ops\<close> has its operations as parameters. The channels are
  a \<open>HashMap\<close>, an association list with distinct keys in the order of its iteration.
\<close>

section \<open>The bus\<close>

record ('c, 'r) chan_ops =
  ch_new :: "nat \<Rightarrow> 'c"
  ch_send :: "event_envelope \<Rightarrow> 'c \<Rightarrow> 'c"
  ch_subscribe :: "'c \<Rightarrow> 'r \<times> 'c"

record 'c inproc_bus =
  ib_channels :: "(string \<times> 'c) list"
  ib_capacity :: nat

definition bus_with_capacity :: "nat \<Rightarrow> 'c inproc_bus" where
  "bus_with_capacity n = \<lparr>ib_channels = [], ib_capacity = n\<rparr>"

definition bus_new :: "'c inproc_bus" where
  "bus_new = bus_with_capacity 1024"

definition get_or_create :: "('c, 'r) chan_ops \<Rightarrow> string \<Rightarrow> 'c inproc_bus \<Rightarrow> 'c inproc_bus" where
  "get_or_create ops topic b =
     (if map_of (ib_channels b) topic = None
      then b\<lparr>ib_channels := ib_channels b @ [(topic, ch_new ops (ib_capacity b))]\<rparr> else b)"

definition strip_suffix_star :: "string \<Rightarrow> string option" where
  "strip_suffix_star p = (if p \<noteq> [] \<and> last p = CHR ''*'' then Some (butlast p) else None)"

definition wildcard_matches :: "string \<Rightarrow> string \<Rightarrow> bool" where
  "wildcard_matches pattern topic =
     (case strip_suffix_star pattern of
        Some prefix \<Rightarrow> starts_with topic prefix \<and> length topic > length prefix
      | None \<Rightarrow> False)"

definition update_chan :: "string \<Rightarrow> ('c \<Rightarrow> 'c) \<Rightarrow> (string \<times> 'c) list \<Rightarrow> (string \<times> 'c) list" where
  "update_chan k f cs = map (\<lambda>(k', c). if k' = k then (k', f c) else (k', c)) cs"

text \<open>The exact channel first, then one after the other the channels of the patterns that match.\<close>

definition bus_publish :: "('c, 'r) chan_ops \<Rightarrow> string \<Rightarrow> event_envelope \<Rightarrow> 'c inproc_bus \<Rightarrow> (atta_error + unit) \<times> 'c inproc_bus" where
  "bus_publish ops topic ev b0 =
     (let b = get_or_create ops topic b0;
          cs = update_chan topic (ch_send ops ev) (ib_channels b);
          patterns = filter (\<lambda>p. ends_with p ''*'' \<and> wildcard_matches p topic) (map fst cs)
      in (Inr (), b\<lparr>ib_channels := fold (\<lambda>p. update_chan p (ch_send ops ev)) patterns cs\<rparr>))"

definition bus_subscribe :: "('c, 'r) chan_ops \<Rightarrow> string \<Rightarrow> 'c inproc_bus \<Rightarrow> (atta_error + 'r) \<times> 'c inproc_bus" where
  "bus_subscribe ops topic b0 =
     (let b = get_or_create ops topic b0;
          (r, c) = ch_subscribe ops (the (map_of (ib_channels b) topic))
      in (Inr r, b\<lparr>ib_channels := update_chan topic (\<lambda>_. c) (ib_channels b)\<rparr>))"

text \<open>Without consumer groups.\<close>

definition subscribe_group :: "('c, 'r) chan_ops \<Rightarrow> string \<Rightarrow> string \<Rightarrow> 'c inproc_bus \<Rightarrow> (atta_error + 'r) \<times> 'c inproc_bus" where
  "subscribe_group ops topic grp = bus_subscribe ops topic"

section \<open>Who gets an event\<close>

definition bus_ok :: "'c inproc_bus \<Rightarrow> bool" where
  "bus_ok b \<longleftrightarrow> distinct (map fst (ib_channels b))"

lemma map_of_update_chan: "map_of (update_chan k f cs) p = map_option (if p = k then f else id) (map_of cs p)"
  by (induction cs) (auto simp: update_chan_def option.map_id)

lemma fst_update_chan [simp]: "map fst (update_chan k f cs) = map fst cs"
  by (induction cs) (auto simp: update_chan_def)

lemma map_of_fold_update:
  "distinct ps \<Longrightarrow> map_of (fold (\<lambda>p. update_chan p f) ps cs) p = map_option (if p \<in> set ps then f else id) (map_of cs p)"
  by (induction ps arbitrary: cs) (auto simp: map_of_update_chan option.map_comp option.map_id option.map_ident comp_def)

lemma fst_fold_update [simp]: "map fst (fold (\<lambda>p. update_chan p f) ps cs) = map fst cs"
  by (induction ps arbitrary: cs) simp_all

lemma get_or_create_ok: "bus_ok b \<Longrightarrow> bus_ok (get_or_create ops topic b)"
  by (auto simp: bus_ok_def get_or_create_def map_of_eq_None_iff)

lemma bus_ops_ok:
  assumes "bus_ok b"
  shows "bus_ok (snd (bus_publish ops topic ev b))" "bus_ok (snd (bus_subscribe ops topic b))"
  using get_or_create_ok [OF assms, of ops topic]
  by (auto simp: bus_ok_def bus_publish_def bus_subscribe_def Let_def split: prod.split)

text \<open>The number of copies a channel is sent.\<close>

definition copies :: "string \<Rightarrow> string \<Rightarrow> nat" where
  "copies topic p = (if p = topic then 1 else 0) + (if wildcard_matches p topic then 1 else 0)"

lemma wildcard_ends: "wildcard_matches p topic \<Longrightarrow> ends_with p ''*''"
  by (cases p rule: rev_cases) (auto simp: wildcard_matches_def strip_suffix_star_def ends_with_iff split: option.splits if_splits)

lemma publish_channel:
  assumes "bus_ok b"
  shows "map_of (ib_channels (snd (bus_publish ops topic ev b))) p =
    map_option (ch_send ops ev ^^ copies topic p) (map_of (ib_channels (get_or_create ops topic b)) p)"
proof -
  let ?cs = "update_chan topic (ch_send ops ev) (ib_channels (get_or_create ops topic b))"
  let ?ps = "filter (\<lambda>p. ends_with p ''*'' \<and> wildcard_matches p topic) (map fst ?cs)"
  have d: "distinct ?ps" using get_or_create_ok [OF assms, of ops topic] by (simp add: bus_ok_def)
  have "map_of (ib_channels (snd (bus_publish ops topic ev b))) p =
      map_option (if p \<in> set ?ps then ch_send ops ev else id) (map_of ?cs p)"
  proof -
    have "ib_channels (snd (bus_publish ops topic ev b)) = fold (\<lambda>p. update_chan p (ch_send ops ev)) ?ps ?cs"
      by (simp add: bus_publish_def Let_def)
    then show ?thesis by (simp only: map_of_fold_update [OF d])
  qed
  moreover have "map_of ?cs p \<noteq> None \<Longrightarrow> p \<in> set ?ps \<longleftrightarrow> wildcard_matches p topic"
    using wildcard_ends [of p topic] unfolding map_of_eq_None_iff set_filter set_map [symmetric] by blast
  ultimately show ?thesis
    by (cases "map_of ?cs p")
      (auto simp: map_of_update_chan copies_def option.map_comp comp_def split: if_splits)
qed

text \<open>
  C22. A published event is sent once to the channel of its topic and once to the channel of each pattern whose part
  before the star is a proper prefix of the topic, and to no other channel. A topic that ends with a star, being such a
  pattern itself, gets it twice.
\<close>

theorem bus_delivers_exactly:
  assumes "bus_ok b" and "map_of (ib_channels b) p = Some c"
  shows "map_of (ib_channels (snd (bus_publish ops topic ev b))) p =
    Some ((ch_send ops ev ^^ ((if p = topic then 1 else 0) +
      (if \<exists>pre rest. p = pre @ ''*'' \<and> topic = pre @ rest \<and> rest \<noteq> [] then 1 else 0))) c)"
proof -
  have "map_of (ib_channels (get_or_create ops topic b)) p = Some c"
    using assms(2) by (auto simp: get_or_create_def map_add_def)
  moreover have "wildcard_matches p topic \<longleftrightarrow> (\<exists>pre rest. p = pre @ ''*'' \<and> topic = pre @ rest \<and> rest \<noteq> [])"
    by (cases p rule: rev_cases) (auto simp: wildcard_matches_def strip_suffix_star_def starts_with_iff)
  ultimately show ?thesis
    using publish_channel [OF assms(1), of ops topic ev p] by (simp add: copies_def)
qed

definition log_ops :: "(event_envelope list, nat) chan_ops" where
  "log_ops = \<lparr>ch_new = (\<lambda>n. []), ch_send = (\<lambda>e c. c @ [e]), ch_subscribe = (\<lambda>c. (length c, c))\<rparr>"

theorem bus_delivers_exactly_witness:
  "\<forall>ev. map_of (ib_channels (snd (bus_publish log_ops ''atta.task.created'' ev
      (bus_new\<lparr>ib_channels := [(''atta.task.*'', []), (''atta.flow.*'', [])]\<rparr>)))) ''atta.task.*'' = Some [ev]"
proof
  fix ev
  have "\<exists>pre rest. ''atta.task.*'' = pre @ ''*'' \<and> ''atta.task.created'' = pre @ rest \<and> rest \<noteq> []"
    by (intro exI [of _ "''atta.task.''"] exI [of _ "''created''"]) simp
  then show "map_of (ib_channels (snd (bus_publish log_ops ''atta.task.created'' ev
      (bus_new\<lparr>ib_channels := [(''atta.task.*'', []), (''atta.flow.*'', [])]\<rparr>)))) ''atta.task.*'' = Some [ev]"
    using bus_delivers_exactly [of "bus_new\<lparr>ib_channels := [(''atta.task.*'', []), (''atta.flow.*'', [])]\<rparr>"
        "''atta.task.*''" "[]" log_ops "''atta.task.created''" ev]
    by (simp add: bus_ok_def log_ops_def)
qed

section \<open>Web socket clients\<close>

text \<open>
  A client is its queue of texts and whether its receiver is still there; \<open>contended\<close> says that the lock on the clients
  is held elsewhere.
\<close>

record ws_client =
  wc_open :: bool
  wc_queue :: "string list"

type_synonym ws_hub = "(uuid \<times> ws_client) list"

definition add_client :: "uuid \<Rightarrow> ws_hub \<Rightarrow> ws_hub" where
  "add_client i h = (i, \<lparr>wc_open = True, wc_queue = []\<rparr>) # filter (\<lambda>(k, _). k \<noteq> i) h"

definition remove_client :: "uuid \<Rightarrow> ws_hub \<Rightarrow> ws_hub" where
  "remove_client i h = filter (\<lambda>(k, _). k \<noteq> i) h"

definition ws_broadcast :: "(event_envelope \<Rightarrow> string option) \<Rightarrow> bool \<Rightarrow> event_envelope \<Rightarrow> ws_hub \<Rightarrow> ws_hub" where
  "ws_broadcast show_event contended ev h =
     (case show_event ev of
        None \<Rightarrow> h
      | Some t \<Rightarrow> if contended then h
          else map (\<lambda>(k, c). (k, if wc_open c then c\<lparr>wc_queue := wc_queue c @ [t]\<rparr> else c)) h)"

definition client_count :: "ws_hub \<Rightarrow> nat" where
  "client_count h = length h"

end
