(* ===== verification/Channel_Policy.thy ===== *)
theory Channel_Policy
  imports Atta_Types Table
begin

text \<open>
  Messages from chat channels (\<open>crates/channel/src/traits.rs\<close>) and the policies that decide which of them are processed
  (\<open>policy.rs\<close>).

  A policy is a value with its own state; \<open>policy_evaluate\<close> returns the decision and the policy afterwards. Its clock is the
  monotonic one: \<open>inst\<close> gives its \<open>n\<close>-th reading in nanoseconds, and the number of readings so far is threaded. The
  maps are tables in the order in which the hash map happens to be iterated.
\<close>

section \<open>Messages\<close>

datatype chat_type = ChatDm | ChatGroup | ChatSuperGroup | ChatChannel | ChatUnknown

record channel_message =
  cm_id :: string
  cm_sender :: string
  cm_content :: string
  cm_channel :: string
  cm_reply_target :: "string option"
  cm_timestamp :: timestamp
  cm_thread_ts :: "string option"
  cm_metadata :: json
  cm_chat_type :: chat_type
  cm_bot_mentioned :: bool
  cm_group_id :: "string option"

definition message_new :: "string \<Rightarrow> string \<Rightarrow> string \<Rightarrow> string \<Rightarrow> timestamp \<Rightarrow> channel_message" where
  "message_new i sender content channel t =
     \<lparr>cm_id = i, cm_sender = sender, cm_content = content, cm_channel = channel, cm_reply_target = None,
      cm_timestamp = t, cm_thread_ts = None, cm_metadata = mk_obj [], cm_chat_type = ChatUnknown,
      cm_bot_mentioned = False, cm_group_id = None\<rparr>"

record send_message =
  sm_recipient :: string
  sm_content :: string
  sm_subject :: "string option"
  sm_thread_ts :: "string option"
  sm_metadata :: json

section \<open>The policies\<close>

datatype policy_decision = PolicyAllow | PolicyDeny string | PolicyBuffer string

type_synonym instant = int

record dedup_policy =
  dd_seen :: "(string, instant) table"
  dd_window :: int
  dd_count :: u64

record access_policy =
  ac_allowlist :: "(string, string list) table"
  ac_blocklist :: "(string, string list) table"

datatype send_policy = SendAllow | SendDeny

type_synonym send_filter = "(string, send_policy) table"

datatype policy =
    DeduplicationPolicy dedup_policy
  | MentionPolicy
  | AccessControlPolicy access_policy
  | SendPolicyFilter send_filter
  | PolicyChain "policy list"

definition dedup_new :: "int \<Rightarrow> dedup_policy" where
  "dedup_new window = \<lparr>dd_seen = [], dd_window = window, dd_count = 0\<rparr>"

definition dedup_key :: "channel_message \<Rightarrow> string" where
  "dedup_key m = cm_channel m @ '':'' @ cm_id m"

definition evict :: "instant \<Rightarrow> dedup_policy \<Rightarrow> dedup_policy" where
  "evict now p = p\<lparr>dd_seen := filter (\<lambda>(_, ts). ts > now - dd_window p) (dd_seen p)\<rparr>"

definition evaluate_dedup :: "(nat \<Rightarrow> instant) \<Rightarrow> dedup_policy \<Rightarrow> channel_message \<Rightarrow> nat \<Rightarrow>
    (policy_decision \<times> dedup_policy) \<times> nat" where
  "evaluate_dedup inst p m n =
     (let key = dedup_key m; now = inst n;
          p1 = p\<lparr>dd_count := dd_count p + 1\<rparr>;
          (p2, n2) = (if unat (dd_count p) mod 100 = 99 \<or> length (dd_seen p) > 1000
                      then (evict (inst (Suc n)) p1, Suc (Suc n)) else (p1, Suc n))
      in if (case tbl_get (dd_seen p2) key of None \<Rightarrow> False | Some ts \<Rightarrow> max 0 (now - ts) < dd_window p2)
         then ((PolicyDeny ''duplicate message'', p2), n2)
         else ((PolicyAllow, p2\<lparr>dd_seen := tbl_upsert key now (\<lambda>_. now) (dd_seen p2)\<rparr>), n2))"

definition evaluate_mention :: "channel_message \<Rightarrow> policy_decision" where
  "evaluate_mention m =
     (case cm_chat_type m of
        ChatDm \<Rightarrow> PolicyAllow
      | ChatUnknown \<Rightarrow> PolicyAllow
      | _ \<Rightarrow> if cm_bot_mentioned m then PolicyAllow else PolicyDeny ''group message without bot mention'')"

definition set_allowlist :: "string \<Rightarrow> string list \<Rightarrow> access_policy \<Rightarrow> access_policy" where
  "set_allowlist c senders a = a\<lparr>ac_allowlist := tbl_upsert c senders (\<lambda>_. senders) (ac_allowlist a)\<rparr>"

definition set_blocklist :: "string \<Rightarrow> string list \<Rightarrow> access_policy \<Rightarrow> access_policy" where
  "set_blocklist c senders a = a\<lparr>ac_blocklist := tbl_upsert c senders (\<lambda>_. senders) (ac_blocklist a)\<rparr>"

definition allow_sender :: "string \<Rightarrow> string \<Rightarrow> access_policy \<Rightarrow> access_policy" where
  "allow_sender c s a = a\<lparr>ac_allowlist := tbl_upsert c [s] (\<lambda>xs. xs @ [s]) (ac_allowlist a)\<rparr>"

definition block_sender :: "string \<Rightarrow> string \<Rightarrow> access_policy \<Rightarrow> access_policy" where
  "block_sender c s a = a\<lparr>ac_blocklist := tbl_upsert c [s] (\<lambda>xs. xs @ [s]) (ac_blocklist a)\<rparr>"

definition evaluate_access :: "access_policy \<Rightarrow> channel_message \<Rightarrow> policy_decision" where
  "evaluate_access a m =
     (if (case tbl_get (ac_blocklist a) (cm_channel m) of None \<Rightarrow> False | Some bs \<Rightarrow> List.member bs (cm_sender m))
      then PolicyDeny ''sender is blocklisted''
      else if (case tbl_get (ac_allowlist a) (cm_channel m) of None \<Rightarrow> False
               | Some xs \<Rightarrow> xs \<noteq> [] \<and> \<not> List.member xs (cm_sender m))
      then PolicyDeny ''sender not in allowlist''
      else PolicyAllow)"

definition filter_key :: "channel_message \<Rightarrow> string" where
  "filter_key m =
     (case cm_group_id m of
        Some g \<Rightarrow> cm_channel m @ '':group:'' @ g
      | None \<Rightarrow> cm_channel m @ '':dm:'' @ cm_sender m)"

definition filter_set :: "string \<Rightarrow> send_policy \<Rightarrow> send_filter \<Rightarrow> send_filter" where
  "filter_set k p f = tbl_upsert k p (\<lambda>_. p) f"

definition filter_get :: "string \<Rightarrow> send_filter \<Rightarrow> send_policy" where
  "filter_get k f = (case tbl_get f k of None \<Rightarrow> SendAllow | Some p \<Rightarrow> p)"

definition filter_remove :: "string \<Rightarrow> send_filter \<Rightarrow> send_filter" where
  "filter_remove k f = tbl_delete k f"

definition evaluate_filter :: "send_filter \<Rightarrow> channel_message \<Rightarrow> policy_decision" where
  "evaluate_filter f m =
     (case filter_get (filter_key m) f of
        SendAllow \<Rightarrow> PolicyAllow
      | SendDeny \<Rightarrow> PolicyDeny (''send policy denied for session '' @ filter_key m))"

text \<open>The first decision that is not to allow ends a chain; the policies behind it do not see the message.\<close>

fun policy_evaluate :: "(nat \<Rightarrow> instant) \<Rightarrow> policy \<Rightarrow> channel_message \<Rightarrow> nat \<Rightarrow> (policy_decision \<times> policy) \<times> nat"
and evaluate_chain :: "(nat \<Rightarrow> instant) \<Rightarrow> policy list \<Rightarrow> channel_message \<Rightarrow> nat \<Rightarrow>
    (policy_decision \<times> policy list) \<times> nat" where
  "policy_evaluate inst (DeduplicationPolicy p) m n =
     (case evaluate_dedup inst p m n of ((d, p'), n') \<Rightarrow> ((d, DeduplicationPolicy p'), n'))"
| "policy_evaluate inst MentionPolicy m n = ((evaluate_mention m, MentionPolicy), n)"
| "policy_evaluate inst (AccessControlPolicy a) m n = ((evaluate_access a m, AccessControlPolicy a), n)"
| "policy_evaluate inst (SendPolicyFilter f) m n = ((evaluate_filter f m, SendPolicyFilter f), n)"
| "policy_evaluate inst (PolicyChain ps) m n =
     (case evaluate_chain inst ps m n of ((d, ps'), n') \<Rightarrow> ((d, PolicyChain ps'), n'))"
| "evaluate_chain inst [] m n = ((PolicyAllow, []), n)"
| "evaluate_chain inst (p # ps) m n =
     (case policy_evaluate inst p m n of
        ((PolicyAllow, p'), n') \<Rightarrow>
          (case evaluate_chain inst ps m n' of ((d, ps'), n'') \<Rightarrow> ((d, p' # ps'), n''))
      | ((d, p'), n') \<Rightarrow> ((d, p' # ps), n'))"

definition chain_new :: "policy list" where
  "chain_new = []"

definition chain_add :: "policy list \<Rightarrow> policy \<Rightarrow> policy list" where
  "chain_add ps p = ps @ [p]"

definition second_ns :: int where
  "second_ns = 1000000000"

definition default_chain :: "policy list" where
  "default_chain = chain_add (chain_add chain_new (DeduplicationPolicy (dedup_new (60 * second_ns)))) MentionPolicy"

section \<open>What a policy keeps out\<close>

text \<open>
  A client of a policy relies on a set of messages that it always denies: the set does not depend on the earlier
  messages, nor on the identifier, the text and the time of a message, which the debouncer replaces, nor on its metadata, to
  which the dispatcher adds.
\<close>

definition rewritten :: "string \<Rightarrow> string \<Rightarrow> timestamp \<Rightarrow> json \<Rightarrow> channel_message \<Rightarrow> channel_message" where
  "rewritten i content t v m = m\<lparr>cm_id := i, cm_content := content, cm_timestamp := t, cm_metadata := v\<rparr>"

locale message_gate =
  fixes eval :: "'p \<Rightarrow> channel_message \<Rightarrow> nat \<Rightarrow> (policy_decision \<times> 'p) \<times> nat"
    and blocked :: "'p \<Rightarrow> channel_message \<Rightarrow> bool"
  assumes blocked_denied: "blocked p m \<Longrightarrow> \<exists>why. fst (fst (eval p m n)) = PolicyDeny why"
    and blocked_stays: "blocked (snd (fst (eval p m n))) m' = blocked p m'"
    and blocked_rewritten: "blocked p (rewritten i content t v m) = blocked p m"
begin

lemma passed_not_blocked: "fst (fst (eval p m n)) = PolicyAllow \<or> fst (fst (eval p m n)) = PolicyBuffer k \<Longrightarrow> \<not> blocked p m"
  using blocked_denied [of p m n] by auto

end

fun blocks :: "policy \<Rightarrow> channel_message \<Rightarrow> bool" where
  "blocks (DeduplicationPolicy p) m = False"
| "blocks MentionPolicy m = (cm_chat_type m \<in> {ChatGroup, ChatSuperGroup, ChatChannel} \<and> \<not> cm_bot_mentioned m)"
| "blocks (AccessControlPolicy a) m =
     ((case tbl_get (ac_blocklist a) (cm_channel m) of None \<Rightarrow> False | Some bs \<Rightarrow> cm_sender m \<in> set bs) \<or>
      (case tbl_get (ac_allowlist a) (cm_channel m) of None \<Rightarrow> False | Some xs \<Rightarrow> xs \<noteq> [] \<and> cm_sender m \<notin> set xs))"
| "blocks (SendPolicyFilter f) m = (tbl_get f (filter_key m) = Some SendDeny)"
| "blocks (PolicyChain ps) m = list_ex (\<lambda>p. blocks p m) ps"

lemma blocks_iff_refused:
  "blocks MentionPolicy m \<longleftrightarrow> evaluate_mention m \<noteq> PolicyAllow"
  "blocks (AccessControlPolicy a) m \<longleftrightarrow> evaluate_access a m \<noteq> PolicyAllow"
  "blocks (SendPolicyFilter f) m \<longleftrightarrow> evaluate_filter f m \<noteq> PolicyAllow"
  by (auto simp: evaluate_mention_def evaluate_access_def evaluate_filter_def filter_get_def
      split: chat_type.split send_policy.split option.splits)

lemma decisions:
  "fst (fst (evaluate_dedup inst p m n)) \<in> {PolicyAllow, PolicyDeny ''duplicate message''}"
  "evaluate_mention m \<in> {PolicyAllow, PolicyDeny ''group message without bot mention''}"
  "evaluate_access a m \<in> {PolicyAllow, PolicyDeny ''sender is blocklisted'', PolicyDeny ''sender not in allowlist''}"
  "evaluate_filter f m \<in> {PolicyAllow, PolicyDeny (''send policy denied for session '' @ filter_key m)}"
  by (auto simp: evaluate_dedup_def evaluate_mention_def evaluate_access_def evaluate_filter_def Let_def
      split: chat_type.split send_policy.split)

lemma evaluate_never_buffers:
  "\<exists>why. fst (fst (policy_evaluate inst p m n)) \<in> {PolicyAllow, PolicyDeny why}"
  "\<exists>why. fst (fst (evaluate_chain inst ps m n)) \<in> {PolicyAllow, PolicyDeny why}"
proof (induction inst p m n and inst ps m n rule: policy_evaluate_evaluate_chain.induct)
  case (1 inst p m n)
  then show ?case using decisions(1) [of inst p m n] by (auto split: prod.split)
next
  case (2 inst m n)
  then show ?case using decisions(2) [of m] by auto
next
  case (3 inst a m n)
  then show ?case using decisions(3) [of a m] by auto
next
  case (4 inst f m n)
  then show ?case using decisions(4) [of f m] by auto
next
  case (7 inst p ps m n)
  obtain d p' n' where e: "policy_evaluate inst p m n = ((d, p'), n')" by (metis prod.collapse)
  show ?case
  proof (cases d)
    case PolicyAllow
    with 7 e show ?thesis by (auto split: prod.splits)
  next
    case (PolicyDeny why)
    with 7 e show ?thesis by auto
  next
    case (PolicyBuffer k)
    with 7(1) e show ?thesis by auto
  qed
qed (auto split: prod.splits)

lemma blocks_denied:
  "blocks p m \<Longrightarrow> fst (fst (policy_evaluate inst p m n)) \<noteq> PolicyAllow"
  "list_ex (\<lambda>p. blocks p m) ps \<Longrightarrow> fst (fst (evaluate_chain inst ps m n)) \<noteq> PolicyAllow"
  supply blocks.simps(2-4) [simp del] blocks_iff_refused [simp]
proof (induction inst p m n and inst ps m n rule: policy_evaluate_evaluate_chain.induct)
  case (7 inst p ps m n)
  obtain d p' n' where e: "policy_evaluate inst p m n = ((d, p'), n')" by (metis prod.collapse)
  show ?case
  proof (cases d)
    case PolicyAllow
    with 7(1) e have "\<not> blocks p m" by auto
    with 7(3) have "list_ex (\<lambda>p. blocks p m) ps" by simp
    with 7(2) [OF e [symmetric] refl PolicyAllow] PolicyAllow e show ?thesis by (auto split: prod.splits)
  qed (simp_all add: e)
qed (auto split: prod.splits)

lemma blocks_stays:
  "blocks (snd (fst (policy_evaluate inst p m n))) m' = blocks p m'"
  "list_ex (\<lambda>p. blocks p m') (snd (fst (evaluate_chain inst ps m n))) = list_ex (\<lambda>p. blocks p m') ps"
proof (induction inst p m n and inst ps m n rule: policy_evaluate_evaluate_chain.induct)
  case (7 inst p ps m n)
  obtain d p' n' where e: "policy_evaluate inst p m n = ((d, p'), n')" by (metis prod.collapse)
  show ?case
  proof (cases d)
    case PolicyAllow
    from 7(2) [OF e [symmetric] refl PolicyAllow] 7(1) PolicyAllow e show ?thesis by (auto split: prod.splits)
  qed (use 7(1) e in simp_all)
qed (auto split: prod.splits)

lemma rewritten_same:
  "evaluate_mention (rewritten i content t v m) = evaluate_mention m"
  "evaluate_access a (rewritten i content t v m) = evaluate_access a m"
  "evaluate_filter f (rewritten i content t v m) = evaluate_filter f m"
proof -
  have key: "filter_key (rewritten i content t v m) = filter_key m" by (simp add: filter_key_def rewritten_def split: option.split)
  show "evaluate_filter f (rewritten i content t v m) = evaluate_filter f m" by (simp only: evaluate_filter_def key)
qed (simp_all add: evaluate_mention_def evaluate_access_def rewritten_def split: option.split chat_type.split)

lemmas blocks_induct = policy.induct

lemma blocks_rewritten: "blocks p (rewritten i content t v m) = blocks p m"
  by (induction p rule: blocks_induct) (simp_all add: rewritten_same list_ex_iff blocks_iff_refused del: blocks.simps(2-4))

interpretation chat_gate: message_gate "policy_evaluate inst" blocks for inst
proof
  fix p m n i content t v m'
  show "blocks p m \<Longrightarrow> \<exists>why. fst (fst (policy_evaluate inst p m n)) = PolicyDeny why"
    using blocks_denied(1) [of p m inst n] evaluate_never_buffers(1) [of inst p m n] by auto
  show "blocks (snd (fst (policy_evaluate inst p m n))) m' = blocks p m'" by (rule blocks_stays)
  show "blocks p (rewritten i content t v m) = blocks p m" by (rule blocks_rewritten)
qed

section \<open>Deduplication\<close>

text \<open>A run of the policy: the decision on each message with its key and the first and the last reading of the clock.\<close>

fun dedup_run :: "(nat \<Rightarrow> instant) \<Rightarrow> dedup_policy \<Rightarrow> channel_message list \<Rightarrow> nat \<Rightarrow>
    (policy_decision \<times> string \<times> instant \<times> instant) list" where
  "dedup_run inst p [] n = []"
| "dedup_run inst p (m # ms) n =
     (case evaluate_dedup inst p m n of
        ((d, p'), n') \<Rightarrow> (d, dedup_key m, inst n, inst (n' - 1)) # dedup_run inst p' ms n')"

text \<open>An accepted message is remembered, or its window is over.\<close>

definition remembered :: "(nat \<Rightarrow> instant) \<Rightarrow> dedup_policy \<Rightarrow> nat \<Rightarrow> string \<Rightarrow> instant \<Rightarrow> bool" where
  "remembered inst p n k t \<longleftrightarrow>
     (\<exists>ts \<ge> t. tbl_get (dd_seen p) k = Some ts) \<or> (\<forall>j \<ge> n. t + dd_window p \<le> inst j)"

lemma tbl_get_filter:
  "tbl_ok t \<Longrightarrow> tbl_get (filter P t) k = (case tbl_get t k of None \<Rightarrow> None | Some v \<Rightarrow> if P (k, v) then Some v else None)"
  by (induction t) (auto simp: tbl_get_def tbl_ok_def map_of_eq_None_iff split: option.splits dest: map_of_SomeD)

lemma evaluate_dedup_step:
  assumes ev: "evaluate_dedup inst p m n = ((d, p'), n')" and ok: "tbl_ok (dd_seen p)" and mono: "mono inst"
    and w: "0 \<le> dd_window p"
  shows "tbl_ok (dd_seen p')" "dd_window p' = dd_window p" "n < n'"
    "remembered inst p n k t \<Longrightarrow> t \<le> inst n \<Longrightarrow> remembered inst p' n' k t"
    "d = PolicyAllow \<Longrightarrow> remembered inst p' n' (dedup_key m) (inst n)"
    "d = PolicyAllow \<Longrightarrow> remembered inst p n (dedup_key m) t \<Longrightarrow> t \<le> inst n \<Longrightarrow> t + dd_window p \<le> inst (n' - 1)"
proof -
  define full where "full \<longleftrightarrow> unat (dd_count p) mod 100 = 99 \<or> length (dd_seen p) > 1000"
  define seen where "seen = (if full then filter (\<lambda>(_, ts). ts > inst (Suc n) - dd_window p) (dd_seen p) else dd_seen p)"
  define dup where "dup \<longleftrightarrow> (case tbl_get seen (dedup_key m) of None \<Rightarrow> False | Some ts \<Rightarrow> max 0 (inst n - ts) < dd_window p)"
  have n': "n' = (if full then Suc (Suc n) else Suc n)"
    and p': "dd_seen p' = (if dup then seen else tbl_upsert (dedup_key m) (inst n) (\<lambda>_. inst n) seen)"
    and win: "dd_window p' = dd_window p" and d: "d = PolicyAllow \<longleftrightarrow> \<not> dup"
    using ev unfolding evaluate_dedup_def Let_def evict_def full_def [symmetric]
    by (cases full; cases "tbl_get seen (dedup_key m)"; auto simp: dup_def seen_def split: if_splits)+
  show "dd_window p' = dd_window p" by (rule win)
  show "n < n'" by (simp add: n')
  have ok_seen: "tbl_ok seen" using ok by (simp add: seen_def tbl_ok_filter)
  then show "tbl_ok (dd_seen p')" by (simp add: p' tbl_ok_upsert)
  have get_seen: "tbl_get seen j = (case tbl_get (dd_seen p) j of None \<Rightarrow> None
      | Some ts \<Rightarrow> if full \<and> ts \<le> inst (Suc n) - dd_window p then None else Some ts)" for j
    using tbl_get_filter [OF ok, of "\<lambda>(_, ts). ts > inst (Suc n) - dd_window p"] by (auto simp: seen_def split: option.split)
  have late: "inst n \<le> inst j" if "n \<le> j" for j using monoD [OF mono that] .
  have last: "n' - 1 = (if full then Suc n else n)" by (simp add: n')
  have over: "t + dd_window p \<le> inst j" if "full" "ts \<le> inst (Suc n) - dd_window p" "t \<le> ts" "n' - 1 \<le> j" for ts t j
    using that monoD [OF mono, of "Suc n" j] last by simp
  show "remembered inst p' n' k t" if "remembered inst p n k t" "t \<le> inst n"
  proof -
    from that(1) consider (seen) ts where "t \<le> ts" "tbl_get (dd_seen p) k = Some ts" | (old) "\<forall>j \<ge> n. t + dd_window p \<le> inst j"
      unfolding remembered_def by blast
    then show ?thesis
    proof cases
      case seen
      show ?thesis
      proof (cases "full \<and> ts \<le> inst (Suc n) - dd_window p")
        case True
        with over [of ts t] seen show ?thesis by (auto simp: remembered_def win n')
      next
        case False
        with seen have "tbl_get seen k = Some ts" by (auto simp: get_seen)
        with seen that(2) show ?thesis by (auto simp: remembered_def p' tbl_get_upsert)
      qed
    next
      case old
      with \<open>n < n'\<close> show ?thesis by (auto simp: remembered_def win)
    qed
  qed
  show "remembered inst p' n' (dedup_key m) (inst n)" if "d = PolicyAllow"
    using that d by (auto simp: remembered_def p' tbl_get_upsert split: option.split)
  show "t + dd_window p \<le> inst (n' - 1)" if a: "d = PolicyAllow" and r: "remembered inst p n (dedup_key m) t" and "t \<le> inst n"
  proof -
    from r consider (seen) ts where "t \<le> ts" "tbl_get (dd_seen p) (dedup_key m) = Some ts" | (old) "\<forall>j \<ge> n. t + dd_window p \<le> inst j"
      unfolding remembered_def by blast
    then show ?thesis
    proof cases
      case seen
      show ?thesis
      proof (cases "full \<and> ts \<le> inst (Suc n) - dd_window p")
        case True
        with over [of ts t "n' - 1"] seen show ?thesis by simp
      next
        case False
        with seen a d have "dd_window p \<le> max 0 (inst n - ts)" by (auto simp: get_seen dup_def)
        with w seen(1) \<open>t \<le> inst n\<close> late [of "n' - 1"] n' show ?thesis by (auto simp: max_def split: if_splits)
      qed
    next
      case old
      moreover have "n \<le> n' - 1" by (simp add: n')
      ultimately show ?thesis by blast
    qed
  qed
qed

lemma dedup_run_window:
  assumes "mono inst"
  shows "tbl_ok (dd_seen p) \<Longrightarrow> 0 \<le> dd_window p \<Longrightarrow> \<forall>(k, t) \<in> H. remembered inst p n k t \<and> t \<le> inst n \<Longrightarrow>
    (PolicyAllow, k, t1, t2) \<in> set (dedup_run inst p ms n) \<Longrightarrow> (k, t) \<in> H \<Longrightarrow> t + dd_window p \<le> t2"
proof (induction ms arbitrary: p n H)
  case Nil
  then show ?case by simp
next
  case (Cons m ms)
  obtain d p' n' where ev: "evaluate_dedup inst p m n = ((d, p'), n')" by (metis prod.collapse)
  note step = evaluate_dedup_step [OF ev Cons.prems(1) assms Cons.prems(2)]
  from Cons.prems(4) ev consider (now) "d = PolicyAllow" "k = dedup_key m" "t2 = inst (n' - 1)"
    | (later) "(PolicyAllow, k, t1, t2) \<in> set (dedup_run inst p' ms n')" by auto
  then show ?case
  proof cases
    case now
    with step(6) [of t] Cons.prems(3,5) show ?thesis by auto
  next
    case later
    have "inst n \<le> inst n'" using monoD [OF assms, of n n'] step(3) by simp
    then have "\<forall>(k, t) \<in> H. remembered inst p' n' k t \<and> t \<le> inst n'" using Cons.prems(3) step(4) by fastforce
    with Cons.IH [OF step(1) _ _ later Cons.prems(5)] Cons.prems(2) step(2) show ?thesis by simp
  qed
qed

text \<open>
  Two messages with the same channel and identifier are both let through only if their window lies between them, from
  the first reading of the clock for the earlier to the last one for the later, however many other messages come and
  old entries are evicted.
\<close>

theorem duplicates_are_a_window_apart:
  assumes "mono inst" and "0 \<le> window"
    and "dedup_run inst (dedup_new window) ms n = before @ (PolicyAllow, k, t1, t1') # later"
    and "(PolicyAllow, k, t2, t2') \<in> set later"
  shows "t1 + window \<le> t2'"
proof -
  have run: "tbl_ok (dd_seen p) \<Longrightarrow> 0 \<le> dd_window p \<Longrightarrow>
      dedup_run inst p ms n = before @ (PolicyAllow, k, t1, t1') # later \<Longrightarrow> t1 + dd_window p \<le> t2'" for p
  proof (induction ms arbitrary: p n before)
    case Nil
    then show ?case by simp
  next
    case (Cons m ms)
    obtain d p' n' where ev: "evaluate_dedup inst p m n = ((d, p'), n')" by (metis prod.collapse)
    note step = evaluate_dedup_step [OF ev Cons.prems(1) assms(1) Cons.prems(2)]
    show ?case
    proof (cases before)
      case Nil
      with Cons.prems(3) ev have "d = PolicyAllow" "k = dedup_key m" "t1 = inst n" and l: "later = dedup_run inst p' ms n'"
        by auto
      then have "\<forall>(k', t) \<in> {(k, t1)}. remembered inst p' n' k' t \<and> t \<le> inst n'"
        using step(3,5) monoD [OF assms(1), of n n'] by simp
      moreover obtain t where "(PolicyAllow, k, t, t2') \<in> set (dedup_run inst p' ms n')" using assms(4) l by blast
      ultimately show ?thesis
        using dedup_run_window [OF assms(1) step(1), of "{(k, t1)}" n' k t t2' ms t1] Cons.prems(2) step(2) by simp
    next
      case (Cons x before')
      with Cons.prems(3) ev have "dedup_run inst p' ms n' = before' @ (PolicyAllow, k, t1, t1') # later" by simp
      with Cons.IH [OF step(1)] Cons.prems(2) step(2) show ?thesis by simp
    qed
  qed
  from run [of "dedup_new window"] assms(2,3) show ?thesis by (simp add: dedup_new_def tbl_ok_def)
qed

definition tick_clock :: "nat \<Rightarrow> instant" where
  "tick_clock n = 30 * int n"

definition plain_message :: "string \<Rightarrow> channel_message" where
  "plain_message i = message_new i ''ann'' ''hello'' ''tg'' 0"

theorem duplicates_are_a_window_apart_witness:
  "(0 :: int) + 60 \<le> 60 \<and>
   dedup_run tick_clock (dedup_new 60) [plain_message ''1'', plain_message ''1'', plain_message ''1''] 0 =
     [(PolicyAllow, ''tg:1'', 0, 0), (PolicyDeny ''duplicate message'', ''tg:1'', 30, 30), (PolicyAllow, ''tg:1'', 60, 60)]"
proof -
  have run: "dedup_run tick_clock (dedup_new 60) [plain_message ''1'', plain_message ''1'', plain_message ''1''] 0 =
     [(PolicyAllow, ''tg:1'', 0, 0), (PolicyDeny ''duplicate message'', ''tg:1'', 30, 30), (PolicyAllow, ''tg:1'', 60, 60)]"
    by (simp add: tick_clock_def dedup_new_def plain_message_def message_new_def evaluate_dedup_def dedup_key_def
        tbl_upsert_def tbl_update_def tbl_get_def Let_def)
  have "mono tick_clock" by (simp add: mono_def tick_clock_def)
  from duplicates_are_a_window_apart [OF this, of 60 "[plain_message ''1'', plain_message ''1'', plain_message ''1'']" 0 "[]"
      "''tg:1''" 0 0 "[(PolicyDeny ''duplicate message'', ''tg:1'', 30, 30), (PolicyAllow, ''tg:1'', 60, 60)]" 60 60]
  show ?thesis using run by simp
qed

end
