(* ===== verification/Debounce.thy ===== *)
theory Debounce
  imports Channel_Policy
begin

text \<open>
  The debouncer (\<open>crates/channel/src/debounce.rs\<close>): quick messages of one sender are collected and passed on as one.
  \<open>chat_env\<close> has what the channel crate reads from outside, by the number of the reading: the monotonic and the
  wall clock, and fresh identifiers as text.
\<close>

record chat_env =
  xe_inst :: "nat \<Rightarrow> instant"
  xe_utc :: "nat \<Rightarrow> timestamp"
  xe_uuid :: "nat \<Rightarrow> string"

record ticks =
  tk_inst :: nat
  tk_utc :: nat
  tk_uuid :: nat

definition read_inst :: "chat_env \<Rightarrow> ticks \<Rightarrow> instant \<times> ticks" where
  "read_inst E k = (xe_inst E (tk_inst k), k\<lparr>tk_inst := Suc (tk_inst k)\<rparr>)"

definition read_utc :: "chat_env \<Rightarrow> ticks \<Rightarrow> timestamp \<times> ticks" where
  "read_utc E k = (xe_utc E (tk_utc k), k\<lparr>tk_utc := Suc (tk_utc k)\<rparr>)"

definition fresh_text :: "chat_env \<Rightarrow> ticks \<Rightarrow> string \<times> ticks" where
  "fresh_text E k = (xe_uuid E (tk_uuid k), k\<lparr>tk_uuid := Suc (tk_uuid k)\<rparr>)"

definition debounce_key :: "channel_message \<Rightarrow> string" where
  "debounce_key m =
     (case cm_group_id m of
        Some g \<Rightarrow> cm_channel m @ '':'' @ g @ '':'' @ cm_sender m
      | None \<Rightarrow> cm_channel m @ '':'' @ cm_sender m)"

record batch =
  bt_first :: channel_message
  bt_fragments :: "string list"
  bt_char_count :: nat
  bt_last :: instant

record debouncer =
  de_window :: int
  de_max_chars :: nat
  de_pending :: "(string, batch) table"

definition debouncer_new :: "int \<Rightarrow> nat \<Rightarrow> debouncer" where
  "debouncer_new window max_chars = \<lparr>de_window = window, de_max_chars = max_chars, de_pending = []\<rparr>"

definition newline :: string where
  "newline = [CHR 0x0A]"

definition combine :: "chat_env \<Rightarrow> batch \<Rightarrow> ticks \<Rightarrow> channel_message \<times> ticks" where
  "combine E b k =
     (let (i, k1) = fresh_text E k; (t, k2) = read_utc E k1
      in ((bt_first b)\<lparr>cm_id := i, cm_content := join newline (bt_fragments b), cm_timestamp := t\<rparr>, k2))"

definition debounce_accept :: "chat_env \<Rightarrow> channel_message \<Rightarrow> debouncer \<Rightarrow> ticks \<Rightarrow>
    channel_message option \<times> debouncer \<times> ticks" where
  "debounce_accept E m d k =
     (let key = debounce_key m; (now, k1) = read_inst E k in
      case tbl_get (de_pending d) key of
        Some b \<Rightarrow>
          let b' = b\<lparr>bt_char_count := bt_char_count b + length (cm_content m),
                     bt_fragments := bt_fragments b @ [cm_content m], bt_last := now\<rparr> in
          if de_max_chars d \<le> bt_char_count b'
          then (let (c, k2) = combine E b' k1 in (Some c, d\<lparr>de_pending := tbl_delete key (de_pending d)\<rparr>, k2))
          else (None, d\<lparr>de_pending := tbl_update key (\<lambda>_. b') (de_pending d)\<rparr>, k1)
      | None \<Rightarrow>
          (None, d\<lparr>de_pending := de_pending d @
             [(key, \<lparr>bt_first = m, bt_fragments = [cm_content m], bt_char_count = length (cm_content m), bt_last = now\<rparr>)]\<rparr>, k1))"

fun flush_keys :: "chat_env \<Rightarrow> string list \<Rightarrow> debouncer \<Rightarrow> ticks \<Rightarrow> channel_message list \<times> debouncer \<times> ticks" where
  "flush_keys E [] d k = ([], d, k)"
| "flush_keys E (key # keys) d k =
     (case tbl_get (de_pending d) key of
        None \<Rightarrow> flush_keys E keys d k
      | Some b \<Rightarrow>
          let (c, k1) = combine E b k;
              (cs, d', k2) = flush_keys E keys (d\<lparr>de_pending := tbl_delete key (de_pending d)\<rparr>) k1
          in (c # cs, d', k2))"

definition flush_expired :: "chat_env \<Rightarrow> debouncer \<Rightarrow> ticks \<Rightarrow> channel_message list \<times> debouncer \<times> ticks" where
  "flush_expired E d k =
     (let (now, k1) = read_inst E k
      in flush_keys E (map fst (filter (\<lambda>(_, b). de_window d \<le> max 0 (now - bt_last b)) (de_pending d))) d k1)"

fun combine_all :: "chat_env \<Rightarrow> batch list \<Rightarrow> ticks \<Rightarrow> channel_message list \<times> ticks" where
  "combine_all E [] k = ([], k)"
| "combine_all E (b # bs) k =
     (let (c, k1) = combine E b k; (cs, k2) = combine_all E bs k1 in (c # cs, k2))"

definition flush_all :: "chat_env \<Rightarrow> debouncer \<Rightarrow> ticks \<Rightarrow> channel_message list \<times> debouncer \<times> ticks" where
  "flush_all E d k = (case combine_all E (map snd (de_pending d)) k of (cs, k') \<Rightarrow> (cs, d\<lparr>de_pending := []\<rparr>, k'))"

definition pending_count :: "debouncer \<Rightarrow> nat" where
  "pending_count d = length (de_pending d)"

section \<open>No text is lost\<close>

text \<open>
  The abstract view of one sender: the texts that have gone out and those that wait. A batch has at least one text, and
  all of it belongs to its key.
\<close>

definition batches_ok :: "debouncer \<Rightarrow> bool" where
  "batches_ok d \<longleftrightarrow> tbl_ok (de_pending d) \<and>
     (\<forall>(key, b) \<in> set (de_pending d). bt_fragments b \<noteq> [] \<and> debounce_key (bt_first b) = key)"

definition waiting :: "string \<Rightarrow> debouncer \<Rightarrow> string list" where
  "waiting key d = (case tbl_get (de_pending d) key of None \<Rightarrow> [] | Some b \<Rightarrow> bt_fragments b)"

definition texts :: "string \<Rightarrow> channel_message list \<Rightarrow> string list" where
  "texts key ms = map cm_content (filter (\<lambda>m. debounce_key m = key) ms)"

lemma texts_simps [simp]:
  "texts key [] = []"
  "texts key (m # ms) = (if debounce_key m = key then [cm_content m] else []) @ texts key ms"
  "texts key (ms @ ms') = texts key ms @ texts key ms'"
  by (simp_all add: texts_def)

lemma nl_join_append:
  "join sep (xs @ ys) = (if xs = [] then join sep ys else if ys = [] then join sep xs else join sep xs @ sep @ join sep ys)"
  by (induction sep xs rule: join.induct) (auto, (cases ys, auto)+)

lemma join_join: "ys \<noteq> [] \<Longrightarrow> join sep (xs @ join sep ys # zs) = join sep (xs @ ys @ zs)"
  using nl_join_append [of sep "[join sep ys]" zs] by (simp add: nl_join_append)

lemma combine_eq:
  "\<exists>i t k'. combine E b k = (rewritten i (join newline (bt_fragments b)) t (cm_metadata (bt_first b)) (bt_first b), k')"
  by (auto simp: combine_def rewritten_def fresh_text_def read_utc_def)

lemma key_rewritten [simp]: "debounce_key (rewritten i c t v m) = debounce_key m"
  by (simp add: debounce_key_def rewritten_def split: option.split)

lemma content_rewritten [simp]: "cm_content (rewritten i c t v m) = c"
  by (simp add: rewritten_def)

lemma waiting_simps:
  "waiting key (d\<lparr>de_pending := tbl_delete key' (de_pending d)\<rparr>) = (if key = key' then [] else waiting key d)"
  "waiting key (d\<lparr>de_pending := tbl_update key' (\<lambda>_. b) (de_pending d)\<rparr>) =
    (if key = key' \<and> tbl_get (de_pending d) key' \<noteq> None then bt_fragments b else waiting key d)"
  by (auto simp: waiting_def tbl_get_delete tbl_get_update split: option.split)

lemma batches_okD:
  "batches_ok d \<Longrightarrow> tbl_get (de_pending d) key = Some b \<Longrightarrow> bt_fragments b \<noteq> [] \<and> debounce_key (bt_first b) = key"
  by (auto simp: batches_ok_def tbl_get_def dest: map_of_SomeD)

lemma batches_ok_delete: "batches_ok d \<Longrightarrow> batches_ok (d\<lparr>de_pending := tbl_delete key (de_pending d)\<rparr>)"
  by (auto simp: batches_ok_def tbl_ok_filter tbl_delete_def)

text \<open>The texts of a key stay the same, up to the joining of neighbours.\<close>

definition carried :: "string \<Rightarrow> debouncer \<Rightarrow> string list \<Rightarrow> channel_message list \<Rightarrow> debouncer \<Rightarrow> bool" where
  "carried key d xs outs d' \<longleftrightarrow>
     (\<forall>pre post. join newline (pre @ texts key outs @ waiting key d' @ post) = join newline (pre @ waiting key d @ xs @ post))"

lemma carried_trans:
  assumes "carried key d xs outs d1" and "carried key d1 ys outs' d2"
  shows "carried key d (xs @ ys) (outs @ outs') d2"
  unfolding carried_def
proof (intro allI)
  fix pre post
  have "join newline (pre @ texts key (outs @ outs') @ waiting key d2 @ post) =
      join newline ((pre @ texts key outs) @ texts key outs' @ waiting key d2 @ post)" by simp
  also have "\<dots> = join newline ((pre @ texts key outs) @ waiting key d1 @ ys @ post)"
    using assms(2) unfolding carried_def by blast
  also have "\<dots> = join newline (pre @ texts key outs @ waiting key d1 @ ys @ post)" by simp
  also have "\<dots> = join newline (pre @ waiting key d @ xs @ ys @ post)"
    using assms(1) unfolding carried_def by blast
  finally show "join newline (pre @ texts key (outs @ outs') @ waiting key d2 @ post) =
      join newline (pre @ waiting key d @ (xs @ ys) @ post)" by simp
qed

lemma carried_refl [simp]: "carried key d [] [] d"
  by (simp add: carried_def)

lemma carried_combine:
  assumes ok: "batches_ok d" and b: "tbl_get (de_pending d) key' = Some b" and c: "combine E b k = (c, k')"
  shows "carried key d [] [c] (d\<lparr>de_pending := tbl_delete key' (de_pending d)\<rparr>)"
proof -
  obtain i t where c': "c = rewritten i (join newline (bt_fragments b)) t (cm_metadata (bt_first b)) (bt_first b)"
    using combine_eq [of E b k] c by auto
  have f: "bt_fragments b \<noteq> []" "debounce_key (bt_first b) = key'" using batches_okD [OF ok b] by auto
  show ?thesis
    unfolding carried_def waiting_simps using join_join [OF f(1)] b
    by (auto simp: c' f(2) waiting_def)
qed

lemma carried_flush_keys:
  "batches_ok d \<Longrightarrow> flush_keys E keys d k = (cs, d', k') \<Longrightarrow> carried key d [] cs d' \<and> batches_ok d'"
proof (induction keys arbitrary: d k cs)
  case Nil
  then show ?case by simp
next
  case (Cons key' keys)
  show ?case
  proof (cases "tbl_get (de_pending d) key'")
    case None
    with Cons show ?thesis by simp
  next
    case (Some b)
    let ?d = "d\<lparr>de_pending := tbl_delete key' (de_pending d)\<rparr>"
    obtain c k1 where c: "combine E b k = (c, k1)" by fastforce
    obtain cs1 where r: "flush_keys E keys ?d k1 = (cs1, d', k')" "cs = c # cs1"
      using Cons.prems(2) Some c by (auto split: prod.splits)
    show ?thesis
      using Cons.IH [OF batches_ok_delete [OF Cons.prems(1)] r(1)] r(2)
        carried_trans [OF carried_combine [OF Cons.prems(1) Some c]] by fastforce
  qed
qed

lemma texts_combine_all:
  "combine_all E (map snd t) k = (cs, k') \<Longrightarrow> tbl_ok t \<Longrightarrow> \<forall>(key, b) \<in> set t. debounce_key (bt_first b) = key \<Longrightarrow>
     texts key cs = (case tbl_get t key of None \<Rightarrow> [] | Some b \<Rightarrow> [join newline (bt_fragments b)])"
proof (induction t arbitrary: k cs)
  case Nil
  then show ?case by simp
next
  case (Cons x t)
  obtain key' b where x: "x = (key', b)" by fastforce
  obtain c k1 cs1 where r: "combine E b k = (c, k1)" "combine_all E (map snd t) k1 = (cs1, k')" "cs = c # cs1"
    using Cons.prems(1) by (auto simp: x split: prod.splits)
  have c: "debounce_key c = key'" "cm_content c = join newline (bt_fragments b)"
    using combine_eq [of E b k] r(1) Cons.prems(3) by (auto simp: x)
  have "key' \<notin> fst ` set t" "tbl_ok t" using Cons.prems(2) by (auto simp: x tbl_ok_def)
  then have "tbl_get t key' = None" by (simp add: tbl_get_def map_of_eq_None_iff)
  with Cons.IH [OF r(2) \<open>tbl_ok t\<close>] Cons.prems(3) c show ?case
    by (auto simp: x r(3) tbl_get_def)
qed

lemma carried_flush_all:
  assumes ok: "batches_ok d" and fl: "flush_all E d k = (cs, d', k')"
  shows "carried key d [] cs d' \<and> batches_ok d'"
proof -
  have d': "d' = d\<lparr>de_pending := []\<rparr>" and c: "combine_all E (map snd (de_pending d)) k = (cs, k')"
    using fl by (auto simp: flush_all_def split: prod.splits)
  have "\<forall>(key, b) \<in> set (de_pending d). debounce_key (bt_first b) = key" using ok by (auto simp: batches_ok_def)
  then have t: "texts key cs = (case tbl_get (de_pending d) key of None \<Rightarrow> [] | Some b \<Rightarrow> [join newline (bt_fragments b)])"
    using texts_combine_all [OF c] ok by (simp add: batches_ok_def)
  show ?thesis
  proof (cases "tbl_get (de_pending d) key")
    case None
    with t d' show ?thesis by (simp add: carried_def waiting_def batches_ok_def tbl_ok_def)
  next
    case (Some b)
    with batches_okD [OF ok Some] t d' show ?thesis
      by (simp add: carried_def waiting_def join_join batches_ok_def tbl_ok_def)
  qed
qed

lemma tbl_delete_update: "tbl_delete key (tbl_update key f t) = tbl_delete key t"
  by (induction t) (auto simp: tbl_delete_def tbl_update_def)

lemma carried_accept:
  assumes ok: "batches_ok d" and ac: "debounce_accept E m d k = (out, d', k')"
  shows "carried key d (texts key [m]) (case out of None \<Rightarrow> [] | Some c \<Rightarrow> [c]) d' \<and> batches_ok d'"
proof (cases "tbl_get (de_pending d) (debounce_key m)")
  case None
  let ?b = "\<lparr>bt_first = m, bt_fragments = [cm_content m], bt_char_count = length (cm_content m), bt_last = xe_inst E (tk_inst k)\<rparr>"
  have d': "d' = d\<lparr>de_pending := de_pending d @ [(debounce_key m, ?b)]\<rparr>" "out = None"
    using ac None by (simp_all add: debounce_accept_def read_inst_def Let_def)
  have "waiting key d' = waiting key d @ texts key [m]"
    using None by (auto simp: d' waiting_def tbl_get_snoc split: option.split)
  moreover have "batches_ok d'"
    using ok None by (auto simp: d' batches_ok_def tbl_ok_def tbl_get_def map_of_eq_None_iff)
  ultimately show ?thesis by (simp add: d' carried_def)
next
  case (Some b)
  define b' where "b' = b\<lparr>bt_char_count := bt_char_count b + length (cm_content m),
      bt_fragments := bt_fragments b @ [cm_content m], bt_last := xe_inst E (tk_inst k)\<rparr>"
  let ?d = "d\<lparr>de_pending := tbl_update (debounce_key m) (\<lambda>_. b') (de_pending d)\<rparr>"
  have ok': "batches_ok ?d"
  proof -
    have "tbl_ok (de_pending ?d)" using ok by (simp add: batches_ok_def tbl_ok_def)
    moreover have "\<forall>(key, c) \<in> set (de_pending ?d). bt_fragments c \<noteq> [] \<and> debounce_key (bt_first c) = key"
      using ok batches_okD [OF ok Some] by (auto simp: batches_ok_def tbl_update_def b'_def split: if_splits)
    ultimately show ?thesis unfolding batches_ok_def by blast
  qed
  have up: "carried key d (texts key [m]) [] ?d"
    using Some by (auto simp: carried_def waiting_simps b'_def) (auto simp: waiting_def)
  show ?thesis
  proof (cases "de_max_chars d \<le> bt_char_count b'")
    case True
    obtain c k2 where c: "combine E b' (k\<lparr>tk_inst := Suc (tk_inst k)\<rparr>) = (c, k2)" by fastforce
    have d': "d' = ?d\<lparr>de_pending := tbl_delete (debounce_key m) (de_pending ?d)\<rparr>" "out = Some c"
      using ac Some True c by (simp_all add: debounce_accept_def read_inst_def Let_def b'_def tbl_delete_update)
    have "tbl_get (de_pending ?d) (debounce_key m) = Some b'" using Some by (simp add: tbl_get_update)
    from carried_trans [OF up carried_combine [OF ok' this c]] batches_ok_delete [OF ok'] show ?thesis by (simp add: d')
  next
    case False
    with ac Some have "d' = ?d" "out = None" by (simp_all add: debounce_accept_def read_inst_def Let_def b'_def)
    with up ok' show ?thesis by simp
  qed
qed

text \<open>A run: messages come in, the timer fires, or the loop ends.\<close>

datatype debounce_event = Incoming channel_message | Timer | Ending

fun debounce_run :: "chat_env \<Rightarrow> debounce_event list \<Rightarrow> debouncer \<Rightarrow> ticks \<Rightarrow> channel_message list \<times> debouncer \<times> ticks" where
  "debounce_run E [] d k = ([], d, k)"
| "debounce_run E (ev # evs) d k =
     (let (outs, d1, k1) = (case ev of
            Incoming m \<Rightarrow> (case debounce_accept E m d k of (out, d1, k1) \<Rightarrow> (case out of None \<Rightarrow> [] | Some c \<Rightarrow> [c], d1, k1))
          | Timer \<Rightarrow> flush_expired E d k
          | Ending \<Rightarrow> flush_all E d k);
          (outs', d2, k2) = debounce_run E evs d1 k1
      in (outs @ outs', d2, k2))"

fun incoming :: "debounce_event list \<Rightarrow> channel_message list" where
  "incoming [] = []"
| "incoming (Incoming m # evs) = m # incoming evs"
| "incoming (Timer # evs) = incoming evs"
| "incoming (Ending # evs) = incoming evs"

lemma carried_run:
  "batches_ok d \<Longrightarrow> debounce_run E evs d k = (outs, d', k') \<Longrightarrow> carried key d (texts key (incoming evs)) outs d'"
proof (induction evs arbitrary: d k outs)
  case Nil
  then show ?case by simp
next
  case (Cons ev evs)
  obtain outs1 d1 k1 where s: "(case ev of
            Incoming m \<Rightarrow> (case debounce_accept E m d k of (out, d1, k1) \<Rightarrow> (case out of None \<Rightarrow> [] | Some c \<Rightarrow> [c], d1, k1))
          | Timer \<Rightarrow> flush_expired E d k
          | Ending \<Rightarrow> flush_all E d k) = (outs1, d1, k1)" by (metis prod.collapse)
  obtain outs2 where r: "debounce_run E evs d1 k1 = (outs2, d', k')" "outs = outs1 @ outs2"
    using Cons.prems(2) s by (auto simp: Let_def split: prod.splits)
  have "carried key d (texts key (incoming [ev])) outs1 d1 \<and> batches_ok d1"
  proof (cases ev)
    case (Incoming m)
    with s obtain out where a: "debounce_accept E m d k = (out, d1, k1)" and o: "outs1 = (case out of None \<Rightarrow> [] | Some c \<Rightarrow> [c])"
      by (auto split: prod.splits)
    from carried_accept [OF Cons.prems(1) a, of key] show ?thesis by (simp add: Incoming o)
  next
    case Timer
    with s carried_flush_keys [OF Cons.prems(1)] show ?thesis by (auto simp: flush_expired_def read_inst_def)
  next
    case Ending
    with s carried_flush_all [OF Cons.prems(1)] show ?thesis by simp
  qed
  moreover have "texts key (incoming (ev # evs)) = texts key (incoming [ev]) @ texts key (incoming evs)"
    by (cases ev) simp_all
  ultimately show ?case using carried_trans Cons.IH [OF _ r(1)] r(2) by auto
qed

text \<open>
  C24. The debouncer loses no text and keeps the order of each sender: what has gone out under a key, followed by what
  still waits, reads like everything that came in under it, line by line.
\<close>

theorem debouncer_loses_nothing:
  assumes "debounce_run E evs (debouncer_new window max_chars) k = (outs, d, k')"
  shows "join newline (texts key outs @ waiting key d) = join newline (texts key (incoming evs))"
proof -
  have ok: "batches_ok (debouncer_new window max_chars)" by (simp add: batches_ok_def debouncer_new_def tbl_ok_def)
  have "waiting key (debouncer_new window max_chars) = []" by (simp add: waiting_def debouncer_new_def)
  with carried_run [OF ok assms, of key, unfolded carried_def, rule_format, of "[]" "[]"] show ?thesis by simp
qed

definition demo_chat :: chat_env where
  "demo_chat = \<lparr>xe_inst = int, xe_utc = int, xe_uuid = show_nat\<rparr>"

theorem debouncer_loses_nothing_witness:
  "let ms = [plain_message ''1'', (plain_message ''2'')\<lparr>cm_content := ''there''\<rparr>];
       run = debounce_run demo_chat (map Incoming ms @ [Ending]) (debouncer_new 5 100) \<lparr>tk_inst = 0, tk_utc = 0, tk_uuid = 0\<rparr> in
   join newline (texts ''tg:ann'' (fst run) @ waiting ''tg:ann'' (fst (snd run))) = join newline (texts ''tg:ann'' (incoming (map Incoming ms @ [Ending])))"
  unfolding Let_def
  by (rule debouncer_loses_nothing [of demo_chat _ 5 100 "\<lparr>tk_inst = 0, tk_utc = 0, tk_uuid = 0\<rparr>" _ _
        "snd (snd (debounce_run demo_chat (map Incoming [plain_message ''1'', (plain_message ''2'')\<lparr>cm_content := ''there''\<rparr>] @ [Ending])
          (debouncer_new 5 100) \<lparr>tk_inst = 0, tk_utc = 0, tk_uuid = 0\<rparr>))"]) simp

end
