(* ===== verification/Chat_Session.thy ===== *)
theory Chat_Session
  imports Debounce
begin

text \<open>
  Sessions of chats (\<open>crates/channel/src/session.rs\<close>) and the store of received messages (\<open>persistence.rs\<close>, the
  in-memory one, which is the only implementation).
\<close>

section \<open>The session router\<close>

datatype dm_scope = ScopeMain | ScopePerPeer | ScopePerChannelPeer

record takeover_state =
  to_operator :: string
  to_started_at :: timestamp
  to_reason :: "string option"

record session_config =
  sc_agent_id :: "string option"
  sc_flow_id :: "string option"
  sc_send_policy :: send_policy
  sc_takeover :: "takeover_state option"

definition session_default :: session_config where
  "session_default = \<lparr>sc_agent_id = None, sc_flow_id = None, sc_send_policy = SendAllow, sc_takeover = None\<rparr>"

record session_router =
  sr_scope :: dm_scope
  sr_sessions :: "(string, session_config) table"
  sr_default :: session_config

definition router_new :: "dm_scope \<Rightarrow> session_config \<Rightarrow> session_router" where
  "router_new sc cfg = \<lparr>sr_scope = sc, sr_sessions = [], sr_default = cfg\<rparr>"

definition router_default :: session_router where
  "router_default = router_new ScopePerPeer session_default"

definition session_key :: "dm_scope \<Rightarrow> channel_message \<Rightarrow> string" where
  "session_key sc m =
     (case cm_group_id m of
        Some g \<Rightarrow> cm_channel m @ '':group:'' @ g
      | None \<Rightarrow>
          (case sc of
             ScopeMain \<Rightarrow> cm_channel m @ '':dm:main''
           | ScopePerPeer \<Rightarrow> cm_channel m @ '':dm:'' @ cm_sender m
           | ScopePerChannelPeer \<Rightarrow> cm_channel m @ '':dm:'' @ cm_channel m @ '':'' @ cm_sender m))"

definition resolve :: "session_router \<Rightarrow> channel_message \<Rightarrow> string \<times> session_config" where
  "resolve R m =
     (let key = session_key (sr_scope R) m in
      (key, case tbl_get (sr_sessions R) key of Some cfg \<Rightarrow> cfg | None \<Rightarrow> sr_default R))"

definition set_config :: "string \<Rightarrow> session_config \<Rightarrow> session_router \<Rightarrow> session_router" where
  "set_config key cfg R = R\<lparr>sr_sessions := tbl_upsert key cfg (\<lambda>_. cfg) (sr_sessions R)\<rparr>"

definition get_config :: "string \<Rightarrow> session_router \<Rightarrow> session_config option" where
  "get_config key R = tbl_get (sr_sessions R) key"

definition remove_config :: "string \<Rightarrow> session_router \<Rightarrow> session_router" where
  "remove_config key R = R\<lparr>sr_sessions := tbl_delete key (sr_sessions R)\<rparr>"

definition session_keys :: "session_router \<Rightarrow> string list" where
  "session_keys R = map fst (sr_sessions R)"

definition start_takeover :: "chat_env \<Rightarrow> string \<Rightarrow> string \<Rightarrow> string option \<Rightarrow> session_router \<Rightarrow> ticks \<Rightarrow>
    session_config \<times> session_router \<times> ticks" where
  "start_takeover E key operator reason R k =
     (let old = (case tbl_get (sr_sessions R) key of Some cfg \<Rightarrow> cfg | None \<Rightarrow> sr_default R);
          (now, k1) = read_utc E k;
          cfg = old\<lparr>sc_takeover := Some \<lparr>to_operator = operator, to_started_at = now, to_reason = reason\<rparr>\<rparr>
      in (cfg, set_config key cfg R, k1))"

definition end_takeover :: "string \<Rightarrow> session_router \<Rightarrow> session_config option \<times> session_router" where
  "end_takeover key R =
     (case tbl_get (sr_sessions R) key of
        None \<Rightarrow> (None, R)
      | Some cfg \<Rightarrow> (let cfg' = cfg\<lparr>sc_takeover := None\<rparr> in (Some cfg', set_config key cfg' R)))"

text \<open>The reply of the operator; \<open>send\<close> is the channel.\<close>

definition forward_takeover_reply :: "string \<Rightarrow> string \<Rightarrow> (send_message \<Rightarrow> ('c, atta_error, unit) io) \<Rightarrow> channel_message \<Rightarrow>
    session_router \<Rightarrow> ('c, atta_error, unit) io" where
  "forward_takeover_reply key content send orig R =
     (if (case tbl_get (sr_sessions R) key of None \<Rightarrow> False | Some cfg \<Rightarrow> sc_takeover cfg \<noteq> None)
      then send \<lparr>sm_recipient = cm_sender orig, sm_content = content, sm_subject = None,
                 sm_thread_ts = cm_thread_ts orig, sm_metadata = mk_obj []\<rparr>
      else failE (Validation ''session is not in takeover mode''))"

text \<open>
  The scope per channel and peer makes the same sessions as the scope per peer, for channels without a colon in their
  name; the scope per peer is already one per channel.
\<close>

lemma append_colon:
  assumes "a @ CHR '':'' # x = b @ CHR '':'' # y" and "CHR '':'' \<notin> set a" and "CHR '':'' \<notin> set b"
  shows "a = b \<and> x = y"
  using assms by (induction a arbitrary: b) (case_tac b; auto)+

lemma scopes_agree:
  assumes "CHR '':'' \<notin> set (cm_channel m)" and "CHR '':'' \<notin> set (cm_channel m')"
    and "cm_group_id m = None" and "cm_group_id m' = None"
  shows "session_key ScopePerChannelPeer m = session_key ScopePerChannelPeer m' \<longleftrightarrow>
    session_key ScopePerPeer m = session_key ScopePerPeer m'"
proof -
  have keys: "(cm_channel m @ CHR '':'' # x = cm_channel m' @ CHR '':'' # y) = (cm_channel m = cm_channel m' \<and> x = y)" for x y
    using append_colon [OF _ assms(1,2)] by auto
  show ?thesis by (auto simp: session_key_def assms(3,4) keys)
qed

section \<open>The message store\<close>

datatype message_status = MsgPending | MsgProcessing | MsgCompleted | MsgFailed | MsgHeld

record persisted_message =
  pm_record_id :: string
  pm_message :: channel_message
  pm_status :: message_status
  pm_attempts :: u32
  pm_last_error :: "string option"
  pm_received_at :: timestamp
  pm_updated_at :: timestamp

record message_store =
  ms_messages :: "persisted_message list"
  ms_capacity :: nat

definition store_new :: "nat \<Rightarrow> message_store" where
  "store_new capacity = \<lparr>ms_messages = [], ms_capacity = capacity\<rparr>"

definition message_save :: "chat_env \<Rightarrow> channel_message \<Rightarrow> message_store \<Rightarrow> ticks \<Rightarrow> string \<times> message_store \<times> ticks" where
  "message_save E m S k =
     (let (i, k1) = fresh_text E k; (now, k2) = read_utc E k1;
          rec = \<lparr>pm_record_id = i, pm_message = m, pm_status = MsgPending, pm_attempts = 0, pm_last_error = None,
                 pm_received_at = now, pm_updated_at = now\<rparr>;
          old = (if ms_capacity S \<le> length (ms_messages S) then List.tl (ms_messages S) else ms_messages S)
      in (i, S\<lparr>ms_messages := old @ [rec]\<rparr>, k2))"

text \<open>\<open>iter_mut().find(...)\<close>: the first record with the identifier.\<close>

fun update_record :: "string \<Rightarrow> (persisted_message \<Rightarrow> persisted_message) \<Rightarrow> persisted_message list \<Rightarrow> persisted_message list option" where
  "update_record i f [] = None"
| "update_record i f (r # rs) =
     (if pm_record_id r = i then Some (f r # rs) else map_option (\<lambda>rs'. r # rs') (update_record i f rs))"

definition mark :: "chat_env \<Rightarrow> string \<Rightarrow> (persisted_message \<Rightarrow> persisted_message) \<Rightarrow> message_store \<Rightarrow> ticks \<Rightarrow>
    (atta_error + unit) \<times> message_store \<times> ticks" where
  "mark E i f S k =
     (let (now, k1) = read_utc E k in
      case update_record i (\<lambda>r. (f r)\<lparr>pm_updated_at := now\<rparr>) (ms_messages S) of
        Some rs \<Rightarrow> (Inr (), S\<lparr>ms_messages := rs\<rparr>, k1)
      | None \<Rightarrow> (Inl (NotFound ''message'' i), S, k))"

definition mark_processing :: "chat_env \<Rightarrow> string \<Rightarrow> message_store \<Rightarrow> ticks \<Rightarrow> (atta_error + unit) \<times> message_store \<times> ticks" where
  "mark_processing E i = mark E i (\<lambda>r. r\<lparr>pm_status := MsgProcessing, pm_attempts := pm_attempts r + 1\<rparr>)"

definition mark_completed :: "chat_env \<Rightarrow> string \<Rightarrow> message_store \<Rightarrow> ticks \<Rightarrow> (atta_error + unit) \<times> message_store \<times> ticks" where
  "mark_completed E i = mark E i (\<lambda>r. r\<lparr>pm_status := MsgCompleted\<rparr>)"

definition mark_failed :: "chat_env \<Rightarrow> string \<Rightarrow> string \<Rightarrow> message_store \<Rightarrow> ticks \<Rightarrow> (atta_error + unit) \<times> message_store \<times> ticks" where
  "mark_failed E i err = mark E i (\<lambda>r. r\<lparr>pm_status := MsgFailed, pm_last_error := Some err\<rparr>)"

definition mark_held :: "chat_env \<Rightarrow> string \<Rightarrow> message_store \<Rightarrow> ticks \<Rightarrow> (atta_error + unit) \<times> message_store \<times> ticks" where
  "mark_held E i = mark E i (\<lambda>r. r\<lparr>pm_status := MsgHeld\<rparr>)"

definition retryable :: "persisted_message \<Rightarrow> bool" where
  "retryable r \<longleftrightarrow> pm_status r = MsgPending \<or> (pm_status r = MsgFailed \<and> pm_attempts r < 3)"

definition get_retryable :: "nat \<Rightarrow> message_store \<Rightarrow> persisted_message list" where
  "get_retryable limit S = take limit (filter retryable (ms_messages S))"

definition message_get :: "string \<Rightarrow> message_store \<Rightarrow> persisted_message option" where
  "message_get i S = List.find (\<lambda>r. pm_record_id r = i) (ms_messages S)"

definition cleanup :: "timestamp \<Rightarrow> message_store \<Rightarrow> nat \<times> message_store" where
  "cleanup older_than S =
     (let kept = filter (\<lambda>r. \<not> (pm_status r = MsgCompleted \<and> pm_updated_at r < older_than)) (ms_messages S)
      in (length (ms_messages S) - length kept, S\<lparr>ms_messages := kept\<rparr>))"

fun release_records :: "chat_env \<Rightarrow> persisted_message list \<Rightarrow> ticks \<Rightarrow> nat \<times> persisted_message list \<times> ticks" where
  "release_records E [] k = (0, [], k)"
| "release_records E (r # rs) k =
     (if pm_status r = MsgHeld
      then (let (now, k1) = read_utc E k; (n, rs', k2) = release_records E rs k1
            in (Suc n, r\<lparr>pm_status := MsgPending, pm_updated_at := now\<rparr> # rs', k2))
      else (let (n, rs', k1) = release_records E rs k in (n, r # rs', k1)))"

definition release_all_held :: "chat_env \<Rightarrow> message_store \<Rightarrow> ticks \<Rightarrow> nat \<times> message_store \<times> ticks" where
  "release_all_held E S k = (case release_records E (ms_messages S) k of (n, rs, k') \<Rightarrow> (n, S\<lparr>ms_messages := rs\<rparr>, k'))"

end
