(* ===== verification/Dispatch.thy ===== *)
theory Dispatch
  imports Chat_Session
begin

text \<open>
  The dispatch loop of the channels (\<open>crates/channel/src/dispatch.rs\<close>) with the background tasks beside it
  (\<open>runtime.rs\<close>, \<open>supervisor.rs\<close>).

  Everything that runs on its own is an event: a listener pushes a message, the loop receives one, the timer of the
  debouncer fires, a spawned handler task runs, the retry and the cleanup task wake up, an operator changes a session,
  the loop is cancelled. A handler task is one event, so handler tasks interleave with everything else but not with
  each other. Which handler call panics is a parameter; the calls are recorded in their order.
\<close>

record 'p pipe_config =
  pc_env :: chat_env
  pc_evaluate :: "'p \<Rightarrow> channel_message \<Rightarrow> nat \<Rightarrow> (policy_decision \<times> 'p) \<times> nat"
  pc_known :: "string \<Rightarrow> bool"
  pc_panics :: "nat \<Rightarrow> channel_message \<Rightarrow> bool"
  pc_panic_text :: string
  pc_full_text :: string
  pc_closed_text :: string

record 'p pipe =
  pp_policy :: "'p option"
  pp_sessions :: "session_router option"
  pp_debouncer :: "debouncer option"
  pp_store :: "message_store option"
  pp_queue :: "channel_message list"
  pp_jobs :: "(channel_message \<times> string option) list"
  pp_handled :: "channel_message list"
  pp_ticks :: ticks
  pp_open :: bool
  pp_cancelled :: bool

text \<open>\<open>if let (Some(store), Some(id)) = ...\<close>: an error of the store is logged.\<close>

definition with_record :: "(message_store \<Rightarrow> ticks \<Rightarrow> (atta_error + unit) \<times> message_store \<times> ticks) \<Rightarrow> 'p pipe \<Rightarrow> (atta_error + unit) \<times> 'p pipe" where
  "with_record f P =
     (case pp_store P of
        None \<Rightarrow> (Inr (), P)
      | Some S \<Rightarrow> (case f S (pp_ticks P) of (r, S', k) \<Rightarrow> (r, P\<lparr>pp_store := Some S', pp_ticks := k\<rparr>)))"

definition note_record :: "(string \<Rightarrow> message_store \<Rightarrow> ticks \<Rightarrow> (atta_error + unit) \<times> message_store \<times> ticks) \<Rightarrow> string option \<Rightarrow> 'p pipe \<Rightarrow> 'p pipe" where
  "note_record f rid P = (case rid of None \<Rightarrow> P | Some i \<Rightarrow> snd (with_record (f i) P))"

section \<open>The handler task\<close>

text \<open>\<open>metadata[k] = v\<close>, which panics on a value that is neither an object nor null.\<close>

fun set_meta :: "string \<Rightarrow> json \<Rightarrow> json \<Rightarrow> json option" where
  "set_meta k v (JObj m) = Some (JObj (obj_insert k v m))"
| "set_meta k v JNull = Some (JObj [(k, v)])"
| "set_meta k v _ = None"

definition set_meta_opt :: "string \<Rightarrow> string option \<Rightarrow> json \<Rightarrow> json option" where
  "set_meta_opt k s v = (case s of None \<Rightarrow> Some v | Some x \<Rightarrow> set_meta k (JStr x) v)"

definition enrich :: "string \<Rightarrow> session_config \<Rightarrow> channel_message \<Rightarrow> channel_message option" where
  "enrich key cfg m =
     map_option (\<lambda>v. m\<lparr>cm_metadata := v\<rparr>)
       (Option.bind (set_meta ''_session_key'' (JStr key) (cm_metadata m)) (\<lambda>v.
        Option.bind (set_meta_opt ''_agent_id'' (sc_agent_id cfg) v) (\<lambda>v.
        set_meta_opt ''_flow_id'' (sc_flow_id cfg) v)))"

text \<open>The task that watches the handler task marks the message as failed, in up to three attempts.\<close>

fun fail_attempts :: "chat_env \<Rightarrow> string \<Rightarrow> string \<Rightarrow> nat \<Rightarrow> 'p pipe \<Rightarrow> 'p pipe" where
  "fail_attempts E i err 0 P = P"
| "fail_attempts E i err (Suc n) P =
     (case with_record (mark_failed E i err) P of
        (Inr _, P') \<Rightarrow> P'
      | (Inl _, P') \<Rightarrow> fail_attempts E i err n P')"

definition on_panic :: "'p pipe_config \<Rightarrow> string option \<Rightarrow> 'p pipe \<Rightarrow> 'p pipe" where
  "on_panic C rid P =
     (case rid of
        None \<Rightarrow> P
      | Some i \<Rightarrow> fail_attempts (pc_env C) i (''handler panicked: '' @ pc_panic_text C) 3 P)"

definition call_handler :: "'p pipe_config \<Rightarrow> channel_message \<Rightarrow> string option \<Rightarrow> 'p pipe \<Rightarrow> 'p pipe" where
  "call_handler C m rid P =
     (let P1 = note_record (mark_processing (pc_env C)) rid P;
          bad = pc_panics C (length (pp_handled P1)) m;
          P2 = P1\<lparr>pp_handled := pp_handled P1 @ [m]\<rparr>
      in if bad then on_panic C rid P2 else note_record (mark_completed (pc_env C)) rid P2)"

definition run_task :: "'p pipe_config \<Rightarrow> channel_message \<Rightarrow> string option \<Rightarrow> 'p pipe \<Rightarrow> 'p pipe" where
  "run_task C m rid P =
     (if \<not> pc_known C (cm_channel m) then P
      else case pp_sessions P of
        None \<Rightarrow> call_handler C m rid P
      | Some R \<Rightarrow>
          (case resolve R m of (key, cfg) \<Rightarrow>
             if sc_takeover cfg \<noteq> None then note_record (mark_held (pc_env C)) rid P
             else if sc_send_policy cfg = SendDeny then note_record (mark_completed (pc_env C)) rid P
             else case enrich key cfg m of
               None \<Rightarrow> on_panic C rid P
             | Some m' \<Rightarrow> call_handler C m' rid P))"

definition dispatch_to_handler :: "channel_message \<Rightarrow> string option \<Rightarrow> 'p pipe \<Rightarrow> 'p pipe" where
  "dispatch_to_handler m rid P = P\<lparr>pp_jobs := pp_jobs P @ [(m, rid)]\<rparr>"

section \<open>The loop\<close>

definition ask_policy :: "'p pipe_config \<Rightarrow> channel_message \<Rightarrow> 'p pipe \<Rightarrow> policy_decision \<times> 'p pipe" where
  "ask_policy C m P =
     (case pp_policy P of
        None \<Rightarrow> (PolicyAllow, P)
      | Some p \<Rightarrow>
          (case pc_evaluate C p m (tk_inst (pp_ticks P)) of ((d, p'), n) \<Rightarrow>
             (d, P\<lparr>pp_policy := Some p', pp_ticks := (pp_ticks P)\<lparr>tk_inst := n\<rparr>\<rparr>)))"

definition persist_message :: "'p pipe_config \<Rightarrow> channel_message \<Rightarrow> 'p pipe \<Rightarrow> string option \<times> 'p pipe" where
  "persist_message C m P =
     (case pp_store P of
        None \<Rightarrow> (None, P)
      | Some S \<Rightarrow> (case message_save (pc_env C) m S (pp_ticks P) of (i, S', k) \<Rightarrow>
          (Some i, P\<lparr>pp_store := Some S', pp_ticks := k\<rparr>)))"

definition dispatch_single :: "'p pipe_config \<Rightarrow> channel_message \<Rightarrow> 'p pipe \<Rightarrow> 'p pipe" where
  "dispatch_single C m P =
     (if \<not> pc_known C (cm_channel m) then P
      else case ask_policy C m P of
        (PolicyDeny why, P1) \<Rightarrow> P1
      | (d, P1) \<Rightarrow> (case persist_message C m P1 of (rid, P2) \<Rightarrow> dispatch_to_handler m rid P2))"

definition debounce_message :: "'p pipe_config \<Rightarrow> channel_message \<Rightarrow> debouncer \<Rightarrow> 'p pipe \<Rightarrow> 'p pipe" where
  "debounce_message C m d P =
     (case debounce_accept (pc_env C) m d (pp_ticks P) of (out, d', k) \<Rightarrow>
        let P1 = P\<lparr>pp_debouncer := Some d', pp_ticks := k\<rparr> in
        case out of None \<Rightarrow> P1 | Some c \<Rightarrow> dispatch_single C c P1)"

definition receive :: "'p pipe_config \<Rightarrow> channel_message \<Rightarrow> 'p pipe \<Rightarrow> 'p pipe" where
  "receive C m P =
     (case persist_message C m P of (rid, P1) \<Rightarrow>
        (case ask_policy C m P1 of
           (PolicyDeny why, P2) \<Rightarrow> note_record (mark_completed (pc_env C)) rid P2
         | (d, P2) \<Rightarrow>
             (case pp_debouncer P2 of
                Some deb \<Rightarrow> debounce_message C m deb P2
              | None \<Rightarrow> dispatch_to_handler m rid P2)))"

definition flushed :: "'p pipe_config \<Rightarrow> (chat_env \<Rightarrow> debouncer \<Rightarrow> ticks \<Rightarrow> channel_message list \<times> debouncer \<times> ticks) \<Rightarrow> 'p pipe \<Rightarrow> 'p pipe" where
  "flushed C flush P =
     (case pp_debouncer P of
        None \<Rightarrow> P
      | Some d \<Rightarrow> (case flush (pc_env C) d (pp_ticks P) of (ms, d', k) \<Rightarrow>
          fold (dispatch_single C) ms (P\<lparr>pp_debouncer := Some d', pp_ticks := k\<rparr>)))"

section \<open>The tasks beside the loop\<close>

definition queue_capacity :: nat where
  "queue_capacity = 256"

definition try_send :: "'p pipe_config \<Rightarrow> channel_message \<Rightarrow> 'p pipe \<Rightarrow> (string + unit) \<times> 'p pipe" where
  "try_send C m P =
     (if \<not> pp_open P then (Inl (pc_closed_text C), P)
      else if queue_capacity \<le> length (pp_queue P) then (Inl (pc_full_text C), P)
      else (Inr (), P\<lparr>pp_queue := pp_queue P @ [m]\<rparr>))"

definition retry_record :: "'p pipe_config \<Rightarrow> persisted_message \<Rightarrow> 'p pipe \<Rightarrow> 'p pipe" where
  "retry_record C r P =
     (case with_record (mark_processing (pc_env C) (pm_record_id r)) P of
        (Inl e, P1) \<Rightarrow> P1
      | (Inr _, P1) \<Rightarrow>
          (case try_send C (pm_message r) P1 of
             (Inr _, P2) \<Rightarrow> P2
           | (Inl e, P2) \<Rightarrow> snd (with_record (mark_failed (pc_env C) (pm_record_id r) (''retry re-inject failed: '' @ e)) P2)))"

definition run_retry :: "'p pipe_config \<Rightarrow> 'p pipe \<Rightarrow> 'p pipe" where
  "run_retry C P =
     (case pp_store P of
        None \<Rightarrow> P
      | Some S \<Rightarrow> fold (retry_record C) (get_retryable 10 S) P)"

definition day_ns :: int where
  "day_ns = 24 * 3600 * second_ns"

definition run_cleanup :: "'p pipe_config \<Rightarrow> 'p pipe \<Rightarrow> 'p pipe" where
  "run_cleanup C P =
     (case pp_store P of
        None \<Rightarrow> P
      | Some S \<Rightarrow> (case read_utc (pc_env C) (pp_ticks P) of (now, k) \<Rightarrow>
          P\<lparr>pp_store := Some (snd (cleanup (now - day_ns) S)), pp_ticks := k\<rparr>))"

section \<open>Events\<close>

datatype pipe_event =
    Arrive channel_message
  | Receive
  | DebounceTick
  | CancelLoop
  | SendersGone
  | RunTask nat
  | RetryTick
  | CleanupTick
  | Operate "session_router \<Rightarrow> session_router"

fun pipe_step :: "'p pipe_config \<Rightarrow> pipe_event \<Rightarrow> 'p pipe \<Rightarrow> 'p pipe" where
  "pipe_step C (Arrive m) P = snd (try_send C m P)"
| "pipe_step C Receive P =
     (if \<not> pp_open P then P
      else case pp_queue P of [] \<Rightarrow> P | m # ms \<Rightarrow> receive C m (P\<lparr>pp_queue := ms\<rparr>))"
| "pipe_step C DebounceTick P = (if pp_open P then flushed C flush_expired P else P)"
| "pipe_step C CancelLoop P = (if pp_open P then (flushed C flush_all P)\<lparr>pp_open := False, pp_cancelled := True\<rparr> else P\<lparr>pp_cancelled := True\<rparr>)"
| "pipe_step C SendersGone P = (if pp_queue P = [] \<and> pp_store P = None then P\<lparr>pp_open := False\<rparr> else P)"
| "pipe_step C (RunTask i) P =
     (if i < length (pp_jobs P)
      then (case pp_jobs P ! i of (m, rid) \<Rightarrow> run_task C m rid (P\<lparr>pp_jobs := take i (pp_jobs P) @ drop (Suc i) (pp_jobs P)\<rparr>))
      else P)"
| "pipe_step C RetryTick P = (if pp_cancelled P then P else run_retry C P)"
| "pipe_step C CleanupTick P = (if pp_cancelled P then P else run_cleanup C P)"
| "pipe_step C (Operate f) P = P\<lparr>pp_sessions := map_option f (pp_sessions P)\<rparr>"

definition pipe_run :: "'p pipe_config \<Rightarrow> pipe_event list \<Rightarrow> 'p pipe \<Rightarrow> 'p pipe" where
  "pipe_run C evs P = fold (pipe_step C) evs P"

definition pipe_start :: "'p option \<Rightarrow> session_router option \<Rightarrow> (int \<times> nat) option \<Rightarrow> message_store option \<Rightarrow> 'p pipe" where
  "pipe_start p R deb S =
     \<lparr>pp_policy = p, pp_sessions = R, pp_debouncer = map_option (\<lambda>(window, chars). debouncer_new window chars) deb,
      pp_store = S, pp_queue = [], pp_jobs = [], pp_handled = [], pp_ticks = \<lparr>tk_inst = 0, tk_utc = 0, tk_uuid = 0\<rparr>,
      pp_open = True, pp_cancelled = False\<rparr>"

section \<open>Sending and listening\<close>

text \<open>The result, the state of the channel and the delays in milliseconds before the attempts.\<close>

fun send_attempts :: "('c, atta_error, unit) io \<Rightarrow> u32 \<Rightarrow> nat \<Rightarrow> atta_error option \<Rightarrow> 'c \<Rightarrow> (atta_error + unit) \<times> 'c \<times> u64 list" where
  "send_attempts send attempt 0 last_err c =
     (Inl (case last_err of None \<Rightarrow> ChannelError ''send failed'' | Some e \<Rightarrow> e), c, [])"
| "send_attempts send attempt (Suc n) last_err c =
     (let waits = (if 0 < attempt then [500 * push_bit (unat (attempt - 1)) 1] else []) in
      case send c of
        (Inr _, c') \<Rightarrow> (Inr (), c', waits)
      | (Inl e, c') \<Rightarrow> (case send_attempts send (attempt + 1) n (Some e) c' of (r, c'', ws) \<Rightarrow> (r, c'', waits @ ws)))"

definition send_with_retry :: "(send_message \<Rightarrow> ('c, atta_error, unit) io) \<Rightarrow> send_message \<Rightarrow> u32 \<Rightarrow> 'c \<Rightarrow> (atta_error + unit) \<times> 'c \<times> u64 list" where
  "send_with_retry send m max_retries = send_attempts (send m) 0 (Suc (unat max_retries)) None"

text \<open>The supervisor: the pauses in seconds after each return of the listener, \<open>True\<close> for a clean disconnect.\<close>

fun listener_pauses :: "bool list \<Rightarrow> nat \<Rightarrow> nat list" where
  "listener_pauses [] backoff = []"
| "listener_pauses (clean # outcomes) backoff =
     (let b = (if clean then 1 else backoff) in b # listener_pauses outcomes (min (b * 2) 60))"

lemma listener_pauses_bounded: "1 \<le> b \<Longrightarrow> b \<le> 60 \<Longrightarrow> x \<in> set (listener_pauses os b) \<Longrightarrow> 1 \<le> x \<and> x \<le> 60"
proof (induction os arbitrary: b)
  case Nil
  then show ?case by simp
next
  case (Cons clean os)
  let ?b = "if clean then 1 else b"
  have "1 \<le> ?b" "?b \<le> 60" "1 \<le> min (?b * 2) 60" "min (?b * 2) 60 \<le> (60 :: nat)" using Cons.prems by simp_all
  moreover have "x = ?b \<or> x \<in> set (listener_pauses os (min (?b * 2) 60))" using Cons.prems(3) by (simp add: Let_def)
  ultimately show ?case using Cons.IH by blast
qed

end
