(* ===== verification/Dispatch_Props.thy ===== *)
theory Dispatch_Props
  imports Dispatch
begin

text \<open>
  What the dispatch loop guarantees: the locale \<open>gated_pipe\<close> has a loop whose policy keeps out a fixed set of messages, and
  shows that no handler sees one of them; it is interpreted on the policies of \<open>Channel_Policy\<close>. A record that is
  neither pending nor failed and that no task works on keeps its status for ever. A message that is buffered
  comes back.
\<close>

section \<open>Messages that are kept out\<close>

definition clean :: "('p \<Rightarrow> channel_message \<Rightarrow> bool) \<Rightarrow> (channel_message \<Rightarrow> bool) \<Rightarrow> 'p pipe \<Rightarrow> bool" where
  "clean blocked B P \<longleftrightarrow>
     (\<exists>p. pp_policy P = Some p \<and> (\<forall>m. blocked p m = B m)) \<and>
     (\<forall>m \<in> set (pp_handled P). \<not> B m) \<and>
     (\<forall>(m, rid) \<in> set (pp_jobs P). \<not> B m) \<and>
     (\<forall>d. pp_debouncer P = Some d \<longrightarrow> (\<forall>(key, b) \<in> set (de_pending d). \<not> B (bt_first b)))"

definition clean_batches :: "(channel_message \<Rightarrow> bool) \<Rightarrow> debouncer \<Rightarrow> bool" where
  "clean_batches B d \<longleftrightarrow> (\<forall>(key, b) \<in> set (de_pending d). \<not> B (bt_first b))"

locale gated_pipe = message_gate eval blocked
  for eval :: "'p \<Rightarrow> channel_message \<Rightarrow> nat \<Rightarrow> (policy_decision \<times> 'p) \<times> nat" and blocked +
  fixes C :: "'p pipe_config" and B :: "channel_message \<Rightarrow> bool"
  assumes evaluates: "pc_evaluate C = eval"
    and same_rewritten: "B (rewritten i content t v m) = B m"
begin

lemma note_record_clean: "clean blocked B (note_record f rid P) = clean blocked B P"
  by (simp add: note_record_def with_record_def clean_def split: option.split prod.split)

lemma fail_attempts_clean: "clean blocked B (fail_attempts E i err n P) = clean blocked B P"
proof (induction n arbitrary: P)
  case 0
  show ?case by simp
next
  case (Suc n)
  have "clean blocked B (snd (with_record f P)) = clean blocked B P" for f
    by (simp add: with_record_def clean_def split: option.split prod.split)
  then have "with_record f P = (r, P') \<Longrightarrow> clean blocked B P' = clean blocked B P" for f r P' by (metis snd_conv)
  with Suc show ?case by (auto split: prod.split sum.split)
qed

lemma on_panic_clean: "clean blocked B (on_panic C rid P) = clean blocked B P"
  by (simp add: on_panic_def fail_attempts_clean split: option.split)

lemma call_handler_clean: "clean blocked B P \<Longrightarrow> \<not> B m \<Longrightarrow> clean blocked B (call_handler C m rid P)"
proof -
  assume P: "clean blocked B P" and m: "\<not> B m"
  define P1 where "P1 = note_record (mark_processing (pc_env C)) rid P"
  have "clean blocked B P1" using P by (simp add: P1_def note_record_clean)
  with m have "clean blocked B (P1\<lparr>pp_handled := pp_handled P1 @ [m]\<rparr>)" by (auto simp: clean_def)
  then show ?thesis by (simp add: call_handler_def Let_def P1_def note_record_clean on_panic_clean)
qed

lemma enrich_same: "enrich key cfg m = Some m' \<Longrightarrow> B m' = B m"
proof -
  assume "enrich key cfg m = Some m'"
  then obtain v where "m' = rewritten (cm_id m) (cm_content m) (cm_timestamp m) v m"
    by (auto simp: enrich_def rewritten_def)
  then show "B m' = B m" by (simp add: same_rewritten)
qed

lemma run_task_clean: "clean blocked B P \<Longrightarrow> \<not> B m \<Longrightarrow> clean blocked B (run_task C m rid P)"
  by (auto simp: run_task_def note_record_clean on_panic_clean enrich_same intro: call_handler_clean
      split: option.split prod.split)

lemma ask_clean:
  assumes "clean blocked B P" and "ask_policy C m P = (d, P')"
  shows "clean blocked B P'" "d = PolicyAllow \<or> d = PolicyBuffer key \<Longrightarrow> \<not> B m"
proof -
  from assms(1) obtain p where p: "pp_policy P = Some p" "\<And>m. blocked p m = B m" by (auto simp: clean_def)
  obtain p' n where e: "eval p m (tk_inst (pp_ticks P)) = ((d, p'), n)"
    and P': "P' = P\<lparr>pp_policy := Some p', pp_ticks := (pp_ticks P)\<lparr>tk_inst := n\<rparr>\<rparr>"
    using assms(2) p(1) by (auto simp: ask_policy_def evaluates split: prod.splits)
  have "blocked p' m' = B m'" for m' using blocked_stays [of p m "tk_inst (pp_ticks P)" m'] e p(2) by simp
  with assms(1) show "clean blocked B P'" by (auto simp: P' clean_def)
  show "d = PolicyAllow \<or> d = PolicyBuffer key \<Longrightarrow> \<not> B m"
    using passed_not_blocked [of p m "tk_inst (pp_ticks P)" key] e p(2) by simp
qed

lemma persist_clean: "persist_message C m P = (rid, P') \<Longrightarrow> clean blocked B P' = clean blocked B P"
  by (auto simp: persist_message_def clean_def split: option.splits prod.splits)

lemma dispatch_clean: "clean blocked B P \<Longrightarrow> \<not> B m \<Longrightarrow> clean blocked B (dispatch_to_handler m rid P)"
  by (auto simp: dispatch_to_handler_def clean_def)

lemma single_clean: "clean blocked B P \<Longrightarrow> clean blocked B (dispatch_single C m P)"
proof -
  assume P: "clean blocked B P"
  obtain d P1 where a: "ask_policy C m P = (d, P1)" by fastforce
  obtain rid P2 where s: "persist_message C m P1 = (rid, P2)" by fastforce
  note c = ask_clean [OF P a]
  have "clean blocked B P2" using c(1) persist_clean [OF s] by simp
  with c(2) have "d = PolicyAllow \<or> d = PolicyBuffer key \<Longrightarrow> clean blocked B (dispatch_to_handler m rid P2)" for key
    using dispatch_clean by blast
  with P c(1) a s show ?thesis by (cases d) (auto simp: dispatch_single_def)
qed

lemma singles_clean: "clean blocked B P \<Longrightarrow> clean blocked B (fold (dispatch_single C) ms P)"
  by (induction ms arbitrary: P) (auto intro: single_clean)

lemma clean_debouncer: "clean blocked B P \<Longrightarrow> clean_batches B d \<Longrightarrow> clean blocked B (P\<lparr>pp_debouncer := Some d, pp_ticks := k\<rparr>)"
  by (auto simp: clean_def clean_batches_def)

lemma accept_clean:
  "clean_batches B d \<Longrightarrow> \<not> B m \<Longrightarrow> debounce_accept E m d k = (out, d', k') \<Longrightarrow> clean_batches B d'"
proof -
  assume d: "clean_batches B d" and m: "\<not> B m" and ac: "debounce_accept E m d k = (out, d', k')"
  show "clean_batches B d'"
  proof (cases "tbl_get (de_pending d) (debounce_key m)")
    case None
    with ac d m show ?thesis by (auto simp: clean_batches_def debounce_accept_def Let_def split: prod.splits)
  next
    case (Some b)
    then have "(debounce_key m, b) \<in> set (de_pending d)" by (simp add: tbl_get_def map_of_SomeD)
    with d have "\<not> B (bt_first b)" by (auto simp: clean_batches_def)
    with Some ac d show ?thesis
      by (auto simp: clean_batches_def debounce_accept_def Let_def tbl_update_def tbl_delete_def split: prod.splits if_splits)
  qed
qed

lemma flush_clean: "clean_batches B d \<Longrightarrow> flush_keys E keys d k = (cs, d', k') \<Longrightarrow> clean_batches B d'"
proof (induction keys arbitrary: d k cs)
  case (Cons key keys)
  have "clean_batches B (d\<lparr>de_pending := tbl_delete key (de_pending d)\<rparr>)"
    using Cons.prems(1) by (auto simp: clean_batches_def tbl_delete_def)
  with Cons show ?case by (auto simp: Let_def split: option.splits prod.splits)
qed simp

lemma flushed_clean: "clean blocked B P \<Longrightarrow> clean blocked B (flushed C flush_expired P) \<and> clean blocked B (flushed C flush_all P)"
proof (cases "pp_debouncer P")
  case (Some d)
  assume P: "clean blocked B P"
  then have d: "clean_batches B d" using Some by (auto simp: clean_def clean_batches_def)
  have "flush_expired E d k = (ms, d', k') \<Longrightarrow> clean_batches B d'" for E k ms d' k'
    using flush_clean [OF d] by (auto simp: flush_expired_def read_inst_def)
  moreover have "flush_all E d k = (ms, d', k') \<Longrightarrow> clean_batches B d'" for E k ms d' k'
    by (auto simp: flush_all_def clean_batches_def split: prod.splits)
  ultimately show ?thesis using P Some
    by (auto simp: flushed_def intro!: singles_clean clean_debouncer split: prod.split)
qed (simp add: flushed_def)

lemma receive_clean: "clean blocked B P \<Longrightarrow> clean blocked B (receive C m P)"
proof -
  assume P: "clean blocked B P"
  obtain rid P1 where s: "persist_message C m P = (rid, P1)" by fastforce
  have P1: "clean blocked B P1" using P persist_clean [OF s] by simp
  obtain d P2 where a: "ask_policy C m P1 = (d, P2)" by fastforce
  note c = ask_clean [OF P1 a]
  have pass: "clean blocked B (case pp_debouncer P2 of Some deb \<Rightarrow> debounce_message C m deb P2 | None \<Rightarrow> dispatch_to_handler m rid P2)"
    if m: "\<not> B m"
  proof (cases "pp_debouncer P2")
    case None
    with c(1) m show ?thesis by (simp add: dispatch_clean)
  next
    case (Some deb)
    then have deb: "clean_batches B deb" using c(1) by (auto simp: clean_def clean_batches_def)
    obtain out d' k where ac: "debounce_accept (pc_env C) m deb (pp_ticks P2) = (out, d', k)" by (metis prod.collapse)
    from clean_debouncer [OF c(1) accept_clean [OF deb m ac]] single_clean Some ac show ?thesis
      by (auto simp: debounce_message_def Let_def split: option.split)
  qed
  show ?thesis
  proof (cases d)
    case (PolicyDeny why)
    with s a c(1) show ?thesis by (simp add: receive_def note_record_clean)
  next
    case PolicyAllow
    with s a pass c(2) show ?thesis by (simp add: receive_def)
  next
    case (PolicyBuffer key)
    with s a pass c(2) [of key] show ?thesis by (simp add: receive_def)
  qed
qed

lemma with_record_clean: "with_record f P = (r, P') \<Longrightarrow> clean blocked B P' = clean blocked B P"
  by (auto simp: with_record_def clean_def split: option.splits prod.splits)

lemma send_clean: "try_send C m P = (r, P') \<Longrightarrow> clean blocked B P' = clean blocked B P"
  by (auto simp: try_send_def clean_def split: if_splits)

lemma retry_clean: "clean blocked B (run_retry C P) = clean blocked B P"
proof -
  have one: "clean blocked B (retry_record C r P) = clean blocked B P" for r P
  proof -
    obtain x P1 where w: "with_record (mark_processing (pc_env C) (pm_record_id r)) P = (x, P1)" by fastforce
    obtain y P2 where t: "try_send C (pm_message r) P1 = (y, P2)" by fastforce
    obtain z P3 where f: "with_record (mark_failed (pc_env C) (pm_record_id r) (''retry re-inject failed: '' @ projl y)) P2 = (z, P3)"
      by fastforce
    from with_record_clean [OF w] send_clean [OF t] with_record_clean [OF f] w t f show ?thesis
      by (cases x; cases y) (simp_all add: retry_record_def)
  qed
  have "clean blocked B (fold (retry_record C) rs P) = clean blocked B P" for rs P
    by (induction rs arbitrary: P) (simp_all add: one)
  then show ?thesis by (simp add: run_retry_def split: option.split)
qed

lemma clean_cong:
  "clean blocked B (P\<lparr>pp_store := S\<rparr>) = clean blocked B P"
  "clean blocked B (P\<lparr>pp_ticks := k\<rparr>) = clean blocked B P"
  "clean blocked B (P\<lparr>pp_queue := q\<rparr>) = clean blocked B P"
  "clean blocked B (P\<lparr>pp_open := x\<rparr>) = clean blocked B P"
  "clean blocked B (P\<lparr>pp_cancelled := x\<rparr>) = clean blocked B P"
  "clean blocked B (P\<lparr>pp_sessions := R\<rparr>) = clean blocked B P"
  by (simp_all add: clean_def)

lemma step_clean:
  assumes P: "clean blocked B P"
  shows "clean blocked B (pipe_step C ev P)"
proof (cases ev)
  case (Arrive m)
  obtain r P' where "try_send C m P = (r, P')" by fastforce
  with send_clean P Arrive show ?thesis by simp
next
  case Receive
  with P show ?thesis by (auto simp: clean_cong intro: receive_clean split: list.split)
next
  case DebounceTick
  with P flushed_clean [OF P] show ?thesis by simp
next
  case CancelLoop
  with P flushed_clean [OF P] show ?thesis by (simp add: clean_cong)
next
  case (RunTask i)
  show ?thesis
  proof (cases "i < length (pp_jobs P)")
    case True
    obtain m rid where j: "pp_jobs P ! i = (m, rid)" by fastforce
    then have "(m, rid) \<in> set (pp_jobs P)" using True by (metis nth_mem)
    then have m: "\<not> B m" using P by (auto simp: clean_def)
    have "clean blocked B (P\<lparr>pp_jobs := take i (pp_jobs P) @ drop (Suc i) (pp_jobs P)\<rparr>)"
      using P by (auto simp: clean_def dest: in_set_takeD in_set_dropD)
    from run_task_clean [OF this m] True j RunTask show ?thesis by simp
  qed (use P RunTask in simp)
next
  case CleanupTick
  with P show ?thesis by (auto simp: run_cleanup_def clean_cong split: option.split prod.split)
qed (use P in \<open>simp_all add: clean_cong retry_clean\<close>)

lemma run_clean: "clean blocked B P \<Longrightarrow> clean blocked B (pipe_run C evs P)"
  unfolding pipe_run_def by (induction evs arbitrary: P) (auto intro: step_clean)

end

interpretation chat_pipe: gated_pipe "policy_evaluate inst" blocks "C\<lparr>pc_evaluate := policy_evaluate inst\<rparr>" "blocks p" for inst C p
  by unfold_locales (simp_all add: blocks_rewritten)

text \<open>
  C23. Whatever arrives, is buffered, retried or interrupted, and whatever operators do to the sessions: no handler is
  ever called with a message that the policies keep out: one from a blocked sender or one not on the list of its
  channel, one of a group that does not mention the bot, one of a session whose replies are switched off.
\<close>

theorem blocked_messages_are_never_handled:
  assumes "pc_evaluate C = policy_evaluate inst" and "m \<in> set (pp_handled (pipe_run C evs (pipe_start (Some p) R deb S)))"
  shows "\<not> blocks p m"
proof -
  have "clean blocks (blocks p) (pipe_start (Some p) R deb S)"
    by (auto simp: clean_def pipe_start_def debouncer_new_def)
  moreover have "C\<lparr>pc_evaluate := policy_evaluate inst\<rparr> = C" using assms(1) by (cases C) simp
  ultimately have "clean blocks (blocks p) (pipe_run C evs (pipe_start (Some p) R deb S))"
    using chat_pipe.run_clean [of p _ inst C evs] by metis
  with assms(2) show ?thesis by (auto simp: clean_def)
qed

definition demo_pipe :: "policy pipe_config" where
  "demo_pipe = \<lparr>pc_env = demo_chat, pc_evaluate = policy_evaluate tick_clock, pc_known = (\<lambda>c. c = ''tg''), pc_panics = (\<lambda>n m. False),
     pc_panic_text = ''panic'', pc_full_text = ''no available capacity'', pc_closed_text = ''channel closed''\<rparr>"

definition blocking_chain :: policy where
  "blocking_chain = PolicyChain (chain_add default_chain (AccessControlPolicy (block_sender ''tg'' ''bob'' \<lparr>ac_allowlist = [], ac_blocklist = []\<rparr>)))"

definition bob_message :: channel_message where
  "bob_message = (plain_message ''2'')\<lparr>cm_sender := ''bob''\<rparr>"

definition demo_events :: "pipe_event list" where
  "demo_events = [Arrive (plain_message ''1''), Receive, Arrive bob_message, Receive, RunTask 0, RunTask 0]"

lemma demo_run: "pp_handled (pipe_run demo_pipe demo_events (pipe_start (Some blocking_chain) None None None)) = [plain_message ''1'']"
  by (simp add: pipe_run_def demo_events_def pipe_start_def try_send_def queue_capacity_def receive_def persist_message_def
      ask_policy_def demo_pipe_def blocking_chain_def chain_add_def default_chain_def chain_new_def evaluate_dedup_def Let_def
      dedup_new_def dedup_key_def plain_message_def message_new_def bob_message_def evaluate_mention_def evaluate_access_def
      block_sender_def tbl_upsert_def tbl_get_def dispatch_to_handler_def run_task_def call_handler_def note_record_def
      List.member_iff tick_clock_def second_ns_def)

theorem blocked_messages_are_never_handled_witness:
  "\<not> blocks blocking_chain (plain_message ''1'') \<and>
   plain_message ''1'' \<in> set (pp_handled (pipe_run demo_pipe demo_events (pipe_start (Some blocking_chain) None None None))) \<and>
   blocks blocking_chain bob_message"
proof -
  have in_log: "plain_message ''1'' \<in> set (pp_handled (pipe_run demo_pipe demo_events (pipe_start (Some blocking_chain) None None None)))"
    by (simp add: demo_run)
  have "pc_evaluate demo_pipe = policy_evaluate tick_clock" by (simp add: demo_pipe_def)
  from blocked_messages_are_never_handled [OF this in_log] in_log show ?thesis
    by (simp add: blocking_chain_def chain_add_def default_chain_def chain_new_def bob_message_def evaluate_access_def
        block_sender_def tbl_upsert_def tbl_get_def plain_message_def message_new_def List.member_iff)
qed

section \<open>Records that no task works on\<close>

text \<open>Every record with the identifier has the status, no task carries it, and it is not given out again.\<close>

definition settled :: "'p pipe_config \<Rightarrow> string \<Rightarrow> message_status \<Rightarrow> 'p pipe \<Rightarrow> bool" where
  "settled C i st P \<longleftrightarrow>
     (\<forall>S. pp_store P = Some S \<longrightarrow> (\<forall>r \<in> set (ms_messages S). pm_record_id r = i \<longrightarrow> pm_status r = st)) \<and>
     (\<forall>(m, rid) \<in> set (pp_jobs P). rid \<noteq> Some i) \<and>
     (\<forall>n \<ge> tk_uuid (pp_ticks P). xe_uuid (pc_env C) n \<noteq> i)"

lemma update_record_other:
  "update_record j f rs = Some rs' \<Longrightarrow> j \<noteq> i \<Longrightarrow> \<forall>r. pm_record_id (f r) = pm_record_id r \<Longrightarrow>
   \<forall>r \<in> set rs. pm_record_id r = i \<longrightarrow> Q r \<Longrightarrow> \<forall>r \<in> set rs'. pm_record_id r = i \<longrightarrow> Q r"
  by (induction rs arbitrary: rs') (auto split: if_splits)

lemma mark_other:
  assumes "mark E j f S k = (r, S', k')" and "j \<noteq> i" and "\<forall>r. pm_record_id (f r) = pm_record_id r"
    and "\<forall>r \<in> set (ms_messages S). pm_record_id r = i \<longrightarrow> Q r"
  shows "(\<forall>r \<in> set (ms_messages S'). pm_record_id r = i \<longrightarrow> Q r) \<and> tk_uuid k' = tk_uuid k"
proof (cases "update_record j (\<lambda>r. (f r)\<lparr>pm_updated_at := xe_utc E (tk_utc k)\<rparr>) (ms_messages S)")
  case None
  with assms show ?thesis by (simp add: mark_def read_utc_def)
next
  case (Some rs)
  with assms(1) have "S' = S\<lparr>ms_messages := rs\<rparr>" "k' = k\<lparr>tk_utc := Suc (tk_utc k)\<rparr>"
    by (auto simp: mark_def read_utc_def)
  moreover have "\<forall>r \<in> set rs. pm_record_id r = i \<longrightarrow> Q r"
    by (rule update_record_other [OF Some assms(2) _ assms(4)]) (use assms(3) in simp)
  ultimately show ?thesis by simp
qed

definition spares :: "string \<Rightarrow> (message_store \<Rightarrow> ticks \<Rightarrow> (atta_error + unit) \<times> message_store \<times> ticks) \<Rightarrow> bool" where
  "spares i f \<longleftrightarrow> (\<forall>S k r S' k' Q. f S k = (r, S', k') \<longrightarrow> (\<forall>x \<in> set (ms_messages S). pm_record_id x = i \<longrightarrow> Q x) \<longrightarrow>
     (\<forall>x \<in> set (ms_messages S'). pm_record_id x = i \<longrightarrow> Q x) \<and> tk_uuid k' = tk_uuid k)"

lemma marks_spare:
  assumes "j \<noteq> i"
  shows "spares i (mark_processing E j)" "spares i (mark_completed E j)" "spares i (mark_held E j)" "spares i (mark_failed E j err)"
proof -
  have "spares i (mark E j g)" if "\<forall>r. pm_record_id (g r) = pm_record_id r" for g
    unfolding spares_def
  proof (intro allI impI)
    fix S k r S' k' Q
    assume "mark E j g S k = (r, S', k')" and "\<forall>x \<in> set (ms_messages S). pm_record_id x = i \<longrightarrow> Q x"
    then show "(\<forall>x \<in> set (ms_messages S'). pm_record_id x = i \<longrightarrow> Q x) \<and> tk_uuid k' = tk_uuid k"
      by (rule mark_other [OF _ assms that])
  qed
  then show "spares i (mark_processing E j)" "spares i (mark_completed E j)" "spares i (mark_held E j)" "spares i (mark_failed E j err)"
    unfolding mark_processing_def mark_completed_def mark_held_def mark_failed_def by simp_all
qed

lemma settled_with_record:
  assumes P: "settled C i st P" and f: "spares i f" and w: "with_record f P = (r, P')"
  shows "settled C i st P'"
proof (cases "pp_store P")
  case None
  with P w show ?thesis by (simp add: with_record_def)
next
  case (Some S)
  obtain r' S' k where fs: "f S (pp_ticks P) = (r', S', k)" by (metis prod.collapse)
  have "\<forall>x \<in> set (ms_messages S). pm_record_id x = i \<longrightarrow> pm_status x = st" using P Some unfolding settled_def by blast
  with f fs have "(\<forall>x \<in> set (ms_messages S'). pm_record_id x = i \<longrightarrow> pm_status x = st) \<and> tk_uuid k = tk_uuid (pp_ticks P)"
    unfolding spares_def by blast
  moreover have "P' = P\<lparr>pp_store := Some S', pp_ticks := k\<rparr>" using w Some fs by (simp add: with_record_def)
  ultimately show ?thesis using P by (simp add: settled_def)
qed

lemma settled_note:
  assumes "settled C i st P" and "rid \<noteq> Some i" and "\<And>j. j \<noteq> i \<Longrightarrow> spares i (f j)"
  shows "settled C i st (note_record f rid P)"
proof (cases rid)
  case None
  with assms(1) show ?thesis by (simp add: note_record_def)
next
  case (Some j)
  obtain r P' where w: "with_record (f j) P = (r, P')" by fastforce
  have "j \<noteq> i" using assms(2) Some by simp
  from settled_with_record [OF assms(1) assms(3) [OF this] w] Some w show ?thesis by (simp add: note_record_def)
qed

lemma settled_cong:
  "settled C i st (P\<lparr>pp_policy := x\<rparr>) = settled C i st P"
  "settled C i st (P\<lparr>pp_sessions := R\<rparr>) = settled C i st P"
  "settled C i st (P\<lparr>pp_debouncer := y\<rparr>) = settled C i st P"
  "settled C i st (P\<lparr>pp_queue := q\<rparr>) = settled C i st P"
  "settled C i st (P\<lparr>pp_handled := ms\<rparr>) = settled C i st P"
  "settled C i st (P\<lparr>pp_open := b\<rparr>) = settled C i st P"
  "settled C i st (P\<lparr>pp_cancelled := b\<rparr>) = settled C i st P"
  by (simp_all add: settled_def)

lemma settled_later: "settled C i st P \<Longrightarrow> tk_uuid (pp_ticks P) \<le> tk_uuid k \<Longrightarrow> settled C i st (P\<lparr>pp_ticks := k\<rparr>)"
  by (auto simp: settled_def)

lemma settled_panic: "settled C i st P \<Longrightarrow> rid \<noteq> Some i \<Longrightarrow> settled C i st (on_panic C rid P)"
proof (cases rid)
  case (Some j)
  assume P: "settled C i st P" and "rid \<noteq> Some i"
  then have "j \<noteq> i" using Some by simp
  then have "settled C i st P \<Longrightarrow> settled C i st (fail_attempts (pc_env C) j err n P)" for err n P
  proof (induction n arbitrary: P)
    case (Suc n)
    obtain r P' where w: "with_record (mark_failed (pc_env C) j err) P = (r, P')" by fastforce
    from settled_with_record [OF Suc.prems(1) marks_spare(4) w] Suc.IH Suc.prems(2) w show ?case by (cases r) simp_all
  qed simp
  with P Some \<open>j \<noteq> i\<close> show ?thesis by (simp add: on_panic_def)
qed (simp add: on_panic_def)

lemma settled_call: "settled C i st P \<Longrightarrow> rid \<noteq> Some i \<Longrightarrow> settled C i st (call_handler C m rid P)"
  by (auto simp: call_handler_def Let_def settled_cong intro!: settled_note settled_panic marks_spare)

lemma settled_task: "settled C i st P \<Longrightarrow> rid \<noteq> Some i \<Longrightarrow> settled C i st (run_task C m rid P)"
  by (auto simp: run_task_def intro!: settled_note settled_panic settled_call marks_spare split: option.split prod.split)

lemma settled_persist:
  assumes "settled C i st P" and "persist_message C m P = (rid, P')"
  shows "settled C i st P' \<and> rid \<noteq> Some i"
proof (cases "pp_store P")
  case None
  with assms show ?thesis by (simp add: persist_message_def)
next
  case (Some S)
  let ?old = "if ms_capacity S \<le> length (ms_messages S) then List.tl (ms_messages S) else ms_messages S"
  let ?id = "xe_uuid (pc_env C) (tk_uuid (pp_ticks P))"
  have sub: "set ?old \<subseteq> set (ms_messages S)" by (cases "ms_messages S") auto
  have new: "?id \<noteq> i" using assms(1) unfolding settled_def by blast
  obtain now where S': "rid = Some ?id" "pp_jobs P' = pp_jobs P" "tk_uuid (pp_ticks P') = Suc (tk_uuid (pp_ticks P))"
    "pp_store P' = Some (S\<lparr>ms_messages := ?old @ [\<lparr>pm_record_id = ?id, pm_message = m, pm_status = MsgPending, pm_attempts = 0,
       pm_last_error = None, pm_received_at = now, pm_updated_at = now\<rparr>]\<rparr>)"
    using assms(2) Some by (auto simp: persist_message_def message_save_def fresh_text_def read_utc_def Let_def)
  have "\<forall>x \<in> set ?old. pm_record_id x = i \<longrightarrow> pm_status x = st"
    using assms(1) Some sub unfolding settled_def by blast
  moreover have "\<forall>n \<ge> tk_uuid (pp_ticks P'). xe_uuid (pc_env C) n \<noteq> i" using assms(1) S'(3) by (simp add: settled_def)
  ultimately have "settled C i st P'" using assms(1) new unfolding settled_def S'(2,4) by auto
  with new S'(1) show ?thesis by simp
qed

lemma settled_ask: "settled C i st P \<Longrightarrow> ask_policy C m P = (d, P') \<Longrightarrow> settled C i st P'"
  by (auto simp: ask_policy_def settled_def split: option.splits prod.splits)

lemma settled_dispatch: "settled C i st P \<Longrightarrow> rid \<noteq> Some i \<Longrightarrow> settled C i st (dispatch_to_handler m rid P)"
  by (auto simp: dispatch_to_handler_def settled_def)

lemma settled_single:
  assumes P: "settled C i st P"
  shows "settled C i st (dispatch_single C m P)"
proof -
  obtain d P1 where a: "ask_policy C m P = (d, P1)" by fastforce
  obtain rid P2 where s: "persist_message C m P1 = (rid, P2)" by fastforce
  note P1 = settled_ask [OF P a]
  from settled_persist [OF P1 s] settled_dispatch have "settled C i st (dispatch_to_handler m rid P2)" by blast
  with P P1 a s show ?thesis by (cases d) (simp_all add: dispatch_single_def)
qed

lemma settled_singles: "settled C i st P \<Longrightarrow> settled C i st (fold (dispatch_single C) ms P)"
  by (induction ms arbitrary: P) (auto intro: settled_single)

lemma combine_later: "combine E b k = (c, k') \<Longrightarrow> tk_uuid k \<le> tk_uuid k'"
  by (auto simp: combine_def fresh_text_def read_utc_def)

lemma accept_later: "debounce_accept E m d k = (out, d', k') \<Longrightarrow> tk_uuid k \<le> tk_uuid k'"
  by (auto simp: debounce_accept_def read_inst_def Let_def dest: combine_later split: option.splits prod.splits if_splits)

lemma flush_keys_later: "flush_keys E keys d k = (ms, d', k') \<Longrightarrow> tk_uuid k \<le> tk_uuid k'"
proof (induction keys arbitrary: d k ms)
  case (Cons key keys)
  then show ?case by (auto simp: Let_def dest!: combine_later split: option.splits prod.splits) (meson le_trans)+
qed simp

lemma flush_expired_later: "flush_expired E d k = (ms, d', k') \<Longrightarrow> tk_uuid k \<le> tk_uuid k'"
  by (auto simp: flush_expired_def read_inst_def dest: flush_keys_later)

lemma flush_all_later: "flush_all E d k = (ms, d', k') \<Longrightarrow> tk_uuid k \<le> tk_uuid k'"
proof -
  have "combine_all E bs k = (ms, k') \<Longrightarrow> tk_uuid k \<le> tk_uuid k'" for bs k ms k'
    by (induction bs arbitrary: k ms) (auto dest!: combine_later split: prod.splits intro: le_trans)
  then show "flush_all E d k = (ms, d', k') \<Longrightarrow> tk_uuid k \<le> tk_uuid k'" by (auto simp: flush_all_def split: prod.splits)
qed

lemma settled_flushed:
  assumes "settled C i st P" and "\<And>d k ms d' k'. flush (pc_env C) d k = (ms, d', k') \<Longrightarrow> tk_uuid k \<le> tk_uuid k'"
  shows "settled C i st (flushed C flush P)"
proof (cases "pp_debouncer P")
  case (Some d)
  obtain ms d' k where f: "flush (pc_env C) d (pp_ticks P) = (ms, d', k)" by (metis prod.collapse)
  from assms(2) [OF f] assms(1) have "settled C i st (P\<lparr>pp_debouncer := Some d', pp_ticks := k\<rparr>)"
    by (simp add: settled_later settled_cong)
  with Some f show ?thesis by (simp add: flushed_def settled_singles)
qed (use assms(1) in \<open>simp add: flushed_def\<close>)

lemma settled_receive:
  assumes P: "settled C i st P"
  shows "settled C i st (receive C m P)"
proof -
  obtain rid P1 where s: "persist_message C m P = (rid, P1)" by fastforce
  obtain d P2 where a: "ask_policy C m P1 = (d, P2)" by fastforce
  have rid: "rid \<noteq> Some i" and P2: "settled C i st P2"
    using settled_persist [OF P s] settled_ask [OF _ a] by auto
  have debounced: "settled C i st (debounce_message C m deb P2)" for deb
  proof -
    obtain out d' k where ac: "debounce_accept (pc_env C) m deb (pp_ticks P2) = (out, d', k)" by (metis prod.collapse)
    have "settled C i st (P2\<lparr>pp_debouncer := Some d', pp_ticks := k\<rparr>)"
      using settled_later [of C i st "P2\<lparr>pp_debouncer := Some d'\<rparr>" k] P2 accept_later [OF ac] by (simp add: settled_cong)
    with ac settled_single show ?thesis by (cases out) (auto simp: debounce_message_def Let_def)
  qed
  show ?thesis
  proof (cases d)
    case (PolicyDeny why)
    with s a settled_note [OF P2 rid marks_spare(2)] show ?thesis by (simp add: receive_def)
  next
    case PolicyAllow
    with s a debounced settled_dispatch [OF P2 rid] show ?thesis by (simp add: receive_def split: option.split)
  next
    case (PolicyBuffer key)
    with s a debounced settled_dispatch [OF P2 rid] show ?thesis by (simp add: receive_def split: option.split)
  qed
qed

lemma settled_retry:
  assumes P: "settled C i st P" and st: "st \<noteq> MsgPending" "st \<noteq> MsgFailed"
  shows "settled C i st (run_retry C P)"
proof (cases "pp_store P")
  case (Some S)
  have one: "settled C i st (retry_record C r Q)" if "settled C i st Q" "pm_record_id r \<noteq> i" for r Q
  proof -
    obtain x Q1 where w: "with_record (mark_processing (pc_env C) (pm_record_id r)) Q = (x, Q1)" by fastforce
    obtain y Q2 where t: "try_send C (pm_message r) Q1 = (y, Q2)" by fastforce
    obtain z Q3 where f: "with_record (mark_failed (pc_env C) (pm_record_id r) (''retry re-inject failed: '' @ projl y)) Q2 = (z, Q3)"
      by fastforce
    have Q1: "settled C i st Q1" by (rule settled_with_record [OF that(1) marks_spare(1) [OF that(2)] w])
    with t have Q2: "settled C i st Q2" by (auto simp: try_send_def settled_cong split: if_splits)
    from settled_with_record [OF Q2 marks_spare(4) [OF that(2)] f] have "settled C i st Q3" .
    with Q1 Q2 w t f show ?thesis by (cases x; cases y) (simp_all add: retry_record_def)
  qed
  have "settled C i st (fold (retry_record C) rs Q)" if "settled C i st Q" "\<forall>r \<in> set rs. pm_record_id r \<noteq> i" for rs Q
    using that by (induction rs arbitrary: Q) (simp_all add: one)
  moreover have "pm_record_id r \<noteq> i" if "r \<in> set (get_retryable 10 S)" for r
  proof
    assume "pm_record_id r = i"
    moreover have "r \<in> set (ms_messages S)" "retryable r" using that by (auto simp: get_retryable_def dest: in_set_takeD)
    ultimately show False using P Some st by (auto simp: settled_def retryable_def)
  qed
  ultimately show ?thesis using P Some by (simp add: run_retry_def)
qed (use P in \<open>simp add: run_retry_def\<close>)

lemma settled_step:
  assumes P: "settled C i st P" and st: "st \<noteq> MsgPending" "st \<noteq> MsgFailed"
  shows "settled C i st (pipe_step C ev P)"
proof (cases ev)
  case (Arrive m)
  with P show ?thesis by (simp add: try_send_def settled_cong)
next
  case Receive
  with P show ?thesis by (auto simp: settled_cong intro: settled_receive split: list.split)
next
  case DebounceTick
  with P settled_flushed [OF P, of flush_expired] flush_expired_later show ?thesis by auto
next
  case CancelLoop
  with P settled_flushed [OF P, of flush_all] flush_all_later show ?thesis by (auto simp: settled_cong)
next
  case (RunTask j)
  show ?thesis
  proof (cases "j < length (pp_jobs P)")
    case True
    obtain m rid where job: "pp_jobs P ! j = (m, rid)" by fastforce
    then have "(m, rid) \<in> set (pp_jobs P)" using True by (metis nth_mem)
    then have rid: "rid \<noteq> Some i" using P by (auto simp: settled_def)
    have "settled C i st (P\<lparr>pp_jobs := take j (pp_jobs P) @ drop (Suc j) (pp_jobs P)\<rparr>)"
      using P by (auto simp: settled_def dest: in_set_takeD in_set_dropD)
    from settled_task [OF this rid] True job RunTask show ?thesis by simp
  qed (use P RunTask in simp)
next
  case RetryTick
  with P settled_retry [OF P st] show ?thesis by simp
next
  case CleanupTick
  with P show ?thesis
    by (auto simp: run_cleanup_def cleanup_def read_utc_def Let_def settled_def split: option.split)
qed (use P in \<open>simp_all add: settled_cong\<close>)

definition only_held :: "string \<Rightarrow> 'p pipe \<Rightarrow> bool" where
  "only_held i P \<longleftrightarrow>
     (case pp_store P of None \<Rightarrow> True | Some S \<Rightarrow> \<forall>r \<in> set (ms_messages S). pm_record_id r = i \<longrightarrow> pm_status r = MsgHeld)"

text \<open>
  A message that is held for an operator is never handled again on its own: once its task has marked it, no event
  gives it back, neither the end of the takeover nor the retry task; the record stays held until it is pushed out.
\<close>

theorem held_messages_stay_held:
  assumes "only_held i P" and "\<forall>(m, rid) \<in> set (pp_jobs P). rid \<noteq> Some i"
    and "\<forall>n \<ge> tk_uuid (pp_ticks P). xe_uuid (pc_env C) n \<noteq> i"
  shows "only_held i (pipe_run C evs P)"
proof -
  have "settled C i MsgHeld P" using assms by (auto simp: settled_def only_held_def)
  then have "settled C i MsgHeld (pipe_run C evs P)"
    unfolding pipe_run_def by (induction evs arbitrary: P) (auto intro: settled_step)
  then show ?thesis by (simp add: settled_def only_held_def split: option.split)
qed

definition held_pipe :: "policy pipe_config" where
  "held_pipe = demo_pipe\<lparr>pc_env := demo_chat\<lparr>xe_uuid := (\<lambda>n. replicate n (CHR ''x''))\<rparr>\<rparr>"

definition taken_over :: session_router where
  "taken_over = set_config ''tg:dm:ann'' (session_default\<lparr>sc_takeover :=
     Some \<lparr>to_operator = ''op'', to_started_at = 0, to_reason = None\<rparr>\<rparr>) router_default"

definition held_state :: "policy pipe" where
  "held_state = pipe_run held_pipe [Arrive (plain_message ''1''), Receive, RunTask 0]
     (pipe_start None (Some taken_over) None (Some (store_new 10)))"

lemma held_state_eq:
  "\<exists>S r. pp_store held_state = Some S \<and> ms_messages S = [r] \<and> pm_record_id r = [] \<and> pm_status r = MsgHeld"
  "pp_jobs held_state = []" "tk_uuid (pp_ticks held_state) = 1"
  by (simp_all add: held_state_def pipe_run_def pipe_start_def held_pipe_def demo_pipe_def demo_chat_def try_send_def
      queue_capacity_def receive_def persist_message_def message_save_def fresh_text_def read_utc_def ask_policy_def
      dispatch_to_handler_def run_task_def resolve_def taken_over_def set_config_def router_default_def router_new_def
      session_key_def plain_message_def message_new_def tbl_upsert_def tbl_get_def note_record_def with_record_def mark_held_def
      mark_def store_new_def session_default_def)

theorem held_messages_stay_held_witness:
  "only_held [] held_state \<and> pp_store held_state \<noteq> None \<and>
   only_held [] (pipe_run held_pipe [Operate (snd \<circ> end_takeover ''tg:dm:ann''), RetryTick, Receive, RunTask 0] held_state)"
proof -
  obtain S r where S: "pp_store held_state = Some S" "ms_messages S = [r]" "pm_status r = MsgHeld" using held_state_eq(1) by blast
  have "only_held [] held_state" by (simp add: only_held_def S)
  then show ?thesis using S(1)
    by (intro conjI held_messages_stay_held) (auto simp: S held_state_eq(2,3) held_pipe_def)
qed

section \<open>Buffered messages come back\<close>

text \<open>
  A message that the debouncer takes is left pending in the store; the next round of the retry task puts it into the
  queue again, while its text already waits to be answered.
\<close>

theorem buffered_message_comes_back:
  assumes "pp_open P" and "pp_policy P = None" and "pp_queue P = []"
    and "pp_debouncer P = Some d" and "pp_store P = Some S" and "\<forall>r \<in> set (ms_messages S). \<not> retryable r"
    and "\<forall>b. tbl_get (de_pending d) (debounce_key m) = Some b \<longrightarrow> bt_char_count b + length (cm_content m) < de_max_chars d"
  shows "\<exists>d'. pp_queue (run_retry C (receive C m P)) = [m] \<and> pp_debouncer (run_retry C (receive C m P)) = Some d' \<and>
    waiting (debounce_key m) d' = waiting (debounce_key m) d @ [cm_content m]"
proof -
  define old where "old = (if ms_capacity S \<le> length (ms_messages S) then List.tl (ms_messages S) else ms_messages S)"
  have "set old \<subseteq> set (ms_messages S)" unfolding old_def by (cases "ms_messages S") auto
  then have none: "filter retryable old = []" using assms(6) by (auto simp: filter_empty_conv)
  obtain i r k1 where s: "persist_message C m P = (Some i, P\<lparr>pp_store := Some (S\<lparr>ms_messages := old @ [r]\<rparr>), pp_ticks := k1\<rparr>)"
    and r: "pm_message r = m" "pm_status r = MsgPending" "pm_record_id r = i"
    using assms(5) by (auto simp: persist_message_def message_save_def old_def fresh_text_def read_utc_def Let_def)
  obtain d' k2 where a: "debounce_accept (pc_env C) m d k1 = (None, d', k2)"
    and w: "waiting (debounce_key m) d' = waiting (debounce_key m) d @ [cm_content m]"
  proof (cases "tbl_get (de_pending d) (debounce_key m)")
    case None
    then show thesis
      by (intro that) (auto simp: debounce_accept_def read_inst_def Let_def waiting_def tbl_get_snoc split: option.split)
  next
    case (Some b)
    with assms(7) have "\<not> de_max_chars d \<le> bt_char_count b + length (cm_content m)" by auto
    with Some show thesis
      by (intro that, auto simp: debounce_accept_def read_inst_def Let_def waiting_simps, auto simp: waiting_def)
  qed
  have rec: "receive C m P = P\<lparr>pp_store := Some (S\<lparr>ms_messages := old @ [r]\<rparr>), pp_debouncer := Some d', pp_ticks := k2\<rparr>"
    using s a assms(2,4) by (simp add: receive_def ask_policy_def debounce_message_def Let_def)
  have todo: "get_retryable 10 (S\<lparr>ms_messages := old @ [r]\<rparr>) = [r]"
    using none r(2) by (simp add: get_retryable_def retryable_def)
  have "update_record i f (old @ [r]) \<noteq> None" for f
    by (induction old) (auto simp: r(3))
  then obtain rs where "update_record i (\<lambda>r. (r\<lparr>pm_status := MsgProcessing, pm_attempts := pm_attempts r + 1\<rparr>)
      \<lparr>pm_updated_at := xe_utc (pc_env C) (tk_utc k2)\<rparr>) (old @ [r]) = Some rs" by blast
  then obtain S' k3 where "mark_processing (pc_env C) i (S\<lparr>ms_messages := old @ [r]\<rparr>) k2 = (Inr (), S', k3)"
    by (simp add: mark_processing_def mark_def read_utc_def)
  then have "run_retry C (receive C m P) = (receive C m P)\<lparr>pp_store := Some S', pp_ticks := k3, pp_queue := [m]\<rparr>"
    using assms(1,3) r todo by (simp add: run_retry_def rec retry_record_def with_record_def try_send_def queue_capacity_def)
  with w show ?thesis by (simp add: rec)
qed

theorem buffered_message_comes_back_witness:
  "\<exists>d'. pp_queue (run_retry demo_pipe (receive demo_pipe (plain_message ''1'') (pipe_start None None (Some (5, 100)) (Some (store_new 10))))) =
      [plain_message ''1''] \<and>
    pp_debouncer (run_retry demo_pipe (receive demo_pipe (plain_message ''1'') (pipe_start None None (Some (5, 100)) (Some (store_new 10))))) = Some d' \<and>
    waiting (debounce_key (plain_message ''1'')) d' = waiting (debounce_key (plain_message ''1'')) (debouncer_new 5 100) @ [cm_content (plain_message ''1'')]"
  by (rule buffered_message_comes_back [where S = "store_new 10"]) (simp_all add: pipe_start_def store_new_def debouncer_new_def)

end
