(* ===== verification/Store_Admin.thy ===== *)
theory Store_Admin
  imports Store_Core
begin

text \<open>
  The other tables of the desktop store (\<open>crates/store/src/sqlite.rs\<close>): plugins, tools, skills, packages, service
  accounts, nodes, MCP servers, usage records and remote agents, with their types (\<open>crates/types/src\<close>). As in
  \<open>Store_Core\<close> a row holds the typed value of each column, an operation maps the database to its result and the
  database after it, and \<open>now\<close> is the instant it reads. Columns that no statement reads back are left out.
\<close>

section \<open>Types\<close>

record resource_limits =
  rl_max_memory_bytes :: u64
  rl_timeout :: nat
  rl_network_allowed :: bool
  rl_fs_sandbox_root :: "string option"

record plugin_manifest =
  pm_name :: string
  pm_version :: string
  pm_description :: "string option"
  pm_author :: "string option"
  pm_organization :: "string option"
  pm_permissions :: "string list"
  pm_resource_limits :: "resource_limits option"

record skill_step =
  ss_action :: string
  ss_description :: "string option"

record variable_def =
  vd_name :: string
  vd_description :: "string option"
  vd_required :: bool
  vd_default :: "json option"

record skill_def =
  sk_id :: string
  sk_version :: string
  sk_name :: "string option"
  sk_description :: "string option"
  sk_system_prompt :: string
  sk_tools :: "string list"
  sk_steps :: "skill_step list option"
  sk_output_format :: "string option"
  sk_requires_approval :: bool
  sk_risk_level :: risk_level
  sk_tags :: "string list"
  sk_variables :: "variable_def list option"
  sk_author :: "string option"
  sk_source :: string

datatype package_type = PluginPackage | FlowPackage | SkillPackage | ToolPackage | McpPackage

record package_record =
  pk_name :: string
  pk_version :: string
  pk_type :: package_type
  pk_installed_at :: timestamp
  pk_installed_by :: string

record service_account =
  sa_id :: uuid
  sa_name :: string
  sa_api_key_hash :: string
  sa_roles :: "role list"
  sa_created_at :: timestamp
  sa_enabled :: bool

datatype node_status = NodeOnline | NodeDraining | NodeOffline

record node_capacity =
  nc_total_memory :: u64
  nc_available_memory :: u64
  nc_running_agents :: u64
  nc_max_concurrent :: u64

record node_info =
  nd_id :: string
  nd_hostname :: string
  nd_labels :: "string list"
  nd_status :: node_status
  nd_capacity :: node_capacity
  nd_last_heartbeat :: timestamp

datatype mcp_transport = McpStdio | McpSse

record mcp_auth_config =
  ma_auth_type :: string
  ma_token_ref :: "string option"

record mcp_server_config =
  mc_name :: string
  mc_description :: "string option"
  mc_transport :: mcp_transport
  mc_url :: "string option"
  mc_command :: "string option"
  mc_args :: "string list"
  mc_auth :: "mcp_auth_config option"

text \<open>A cost is a double; as elsewhere it is its bit pattern.\<close>

type_synonym f64 = "64 word"

record usage_record =
  ur_id :: string
  ur_task_id :: "string option"
  ur_model :: string
  ur_input_tokens :: u64
  ur_output_tokens :: u64
  ur_total_tokens :: u64
  ur_cost_usd :: f64
  ur_created_at :: timestamp

record model_usage =
  mu_model :: string
  mu_tokens :: u64
  mu_cost_usd :: f64
  mu_request_count :: u64

record usage_summary =
  us_total_tokens :: u64
  us_total_cost_usd :: f64
  us_input_tokens :: u64
  us_output_tokens :: u64
  us_request_count :: u64
  us_by_model :: "model_usage list"
  us_period :: string

record usage_daily =
  ud_date :: string
  ud_tokens :: u64
  ud_cost_usd :: f64
  ud_input_tokens :: u64
  ud_output_tokens :: u64

datatype remote_agent_status = RemoteOnline | RemoteOffline

record remote_agent =
  ra_id :: string
  ra_name :: string
  ra_description :: string
  ra_version :: string
  ra_capabilities :: "string list"
  ra_status :: remote_agent_status
  ra_last_heartbeat :: "timestamp option"
  ra_registered_at :: timestamp
  ra_registered_by :: string
  ra_token_expires_at :: "timestamp option"

section \<open>Rows\<close>

record plugin_row =
  pr_manifest :: plugin_manifest
  pr_installed_at :: timestamp
  pr_updated_at :: timestamp

record tool_row =
  tr_description :: string
  tr_plugin_name :: "string option"
  tr_mcp_server :: "string option"
  tr_risk_level :: string
  tr_parameters :: json
  tr_enabled :: bool
  tr_created_at :: timestamp

record skill_row =
  sr_definition :: skill_def
  sr_created_at :: timestamp
  sr_updated_at :: timestamp

record package_row =
  pw_type :: string
  pw_installed_at :: timestamp
  pw_installed_by :: string

record node_row =
  nr_hostname :: string
  nr_status :: string
  nr_total_memory :: "64 word"
  nr_available_memory :: "64 word"
  nr_running_agents :: "64 word"
  nr_max_concurrent :: "64 word"
  nr_labels :: "string list"
  nr_last_heartbeat :: timestamp
  nr_registered_at :: timestamp

record mcp_row =
  mr_description :: "string option"
  mr_transport :: string
  mr_url :: "string option"
  mr_command :: "string option"
  mr_args :: "string list"
  mr_auth_config :: "mcp_auth_config option"
  mr_created_at :: timestamp

record remote_row =
  rr_name :: string
  rr_token_hash :: string
  rr_description :: string
  rr_version :: string
  rr_capabilities :: "string list"
  rr_status :: string
  rr_last_heartbeat :: "timestamp option"
  rr_registered_at :: timestamp
  rr_registered_by :: string
  rr_token_expires_at :: "timestamp option"

record admin_db =
  ad_plugins :: "(string, plugin_row) table"
  ad_tools :: "(string, tool_row) table"
  ad_skills :: "(string, skill_row) table"
  ad_packages :: "(string \<times> string, package_row) table"
  ad_accounts :: "(uuid, service_account) table"
  ad_nodes :: "(string, node_row) table"
  ad_mcp :: "(string, mcp_row) table"
  ad_usage :: "(string, usage_record) table"
  ad_remote :: "(string, remote_row) table"

definition admin_empty :: admin_db where
  "admin_empty =
     \<lparr>ad_plugins = [], ad_tools = [], ad_skills = [], ad_packages = [], ad_accounts = [], ad_nodes = [],
      ad_mcp = [], ad_usage = [], ad_remote = []\<rparr>"

type_synonym 'a stmt = "admin_db \<Rightarrow> (atta_error + 'a) \<times> admin_db"

definition row_missing :: "string \<Rightarrow> string \<Rightarrow> atta_error" where
  "row_missing ty i = Store (StoreNotFound ty i)"

section \<open>Plugins\<close>

text \<open>
  A manifest is stored as JSON: a time limit keeps its whole seconds (\<open>duration_as_secs\<close>), in nanoseconds here.
\<close>

definition whole_secs :: "nat \<Rightarrow> nat" where
  "whole_secs d = d div 1000000000 * 1000000000"

definition manifest_stored :: "plugin_manifest \<Rightarrow> plugin_manifest" where
  "manifest_stored m =
     m\<lparr>pm_resource_limits := map_option (\<lambda>l. l\<lparr>rl_timeout := whole_secs (rl_timeout l)\<rparr>) (pm_resource_limits m)\<rparr>"

definition register_plugin :: "plugin_manifest \<Rightarrow> timestamp \<Rightarrow> unit stmt" where
  "register_plugin m now d =
     (Inr (), d\<lparr>ad_plugins := tbl_upsert (pm_name m)
                \<lparr>pr_manifest = manifest_stored m, pr_installed_at = now, pr_updated_at = now\<rparr>
                (\<lambda>r. r\<lparr>pr_manifest := manifest_stored m, pr_updated_at := now\<rparr>) (ad_plugins d)\<rparr>)"

definition unregister_plugin :: "string \<Rightarrow> unit stmt" where
  "unregister_plugin n d =
     (if tbl_affected n (ad_plugins d) = 0 then (Inl (row_missing ''plugin'' n), d)
      else (Inr (), d\<lparr>ad_plugins := tbl_delete n (ad_plugins d)\<rparr>))"

definition list_plugins :: "plugin_manifest list stmt" where
  "list_plugins d = (Inr (map (pr_manifest \<circ> snd) (sort_key (text_order \<circ> fst) (ad_plugins d))), d)"

definition get_plugin :: "string \<Rightarrow> plugin_manifest option stmt" where
  "get_plugin n d = (Inr (map_option pr_manifest (tbl_get (ad_plugins d) n)), d)"

section \<open>Tools\<close>

definition risk_text :: "risk_level \<Rightarrow> string" where
  "risk_text r = (case r of Low \<Rightarrow> ''low'' | Medium \<Rightarrow> ''medium'' | High \<Rightarrow> ''high'')"

definition risk_of_text :: "string \<Rightarrow> risk_level" where
  "risk_of_text s = (if s = ''medium'' then Medium else if s = ''high'' then High else Low)"

definition register_tool :: "tool_def \<Rightarrow> timestamp \<Rightarrow> unit stmt" where
  "register_tool t now d =
     (let (plugin, mcp) = (case tool_binding t of
            McpBinding s \<Rightarrow> (None, Some s)
          | BuiltinBinding h \<Rightarrow> (Some (''builtin:'' @ h), None)
          | NativeBinding h \<Rightarrow> (Some (''native:'' @ h), None))
      in (Inr (), d\<lparr>ad_tools := tbl_upsert (tool_name t)
            \<lparr>tr_description = tool_description t, tr_plugin_name = plugin, tr_mcp_server = mcp,
             tr_risk_level = risk_text (tool_risk t), tr_parameters = tool_parameters t, tr_enabled = True, tr_created_at = now\<rparr>
            (\<lambda>r. r\<lparr>tr_description := tool_description t, tr_plugin_name := plugin, tr_mcp_server := mcp,
                   tr_risk_level := risk_text (tool_risk t), tr_parameters := tool_parameters t\<rparr>) (ad_tools d)\<rparr>))"

definition tool_from_row :: "string \<Rightarrow> tool_row \<Rightarrow> atta_error + tool_def" where
  "tool_from_row n r =
     and_then (case tr_plugin_name r of
         Some pn \<Rightarrow>
           (case strip_prefix ''builtin:'' pn of
              Some h \<Rightarrow> Inr (BuiltinBinding h)
            | None \<Rightarrow> (case strip_prefix ''native:'' pn of Some h \<Rightarrow> Inr (NativeBinding h) | None \<Rightarrow> Inr (NativeBinding pn)))
       | None \<Rightarrow>
           (case tr_mcp_server r of
              Some s \<Rightarrow> Inr (McpBinding s)
            | None \<Rightarrow> Inl (Store (Database (''tool '' @ squote n @ '' has neither plugin_name nor mcp_server'')))))
       (\<lambda>b. Inr \<lparr>tool_name = n, tool_description = tr_description r, tool_binding = b,
                 tool_risk = risk_of_text (tr_risk_level r), tool_parameters = tr_parameters r\<rparr>)"

fun collect :: "('a \<Rightarrow> 'e + 'b) \<Rightarrow> 'a list \<Rightarrow> 'e + 'b list" where
  "collect f [] = Inr []"
| "collect f (x # xs) = and_then (f x) (\<lambda>y. and_then (collect f xs) (\<lambda>ys. Inr (y # ys)))"

definition list_tools :: "tool_def list stmt" where
  "list_tools d =
     (collect (\<lambda>(n, r). tool_from_row n r) (filter (tr_enabled \<circ> snd) (sort_key (text_order \<circ> fst) (ad_tools d))), d)"

definition get_tool :: "string \<Rightarrow> tool_def option stmt" where
  "get_tool n d =
     (case tbl_get (ad_tools d) n of
        None \<Rightarrow> (Inr None, d)
      | Some r \<Rightarrow> (and_then (tool_from_row n r) (\<lambda>t. Inr (Some t)), d))"

section \<open>Skills\<close>

text \<open>A skill is stored as JSON, in which a default of \<open>null\<close> reads back as no default.\<close>

definition default_stored :: "variable_def \<Rightarrow> variable_def" where
  "default_stored v = (if vd_default v = Some JNull then v\<lparr>vd_default := None\<rparr> else v)"

definition skill_stored :: "skill_def \<Rightarrow> skill_def" where
  "skill_stored s = s\<lparr>sk_variables := map_option (map default_stored) (sk_variables s)\<rparr>"

definition register_skill :: "skill_def \<Rightarrow> timestamp \<Rightarrow> unit stmt" where
  "register_skill s now d =
     (Inr (), d\<lparr>ad_skills := tbl_upsert (sk_id s)
                \<lparr>sr_definition = skill_stored s, sr_created_at = now, sr_updated_at = now\<rparr>
                (\<lambda>r. r\<lparr>sr_definition := skill_stored s, sr_updated_at := now\<rparr>) (ad_skills d)\<rparr>)"

definition list_skills :: "skill_def list stmt" where
  "list_skills d = (Inr (map (sr_definition \<circ> snd) (sort_key (text_order \<circ> fst) (ad_skills d))), d)"

definition list_skill_defs :: "skill_def list stmt" where
  "list_skill_defs = list_skills"

definition get_skill :: "string \<Rightarrow> skill_def option stmt" where
  "get_skill i d = (Inr (map_option sr_definition (tbl_get (ad_skills d) i)), d)"

definition delete_skill :: "string \<Rightarrow> unit stmt" where
  "delete_skill i d =
     (if tbl_affected i (ad_skills d) = 0 then (Inl (row_missing ''skill'' i), d)
      else (Inr (), d\<lparr>ad_skills := tbl_delete i (ad_skills d)\<rparr>))"

section \<open>Packages\<close>

definition package_type_text :: "package_type \<Rightarrow> string" where
  "package_type_text t =
     (case t of PluginPackage \<Rightarrow> ''plugin'' | FlowPackage \<Rightarrow> ''flow'' | SkillPackage \<Rightarrow> ''skill''
      | ToolPackage \<Rightarrow> ''tool'' | McpPackage \<Rightarrow> ''mcp'')"

definition package_type_of_text :: "string \<Rightarrow> package_type option" where
  "package_type_of_text s =
     (if s = ''plugin'' then Some PluginPackage else if s = ''flow'' then Some FlowPackage
      else if s = ''skill'' then Some SkillPackage else if s = ''tool'' then Some ToolPackage
      else if s = ''mcp'' then Some McpPackage else None)"

definition register_package :: "package_record \<Rightarrow> unit stmt" where
  "register_package p d =
     (let row = \<lparr>pw_type = package_type_text (pk_type p), pw_installed_at = pk_installed_at p, pw_installed_by = pk_installed_by p\<rparr>
      in (Inr (), d\<lparr>ad_packages := tbl_upsert (pk_name p, pk_version p) row (\<lambda>_. row) (ad_packages d)\<rparr>))"

text \<open>\<open>ORDER BY installed_at DESC LIMIT 1\<close>; of rows of the same instant it takes the one that was inserted first.\<close>

definition get_package :: "string \<Rightarrow> package_record option stmt" where
  "get_package n d =
     (case sort_key (\<lambda>(k, r). - pw_installed_at r) (filter (\<lambda>((m, v), r). m = n) (ad_packages d)) of
        [] \<Rightarrow> (Inr None, d)
      | ((m, v), r) # _ \<Rightarrow>
          (case package_type_of_text (pw_type r) of
             None \<Rightarrow> (Inl (Store (Serialization (''package_type: unknown variant '' @ pw_type r))), d)
           | Some t \<Rightarrow> (Inr (Some \<lparr>pk_name = m, pk_version = v, pk_type = t, pk_installed_at = pw_installed_at r,
                                   pk_installed_by = pw_installed_by r\<rparr>), d)))"

section \<open>Service accounts\<close>

definition get_service_account_by_key :: "string \<Rightarrow> service_account option stmt" where
  "get_service_account_by_key h d =
     (Inr (find (\<lambda>a. sa_api_key_hash a = h \<and> sa_enabled a) (map snd (ad_accounts d))), d)"

section \<open>Nodes\<close>

definition node_status_text :: "node_status \<Rightarrow> string" where
  "node_status_text s = (case s of NodeOnline \<Rightarrow> ''online'' | NodeDraining \<Rightarrow> ''draining'' | NodeOffline \<Rightarrow> ''offline'')"

definition node_status_of_text :: "string \<Rightarrow> node_status" where
  "node_status_of_text s = (if s = ''online'' then NodeOnline else if s = ''draining'' then NodeDraining else NodeOffline)"

text \<open>The status is written for a new node only. The columns are signed; a cast to and from them keeps the bits.\<close>

definition upsert_node :: "node_info \<Rightarrow> unit stmt" where
  "upsert_node n d =
     (let c = nd_capacity n in
      (Inr (), d\<lparr>ad_nodes := tbl_upsert (nd_id n)
         \<lparr>nr_hostname = nd_hostname n, nr_status = ''online'', nr_total_memory = nc_total_memory c,
          nr_available_memory = nc_available_memory c, nr_running_agents = nc_running_agents c,
          nr_max_concurrent = nc_max_concurrent c, nr_labels = nd_labels n,
          nr_last_heartbeat = nd_last_heartbeat n, nr_registered_at = nd_last_heartbeat n\<rparr>
         (\<lambda>r. r\<lparr>nr_hostname := nd_hostname n, nr_total_memory := nc_total_memory c,
                nr_available_memory := nc_available_memory c, nr_running_agents := nc_running_agents c,
                nr_max_concurrent := nc_max_concurrent c, nr_labels := nd_labels n,
                nr_last_heartbeat := nd_last_heartbeat n\<rparr>) (ad_nodes d)\<rparr>))"

definition node_from_row :: "string \<Rightarrow> node_row \<Rightarrow> node_info" where
  "node_from_row i r =
     \<lparr>nd_id = i, nd_hostname = nr_hostname r, nd_labels = nr_labels r, nd_status = node_status_of_text (nr_status r),
      nd_capacity = \<lparr>nc_total_memory = nr_total_memory r, nc_available_memory = nr_available_memory r,
                     nc_running_agents = nr_running_agents r, nc_max_concurrent = nr_max_concurrent r\<rparr>,
      nd_last_heartbeat = nr_last_heartbeat r\<rparr>"

definition get_node :: "string \<Rightarrow> node_info option stmt" where
  "get_node i d = (Inr (map_option (node_from_row i) (tbl_get (ad_nodes d) i)), d)"

definition list_nodes :: "node_info list stmt" where
  "list_nodes d = (Inr (map (\<lambda>(i, r). node_from_row i r) (sort_key (text_order \<circ> fst) (ad_nodes d))), d)"

definition list_nodes_after :: "timestamp \<Rightarrow> node_info list stmt" where
  "list_nodes_after cutoff d =
     (Inr (map (\<lambda>(i, r). node_from_row i r)
        (sort_key (text_order \<circ> fst) (filter (\<lambda>(i, r). nr_last_heartbeat r > cutoff) (ad_nodes d)))), d)"

definition update_node_status :: "string \<Rightarrow> node_status \<Rightarrow> unit stmt" where
  "update_node_status i s d =
     (if tbl_affected i (ad_nodes d) = 0 then (Inl (row_missing ''node'' i), d)
      else (Inr (), d\<lparr>ad_nodes := tbl_update i (\<lambda>r. r\<lparr>nr_status := node_status_text s\<rparr>) (ad_nodes d)\<rparr>))"

section \<open>MCP servers\<close>

definition transport_text :: "mcp_transport \<Rightarrow> string" where
  "transport_text t = (case t of McpStdio \<Rightarrow> ''stdio'' | McpSse \<Rightarrow> ''sse'')"

definition register_mcp :: "mcp_server_config \<Rightarrow> timestamp \<Rightarrow> unit stmt" where
  "register_mcp m now d =
     (Inr (), d\<lparr>ad_mcp := tbl_upsert (mc_name m)
        \<lparr>mr_description = mc_description m, mr_transport = transport_text (mc_transport m), mr_url = mc_url m,
         mr_command = mc_command m, mr_args = mc_args m, mr_auth_config = mc_auth m, mr_created_at = now\<rparr>
        (\<lambda>r. r\<lparr>mr_description := mc_description m, mr_transport := transport_text (mc_transport m), mr_url := mc_url m,
               mr_command := mc_command m, mr_args := mc_args m, mr_auth_config := mc_auth m\<rparr>) (ad_mcp d)\<rparr>)"

definition mcp_from_row :: "string \<Rightarrow> mcp_row \<Rightarrow> mcp_server_config" where
  "mcp_from_row n r =
     \<lparr>mc_name = n, mc_description = mr_description r,
      mc_transport = (if mr_transport r = ''sse'' then McpSse else McpStdio), mc_url = mr_url r,
      mc_command = mr_command r, mc_args = mr_args r, mc_auth = mr_auth_config r\<rparr>"

definition list_mcp_servers :: "mcp_server_config list stmt" where
  "list_mcp_servers d = (Inr (map (\<lambda>(n, r). mcp_from_row n r) (sort_key (text_order \<circ> fst) (ad_mcp d))), d)"

definition unregister_mcp :: "string \<Rightarrow> unit stmt" where
  "unregister_mcp n d =
     (if tbl_affected n (ad_mcp d) = 0 then (Inl (row_missing ''mcp_server'' n), d)
      else (Inr (), d\<lparr>ad_mcp := tbl_delete n (ad_mcp d)\<rparr>))"

section \<open>Usage\<close>

text \<open>
  \<open>SUM\<close> over an integer column adds signed 64-bit numbers and fails when it leaves their range. What it makes
  of a column of doubles is the argument \<open>fsum\<close>, and the text \<open>DATE\<close> makes of an instant the argument \<open>day\<close>.
\<close>

fun sql_sum :: "int \<Rightarrow> int list \<Rightarrow> int option" where
  "sql_sum acc [] = Some acc"
| "sql_sum acc (x # xs) =
     (if - (2 ^ 63) \<le> acc + x \<and> acc + x < 2 ^ 63 then sql_sum (acc + x) xs else None)"

definition sum_column :: "string \<Rightarrow> (usage_record \<Rightarrow> u64) \<Rightarrow> usage_record list \<Rightarrow> atta_error + u64" where
  "sum_column what col rs =
     (case sql_sum 0 (map (\<lambda>r. sint (col r)) rs) of
        None \<Rightarrow> Inl (Store (Database (what @ '': integer overflow'')))
      | Some n \<Rightarrow> Inr (of_int n))"

definition record_usage :: "usage_record \<Rightarrow> unit stmt" where
  "record_usage u d =
     (case tbl_insert (ur_id u) u (ad_usage d) of
        None \<Rightarrow> (Inl (unique_failed ''record usage'' ''usage_records.id''), d)
      | Some t \<Rightarrow> (Inr (), d\<lparr>ad_usage := t\<rparr>))"

definition keys_of :: "(usage_record \<Rightarrow> string) \<Rightarrow> usage_record list \<Rightarrow> string list" where
  "keys_of f rs = sort_key text_order (remdups (map f rs))"

definition model_total :: "(f64 list \<Rightarrow> f64) \<Rightarrow> usage_record list \<Rightarrow> string \<Rightarrow> atta_error + model_usage" where
  "model_total fsum rs m =
     (let ms = filter (\<lambda>r. ur_model r = m) rs in
      and_then (sum_column ''usage by model'' ur_total_tokens ms) (\<lambda>t.
        Inr \<lparr>mu_model = m, mu_tokens = t, mu_cost_usd = fsum (map ur_cost_usd ms), mu_request_count = of_nat (length ms)\<rparr>))"

definition get_usage_summary :: "(f64 list \<Rightarrow> f64) \<Rightarrow> timestamp \<Rightarrow> usage_summary stmt" where
  "get_usage_summary fsum since d =
     (let rs = filter (\<lambda>r. since \<le> ur_created_at r) (map snd (ad_usage d)) in
      (and_then (sum_column ''usage summary'' ur_input_tokens rs) (\<lambda>i.
       and_then (sum_column ''usage summary'' ur_output_tokens rs) (\<lambda>out.
       and_then (sum_column ''usage summary'' ur_total_tokens rs) (\<lambda>t.
       and_then (collect (model_total fsum rs) (keys_of ur_model rs)) (\<lambda>ms.
         Inr \<lparr>us_total_tokens = t, us_total_cost_usd = fsum (map ur_cost_usd rs), us_input_tokens = i,
              us_output_tokens = out, us_request_count = of_nat (length rs),
              us_by_model = sort_key (\<lambda>m. - sint (mu_tokens m)) ms, us_period = []\<rparr>)))), d))"

definition day_total :: "(f64 list \<Rightarrow> f64) \<Rightarrow> (timestamp \<Rightarrow> string) \<Rightarrow> usage_record list \<Rightarrow> string \<Rightarrow> atta_error + usage_daily" where
  "day_total fsum day rs x =
     (let ds = filter (\<lambda>r. day (ur_created_at r) = x) rs in
      and_then (sum_column ''usage daily'' ur_total_tokens ds) (\<lambda>t.
      and_then (sum_column ''usage daily'' ur_input_tokens ds) (\<lambda>i.
      and_then (sum_column ''usage daily'' ur_output_tokens ds) (\<lambda>out.
        Inr \<lparr>ud_date = x, ud_tokens = t, ud_cost_usd = fsum (map ur_cost_usd ds), ud_input_tokens = i,
             ud_output_tokens = out\<rparr>))))"

definition get_usage_daily :: "(f64 list \<Rightarrow> f64) \<Rightarrow> (timestamp \<Rightarrow> string) \<Rightarrow> timestamp \<Rightarrow> timestamp \<Rightarrow> usage_daily list stmt" where
  "get_usage_daily fsum day start stop d =
     (let rs = filter (\<lambda>r. start \<le> ur_created_at r \<and> ur_created_at r < stop) (map snd (ad_usage d)) in
      (collect (day_total fsum day rs) (keys_of (day \<circ> ur_created_at) rs), d))"

section \<open>Remote agents\<close>

definition remote_status_text :: "remote_agent_status \<Rightarrow> string" where
  "remote_status_text s = (case s of RemoteOnline \<Rightarrow> ''online'' | RemoteOffline \<Rightarrow> ''offline'')"

definition token_taken :: "string \<Rightarrow> string \<Rightarrow> admin_db \<Rightarrow> bool" where
  "token_taken i h d \<longleftrightarrow> list_ex (\<lambda>(j, r). j \<noteq> i \<and> rr_token_hash r = h) (ad_remote d)"

definition register_remote_agent :: "remote_agent \<Rightarrow> string \<Rightarrow> unit stmt" where
  "register_remote_agent a h d =
     (case tbl_insert (ra_id a)
        \<lparr>rr_name = ra_name a, rr_token_hash = h, rr_description = ra_description a, rr_version = ra_version a,
         rr_capabilities = ra_capabilities a, rr_status = remote_status_text (ra_status a), rr_last_heartbeat = None,
         rr_registered_at = ra_registered_at a, rr_registered_by = ra_registered_by a,
         rr_token_expires_at = ra_token_expires_at a\<rparr> (ad_remote d) of
        None \<Rightarrow> (Inl (unique_failed ''register remote agent'' ''remote_agents.id''), d)
      | Some t \<Rightarrow>
          if token_taken (ra_id a) h d
          then (Inl (unique_failed ''register remote agent'' ''remote_agents.token_hash''), d)
          else (Inr (), d\<lparr>ad_remote := t\<rparr>))"

definition remote_agent_from_row :: "string \<Rightarrow> remote_row \<Rightarrow> remote_agent" where
  "remote_agent_from_row i r =
     \<lparr>ra_id = i, ra_name = rr_name r, ra_description = rr_description r, ra_version = rr_version r,
      ra_capabilities = rr_capabilities r, ra_status = (if rr_status r = ''online'' then RemoteOnline else RemoteOffline),
      ra_last_heartbeat = rr_last_heartbeat r, ra_registered_at = rr_registered_at r,
      ra_registered_by = rr_registered_by r, ra_token_expires_at = rr_token_expires_at r\<rparr>"

definition get_remote_agent :: "string \<Rightarrow> remote_agent option stmt" where
  "get_remote_agent i d = (Inr (map_option (remote_agent_from_row i) (tbl_get (ad_remote d) i)), d)"

definition get_remote_agent_by_token :: "string \<Rightarrow> remote_agent option stmt" where
  "get_remote_agent_by_token h d =
     (Inr (map_option (\<lambda>(i, r). remote_agent_from_row i r) (find (\<lambda>(i, r). rr_token_hash r = h) (ad_remote d))), d)"

definition list_remote_agents :: "remote_agent list stmt" where
  "list_remote_agents d =
     (Inr (map (\<lambda>(i, r). remote_agent_from_row i r) (sort_key (\<lambda>(i, r). - rr_registered_at r) (ad_remote d))), d)"

definition update_remote_agent_status :: "string \<Rightarrow> remote_agent_status \<Rightarrow> unit stmt" where
  "update_remote_agent_status i s d =
     (Inr (), d\<lparr>ad_remote := tbl_update i (\<lambda>r. r\<lparr>rr_status := remote_status_text s\<rparr>) (ad_remote d)\<rparr>)"

definition update_remote_agent_heartbeat :: "string \<Rightarrow> timestamp \<Rightarrow> unit stmt" where
  "update_remote_agent_heartbeat i now d =
     (Inr (), d\<lparr>ad_remote := tbl_update i (\<lambda>r. r\<lparr>rr_last_heartbeat := Some now, rr_status := ''online''\<rparr>) (ad_remote d)\<rparr>)"

definition store_delete_remote_agent :: "string \<Rightarrow> unit stmt" where
  "store_delete_remote_agent i d = (Inr (), d\<lparr>ad_remote := tbl_delete i (ad_remote d)\<rparr>)"

definition store_rotate_token :: "string \<Rightarrow> string \<Rightarrow> timestamp option \<Rightarrow> unit stmt" where
  "store_rotate_token i h expires d =
     (if tbl_get (ad_remote d) i \<noteq> None \<and> token_taken i h d
      then (Inl (unique_failed ''rotate remote agent token'' ''remote_agents.token_hash''), d)
      else (Inr (), d\<lparr>ad_remote := tbl_update i (\<lambda>r. r\<lparr>rr_token_hash := h, rr_token_expires_at := expires\<rparr>) (ad_remote d)\<rparr>))"

end
