(* ===== verification/Audit_Log.thy ===== *)
theory Audit_Log
  imports Store_Core
begin

text \<open>
  The audit log (\<open>crates/audit/src\<close>): entries, the persistent store on the table \<open>audit_log\<close> (\<open>store.rs\<close>), the
  sink that keeps nothing (\<open>noop.rs\<close>), and the export of the audit handlers
  (\<open>crates/core/src/server/handlers/audit.rs\<close>). Times, details, outcomes and the types of actors and resources are the
  texts of their columns, printed when an entry is written and parsed when it is read, with the defaults of the source
  for what does not parse; times are compared as texts. Identifiers are kept as values. The printers and parsers of
  dates and JSON belong to \<open>chrono\<close> and \<open>serde_json\<close> and are arguments: those of the environment, the JSON parser
  \<open>J\<close>, and the clock \<open>now\<close> that stands in for a date that does not parse.
\<close>

section \<open>Entries\<close>

datatype audit_outcome = AuditSuccess | AuditDenied | AuditFailed string

record audit_entry =
  ae_id :: uuid
  ae_timestamp :: timestamp
  ae_actor :: actor
  ae_action :: string
  ae_resource :: entity_ref
  ae_correlation_id :: uuid
  ae_outcome :: audit_outcome
  ae_detail :: json

definition entry_from_event :: "uuid \<Rightarrow> event_envelope \<Rightarrow> string \<Rightarrow> audit_outcome \<Rightarrow> audit_entry" where
  "entry_from_event i ev act out =
     \<lparr>ae_id = i, ae_timestamp = ev_occurred_at ev, ae_actor = ev_actor ev, ae_action = act, ae_resource = ev_entity ev,
      ae_correlation_id = ev_correlation_id ev, ae_outcome = out, ae_detail = ev_payload ev\<rparr>"

record audit_filter =
  af_actor_id :: "string option"
  af_action :: "string option"
  af_resource_type :: "string option"
  af_resource_id :: "string option"
  af_correlation_id :: "uuid option"
  af_from :: "timestamp option"
  af_to :: "timestamp option"
  af_limit :: nat
  af_offset :: nat

definition no_filter :: audit_filter where
  "no_filter =
     \<lparr>af_actor_id = None, af_action = None, af_resource_type = None, af_resource_id = None, af_correlation_id = None,
      af_from = None, af_to = None, af_limit = 0, af_offset = 0\<rparr>"

section \<open>Texts of types\<close>

text \<open>\<open>as_str\<close>, the name a type has elsewhere, and the debug name in lower case, which the log is written with.\<close>

fun actor_type_str :: "actor_type \<Rightarrow> string" where
  "actor_type_str UserActor = ''user''"
| "actor_type_str AgentActor = ''agent''"
| "actor_type_str ServiceActor = ''service''"
| "actor_type_str SystemActor = ''system''"

fun resource_type_str :: "resource_type \<Rightarrow> string" where
  "resource_type_str RTask = ''task''"
| "resource_type_str RFlow = ''flow''"
| "resource_type_str RSkill = ''skill''"
| "resource_type_str RTool = ''tool''"
| "resource_type_str RNode = ''node''"
| "resource_type_str RSecret = ''secret''"
| "resource_type_str RAuditLog = ''audit_log''"
| "resource_type_str RApproval = ''approval''"
| "resource_type_str RPackage = ''package''"
| "resource_type_str RMcp = ''mcp''"
| "resource_type_str RRemoteAgent = ''remote_agent''"
| "resource_type_str RChannel = ''channel''"

definition resource_type_debug :: "resource_type \<Rightarrow> string" where
  "resource_type_debug t = filter (\<lambda>c. c \<noteq> CHR ''_'') (resource_type_str t)"

definition actor_type_read :: "string \<Rightarrow> actor_type" where
  "actor_type_read s = (if s = ''system'' then SystemActor else if s = ''service'' then ServiceActor else UserActor)"

definition resource_type_read :: "string \<Rightarrow> resource_type" where
  "resource_type_read s =
     (if s = ''task'' then RTask else if s = ''flow'' then RFlow else if s = ''skill'' then RSkill
      else if s = ''tool'' then RTool else if s = ''node'' then RNode else if s = ''secret'' then RSecret
      else if s = ''audit_log'' then RAuditLog else if s = ''approval'' then RApproval
      else if s = ''package'' then RPackage else if s = ''mcp'' then RMcp else RTask)"

definition outcome_text :: "audit_outcome \<Rightarrow> string" where
  "outcome_text out =
     (case out of AuditSuccess \<Rightarrow> ''success'' | AuditDenied \<Rightarrow> ''denied'' | AuditFailed e \<Rightarrow> ''failed:'' @ e)"

definition outcome_read :: "string \<Rightarrow> audit_outcome" where
  "outcome_read s =
     (if s = ''success'' then AuditSuccess else if s = ''denied'' then AuditDenied
      else case strip_prefix ''failed:'' s of Some e \<Rightarrow> AuditFailed e | None \<Rightarrow> AuditFailed s)"

section \<open>The store\<close>

record audit_row =
  ax_timestamp :: string
  ax_actor_type :: string
  ax_actor_id :: string
  ax_action :: string
  ax_resource_type :: string
  ax_resource_id :: string
  ax_correlation_id :: uuid
  ax_outcome :: string
  ax_detail :: string

type_synonym audit_log = "(uuid, audit_row) table"

definition audit_row_of :: "'z env_scheme \<Rightarrow> audit_entry \<Rightarrow> audit_row" where
  "audit_row_of E e =
     \<lparr>ax_timestamp = ts_show E (ae_timestamp e), ax_actor_type = actor_type_str (actor_type (ae_actor e)),
      ax_actor_id = actor_id (ae_actor e), ax_action = ae_action e,
      ax_resource_type = resource_type_debug (er_type (ae_resource e)), ax_resource_id = er_id (ae_resource e),
      ax_correlation_id = ae_correlation_id e, ax_outcome = outcome_text (ae_outcome e), ax_detail = json_show E (ae_detail e)\<rparr>"

type_synonym detail_reader = "string \<Rightarrow> json option"

definition audit_entry_of :: "'z env_scheme \<Rightarrow> detail_reader \<Rightarrow> timestamp \<Rightarrow> uuid \<Rightarrow> audit_row \<Rightarrow> audit_entry" where
  "audit_entry_of E J now i r =
     \<lparr>ae_id = i, ae_timestamp = (case ts_parse E (ax_timestamp r) of Some t \<Rightarrow> t | None \<Rightarrow> now),
      ae_actor = \<lparr>actor_type = actor_type_read (ax_actor_type r), actor_id = ax_actor_id r\<rparr>,
      ae_action = ax_action r,
      ae_resource = \<lparr>er_type = resource_type_read (ax_resource_type r), er_id = ax_resource_id r\<rparr>,
      ae_correlation_id = ax_correlation_id r, ae_outcome = outcome_read (ax_outcome r),
      ae_detail = (case J (ax_detail r) of Some v \<Rightarrow> v | None \<Rightarrow> JNull)\<rparr>"

definition duplicate_entry :: atta_error where
  "duplicate_entry = Audit (RecordFailed ''UNIQUE constraint failed: audit_log.id'')"

definition audit_record :: "'z env_scheme \<Rightarrow> audit_entry \<Rightarrow> audit_log \<Rightarrow> (atta_error + unit) \<times> audit_log" where
  "audit_record E e l =
     (case tbl_insert (ae_id e) (audit_row_of E e) l of
        None \<Rightarrow> (Inl duplicate_entry, l)
      | Some l' \<Rightarrow> (Inr (), l'))"

text \<open>A batch is one transaction: the first entry that fails leaves the log as it was.\<close>

definition audit_record_batch :: "'z env_scheme \<Rightarrow> audit_entry list \<Rightarrow> audit_log \<Rightarrow> (atta_error + unit) \<times> audit_log" where
  "audit_record_batch E es l =
     (case forE es (audit_record E) l of
        (Inl e, _) \<Rightarrow> (Inl e, l)
      | (Inr u, l') \<Rightarrow> (Inr u, l'))"

definition allowed_filter_fields :: "string list" where
  "allowed_filter_fields = [''actor_id'', ''action'', ''resource_type'', ''resource_id'', ''correlation_id'', ''timestamp'']"

definition validated_field :: "string \<Rightarrow> atta_error + string" where
  "validated_field f =
     (if f \<in> set allowed_filter_fields then Inr f else Inl (Validation (''invalid audit filter field: '' @ f)))"

datatype audit_cond =
    FieldIs string string
  | CorrelationIs uuid
  | NotBefore timestamp
  | NotAfter timestamp

fun cond_field :: "audit_cond \<Rightarrow> string" where
  "cond_field (FieldIs f v) = f"
| "cond_field (CorrelationIs u) = ''correlation_id''"
| "cond_field (NotBefore t) = ''timestamp''"
| "cond_field (NotAfter t) = ''timestamp''"

definition opt_list :: "('a \<Rightarrow> 'b) \<Rightarrow> 'a option \<Rightarrow> 'b list" where
  "opt_list f v = (case v of None \<Rightarrow> [] | Some x \<Rightarrow> [f x])"

definition audit_conditions :: "audit_filter \<Rightarrow> audit_cond list" where
  "audit_conditions f =
     opt_list (FieldIs ''actor_id'') (af_actor_id f) @ opt_list (FieldIs ''action'') (af_action f) @
     opt_list (FieldIs ''resource_type'') (af_resource_type f) @ opt_list (FieldIs ''resource_id'') (af_resource_id f) @
     opt_list CorrelationIs (af_correlation_id f) @ opt_list NotBefore (af_from f) @ opt_list NotAfter (af_to f)"

fun cond_holds :: "'z env_scheme \<Rightarrow> audit_row \<Rightarrow> audit_cond \<Rightarrow> bool" where
  "cond_holds E r (FieldIs f v) =
     ((if f = ''actor_id'' then ax_actor_id r else if f = ''action'' then ax_action r
       else if f = ''resource_type'' then ax_resource_type r else ax_resource_id r) = v)"
| "cond_holds E r (CorrelationIs u) = (ax_correlation_id r = u)"
| "cond_holds E r (NotBefore t) = (text_order (ts_show E t) \<le> text_order (ax_timestamp r))"
| "cond_holds E r (NotAfter t) = (text_order (ax_timestamp r) \<le> text_order (ts_show E t))"

text \<open>\<open>ORDER BY timestamp DESC\<close>; of rows of the same instant the one that was inserted first comes first.\<close>

definition newest_first :: "audit_log \<Rightarrow> audit_log" where
  "newest_first rows = rev (sort_key (\<lambda>(i, r). text_order (ax_timestamp r)) (rev rows))"

definition page_limit :: "audit_filter \<Rightarrow> nat" where
  "page_limit f = (if af_limit f > 0 then af_limit f else 1000)"

definition audit_query ::
  "'z env_scheme \<Rightarrow> detail_reader \<Rightarrow> timestamp \<Rightarrow> audit_filter \<Rightarrow> audit_log \<Rightarrow> atta_error + audit_entry list" where
  "audit_query E J now f l =
     and_then (each (\<lambda>c. and_then (validated_field (cond_field c)) (\<lambda>_. Inr ())) (audit_conditions f)) (\<lambda>_.
       let rows = newest_first (filter (\<lambda>(i, r). list_all (cond_holds E r) (audit_conditions f)) l)
       in Inr (map (\<lambda>(i, r). audit_entry_of E J now i r) (take (page_limit f) (drop (af_offset f) rows))))"

section \<open>The sink that keeps nothing\<close>

definition noop_record :: "audit_entry \<Rightarrow> unit \<Rightarrow> (atta_error + unit) \<times> unit" where
  "noop_record e s = (Inr (), s)"

definition noop_query :: "audit_filter \<Rightarrow> unit \<Rightarrow> atta_error + audit_entry list" where
  "noop_query f s = Inr []"

section \<open>Export\<close>

definition csv_header :: string where
  "csv_header = ''id,timestamp,actor_type,actor_id,action,resource_type,resource_id,correlation_id,outcome''"

definition csv_outcome :: "audit_outcome \<Rightarrow> string" where
  "csv_outcome out = (case out of AuditSuccess \<Rightarrow> ''success'' | AuditDenied \<Rightarrow> ''denied'' | AuditFailed e \<Rightarrow> ''failed'')"

definition csv_fields :: "env \<Rightarrow> audit_entry \<Rightarrow> string list" where
  "csv_fields E e =
     [uuid_show E (ae_id e), ts_show E (ae_timestamp e), actor_type_str (actor_type (ae_actor e)), actor_id (ae_actor e),
      ae_action e, resource_type_str (er_type (ae_resource e)), er_id (ae_resource e), uuid_show E (ae_correlation_id e),
      csv_outcome (ae_outcome e)]"

definition csv_line :: "env \<Rightarrow> audit_entry \<Rightarrow> string" where
  "csv_line E e = join '','' (csv_fields E e) @ [CHR 0x0A]"

definition audit_csv :: "env \<Rightarrow> audit_entry list \<Rightarrow> string" where
  "audit_csv E es = csv_header @ [CHR 0x0A] @ concat (map (csv_line E) es)"

record export_params =
  xp_format :: "string option"
  xp_actor_id :: "string option"
  xp_action :: "string option"
  xp_resource_type :: "string option"
  xp_from :: "timestamp option"
  xp_to :: "timestamp option"
  xp_limit :: "nat option"

definition export_filter :: "export_params \<Rightarrow> audit_filter" where
  "export_filter p =
     no_filter\<lparr>af_actor_id := xp_actor_id p, af_action := xp_action p, af_resource_type := xp_resource_type p,
               af_from := xp_from p, af_to := xp_to p, af_limit := (case xp_limit p of None \<Rightarrow> 10000 | Some n \<Rightarrow> n)\<rparr>"

datatype audit_export = ExportCsv string | ExportJson "audit_entry list"

definition export_audit :: "env \<Rightarrow> detail_reader \<Rightarrow> timestamp \<Rightarrow> export_params \<Rightarrow> audit_log \<Rightarrow> atta_error + audit_export" where
  "export_audit E J now p l =
     and_then (audit_query E J now (export_filter p) l) (\<lambda>es.
       if xp_format p = Some ''csv'' then Inr (ExportCsv (audit_csv E es)) else Inr (ExportJson es))"

section \<open>What a sink promises\<close>

text \<open>
  A sink keeps what it has, adds at most the entry it is given, in the form \<open>seen\<close> in which it shows it, and a query
  shows nothing else. So nobody can take an entry back, and every entry shown was recorded by someone.
\<close>

locale audit_sink =
  fixes rec :: "audit_entry \<Rightarrow> 's \<Rightarrow> (atta_error + unit) \<times> 's"
    and query :: "audit_filter \<Rightarrow> 's \<Rightarrow> atta_error + audit_entry list"
    and held :: "'s \<Rightarrow> audit_entry set"
    and seen :: "audit_entry \<Rightarrow> audit_entry"
  assumes rec_keeps: "held s \<subseteq> held (snd (rec e s))"
    and rec_adds: "held (snd (rec e s)) \<subseteq> insert (seen e) (held s)"
    and query_shows: "query f s = Inr es \<Longrightarrow> set es \<subseteq> held s"
begin

definition record_all :: "audit_entry list \<Rightarrow> 's \<Rightarrow> 's" where
  "record_all es s = fold (\<lambda>e s. snd (rec e s)) es s"

lemma record_all_keeps: "held s \<subseteq> held (record_all es s)"
  unfolding record_all_def by (induction es arbitrary: s) (auto dest: subsetD [OF rec_keeps])

lemma record_all_adds: "held (record_all es s) \<subseteq> seen ` set es \<union> held s"
  unfolding record_all_def
proof (induction es arbitrary: s)
  case (Cons e es)
  show ?case using Cons.IH [of "snd (rec e s)"] rec_adds [of e s] by auto
qed simp

lemma shown_was_recorded: "held s = {} \<Longrightarrow> query f (record_all es s) = Inr shown \<Longrightarrow> set shown \<subseteq> seen ` set es"
  using record_all_adds [of es s] query_shows [of f "record_all es s" shown] by auto

end

definition shown_entries :: "'z env_scheme \<Rightarrow> detail_reader \<Rightarrow> timestamp \<Rightarrow> audit_log \<Rightarrow> audit_entry set" where
  "shown_entries E J now l = (\<lambda>(i, r). audit_entry_of E J now i r) ` set l"

definition shown_as :: "'z env_scheme \<Rightarrow> detail_reader \<Rightarrow> timestamp \<Rightarrow> audit_entry \<Rightarrow> audit_entry" where
  "shown_as E J now e = audit_entry_of E J now (ae_id e) (audit_row_of E e)"

lemma audit_record_cases:
  "snd (audit_record E e l) = (if tbl_get l (ae_id e) = None then l @ [(ae_id e, audit_row_of E e)] else l)"
  by (simp add: audit_record_def tbl_insert_def)

lemma newest_first_same [simp]: "set (newest_first l) = set l" "length (newest_first l) = length l"
  by (simp_all add: newest_first_def)

lemma audit_query_ok: "audit_query E J now f l = Inr es \<Longrightarrow> set es \<subseteq> shown_entries E J now l"
  by (force simp: audit_query_def shown_entries_def and_then_eq_iff Let_def dest!: in_set_takeD in_set_dropD)

interpretation audit_store: audit_sink "audit_record E" "audit_query E J now" "shown_entries E J now" "shown_as E J now"
  for E :: "'z env_scheme" and J now
  by unfold_locales (auto simp: audit_record_cases shown_entries_def shown_as_def dest: subsetD [OF audit_query_ok] split: if_splits)

interpretation audit_noop: audit_sink noop_record noop_query "\<lambda>_. {}" "\<lambda>e. e"
  by unfold_locales (simp_all add: noop_record_def noop_query_def)

text \<open>The filters of a query are always fields of the whitelist, so a query does not fail.\<close>

lemma query_total:
  "audit_query E J now f l = Inr (map (\<lambda>(i, r). audit_entry_of E J now i r) (take (page_limit f) (drop (af_offset f)
     (newest_first (filter (\<lambda>(i, r). list_all (cond_holds E r) (audit_conditions f)) l)))))"
proof -
  have fields: "\<forall>c \<in> set (audit_conditions f). validated_field (cond_field c) = Inr (cond_field c)"
    by (auto simp: audit_conditions_def opt_list_def validated_field_def allowed_filter_fields_def split: option.splits)
  then have "each (\<lambda>c. and_then (validated_field (cond_field c)) (\<lambda>_. Inr ())) (audit_conditions f) = Inr ()"
    by (auto simp: each_ok)
  then show ?thesis by (simp add: audit_query_def Let_def)
qed

section \<open>Batches\<close>

lemma forE_record:
  "forE es (audit_record E) l =
     (if distinct (map ae_id es) \<and> (\<forall>e \<in> set es. tbl_get l (ae_id e) = None)
      then (Inr (), l @ map (\<lambda>e. (ae_id e, audit_row_of E e)) es) else (Inl duplicate_entry, snd (forE es (audit_record E) l)))"
proof (induction es arbitrary: l)
  case Nil
  show ?case by simp
next
  case (Cons e es)
  show ?case
  proof (cases "tbl_get l (ae_id e)")
    case (Some r)
    then show ?thesis by (simp add: bindE_def audit_record_def tbl_insert_def)
  next
    case None
    define l1 where "l1 = l @ [(ae_id e, audit_row_of E e)]"
    have step: "forE (e # es) (audit_record E) l = forE es (audit_record E) l1"
      using None by (simp add: bindE_def audit_record_def tbl_insert_def l1_def)
    have free: "tbl_get l1 i = None \<longleftrightarrow> tbl_get l i = None \<and> i \<noteq> ae_id e" for i
      by (auto simp: l1_def tbl_get_snoc split: option.split)
    have same: "distinct (map ae_id (e # es)) \<and> (\<forall>e' \<in> set (e # es). tbl_get l (ae_id e') = None) \<longleftrightarrow>
        distinct (map ae_id es) \<and> (\<forall>e' \<in> set es. tbl_get l1 (ae_id e') = None)"
      by (auto simp: free None image_iff)
    show ?thesis
    proof (cases "distinct (map ae_id es) \<and> (\<forall>e' \<in> set es. tbl_get l1 (ae_id e') = None)")
      case True
      then have c: "distinct (map ae_id (e # es)) \<and> (\<forall>e' \<in> set (e # es). tbl_get l (ae_id e') = None)"
        unfolding same .
      have r: "forE es (audit_record E) l1 = (Inr (), l @ map (\<lambda>e. (ae_id e, audit_row_of E e)) (e # es))"
        using Cons.IH [of l1] unfolding if_P [OF True] by (simp add: l1_def)
      show ?thesis unfolding step if_P [OF c] by (rule r)
    next
      case False
      then have c: "\<not> (distinct (map ae_id (e # es)) \<and> (\<forall>e' \<in> set (e # es). tbl_get l (ae_id e') = None))"
        unfolding same .
      have "forE es (audit_record E) l1 = (Inl duplicate_entry, snd (forE es (audit_record E) l1))"
        using Cons.IH [of l1] unfolding if_not_P [OF False] .
      then show ?thesis unfolding step if_not_P [OF c] .
    qed
  qed
qed

text \<open>
  A batch of audit entries is written whole or not at all: it succeeds exactly when its identifiers are new and
  different, then the log is the old one followed by the entries in their order, and otherwise the log does not change.
\<close>

theorem audit_batch_is_atomic:
  "audit_record_batch E es l =
     (if distinct (map ae_id es) \<and> list_all (\<lambda>e. tbl_get l (ae_id e) = None) es
      then (Inr (), l @ map (\<lambda>e. (ae_id e, audit_row_of E e)) es) else (Inl duplicate_entry, l))"
  unfolding audit_record_batch_def by (subst forE_record) (simp add: list_all_iff split: prod.split)

section \<open>What reads back\<close>

lemma outcome_roundtrip [simp]: "outcome_read (outcome_text out) = out"
proof (cases out)
  case (AuditFailed e)
  then show ?thesis by (simp add: outcome_read_def outcome_text_def)
qed (simp_all add: outcome_read_def outcome_text_def)

lemma actor_type_reads: "actor_type_read (actor_type_str t) = t \<longleftrightarrow> t \<noteq> AgentActor"
  by (cases t) (simp_all add: actor_type_read_def)

lemma resource_type_reads: "resource_type_read (resource_type_debug t) = t \<longleftrightarrow> t \<notin> {RAuditLog, RRemoteAgent, RChannel}"
  by (cases t) (simp_all add: resource_type_read_def resource_type_debug_def)

lemma shown_as_same:
  assumes "ts_parse E (ts_show E (ae_timestamp e)) = Some (ae_timestamp e)" and "J (json_show E (ae_detail e)) = Some (ae_detail e)"
  shows "shown_as E J now e = e \<longleftrightarrow>
     actor_type (ae_actor e) \<noteq> AgentActor \<and> er_type (ae_resource e) \<notin> {RAuditLog, RRemoteAgent, RChannel}"
proof -
  have "shown_as E J now e = e \<longleftrightarrow>
      actor_type_read (actor_type_str (actor_type (ae_actor e))) = actor_type (ae_actor e) \<and>
      resource_type_read (resource_type_debug (er_type (ae_resource e))) = er_type (ae_resource e)"
    using assms
    by (cases e; cases "ae_actor e"; cases "ae_resource e") (auto simp: shown_as_def audit_entry_of_def audit_row_of_def)
  then show ?thesis by (simp only: actor_type_reads resource_type_reads)
qed

text \<open>
  C29. An entry is recorded and the log is queried, with a filter that its row satisfies and a page that holds the whole
  log. Provided that the texts of its time and of its detail parse back as themselves, the query succeeds, and the entry
  is in its result exactly when its actor is not an agent and its resource is neither the audit log, a remote agent nor
  a channel: the store shows an agent as a user, and such a resource as a task.
\<close>

theorem audit_reads_back_exactly:
  assumes "audit_record E e l = (Inr (), l')"
    and "ts_parse E (ts_show E (ae_timestamp e)) = Some (ae_timestamp e)" and "J (json_show E (ae_detail e)) = Some (ae_detail e)"
    and "list_all (cond_holds E (audit_row_of E e)) (audit_conditions f)"
    and "af_offset f = 0" and "length l' \<le> page_limit f"
  shows "\<exists>es. audit_query E J now f l' = Inr es \<and>
     (e \<in> set es \<longleftrightarrow>
        actor_type (ae_actor e) \<noteq> AgentActor \<and> er_type (ae_resource e) \<notin> {RAuditLog, RRemoteAgent, RChannel})"
proof -
  let ?ok = "\<lambda>(i, r). list_all (cond_holds E r) (audit_conditions f)" and ?show = "\<lambda>(i, r). audit_entry_of E J now i r"
  have l': "l' = l @ [(ae_id e, audit_row_of E e)]" and new: "ae_id e \<notin> fst ` set l"
    using assms(1) by (auto simp: audit_record_def tbl_insert_def tbl_get_None_iff split: if_splits)
  have "length (newest_first (filter ?ok l')) \<le> page_limit f"
    using assms(6) length_filter_le [of ?ok l'] by (simp del: length_filter_le)
  then have "audit_query E J now f l' = Inr (map ?show (newest_first (filter ?ok l')))"
    by (simp add: query_total assms(5))
  moreover have "e \<in> set (map ?show (newest_first (filter ?ok l'))) \<longleftrightarrow> shown_as E J now e = e"
  proof
    assume "e \<in> set (map ?show (newest_first (filter ?ok l')))"
    then obtain i r where ir: "(i, r) \<in> set l'" "e = audit_entry_of E J now i r" by auto
    then have "i = ae_id e" by (simp add: audit_entry_of_def)
    with ir new show "shown_as E J now e = e" by (force simp: l' shown_as_def)
  next
    assume "shown_as E J now e = e"
    moreover have "(ae_id e, audit_row_of E e) \<in> set (newest_first (filter ?ok l'))" using assms(4) by (simp add: l')
    ultimately show "e \<in> set (map ?show (newest_first (filter ?ok l')))" by (force simp: shown_as_def)
  qed
  ultimately show ?thesis using shown_as_same [of E e J now] assms(2,3) by auto
qed

text \<open>A user's entry and an agent's, both recorded in an empty log.\<close>

definition demo_entry :: "actor_type \<Rightarrow> audit_entry" where
  "demo_entry t =
     \<lparr>ae_id = 1, ae_timestamp = 5, ae_actor = \<lparr>actor_type = t, actor_id = ''x''\<rparr>, ae_action = ''task.create'',
      ae_resource = \<lparr>er_type = RTask, er_id = ''t''\<rparr>, ae_correlation_id = 2, ae_outcome = AuditSuccess, ae_detail = JObj []\<rparr>"

definition demo_columns :: env where
  "demo_columns =
     \<lparr>clk = (\<lambda>n. 0), new_uuid = (\<lambda>n. 0), db_err = (\<lambda>n. None), bus_err = (\<lambda>n. None), uuid_show = (\<lambda>u. []),
      uuid_parse = (\<lambda>s. None), ts_show = (\<lambda>t. if t = 5 then ''1970'' else []), ts_parse = (\<lambda>s. if s = ''1970'' then Some 5 else None),
      json_show = (\<lambda>v. ''{}''), sched = (\<lambda>s. Inl []), fk_on = True\<rparr>"

theorem audit_reads_back_exactly_witness:
  "(\<exists>es. audit_query demo_columns (\<lambda>_. Some (JObj [])) 0 no_filter (snd (audit_record demo_columns (demo_entry UserActor) [])) = Inr es \<and>
      demo_entry UserActor \<in> set es) \<and>
   (\<exists>es. audit_query demo_columns (\<lambda>_. Some (JObj [])) 0 no_filter (snd (audit_record demo_columns (demo_entry AgentActor) [])) = Inr es \<and>
      demo_entry AgentActor \<notin> set es)"
proof -
  have "\<exists>es. audit_query demo_columns (\<lambda>_. Some (JObj [])) 0 no_filter (snd (audit_record demo_columns (demo_entry t) [])) = Inr es \<and>
      (demo_entry t \<in> set es \<longleftrightarrow> actor_type (ae_actor (demo_entry t)) \<noteq> AgentActor \<and>
        er_type (ae_resource (demo_entry t)) \<notin> {RAuditLog, RRemoteAgent, RChannel})" for t
    by (rule audit_reads_back_exactly [where l = "[]"])
      (simp_all add: audit_record_def tbl_insert_def demo_entry_def demo_columns_def no_filter_def audit_conditions_def
        opt_list_def page_limit_def)
  from this [of UserActor] this [of AgentActor] show ?thesis by (simp add: demo_entry_def)
qed

text \<open>An entry about a remote agent is not found under the name that its type has everywhere else.\<close>

lemma remote_entries_not_found:
  "er_type (ae_resource e) = RRemoteAgent \<Longrightarrow>
   audit_query E J now (no_filter\<lparr>af_resource_type := Some (resource_type_str RRemoteAgent)\<rparr>) [(ae_id e, audit_row_of E e)] = Inr []"
  by (simp add: query_total newest_first_def no_filter_def audit_conditions_def opt_list_def
      audit_row_of_def resource_type_debug_def)

end
