(* ===== verification/App.thy ===== *)
theory App
  imports Api Store_Admin Audit_Log
begin

text \<open>
  The application state of the handlers for everything besides tasks, flows and approvals
  (\<open>crates/core/src/server/mod.rs\<close>): the world of the task handlers, the tables of \<open>Store_Admin\<close> and the audit log.
  Components extend it by their own state. Calls of the store are numbered through all tables, so the failures of the
  driver and the interference of other requests (\<open>ap_others\<close>) are those of \<open>World\<close>.
\<close>

record app_env =
  ap_env :: genv
  ap_others :: "nat \<Rightarrow> admin_db \<Rightarrow> admin_db"

record app =
  ap_world :: world
  ap_admin :: admin_db
  ap_audit :: audit_log

type_synonym ('z, 'e, 'a) app_io = "('z app_scheme, 'e, 'a) io"

definition app_world :: "(world, 'e, 'a) io \<Rightarrow> ('z, 'e, 'a) app_io" where
  "app_world m = (\<lambda>s. case m (ap_world s) of (r, w) \<Rightarrow> (r, s\<lparr>ap_world := w\<rparr>))"

text \<open>The clock and the source of identifiers do not fail.\<close>

definition infallible :: "('s, atta_error, 'a) io \<Rightarrow> ('s, 'e, 'a) io" where
  "infallible m = (\<lambda>s. case m s of (r, t) \<Rightarrow> (Inr (projr r), t))"

definition app_now :: "app_env \<Rightarrow> ('z, 'e, timestamp) app_io" where
  "app_now E = infallible (app_world (now_io (ap_env E)))"

definition app_uuid :: "app_env \<Rightarrow> ('z, 'e, uuid) app_io" where
  "app_uuid E = infallible (app_world (fresh_uuid (ap_env E)))"

definition admin_call :: "app_env \<Rightarrow> 'a stmt \<Rightarrow> ('z, atta_error, 'a) app_io" where
  "admin_call E op = (\<lambda>s.
     let w = ap_world s; n = w_calls w; d = ap_others E n (ap_admin s); s1 = s\<lparr>ap_world := w\<lparr>w_calls := Suc n\<rparr>\<rparr> in
     case db_err (ap_env E) n of
       Some m \<Rightarrow> (Inl (Store (Database m)), s1\<lparr>ap_admin := d\<rparr>)
     | None \<Rightarrow> (case op d of (r, d') \<Rightarrow> (r, s1\<lparr>ap_admin := d'\<rparr>)))"

definition admin_call_now :: "app_env \<Rightarrow> (timestamp \<Rightarrow> 'a stmt) \<Rightarrow> ('z, atta_error, 'a) app_io" where
  "admin_call_now E op = bindE (app_now E) (\<lambda>now. admin_call E (op now))"

definition ignoring :: "('s, 'e, 'a) io \<Rightarrow> ('s, 'f, unit) io" where
  "ignoring m = tryE m (\<lambda>_. retE ())"

text \<open>\<open>{b:02x}\<close> over the bytes of a digest.\<close>

definition hex_bytes :: "nat list \<Rightarrow> string" where
  "hex_bytes bs = concat (map (\<lambda>b. [hex_digit (b div 16), hex_digit (b mod 16)]) bs)"

text \<open>A reply is an error with its code or a body of the handler's own.\<close>

datatype 'b reply = ErrReply (err_code: nat) string atta_error | OkReply (ok_code: nat) (ok_body: 'b)

fun reply_code :: "'b reply \<Rightarrow> nat" where
  "reply_code (ErrReply c t e) = c"
| "reply_code (OkReply c b) = c"

type_synonym ('s, 'b) request = "('s, 'b reply, 'b reply) io"

definition err_reply :: "nat \<Rightarrow> atta_error \<Rightarrow> 'b reply" where
  "err_reply st e = ErrReply st (error_code e) e"

definition app_authz :: "checker \<Rightarrow> current_user \<Rightarrow> action \<Rightarrow> resource \<Rightarrow> ('z, 'b reply, unit) app_io" where
  "app_authz chk user act res =
     tryE (app_world (check_authz chk user act res)) (\<lambda>r.
       case r of
         Inr u \<Rightarrow> retE u
       | Inl (Resp st b) \<Rightarrow> (case b of BError c e \<Rightarrow> failE (ErrReply st c e) | _ \<Rightarrow> failE (ErrReply st [] (OtherError []))))"

definition else_500 :: "('z, atta_error, 'a) app_io \<Rightarrow> ('z, 'b reply, 'a) app_io" where
  "else_500 m = tryE m (\<lambda>r. case r of Inl e \<Rightarrow> failE (err_reply 500 e) | Inr x \<Rightarrow> retE x)"

definition reply_of :: "('s, 'b) request \<Rightarrow> 's \<Rightarrow> 'b reply \<times> 's" where
  "reply_of m s = (case m s of (Inl r, s') \<Rightarrow> (r, s') | (Inr r, s') \<Rightarrow> (r, s'))"

text \<open>An entry that cannot be written is logged and left out.\<close>

definition note_audit :: "app_env \<Rightarrow> audit_entry \<Rightarrow> ('z, 'e, unit) app_io" where
  "note_audit E e = (\<lambda>s.
     let w = ap_world s; n = w_calls w; s1 = s\<lparr>ap_world := w\<lparr>w_calls := Suc n\<rparr>\<rparr> in
     (Inr (), if db_err (ap_env E) n = None then s1\<lparr>ap_audit := snd (audit_record (ap_env E) e (ap_audit s))\<rparr> else s1))"

definition audit_success :: "app_env \<Rightarrow> actor \<Rightarrow> string \<Rightarrow> entity_ref \<Rightarrow> json \<Rightarrow> ('z, 'e, unit) app_io" where
  "audit_success E who act ent detail =
     bindE (app_uuid E) (\<lambda>i. bindE (app_now E) (\<lambda>t. bindE (app_uuid E) (\<lambda>c.
       note_audit E \<lparr>ae_id = i, ae_timestamp = t, ae_actor = who, ae_action = act, ae_resource = ent,
                     ae_correlation_id = c, ae_outcome = AuditSuccess, ae_detail = detail\<rparr>)))"

section \<open>What these calls leave alone\<close>

lemma app_world_apply [io_simps]: "app_world m s = (fst (m (ap_world s)), s\<lparr>ap_world := snd (m (ap_world s))\<rparr>)"
  by (simp add: app_world_def split: prod.split)

lemma keeps_app_world:
  assumes "\<And>w s. P (s\<lparr>ap_world := w\<rparr>) = P s"
  shows "keeps P (app_world m)"
  by (rule keepsI) (simp add: app_world_apply assms)

lemma keeps_app_now:
  assumes "\<And>w s. P (s\<lparr>ap_world := w\<rparr>) = P s"
  shows "keeps P (app_now E)" and "keeps P (app_uuid E)"
  by (rule keepsI, simp add: app_now_def app_uuid_def infallible_def app_world_def assms split: prod.split)+

lemma keeps_ignoring [keeps_intros]: "keeps P m \<Longrightarrow> keeps P (ignoring m)"
  unfolding ignoring_def by (intro keeps_intros) auto

lemma keeps_else_500 [keeps_intros]: "keeps P m \<Longrightarrow> keeps P (else_500 m)"
  unfolding else_500_def by (rule keeps_tryE) (auto intro: keeps_intros split: sum.split)

lemma keeps_app_authz:
  assumes "\<And>w s. P (s\<lparr>ap_world := w\<rparr>) = P s"
  shows "keeps P (app_authz chk user act res)"
  unfolding app_authz_def
  by (rule keeps_tryE, rule keeps_app_world, rule assms) (auto intro: keeps_intros split: sum.split response.split body.split)

lemma keeps_admin_call:
  assumes "\<And>w s. P (s\<lparr>ap_world := w\<rparr>) = P s" and "\<And>d s. P (s\<lparr>ap_admin := d\<rparr>) = P s"
  shows "keeps P (admin_call E op)"
  by (rule keepsI) (simp add: admin_call_def Let_def assms split: option.split prod.split)

lemma keeps_admin_call_now:
  assumes "\<And>w s. P (s\<lparr>ap_world := w\<rparr>) = P s" and "\<And>d s. P (s\<lparr>ap_admin := d\<rparr>) = P s"
  shows "keeps P (admin_call_now E op)"
  unfolding admin_call_now_def by (intro keeps_intros keeps_app_now keeps_admin_call assms)

lemma keeps_audit_success:
  assumes "\<And>w s. P (s\<lparr>ap_world := w\<rparr>) = P s" and "\<And>l s. P (s\<lparr>ap_audit := l\<rparr>) = P s"
  shows "keeps P (audit_success E who act ent detail)"
  unfolding audit_success_def
  by (intro keeps_intros keeps_app_now assms keepsI) (simp add: note_audit_def Let_def assms)

lemma keeps_reply_of: "keeps P m \<Longrightarrow> P s \<Longrightarrow> P (snd (reply_of m s))"
  by (auto simp: reply_of_def keeps_def split: prod.split sum.split)

section \<open>Replies step by step\<close>

lemma reply_bind: "reply_of (bindE m k) s = (case m s of (Inl r, t) \<Rightarrow> (r, t) | (Inr x, t) \<Rightarrow> reply_of (k x) t)"
  by (auto simp: reply_of_def bindE_def split: prod.split sum.split)

lemma reply_ret [simp]: "reply_of (retE r) s = (r, s)" "reply_of (failE r) s = (r, s)"
  by (simp_all add: reply_of_def)

lemma app_authz_err: "app_authz chk user act res s = (Inl r, t) \<Longrightarrow> \<exists>c m e. r = ErrReply c m e"
  by (auto simp: app_authz_def tryE_def split: prod.splits sum.splits response.splits body.splits)

lemma else_500_err: "else_500 m s = (Inl r, t) \<Longrightarrow> \<exists>e. r = err_reply 500 e \<and> m s = (Inl e, t)"
  by (auto simp: else_500_def tryE_def split: prod.splits sum.splits)

lemma else_500_ok: "else_500 m s = (Inr x, t) \<longleftrightarrow> m s = (Inr x, t)"
  by (auto simp: else_500_def tryE_def split: prod.splits sum.splits)

text \<open>A request that answers with success has passed each of its steps.\<close>

lemma ok_after_authz:
  fixes s :: "'z app_scheme" and k :: "unit \<Rightarrow> ('z app_scheme, 'b) request"
  assumes "reply_of (bindE (app_authz chk user act res) k) s = (OkReply c b, s')"
  obtains t where "(app_authz chk user act res :: ('z, 'b reply, unit) app_io) s = (Inr (), t)" and "reply_of (k ()) t = (OkReply c b, s')"
proof (cases "(app_authz chk user act res :: ('z, 'b reply, unit) app_io) s")
  case (Pair r t)
  with assms that show thesis by (cases r) (auto simp: reply_bind dest: app_authz_err)
qed

lemma ok_after_500:
  fixes m :: "('z, atta_error, 'a) app_io" and k :: "'a \<Rightarrow> ('z app_scheme, 'b) request"
  assumes "reply_of (bindE (else_500 m) k) s = (OkReply c b, s')"
  obtains x t where "m s = (Inr x, t)" and "reply_of (k x) t = (OkReply c b, s')"
proof (cases "(else_500 m :: ('z, 'b reply, 'a) app_io) s")
  case (Pair r t)
  with assms that show thesis by (cases r) (auto simp: reply_bind else_500_ok err_reply_def dest!: else_500_err)
qed

lemma audit_success_ok: "\<exists>t. audit_success E who act ent d s = (Inr (), t) \<and> ap_admin t = ap_admin s \<and> w_log (ap_world t) = w_log (ap_world s)"
  by (simp add: audit_success_def bindE_def app_uuid_def app_now_def infallible_def app_world_def note_audit_def Let_def
      fresh_uuid_def now_io_def)

lemma ok_after_audit:
  fixes k :: "unit \<Rightarrow> ('z app_scheme, 'b) request"
  assumes "reply_of (bindE (audit_success E who act ent d) k) s = (r, s')"
  obtains t where "reply_of (k ()) t = (r, s')" and "ap_admin t = ap_admin s" and "w_log (ap_world t) = w_log (ap_world s)"
proof -
  obtain t where "(audit_success E who act ent d :: ('z, 'b reply, unit) app_io) s = (Inr (), t)"
    "ap_admin t = ap_admin s" "w_log (ap_world t) = w_log (ap_world s)" using audit_success_ok by blast
  with assms that show thesis by (auto simp: reply_bind)
qed

end
