(* ===== verification/Remote.thy ===== *)
theory Remote
  imports App Coordinator
begin

text \<open>
  Remote agents (\<open>crates/core/src/remote_agent_hub.rs\<close>, \<open>server/handlers/remote.rs\<close>,
  \<open>crates/types/src/remote_agent.rs\<close>): agents that register over HTTP, connect with a token over a web socket, report
  events and take orders.

  A connection is a handler with two spawned tasks: one moves messages from the channel of the hub to the socket, one
  handles what the socket receives. The handler waits for either to end, takes the agent out of the hub and marks it
  offline; it does not stop the other task. A connection is known by its number; the entry of the hub holds the number
  of the connection whose channel it sends to, and a channel is closed when no entry of the hub holds it.
\<close>

section \<open>Messages\<close>

record remote_report =
  re_event_type :: string
  re_timestamp :: timestamp
  re_correlation_id :: "string option"
  re_payload :: json

datatype upstream_msg =
    UpRegister string string string string "string list"
  | UpEventBatch string "remote_report list"
  | UpDeregister string string

datatype downstream_msg =
    DnRegistered string string
  | DnEstop string string string
  | DnPolicyUpdate string json
  | DnResourceUpdated string string string
  | DnAck string
  | DnError string string

text \<open>
  What the handlers read from outside: the SHA-256 digest, 32 random bytes by their number, the text of an identifier in
  base 58, and the JSON parser of messages.
\<close>

record renv =
  xr_app :: app_env
  xr_sha256 :: "string \<Rightarrow> nat list"
  xr_random :: "nat \<Rightarrow> nat list"
  xr_base58 :: "uuid \<Rightarrow> string"
  xr_parse :: "string \<Rightarrow> upstream_msg option"

definition hash_token :: "renv \<Rightarrow> string \<Rightarrow> string" where
  "hash_token R t = hex_bytes (xr_sha256 R t)"

section \<open>The hub\<close>

record hub_entry =
  he_conn :: nat
  he_agent :: remote_agent
  he_connected_at :: timestamp

record ws_conn =
  wc_agent :: string
  wc_inbox :: "downstream_msg list"
  wc_sent :: "downstream_msg list"
  wc_send_up :: bool
  wc_recv_up :: bool
  wc_served :: bool

record remote_app = app +
  rx_hub :: "(string, hub_entry) table"
  rx_conns :: "ws_conn list"
  rx_upgrades :: "string list"
  rx_feed :: "event_envelope list"
  rx_random :: nat

type_synonym ('e, 'a) rio = "(remote_app, 'e, 'a) io"

definition hub_add :: "remote_agent \<Rightarrow> timestamp \<Rightarrow> remote_app \<Rightarrow> remote_app" where
  "hub_add a now s =
     (let e = \<lparr>he_conn = length (rx_conns s), he_agent = a, he_connected_at = now\<rparr> in
      s\<lparr>rx_hub := tbl_upsert (ra_id a) e (\<lambda>_. e) (rx_hub s),
        rx_conns := rx_conns s @ [\<lparr>wc_agent = ra_id a, wc_inbox = [], wc_sent = [], wc_send_up = True, wc_recv_up = True, wc_served = True\<rparr>]\<rparr>)"

definition hub_remove :: "string \<Rightarrow> remote_app \<Rightarrow> remote_app" where
  "hub_remove i s = s\<lparr>rx_hub := tbl_delete i (rx_hub s)\<rparr>"

definition conn_update :: "nat \<Rightarrow> (ws_conn \<Rightarrow> ws_conn) \<Rightarrow> remote_app \<Rightarrow> remote_app" where
  "conn_update c f s = s\<lparr>rx_conns := (rx_conns s)[c := f (rx_conns s ! c)]\<rparr>"

text \<open>A channel takes a message while its receiving task is up.\<close>

definition push :: "downstream_msg \<Rightarrow> ws_conn \<Rightarrow> ws_conn" where
  "push m k = (if wc_send_up k then k\<lparr>wc_inbox := wc_inbox k @ [m]\<rparr> else k)"

definition hub_send_to :: "string \<Rightarrow> downstream_msg \<Rightarrow> remote_app \<Rightarrow> remote_app" where
  "hub_send_to i m s =
     (case tbl_get (rx_hub s) i of None \<Rightarrow> s | Some e \<Rightarrow> conn_update (he_conn e) (push m) s)"

definition hub_broadcast_estop :: "string \<Rightarrow> string \<Rightarrow> remote_app \<Rightarrow> remote_app" where
  "hub_broadcast_estop msg_id reason s =
     fold (\<lambda>(i, e). conn_update (he_conn e) (push (DnEstop msg_id reason ''all''))) (rx_hub s) s"

definition hub_list_online :: "remote_app \<Rightarrow> remote_agent list" where
  "hub_list_online s = map (he_agent \<circ> snd) (rx_hub s)"

definition hub_is_online :: "string \<Rightarrow> remote_app \<Rightarrow> bool" where
  "hub_is_online i s \<longleftrightarrow> tbl_get (rx_hub s) i \<noteq> None"

definition hub_online_count :: "remote_app \<Rightarrow> nat" where
  "hub_online_count s = length (rx_hub s)"

section \<open>Connecting\<close>

datatype remote_body =
    RegisteredAgent string string timestamp "timestamp option"
  | AgentList "remote_agent list"
  | OneAgent remote_agent
  | EstopSent
  | NewToken string "timestamp option"
  | Upgraded
  | NoContent

definition unauthorized :: "string \<Rightarrow> remote_body reply" where
  "unauthorized msg = err_reply 401 (Validation msg)"

definition remote_ws_upgrade :: "renv \<Rightarrow> string option \<Rightarrow> (remote_app, remote_body) request" where
  "remote_ws_upgrade R token =
     (case token of
        None \<Rightarrow> failE (unauthorized ''missing token query parameter'')
      | Some t \<Rightarrow>
          let h = hash_token R t in
          bindE (else_500 (admin_call (xr_app R) (get_remote_agent_by_token h))) (\<lambda>found.
          case found of
            None \<Rightarrow> failE (unauthorized ''invalid agent token'')
          | Some a \<Rightarrow>
              bindE (case ra_token_expires_at a of
                       None \<Rightarrow> retE ()
                     | Some expires \<Rightarrow>
                         bindE (app_now (xr_app R)) (\<lambda>now.
                         if expires < now then failE (unauthorized ''agent token has expired'') else retE ())) (\<lambda>_.
              bindE (modifyE (\<lambda>s. s\<lparr>rx_upgrades := rx_upgrades s @ [h]\<rparr>)) (\<lambda>_.
              retE (OkReply 101 Upgraded)))))"

text \<open>The first part of \<open>handle_remote_ws\<close>, up to the two spawned tasks.\<close>

definition ws_connect :: "renv \<Rightarrow> string \<Rightarrow> (unit, unit) rio" where
  "ws_connect R h =
     tryE (admin_call (xr_app R) (get_remote_agent_by_token h)) (\<lambda>r.
       case r of
         Inr (Some a) \<Rightarrow>
           bindE (ignoring (admin_call (xr_app R) (update_remote_agent_status (ra_id a) RemoteOnline))) (\<lambda>_.
           bindE (app_now (xr_app R)) (\<lambda>now.
           modifyE (hub_add a now)))
       | _ \<Rightarrow> retE ())"

text \<open>Its last part, when one of the tasks has ended.\<close>

definition ws_cleanup :: "renv \<Rightarrow> nat \<Rightarrow> (unit, unit) rio" where
  "ws_cleanup R c = (\<lambda>s.
     let i = wc_agent (rx_conns s ! c) in
     bindE (modifyE (hub_remove i)) (\<lambda>_.
     bindE (ignoring (admin_call (xr_app R) (update_remote_agent_status i RemoteOffline))) (\<lambda>_.
     modifyE (conn_update c (\<lambda>k. k\<lparr>wc_served := False\<rparr>)))) s)"

section \<open>Messages from an agent\<close>

definition remote_entity :: "string \<Rightarrow> entity_ref" where
  "remote_entity i = \<lparr>er_type = RNode, er_id = ''remote:'' @ i\<rparr>"

definition remote_envelope :: "genv \<Rightarrow> string \<Rightarrow> remote_report \<Rightarrow> event_envelope wio" where
  "remote_envelope E i ev =
     bindE (case Option.bind (re_correlation_id ev) (uuid_parse E) of None \<Rightarrow> fresh_uuid E | Some u \<Rightarrow> retE u) (\<lambda>corr.
     event_new E (re_event_type ev) (remote_entity i) \<lparr>actor_type = AgentActor, actor_id = i\<rparr> corr (re_payload ev))"

definition forward_report :: "renv \<Rightarrow> string \<Rightarrow> remote_report \<Rightarrow> (unit, unit) rio" where
  "forward_report R i ev =
     tryE (app_world (remote_envelope (ap_env (xr_app R)) i ev)) (\<lambda>r.
       case r of
         Inl _ \<Rightarrow> retE ()
       | Inr env \<Rightarrow>
           bindE (ignoring (app_world (publish (ap_env (xr_app R)) (re_event_type ev) env))) (\<lambda>_.
           modifyE (\<lambda>s. s\<lparr>rx_feed := rx_feed s @ [env]\<rparr>)))"

definition handle_upstream :: "renv \<Rightarrow> string \<Rightarrow> upstream_msg \<Rightarrow> (unit, unit) rio" where
  "handle_upstream R i m =
     (case m of
        UpEventBatch msg_id evs \<Rightarrow> bindE (forE evs (forward_report R i)) (\<lambda>_. modifyE (hub_send_to i (DnAck msg_id)))
      | UpRegister msg_id n v d caps \<Rightarrow> modifyE (hub_send_to i (DnRegistered msg_id i))
      | UpDeregister msg_id reason \<Rightarrow> modifyE (hub_send_to i (DnAck msg_id)))"

definition handle_upstream_message :: "renv \<Rightarrow> string \<Rightarrow> string \<Rightarrow> (unit, unit) rio" where
  "handle_upstream_message R i txt =
     (case xr_parse R txt of
        None \<Rightarrow> retE ()
      | Some m \<Rightarrow>
          bindE (handle_upstream R i m) (\<lambda>_.
          ignoring (admin_call_now (xr_app R) (update_remote_agent_heartbeat i))))"

section \<open>Requests\<close>

definition generate_token :: "renv \<Rightarrow> ('e, string) rio" where
  "generate_token R = (\<lambda>s. (Inr (hex_bytes (xr_random R (rx_random s))), s\<lparr>rx_random := Suc (rx_random s)\<rparr>))"

definition hour_ns :: int where
  "hour_ns = 3600 * 1000000000"

definition token_expiry :: "renv \<Rightarrow> u32 option \<Rightarrow> ('e, timestamp option) rio" where
  "token_expiry R ttl =
     (case ttl of
        None \<Rightarrow> retE None
      | Some h \<Rightarrow> bindE (app_now (xr_app R)) (\<lambda>now. retE (Some (now + uint h * hour_ns))))"

definition remote_ref :: "string \<Rightarrow> entity_ref" where
  "remote_ref i = \<lparr>er_type = RRemoteAgent, er_id = i\<rparr>"

definition agent_detail :: "string \<Rightarrow> json" where
  "agent_detail i = mk_obj [(''agent_id'', JStr i)]"

definition agent_missing :: "string \<Rightarrow> remote_body reply" where
  "agent_missing i = err_reply 404 (NotFound ''remote_agent'' i)"

definition api_register_remote_agent ::
  "renv \<Rightarrow> checker \<Rightarrow> current_user \<Rightarrow> string \<Rightarrow> string \<Rightarrow> string list \<Rightarrow> u32 option \<Rightarrow> (remote_app, remote_body) request" where
  "api_register_remote_agent R chk user name desc caps ttl =
     bindE (app_authz chk user Register (resource_all RRemoteAgent)) (\<lambda>_.
     bindE (app_uuid (xr_app R)) (\<lambda>u.
     bindE (generate_token R) (\<lambda>rnd.
     let i = ''ra_'' @ xr_base58 R u; token = ''aat_'' @ rnd in
     bindE (token_expiry R ttl) (\<lambda>expires.
     bindE (app_now (xr_app R)) (\<lambda>now.
     let a = \<lparr>ra_id = i, ra_name = name, ra_description = desc, ra_version = ''0.1.0'', ra_capabilities = caps,
              ra_status = RemoteOffline, ra_last_heartbeat = None, ra_registered_at = now,
              ra_registered_by = actor_id (cu_actor user), ra_token_expires_at = expires\<rparr> in
     bindE (else_500 (admin_call (xr_app R) (register_remote_agent a (hash_token R token)))) (\<lambda>_.
     bindE (audit_success (xr_app R) (cu_actor user) ''remote_agent.register'' (remote_ref i) (agent_detail i)) (\<lambda>_.
     retE (OkReply 201 (RegisteredAgent i token now expires)))))))))"

definition api_list_remote_agents :: "renv \<Rightarrow> (remote_app, remote_body) request" where
  "api_list_remote_agents R = bindE (else_500 (admin_call (xr_app R) list_remote_agents)) (\<lambda>as. retE (OkReply 200 (AgentList as)))"

definition api_get_remote_agent :: "renv \<Rightarrow> string \<Rightarrow> (remote_app, remote_body) request" where
  "api_get_remote_agent R i =
     bindE (else_500 (admin_call (xr_app R) (get_remote_agent i))) (\<lambda>found.
     case found of
       None \<Rightarrow> failE (agent_missing i)
     | Some a \<Rightarrow> bindE getE (\<lambda>s. retE (OkReply 200 (OneAgent (if hub_is_online i s then a\<lparr>ra_status := RemoteOnline\<rparr> else a)))))"

definition hub_disconnect :: "string \<Rightarrow> ('e, unit) rio" where
  "hub_disconnect i = modifyE (\<lambda>s. if hub_is_online i s then hub_remove i s else s)"

definition api_delete_remote_agent :: "renv \<Rightarrow> checker \<Rightarrow> current_user \<Rightarrow> string \<Rightarrow> (remote_app, remote_body) request" where
  "api_delete_remote_agent R chk user i =
     bindE (app_authz chk user Delete (resource_new RRemoteAgent i)) (\<lambda>_.
     bindE (hub_disconnect i) (\<lambda>_.
     bindE (else_500 (admin_call (xr_app R) (store_delete_remote_agent i))) (\<lambda>_.
     bindE (audit_success (xr_app R) (cu_actor user) ''remote_agent.delete'' (remote_ref i) (agent_detail i)) (\<lambda>_.
     retE (OkReply 204 NoContent)))))"

definition require_agent :: "renv \<Rightarrow> string \<Rightarrow> (remote_body reply, unit) rio" where
  "require_agent R i =
     bindE (else_500 (admin_call (xr_app R) (get_remote_agent i))) (\<lambda>found.
     case found of None \<Rightarrow> failE (agent_missing i) | Some _ \<Rightarrow> retE ())"

definition api_estop_remote_agent :: "renv \<Rightarrow> checker \<Rightarrow> current_user \<Rightarrow> string \<Rightarrow> (remote_app, remote_body) request" where
  "api_estop_remote_agent R chk user i =
     bindE (app_authz chk user Manage (resource_new RRemoteAgent i)) (\<lambda>_.
     bindE (require_agent R i) (\<lambda>_.
     bindE getE (\<lambda>s.
     if \<not> hub_is_online i s then failE (err_reply 409 (Validation ''agent is not online''))
     else
       bindE (app_uuid (xr_app R)) (\<lambda>u.
       bindE (modifyE (hub_send_to i (DnEstop (uuid_show (ap_env (xr_app R)) u) ''admin triggered'' ''all''))) (\<lambda>_.
       bindE (audit_success (xr_app R) (cu_actor user) ''remote_agent.estop'' (remote_ref i) (agent_detail i)) (\<lambda>_.
       retE (OkReply 200 EstopSent)))))))"

definition api_rotate_token :: "renv \<Rightarrow> checker \<Rightarrow> current_user \<Rightarrow> string \<Rightarrow> u32 option \<Rightarrow> (remote_app, remote_body) request" where
  "api_rotate_token R chk user i ttl =
     bindE (app_authz chk user Manage (resource_new RRemoteAgent i)) (\<lambda>_.
     bindE (require_agent R i) (\<lambda>_.
     bindE (generate_token R) (\<lambda>rnd.
     let token = ''aat_'' @ rnd in
     bindE (token_expiry R ttl) (\<lambda>expires.
     bindE (else_500 (admin_call (xr_app R) (store_rotate_token i (hash_token R token) expires))) (\<lambda>_.
     bindE (hub_disconnect i) (\<lambda>_.
     retE (OkReply 200 (NewToken token expires))))))))"

end
