(* ===== verification/Store_Admin_Facts.thy ===== *)
theory Store_Admin_Facts
  imports Store_Admin "HOL-Library.Multiset"
begin

text \<open>
  What the statements of \<open>Store_Admin\<close> keep and return: the keys and the uniqueness of token hashes, the round trips of
  the registries, and sums of usage.
\<close>

section \<open>Keys\<close>

definition tokens_unique :: "(string, remote_row) table \<Rightarrow> bool" where
  "tokens_unique t \<longleftrightarrow> distinct (map (rr_token_hash \<circ> snd) t)"

definition admin_ok :: "admin_db \<Rightarrow> bool" where
  "admin_ok d \<longleftrightarrow>
     tbl_ok (ad_plugins d) \<and> tbl_ok (ad_tools d) \<and> tbl_ok (ad_skills d) \<and> tbl_ok (ad_packages d) \<and>
     tbl_ok (ad_nodes d) \<and> tbl_ok (ad_mcp d) \<and> tbl_ok (ad_usage d) \<and> tbl_ok (ad_remote d) \<and> tokens_unique (ad_remote d)"

lemma admin_ok_empty [simp]: "admin_ok admin_empty"
  by (simp add: admin_ok_def admin_empty_def tokens_unique_def)

lemma column_update:
  "(\<And>r. col (f r) = col r) \<Longrightarrow> map (col \<circ> snd) (tbl_update k f t) = map (col \<circ> snd) t"
  by (induction t) (auto simp: tbl_update_def)

lemma tokens_unique_update [simp]: "(\<And>r. rr_token_hash (f r) = rr_token_hash r) \<Longrightarrow> tokens_unique (tbl_update k f t) = tokens_unique t"
  unfolding tokens_unique_def by (simp only: column_update)

lemma tokens_unique_filter: "tokens_unique t \<Longrightarrow> tokens_unique (filter P t)"
  by (simp add: tokens_unique_def distinct_map_filter)

lemma not_taken: "\<not> token_taken i h d \<longleftrightarrow> (\<forall>(j, r) \<in> set (ad_remote d). rr_token_hash r = h \<longrightarrow> j = i)"
  by (auto simp: token_taken_def list_ex_iff)

lemma tbl_update_absent: "i \<notin> fst ` set t \<Longrightarrow> tbl_update i f t = t"
  by (induction t) (auto simp: tbl_update_def)

lemma tokens_unique_set_hash:
  assumes "tbl_ok t" and "tokens_unique t" and free: "\<forall>(j, r) \<in> set t. rr_token_hash r = h \<longrightarrow> j = i"
    and hash: "\<And>r. rr_token_hash (f r) = h"
  shows "tokens_unique (tbl_update i f t)"
  using assms(1-3)
proof (induction t)
  case Nil
  show ?case by (simp add: tokens_unique_def tbl_update_def)
next
  case (Cons x t)
  obtain j r where x: "x = (j, r)" by fastforce
  have IH: "tokens_unique (tbl_update i f t)" using Cons by (auto simp: tokens_unique_def tbl_ok_def)
  have hashes: "(k, r') \<in> set (tbl_update i f t) \<Longrightarrow> rr_token_hash r' = h \<or> (k \<noteq> i \<and> (k, r') \<in> set t)" for k r'
    by (auto simp: tbl_update_def hash split: if_splits)
  show ?case
  proof (cases "j = i")
    case True
    with Cons.prems(1) x have ni: "i \<notin> fst ` set t" by (simp add: tbl_ok_def)
    have "rr_token_hash r' \<noteq> h" if "(k, r') \<in> set t" for k r'
      using Cons.prems(3) that ni by force
    then have "h \<notin> (rr_token_hash \<circ> snd) ` set t" by fastforce
    with True x tbl_update_absent [OF ni, of f] IH show ?thesis by (simp add: tokens_unique_def tbl_update_def hash)
  next
    case False
    have "rr_token_hash r \<noteq> h" using Cons.prems(3) x False by auto
    moreover have "rr_token_hash r \<noteq> rr_token_hash r'" if "(k, r') \<in> set t" for k r'
      using Cons.prems(2) x that by (force simp: tokens_unique_def)
    ultimately have "\<forall>(k, r') \<in> set (tbl_update i f t). rr_token_hash r' \<noteq> rr_token_hash r"
      using hashes by fastforce
    with False x IH show ?thesis by (auto simp: tokens_unique_def tbl_update_def)
  qed
qed

lemma tokens_unique_insert:
  assumes "tokens_unique t" and "\<forall>(j, r') \<in> set t. rr_token_hash r' \<noteq> rr_token_hash r"
  shows "tokens_unique (t @ [(i, r)])"
  using assms by (auto simp: tokens_unique_def)

text \<open>Every statement keeps the keys of all tables and the tokens of remote agents unique.\<close>

lemma admin_ok_registries:
  assumes "admin_ok d"
  shows "register_plugin m now d = (r1, d1) \<Longrightarrow> admin_ok d1"
    "unregister_plugin n d = (r2, d2) \<Longrightarrow> admin_ok d2"
    "register_tool t now d = (r3, d3) \<Longrightarrow> admin_ok d3"
    "register_skill s now d = (r4, d4) \<Longrightarrow> admin_ok d4"
    "delete_skill i d = (r5, d5) \<Longrightarrow> admin_ok d5"
    "register_package p d = (r6, d6) \<Longrightarrow> admin_ok d6"
    "register_mcp c now d = (r7, d7) \<Longrightarrow> admin_ok d7"
    "unregister_mcp n d = (r8, d8) \<Longrightarrow> admin_ok d8"
    "upsert_node nd d = (r9, d9) \<Longrightarrow> admin_ok d9"
    "update_node_status i st d = (ra, da) \<Longrightarrow> admin_ok da"
    "record_usage u d = (rb, db) \<Longrightarrow> admin_ok db"
  using assms
  by (auto simp: admin_ok_def register_plugin_def unregister_plugin_def register_tool_def register_skill_def
      delete_skill_def register_package_def register_mcp_def unregister_mcp_def upsert_node_def update_node_status_def
      record_usage_def Let_def tbl_ok_upsert tbl_ok_delete
      split: if_splits tool_binding.splits option.splits intro: tbl_ok_insert)

lemma admin_ok_remote:
  assumes "admin_ok d"
  shows "register_remote_agent a h d = (r1, d1) \<Longrightarrow> admin_ok d1"
    "update_remote_agent_status i s d = (r2, d2) \<Longrightarrow> admin_ok d2"
    "update_remote_agent_heartbeat i now d = (r3, d3) \<Longrightarrow> admin_ok d3"
    "store_delete_remote_agent i d = (r4, d4) \<Longrightarrow> admin_ok d4"
    "store_rotate_token i h e d = (r5, d5) \<Longrightarrow> admin_ok d5"
proof -
  have ok: "tbl_ok (ad_remote d)" and un: "tokens_unique (ad_remote d)" using assms by (simp_all add: admin_ok_def)
  show "admin_ok d2" if "update_remote_agent_status i s d = (r2, d2)"
    using that assms by (auto simp: admin_ok_def update_remote_agent_status_def)
  show "admin_ok d3" if "update_remote_agent_heartbeat i now d = (r3, d3)"
    using that assms by (auto simp: admin_ok_def update_remote_agent_heartbeat_def)
  show "admin_ok d4" if "store_delete_remote_agent i d = (r4, d4)"
    using that assms by (auto simp: admin_ok_def store_delete_remote_agent_def tbl_ok_delete tokens_unique_filter tbl_delete_def [symmetric])
      (simp add: tbl_delete_def tokens_unique_filter)
  show "admin_ok d5" if st: "store_rotate_token i h e d = (r5, d5)"
  proof (cases "tbl_get (ad_remote d) i \<noteq> None \<and> token_taken i h d")
    case True
    with st assms show ?thesis by (auto simp: store_rotate_token_def)
  next
    case False
    define f where "f = (\<lambda>r :: remote_row. r\<lparr>rr_token_hash := h, rr_token_expires_at := e\<rparr>)"
    have "tokens_unique (tbl_update i f (ad_remote d))"
    proof (cases "tbl_get (ad_remote d) i")
      case None
      then have "tbl_update i f (ad_remote d) = ad_remote d"
        by (simp add: tbl_get_None_iff tbl_update_absent)
      with un show ?thesis by simp
    next
      case (Some r)
      with False have "\<forall>(j, r) \<in> set (ad_remote d). rr_token_hash r = h \<longrightarrow> j = i" by (simp add: not_taken)
      then show ?thesis by (rule tokens_unique_set_hash [OF ok un]) (simp add: f_def)
    qed
    with False st assms show ?thesis by (auto simp: store_rotate_token_def admin_ok_def f_def)
  qed
  show "admin_ok d1" if st: "register_remote_agent a h d = (r1, d1)"
  proof (cases "tbl_get (ad_remote d) (ra_id a)")
    case (Some r)
    with st assms show ?thesis by (auto simp: register_remote_agent_def tbl_insert_def)
  next
    case None
    show ?thesis
    proof (cases "token_taken (ra_id a) h d")
      case True
      with st assms None show ?thesis by (auto simp: register_remote_agent_def tbl_insert_def)
    next
      case False
      then have "\<forall>(j, r) \<in> set (ad_remote d). rr_token_hash r = h \<longrightarrow> j = ra_id a" by (simp add: not_taken)
      with None have free: "\<forall>(j, r') \<in> set (ad_remote d). rr_token_hash r' \<noteq> h"
        by (force simp: tbl_get_None_iff)
      from False None st show ?thesis
        using assms free tokens_unique_insert [OF un]
        by (auto simp: register_remote_agent_def tbl_insert_def admin_ok_def tbl_ok_def tbl_get_None_iff)
    qed
  qed
qed

section \<open>Round trips\<close>

lemma strip_prefix_append [simp]: "strip_prefix p (p @ s) = Some s"
  by (induction p) simp_all

lemma risk_text_roundtrip [simp]: "risk_of_text (risk_text r) = r"
  by (cases r) (simp_all add: risk_of_text_def risk_text_def)

lemma tool_roundtrip: "get_tool (tool_name t) (snd (register_tool t now d)) = (Inr (Some t), snd (register_tool t now d))"
proof -
  have native: "strip_prefix ''builtin:'' (''native:'' @ h) = None" for h by simp
  have builtin: "strip_prefix ''builtin:'' (''builtin:'' @ h) = Some h"
    and native': "strip_prefix ''native:'' (''native:'' @ h) = Some h" for h by (rule strip_prefix_append)+
  show ?thesis
    by (cases "tool_binding t"; cases "tbl_get (ad_tools d) (tool_name t)")
      (simp_all add: get_tool_def register_tool_def tbl_get_upsert tool_from_row_def native builtin native'
        del: append_Cons append_Nil strip_prefix.simps)
qed

lemma mcp_roundtrip:
  "tbl_ok (ad_mcp d) \<Longrightarrow> mcp_from_row (mc_name m) (the (tbl_get (ad_mcp (snd (register_mcp m now d))) (mc_name m))) = m"
  by (cases "tbl_get (ad_mcp d) (mc_name m)"; cases "mc_transport m")
    (simp_all add: register_mcp_def tbl_get_upsert mcp_from_row_def transport_text_def)

lemma package_type_roundtrip [simp]: "package_type_of_text (package_type_text t) = Some t"
  by (cases t) (simp_all add: package_type_of_text_def package_type_text_def)

lemma node_status_roundtrip [simp]: "node_status_of_text (node_status_text s) = s"
  by (cases s) (simp_all add: node_status_of_text_def node_status_text_def)

lemma manifest_stored_idem: "manifest_stored (manifest_stored m) = manifest_stored m"
  by (cases "pm_resource_limits m") (simp_all add: manifest_stored_def whole_secs_def)

lemma plugin_roundtrip: "get_plugin (pm_name m) (snd (register_plugin m now d)) = (Inr (Some (manifest_stored m)), snd (register_plugin m now d))"
  by (cases "tbl_get (ad_plugins d) (pm_name m)") (simp_all add: get_plugin_def register_plugin_def tbl_get_upsert)

lemma skill_roundtrip: "get_skill (sk_id s) (snd (register_skill s now d)) = (Inr (Some (skill_stored s)), snd (register_skill s now d))"
  by (cases "tbl_get (ad_skills d) (sk_id s)") (simp_all add: get_skill_def register_skill_def tbl_get_upsert)

text \<open>A node keeps its status when it reports: one that was taken offline stays so however often it reports.\<close>

lemma upsert_keeps_status:
  "get_node (nd_id n) (snd (upsert_node n d)) =
     (Inr (Some (n\<lparr>nd_status := (case tbl_get (ad_nodes d) (nd_id n) of None \<Rightarrow> NodeOnline
                                 | Some r \<Rightarrow> node_status_of_text (nr_status r))\<rparr>)), snd (upsert_node n d))"
  by (cases "tbl_get (ad_nodes d) (nd_id n)")
    (simp_all add: get_node_def upsert_node_def Let_def tbl_get_upsert node_from_row_def node_status_of_text_def)

section \<open>Sums\<close>

lemma sql_sum_exact: "sql_sum acc xs = Some n \<Longrightarrow> n = acc + sum_list xs"
  by (induction acc xs rule: sql_sum.induct) (auto split: if_splits)

lemma sum_column_exact: "sum_column what col rs = Inr n \<Longrightarrow> n = (\<Sum>r\<leftarrow>rs. col r)"
proof -
  assume "sum_column what col rs = Inr n"
  then have "n = of_int (\<Sum>r\<leftarrow>rs. sint (col r))"
    by (auto simp: sum_column_def dest!: sql_sum_exact split: option.splits)
  also have "\<dots> = (\<Sum>r\<leftarrow>rs. col r)" by (induction rs) simp_all
  finally show ?thesis .
qed

lemma collect_ok: "collect f xs = Inr ys \<longleftrightarrow> list_all2 (\<lambda>x y. f x = Inr y) xs ys"
  by (induction xs arbitrary: ys) (auto simp: and_then_eq_iff list_all2_Cons1)

lemma sum_by_key:
  fixes g :: "'a \<Rightarrow> 'b :: comm_monoid_add"
  assumes "distinct ks" and "f ` set rs \<subseteq> set ks"
  shows "(\<Sum>k\<leftarrow>ks. \<Sum>r\<leftarrow>filter (\<lambda>r. f r = k) rs. g r) = (\<Sum>r\<leftarrow>rs. g r)"
  using assms(2)
proof (induction rs)
  case Nil
  show ?case by simp
next
  case (Cons r rs)
  have "(\<Sum>k\<leftarrow>ks. \<Sum>r\<leftarrow>filter (\<lambda>r. f r = k) (r # rs). g r) =
        (\<Sum>k\<leftarrow>ks. (if k = f r then g r else 0) + (\<Sum>r\<leftarrow>filter (\<lambda>r. f r = k) rs. g r))"
    by (rule arg_cong [where f = sum_list], rule map_cong) auto
  also have "\<dots> = (\<Sum>k\<leftarrow>ks. if k = f r then g r else 0) + (\<Sum>k\<leftarrow>ks. \<Sum>r\<leftarrow>filter (\<lambda>r. f r = k) rs. g r)"
    by (simp add: sum_list_addf)
  also have "(\<Sum>k\<leftarrow>ks. if k = f r then g r else 0) = g r"
    using assms(1) Cons.prems by (simp add: sum_list_distinct_conv_sum_set sum.delta)
  finally show ?case using Cons by simp
qed

lemma keys_of_ok: "distinct (keys_of f rs)" "set (keys_of f rs) = f ` set rs"
  by (simp_all add: keys_of_def)

lemma sum_list_sort_key: "(\<Sum>x\<leftarrow>sort_key k xs. g x) = (\<Sum>x\<leftarrow>xs. (g x :: 'b :: comm_monoid_add))"
  by (metis mset_map mset_sort sum_mset_sum_list)

text \<open>The models of a summary, and the days of a period, account for every token.\<close>

lemma summary_adds_up:
  assumes "get_usage_summary fsum since d = (Inr s, d')"
  shows "(\<Sum>m\<leftarrow>us_by_model s. mu_tokens m) = us_total_tokens s"
    and "us_total_tokens s = (\<Sum>r\<leftarrow>filter (\<lambda>r. since \<le> ur_created_at r) (map snd (ad_usage d)). ur_total_tokens r)"
proof -
  define rs where "rs = filter (\<lambda>r. since \<le> ur_created_at r) (map snd (ad_usage d))"
  obtain t ms where t: "sum_column ''usage summary'' ur_total_tokens rs = Inr t"
    and ms: "collect (model_total fsum rs) (keys_of ur_model rs) = Inr ms"
    and s: "us_total_tokens s = t" "us_by_model s = sort_key (\<lambda>m. - sint (mu_tokens m)) ms"
    using assms by (auto simp: get_usage_summary_def rs_def [symmetric] Let_def and_then_eq_iff)
  have tok: "mu_tokens m = (\<Sum>r\<leftarrow>filter (\<lambda>r. ur_model r = k) rs. ur_total_tokens r)" if "model_total fsum rs k = Inr m" for k m
    using that by (auto simp: model_total_def Let_def and_then_eq_iff dest: sum_column_exact)
  have all: "list_all2 (\<lambda>k m. model_total fsum rs k = Inr m) (keys_of ur_model rs) ms" using ms by (simp add: collect_ok)
  then have "(\<Sum>m\<leftarrow>ms. mu_tokens m) = (\<Sum>k\<leftarrow>keys_of ur_model rs. \<Sum>r\<leftarrow>filter (\<lambda>r. ur_model r = k) rs. ur_total_tokens r)"
    by (induction rule: list_all2_induct) (simp_all add: tok)
  also have "\<dots> = (\<Sum>r\<leftarrow>rs. ur_total_tokens r)" by (rule sum_by_key) (simp_all add: keys_of_ok)
  finally show "(\<Sum>m\<leftarrow>us_by_model s. mu_tokens m) = us_total_tokens s"
    using s sum_column_exact [OF t] by (simp add: sum_list_sort_key)
  show "us_total_tokens s = (\<Sum>r\<leftarrow>filter (\<lambda>r. since \<le> ur_created_at r) (map snd (ad_usage d)). ur_total_tokens r)"
    using s sum_column_exact [OF t] by (simp add: rs_def)
qed

lemma daily_adds_up:
  assumes "get_usage_daily fsum day start stop d = (Inr ds, d')"
  shows "(\<Sum>x\<leftarrow>ds. ud_tokens x) =
    (\<Sum>r\<leftarrow>filter (\<lambda>r. start \<le> ur_created_at r \<and> ur_created_at r < stop) (map snd (ad_usage d)). ur_total_tokens r)"
proof -
  define rs where "rs = filter (\<lambda>r. start \<le> ur_created_at r \<and> ur_created_at r < stop) (map snd (ad_usage d))"
  have tok: "ud_tokens x = (\<Sum>r\<leftarrow>filter (\<lambda>r. (day \<circ> ur_created_at) r = k) rs. ur_total_tokens r)"
    if "day_total fsum day rs k = Inr x" for k x
    using that by (auto simp: day_total_def Let_def and_then_eq_iff comp_def dest: sum_column_exact)
  have "list_all2 (\<lambda>k x. day_total fsum day rs k = Inr x) (keys_of (day \<circ> ur_created_at) rs) ds"
    using assms by (auto simp: get_usage_daily_def rs_def [symmetric] Let_def collect_ok)
  then have "(\<Sum>x\<leftarrow>ds. ud_tokens x) =
      (\<Sum>k\<leftarrow>keys_of (day \<circ> ur_created_at) rs. \<Sum>r\<leftarrow>filter (\<lambda>r. (day \<circ> ur_created_at) r = k) rs. ur_total_tokens r)"
    by (induction rule: list_all2_induct) (simp_all add: tok del: comp_apply)
  also have "\<dots> = (\<Sum>r\<leftarrow>rs. ur_total_tokens r)" by (rule sum_by_key) (simp_all add: keys_of_ok)
  finally show ?thesis by (simp add: rs_def)
qed
text \<open>
  The days of a usage report account for every token of its period: their sum is that of the records from its start
  to before its end, on 64 bits.
\<close>

theorem report_accounts_for_tokens:
  assumes "get_usage_daily fsum day start stop d = (Inr ds, d')"
  shows "(\<Sum>x\<leftarrow>ds. ud_tokens x) =
    (\<Sum>r\<leftarrow>filter (\<lambda>r. start \<le> ur_created_at r \<and> ur_created_at r < stop) (map snd (ad_usage d)). ur_total_tokens r)"
  by (rule daily_adds_up [OF assms])

definition three_records :: admin_db where
  "three_records = foldr (\<lambda>(i, t, n). snd \<circ> record_usage
     \<lparr>ur_id = i, ur_task_id = None, ur_model = ''m'', ur_input_tokens = n, ur_output_tokens = 1, ur_total_tokens = n + 1, ur_cost_usd = 0, ur_created_at = t\<rparr>)
     [(''r1'', 5, 10), (''r2'', 7, 20), (''r3'', 99, 40)] admin_empty"

theorem report_accounts_for_tokens_witness:
  "\<exists>ds. get_usage_daily (\<lambda>_. 0) (\<lambda>t. if t = 5 then ''d1'' else ''d2'') 0 50 three_records = (Inr ds, three_records) \<and>
     (\<Sum>x\<leftarrow>ds. ud_tokens x) = 32"
proof -
  let ?q = "get_usage_daily (\<lambda>_. 0) (\<lambda>t. if t = 5 then ''d1'' else ''d2'') 0 50 three_records"
  have ok: "(case fst ?q of Inr ds \<Rightarrow> True | Inl e \<Rightarrow> False) \<and> snd ?q = three_records" by code_simp
  then obtain ds where q: "?q = (Inr ds, three_records)" by (cases "fst ?q") (auto simp: prod_eq_iff)
  have "(\<Sum>r\<leftarrow>filter (\<lambda>r. 0 \<le> ur_created_at r \<and> ur_created_at r < 50) (map snd (ad_usage three_records)). ur_total_tokens r) = 32"
    by code_simp
  with report_accounts_for_tokens [OF q] q show ?thesis by simp
qed

end
