(* ===== verification/Remote_Props.thy ===== *)
theory Remote_Props
  imports Remote Store_Admin_Facts Coordinator_Props
begin

text \<open>
  Remote agents as a state machine: its steps are the requests, the two tasks of each connection and their handler, in
  any order. The properties say who is online, what a revoked agent can still do, and what it can make the program do.
\<close>

section \<open>Steps\<close>

definition channel_open :: "nat \<Rightarrow> remote_app \<Rightarrow> bool" where
  "channel_open c s \<longleftrightarrow> list_ex (\<lambda>(i, e). he_conn e = c) (rx_hub s)"

inductive remote_step :: "renv \<Rightarrow> checker \<Rightarrow> remote_app \<Rightarrow> remote_app \<Rightarrow> bool" for R chk where
  Upgrade: "remote_step R chk s (snd (reply_of (remote_ws_upgrade R token) s))"
| Connect: "h \<in> set (rx_upgrades s) \<Longrightarrow>
    remote_step R chk s (snd (ws_connect R h (s\<lparr>rx_upgrades := remove1 h (rx_upgrades s)\<rparr>)))"
| Deliver: "c < length (rx_conns s) \<Longrightarrow> wc_send_up (rx_conns s ! c) \<Longrightarrow> wc_inbox (rx_conns s ! c) = m # ms \<Longrightarrow>
    remote_step R chk s (conn_update c (\<lambda>k. k\<lparr>wc_inbox := ms, wc_sent := wc_sent k @ [m]\<rparr>) s)"
| SendFails: "c < length (rx_conns s) \<Longrightarrow> wc_send_up (rx_conns s ! c) \<Longrightarrow> wc_inbox (rx_conns s ! c) = m # ms \<Longrightarrow>
    remote_step R chk s (conn_update c (\<lambda>k. k\<lparr>wc_inbox := ms, wc_send_up := False\<rparr>) s)"
| ChannelCloses: "c < length (rx_conns s) \<Longrightarrow> wc_send_up (rx_conns s ! c) \<Longrightarrow> wc_inbox (rx_conns s ! c) = [] \<Longrightarrow>
    \<not> channel_open c s \<Longrightarrow> remote_step R chk s (conn_update c (wc_send_up_update (\<lambda>_. False)) s)"
| Hears: "c < length (rx_conns s) \<Longrightarrow> wc_recv_up (rx_conns s ! c) \<Longrightarrow>
    remote_step R chk s (snd (handle_upstream_message R (wc_agent (rx_conns s ! c)) txt s))"
| SocketCloses: "c < length (rx_conns s) \<Longrightarrow> wc_recv_up (rx_conns s ! c) \<Longrightarrow>
    remote_step R chk s (conn_update c (wc_recv_up_update (\<lambda>_. False)) s)"
| Cleanup: "c < length (rx_conns s) \<Longrightarrow> wc_served (rx_conns s ! c) \<Longrightarrow>
    \<not> (wc_send_up (rx_conns s ! c) \<and> wc_recv_up (rx_conns s ! c)) \<Longrightarrow> remote_step R chk s (snd (ws_cleanup R c s))"
| Register: "remote_step R chk s (snd (reply_of (api_register_remote_agent R chk user name desc caps ttl) s))"
| Delete: "remote_step R chk s (snd (reply_of (api_delete_remote_agent R chk user i) s))"
| Estop: "remote_step R chk s (snd (reply_of (api_estop_remote_agent R chk user i) s))"
| Rotate: "remote_step R chk s (snd (reply_of (api_rotate_token R chk user i ttl) s))"
| Broadcast: "remote_step R chk s (hub_broadcast_estop msg_id reason s)"

definition remote_start :: "world \<Rightarrow> admin_db \<Rightarrow> remote_app" where
  "remote_start w d =
     \<lparr>ap_world = w, ap_admin = d, ap_audit = [], rx_hub = [], rx_conns = [], rx_upgrades = [], rx_feed = [], rx_random = 0\<rparr>"

section \<open>Who is online\<close>

text \<open>The entry of an agent holds a connection of that agent whose handler still runs.\<close>

definition entry_ok :: "ws_conn list \<Rightarrow> string \<times> hub_entry \<Rightarrow> bool" where
  "entry_ok cs x \<longleftrightarrow> (case x of (i, e) \<Rightarrow> he_conn e < length cs \<and> wc_agent (cs ! he_conn e) = i \<and> wc_served (cs ! he_conn e))"

definition hub_ok :: "remote_app \<Rightarrow> bool" where
  "hub_ok s \<longleftrightarrow> tbl_ok (rx_hub s) \<and> list_all (entry_ok (rx_conns s)) (rx_hub s)"

lemma hub_ok_other [simp]:
  "hub_ok (s\<lparr>ap_world := w\<rparr>) = hub_ok s" "hub_ok (s\<lparr>ap_admin := d\<rparr>) = hub_ok s" "hub_ok (s\<lparr>ap_audit := l\<rparr>) = hub_ok s"
  "hub_ok (s\<lparr>rx_upgrades := us\<rparr>) = hub_ok s" "hub_ok (s\<lparr>rx_feed := fs\<rparr>) = hub_ok s" "hub_ok (s\<lparr>rx_random := n\<rparr>) = hub_ok s"
  by (simp_all add: hub_ok_def)

lemma hub_ok_remove: "hub_ok s \<Longrightarrow> hub_ok (hub_remove i s)"
  by (simp add: hub_ok_def hub_remove_def tbl_ok_delete) (simp add: list_all_iff tbl_delete_def)

lemma conn_field: "(\<And>k. g (f k) = g k) \<Longrightarrow> g (cs[c := f (cs ! c)] ! j) = g (cs ! j)"
  by (cases "c < length cs"; cases "j = c") (simp_all add: list_update_beyond)

lemma hub_ok_conn:
  assumes "hub_ok s" and "\<And>k. wc_agent (f k) = wc_agent k" and "\<And>k. wc_served (f k) = wc_served k"
  shows "hub_ok (conn_update c f s)"
  using assms(1)
  by (simp add: hub_ok_def conn_update_def list_all_iff entry_ok_def conn_field [of wc_agent, OF assms(2)]
      conn_field [of wc_served, OF assms(3)])

lemma push_same [simp]: "wc_agent (push m k) = wc_agent k" "wc_served (push m k) = wc_served k" "wc_recv_up (push m k) = wc_recv_up k"
  by (simp_all add: push_def)

lemma hub_ok_push: "hub_ok s \<Longrightarrow> hub_ok (conn_update c (push m) s)"
  by (rule hub_ok_conn) simp_all

lemma hub_ok_send: "hub_ok s \<Longrightarrow> hub_ok (hub_send_to i m s)"
  by (simp add: hub_send_to_def hub_ok_push split: option.split)

lemma hub_ok_broadcast: "hub_ok s \<Longrightarrow> hub_ok (hub_broadcast_estop m r s)"
proof -
  have "hub_ok s \<Longrightarrow> hub_ok (fold (\<lambda>(i, e). conn_update (he_conn e) (push x)) es s)" for es x
    by (induction es arbitrary: s) (auto simp: hub_ok_push)
  then show "hub_ok s \<Longrightarrow> hub_ok (hub_broadcast_estop m r s)" unfolding hub_broadcast_estop_def by blast
qed

lemma set_tbl_upsert: "x \<in> set (tbl_upsert k r (\<lambda>_. r) t) \<Longrightarrow> x = (k, r) \<or> x \<in> set t"
  by (auto simp: tbl_upsert_def tbl_update_def split: if_splits)

lemma hub_ok_add: "hub_ok s \<Longrightarrow> hub_ok (hub_add a now s)"
  by (auto simp: hub_ok_def hub_add_def Let_def tbl_ok_upsert list_all_iff entry_ok_def nth_append
      dest!: set_tbl_upsert split: prod.splits)

lemmas keeps_hub_ok [keeps_intros] =
  keeps_app_world [of hub_ok, OF hub_ok_other(1)] keeps_app_authz [of hub_ok, OF hub_ok_other(1)]
  keeps_app_now [of hub_ok, OF hub_ok_other(1)] keeps_admin_call [of hub_ok, OF hub_ok_other(1,2)]
  keeps_admin_call_now [of hub_ok, OF hub_ok_other(1,2)] keeps_audit_success [of hub_ok, OF hub_ok_other(1,3)]

lemma keeps_hub_steps [keeps_intros]:
  "keeps hub_ok (modifyE (hub_send_to i m))" "keeps hub_ok (modifyE (hub_add a now))" "keeps hub_ok (hub_disconnect i)"
  "keeps hub_ok (modifyE (\<lambda>s. s\<lparr>rx_feed := rx_feed s @ [env]\<rparr>))" "keeps hub_ok (modifyE (\<lambda>s. s\<lparr>rx_upgrades := rx_upgrades s @ [h]\<rparr>))"
  "keeps hub_ok (generate_token R)"
  by (auto intro!: keeps_modifyE keepsI hub_ok_send hub_ok_add hub_ok_remove simp: hub_disconnect_def generate_token_def)

lemma keeps_token_expiry [keeps_intros]: "keeps hub_ok (token_expiry R ttl)"
  unfolding token_expiry_def by (intro keeps_intros)

lemma keeps_require_agent [keeps_intros]: "keeps hub_ok (require_agent R i)"
  unfolding require_agent_def by (intro keeps_intros)

lemma keeps_forward [keeps_intros]: "keeps hub_ok (forward_report R i ev)"
  unfolding forward_report_def by (intro keeps_intros)

lemma keeps_upstream [keeps_intros]: "keeps hub_ok (handle_upstream_message R i txt)"
  unfolding handle_upstream_message_def handle_upstream_def by (auto intro!: keeps_intros split: upstream_msg.split)

lemma keeps_connect [keeps_intros]: "keeps hub_ok (ws_connect R h)"
  unfolding ws_connect_def by (auto intro!: keeps_intros split: sum.split option.split)

lemma keeps_requests:
  "keeps hub_ok (remote_ws_upgrade R token)" "keeps hub_ok (api_register_remote_agent R chk user name desc caps ttl)"
  "keeps hub_ok (api_delete_remote_agent R chk user i)" "keeps hub_ok (api_estop_remote_agent R chk user i)"
  "keeps hub_ok (api_rotate_token R chk user i ttl)"
  unfolding remote_ws_upgrade_def api_register_remote_agent_def api_delete_remote_agent_def api_estop_remote_agent_def
    api_rotate_token_def Let_def
  by (intro keeps_intros)+

lemma reply_hub_ok: "keeps hub_ok m \<Longrightarrow> hub_ok s \<Longrightarrow> hub_ok (snd (reply_of m s))"
  by (rule keeps_reply_of)

lemma cleanup_eq:
  "snd (ws_cleanup R c s) =
     conn_update c (\<lambda>k. k\<lparr>wc_served := False\<rparr>)
       (snd (admin_call (xr_app R) (update_remote_agent_status (wc_agent (rx_conns s ! c)) RemoteOffline)
          (hub_remove (wc_agent (rx_conns s ! c)) s)))"
  by (simp add: ws_cleanup_def Let_def bindE_def ignoring_def tryE_def split: prod.split)

lemma admin_call_frame [simp]:
  "rx_hub (snd (admin_call E op s)) = rx_hub s" "rx_conns (snd (admin_call E op s)) = rx_conns s"
  "rx_upgrades (snd (admin_call E op s)) = rx_upgrades s" "rx_feed (snd (admin_call E op s)) = rx_feed s"
  "ap_audit (snd (admin_call E op s)) = ap_audit s"
  by (simp_all add: admin_call_def Let_def split: option.split prod.split)

lemma hub_ok_cleanup:
  assumes "hub_ok s"
  shows "hub_ok (snd (ws_cleanup R c s))"
  unfolding hub_ok_def
proof
  let ?i = "wc_agent (rx_conns s ! c)" and ?cs = "rx_conns s"
  have hub: "rx_hub (snd (ws_cleanup R c s)) = tbl_delete ?i (rx_hub s)"
    and conns: "rx_conns (snd (ws_cleanup R c s)) = ?cs[c := (?cs ! c)\<lparr>wc_served := False\<rparr>]"
    by (simp_all add: cleanup_eq conn_update_def hub_remove_def)
  show "tbl_ok (rx_hub (snd (ws_cleanup R c s)))" using assms by (simp add: hub hub_ok_def tbl_ok_delete)
  show "list_all (entry_ok (rx_conns (snd (ws_cleanup R c s)))) (rx_hub (snd (ws_cleanup R c s)))"
    unfolding hub conns list_all_iff
  proof
    fix x assume x: "x \<in> set (tbl_delete ?i (rx_hub s))"
    obtain j e where je: "x = (j, e)" by fastforce
    with x have "j \<noteq> ?i" "(j, e) \<in> set (rx_hub s)" by (auto simp: tbl_delete_def)
    with assms have ok: "entry_ok ?cs (j, e)" "j \<noteq> ?i" by (auto simp: hub_ok_def list_all_iff)
    then have "he_conn e \<noteq> c" by (auto simp: entry_ok_def)
    with ok(1) show "entry_ok (?cs[c := (?cs ! c)\<lparr>wc_served := False\<rparr>]) x" by (simp add: je entry_ok_def)
  qed
qed

lemma hub_ok_step: "remote_step R chk s s' \<Longrightarrow> hub_ok s \<Longrightarrow> hub_ok s'"
proof (induction rule: remote_step.induct)
  case (Connect h s)
  then show ?case using keepsD [OF keeps_connect] by simp
next
  case (Cleanup c s)
  then show ?case by (simp add: hub_ok_cleanup)
qed (auto intro: reply_hub_ok keeps_requests hub_ok_conn hub_ok_broadcast keepsD [OF keeps_upstream])

lemma hub_ok_start: "hub_ok (remote_start w d)"
  by (simp add: hub_ok_def remote_start_def)

lemma hub_ok_reachable: "(remote_step R chk)\<^sup>*\<^sup>* (remote_start w d) s \<Longrightarrow> hub_ok s"
  by (induction rule: rtranclp_induct) (auto intro: hub_ok_start hub_ok_step)

lemma cleanup_takes_off: "\<not> hub_is_online (wc_agent (rx_conns s ! c)) (snd (ws_cleanup R c s))"
  by (simp add: cleanup_eq conn_update_def hub_remove_def hub_is_online_def tbl_get_delete)

text \<open>
  C27. An agent that the hub shows as online has a connection whose handler still runs, after any sequence of requests,
  messages, failures and disconnections. Either both tasks of that connection run, so that it is open; or one of them has
  ended, and then the clean-up of the handler is a step that can be taken and after which the agent is not online.
\<close>

theorem online_agents_are_served:
  assumes "(remote_step R chk)\<^sup>*\<^sup>* (remote_start w d) s" and "hub_is_online i s"
  shows "\<exists>c < length (rx_conns s). wc_agent (rx_conns s ! c) = i \<and> wc_served (rx_conns s ! c) \<and>
    ((wc_send_up (rx_conns s ! c) \<and> wc_recv_up (rx_conns s ! c)) \<or>
     (remote_step R chk s (snd (ws_cleanup R c s)) \<and> \<not> hub_is_online i (snd (ws_cleanup R c s))))"
proof -
  have "hub_ok s" by (rule hub_ok_reachable [OF assms(1)])
  moreover obtain e where "(i, e) \<in> set (rx_hub s)"
    using assms(2) by (auto simp: hub_is_online_def tbl_get_def dest: map_of_SomeD)
  ultimately have c: "he_conn e < length (rx_conns s)" "wc_agent (rx_conns s ! he_conn e) = i" "wc_served (rx_conns s ! he_conn e)"
    by (auto simp: hub_ok_def list_all_iff entry_ok_def)
  with cleanup_takes_off [of s "he_conn e" R] show ?thesis by (blast intro: remote_step.Cleanup)
qed

definition demo_remote_env :: renv where
  "demo_remote_env =
     \<lparr>xr_app = \<lparr>ap_env = demo_env, ap_others = (\<lambda>_ d. d)\<rparr>, xr_sha256 = (\<lambda>t. map of_char t), xr_random = (\<lambda>n. [n]),
      xr_base58 = (\<lambda>u. []),
      xr_parse = (\<lambda>t. Some (UpEventBatch ''m1'' [\<lparr>re_event_type = ''atta.cron.triggered'', re_timestamp = 0,
         re_correlation_id = None, re_payload = mk_obj [(''command'', JStr t)]\<rparr>]))\<rparr>"

definition demo_remote_row :: remote_row where
  "demo_remote_row =
     \<lparr>rr_name = ''probe'', rr_token_hash = ''74'', rr_description = [], rr_version = ''0.1.0'', rr_capabilities = [],
      rr_status = ''offline'', rr_last_heartbeat = None, rr_registered_at = 0, rr_registered_by = ''owner'',
      rr_token_expires_at = None\<rparr>"

definition demo_admin :: admin_db where
  "demo_admin = admin_empty\<lparr>ad_remote := [(''ra_1'', demo_remote_row)]\<rparr>"

definition empty_world :: world where
  "empty_world = \<lparr>w_db = db_empty, w_log = [], w_flows = [], w_clk = 0, w_uid = 0, w_calls = 0, w_pubs = 0\<rparr>"

definition demo_upgraded :: remote_app where
  "demo_upgraded = snd (reply_of (remote_ws_upgrade demo_remote_env (Some ''t'')) (remote_start empty_world demo_admin))"

definition demo_connected :: remote_app where
  "demo_connected = snd (ws_connect demo_remote_env ''74'' (demo_upgraded\<lparr>rx_upgrades := []\<rparr>))"

lemmas demo_remote_defs =
  demo_remote_env_def demo_remote_row_def demo_admin_def admin_empty_def empty_world_def remote_start_def demo_env_def

lemma demo_hash: "hash_token demo_remote_env ''t'' = ''74''"
  by code_simp

lemma demo_upgraded_eq:
  "demo_upgraded = (remote_start empty_world demo_admin)\<lparr>ap_world := empty_world\<lparr>w_calls := 1\<rparr>, rx_upgrades := [''74'']\<rparr>"
  using demo_hash
  by (simp add: demo_upgraded_def reply_of_def remote_ws_upgrade_def Let_def bindE_def else_500_def tryE_def admin_call_def get_remote_agent_by_token_def remote_agent_from_row_def demo_remote_defs)

lemma demo_connected_eq:
  "rx_hub demo_connected = [(''ra_1'', \<lparr>he_conn = 0, he_agent = remote_agent_from_row ''ra_1'' demo_remote_row, he_connected_at = 0\<rparr>)]"
  "rx_conns demo_connected = [\<lparr>wc_agent = ''ra_1'', wc_inbox = [], wc_sent = [], wc_send_up = True, wc_recv_up = True, wc_served = True\<rparr>]"
  by (simp_all add: demo_connected_def demo_upgraded_eq ws_connect_def bindE_def tryE_def admin_call_def Let_def
      get_remote_agent_by_token_def ignoring_def update_remote_agent_status_def app_now_def infallible_def app_world_def
      now_io_def hub_add_def tbl_upsert_def remote_agent_from_row_def demo_remote_defs)

lemma demo_connected_reachable:
  "(remote_step demo_remote_env chk)\<^sup>*\<^sup>* (remote_start empty_world demo_admin) demo_connected"
proof -
  have up: "remote_step demo_remote_env chk (remote_start empty_world demo_admin) demo_upgraded"
    unfolding demo_upgraded_def by (rule remote_step.Upgrade)
  have "remote_step demo_remote_env chk demo_upgraded
      (snd (ws_connect demo_remote_env ''74'' (demo_upgraded\<lparr>rx_upgrades := remove1 ''74'' (rx_upgrades demo_upgraded)\<rparr>)))"
    by (rule remote_step.Connect) (simp add: demo_upgraded_eq)
  moreover have "remove1 ''74'' (rx_upgrades demo_upgraded) = []" by (simp add: demo_upgraded_eq)
  ultimately have "remote_step demo_remote_env chk demo_upgraded demo_connected" by (simp add: demo_connected_def)
  with up show ?thesis by (meson rtranclp.rtrancl_refl rtranclp.rtrancl_into_rtrancl)
qed

theorem online_agents_are_served_witness:
  "\<exists>c < length (rx_conns demo_connected). wc_agent (rx_conns demo_connected ! c) = ''ra_1'' \<and> wc_served (rx_conns demo_connected ! c) \<and>
    ((wc_send_up (rx_conns demo_connected ! c) \<and> wc_recv_up (rx_conns demo_connected ! c)) \<or>
     (remote_step demo_remote_env (\<lambda>a b c. retE Allow) demo_connected (snd (ws_cleanup demo_remote_env c demo_connected)) \<and>
      \<not> hub_is_online ''ra_1'' (snd (ws_cleanup demo_remote_env c demo_connected))))"
  by (rule online_agents_are_served [OF demo_connected_reachable [where chk = "\<lambda>a b c. retE Allow"]])
    (simp add: hub_is_online_def demo_connected_eq tbl_get_def)

section \<open>What is published\<close>

definition reports :: "string \<Rightarrow> remote_report \<Rightarrow> string \<times> event_envelope \<Rightarrow> bool" where
  "reports i r x \<longleftrightarrow>
     (case x of (topic, ev) \<Rightarrow> topic = re_event_type r \<and> ev_type ev = topic \<and> ev_actor ev = \<lparr>actor_type = AgentActor, actor_id = i\<rparr> \<and>
        ev_entity ev = remote_entity i \<and> ev_payload ev = re_payload r)"

definition bus_up :: "renv \<Rightarrow> bool" where
  "bus_up R \<longleftrightarrow> (\<forall>n. bus_err (ap_env (xr_app R)) n = None)"

lemma remote_envelope_eq:
  "\<exists>ev w'. remote_envelope E i r w = (Inr ev, w') \<and> reports i r (re_event_type r, ev) \<and> w_log w' = w_log w"
  by (cases "Option.bind (re_correlation_id r) (uuid_parse E)")
    (auto simp: remote_envelope_def bindE_def event_new_def fresh_uuid_def now_io_def reports_def)

lemma forward_report_eq:
  assumes "bus_up R"
  shows "\<exists>x s'. forward_report R i r s = (Inr (), s') \<and> reports i r x \<and> w_log (ap_world s') = w_log (ap_world s) @ [x]"
proof -
  let ?E = "ap_env (xr_app R)"
  obtain ev w1 where ev: "remote_envelope ?E i r (ap_world s) = (Inr ev, w1)" "reports i r (re_event_type r, ev)"
    "w_log w1 = w_log (ap_world s)" using remote_envelope_eq by blast
  with assms show ?thesis
    by (auto simp: forward_report_def tryE_def bindE_def app_world_apply ignoring_def publish_def bus_up_def Let_def)
qed

lemma forward_all:
  assumes "bus_up R"
  shows "\<exists>new s'. forE rs (forward_report R i) s = (Inr (), s') \<and> list_all2 (reports i) rs new \<and>
    w_log (ap_world s') = w_log (ap_world s) @ new"
proof (induction rs arbitrary: s)
  case Nil
  show ?case by simp
next
  case (Cons r rs)
  obtain x s1 where x: "forward_report R i r s = (Inr (), s1)" "reports i r x" "w_log (ap_world s1) = w_log (ap_world s) @ [x]"
    using forward_report_eq [OF assms] by blast
  obtain new s2 where "forE rs (forward_report R i) s1 = (Inr (), s2)" "list_all2 (reports i) rs new"
    "w_log (ap_world s2) = w_log (ap_world s1) @ new" using Cons.IH by blast
  with x show ?case by (intro exI [of _ "x # new"] exI [of _ s2]) (simp add: bindE_def)
qed

lemma log_admin_call [simp]: "w_log (ap_world (snd (admin_call E op s))) = w_log (ap_world s)"
  by (simp add: admin_call_def Let_def split: option.split prod.split)

lemma log_heartbeat: "w_log (ap_world (snd (ignoring (admin_call_now E op) s))) = w_log (ap_world s)"
  by (simp add: ignoring_def tryE_def admin_call_now_def bindE_def app_now_def infallible_def app_world_def now_io_def
      admin_call_def Let_def split: prod.split option.split)

lemma log_send [simp]: "ap_world (hub_send_to i m s) = ap_world s"
  by (simp add: hub_send_to_def conn_update_def split: option.split)

lemma batch_is_published:
  assumes "bus_up R" and "xr_parse R txt = Some (UpEventBatch m rs)"
  shows "\<exists>new. list_all2 (reports i) rs new \<and>
    w_log (ap_world (snd (handle_upstream_message R i txt s))) = w_log (ap_world s) @ new"
proof -
  obtain new s1 where n: "forE rs (forward_report R i) s = (Inr (), s1)" "list_all2 (reports i) rs new"
    "w_log (ap_world s1) = w_log (ap_world s) @ new" using forward_all [OF assms(1)] by blast
  have "snd (handle_upstream_message R i txt s) =
      snd ((ignoring (admin_call_now (xr_app R) (update_remote_agent_heartbeat i)) :: (unit, unit) rio) (hub_send_to i (DnAck m) s1))"
    by (simp add: handle_upstream_message_def assms(2) handle_upstream_def bindE_def n(1))
  with n(2,3) show ?thesis by (auto simp: log_heartbeat)
qed

section \<open>Revocation\<close>

lemma conns_other [simp]:
  "(rx_conns (s\<lparr>ap_world := w\<rparr>) = cs) = (rx_conns s = cs)" "(rx_conns (s\<lparr>ap_admin := d\<rparr>) = cs) = (rx_conns s = cs)"
  "(rx_conns (s\<lparr>ap_audit := l\<rparr>) = cs) = (rx_conns s = cs)"
  by simp_all

lemmas keeps_conns =
  keeps_app_authz [of "\<lambda>s. rx_conns s = cs", OF conns_other(1)] keeps_app_now [of "\<lambda>s. rx_conns s = cs", OF conns_other(1)]
  keeps_admin_call [of "\<lambda>s. rx_conns s = cs", OF conns_other(1,2)]
  keeps_audit_success [of "\<lambda>s. rx_conns s = cs", OF conns_other(1,3)] for cs

lemma keeps_conns_steps:
  "keeps (\<lambda>s. rx_conns s = cs) (hub_disconnect i)" "keeps (\<lambda>s. rx_conns s = cs) (generate_token R)"
  by (auto intro!: keepsI simp: hub_disconnect_def hub_remove_def generate_token_def)

lemma revoking_keeps_conns:
  "rx_conns (snd (reply_of (api_delete_remote_agent R chk user i) s)) = rx_conns s"
  "rx_conns (snd (reply_of (api_rotate_token R chk user i ttl) s)) = rx_conns s"
proof -
  have "keeps (\<lambda>s'. rx_conns s' = rx_conns s) (api_delete_remote_agent R chk user i)"
    unfolding api_delete_remote_agent_def by (intro keeps_intros keeps_conns keeps_conns_steps)
  then show "rx_conns (snd (reply_of (api_delete_remote_agent R chk user i) s)) = rx_conns s" by (rule keeps_reply_of) simp
  have "keeps (\<lambda>s'. rx_conns s' = rx_conns s) (api_rotate_token R chk user i ttl)"
    unfolding api_rotate_token_def require_agent_def token_expiry_def Let_def
    by (intro keeps_intros keeps_conns keeps_conns_steps)
  then show "rx_conns (snd (reply_of (api_rotate_token R chk user i ttl) s)) = rx_conns s" by (rule keeps_reply_of) simp
qed

lemma ok_after_disconnect:
  fixes k :: "unit \<Rightarrow> (remote_app, 'b) request"
  assumes "reply_of (bindE (hub_disconnect i) k) s = r"
  shows "reply_of (k ()) (if hub_is_online i s then hub_remove i s else s) = r"
  using assms by (simp add: reply_bind hub_disconnect_def)

lemma deleted_agent_gone:
  assumes "reply_of (api_delete_remote_agent R chk user i) s = (OkReply 204 b, s')"
  shows "tbl_get (ad_remote (ap_admin s')) i = None"
proof -
  obtain s2 s3 :: remote_app where "admin_call (xr_app R) (store_delete_remote_agent i) s2 = (Inr (), s3)" and "ap_admin s' = ap_admin s3"
    using assms unfolding api_delete_remote_agent_def
    by (elim ok_after_authz) (auto dest!: ok_after_disconnect elim!: ok_after_500 ok_after_audit)
  then show ?thesis
    by (auto simp: admin_call_def Let_def store_delete_remote_agent_def tbl_get_delete split: option.splits)
qed

text \<open>
  Deleting a remote agent does not silence it: its connection stays open, and when the deletion has answered with
  success and the agent is gone from the store, the next batch of events it sends is published under its name, whole.
\<close>

theorem deleted_agent_still_publishes:
  assumes "bus_up R" and "reply_of (api_delete_remote_agent R chk user i) s = (OkReply 204 b, s')"
    and "c < length (rx_conns s)" and "wc_recv_up (rx_conns s ! c)" and "wc_agent (rx_conns s ! c) = i"
    and "xr_parse R txt = Some (UpEventBatch m rs)"
  shows "\<exists>s'' new. tbl_get (ad_remote (ap_admin s')) i = None \<and> remote_step R chk s' s'' \<and>
    w_log (ap_world s'') = w_log (ap_world s') @ new \<and> list_all2 (reports i) rs new"
proof -
  have "rx_conns s' = rx_conns s" using revoking_keeps_conns(1) [of R chk user i s] assms(2) by simp
  then have "remote_step R chk s' (snd (handle_upstream_message R i txt s'))"
    using remote_step.Hears [of c s' R chk "txt"] assms(3-5) by simp
  moreover obtain new where "list_all2 (reports i) rs new"
    "w_log (ap_world (snd (handle_upstream_message R i txt s'))) = w_log (ap_world s') @ new"
    using batch_is_published [OF assms(1,6)] by blast
  ultimately show ?thesis using deleted_agent_gone [OF assms(2)] by blast
qed

text \<open>
  C28. A remote agent can have any command run: an event it reports with the topic of triggered cron jobs is published
  like the program's own, and the coordinator answers it by starting a local agent, with all tools, on the command in it.
\<close>

theorem remote_report_starts_local_agent:
  assumes "bus_up R" and "xr_parse R txt = Some (UpEventBatch m [r])"
    and "re_event_type r = ''atta.cron.triggered''" and "jget_str (re_payload r) ''command'' = Some command" and "command \<noteq> []"
  shows "\<exists>ev. w_log (ap_world (snd (handle_upstream_message R i txt s))) = w_log (ap_world s) @ [(''atta.cron.triggered'', ev)] \<and>
    (\<exists>job_id run_id prompt. cd_jobs (coord_handle E K (''atta.cron.triggered'', ev) c) =
       cd_jobs c @ [CronJob job_id run_id (ce_schemas K (cd_tools c)) prompt command])"
proof -
  obtain ev where ev: "w_log (ap_world (snd (handle_upstream_message R i txt s))) = w_log (ap_world s) @ [(''atta.cron.triggered'', ev)]"
    "ev_payload ev = re_payload r"
    using batch_is_published [OF assms(1,2), of i s] assms(3) by (auto simp: list_all2_Cons1 reports_def)
  then have "payload_str ev ''command'' = command" using assms(4) by (simp add: payload_str_def)
  with ev assms(5) show ?thesis
    by (auto simp: coord_handle_def on_cron_triggered_def Let_def bindE_def spawn_job_def)
qed

section \<open>Reconnecting\<close>

definition store_up :: "renv \<Rightarrow> bool" where
  "store_up R \<longleftrightarrow> (\<forall>n. db_err (ap_env (xr_app R)) n = None) \<and> (\<forall>n d. ap_others (xr_app R) n d = d)"

lemma connect_eq:
  assumes "store_up R" and "get_remote_agent_by_token h (ap_admin s) = (Inr (Some a), ap_admin s)"
  shows "\<exists>e. he_conn e = length (rx_conns s) \<and> rx_hub (snd (ws_connect R h s)) = tbl_upsert (ra_id a) e (\<lambda>_. e) (rx_hub s) \<and>
    rx_conns (snd (ws_connect R h s)) =
      rx_conns s @ [\<lparr>wc_agent = ra_id a, wc_inbox = [], wc_sent = [], wc_send_up = True, wc_recv_up = True, wc_served = True\<rparr>]"
proof -
  obtain s1 where s1: "admin_call (xr_app R) (get_remote_agent_by_token h) s = (Inr (Some a), s1)" "rx_hub s1 = rx_hub s" "rx_conns s1 = rx_conns s"
    using assms by (auto simp: store_up_def admin_call_def Let_def)
  then show ?thesis
    by (auto simp: ws_connect_def tryE_def bindE_def ignoring_def app_now_def infallible_def app_world_def hub_add_def Let_def
        split: prod.split) (metis admin_call_frame(1,2) hub_entry.select_convs(1) snd_conv)
qed

lemma three_steps: "r x y \<Longrightarrow> r y z \<Longrightarrow> r z u \<Longrightarrow> r\<^sup>*\<^sup>* x u"
  by (rule converse_rtranclp_into_rtranclp, assumption)+ simp

lemma require_agent_err: "require_agent R i s = (Inl r, t) \<Longrightarrow> \<exists>c m e. r = ErrReply c m e"
proof -
  assume r: "require_agent R i s = (Inl r, t)"
  obtain x u where x: "(else_500 (admin_call (xr_app R) (get_remote_agent i)) :: (remote_body reply, remote_agent option) rio) s = (x, u)"
    by fastforce
  show ?thesis
  proof (cases x)
    case (Inl e)
    with r x show ?thesis by (auto simp: require_agent_def bindE_def err_reply_def dest: else_500_err)
  next
    case (Inr found)
    with r x show ?thesis by (cases found) (auto simp: require_agent_def bindE_def agent_missing_def err_reply_def)
  qed
qed

lemma keeps_hub [keeps_intros]:
  "keeps (\<lambda>s. rx_hub s = h) (app_authz chk user ac res)" "keeps (\<lambda>s. rx_hub s = h) (require_agent R i)"
  unfolding require_agent_def by (intro keeps_intros keeps_app_authz keeps_admin_call; simp)+

lemma estop_needs_hub:
  assumes "\<not> hub_is_online i s"
  shows "reply_of (api_estop_remote_agent R chk user i) s \<noteq> (OkReply n b, s')"
proof
  assume "reply_of (api_estop_remote_agent R chk user i) s = (OkReply n b, s')"
  then obtain t where t: "(app_authz chk user Manage (resource_new RRemoteAgent i) :: (remote_body reply, unit) rio) s = (Inr (), t)"
    and rest: "reply_of (bindE (require_agent R i) (\<lambda>_. bindE getE (\<lambda>s.
       if \<not> hub_is_online i s then failE (err_reply 409 (Validation ''agent is not online''))
       else bindE (app_uuid (xr_app R)) (\<lambda>u.
         bindE (modifyE (hub_send_to i (DnEstop (uuid_show (ap_env (xr_app R)) u) ''admin triggered'' ''all''))) (\<lambda>_.
         bindE (audit_success (xr_app R) (cu_actor user) ''remote_agent.estop'' (remote_ref i) (agent_detail i)) (\<lambda>_.
         retE (OkReply 200 EstopSent))))))) t = (OkReply n b, s')"
    unfolding api_estop_remote_agent_def by (elim ok_after_authz)
  obtain r u where u: "require_agent R i t = (r, u)" by fastforce
  have "rx_hub t = rx_hub s" by (rule keeps_run [OF keeps_hub(1) t]) simp
  moreover have "rx_hub u = rx_hub t" by (rule keeps_run [OF keeps_hub(2) u]) simp
  ultimately have "\<not> hub_is_online i u" using assms by (simp add: hub_is_online_def)
  with rest u show False
    by (cases r) (auto simp: reply_bind bindE_ok [of getE] err_reply_def dest: require_agent_err)
qed

text \<open>
  An agent that connects again while its earlier connection is still known is lost: the new connection takes the
  place of the old one in the hub, which ends the old one, and the clean-up of the old one takes the new one out of the
  hub. The agent is then connected and heard, and shown as offline, and no request to stop it succeeds.
\<close>

theorem reconnecting_agent_is_lost:
  assumes "store_up R" and "hub_ok s" and "tbl_get (rx_hub s) i = Some e"
    and "wc_send_up (rx_conns s ! he_conn e)" and "wc_inbox (rx_conns s ! he_conn e) = []"
    and "h \<in> set (rx_upgrades s)" and "get_remote_agent_by_token h (ap_admin s) = (Inr (Some a), ap_admin s)" and "ra_id a = i"
  shows "\<exists>s'. (remote_step R chk)\<^sup>*\<^sup>* s s' \<and> \<not> hub_is_online i s' \<and>
    (\<forall>user n b t. reply_of (api_estop_remote_agent R chk user i) s' \<noteq> (OkReply n b, t)) \<and>
    (\<exists>c < length (rx_conns s'). wc_agent (rx_conns s' ! c) = i \<and> wc_send_up (rx_conns s' ! c) \<and> wc_recv_up (rx_conns s' ! c) \<and>
       wc_served (rx_conns s' ! c))"
proof -
  let ?c = "he_conn e" and ?n = "length (rx_conns s)"
  have "(i, e) \<in> set (rx_hub s)" using assms(3) by (simp add: tbl_get_def map_of_SomeD)
  with assms(2) have c: "?c < ?n" "wc_agent (rx_conns s ! ?c) = i" "wc_served (rx_conns s ! ?c)"
    by (auto simp: hub_ok_def list_all_iff entry_ok_def)
  define s1 where "s1 = snd (ws_connect R h (s\<lparr>rx_upgrades := remove1 h (rx_upgrades s)\<rparr>))"
  have step1: "remote_step R chk s s1" unfolding s1_def using assms(6) by (rule remote_step.Connect)
  obtain e2 new where e2: "he_conn e2 = ?n" "rx_hub s1 = tbl_upsert i e2 (\<lambda>_. e2) (rx_hub s)" "rx_conns s1 = rx_conns s @ [new]"
    and new: "wc_agent new = i" "wc_send_up new" "wc_recv_up new" "wc_served new"
    using connect_eq [OF assms(1), of h "s\<lparr>rx_upgrades := remove1 h (rx_upgrades s)\<rparr>" a] assms(7,8) by (auto simp: s1_def)
  have closed: "\<not> channel_open ?c s1"
  proof
    assume "channel_open ?c s1"
    then obtain j e' where j: "(j, e') \<in> set (rx_hub s1)" "he_conn e' = ?c" by (auto simp: channel_open_def list_ex_iff)
    moreover have "entry_ok (rx_conns s1) (j, e')" using hub_ok_step [OF step1 assms(2)] j(1) by (simp add: hub_ok_def list_all_iff)
    ultimately have "j = i" using c e2(3) by (auto simp: entry_ok_def nth_append)
    moreover have "tbl_get (rx_hub s1) j = Some e'"
      using hub_ok_step [OF step1 assms(2)] j(1) by (simp add: hub_ok_def tbl_get_mem)
    ultimately have "e' = e2" using assms(3) by (simp add: e2(2) tbl_get_upsert)
    with j(2) e2(1) c(1) show False by simp
  qed
  have at: "rx_conns s1 ! ?c = rx_conns s ! ?c" "?c < length (rx_conns s1)" using c(1) e2(3) by (simp_all add: nth_append)
  define s2 where "s2 = conn_update ?c (wc_send_up_update (\<lambda>_. False)) s1"
  have step2: "remote_step R chk s1 s2"
    unfolding s2_def by (rule remote_step.ChannelCloses) (use at closed assms(4,5) in simp_all)
  have at2: "rx_conns s2 ! ?c = (rx_conns s ! ?c)\<lparr>wc_send_up := False\<rparr>" "length (rx_conns s2) = Suc ?n" "rx_conns s2 ! ?n = new"
    using at c(1) e2(3) by (simp_all add: s2_def conn_update_def nth_append)
  define s3 where "s3 = snd (ws_cleanup R ?c s2)"
  have step3: "remote_step R chk s2 s3"
    unfolding s3_def by (rule remote_step.Cleanup) (use at2 c in simp_all)
  have "\<not> hub_is_online i s3"
    using c(2) at2 by (simp add: s3_def cleanup_eq conn_update_def hub_remove_def hub_is_online_def tbl_get_delete)
  moreover have "rx_conns s3 ! ?n = new" "?n < length (rx_conns s3)"
    using at2 c(1) by (simp_all add: s3_def cleanup_eq conn_update_def hub_remove_def)
  moreover have "(remote_step R chk)\<^sup>*\<^sup>* s s3" 
    by (rule three_steps [where r = "remote_step R chk", OF step1 step2 step3])
  ultimately show ?thesis using new estop_needs_hub [of i s3] by blast
qed

section \<open>Examples\<close>

definition allow_everything :: checker where
  "allow_everything = (\<lambda>a b c. retE Allow)"

definition demo_deleted :: remote_app where
  "demo_deleted = snd (reply_of (api_delete_remote_agent demo_remote_env allow_everything desktop_owner ''ra_1'') demo_connected)"

lemma demo_connected_rest:
  "ap_world demo_connected = empty_world\<lparr>w_calls := 3, w_clk := 1\<rparr>"
  "ap_admin demo_connected = demo_admin\<lparr>ad_remote := [(''ra_1'', demo_remote_row\<lparr>rr_status := ''online''\<rparr>)]\<rparr>"
  by (simp_all add: demo_connected_def demo_upgraded_eq ws_connect_def bindE_def tryE_def admin_call_def Let_def
      get_remote_agent_by_token_def ignoring_def update_remote_agent_status_def app_now_def infallible_def app_world_def
      now_io_def hub_add_def remote_agent_from_row_def tbl_update_def remote_status_text_def demo_remote_defs)

lemma demo_deletion:
  "reply_of (api_delete_remote_agent demo_remote_env allow_everything desktop_owner ''ra_1'') demo_connected = (OkReply 204 NoContent, demo_deleted)"
  unfolding prod_eq_iff
  by (simp add: demo_deleted_def api_delete_remote_agent_def reply_of_def bindE_def app_authz_def check_authz_def tryE_def
      allow_everything_def app_world_def hub_disconnect_def else_500_def admin_call_def Let_def store_delete_remote_agent_def
      hub_is_online_def hub_remove_def audit_success_def app_uuid_def app_now_def infallible_def fresh_uuid_def now_io_def note_audit_def
      demo_remote_env_def demo_env_def split: prod.split)

theorem deleted_agent_still_publishes_witness:
  "\<exists>s'' new. tbl_get (ad_remote (ap_admin demo_deleted)) ''ra_1'' = None \<and> remote_step demo_remote_env allow_everything demo_deleted s'' \<and>
    w_log (ap_world s'') = w_log (ap_world demo_deleted) @ new \<and>
    list_all2 (reports ''ra_1'') [\<lparr>re_event_type = ''atta.cron.triggered'', re_timestamp = 0, re_correlation_id = None,
       re_payload = mk_obj [(''command'', JStr ''go'')]\<rparr>] new"
  by (rule deleted_agent_still_publishes [OF _ demo_deletion, of 0 "''go''" "''m1''"])
    (simp_all add: bus_up_def demo_connected_eq, simp_all add: demo_remote_env_def demo_env_def)

theorem remote_report_starts_local_agent_witness:
  "\<exists>ev. w_log (ap_world (snd (handle_upstream_message demo_remote_env ''ra_1'' ''go'' demo_connected))) =
      w_log (ap_world demo_connected) @ [(''atta.cron.triggered'', ev)] \<and>
    (\<exists>job_id run_id prompt. cd_jobs (coord_handle demo_env demo_coord_env (''atta.cron.triggered'', ev) demo_coord) =
       cd_jobs demo_coord @ [CronJob job_id run_id (ce_schemas demo_coord_env (cd_tools demo_coord)) prompt ''go''])"
  by (rule remote_report_starts_local_agent [of _ _ "''m1''" "\<lparr>re_event_type = ''atta.cron.triggered'', re_timestamp = 0,
        re_correlation_id = None, re_payload = mk_obj [(''command'', JStr ''go'')]\<rparr>"])
    (simp_all add: bus_up_def demo_remote_env_def demo_env_def jget_str_def mk_obj_def)

theorem reconnecting_agent_is_lost_witness:
  "\<exists>s'. (remote_step demo_remote_env allow_everything)\<^sup>*\<^sup>* (demo_connected\<lparr>rx_upgrades := [''74'']\<rparr>) s' \<and> \<not> hub_is_online ''ra_1'' s' \<and>
    (\<forall>user n b t. reply_of (api_estop_remote_agent demo_remote_env allow_everything user ''ra_1'') s' \<noteq> (OkReply n b, t)) \<and>
    (\<exists>c < length (rx_conns s'). wc_agent (rx_conns s' ! c) = ''ra_1'' \<and> wc_send_up (rx_conns s' ! c) \<and> wc_recv_up (rx_conns s' ! c) \<and>
       wc_served (rx_conns s' ! c))"
  by (rule reconnecting_agent_is_lost [where h = "''74''" and e = "\<lparr>he_conn = 0, he_agent = remote_agent_from_row ''ra_1'' demo_remote_row, he_connected_at = 0\<rparr>"
        and a = "remote_agent_from_row ''ra_1'' (demo_remote_row\<lparr>rr_status := ''online''\<rparr>)"])
    (simp_all add: store_up_def hub_ok_def tbl_ok_def entry_ok_def demo_connected_eq demo_connected_rest tbl_get_def
      get_remote_agent_by_token_def remote_agent_from_row_def demo_remote_env_def demo_env_def demo_remote_row_def)

end
