(* ===== verification/Numbers.thy ===== *)
theory Numbers
  imports Ip_Address
begin

text \<open>The integer parsers of the standard library, and what they make of printed numbers.\<close>

text \<open>\<open>parse::<u64>\<close>: an optional plus sign and digits, at most \<open>u64::MAX\<close>.\<close>

definition parse_u64 :: "string \<Rightarrow> u64 option" where
  "parse_u64 s =
     (let ds = (case s of c # cs \<Rightarrow> if c = CHR ''+'' then cs else s | [] \<Rightarrow> s) in
      if ds \<noteq> [] \<and> list_all is_digit ds \<and> decimal ds < 2 ^ 64 then Some (of_nat (decimal ds)) else None)"

text \<open>\<open>parse::<i64>\<close> has an optional sign.\<close>

definition parse_i64 :: "string \<Rightarrow> int option" where
  "parse_i64 s =
     (let (neg, ds) = (case s of c # cs \<Rightarrow> if c = CHR ''+'' then (False, cs) else if c = CHR ''-'' then (True, cs) else (False, s)
                       | [] \<Rightarrow> (False, s));
          n = (if neg then - int (decimal ds) else int (decimal ds)) in
      if ds \<noteq> [] \<and> list_all is_digit ds \<and> - (2 ^ 63) \<le> n \<and> n < 2 ^ 63 then Some n else None)"

lemma parse_show_u64: "parse_u64 (show_nat (unat n)) = Some n"
proof -
  have "hd (show_nat (unat n)) \<noteq> CHR ''+''"
    using show_nat_digits [of "unat n"] by (cases "show_nat (unat n)") (auto simp: is_digit_def)
  then have "(case show_nat (unat n) of c # cs \<Rightarrow> if c = CHR ''+'' then cs else show_nat (unat n) | [] \<Rightarrow> show_nat (unat n)) = show_nat (unat n)"
    by (cases "show_nat (unat n)") simp_all
  then show ?thesis
    using show_nat_digits [of "unat n"] unsigned_less [of n] by (simp add: parse_u64_def Let_def)
qed

end
