(* ===== verification/Admin_Api.thy ===== *)
theory Admin_Api
  imports App Numbers Store_Admin_Facts
begin

text \<open>
  The handlers of nodes, packages, skills and usage (\<open>crates/core/src/server/handlers/node.rs\<close>, \<open>package.rs\<close>,
  \<open>skill.rs\<close> and \<open>usage.rs\<close>) on the application state of \<open>App\<close>.
\<close>

datatype admin_body =
    NodesBody "node_info list"
  | NodeBody node_info
  | StatusBody string
  | PackageBody package_record
  | DependenciesBody string string
  | SkillsBody "skill_def list"
  | SkillBody skill_def
  | SummaryBody usage_summary
  | DailyBody "usage_daily list"
  | ModelsBody "model_usage list"
  | CsvBody string
  | ErrorText string
  | EmptyBody
  | Panicked

type_synonym admin_request = "(app, admin_body) request"

text \<open>
  What the handlers read from other crates: the parser of skills, the sums and days of \<open>Store_Admin\<close>, the parser of
  instants, the instant a number of days earlier, which is \<open>None\<close> where the library panics, and a double with six
  decimals.
\<close>

record adenv =
  xa_app :: app_env
  xa_skill :: "json \<Rightarrow> string + skill_def"
  xa_fsum :: "f64 list \<Rightarrow> f64"
  xa_day :: "timestamp \<Rightarrow> string"
  xa_instant :: "string \<Rightarrow> timestamp option"
  xa_days_ago :: "timestamp \<Rightarrow> int \<Rightarrow> timestamp option"
  xa_fixed6 :: "f64 \<Rightarrow> string"

definition found_or_404 :: "atta_error \<Rightarrow> ('z, atta_error, 'a option) app_io \<Rightarrow> ('z, 'b reply, 'a) app_io" where
  "found_or_404 e m = bindE (else_500 m) (\<lambda>r. case r of None \<Rightarrow> failE (err_reply 404 e) | Some x \<Rightarrow> retE x)"

section \<open>Nodes\<close>

definition api_list_nodes :: "adenv \<Rightarrow> admin_request" where
  "api_list_nodes X = bindE (else_500 (admin_call (xa_app X) list_nodes)) (\<lambda>ns. retE (OkReply 200 (NodesBody ns)))"

definition api_get_node :: "adenv \<Rightarrow> string \<Rightarrow> admin_request" where
  "api_get_node X i =
     bindE (found_or_404 (NotFound ''node'' i) (admin_call (xa_app X) (get_node i))) (\<lambda>n. retE (OkReply 200 (NodeBody n)))"

text \<open>Both events are created and published in the same way; a failure of the bus is ignored.\<close>

definition publish_node_event :: "adenv \<Rightarrow> string \<Rightarrow> current_user \<Rightarrow> string \<Rightarrow> ('z, 'e, unit) app_io" where
  "publish_node_event X topic user i =
     (let E = ap_env (xa_app X) in
      bindE (app_uuid (xa_app X)) (\<lambda>c.
      ignoring (app_world (
        bindE (event_new E topic \<lparr>er_type = RNode, er_id = i\<rparr> (cu_actor user) c (mk_obj [(''node_id'', JStr i)])) (\<lambda>ev.
        publish E topic ev)))))"

definition change_node :: "adenv \<Rightarrow> checker \<Rightarrow> current_user \<Rightarrow> string \<Rightarrow> node_status \<Rightarrow> string \<Rightarrow> string \<Rightarrow> string \<Rightarrow> admin_request" where
  "change_node X chk user i st there topic shown =
     bindE (app_authz chk user Manage (resource_new RNode i)) (\<lambda>_.
     bindE (found_or_404 (NotFound ''node'' i) (admin_call (xa_app X) (get_node i))) (\<lambda>n.
     if nd_status n = st then retE (OkReply 200 (StatusBody there))
     else
       bindE (else_500 (admin_call (xa_app X) (update_node_status i st))) (\<lambda>_.
       bindE (publish_node_event X topic user i) (\<lambda>_.
       retE (OkReply 200 (StatusBody shown))))))"

definition drain_node :: "adenv \<Rightarrow> checker \<Rightarrow> current_user \<Rightarrow> string \<Rightarrow> admin_request" where
  "drain_node X chk user i = change_node X chk user i NodeDraining ''already_draining'' ''atta.node.drain'' ''draining''"

definition resume_node :: "adenv \<Rightarrow> checker \<Rightarrow> current_user \<Rightarrow> string \<Rightarrow> admin_request" where
  "resume_node X chk user i = change_node X chk user i NodeOnline ''already_online'' ''atta.node.resume'' ''online''"

section \<open>Packages\<close>

record install_request =
  ir_source :: string
  ir_url :: string
  ir_name :: string
  ir_package_type :: package_type
  ir_version :: string

definition parse_package_type :: "string \<Rightarrow> atta_error + package_type" where
  "parse_package_type s =
     (if s = ''plugin'' \<or> s = ''plugins'' then Inr PluginPackage
      else if s = ''flow'' \<or> s = ''flows'' then Inr FlowPackage
      else if s = ''skill'' \<or> s = ''skills'' then Inr SkillPackage
      else if s = ''tool'' \<or> s = ''tools'' then Inr ToolPackage
      else if s = ''mcp'' then Inr McpPackage
      else Inl (Validation (''invalid package type: '' @ squote s @ ''. Expected one of: plugin, flow, skill, tool, mcp'')))"

definition install_package :: "adenv \<Rightarrow> checker \<Rightarrow> current_user \<Rightarrow> install_request \<Rightarrow> admin_request" where
  "install_package X chk user req =
     bindE (app_authz chk user Create (resource_all RPackage)) (\<lambda>_.
     if ir_source req \<notin> {''git'', ''registry'', ''local''}
     then failE (err_reply 400 (Validation (''invalid source: '' @ squote (ir_source req) @ ''. Expected one of: git, registry, local'')))
     else
       bindE (app_now (xa_app X)) (\<lambda>now.
       let p = \<lparr>pk_name = ir_name req, pk_version = ir_version req, pk_type = ir_package_type req, pk_installed_at = now,
                pk_installed_by = actor_id (cu_actor user)\<rparr> in
       bindE (else_500 (admin_call (xa_app X) (register_package p))) (\<lambda>_.
       retE (OkReply 201 (PackageBody p)))))"

definition bump_patch_version :: "string \<Rightarrow> string" where
  "bump_patch_version v =
     (case split_on (CHR ''.'') v of
        [a, b, c] \<Rightarrow>
          (case parse_u64 c of
             Some n \<Rightarrow> a @ ''.'' @ b @ ''.'' @ show_nat (unat (n + 1))
           | None \<Rightarrow> v @ ''.1'')
      | _ \<Rightarrow> v @ ''.1'')"

definition upgrade_package :: "adenv \<Rightarrow> checker \<Rightarrow> current_user \<Rightarrow> string \<Rightarrow> string \<Rightarrow> admin_request" where
  "upgrade_package X chk user ty name =
     bindE (app_authz chk user Update (resource_new RPackage name)) (\<lambda>_.
     case parse_package_type ty of
       Inl e \<Rightarrow> failE (err_reply 400 e)
     | Inr _ \<Rightarrow>
         bindE (found_or_404 (NotFound ''package'' name) (admin_call (xa_app X) (get_package name))) (\<lambda>old.
         bindE (app_now (xa_app X)) (\<lambda>now.
         let p = \<lparr>pk_name = pk_name old, pk_version = bump_patch_version (pk_version old), pk_type = pk_type old,
                  pk_installed_at = now, pk_installed_by = actor_id (cu_actor user)\<rparr> in
         bindE (else_500 (admin_call (xa_app X) (register_package p))) (\<lambda>_.
         retE (OkReply 200 (PackageBody p))))))"

definition package_dependencies :: "adenv \<Rightarrow> string \<Rightarrow> string \<Rightarrow> admin_request" where
  "package_dependencies X ty name =
     (case parse_package_type ty of
        Inl e \<Rightarrow> failE (err_reply 400 e)
      | Inr _ \<Rightarrow>
          bindE (found_or_404 (NotFound ''package'' name) (admin_call (xa_app X) (get_package name))) (\<lambda>p.
          retE (OkReply 200 (DependenciesBody (pk_name p) (pk_version p)))))"

section \<open>Skills\<close>

definition api_list_skills :: "adenv \<Rightarrow> checker \<Rightarrow> current_user \<Rightarrow> admin_request" where
  "api_list_skills X chk user =
     bindE (app_authz chk user Read (resource_all RSkill)) (\<lambda>_.
     bindE (else_500 (admin_call (xa_app X) list_skills)) (\<lambda>ss. retE (OkReply 200 (SkillsBody ss))))"

definition parsed_skill :: "adenv \<Rightarrow> json \<Rightarrow> ('z, 'b reply, skill_def) app_io" where
  "parsed_skill X v =
     (case xa_skill X v of
        Inl e \<Rightarrow> failE (err_reply 400 (Validation (''invalid skill definition: '' @ e)))
      | Inr s \<Rightarrow> retE s)"

definition save_skill :: "adenv \<Rightarrow> nat \<Rightarrow> skill_def \<Rightarrow> admin_request" where
  "save_skill X c s = bindE (else_500 (admin_call_now (xa_app X) (register_skill s))) (\<lambda>_. retE (OkReply c (SkillBody s)))"

definition create_skill :: "adenv \<Rightarrow> checker \<Rightarrow> current_user \<Rightarrow> json \<Rightarrow> admin_request" where
  "create_skill X chk user v =
     bindE (app_authz chk user Create (resource_all RSkill)) (\<lambda>_.
     bindE (parsed_skill X v) (\<lambda>s.
     save_skill X 201 (s\<lparr>sk_source := ''imported''\<rparr>)))"

definition api_get_skill :: "adenv \<Rightarrow> checker \<Rightarrow> current_user \<Rightarrow> string \<Rightarrow> admin_request" where
  "api_get_skill X chk user i =
     bindE (app_authz chk user Read (resource_new RSkill i)) (\<lambda>_.
     bindE (found_or_404 (SkillNotFound i) (admin_call (xa_app X) (get_skill i))) (\<lambda>s.
     retE (OkReply 200 (SkillBody s))))"

definition update_skill :: "adenv \<Rightarrow> checker \<Rightarrow> current_user \<Rightarrow> string \<Rightarrow> json \<Rightarrow> admin_request" where
  "update_skill X chk user i v =
     bindE (app_authz chk user Update (resource_new RSkill i)) (\<lambda>_.
     bindE (found_or_404 (SkillNotFound i) (admin_call (xa_app X) (get_skill i))) (\<lambda>old.
     bindE (parsed_skill X v) (\<lambda>s.
     save_skill X 200 (s\<lparr>sk_source := sk_source old, sk_id := i\<rparr>))))"

definition api_delete_skill :: "adenv \<Rightarrow> checker \<Rightarrow> current_user \<Rightarrow> string \<Rightarrow> admin_request" where
  "api_delete_skill X chk user i =
     bindE (app_authz chk user Delete (resource_new RSkill i)) (\<lambda>_.
     bindE (found_or_404 (SkillNotFound i) (admin_call (xa_app X) (get_skill i))) (\<lambda>s.
     if sk_source s \<noteq> ''imported'' then failE (err_reply 403 (Validation ''cannot delete builtin skill''))
     else bindE (else_500 (admin_call (xa_app X) (delete_skill i))) (\<lambda>_. retE (OkReply 204 EmptyBody))))"

section \<open>Usage\<close>

definition parse_period :: "string \<Rightarrow> int" where
  "parse_period s =
     (case parse_i64 (rev (dropWhile (\<lambda>c. c = CHR ''d'') (rev s))) of Some n \<Rightarrow> n | None \<Rightarrow> 30)"

definition days_ago :: "adenv \<Rightarrow> timestamp \<Rightarrow> int \<Rightarrow> (app, admin_body reply, timestamp) io" where
  "days_ago X t n = (case xa_days_ago X t n of None \<Rightarrow> failE (OkReply 0 Panicked) | Some u \<Rightarrow> retE u)"

definition text_500 :: "('z, atta_error, 'a) app_io \<Rightarrow> ('z, admin_body reply, 'a) app_io" where
  "text_500 m = tryE m (\<lambda>r. case r of Inl e \<Rightarrow> failE (OkReply 500 (ErrorText (error_show e))) | Inr x \<Rightarrow> retE x)"

definition the_period :: "string option \<Rightarrow> string" where
  "the_period p = (case p of None \<Rightarrow> ''30d'' | Some s \<Rightarrow> s)"

definition usage_summary_handler :: "adenv \<Rightarrow> string option \<Rightarrow> admin_request" where
  "usage_summary_handler X p =
     bindE (app_now (xa_app X)) (\<lambda>now.
     bindE (days_ago X now (parse_period (the_period p))) (\<lambda>since.
     bindE (text_500 (admin_call (xa_app X) (get_usage_summary (xa_fsum X) since))) (\<lambda>u.
     retE (OkReply 200 (SummaryBody (u\<lparr>us_period := the_period p\<rparr>))))))"

definition period_bounds :: "adenv \<Rightarrow> string option \<Rightarrow> string option \<Rightarrow> (app, admin_body reply, timestamp \<times> timestamp) io" where
  "period_bounds X start stop =
     bindE (case Option.bind stop (xa_instant X) of Some t \<Rightarrow> retE t | None \<Rightarrow> app_now (xa_app X)) (\<lambda>b.
     bindE (case Option.bind start (xa_instant X) of Some t \<Rightarrow> retE t | None \<Rightarrow> days_ago X b 30) (\<lambda>a.
     retE (a, b)))"

definition usage_daily_handler :: "adenv \<Rightarrow> string option \<Rightarrow> string option \<Rightarrow> admin_request" where
  "usage_daily_handler X start stop =
     bindE (period_bounds X start stop) (\<lambda>(a, b).
     bindE (text_500 (admin_call (xa_app X) (get_usage_daily (xa_fsum X) (xa_day X) a b))) (\<lambda>ds.
     retE (OkReply 200 (DailyBody ds))))"

definition usage_by_model :: "adenv \<Rightarrow> admin_request" where
  "usage_by_model X =
     bindE (app_now (xa_app X)) (\<lambda>now.
     bindE (days_ago X now 30) (\<lambda>since.
     bindE (text_500 (admin_call (xa_app X) (get_usage_summary (xa_fsum X) since))) (\<lambda>u.
     retE (OkReply 200 (ModelsBody (us_by_model u))))))"

definition daily_line :: "adenv \<Rightarrow> usage_daily \<Rightarrow> string" where
  "daily_line X r =
     join '','' [ud_date r, show_nat (unat (ud_tokens r)), xa_fixed6 X (ud_cost_usd r), show_nat (unat (ud_input_tokens r)),
               show_nat (unat (ud_output_tokens r))] @ [CHR 0x0A]"

definition daily_csv :: "adenv \<Rightarrow> usage_daily list \<Rightarrow> string" where
  "daily_csv X rs = ''date,tokens,cost_usd,input_tokens,output_tokens'' @ CHR 0x0A # concat (map (daily_line X) rs)"

definition usage_export :: "adenv \<Rightarrow> string option \<Rightarrow> string option \<Rightarrow> admin_request" where
  "usage_export X start stop =
     bindE (period_bounds X start stop) (\<lambda>(a, b).
     bindE (text_500 (admin_call (xa_app X) (get_usage_daily (xa_fsum X) (xa_day X) a b))) (\<lambda>ds.
     retE (OkReply 200 (CsvBody (daily_csv X ds)))))"

end
