(* ===== verification/Middleware.thy ===== *)
theory Middleware
  imports App Flow_Props
begin

text \<open>
  Authentication of requests (\<open>crates/core/src/middleware.rs\<close>): the extractor that every handler takes its user from.
  The verification of a JWT and SHA-256 are arguments of the model; the rejection of a request is its text.
\<close>

datatype auth_mode = NoAuth | OidcBearer (iss: string) (aud: string) (secret: string) | ApiKeyMode

record jwt_claims =
  cl_sub :: string
  cl_roles :: "string list"

text \<open>
  The mode and the store are extensions of the request that the router adds; either may be missing. \<open>mw_decode\<close> takes the
  token, the issuer and the audience that are asked for, and the secret.
\<close>

record menv =
  mw_app :: app_env
  mw_sha256 :: "string \<Rightarrow> nat list"
  mw_decode :: "string \<Rightarrow> string \<Rightarrow> string \<Rightarrow> string \<Rightarrow> string + jwt_claims"
  mw_mode :: "auth_mode option"
  mw_store :: bool

definition auth_mode_default :: auth_mode where
  "auth_mode_default = NoAuth"

definition parse_role :: "string \<Rightarrow> role option" where
  "parse_role s =
     (let t = to_lower s in
      if t = ''owner'' then Some Owner else if t = ''admin'' then Some Admin else if t = ''operator'' then Some Operator
      else if t = ''developer'' then Some Developer else if t = ''approver'' then Some Approver
      else if t = ''viewer'' then Some Viewer else None)"

definition hash_api_key :: "menv \<Rightarrow> string \<Rightarrow> string" where
  "hash_api_key M key = hex_bytes (mw_sha256 M key)"

definition viewer_if_none :: "role list \<Rightarrow> role list" where
  "viewer_if_none rs = (if rs = [] then [Viewer] else rs)"

definition claims_user :: "jwt_claims \<Rightarrow> current_user" where
  "claims_user c = \<lparr>cu_actor = actor_user (cl_sub c), cu_roles = viewer_if_none (List.map_filter parse_role (cl_roles c))\<rparr>"

definition account_user :: "service_account \<Rightarrow> current_user" where
  "account_user a = \<lparr>cu_actor = \<lparr>actor_type = ServiceActor, actor_id = sa_name a\<rparr>, cu_roles = viewer_if_none (sa_roles a)\<rparr>"

definition validate_bearer_token :: "menv \<Rightarrow> string \<Rightarrow> auth_mode \<Rightarrow> string + current_user" where
  "validate_bearer_token M token mode =
     (case mode of
        OidcBearer i a k \<Rightarrow>
          (case mw_decode M token i a k of
             Inl e \<Rightarrow> Inl (''invalid token: '' @ e)
           | Inr c \<Rightarrow> Inr (claims_user c))
      | _ \<Rightarrow> Inl ''bearer token not supported in current auth mode'')"

definition validate_api_key :: "menv \<Rightarrow> string \<Rightarrow> ('z, string, current_user) app_io" where
  "validate_api_key M key =
     tryE (admin_call (mw_app M) (get_service_account_by_key (hash_api_key M key))) (\<lambda>r.
       case r of
         Inl _ \<Rightarrow> failE ''internal error during API key validation''
       | Inr None \<Rightarrow> failE ''invalid API key''
       | Inr (Some a) \<Rightarrow> retE (account_user a))"

text \<open>\<open>to_str\<close> refuses a header with a byte that is not visible ASCII; the code goes on with an empty text.\<close>

definition visible :: "char \<Rightarrow> bool" where
  "visible c \<longleftrightarrow> (let n = of_char c :: nat in n = 9 \<or> (32 \<le> n \<and> n < 127))"

definition header_text :: "string \<Rightarrow> string" where
  "header_text h = (if list_all visible h then h else [])"

definition from_request_parts :: "menv \<Rightarrow> string option \<Rightarrow> ('z, string, current_user) app_io" where
  "from_request_parts M header =
     (let mode = (case mw_mode M of None \<Rightarrow> auth_mode_default | Some m \<Rightarrow> m) in
      if mode = NoAuth then retE desktop_owner
      else case header of
        None \<Rightarrow> failE ''authorization header required''
      | Some h \<Rightarrow>
          (case strip_prefix ''Bearer '' (header_text h) of
             Some token \<Rightarrow> liftE (validate_bearer_token M token mode)
           | None \<Rightarrow>
               (case strip_prefix ''ApiKey '' (header_text h) of
                  Some key \<Rightarrow>
                    if mw_store M then validate_api_key M key
                    else failE ''server configuration error: store not available''
                | None \<Rightarrow> failE ''unsupported authorization scheme'')))"

section \<open>What authentication promises\<close>

lemma header_text_eq: "header_text h = c # cs \<Longrightarrow> h = c # cs"
  by (auto simp: header_text_def split: if_splits)

lemma account_found:
  "get_service_account_by_key h d = (Inr (Some a), d') \<Longrightarrow> a \<in> snd ` set (ad_accounts d') \<and> sa_enabled a \<and> sa_api_key_hash a = h"
  by (auto simp: get_service_account_by_key_def find_Some_iff image_iff)

lemma validate_api_key_ok:
  assumes "validate_api_key M key s = (Inr u, t)"
  shows "\<exists>a \<in> snd ` set (ad_accounts (ap_admin t)). sa_enabled a \<and> sa_api_key_hash a = hash_api_key M key \<and> u = account_user a"
  using assms
  by (auto simp: validate_api_key_def tryE_def admin_call_def Let_def dest!: account_found
      split: prod.splits sum.splits option.splits)

text \<open>
  C25. Where authentication is on, a request gets a user only from a credential in its header: the claims of a token that
  verifies for the configured issuer, audience and secret, or an enabled service account whose stored digest is that of
  the key.
\<close>

theorem no_user_without_credential:
  fixes s :: "'z app_scheme"
  assumes "mw_mode M = Some mode" and "mode \<noteq> NoAuth" and "from_request_parts M header s = (Inr u, t)"
  shows "(\<exists>i a k token c. mode = OidcBearer i a k \<and> header = Some (''Bearer '' @ token) \<and> mw_decode M token i a k = Inr c \<and> u = claims_user c) \<or>
    (\<exists>key acc. header = Some (''ApiKey '' @ key) \<and> acc \<in> snd ` set (ad_accounts (ap_admin t)) \<and> sa_enabled acc \<and>
       sa_api_key_hash acc = hash_api_key M key \<and> u = account_user acc)"
proof -
  obtain h where h: "header = Some h" using assms by (cases header) (auto simp: from_request_parts_def Let_def)
  show ?thesis
  proof (cases "strip_prefix ''Bearer '' (header_text h)")
    case (Some token)
    then have "h = ''Bearer '' @ token" unfolding strip_prefix_Some_iff by (simp add: header_text_eq)
    moreover have "validate_bearer_token M token mode = Inr u"
      using assms h Some by (auto simp: from_request_parts_def Let_def)
    ultimately show ?thesis using h by (auto simp: validate_bearer_token_def split: auth_mode.splits sum.splits)
  next
    case None
    with assms h obtain key where key: "strip_prefix ''ApiKey '' (header_text h) = Some key"
      and run: "validate_api_key M key s = (Inr u, t)"
      by (auto simp: from_request_parts_def Let_def split: option.splits if_splits)
    from key have "h = ''ApiKey '' @ key" unfolding strip_prefix_Some_iff by (simp add: header_text_eq)
    with validate_api_key_ok [OF run] h show ?thesis by blast
  qed
qed

definition keyed_app :: app where
  "keyed_app =
     \<lparr>ap_world = demo_world demo_flow (demo_db ''review'' ''running'' (JObj [])),
      ap_admin = admin_empty\<lparr>ad_accounts := [(7, \<lparr>sa_id = 7, sa_name = ''ci'', sa_api_key_hash = ''6b'', sa_roles = [],
        sa_created_at = 0, sa_enabled = True\<rparr>)]\<rparr>, ap_audit = []\<rparr>"

definition keyed_env :: menv where
  "keyed_env = \<lparr>mw_app = \<lparr>ap_env = demo_env, ap_others = (\<lambda>_ d. d)\<rparr>, mw_sha256 = map of_char, mw_decode = (\<lambda>_ _ _ _. Inl []),
     mw_mode = Some ApiKeyMode, mw_store = True\<rparr>"

theorem no_user_without_credential_witness:
  "\<exists>t key acc. from_request_parts keyed_env (Some ''ApiKey k'') keyed_app =
     (Inr \<lparr>cu_actor = \<lparr>actor_type = ServiceActor, actor_id = ''ci''\<rparr>, cu_roles = [Viewer]\<rparr>, t) \<and>
   ''ApiKey k'' = ''ApiKey '' @ key \<and> acc \<in> snd ` set (ad_accounts (ap_admin t)) \<and> sa_api_key_hash acc = hash_api_key keyed_env key"
proof -
  let ?u = "\<lparr>cu_actor = \<lparr>actor_type = ServiceActor, actor_id = ''ci''\<rparr>, cu_roles = [Viewer]\<rparr>"
  have "fst (from_request_parts keyed_env (Some ''ApiKey k'') keyed_app) = Inr ?u" by code_simp
  then obtain t where t: "from_request_parts keyed_env (Some ''ApiKey k'') keyed_app = (Inr ?u, t)"
    by (cases "from_request_parts keyed_env (Some ''ApiKey k'') keyed_app") simp
  have mode: "mw_mode keyed_env = Some ApiKeyMode" "ApiKeyMode \<noteq> NoAuth" by (simp_all add: keyed_env_def)
  from no_user_without_credential [OF mode t] t show ?thesis by auto
qed

text \<open>Every authorisation check of the handlers asks for the actor only: the roles in a token or an account decide nothing.\<close>

lemma token_roles_decide_nothing: "cu_actor u = cu_actor v \<Longrightarrow> app_authz chk u act res = app_authz chk v act res"
  by (simp add: app_authz_def check_authz_def)

text \<open>
  A token with the subject \<open>system\<close> is allowed every action on every resource by the role table, whatever roles it names.
\<close>

lemma subject_system_may_all: "cl_sub c = ''system'' \<Longrightarrow> app_authz (rbac_check E) (claims_user c) act res s = (Inr (), s)"
  by (simp add: app_authz_def check_authz_def claims_user_def actor_user_def rbac_check_def app_world_def tryE_def retE_def)

end
