(* ===== verification/Admin_Props.thy ===== *)
theory Admin_Props
  imports Admin_Api Middleware
begin

text \<open>
  What the handlers of \<open>Admin_Api\<close> achieve: nodes that are drained, packages that are upgraded, skills that are deleted.
\<close>

section \<open>Steps of a request\<close>

lemma ok_after_found:
  fixes m :: "('z, atta_error, 'a option) app_io" and k :: "'a \<Rightarrow> ('z app_scheme, 'b) request"
  assumes "reply_of (bindE (found_or_404 e m) k) s = (OkReply c b, s')"
  obtains x t where "m s = (Inr (Some x), t)" and "reply_of (k x) t = (OkReply c b, s')"
proof (cases "(else_500 m :: ('z, 'b reply, 'a option) app_io) s")
  case (Pair r t)
  have bound: "reply_of (bindE (found_or_404 e m) k) s =
      (case r of Inl r \<Rightarrow> (r, t) | Inr v \<Rightarrow> (case v of None \<Rightarrow> (err_reply 404 e, t) | Some x \<Rightarrow> reply_of (k x) t))"
    using Pair by (cases r) (auto simp: found_or_404_def reply_bind bindE_def [of "else_500 m"] split: option.split)
  with assms Pair that show thesis
    by (cases r) (auto simp: else_500_ok err_reply_def dest!: else_500_err split: option.splits)
qed

lemma admin_call_ok:
  assumes "admin_call E op s = (Inr x, t)"
  shows "\<exists>d. op d = (Inr x, ap_admin t)"
  using assms by (auto simp: admin_call_def Let_def split: option.splits prod.splits)

section \<open>Nodes\<close>

definition node_drains :: "string \<Rightarrow> admin_db \<Rightarrow> bool" where
  "node_drains i d \<longleftrightarrow> (\<exists>r. tbl_get (ad_nodes d) i = Some r \<and> nr_status r = ''draining'')"

lemma node_drains_upsert: "node_drains i d \<Longrightarrow> node_drains i (snd (upsert_node n d))"
  by (auto simp: node_drains_def upsert_node_def Let_def tbl_get_upsert)

lemma node_drains_upserts: "node_drains i d \<Longrightarrow> node_drains i (fold (\<lambda>n. snd \<circ> upsert_node n) ns d)"
  by (induction ns arbitrary: d) (simp_all add: node_drains_upsert)

lemma status_text_draining: "node_status_of_text s = NodeDraining \<Longrightarrow> s = ''draining''"
  by (auto simp: node_status_of_text_def split: if_splits)

lemma publish_node_event_admin: "publish_node_event X topic user i s = (r, t) \<Longrightarrow> ap_admin t = ap_admin s \<and> (\<exists>u. r = Inr u)"
  by (auto simp: publish_node_event_def Let_def bindE_def ignoring_def tryE_def app_uuid_def infallible_def app_world_def
      split: prod.splits sum.splits)

text \<open>
  A node that a request has drained stays so however often it reports, whatever it reports.
\<close>

theorem drained_node_stays_drained:
  assumes "reply_of (drain_node X chk user i) s = (OkReply 200 b, s')"
  shows "node_drains i (fold (\<lambda>n. snd \<circ> upsert_node n) reports (ap_admin s'))"
proof (rule node_drains_upserts)
  note drain = assms [unfolded drain_node_def change_node_def]
  obtain t1 where "reply_of (bindE (found_or_404 (NotFound ''node'' i) (admin_call (xa_app X) (get_node i)))
      (\<lambda>n. if nd_status n = NodeDraining then retE (OkReply 200 (StatusBody ''already_draining''))
       else bindE (else_500 (admin_call (xa_app X) (update_node_status i NodeDraining))) (\<lambda>_.
        bindE (publish_node_event X ''atta.node.drain'' user i) (\<lambda>_. retE (OkReply 200 (StatusBody ''draining'')))))) t1 = (OkReply 200 b, s')"
    using drain by (rule ok_after_authz) blast
  then obtain n t2 where get: "admin_call (xa_app X) (get_node i) t1 = (Inr (Some n), t2)"
    and rest: "reply_of (if nd_status n = NodeDraining then retE (OkReply 200 (StatusBody ''already_draining''))
       else bindE (else_500 (admin_call (xa_app X) (update_node_status i NodeDraining))) (\<lambda>_.
        bindE (publish_node_event X ''atta.node.drain'' user i) (\<lambda>_. retE (OkReply 200 (StatusBody ''draining''))))) t2 = (OkReply 200 b, s')"
    by (rule ok_after_found) blast
  show "node_drains i (ap_admin s')"
  proof (cases "nd_status n = NodeDraining")
    case True
    with rest have "s' = t2" by simp
    with admin_call_ok [OF get] True show ?thesis
      by (auto simp: node_drains_def get_node_def node_from_row_def dest: status_text_draining)
  next
    case False
    then have "reply_of (bindE (else_500 (admin_call (xa_app X) (update_node_status i NodeDraining))) (\<lambda>_.
        bindE (publish_node_event X ''atta.node.drain'' user i) (\<lambda>_. retE (OkReply 200 (StatusBody ''draining''))))) t2 = (OkReply 200 b, s')"
      using rest by simp
    then obtain u t3 where upd: "admin_call (xa_app X) (update_node_status i NodeDraining) t2 = (Inr u, t3)"
      and rest3: "reply_of (bindE (publish_node_event X ''atta.node.drain'' user i) (\<lambda>_. retE (OkReply 200 (StatusBody ''draining'')))) t3 = (OkReply 200 b, s')"
      by (rule ok_after_500) blast
    from rest3 have "ap_admin s' = ap_admin t3"
      by (auto simp: reply_bind dest: publish_node_event_admin split: prod.splits sum.splits)
    moreover have "node_drains i (ap_admin t3)"
      using admin_call_ok [OF upd]
      by (auto simp: node_drains_def update_node_status_def tbl_get_update node_status_text_def tbl_affected_zero dest!: sym [of _ "ap_admin t3"] split: if_splits)
    ultimately show ?thesis by simp
  qed
qed

definition two_nodes :: admin_db where
  "two_nodes = snd (upsert_node \<lparr>nd_id = ''n1'', nd_hostname = ''h'', nd_labels = [], nd_status = NodeOnline,
     nd_capacity = \<lparr>nc_total_memory = 8, nc_available_memory = 4, nc_running_agents = 0, nc_max_concurrent = 2\<rparr>,
     nd_last_heartbeat = 5\<rparr> admin_empty)"

definition node_app :: app where
  "node_app = \<lparr>ap_world = demo_world demo_flow (demo_db ''review'' ''running'' (JObj [])), ap_admin = two_nodes, ap_audit = []\<rparr>"

definition demo_admin_env :: adenv where
  "demo_admin_env =
     \<lparr>xa_app = \<lparr>ap_env = demo_env, ap_others = (\<lambda>_ d. d)\<rparr>, xa_skill = (\<lambda>_. Inl []), xa_fsum = (\<lambda>_. 0), xa_day = (\<lambda>_. []),
      xa_instant = (\<lambda>_. None), xa_days_ago = (\<lambda>t n. Some (t - n)), xa_fixed6 = (\<lambda>_. [])\<rparr>"

theorem drained_node_stays_drained_witness:
  "\<exists>s' r. reply_of (drain_node demo_admin_env allow_all_check desktop_owner ''n1'') node_app = (OkReply 200 (StatusBody ''draining''), s') \<and>
     tbl_get (ad_nodes (snd (upsert_node (node_from_row ''n1'' (the (tbl_get (ad_nodes two_nodes) ''n1''))) (ap_admin s')))) ''n1'' = Some r \<and>
     nr_status r = ''draining''"
proof -
  let ?r = "reply_of (drain_node demo_admin_env allow_all_check desktop_owner ''n1'') node_app"
  have "fst ?r = OkReply 200 (StatusBody ''draining'')" by code_simp
  then obtain s' where s': "?r = (OkReply 200 (StatusBody ''draining''), s')" by (cases ?r) simp
  from drained_node_stays_drained [OF this, of "[node_from_row ''n1'' (the (tbl_get (ad_nodes two_nodes) ''n1''))]"] s'
  show ?thesis by (auto simp: node_drains_def)
qed

section \<open>Skills\<close>

text \<open>
  Only imported skills can be deleted; but creating a skill overwrites one with the same identifier and marks it as
  imported, so whoever may create and delete skills removes a builtin one with two requests.
\<close>

definition store_quiet :: "app_env \<Rightarrow> bool" where
  "store_quiet E \<longleftrightarrow> (\<forall>n. db_err (ap_env E) n = None) \<and> (\<forall>n d. ap_others E n d = d)"

lemma admin_call_quiet:
  "store_quiet E \<Longrightarrow> admin_call E op s =
     (fst (op (ap_admin s)), s\<lparr>ap_world := (ap_world s)\<lparr>w_calls := Suc (w_calls (ap_world s))\<rparr>, ap_admin := snd (op (ap_admin s))\<rparr>)"
  by (simp add: admin_call_def Let_def store_quiet_def split: prod.split)

lemma builtin_skill_kept:
  assumes "store_quiet (xa_app X)" and "tbl_get (ad_skills (ap_admin s)) i = Some r" and "sk_source (sr_definition r) \<noteq> ''imported''"
  shows "reply_code (fst (reply_of (api_delete_skill X allow_all_check user i) s)) = 403 \<and>
    ap_admin (snd (reply_of (api_delete_skill X allow_all_check user i) s)) = ap_admin s"
  using assms
  by (simp add: api_delete_skill_def reply_bind app_authz_def check_authz_def allow_all_check_def app_world_def tryE_def
      found_or_404_def bindE_def else_500_def admin_call_quiet get_skill_def err_reply_def retE_def failE_def reply_of_def)

lemma builtin_skill_can_be_removed:
  assumes "store_quiet (xa_app X)" and "xa_skill X v = Inr sk" and "sk_id sk = i"
    and "reply_of (create_skill X allow_all_check user v) s = (r1, s1)" and "reply_of (api_delete_skill X allow_all_check user i) s1 = (r2, s2)"
  shows "reply_code r1 = 201 \<and> reply_code r2 = 204 \<and> tbl_get (ad_skills (ap_admin s2)) i = None"
proof -
  have stored: "ap_admin s1 = snd (register_skill (sk\<lparr>sk_source := ''imported''\<rparr>) (clk (ap_env (xa_app X)) (w_clk (ap_world s))) (ap_admin s)) \<and> reply_code r1 = 201"
    using assms(1,2,4)
    by (auto simp: create_skill_def reply_bind app_authz_def check_authz_def allow_all_check_def app_world_def tryE_def
        parsed_skill_def save_skill_def bindE_def else_500_def admin_call_now_def app_now_def infallible_def now_io_def
        admin_call_quiet register_skill_def retE_def reply_of_def)
  have there: "get_skill i (ap_admin s1) = (Inr (Some (skill_stored (sk\<lparr>sk_source := ''imported''\<rparr>))), ap_admin s1)"
    using stored skill_roundtrip [of "sk\<lparr>sk_source := ''imported''\<rparr>"] assms(3) by simp
  then have "tbl_get (ad_skills (ap_admin s1)) i \<noteq> None" by (auto simp: get_skill_def)
  with assms(1,5) there stored show ?thesis
    by (auto simp: api_delete_skill_def reply_bind app_authz_def check_authz_def allow_all_check_def app_world_def tryE_def
        found_or_404_def bindE_def else_500_def admin_call_quiet retE_def failE_def reply_of_def delete_skill_def
        tbl_affected_zero tbl_get_delete skill_stored_def)
qed

section \<open>Versions\<close>

text \<open>
  An upgrade always registers another version: bumping a version never gives it back, also where its last number is
  the largest there is.
\<close>

theorem upgrade_changes_version: "bump_patch_version v \<noteq> v"
proof (cases "\<exists>a b c n. split_on (CHR ''.'') v = [a, b, c] \<and> parse_u64 c = Some n")
  case True
  then obtain a b c n where v: "split_on (CHR ''.'') v = [a, b, c]" and n: "parse_u64 c = Some n" by blast
  have "show_nat (unat (n + 1)) \<noteq> c" using parse_show_u64 [of "n + 1"] n by auto
  with v n join_split_on [of "CHR ''.''" v] show ?thesis by (auto simp: bump_patch_version_def)
next
  case False
  then have "bump_patch_version v = v @ ''.1''"
    by (auto simp: bump_patch_version_def split: list.splits option.splits)
  then show ?thesis by simp
qed

end
