(* ===== verification/Store_Readback.thy ===== *)
theory Store_Readback
  imports Store_Admin_Facts
begin

text \<open>
  What the registries of the store show after any sequence of statements (\<open>crates/store/src/sqlite.rs\<close>), against an
  abstract registry that is a map from keys to entries: the readers of tools, plugins, skills, packages, nodes and MCP
  servers return what was written last under each key and not removed since.
\<close>

section \<open>Statements and abstract registries\<close>











section \<open>The tables implement them\<close>





lemma absent_delete: "tbl_affected k t = 0 \<Longrightarrow> tbl_get t k = None"
  by (simp add: tbl_affected_zero)












section \<open>The readers\<close>









section \<open>Properties\<close>






end
