(* ===== verification/Tool_Registry.thy ===== *)
theory Tool_Registry
  imports Guard Table Tool_Executor
begin

text \<open>
  The registry of tools (\<open>crates/core/src/tool_registry.rs\<close>) with the registry of MCP servers behind it
  (\<open>crates/mcp/src/registry.rs\<close>), and what the security guard makes of the names in it.

  A handler is a function on the world \<open>'w\<close> the tools act on. The maps are tables; where the code iterates over one, the
  order is that of the table. \<open>js\<close> is the compact JSON text of a value.
\<close>

section \<open>MCP servers\<close>

record mcp_tool_info =
  mt_name :: string
  mt_description :: string
  mt_input_schema :: json

datatype mcp_content = McpText string | McpImage string string | McpResource string string

record mcp_tool_result =
  mx_is_error :: bool
  mx_content :: "mcp_content list"

record 'w mcp_client =
  ml_list_tools :: "'w \<Rightarrow> (atta_error + mcp_tool_info list) \<times> 'w"
  ml_call_tool :: "string \<Rightarrow> json \<Rightarrow> 'w \<Rightarrow> (atta_error + mcp_tool_result) \<times> 'w"
  ml_ping :: "'w \<Rightarrow> (atta_error + unit) \<times> 'w"

type_synonym 'w mcp_clients = "(string, 'w mcp_client) table"

definition mcp_add :: "string \<Rightarrow> 'w mcp_client \<Rightarrow> 'w mcp_clients \<Rightarrow> 'w mcp_clients" where
  "mcp_add n c m = tbl_upsert n c (\<lambda>_. c) m"

definition mcp_remove :: "string \<Rightarrow> 'w mcp_clients \<Rightarrow> 'w mcp_client option \<times> 'w mcp_clients" where
  "mcp_remove n m = (tbl_get m n, tbl_delete n m)"

definition mcp_get :: "string \<Rightarrow> 'w mcp_clients \<Rightarrow> 'w mcp_client option" where
  "mcp_get n m = tbl_get m n"

definition mcp_list_servers :: "'w mcp_clients \<Rightarrow> string list" where
  "mcp_list_servers m = map fst m"

text \<open>A server that cannot list its tools is left out.\<close>

fun mcp_get_tools :: "'w mcp_clients \<Rightarrow> 'w \<Rightarrow> (mcp_tool_info \<times> string) list \<times> 'w" where
  "mcp_get_tools [] w = ([], w)"
| "mcp_get_tools ((n, c) # m) w =
     (case ml_list_tools c w of
        (Inl _, w1) \<Rightarrow> mcp_get_tools m w1
      | (Inr ts, w1) \<Rightarrow> (case mcp_get_tools m w1 of (rest, w2) \<Rightarrow> (map (\<lambda>t. (t, n)) ts @ rest, w2)))"

definition mcp_call_tool :: "'w mcp_clients \<Rightarrow> string \<Rightarrow> string \<Rightarrow> json \<Rightarrow> 'w \<Rightarrow> (atta_error + mcp_tool_result) \<times> 'w" where
  "mcp_call_tool m server tool args w =
     (case tbl_get m server of
        None \<Rightarrow> (Inl (McpServerNotFound server), w)
      | Some c \<Rightarrow> ml_call_tool c tool args w)"

section \<open>The registry\<close>

record 'w native_tool =
  nt_name :: string
  nt_description :: string
  nt_risk_level :: risk_level
  nt_parameters :: json
  nt_execute :: "json \<Rightarrow> 'w \<Rightarrow> (atta_error + json) \<times> 'w"

record 'w tool_reg =
  rg_tools :: "(string, tool_def) table"
  rg_builtins :: "(string, json \<Rightarrow> 'w \<Rightarrow> (atta_error + json) \<times> 'w) table"
  rg_natives :: "(string, 'w native_tool) table"
  rg_mcp :: "'w mcp_clients option"

definition reg_new :: "'w tool_reg" where
  "reg_new = \<lparr>rg_tools = [], rg_builtins = [], rg_natives = [], rg_mcp = None\<rparr>"

definition with_mcp_registry :: "'w mcp_clients \<Rightarrow> 'w tool_reg \<Rightarrow> 'w tool_reg" where
  "with_mcp_registry m R = R\<lparr>rg_mcp := Some m\<rparr>"

definition reg_register :: "tool_def \<Rightarrow> 'w tool_reg \<Rightarrow> 'w tool_reg" where
  "reg_register t R = R\<lparr>rg_tools := tbl_upsert (tool_name t) t (\<lambda>_. t) (rg_tools R)\<rparr>"

definition reg_unregister :: "string \<Rightarrow> 'w tool_reg \<Rightarrow> 'w tool_reg" where
  "reg_unregister n R = R\<lparr>rg_tools := tbl_delete n (rg_tools R)\<rparr>"

definition reg_register_builtin :: "string \<Rightarrow> (json \<Rightarrow> 'w \<Rightarrow> (atta_error + json) \<times> 'w) \<Rightarrow> 'w tool_reg \<Rightarrow> 'w tool_reg" where
  "reg_register_builtin n h R = R\<lparr>rg_builtins := tbl_upsert n h (\<lambda>_. h) (rg_builtins R)\<rparr>"

definition native_def :: "'w native_tool \<Rightarrow> tool_def" where
  "native_def t =
     \<lparr>tool_name = nt_name t, tool_description = nt_description t, tool_binding = NativeBinding (nt_name t),
      tool_risk = nt_risk_level t, tool_parameters = nt_parameters t\<rparr>"

definition reg_register_native :: "'w native_tool \<Rightarrow> 'w tool_reg \<Rightarrow> 'w tool_reg" where
  "reg_register_native t R =
     (let R1 = reg_register (native_def t) R
      in R1\<lparr>rg_natives := tbl_upsert (nt_name t) t (\<lambda>_. t) (rg_natives R1)\<rparr>)"

definition reg_replace_native :: "'w native_tool \<Rightarrow> 'w tool_reg \<Rightarrow> 'w tool_reg" where
  "reg_replace_native t R = reg_register_native t R"

text \<open>A name without the prefix is also looked up with it, underscores written as hyphens.\<close>

definition prefixed_name :: "string \<Rightarrow> string" where
  "prefixed_name n = ''atta-'' @ map (\<lambda>c. if c = CHR ''_'' then CHR ''-'' else c) n"

definition reg_get :: "'w tool_reg \<Rightarrow> string \<Rightarrow> tool_def option" where
  "reg_get R n =
     (case tbl_get (rg_tools R) n of
        Some t \<Rightarrow> Some t
      | None \<Rightarrow> if \<not> starts_with n ''atta-'' then tbl_get (rg_tools R) (prefixed_name n) else None)"

definition reg_get_schema :: "'w tool_reg \<Rightarrow> string \<Rightarrow> tool_schema option" where
  "reg_get_schema R n = map_option tool_schema_from (reg_get R n)"

definition reg_list_schemas :: "'w tool_reg \<Rightarrow> tool_schema list" where
  "reg_list_schemas R = map (tool_schema_from \<circ> snd) (rg_tools R)"

definition reg_list_all :: "'w tool_reg \<Rightarrow> tool_def list" where
  "reg_list_all R = map snd (rg_tools R)"

definition content_json :: "mcp_content \<Rightarrow> json" where
  "content_json c =
     (case c of
        McpText t \<Rightarrow> mk_obj [(''type'', JStr ''text''), (''text'', JStr t)]
      | McpImage d m \<Rightarrow> mk_obj [(''type'', JStr ''image''), (''data'', JStr d), (''mime_type'', JStr m)]
      | McpResource u t \<Rightarrow> mk_obj [(''type'', JStr ''resource''), (''uri'', JStr u), (''text'', JStr t)])"

definition mcp_content_to_json :: "mcp_content list \<Rightarrow> json" where
  "mcp_content_to_json cs = (case cs of [McpText t] \<Rightarrow> JStr t | _ \<Rightarrow> JArr (map content_json cs))"

definition reg_invoke :: "(json \<Rightarrow> string) \<Rightarrow> 'w tool_reg \<Rightarrow> string \<Rightarrow> json \<Rightarrow> 'w \<Rightarrow> (atta_error + json) \<times> 'w" where
  "reg_invoke js R n args w =
     (case reg_get R n of
        None \<Rightarrow> (Inl (ToolNotFound n), w)
      | Some t \<Rightarrow>
          (case tool_binding t of
             BuiltinBinding h \<Rightarrow>
               (case tbl_get (rg_builtins R) h of
                  Some f \<Rightarrow> f args w
                | None \<Rightarrow> (Inl (ToolNotFound (''builtin handler '' @ squote h @ '' not registered'')), w))
           | NativeBinding h \<Rightarrow>
               (case tbl_get (rg_natives R) h of
                  Some k \<Rightarrow> nt_execute k args w
                | None \<Rightarrow> (Inl (ToolNotFound (''native handler '' @ squote h @ '' not registered'')), w))
           | McpBinding s \<Rightarrow>
               (case rg_mcp R of
                  None \<Rightarrow> (Inl (ToolNotFound (''mcp tool '' @ squote n @ '' on server '' @ squote s @
                              '': MCP registry not configured'')), w)
                | Some m \<Rightarrow>
                    (case mcp_call_tool m s n args w of
                       (Inl e, w1) \<Rightarrow> (Inl e, w1)
                     | (Inr r, w1) \<Rightarrow>
                         if mx_is_error r
                         then (Inl (OtherError (''MCP tool '' @ squote n @ '' execution failed: '' @
                                 js (mcp_content_to_json (mx_content r)))), w1)
                         else (Inr (mcp_content_to_json (mx_content r)), w1)))))"

section \<open>What a registry promises\<close>

text \<open>
  A client registers a native tool and relies on its name from then on: its calls reach its code, whatever tools of other
  names are registered later.
\<close>

locale native_registry =
  fixes add :: "'t \<Rightarrow> 'r \<Rightarrow> 'r" and name_of :: "'t \<Rightarrow> string" and runs :: "'t \<Rightarrow> json \<Rightarrow> 'w \<Rightarrow> (atta_error + json) \<times> 'w"
    and call :: "'r \<Rightarrow> string \<Rightarrow> json \<Rightarrow> 'w \<Rightarrow> (atta_error + json) \<times> 'w" and present :: "'r \<Rightarrow> 't \<Rightarrow> bool"
  assumes present_added: "present (add t r) t"
    and present_other: "name_of u \<noteq> name_of t \<Longrightarrow> present r t \<Longrightarrow> present (add u r) t"
    and present_runs: "present r t \<Longrightarrow> call r (name_of t) args w = runs t args w"
begin

lemma present_more: "present r t \<Longrightarrow> name_of t \<notin> name_of ` set us \<Longrightarrow> present (fold add us r) t"
proof (induction us arbitrary: r)
  case (Cons u us)
  then have "present (add u r) t" by (intro present_other) auto
  with Cons show ?case by simp
qed simp

lemma call_after_more:
  "name_of t \<notin> name_of ` set us \<Longrightarrow> call (fold add us (add t r)) (name_of t) args w = runs t args w"
  by (intro present_runs present_more present_added)

end

definition own_entry :: "'w tool_reg \<Rightarrow> 'w native_tool \<Rightarrow> bool" where
  "own_entry R t \<longleftrightarrow> tbl_get (rg_tools R) (nt_name t) = Some (native_def t) \<and> tbl_get (rg_natives R) (nt_name t) = Some t"

lemma own_entry_added: "own_entry (reg_register_native t R) t"
  by (simp add: own_entry_def reg_register_native_def reg_register_def native_def_def tbl_get_upsert split: option.split)

lemma own_entry_other: "nt_name u \<noteq> nt_name t \<Longrightarrow> own_entry R t \<Longrightarrow> own_entry (reg_register_native u R) t"
  by (simp add: own_entry_def reg_register_native_def reg_register_def native_def_def tbl_get_upsert)

lemma own_entry_runs: "own_entry R t \<Longrightarrow> reg_invoke js R (nt_name t) args w = nt_execute t args w"
  by (simp add: own_entry_def reg_invoke_def reg_get_def) (simp add: native_def_def)

interpretation natives: native_registry reg_register_native nt_name nt_execute "reg_invoke js" own_entry for js
  by unfold_locales (simp_all add: own_entry_added own_entry_other own_entry_runs)

section \<open>The guard and the names of the tools\<close>

text \<open>
  The tools of the program are registered under names with the prefix \<open>atta-\<close> (\<open>crates/tools/src\<close>). The lists of
  the guard hold the old names without it.
\<close>

text \<open>The stop is not for all tools, does not freeze this one, and blocks no domain that its argument \<open>url\<close> contains.\<close>

definition clear_of_stops :: "'w guard \<Rightarrow> string \<Rightarrow> json \<Rightarrow> bool" where
  "clear_of_stops g tool args \<longleftrightarrow>
     (case gd_estop g of None \<Rightarrow> True
      | Some s \<Rightarrow> \<not> es_kill_all s \<and> \<not> List.member (es_frozen_tools s) tool \<and>
          (case jget_str args ''url'' of None \<Rightarrow> True | Some url \<Rightarrow> list_all (\<lambda>d. \<not> contains url d) (es_blocked_domains s)))"

definition within_rate :: "genv_guard \<Rightarrow> guard_config \<Rightarrow> 'w guard \<Rightarrow> bool" where
  "within_rate G cfg g \<longleftrightarrow> fst (record_call (ge_now G (gd_ticks g)) (gd_tracker g)) \<le> sp_max_calls (gc_policy cfg)"

lemma prefix_not_listed:
  assumes "starts_with tool ''atta-''"
  shows "tool \<notin> set network_tools" "tool \<notin> set shell_tools" "tool \<notin> set file_tools"
    "classify tool args = Medium"
proof -
  obtain s where "tool = ''atta-'' @ s" using assms by (auto simp: starts_with_iff)
  then show "tool \<notin> set network_tools" "tool \<notin> set shell_tools" "tool \<notin> set file_tools"
    "classify tool args = Medium"
    by (simp_all add: network_tools_def shell_tools_def file_tools_def classify_def)
qed

lemma registered_names_pass:
  assumes "starts_with tool ''atta-''" and "sp_autonomy (gc_policy cfg) \<noteq> ReadOnly"
    and "clear_of_stops g tool args" and "within_rate G cfg g"
  shows "\<exists>g'. check_permission G cfg tool args g = (Inr args, g') \<and> gd_asks g' = gd_asks g \<and> gd_inner g' = gd_inner g"
proof -
  note names = prefix_not_listed [OF assms(1)]
  have stop: "(case gd_estop g of None \<Rightarrow> Inr () | Some s \<Rightarrow> estop_check s tool args) = Inr ()"
    using assms(3) names by (auto simp: clear_of_stops_def estop_check_def stopped_if_def and_then_eq_iff each_ok list_all_iff split: option.splits)
  have auto: "check_autonomy G cfg tool args Medium = retE ()"
    using assms(2) by (auto simp: check_autonomy_def split: autonomy_level.splits)
  obtain n t where t: "record_call (ge_now G (gd_ticks g)) (gd_tracker g) = (n, t)" by fastforce
  then have rate: "check_rates G cfg Medium g = (Inr (), g\<lparr>gd_tracker := t, gd_ticks := Suc (gd_ticks g)\<rparr>)"
    using assms(4) by (simp add: check_rates_def bindE_def track_def within_rate_def)
  show ?thesis
    by (simp add: check_permission_def Let_def names bindE_def stop auto rate check_command_def check_network_def
        effective_args_def check_url_def violation_if_def)
qed

text \<open>
  So a call of a tool under its registered name passes the guard with its arguments as they are, and nobody is asked for
  approval, unless the policy is read-only, the rate is exceeded, or the stop is for all tools, names this very tool or
  blocks a domain in its argument \<open>url\<close>.
\<close>

lemma native_calls_escape_guard:
  assumes "own_entry R t" and "starts_with (nt_name t) ''atta-''" and "sp_autonomy (gc_policy cfg) \<noteq> ReadOnly"
    and "clear_of_stops g (nt_name t) args" and "within_rate G cfg g"
    and "guard_invoke G cfg (reg_invoke js R) (nt_name t) args g = (result, g')"
  shows "gd_inner g' = snd (nt_execute t args (gd_inner g)) \<and> gd_asks g' = gd_asks g"
proof -
  obtain g1 where "check_permission G cfg (nt_name t) args g = (Inr args, g1)" "gd_asks g1 = gd_asks g" "gd_inner g1 = gd_inner g"
    using registered_names_pass [OF assms(2-5)] by blast
  then show ?thesis
    using assms(6) natives.present_runs [OF assms(1), of js args "gd_inner g"]
    by (auto simp: guard_invoke_def bindE_def call_inner_def split: prod.splits sum.splits)
qed

definition shell_tool :: "json list native_tool" where
  "shell_tool =
     \<lparr>nt_name = ''atta-shell'', nt_description = [], nt_risk_level = High, nt_parameters = JNull,
      nt_execute = (\<lambda>args ran. (Inr JNull, ran @ [args]))\<rparr>"

definition demo_guard :: "json list guard" where
  "demo_guard =
     \<lparr>gd_estop = None, gd_tracker = \<lparr>tk_calls = [], tk_high = []\<rparr>, gd_allow = [], gd_events = [], gd_ticks = 0, gd_asks = 0,
      gd_sends = 0, gd_inner = []\<rparr>"

definition plain_env :: genv_guard where
  "plain_env = \<lparr>ge_now = int, ge_answer = (\<lambda>_. NoAnswer), ge_event_sent = (\<lambda>_. False), ge_canon = (\<lambda>_. None), ge_leak = id\<rparr>"

definition plain_config :: guard_config where
  "plain_config = \<lparr>gc_policy = policy_default\<lparr>sp_allow_network := False\<rparr>, gc_manager = None, gc_events = False\<rparr>"

end
