(* ===== verification/Tool_Api.thy ===== *)
theory Tool_Api
  imports App Tool_Registry Flow_Props
begin

text \<open>
  The handlers of tools, MCP servers and the security policy (\<open>crates/core/src/server/handlers/tool.rs\<close>, \<open>mcp.rs\<close> and
  \<open>security.rs\<close>).

  The tool registry of the application state is the guard around the registry of \<open>Tool_Registry\<close>, which shares the
  registry of MCP servers with these handlers: it is the field \<open>rg_mcp\<close> of \<open>wx_tools\<close>. The guard has a policy of its own, in
  its configuration; the handlers of the policy work on \<open>wx_policy\<close>. Tools and MCP servers act on a world \<open>'w\<close>, which is
  the inner state of the guard.
\<close>

record 'w tool_app = app +
  wx_guard :: "'w guard"
  wx_tools :: "'w tool_reg"
  wx_policy :: security_policy

record 'w toolenv =
  ww_guard :: genv_guard
  ww_config :: guard_config
  ww_show :: "json \<Rightarrow> string"
  ww_spawn :: "string \<Rightarrow> string \<Rightarrow> string list \<Rightarrow> 'w \<Rightarrow> (atta_error + 'w mcp_client) \<times> 'w"
  ww_sse :: "string \<Rightarrow> string \<Rightarrow> 'w mcp_client"

datatype tool_body =
    SchemasBody "tool_schema list"
  | SchemaBody tool_schema
  | TestedBody string json
  | TestFailedBody string string
  | ServersBody "string list"
  | ServerBody string "mcp_tool_info list"
  | ServerStatus string string
  | RegisteredServer string string
  | PolicyBody security_policy
  | ToolErrorText string

type_synonym 'w tool_request = "('w tool_app, tool_body) request"

definition guarded_tools :: "'w toolenv \<Rightarrow> 'w tool_app \<Rightarrow> string \<Rightarrow> json \<Rightarrow> (atta_error + json) \<times> 'w guard" where
  "guarded_tools W s name args = guard_invoke (ww_guard W) (ww_config W) (reg_invoke (ww_show W) (wx_tools s)) name args (wx_guard s)"

section \<open>Tools\<close>

definition api_list_tools :: "checker \<Rightarrow> current_user \<Rightarrow> 'w tool_request" where
  "api_list_tools chk user =
     bindE (app_authz chk user Read (resource_all RTool)) (\<lambda>_.
     bindE getE (\<lambda>s. retE (OkReply 200 (SchemasBody (reg_list_schemas (wx_tools s))))))"

definition api_get_tool :: "checker \<Rightarrow> current_user \<Rightarrow> string \<Rightarrow> 'w tool_request" where
  "api_get_tool chk user name =
     bindE (app_authz chk user Read (resource_new RTool name)) (\<lambda>_.
     bindE getE (\<lambda>s.
       case reg_get_schema (wx_tools s) name of
         Some sc \<Rightarrow> retE (OkReply 200 (SchemaBody sc))
       | None \<Rightarrow> failE (err_reply 404 (ToolNotFound name))))"

definition test_tool :: "'w toolenv \<Rightarrow> checker \<Rightarrow> current_user \<Rightarrow> string \<Rightarrow> json \<Rightarrow> 'w tool_request" where
  "test_tool W chk user name args =
     bindE (app_authz chk user Execute (resource_new RTool name)) (\<lambda>_.
     bindE getE (\<lambda>s.
       if reg_get (wx_tools s) name = None then failE (err_reply 404 (ToolNotFound name))
       else case guarded_tools W s name args of
         (r, g) \<Rightarrow>
           bindE (modifyE (\<lambda>s. s\<lparr>wx_guard := g\<rparr>)) (\<lambda>_.
             case r of
               Inr v \<Rightarrow> retE (OkReply 200 (TestedBody name v))
             | Inl e \<Rightarrow> retE (OkReply 500 (TestFailedBody name (error_show e))))))"

section \<open>MCP servers\<close>

definition servers :: "'w tool_app \<Rightarrow> 'w mcp_clients" where
  "servers s = (case rg_mcp (wx_tools s) of None \<Rightarrow> [] | Some m \<Rightarrow> m)"

definition set_servers :: "'w mcp_clients \<Rightarrow> 'w tool_app \<Rightarrow> 'w tool_app" where
  "set_servers m s = s\<lparr>wx_tools := with_mcp_registry m (wx_tools s)\<rparr>"

definition no_server :: "string \<Rightarrow> tool_body reply" where
  "no_server name = OkReply 404 (ToolErrorText (''MCP server '' @ squote name @ '' not found''))"

text \<open>A call of a client: what it does to the world stays in the state.\<close>

definition ask_client :: "('w \<Rightarrow> (atta_error + 'a) \<times> 'w) \<Rightarrow> ('w tool_app, 'e, atta_error + 'a) io" where
  "ask_client f = (\<lambda>s. case f (gd_inner (wx_guard s)) of (r, w) \<Rightarrow> (Inr r, s\<lparr>wx_guard := (wx_guard s)\<lparr>gd_inner := w\<rparr>\<rparr>))"

definition api_list_mcp_servers :: "checker \<Rightarrow> current_user \<Rightarrow> 'w tool_request" where
  "api_list_mcp_servers chk user =
     bindE (app_authz chk user Read (resource_all RMcp)) (\<lambda>_.
     bindE getE (\<lambda>s. retE (OkReply 200 (ServersBody (mcp_list_servers (servers s))))))"

definition get_mcp_server :: "checker \<Rightarrow> current_user \<Rightarrow> string \<Rightarrow> 'w tool_request" where
  "get_mcp_server chk user name =
     bindE (app_authz chk user Read (resource_new RMcp name)) (\<lambda>_.
     bindE getE (\<lambda>s.
       case mcp_get name (servers s) of
         None \<Rightarrow> failE (no_server name)
       | Some c \<Rightarrow>
           bindE (ask_client (ml_list_tools c)) (\<lambda>r.
             case r of
               Inr ts \<Rightarrow> retE (OkReply 200 (ServerBody name ts))
             | Inl e \<Rightarrow> failE (OkReply 500 (ToolErrorText (''failed to list tools: '' @ error_show e))))))"

definition add_server :: "string \<Rightarrow> string \<Rightarrow> 'w mcp_client \<Rightarrow> 'w tool_request" where
  "add_server name transport c =
     bindE (modifyE (\<lambda>s. set_servers (mcp_add name c (servers s)) s)) (\<lambda>_. retE (OkReply 201 (RegisteredServer name transport)))"

definition register_mcp_server :: "'w toolenv \<Rightarrow> checker \<Rightarrow> current_user \<Rightarrow> mcp_server_config \<Rightarrow> 'w tool_request" where
  "register_mcp_server W chk user m =
     bindE (app_authz chk user Create (resource_all RMcp)) (\<lambda>_.
     case mc_transport m of
       McpStdio \<Rightarrow>
         (case mc_command m of
            None \<Rightarrow> failE (OkReply 400 (ToolErrorText (''stdio transport requires '' @ squote ''command'' @ '' field'')))
          | Some cmd \<Rightarrow>
              bindE (ask_client (ww_spawn W (mc_name m) cmd (mc_args m))) (\<lambda>r.
                case r of
                  Inl e \<Rightarrow> failE (OkReply 500 (ToolErrorText (''failed to spawn MCP server: '' @ error_show e)))
                | Inr c \<Rightarrow> add_server (mc_name m) ''stdio'' c))
     | McpSse \<Rightarrow>
         (case mc_url m of
            None \<Rightarrow> failE (OkReply 400 (ToolErrorText (''SSE transport requires '' @ squote ''url'' @ '' field'')))
          | Some u \<Rightarrow> add_server (mc_name m) ''sse'' (ww_sse W (mc_name m) u)))"

definition take_server :: "string \<Rightarrow> ('w tool_app, tool_body reply, unit) io" where
  "take_server name =
     bindE getE (\<lambda>s.
       case mcp_remove name (servers s) of
         (None, _) \<Rightarrow> failE (no_server name)
       | (Some _, m) \<Rightarrow> modifyE (set_servers m))"

definition unregister_mcp_server :: "app_env \<Rightarrow> checker \<Rightarrow> current_user \<Rightarrow> string \<Rightarrow> 'w tool_request" where
  "unregister_mcp_server E chk user name =
     bindE (app_authz chk user Delete (resource_new RMcp name)) (\<lambda>_.
     bindE (take_server name) (\<lambda>_.
     bindE (ignoring (admin_call E (unregister_mcp name))) (\<lambda>_.
     retE (OkReply 200 (ServerStatus name ''removed'')))))"

definition connect_mcp_server :: "checker \<Rightarrow> current_user \<Rightarrow> string \<Rightarrow> 'w tool_request" where
  "connect_mcp_server chk user name =
     bindE (app_authz chk user Execute (resource_new RMcp name)) (\<lambda>_.
     bindE getE (\<lambda>s.
       case mcp_get name (servers s) of
         None \<Rightarrow> failE (no_server name)
       | Some c \<Rightarrow>
           bindE (ask_client (ml_ping c)) (\<lambda>r.
             case r of
               Inr _ \<Rightarrow> retE (OkReply 200 (ServerStatus name ''connected''))
             | Inl e \<Rightarrow> failE (OkReply 500 (ToolErrorText (''ping failed: '' @ error_show e))))))"

definition disconnect_mcp_server :: "checker \<Rightarrow> current_user \<Rightarrow> string \<Rightarrow> 'w tool_request" where
  "disconnect_mcp_server chk user name =
     bindE (app_authz chk user Execute (resource_new RMcp name)) (\<lambda>_.
     bindE (take_server name) (\<lambda>_.
     retE (OkReply 200 (ServerStatus name ''disconnected''))))"

section \<open>The security policy\<close>

definition get_security_policy :: "'w tool_request" where
  "get_security_policy = bindE getE (\<lambda>s. retE (OkReply 200 (PolicyBody (wx_policy s))))"

definition update_security_policy :: "checker \<Rightarrow> current_user \<Rightarrow> security_policy \<Rightarrow> 'w tool_request" where
  "update_security_policy chk user p =
     bindE (app_authz chk user Update (resource_all RSecret)) (\<lambda>_.
     if sp_max_calls p = 0 then failE (err_reply 400 (Validation ''max_calls_per_minute must be > 0''))
     else bindE (modifyE (\<lambda>s. s\<lparr>wx_policy := p\<rparr>)) (\<lambda>_. retE (OkReply 200 (PolicyBody p))))"

section \<open>What the requests change\<close>

lemma app_authz_keeps:
  fixes s :: "'w tool_app"
  assumes "app_authz chk user act res s = (r, t)" and "\<And>w s. P (s\<lparr>ap_world := w\<rparr>) = P s" and "P s"
  shows "P t"
  using assms by (metis keepsD keeps_app_authz snd_conv)

lemma app_authz_tools:
  fixes s :: "'w tool_app"
  assumes "app_authz chk user act res s = (r, t)"
  shows "wx_guard t = wx_guard s \<and> wx_tools t = wx_tools s \<and> wx_policy t = wx_policy s"
  using assms by (rule app_authz_keeps) simp_all

text \<open>
  Updating the security policy changes what the policy handlers show and nothing that is enforced: after an update that
  answers with success every tool call through the guard is decided and done as before.
\<close>

theorem policy_update_enforces_nothing:
  assumes "reply_of (update_security_policy chk user p) s = (OkReply 200 b, s')"
  shows "wx_policy s' = p \<and> guarded_tools W s' = guarded_tools W s"
proof -
  obtain t where authz: "app_authz chk user Update (resource_all RSecret) s = (Inr () :: tool_body reply + unit, t)"
    and stored: "reply_of (if sp_max_calls p = 0 then failE (err_reply 400 (Validation ''max_calls_per_minute must be > 0''))
       else bindE (modifyE (\<lambda>s. s\<lparr>wx_policy := p\<rparr>)) (\<lambda>_. retE (OkReply 200 (PolicyBody p)))) t = (OkReply 200 b, s')"
    using assms unfolding update_security_policy_def by (rule ok_after_authz) blast
  from stored have "s' = t\<lparr>wx_policy := p\<rparr>" by (auto simp: reply_bind err_reply_def split: if_splits)
  with app_authz_tools [OF authz] show ?thesis by (simp add: guarded_tools_def fun_eq_iff)
qed

definition demo_tool_app :: "json list tool_app" where
  "demo_tool_app =
     \<lparr>ap_world = demo_world demo_flow (demo_db ''review'' ''running'' (JObj [])), ap_admin = admin_empty, ap_audit = [],
      wx_guard = demo_guard, wx_tools = reg_register_native shell_tool reg_new, wx_policy = policy_default\<rparr>"

definition demo_tool_env :: "json list toolenv" where
  "demo_tool_env = \<lparr>ww_guard = plain_env, ww_config = plain_config, ww_show = (\<lambda>_. []), ww_spawn = (\<lambda>_ _ _ w. (Inl (OtherError []), w)),
     ww_sse = (\<lambda>_ _. \<lparr>ml_list_tools = (\<lambda>w. (Inr [], w)), ml_call_tool = (\<lambda>_ _ w. (Inl (OtherError []), w)), ml_ping = (\<lambda>w. (Inr (), w))\<rparr>)\<rparr>"

theorem policy_update_enforces_nothing_witness:
  "\<exists>s'. sp_autonomy (wx_policy s') = ReadOnly \<and> fst (guarded_tools demo_tool_env s' ''atta-shell'' JNull) = Inr JNull"
proof -
  let ?p = "policy_default\<lparr>sp_autonomy := ReadOnly\<rparr>"
  let ?r = "reply_of (update_security_policy allow_all_check desktop_owner ?p) demo_tool_app"
  have "fst ?r = OkReply 200 (PolicyBody ?p)"
    by (simp add: update_security_policy_def reply_bind app_authz_def check_authz_def allow_all_check_def app_world_def tryE_def
        retE_def reply_of_def bindE_def modifyE_def policy_default_def)
  then obtain s' where "?r = (OkReply 200 (PolicyBody ?p), s')" by (cases ?r) simp
  from policy_update_enforces_nothing [OF this, of demo_tool_env]
  have "wx_policy s' = ?p" "guarded_tools demo_tool_env s' = guarded_tools demo_tool_env demo_tool_app" by simp_all
  moreover have "fst (guarded_tools demo_tool_env demo_tool_app ''atta-shell'' JNull) = Inr JNull" by code_simp
  ultimately show ?thesis by (intro exI [of _ s']) simp
qed

end
