(* ===== verification/Agent_Registry.thy ===== *)
theory Agent_Registry
  imports App
begin

text \<open>
  The registry of running sub-agents (\<open>crates/core/src/agent_registry.rs\<close>) and its handlers
  (\<open>crates/core/src/server/handlers/agents.rs\<close>).

  \<open>spawn\<close> starts the task of an agent first and enters its handle afterwards, so the task may have ended before; its
  last act is to mark the handle. Aborting a task takes effect later, so it may still end by itself. The tasks are
  therefore part of the state: \<open>ag_live\<close> holds those that run, \<open>ag_pending\<close> the handles not yet entered,
  \<open>ag_cancelled\<close> the cancelled tokens, and \<open>ag_spawned\<close> the identifiers given out, which are all different.
\<close>

datatype agent_status = AgentRunning | AgentPaused | AgentCompleted | AgentFailed | AgentTerminated

record agent_handle =
  ah_task :: string
  ah_status :: agent_status
  ah_created_at :: timestamp
  ah_joinable :: bool

record agent_summary =
  as_id :: string
  as_task :: string
  as_status :: agent_status
  as_created_at :: timestamp
  as_elapsed_ms :: u64

text \<open>\<open>ag_waits\<close> holds the agents whose body only waits for its token, as all do that are started by a tool.\<close>

record agent_reg =
  ag_agents :: "(string, agent_handle) table"
  ag_live :: "string list"
  ag_pending :: "(string \<times> string) list"
  ag_cancelled :: "string list"
  ag_waits :: "string list"
  ag_spawned :: "string list"

definition agents_new :: agent_reg where
  "agents_new = \<lparr>ag_agents = [], ag_live = [], ag_pending = [], ag_cancelled = [], ag_waits = [], ag_spawned = []\<rparr>"

section \<open>Operations\<close>

definition spawn_start :: "string \<Rightarrow> string \<Rightarrow> agent_reg \<Rightarrow> agent_reg" where
  "spawn_start i task A = A\<lparr>ag_live := ag_live A @ [i], ag_pending := ag_pending A @ [(i, task)], ag_spawned := ag_spawned A @ [i]\<rparr>"

definition spawn_enter :: "timestamp \<Rightarrow> string \<Rightarrow> string \<Rightarrow> agent_reg \<Rightarrow> agent_reg" where
  "spawn_enter now i task A =
     (let h = \<lparr>ah_task = task, ah_status = AgentRunning, ah_created_at = now, ah_joinable = True\<rparr>
      in A\<lparr>ag_agents := tbl_upsert i h (\<lambda>_. h) (ag_agents A), ag_pending := removeAll (i, task) (ag_pending A)\<rparr>)"

text \<open>The body of an agent that a tool starts: it waits for the cancellation of its token, and ignores its task.\<close>

definition spawn_task :: "string \<Rightarrow> string \<Rightarrow> agent_reg \<Rightarrow> agent_reg" where
  "spawn_task i task A = (spawn_start i task A)\<lparr>ag_waits := ag_waits A @ [i]\<rparr>"

definition body_may_end :: "string \<Rightarrow> agent_reg \<Rightarrow> bool" where
  "body_may_end i A \<longleftrightarrow> (i \<in> set (ag_waits A) \<longrightarrow> i \<in> set (ag_cancelled A))"

definition task_ends :: "string \<Rightarrow> agent_reg \<Rightarrow> agent_reg" where
  "task_ends i A =
     A\<lparr>ag_agents := tbl_update i (\<lambda>h. if ah_status h = AgentRunning then h\<lparr>ah_status := AgentCompleted\<rparr> else h) (ag_agents A),
       ag_live := removeAll i (ag_live A)\<rparr>"

text \<open>A task that panics, or whose abortion takes effect, marks nothing.\<close>

definition task_dies :: "string \<Rightarrow> agent_reg \<Rightarrow> agent_reg" where
  "task_dies i A = A\<lparr>ag_live := removeAll i (ag_live A)\<rparr>"

definition summary_of :: "timestamp \<Rightarrow> string \<Rightarrow> agent_handle \<Rightarrow> agent_summary" where
  "summary_of now i h =
     \<lparr>as_id = i, as_task = ah_task h, as_status = ah_status h, as_created_at = ah_created_at h,
      as_elapsed_ms = of_int (max 0 ((now - ah_created_at h) div 1000000))\<rparr>"

definition agents_list :: "timestamp \<Rightarrow> agent_reg \<Rightarrow> agent_summary list" where
  "agents_list now A = map (\<lambda>(i, h). summary_of now i h) (ag_agents A)"

definition agents_get :: "timestamp \<Rightarrow> string \<Rightarrow> agent_reg \<Rightarrow> agent_summary option" where
  "agents_get now i A = map_option (summary_of now i) (tbl_get (ag_agents A) i)"

definition agent_not_found :: "string \<Rightarrow> string" where
  "agent_not_found s = ''agent '' @ squote s @ '' not found''"

definition agents_terminate :: "string \<Rightarrow> agent_reg \<Rightarrow> (string + unit) \<times> agent_reg" where
  "agents_terminate i A =
     (case tbl_get (ag_agents A) i of
        None \<Rightarrow> (Inl (agent_not_found i), A)
      | Some h \<Rightarrow> (Inr (), A\<lparr>ag_agents := tbl_update i (\<lambda>h. h\<lparr>ah_status := AgentTerminated, ah_joinable := False\<rparr>) (ag_agents A),
                              ag_cancelled := ag_cancelled A @ [i]\<rparr>))"

definition agents_pause :: "string \<Rightarrow> agent_reg \<Rightarrow> (string + unit) \<times> agent_reg" where
  "agents_pause i A =
     (case tbl_get (ag_agents A) i of
        None \<Rightarrow> (Inl (agent_not_found i), A)
      | Some h \<Rightarrow>
          if ah_status h = AgentRunning
          then (Inr (), A\<lparr>ag_agents := tbl_update i (\<lambda>h. h\<lparr>ah_status := AgentPaused\<rparr>) (ag_agents A)\<rparr>)
          else (Inl (''agent '' @ squote i @ '' is not running''), A))"

definition agents_resume :: "string \<Rightarrow> agent_reg \<Rightarrow> (string + unit) \<times> agent_reg" where
  "agents_resume i A =
     (case tbl_get (ag_agents A) i of
        None \<Rightarrow> (Inl (agent_not_found i), A)
      | Some h \<Rightarrow>
          if ah_status h = AgentPaused
          then (Inr (), A\<lparr>ag_agents := tbl_update i (\<lambda>h. h\<lparr>ah_status := AgentRunning\<rparr>) (ag_agents A)\<rparr>)
          else (Inl (''agent '' @ squote i @ '' is not paused''), A))"

definition agents_cleanup :: "agent_reg \<Rightarrow> agent_reg" where
  "agents_cleanup A = A\<lparr>ag_agents := filter (\<lambda>(i, h). ah_status h = AgentRunning \<or> ah_status h = AgentPaused) (ag_agents A)\<rparr>"

section \<open>Runs\<close>

inductive agents_step :: "agent_reg \<Rightarrow> agent_reg \<Rightarrow> bool" where
  Spawn: "i \<notin> set (ag_spawned A) \<Longrightarrow> agents_step A (spawn_start i task A)"
| SpawnByTool: "i \<notin> set (ag_spawned A) \<Longrightarrow> agents_step A (spawn_task i task A)"
| Enter: "(i, task) \<in> set (ag_pending A) \<Longrightarrow> agents_step A (spawn_enter now i task A)"
| Ends: "i \<in> set (ag_live A) \<Longrightarrow> body_may_end i A \<Longrightarrow> agents_step A (task_ends i A)"
| Dies: "i \<in> set (ag_live A) \<Longrightarrow> body_may_end i A \<Longrightarrow> agents_step A (task_dies i A)"
| Terminate: "agents_step A (snd (agents_terminate i A))"
| Pause: "agents_step A (snd (agents_pause i A))"
| Resume: "agents_step A (snd (agents_resume i A))"
| Cleanup: "agents_step A (agents_cleanup A)"

inductive_cases agents_stepE: "agents_step A B"

definition agent_status_of :: "agent_reg \<Rightarrow> string \<Rightarrow> agent_status option" where
  "agent_status_of A i = map_option ah_status (tbl_get (ag_agents A) i)"

text \<open>A handle is entered once: no handle is there while it is pending, and only one is pending.\<close>

definition agents_ok :: "agent_reg \<Rightarrow> bool" where
  "agents_ok A \<longleftrightarrow> tbl_ok (ag_agents A) \<and> distinct (map fst (ag_pending A)) \<and>
     fst ` set (ag_pending A) \<inter> fst ` set (ag_agents A) = {} \<and>
     fst ` set (ag_pending A) \<union> fst ` set (ag_agents A) \<subseteq> set (ag_spawned A)"

lemma removed_pending: "distinct (map fst ps) \<Longrightarrow> (i, t) \<in> set ps \<Longrightarrow> fst ` set (removeAll (i, t) ps) = fst ` set ps - {i}"
proof (induction ps)
  case (Cons p ps)
  show ?case
  proof (cases "p = (i, t)")
    case True
    then have "(i, t) \<notin> set ps" using Cons.prems by force
    with True Cons.prems show ?thesis by (auto simp: removeAll_id)
  next
    case False
    then have "fst p \<noteq> i" using Cons.prems by (cases p) force
    with False Cons show ?thesis by auto
  qed
qed simp

lemma keys_updated [simp]: "fst ` set (tbl_update k f t) = fst ` set t"
  by (metis fst_tbl_update list.set_map)

lemma keys_upserted: "fst ` set (tbl_upsert k v f t) = insert k (fst ` set t)"
  by (auto simp: tbl_upsert_def tbl_get_None_iff)

lemma key_there: "tbl_get t k = Some v \<Longrightarrow> k \<in> fst ` set t"
  using tbl_get_None_iff [of t k] by simp

lemma agents_ok_step: "agents_step A B \<Longrightarrow> agents_ok A \<Longrightarrow> agents_ok B"
proof (induction rule: agents_step.induct)
  case (Enter i task A now)
  have "distinct (map fst (removeAll (i, task) (ag_pending A)))"
    using Enter.prems by (auto simp: agents_ok_def distinct_map removeAll_filter_not_eq intro: inj_on_subset)
  moreover have "fst ` set (removeAll (i, task) (ag_pending A)) = fst ` set (ag_pending A) - {i}"
    using Enter by (intro removed_pending) (auto simp: agents_ok_def)
  moreover have "i \<in> fst ` set (ag_pending A)" using Enter.hyps by force
  ultimately show ?case
    using Enter.prems by (auto simp: agents_ok_def spawn_enter_def Let_def tbl_ok_upsert keys_upserted)
next
  case (Cleanup A)
  then show ?case by (auto simp: agents_ok_def agents_cleanup_def tbl_ok_filter)
qed (auto simp: agents_ok_def spawn_start_def spawn_task_def task_ends_def task_dies_def agents_terminate_def agents_pause_def
      agents_resume_def split: option.splits)

text \<open>The agents a terminated one cannot leave: its handle is gone or says so, and it is not entered again.\<close>

definition agent_over :: "string \<Rightarrow> agent_reg \<Rightarrow> bool" where
  "agent_over i A \<longleftrightarrow> i \<in> set (ag_spawned A) \<and> i \<notin> fst ` set (ag_pending A) \<and>
     (case tbl_get (ag_agents A) i of None \<Rightarrow> True | Some h \<Rightarrow> ah_status h = AgentTerminated)"

lemma tbl_get_filter_keeps: "tbl_ok t \<Longrightarrow> tbl_get (filter P t) k = (case tbl_get t k of None \<Rightarrow> None | Some v \<Rightarrow> if P (k, v) then Some v else None)"
  by (induction t) (auto simp: tbl_get_def tbl_ok_def map_of_eq_None_iff split: option.splits dest: map_of_SomeD)

lemma agent_over_step: "agents_step A B \<Longrightarrow> agents_ok A \<Longrightarrow> agent_over i A \<Longrightarrow> agent_over i B"
proof (induction rule: agents_step.induct)
  case (Enter j task A now)
  then have "j \<noteq> i" by (force simp: agent_over_def)
  with Enter show ?case
    by (auto simp: agent_over_def agents_ok_def spawn_enter_def Let_def tbl_get_upsert)
next
  case (Cleanup A)
  then show ?case by (auto simp: agent_over_def agents_ok_def agents_cleanup_def tbl_get_filter_keeps split: option.splits)
next
  case (Pause A j)
  then show ?case by (auto simp: agent_over_def agents_pause_def tbl_get_update split: option.splits)
next
  case (Resume A j)
  then show ?case by (auto simp: agent_over_def agents_resume_def tbl_get_update split: option.splits)
next
  case (Terminate A j)
  then show ?case by (auto simp: agent_over_def agents_terminate_def tbl_get_update split: option.splits)
qed (auto simp: agent_over_def spawn_start_def spawn_task_def task_ends_def task_dies_def tbl_get_update split: option.splits)

text \<open>
  C30. Terminating an agent is final: from then on its status is terminated, or its handle has been cleaned away, whatever
  its task still does and whoever pauses or resumes it.
\<close>

theorem termination_is_final:
  assumes "agents_ok A" and "agent_status_of A i = Some AgentTerminated" and "agents_step\<^sup>*\<^sup>* A B" and "agent_status_of B i = Some st"
  shows "st = AgentTerminated"
proof -
  have "i \<in> fst ` set (ag_agents A)" using assms(2) by (auto simp: agent_status_of_def dest: key_there)
  then have "agent_over i A" using assms(1,2) by (auto simp: agents_ok_def agent_over_def agent_status_of_def)
  with assms(3,1) have "agents_ok B \<and> agent_over i B"
    by (induction rule: rtranclp_induct) (auto intro: agents_ok_step agent_over_step)
  then show ?thesis using assms(4) by (auto simp: agent_over_def agent_status_of_def)
qed

text \<open>An agent that a tool started runs until its token is cancelled: it never comes to do its task.\<close>

definition waits_ok :: "agent_reg \<Rightarrow> bool" where
  "waits_ok A \<longleftrightarrow> set (ag_waits A) \<subseteq> set (ag_spawned A) \<and> set (ag_waits A) - set (ag_cancelled A) \<subseteq> set (ag_live A)"

lemma waits_ok_step: "agents_step A B \<Longrightarrow> waits_ok A \<Longrightarrow> waits_ok B"
  by (induction rule: agents_step.induct)
    (auto simp: waits_ok_def spawn_start_def spawn_task_def spawn_enter_def task_ends_def task_dies_def body_may_end_def
      agents_terminate_def agents_pause_def agents_resume_def agents_cleanup_def Let_def split: option.split)

lemma waits_ok_new: "waits_ok agents_new"
  by (simp add: waits_ok_def agents_new_def)

text \<open>
  An agent that a tool starts (\<open>spawn_task\<close>) never comes to an end of its own: whatever happens, it is running as
  long as nobody has terminated it.
\<close>

theorem tool_agents_never_finish:
  assumes "agents_step\<^sup>*\<^sup>* agents_new A" and "i \<in> set (ag_waits A)" and "i \<notin> set (ag_cancelled A)"
  shows "i \<in> set (ag_live A)"
proof -
  have "waits_ok A" using assms(1)
    by (induction rule: rtranclp_induct) (auto intro: waits_ok_step waits_ok_new)
  with assms(2,3) show ?thesis by (auto simp: waits_ok_def)
qed

theorem tool_agents_never_finish_witness:
  "''a'' \<in> set (ag_live (task_ends ''b'' (agents_cleanup (snd (agents_pause ''a''
     (spawn_enter 5 ''a'' ''job'' (spawn_start ''b'' ''other'' (spawn_task ''a'' ''job'' agents_new))))))))"
proof (rule tool_agents_never_finish)
  let ?A = "spawn_start ''b'' ''other'' (spawn_task ''a'' ''job'' agents_new)"
  let ?B = "agents_cleanup (snd (agents_pause ''a'' (spawn_enter 5 ''a'' ''job'' ?A)))"
  have s1: "agents_step agents_new (spawn_task ''a'' ''job'' agents_new)"
    by (rule SpawnByTool) (simp add: agents_new_def)
  have s2: "agents_step (spawn_task ''a'' ''job'' agents_new) ?A"
    by (rule Spawn) (simp add: agents_new_def spawn_task_def spawn_start_def)
  have s3: "agents_step ?A (spawn_enter 5 ''a'' ''job'' ?A)"
    by (rule Enter) (simp add: agents_new_def spawn_task_def spawn_start_def)
  have s4: "agents_step (spawn_enter 5 ''a'' ''job'' ?A) (snd (agents_pause ''a'' (spawn_enter 5 ''a'' ''job'' ?A)))"
    by (rule Pause)
  have s5: "agents_step (snd (agents_pause ''a'' (spawn_enter 5 ''a'' ''job'' ?A))) ?B" by (rule Cleanup)
  have s6: "agents_step ?B (task_ends ''b'' ?B)" by (rule Ends) code_simp+
  note runs = rtranclp.rtrancl_into_rtrancl [of agents_step]
  show "agents_step\<^sup>*\<^sup>* agents_new (task_ends ''b'' ?B)"
    by (rule runs [OF runs [OF runs [OF runs [OF runs [OF r_into_rtranclp [of agents_step, OF s1] s2] s3] s4] s5] s6])
qed code_simp+

text \<open>What is left of the agent's handle after a run that terminates it, resumes it and lets its task end.\<close>

theorem termination_is_final_witness:
  "agent_status_of (task_ends ''a'' (snd (agents_resume ''a'' (snd (agents_terminate ''a''
     (spawn_enter 5 ''a'' ''job'' (spawn_task ''a'' ''job'' agents_new))))))) ''a'' = Some AgentTerminated"
proof -
  let ?A = "snd (agents_terminate ''a'' (spawn_enter 5 ''a'' ''job'' (spawn_task ''a'' ''job'' agents_new)))"
  let ?B = "snd (agents_resume ''a'' ?A)"
  have ok: "agents_ok ?A" and st: "agent_status_of ?A ''a'' = Some AgentTerminated" by code_simp+
  have s1: "agents_step ?A ?B" by (rule Resume)
  have s2: "agents_step ?B (task_ends ''a'' ?B)" by (rule Ends) code_simp+
  note run_there = rtranclp.rtrancl_into_rtrancl [of agents_step, OF r_into_rtranclp [of agents_step, OF s1] s2]
  obtain st' where st': "agent_status_of (task_ends ''a'' ?B) ''a'' = Some st'"
    by (cases "agent_status_of (task_ends ''a'' ?B) ''a''") (simp_all, code_simp)
  show ?thesis using termination_is_final [OF ok st run_there st'] st' by simp
qed

section \<open>Handlers\<close>

record agents_app = app +
  aa_registry :: "agent_reg option"

datatype agents_body = NoContent | AgentError string | AgentList "agent_summary list" | AgentOne agent_summary

type_synonym agents_request = "(agents_app, agents_body) request"

text \<open>Every handler asks the registry after it has asked for the permission, and answers 503 where there is none.\<close>

definition with_registry :: "(agent_reg \<Rightarrow> agents_body reply \<times> agent_reg) \<Rightarrow> agents_request" where
  "with_registry f = (\<lambda>s.
     case aa_registry s of
       None \<Rightarrow> (Inr (OkReply 503 (AgentError ''agent registry not initialized'')), s)
     | Some A \<Rightarrow> (case f A of (r, A') \<Rightarrow> (Inr r, s\<lparr>aa_registry := Some A'\<rparr>)))"

definition no_content_or_404 :: "(string + unit) \<times> agent_reg \<Rightarrow> agents_body reply \<times> agent_reg" where
  "no_content_or_404 = map_prod (\<lambda>r. case r of Inr _ \<Rightarrow> OkReply 204 NoContent | Inl e \<Rightarrow> OkReply 404 (AgentError e)) id"

definition list_agents :: "app_env \<Rightarrow> checker \<Rightarrow> current_user \<Rightarrow> agents_request" where
  "list_agents E chk user =
     bindE (app_authz chk user Read (resource_all RTask)) (\<lambda>_. bindE (app_now E) (\<lambda>now.
       with_registry (\<lambda>A. (OkReply 200 (AgentList (agents_list now A)), A))))"

definition get_agent :: "app_env \<Rightarrow> checker \<Rightarrow> current_user \<Rightarrow> string \<Rightarrow> agents_request" where
  "get_agent E chk user i =
     bindE (app_authz chk user Read (resource_new RTask i)) (\<lambda>_. bindE (app_now E) (\<lambda>now.
       with_registry (\<lambda>A. (case agents_get now i A of
                             Some a \<Rightarrow> OkReply 200 (AgentOne a)
                           | None \<Rightarrow> OkReply 404 (AgentError ''agent not found''), A))))"

definition terminate_agent :: "checker \<Rightarrow> current_user \<Rightarrow> string \<Rightarrow> agents_request" where
  "terminate_agent chk user i =
     bindE (app_authz chk user Manage (resource_new RTask i)) (\<lambda>_. with_registry (\<lambda>A. no_content_or_404 (agents_terminate i A)))"

definition pause_agent :: "checker \<Rightarrow> current_user \<Rightarrow> string \<Rightarrow> agents_request" where
  "pause_agent chk user i =
     bindE (app_authz chk user Manage (resource_new RTask i)) (\<lambda>_. with_registry (\<lambda>A. no_content_or_404 (agents_pause i A)))"

definition resume_agent :: "checker \<Rightarrow> current_user \<Rightarrow> string \<Rightarrow> agents_request" where
  "resume_agent chk user i =
     bindE (app_authz chk user Manage (resource_new RTask i)) (\<lambda>_. with_registry (\<lambda>A. no_content_or_404 (agents_resume i A)))"

lemma pause_refused_when_not_running:
  "tbl_get (ag_agents A) i = Some h \<Longrightarrow> ah_status h \<noteq> AgentRunning \<Longrightarrow>
     no_content_or_404 (agents_pause i A) = (OkReply 404 (AgentError (''agent '' @ squote i @ '' is not running'')), A)"
  by (simp add: no_content_or_404_def agents_pause_def)

end
