(* ===== verification/Schema_Clean.thy ===== *)
theory Schema_Clean
  imports Atta_Prelude
begin

text \<open>
  The cleaning of JSON schemas before they are sent to a model (\<open>crates/agent/src/provider/schema.rs\<close>): references are
  replaced by their definitions, alternatives of constants by enumerations, and keys a provider does not know are taken
  out everywhere.
\<close>

datatype cleaning_strategy = CleanOpenAi | CleanAnthropic | CleanGemini | CleanConservative

definition advanced_keys :: "string list" where
  "advanced_keys =
     [''$ref'', ''$defs'', ''$schema'', ''$id'', ''definitions'', ''additionalProperties'', ''patternProperties'', ''allOf'', ''anyOf'',
      ''oneOf'', ''not'', ''if'', ''then'', ''else'', ''format'', ''examples'', ''default'', ''minLength'', ''maxLength'', ''minimum'',
      ''maximum'', ''pattern'', ''multipleOf'', ''minItems'', ''maxItems'', ''uniqueItems'', ''minProperties'', ''maxProperties'']"

definition keys_for_strategy :: "cleaning_strategy \<Rightarrow> string list" where
  "keys_for_strategy st =
     (case st of
        CleanOpenAi \<Rightarrow> [''$ref'', ''$defs'']
      | CleanAnthropic \<Rightarrow> [''$ref'', ''$defs'', ''definitions'', ''default'', ''examples'']
      | CleanGemini \<Rightarrow> advanced_keys
      | CleanConservative \<Rightarrow> advanced_keys)"

definition strategy_for_provider :: "string \<Rightarrow> cleaning_strategy" where
  "strategy_for_provider p =
     (let q = to_lower p in
      if q = ''openai'' \<or> q = ''azure'' \<or> q = ''vllm'' \<or> q = ''deepseek'' then CleanOpenAi
      else if q = ''anthropic'' \<or> q = ''claude'' then CleanAnthropic
      else if q = ''gemini'' \<or> q = ''google'' \<or> q = ''vertex'' then CleanGemini
      else CleanConservative)"

section \<open>Depth\<close>

fun jdepth :: "json \<Rightarrow> nat" where
  "jdepth (JArr xs) = Suc (fold max (map jdepth xs) 0)"
| "jdepth (JObj m) = Suc (fold max (map (\<lambda>(k, x). jdepth x) m) 0)"
| "jdepth _ = 0"

lemma fold_max_le: "fold max ns (a :: nat) \<le> n \<longleftrightarrow> a \<le> n \<and> (\<forall>x \<in> set ns. x \<le> n)"
  by (induction ns arbitrary: a) auto

lemma jdepth_item: "x \<in> set xs \<Longrightarrow> jdepth x < jdepth (JArr xs)"
  using fold_max_le [of "map jdepth xs" 0 "fold max (map jdepth xs) 0"] by (auto simp: less_Suc_eq_le)

lemma jdepth_field: "(k, x) \<in> set m \<Longrightarrow> jdepth x < jdepth (JObj m)"
  using fold_max_le [of "map (\<lambda>(k, x). jdepth x) m" 0 "fold max (map (\<lambda>(k, x). jdepth x) m) 0"] by (fastforce simp: less_Suc_eq_le)

lemma jdepth_get: "jget v k = Some x \<Longrightarrow> jdepth x < jdepth v"
  by (cases v) (auto dest!: map_of_SomeD intro: jdepth_field simp del: jdepth.simps)

lemma as_array_Some [simp]: "as_array v = Some xs \<longleftrightarrow> v = JArr xs"
  by (cases v) auto

section \<open>References\<close>

definition collect_defs :: "json \<Rightarrow> json" where
  "collect_defs v =
     (case jget v ''$defs'' of
        Some d \<Rightarrow> d
      | None \<Rightarrow> (case jget v ''definitions'' of Some d \<Rightarrow> d | None \<Rightarrow> JNull))"

definition resolve_ref_path :: "string \<Rightarrow> json \<Rightarrow> json option" where
  "resolve_ref_path p defs =
     (case strip_prefix ''#/$defs/'' p of
        Some n \<Rightarrow> jget defs n
      | None \<Rightarrow> (case strip_prefix ''#/definitions/'' p of Some n \<Rightarrow> jget defs n | None \<Rightarrow> None))"

definition max_ref_depth :: nat where
  "max_ref_depth = 10"

text \<open>What a reference stands for, if it is one that can be resolved.\<close>

definition referenced :: "json \<Rightarrow> (string \<times> json) list \<Rightarrow> json option" where
  "referenced defs m = Option.bind (jget_str (JObj m) ''$ref'') (\<lambda>p. resolve_ref_path p defs)"

text \<open>The first argument is the number of references that may still be followed: eleven at the start.\<close>

function resolve_refs :: "nat \<Rightarrow> json \<Rightarrow> json \<Rightarrow> json" where
  "resolve_refs n defs v =
     (if n = 0 then v
      else case v of
        JObj m \<Rightarrow>
          (case referenced defs m of
             Some w \<Rightarrow> resolve_refs (n - 1) defs w
           | None \<Rightarrow> JObj (map (\<lambda>(k, x). (k, resolve_refs n defs x)) m))
      | JArr xs \<Rightarrow> JArr (map (resolve_refs n defs) xs)
      | _ \<Rightarrow> v)"
  by pat_completeness auto

termination resolve_refs
  by (relation "measures [\<lambda>(n, defs, v). n, \<lambda>(n, defs, v). jdepth v]") (auto simp: jdepth_field jdepth_item simp del: jdepth.simps)

declare resolve_refs.simps [simp del]

section \<open>Alternatives\<close>

text \<open>The values of one alternative, and of all of them when each has some.\<close>

definition variant_values :: "json \<Rightarrow> json list option" where
  "variant_values v = (case jget v ''const'' of Some c \<Rightarrow> Some [c] | None \<Rightarrow> Option.bind (jget v ''enum'') as_array)"

fun all_variants :: "json list \<Rightarrow> json list option" where
  "all_variants [] = Some []"
| "all_variants (v # vs) =
     (case variant_values v of None \<Rightarrow> None | Some xs \<Rightarrow> map_option (\<lambda>ys. xs @ ys) (all_variants vs))"

definition obj_remove :: "string \<Rightarrow> (string \<times> json) list \<Rightarrow> (string \<times> json) list" where
  "obj_remove k m = filter (\<lambda>(j, x). j \<noteq> k) m"

definition flatten_here :: "(string \<times> json) list \<Rightarrow> (string \<times> json) list" where
  "flatten_here m =
     (case Option.bind (Option.bind (jget (JObj m) ''anyOf'') as_array) all_variants of
        Some vs \<Rightarrow> if vs \<noteq> [] then obj_insert ''enum'' (JArr vs) (obj_remove ''anyOf'' m) else m
      | None \<Rightarrow> m)"

text \<open>
  The values of an enumeration that was just put together are visited too; they come from deeper down, so the depth
  decreases.
\<close>

lemma variant_values_depth: "variant_values v = Some xs \<Longrightarrow> x \<in> set xs \<Longrightarrow> jdepth x < jdepth v"
  by (fastforce simp: variant_values_def bind_eq_Some_conv dest: jdepth_get jdepth_item simp del: jdepth.simps split: option.splits)

lemma all_variants_depth: "all_variants vs = Some xs \<Longrightarrow> x \<in> set xs \<Longrightarrow> \<exists>v \<in> set vs. jdepth x < jdepth v"
  by (induction vs arbitrary: xs) (auto split: option.splits dest: variant_values_depth)

lemma set_obj_insert: "y \<in> set (obj_insert k v m) \<Longrightarrow> y = (k, v) \<or> y \<in> set m"
  by (induction k v m rule: obj_insert.induct) (auto split: if_splits)

lemma flatten_here_depth: "(k, x) \<in> set (flatten_here m) \<Longrightarrow> jdepth x < jdepth (JObj m)"
proof -
  assume there: "(k, x) \<in> set (flatten_here m)"
  show ?thesis
  proof (cases "(k, x) \<in> set m")
    case False
    with there obtain ws vs where ws: "jget (JObj m) ''anyOf'' = Some (JArr ws)" and vs: "all_variants ws = Some vs" and x: "x = JArr vs"
      by (auto simp: flatten_here_def obj_remove_def bind_eq_Some_conv split: option.splits if_splits dest!: set_obj_insert)
    have "\<forall>v \<in> set vs. Suc (Suc (jdepth v)) \<le> jdepth (JArr ws)"
      using all_variants_depth [OF vs] jdepth_item [of _ ws] by (fastforce simp del: jdepth.simps)
    then have "jdepth x \<le> jdepth (JArr ws)" unfolding x by (auto simp: fold_max_le)
    with jdepth_get [OF ws] show ?thesis by simp
  qed (rule jdepth_field)
qed

function flatten_anyof_enums :: "json \<Rightarrow> json" where
  "flatten_anyof_enums (JObj m) = JObj (map (\<lambda>(k, x). (k, flatten_anyof_enums x)) (flatten_here m))"
| "flatten_anyof_enums (JArr xs) = JArr (map flatten_anyof_enums xs)"
| "flatten_anyof_enums JNull = JNull"
| "flatten_anyof_enums (JBool b) = JBool b"
| "flatten_anyof_enums (JInt i) = JInt i"
| "flatten_anyof_enums (JFloat f) = JFloat f"
| "flatten_anyof_enums (JStr s) = JStr s"
  by pat_completeness auto
termination
  by (relation "measure jdepth") (auto simp: flatten_here_depth jdepth_item simp del: jdepth.simps)

section \<open>Keys\<close>

fun strip_keys_recursive :: "string list \<Rightarrow> json \<Rightarrow> json" where
  "strip_keys_recursive ks (JObj m) =
     JObj (map (\<lambda>(k, x). (k, strip_keys_recursive ks x)) (filter (\<lambda>(k, x). k \<notin> set ks) m))"
| "strip_keys_recursive ks (JArr xs) = JArr (map (strip_keys_recursive ks) xs)"
| "strip_keys_recursive ks v = v"

definition clean_tool_schema :: "json \<Rightarrow> cleaning_strategy \<Rightarrow> json" where
  "clean_tool_schema params st =
     (let defs = collect_defs params;
          resolved = (if defs = JNull then params else resolve_refs (Suc max_ref_depth) defs params)
      in strip_keys_recursive (keys_for_strategy st) (flatten_anyof_enums resolved))"

section \<open>What is sent\<close>

fun free_of :: "string list \<Rightarrow> json \<Rightarrow> bool" where
  "free_of ks (JObj m) \<longleftrightarrow> list_all (\<lambda>(k, x). k \<notin> set ks \<and> free_of ks x) m"
| "free_of ks (JArr xs) \<longleftrightarrow> list_all (free_of ks) xs"
| "free_of ks v \<longleftrightarrow> True"

lemma strip_keys_free: "free_of ks (strip_keys_recursive ks v)"
  by (induction ks v rule: strip_keys_recursive.induct) (auto simp: list_all_iff)

lemma strip_keys_id: "free_of ks v \<Longrightarrow> strip_keys_recursive ks v = v"
proof (induction ks v rule: strip_keys_recursive.induct)
  case (1 ks m)
  then have "filter (\<lambda>(k, x). k \<notin> set ks) m = m" by (auto simp: list_all_iff filter_id_conv)
  with 1 show ?case by (auto simp: list_all_iff intro!: map_idI)
next
  case (2 ks xs)
  then show ?case by (auto simp: list_all_iff intro!: map_idI)
qed simp_all

text \<open>
  No schema that is sent to a model has a key that the strategy of its provider takes out, at any depth, whatever the
  tool declares: references that go in circles and enumerations put together on the way included.
\<close>

theorem cleaned_schema_has_known_keys: "free_of (keys_for_strategy st) (clean_tool_schema params st)"
  unfolding clean_tool_schema_def Let_def by (rule strip_keys_free)

text \<open>
  The keys are taken out of the properties of a schema too: a parameter with the name of a keyword is not declared to the
  model, also where it is required.
\<close>

definition schema_with_default :: json where
  "schema_with_default = mk_obj [(''type'', JStr ''object''),
     (''properties'', mk_obj [(''default'', mk_obj [(''type'', JStr ''string'')])]), (''required'', JArr [JStr ''default''])]"

lemma parameter_default_is_lost:
  "clean_tool_schema schema_with_default CleanAnthropic =
     mk_obj [(''type'', JStr ''object''), (''properties'', mk_obj []), (''required'', JArr [JStr ''default''])]"
  by code_simp

text \<open>A definition that refers to itself is unfolded eleven times, and the last reference is left empty.\<close>

lemma circular_reference_ends:
  "clean_tool_schema (mk_obj [(''$ref'', JStr ''#/$defs/a''), (''$defs'', mk_obj [(''a'', mk_obj [(''$ref'', JStr ''#/$defs/a'')])])]) CleanOpenAi = mk_obj []"
  by code_simp

end
