(* ===== verification/Providers.thy ===== *)
theory Providers
  imports Llm Schema_Clean Numbers
begin

text \<open>
  The clients of language models (\<open>crates/agent/src/provider/openai.rs\<close>, \<open>deepseek.rs\<close> and \<open>anthropic.rs\<close>): the
  requests they build, the answers and the streams they read. DeepSeek repeats the code of OpenAI with other constants.

  The HTTP client is a function from a URL, headers and a JSON body to a response. Of a response the code reads the status,
  the header \<open>retry-after\<close> (\<open>None\<close> also where it is not text), the body as text, and the body as a stream of byte chunks,
  any of which may be an error. The text of a status, that of a parse error and the JSON form of a 32-bit float are
  arguments.
\<close>

record http_response =
  hr_status :: nat
  hr_retry_after :: "string option"
  hr_text :: string
  hr_stream :: "(string + string) list"

type_synonym 'w http_client = "string \<Rightarrow> (string \<times> string) list \<Rightarrow> json \<Rightarrow> ('w, string, http_response) io"

record penv = aenv +
  pe_status :: "nat \<Rightarrow> string"
  pe_parse_error :: "string \<Rightarrow> string"
  pe_float :: "u32 \<Rightarrow> json"
  pe_var :: "string \<Rightarrow> string option"

record provider_config =
  pc_key :: string
  pc_model :: string
  pc_base :: string
  pc_max_tokens :: u32

section \<open>Reading JSON\<close>

definition as_u64 :: "json \<Rightarrow> u64 option" where
  "as_u64 v = (case v of JInt i \<Rightarrow> if 0 \<le> i \<and> i < 2 ^ 64 then Some (of_int i) else None | _ \<Rightarrow> None)"

definition jget_u64 :: "json \<Rightarrow> string \<Rightarrow> u64 option" where
  "jget_u64 v k = Option.bind (jget v k) as_u64"

definition jget_array :: "json \<Rightarrow> string \<Rightarrow> json list option" where
  "jget_array v k = Option.bind (jget v k) as_array"

definition str_or :: "string \<Rightarrow> json \<Rightarrow> string \<Rightarrow> string" where
  "str_or d v k = (case jget_str v k of None \<Rightarrow> d | Some s \<Rightarrow> s)"

text \<open>\<open>body[k] = v\<close> on an object.\<close>

definition set_key :: "string \<Rightarrow> json \<Rightarrow> json \<Rightarrow> json" where
  "set_key k v b = (case b of JObj m \<Rightarrow> JObj (obj_insert k v m) | _ \<Rightarrow> b)"

definition invalid :: "string \<Rightarrow> atta_error" where
  "invalid m = Llm (InvalidResponse m)"

fun collect_results :: "('a \<Rightarrow> 'e + 'b) \<Rightarrow> 'a list \<Rightarrow> 'e + 'b list" where
  "collect_results f [] = Inr []"
| "collect_results f (x # xs) = and_then (f x) (\<lambda>y. and_then (collect_results f xs) (\<lambda>ys. Inr (y # ys)))"

section \<open>Status codes\<close>

definition handle_error_status :: "penv \<Rightarrow> http_response \<Rightarrow> atta_error option" where
  "handle_error_status P r =
     (let st = hr_status r in
      if st = 401 then Some (Llm (AuthError ''invalid API key''))
      else if st = 429 then
        Some (Llm (LlmRateLimited (case Option.bind (hr_retry_after r) parse_u64 of None \<Rightarrow> 60 | Some n \<Rightarrow> n)))
      else if 500 \<le> st \<and> st < 600 then Some (Llm (RequestFailed (''server error '' @ pe_status P st @ '': '' @ hr_text r)))
      else if \<not> (200 \<le> st \<and> st < 300) then Some (Llm (RequestFailed (''HTTP '' @ pe_status P st @ '': '' @ hr_text r)))
      else None)"

definition send_request :: "'w http_client \<Rightarrow> string \<Rightarrow> (string \<times> string) list \<Rightarrow> json \<Rightarrow> ('w, atta_error, http_response) io" where
  "send_request C url headers body =
     tryE (C url headers body) (\<lambda>r. case r of Inl e \<Rightarrow> failE (Llm (RequestFailed e)) | Inr x \<Rightarrow> retE x)"

definition response_json :: "penv \<Rightarrow> http_response \<Rightarrow> atta_error + json" where
  "response_json P r =
     (case handle_error_status P r of
        Some e \<Rightarrow> Inl e
      | None \<Rightarrow>
          (case ae_json_parse P (hr_text r) of
             None \<Rightarrow> Inl (invalid (''failed to parse response JSON: '' @ pe_parse_error P (hr_text r)))
           | Some v \<Rightarrow> Inr v))"

section \<open>Streams\<close>

text \<open>
  A reader looks at one trimmed line at a time. It goes on with a state and the chunks of the line, or it stops.
\<close>

datatype 'st line_result = GoOn 'st "stream_chunk list" | StopHere

definition line_feed :: char where
  "line_feed = CHR 0x0A"

definition split_lines :: "string \<Rightarrow> string list \<times> string" where
  "split_lines s = (let ps = split_on line_feed s in (butlast ps, last ps))"

fun feed_lines :: "('st \<Rightarrow> string \<Rightarrow> 'st line_result) \<Rightarrow> 'st \<Rightarrow> string list \<Rightarrow> stream_chunk list \<times> 'st option" where
  "feed_lines step st [] = ([], Some st)"
| "feed_lines step st (l # ls) =
     (case step st (trim l) of
        StopHere \<Rightarrow> ([StreamDone], None)
      | GoOn st1 cs \<Rightarrow> (case feed_lines step st1 ls of (out, r) \<Rightarrow> (cs @ out, r)))"

fun read_stream :: "('st \<Rightarrow> string \<Rightarrow> 'st line_result) \<Rightarrow> 'st \<Rightarrow> string \<Rightarrow> (string + string) list \<Rightarrow> llm_stream" where
  "read_stream step st buf [] = [Inr StreamDone]"
| "read_stream step st buf (Inl e # rest) = [Inl (Llm (RequestFailed e))]"
| "read_stream step st buf (Inr bytes # rest) =
     (case split_lines (buf @ utf8_lossy bytes) of
        (ls, buf1) \<Rightarrow>
          (case feed_lines step st ls of
             (out, None) \<Rightarrow> map Inr out
           | (out, Some st1) \<Rightarrow> map Inr out @ read_stream step st1 buf1 rest))"

definition skipped_line :: "string \<Rightarrow> bool" where
  "skipped_line l \<longleftrightarrow> l = [] \<or> starts_with l '':''"

section \<open>OpenAI and DeepSeek\<close>

definition role_obj :: "string \<Rightarrow> (string \<times> json) list \<Rightarrow> json" where
  "role_obj r kvs = mk_obj ((''role'', JStr r) # kvs)"

definition oa_call :: "penv \<Rightarrow> tool_call \<Rightarrow> json" where
  "oa_call P c =
     mk_obj [(''id'', JStr (tc_id c)), (''type'', JStr ''function''),
             (''function'', mk_obj [(''name'', JStr (tc_name c)), (''arguments'', JStr (json_show P (tc_args c)))])]"

definition oa_message :: "penv \<Rightarrow> message \<Rightarrow> json" where
  "oa_message P m =
     (case m of
        SystemMsg s \<Rightarrow> role_obj ''system'' [(''content'', JStr s)]
      | UserMsg s \<Rightarrow> role_obj ''user'' [(''content'', JStr s)]
      | AssistantMsg s \<Rightarrow> role_obj ''assistant'' [(''content'', JStr s)]
      | ToolCallsMsg cs \<Rightarrow> role_obj ''assistant'' [(''tool_calls'', JArr (map (oa_call P) cs))]
      | ToolResultMsg i s \<Rightarrow> role_obj ''tool'' [(''tool_call_id'', JStr i), (''content'', JStr s)])"

definition oa_tool :: "tool_schema \<Rightarrow> json" where
  "oa_tool t =
     mk_obj [(''type'', JStr ''function''),
             (''function'', mk_obj [(''name'', JStr (schema_name t)), (''description'', JStr (schema_description t)),
                                  (''parameters'', clean_tool_schema (schema_parameters t) CleanOpenAi)])]"

definition oa_request_body :: "penv \<Rightarrow> provider_config \<Rightarrow> message list \<Rightarrow> tool_schema list \<Rightarrow> json" where
  "oa_request_body P pc ms ts =
     (let b = mk_obj [(''model'', JStr (pc_model pc)), (''messages'', JArr (map (oa_message P) ms))]
      in if ts \<noteq> [] then set_key ''tools'' (JArr (map oa_tool ts)) b else b)"

definition oa_parse_call :: "penv \<Rightarrow> json \<Rightarrow> atta_error + tool_call" where
  "oa_parse_call P tc =
     (case jget tc ''function'' of
        None \<Rightarrow> Inl (invalid ''missing function in tool_call'')
      | Some f \<Rightarrow> Inr \<lparr>tc_id = str_or [] tc ''id'', tc_name = str_or [] f ''name'',
                       tc_args = (case ae_json_parse P (str_or ''{}'' f ''arguments'') of None \<Rightarrow> JObj [] | Some v \<Rightarrow> v)\<rparr>)"

definition oa_parse_response :: "penv \<Rightarrow> json \<Rightarrow> atta_error + llm_response" where
  "oa_parse_response P body =
     (case jget_array body ''choices'' of
        Some (choice # _) \<Rightarrow>
          (case jget choice ''message'' of
             None \<Rightarrow> Inl (invalid ''no message in choice'')
           | Some m \<Rightarrow>
               (case jget_array m ''tool_calls'' of
                  Some tcs \<Rightarrow> and_then (collect_results (oa_parse_call P) tcs) (\<lambda>cs. Inr (LlmToolCalls cs))
                | None \<Rightarrow> Inr (LlmMessage (str_or [] m ''content''))))
      | _ \<Rightarrow> Inl (invalid ''no choices in response''))"

definition oa_parse_usage :: "json \<Rightarrow> token_usage option" where
  "oa_parse_usage body =
     Option.bind (jget body ''usage'') (\<lambda>u. Option.bind (jget_u64 u ''prompt_tokens'') (\<lambda>i.
     map_option (\<lambda>n. \<lparr>tu_input = i, tu_output = n\<rparr>) (jget_u64 u ''completion_tokens'')))"

definition oa_call_chunk :: "json \<Rightarrow> stream_chunk" where
  "oa_call_chunk tc =
     (let f = jget tc ''function'' in
      ToolCallDelta (case jget_u64 tc ''index'' of None \<Rightarrow> 0 | Some n \<Rightarrow> unat n) (jget_str tc ''id'')
        (Option.bind f (\<lambda>x. jget_str x ''name''))
        (case Option.bind f (\<lambda>x. jget_str x ''arguments'') of None \<Rightarrow> [] | Some a \<Rightarrow> a))"

definition oa_choice_chunks :: "json \<Rightarrow> stream_chunk list" where
  "oa_choice_chunks choice =
     (case jget choice ''delta'' of
        None \<Rightarrow> []
      | Some d \<Rightarrow>
          (case jget_str d ''content'' of Some s \<Rightarrow> if s \<noteq> [] then [TextDelta s] else [] | None \<Rightarrow> []) @
          (case jget_array d ''tool_calls'' of Some tcs \<Rightarrow> map oa_call_chunk tcs | None \<Rightarrow> []))"

definition oa_line :: "penv \<Rightarrow> unit \<Rightarrow> string \<Rightarrow> unit line_result" where
  "oa_line P st l =
     (if skipped_line l then GoOn () []
      else if l = ''data: [DONE]'' then StopHere
      else case Option.bind (strip_prefix ''data: '' l) (ae_json_parse P) of
        None \<Rightarrow> GoOn () []
      | Some v \<Rightarrow> GoOn () (case jget_array v ''choices'' of None \<Rightarrow> [] | Some cs \<Rightarrow> concat (map oa_choice_chunks cs)))"

definition oa_url :: "provider_config \<Rightarrow> string" where
  "oa_url pc = pc_base pc @ ''/chat/completions''"

definition oa_headers :: "provider_config \<Rightarrow> (string \<times> string) list" where
  "oa_headers pc = [(''Authorization'', ''Bearer '' @ pc_key pc), (''Content-Type'', ''application/json'')]"

definition oa_chat :: "penv \<Rightarrow> 'w http_client \<Rightarrow> provider_config \<Rightarrow> message list \<Rightarrow> tool_schema list \<Rightarrow> ('w, atta_error, llm_response) io" where
  "oa_chat P C pc ms ts =
     bindE (send_request C (oa_url pc) (oa_headers pc) (oa_request_body P pc ms ts)) (\<lambda>r.
     liftE (and_then (response_json P r) (oa_parse_response P)))"

definition oa_chat_stream :: "penv \<Rightarrow> 'w http_client \<Rightarrow> provider_config \<Rightarrow> message list \<Rightarrow> tool_schema list \<Rightarrow> ('w, atta_error, llm_stream) io" where
  "oa_chat_stream P C pc ms ts =
     bindE (send_request C (oa_url pc) (oa_headers pc) (set_key ''stream'' (JBool True) (oa_request_body P pc ms ts))) (\<lambda>r.
     case handle_error_status P r of
       Some e \<Rightarrow> failE e
     | None \<Rightarrow> retE (read_stream (oa_line P) () [] (hr_stream r)))"

definition set_temperature :: "penv \<Rightarrow> chat_options \<Rightarrow> json \<Rightarrow> json" where
  "set_temperature P opts b = (case co_temperature opts of None \<Rightarrow> b | Some t \<Rightarrow> set_key ''temperature'' (pe_float P t) b)"

definition oa_options :: "penv \<Rightarrow> chat_options \<Rightarrow> json \<Rightarrow> json" where
  "oa_options P opts b =
     set_temperature P opts (set_key ''reasoning_effort''
       (JStr (case co_thinking opts of ThinkLow \<Rightarrow> ''low'' | ThinkMedium \<Rightarrow> ''medium'' | _ \<Rightarrow> ''high'')) b)"

definition oa_chat_with_options ::
  "penv \<Rightarrow> 'w http_client \<Rightarrow> provider_config \<Rightarrow> message list \<Rightarrow> tool_schema list \<Rightarrow> chat_options \<Rightarrow> ('w, atta_error, llm_response) io" where
  "oa_chat_with_options P C pc ms ts opts =
     bindE (send_request C (oa_url pc) (oa_headers pc) (oa_options P opts (oa_request_body P pc ms ts))) (\<lambda>r.
     liftE (and_then (response_json P r) (oa_parse_response P)))"

definition oa_chat_with_usage ::
  "penv \<Rightarrow> 'w http_client \<Rightarrow> provider_config \<Rightarrow> message list \<Rightarrow> tool_schema list \<Rightarrow> chat_options \<Rightarrow> ('w, atta_error, llm_result) io" where
  "oa_chat_with_usage P C pc ms ts opts =
     bindE (send_request C (oa_url pc) (oa_headers pc) (oa_options P opts (oa_request_body P pc ms ts))) (\<lambda>r.
     liftE (and_then (response_json P r) (\<lambda>v. and_then (oa_parse_response P v) (\<lambda>a.
       Inr \<lparr>lr_response = a, lr_usage = oa_parse_usage v\<rparr>))))"

definition oa_info :: "provider_config \<Rightarrow> model_info" where
  "oa_info pc = \<lparr>mi_id = pc_model pc, mi_window = 128000, mi_tools = True, mi_provider = ''openai'', mi_streaming = True\<rparr>"

definition oa_provider :: "penv \<Rightarrow> 'w http_client \<Rightarrow> provider_config \<Rightarrow> 'w llm" where
  "oa_provider P C pc =
     \<lparr>llm_chat = oa_chat P C pc, llm_chat_with_usage = oa_chat_with_usage P C pc,
      llm_chat_stream = (\<lambda>ms ts opts. oa_chat_stream P C pc ms ts), llm_model_info = oa_info pc\<rparr>"

definition var_or :: "penv \<Rightarrow> string \<Rightarrow> string \<Rightarrow> string" where
  "var_or P k d = (case pe_var P k of None \<Rightarrow> d | Some s \<Rightarrow> s)"

definition oa_from_env :: "penv \<Rightarrow> atta_error + provider_config" where
  "oa_from_env P =
     and_then (ok_or (Llm (AuthError ''OPENAI_API_KEY environment variable not set'')) (pe_var P ''OPENAI_API_KEY'')) (\<lambda>k.
     Inr \<lparr>pc_key = k, pc_model = var_or P ''OPENAI_MODEL'' ''gpt-4o'',
          pc_base = var_or P ''OPENAI_BASE_URL'' ''https://api.openai.com/v1'', pc_max_tokens = 0\<rparr>)"

definition ds_info :: "provider_config \<Rightarrow> model_info" where
  "ds_info pc = \<lparr>mi_id = pc_model pc, mi_window = 64000, mi_tools = True, mi_provider = ''deepseek'', mi_streaming = True\<rparr>"

definition ds_provider :: "penv \<Rightarrow> 'w http_client \<Rightarrow> provider_config \<Rightarrow> 'w llm" where
  "ds_provider P C pc = (oa_provider P C pc)\<lparr>llm_model_info := ds_info pc\<rparr>"

definition ds_from_env :: "penv \<Rightarrow> atta_error + provider_config" where
  "ds_from_env P =
     and_then (ok_or (Llm (AuthError ''DEEPSEEK_API_KEY environment variable not set'')) (pe_var P ''DEEPSEEK_API_KEY'')) (\<lambda>k.
     Inr \<lparr>pc_key = k, pc_model = var_or P ''DEEPSEEK_MODEL'' ''deepseek-chat'',
          pc_base = var_or P ''DEEPSEEK_BASE_URL'' ''https://api.deepseek.com/v1'', pc_max_tokens = 0\<rparr>)"

section \<open>Anthropic\<close>

definition an_call :: "tool_call \<Rightarrow> json" where
  "an_call c = mk_obj [(''type'', JStr ''tool_use''), (''id'', JStr (tc_id c)), (''name'', JStr (tc_name c)), (''input'', tc_args c)]"

fun an_message :: "message \<Rightarrow> json list" where
  "an_message (SystemMsg s) = []"
| "an_message (UserMsg s) = [role_obj ''user'' [(''content'', JStr s)]]"
| "an_message (AssistantMsg s) =
     [role_obj ''assistant'' [(''content'', JArr [mk_obj [(''type'', JStr ''text''), (''text'', JStr s)]])]]"
| "an_message (ToolCallsMsg cs) = [role_obj ''assistant'' [(''content'', JArr (map an_call cs))]]"
| "an_message (ToolResultMsg i s) =
     [role_obj ''user'' [(''content'', JArr [mk_obj [(''type'', JStr ''tool_result''), (''tool_use_id'', JStr i), (''content'', JStr s)]])]]"

text \<open>The system prompt is the last system message; the others are kept in order.\<close>

fun last_system :: "string option \<Rightarrow> message list \<Rightarrow> string option" where
  "last_system acc [] = acc"
| "last_system acc (SystemMsg s # ms) = last_system (Some s) ms"
| "last_system acc (m # ms) = last_system acc ms"

definition an_format_messages :: "message list \<Rightarrow> string option \<times> json list" where
  "an_format_messages ms = (last_system None ms, concat (map an_message ms))"

definition an_tool :: "tool_schema \<Rightarrow> json" where
  "an_tool t =
     mk_obj [(''name'', JStr (schema_name t)), (''description'', JStr (schema_description t)),
             (''input_schema'', clean_tool_schema (schema_parameters t) CleanAnthropic)]"

definition an_request_body :: "provider_config \<Rightarrow> message list \<Rightarrow> tool_schema list \<Rightarrow> json" where
  "an_request_body pc ms ts =
     (let (sys, fs) = an_format_messages ms;
          b = mk_obj [(''model'', JStr (pc_model pc)), (''max_tokens'', JInt (uint (pc_max_tokens pc))), (''messages'', JArr fs)];
          b1 = (case sys of None \<Rightarrow> b | Some s \<Rightarrow> set_key ''system'' (JStr s) b)
      in if ts \<noteq> [] then set_key ''tools'' (JArr (map an_tool ts)) b1 else b1)"

definition an_block_call :: "json \<Rightarrow> tool_call option" where
  "an_block_call b =
     (if str_or [] b ''type'' = ''tool_use''
      then Some \<lparr>tc_id = str_or [] b ''id'', tc_name = str_or [] b ''name'',
                 tc_args = (case jget b ''input'' of None \<Rightarrow> JObj [] | Some v \<Rightarrow> v)\<rparr>
      else None)"

definition an_block_text :: "json \<Rightarrow> string option" where
  "an_block_text b = (if str_or [] b ''type'' = ''text'' then jget_str b ''text'' else None)"

definition an_parse_response :: "json \<Rightarrow> atta_error + llm_response" where
  "an_parse_response body =
     (case jget_array body ''content'' of
        None \<Rightarrow> Inl (invalid ''no content array in response'')
      | Some bs \<Rightarrow>
          (let calls = List.map_filter an_block_call bs in
           if calls \<noteq> [] then Inr (LlmToolCalls calls) else Inr (LlmMessage (concat (List.map_filter an_block_text bs)))))"

definition an_parse_usage :: "json \<Rightarrow> token_usage option" where
  "an_parse_usage body =
     Option.bind (jget body ''usage'') (\<lambda>u. Option.bind (jget_u64 u ''input_tokens'') (\<lambda>i.
     map_option (\<lambda>n. \<lparr>tu_input = i, tu_output = n\<rparr>) (jget_u64 u ''output_tokens'')))"

text \<open>The state of the reader is the index of the latest tool block.\<close>

definition an_event :: "nat \<Rightarrow> json \<Rightarrow> nat line_result" where
  "an_event idx v =
     (let ty = str_or [] v ''type'' in
      if ty = ''content_block_start'' then
        (case jget v ''content_block'' of
           None \<Rightarrow> GoOn idx []
         | Some b \<Rightarrow>
             if str_or [] b ''type'' = ''tool_use''
             then (let i = (case jget_u64 v ''index'' of None \<Rightarrow> 0 | Some n \<Rightarrow> unat n)
                   in GoOn i [ToolCallDelta i (jget_str b ''id'') (jget_str b ''name'') []])
             else GoOn idx [])
      else if ty = ''content_block_delta'' then
        (case jget v ''delta'' of
           None \<Rightarrow> GoOn idx []
         | Some d \<Rightarrow>
             (let dt = str_or [] d ''type'' in
              if dt = ''text_delta''
              then GoOn idx (case jget_str d ''text'' of Some s \<Rightarrow> if s \<noteq> [] then [TextDelta s] else [] | None \<Rightarrow> [])
              else if dt = ''input_json_delta''
              then GoOn idx (case jget_str d ''partial_json'' of Some s \<Rightarrow> [ToolCallDelta idx None None s] | None \<Rightarrow> [])
              else GoOn idx []))
      else if ty = ''message_stop'' then StopHere
      else GoOn idx [])"

definition an_line :: "penv \<Rightarrow> nat \<Rightarrow> string \<Rightarrow> nat line_result" where
  "an_line P idx l =
     (if skipped_line l then GoOn idx []
      else if l = ''event: message_stop'' then StopHere
      else case Option.bind (strip_prefix ''data: '' l) (ae_json_parse P) of
        None \<Rightarrow> GoOn idx []
      | Some v \<Rightarrow> an_event idx v)"

definition an_url :: "provider_config \<Rightarrow> string" where
  "an_url pc = pc_base pc @ ''/v1/messages''"

definition an_headers :: "provider_config \<Rightarrow> (string \<times> string) list" where
  "an_headers pc = [(''x-api-key'', pc_key pc), (''anthropic-version'', ''2023-06-01''), (''Content-Type'', ''application/json'')]"

definition an_chat :: "penv \<Rightarrow> 'w http_client \<Rightarrow> provider_config \<Rightarrow> message list \<Rightarrow> tool_schema list \<Rightarrow> ('w, atta_error, llm_response) io" where
  "an_chat P C pc ms ts =
     bindE (send_request C (an_url pc) (an_headers pc) (an_request_body pc ms ts)) (\<lambda>r.
     liftE (and_then (response_json P r) an_parse_response))"

definition an_chat_stream :: "penv \<Rightarrow> 'w http_client \<Rightarrow> provider_config \<Rightarrow> message list \<Rightarrow> tool_schema list \<Rightarrow> ('w, atta_error, llm_stream) io" where
  "an_chat_stream P C pc ms ts =
     bindE (send_request C (an_url pc) (an_headers pc) (set_key ''stream'' (JBool True) (an_request_body pc ms ts))) (\<lambda>r.
     case handle_error_status P r of
       Some e \<Rightarrow> failE e
     | None \<Rightarrow> retE (read_stream (an_line P) 0 [] (hr_stream r)))"

definition an_options :: "penv \<Rightarrow> chat_options \<Rightarrow> json \<Rightarrow> json" where
  "an_options P opts b =
     set_temperature P opts
       (case co_thinking opts of
          ThinkExtended n \<Rightarrow> set_key ''thinking'' (mk_obj [(''type'', JStr ''enabled''), (''budget_tokens'', JInt (uint n))]) b
        | _ \<Rightarrow> b)"

definition an_chat_with_options ::
  "penv \<Rightarrow> 'w http_client \<Rightarrow> provider_config \<Rightarrow> message list \<Rightarrow> tool_schema list \<Rightarrow> chat_options \<Rightarrow> ('w, atta_error, llm_response) io" where
  "an_chat_with_options P C pc ms ts opts =
     bindE (send_request C (an_url pc) (an_headers pc) (an_options P opts (an_request_body pc ms ts))) (\<lambda>r.
     liftE (and_then (response_json P r) an_parse_response))"

definition an_chat_with_usage ::
  "penv \<Rightarrow> 'w http_client \<Rightarrow> provider_config \<Rightarrow> message list \<Rightarrow> tool_schema list \<Rightarrow> chat_options \<Rightarrow> ('w, atta_error, llm_result) io" where
  "an_chat_with_usage P C pc ms ts opts =
     bindE (send_request C (an_url pc) (an_headers pc) (an_options P opts (an_request_body pc ms ts))) (\<lambda>r.
     liftE (and_then (response_json P r) (\<lambda>v. and_then (an_parse_response v) (\<lambda>a.
       Inr \<lparr>lr_response = a, lr_usage = an_parse_usage v\<rparr>))))"

definition an_info :: "provider_config \<Rightarrow> model_info" where
  "an_info pc = \<lparr>mi_id = pc_model pc, mi_window = 200000, mi_tools = True, mi_provider = ''anthropic'', mi_streaming = True\<rparr>"

definition an_provider :: "penv \<Rightarrow> 'w http_client \<Rightarrow> provider_config \<Rightarrow> 'w llm" where
  "an_provider P C pc =
     \<lparr>llm_chat = an_chat P C pc, llm_chat_with_usage = an_chat_with_usage P C pc,
      llm_chat_stream = (\<lambda>ms ts opts. an_chat_stream P C pc ms ts), llm_model_info = an_info pc\<rparr>"

definition an_from_env :: "penv \<Rightarrow> atta_error + provider_config" where
  "an_from_env P =
     and_then (ok_or (Llm (AuthError ''ANTHROPIC_API_KEY environment variable not set'')) (pe_var P ''ANTHROPIC_API_KEY'')) (\<lambda>k.
     Inr \<lparr>pc_key = k, pc_model = var_or P ''ANTHROPIC_MODEL'' ''claude-sonnet-4-20250514'',
          pc_base = var_or P ''ANTHROPIC_BASE_URL'' ''https://api.anthropic.com'',
          pc_max_tokens = (case Option.bind (pe_var P ''ANTHROPIC_MAX_TOKENS'') parse_u64 of
             Some n \<Rightarrow> if n < 2 ^ 32 then of_nat (unat n) else 4096 | None \<Rightarrow> 4096)\<rparr>)"

section \<open>The shared line parser\<close>

text \<open>
  \<open>sse.rs\<close> offers the same reading of lines to the providers, which do not use it: they skip a line that is not JSON,
  where it reports an error.
\<close>

definition parse_sse_line :: "penv \<Rightarrow> string \<Rightarrow> atta_error + json option" where
  "parse_sse_line P line =
     (let l = trim line in
      if skipped_line l \<or> l = ''data: [DONE]'' then Inr None
      else case strip_prefix ''data: '' l of
        None \<Rightarrow> Inr None
      | Some d \<Rightarrow>
          (let t = trim d in
           if t = [] then Inr None
           else case ae_json_parse P t of
             None \<Rightarrow> Inl (invalid (''SSE JSON parse error: '' @ pe_parse_error P t))
           | Some v \<Rightarrow> Inr (Some v)))"

definition is_stream_done :: "string \<Rightarrow> bool" where
  "is_stream_done line \<longleftrightarrow> trim line = ''data: [DONE]'' \<or> trim line = ''event: message_stop''"

end
