(* ===== verification/Provider_Props.thy ===== *)
theory Provider_Props
  imports Providers Agent_Stream
begin

text \<open>
  What the clients of language models promise: a stream is read the same way however the network cuts it, the chunks a
  server sends in the form of OpenAI are the chunks the loop gets, and the calls of a history read back from an answer.
  And what they do not: a call that Anthropic streams after a text comes with an empty call before it.
\<close>

section \<open>Cutting a text at characters\<close>

function valid_utf8 :: "string \<Rightarrow> bool" where
  "valid_utf8 [] = True"
| "valid_utf8 (c # cs) = (case utf8_step c cs of (n, good) \<Rightarrow> good \<and> valid_utf8 (drop n (c # cs)))"
  by pat_completeness auto
termination
proof (relation "measure length", simp)
  fix c cs and n :: nat and good :: bool
  assume "(n, good) = utf8_step c cs"
  then have "0 < n" using utf8_step_pos [of c cs] by (metis fst_conv)
  then show "(drop n (c # cs), c # cs) \<in> measure length" by simp
qed

lemma tail_step_append: "tail_step n k cs = (m, True) \<Longrightarrow> m \<le> n + length cs \<and> tail_step n k (cs @ b) = (m, True)"
  by (induction n k cs rule: tail_step.induct) (auto split: if_splits)

lemma second_step_append:
  "second_step lo hi k cs = (m, True) \<Longrightarrow> m \<le> Suc (length cs) \<and> second_step lo hi k (cs @ b) = (m, True)"
  by (cases cs) (auto split: if_splits dest: tail_step_append [where b = b])

lemma utf8_step_append: "utf8_step c cs = (m, True) \<Longrightarrow> m \<le> Suc (length cs) \<and> utf8_step c (cs @ b) = (m, True)"
  by (auto simp: utf8_step_def split: if_splits dest: second_step_append [where b = b])

lemma valid_utf8_Cons:
  assumes "valid_utf8 (c # cs)"
  obtains n where "utf8_step c cs = (n, True)" and "valid_utf8 (drop n (c # cs))" and "n \<le> Suc (length cs)" and "0 < n"
  using assms utf8_step_append [of c cs _ "[]"] utf8_step_pos [of c cs] that by (cases "utf8_step c cs") auto

lemma utf8_lossy_append: "valid_utf8 a \<Longrightarrow> utf8_lossy (a @ b) = a @ utf8_lossy b"
proof (induction a rule: valid_utf8.induct)
  case (2 c cs)
  from "2.prems" obtain n where n: "utf8_step c cs = (n, True)" and rest: "valid_utf8 (drop n (c # cs))" and "n \<le> Suc (length cs)"
    by (rule valid_utf8_Cons)
  then have le: "n \<le> length (c # cs)" by simp
  have "utf8_lossy (drop n (c # cs) @ b) = drop n (c # cs) @ utf8_lossy b"
    using "2.IH" [OF n [symmetric]] rest by simp
  moreover have "utf8_lossy ((c # cs) @ b) = take n ((c # cs) @ b) @ utf8_lossy (drop n ((c # cs) @ b))"
    using utf8_step_append [OF n, of b] by simp
  ultimately show ?case
    using le by (simp only: take_append drop_append) (simp flip: append_assoc)
qed simp

lemma utf8_lossy_valid: "valid_utf8 a \<Longrightarrow> utf8_lossy a = a"
  using utf8_lossy_append [of a "[]"] by simp

section \<open>Cutting a stream\<close>

lemma split_on_not_Nil [simp]: "split_on c s \<noteq> []"
  by (induction s) (auto split: list.split)

lemma split_on_cut: "split_on c (x @ y) = butlast (split_on c x) @ split_on c (last (split_on c x) @ y)"
proof (induction x)
  case (Cons a x)
  obtain l ls where "split_on c x = l # ls" by (cases "split_on c x") simp_all
  with Cons show ?case by (cases ls) (auto split: list.split)
qed simp

lemma split_lines_cut:
  "split_lines (x @ y) = (fst (split_lines x) @ fst (split_lines (snd (split_lines x) @ y)), snd (split_lines (snd (split_lines x) @ y)))"
  by (simp add: split_lines_def Let_def split_on_cut [of _ x y] butlast_append)

lemma feed_lines_append:
  "feed_lines step st (xs @ ys) =
     (case feed_lines step st xs of
        (out, None) \<Rightarrow> (out, None)
      | (out, Some st1) \<Rightarrow> (case feed_lines step st1 ys of (out2, r) \<Rightarrow> (out @ out2, r)))"
  by (induction xs arbitrary: st) (auto split: line_result.split prod.split option.split)

lemma read_stream_join:
  assumes "valid_utf8 a"
  shows "read_stream step st buf (Inr a # Inr b # rest) = read_stream step st buf (Inr (a @ b) # rest)"
  using assms
  by (simp add: utf8_lossy_append utf8_lossy_valid split_lines_cut [of "buf @ a" "utf8_lossy b", simplified] feed_lines_append
      split: prod.split option.split)

lemma valid_utf8_append: "valid_utf8 a \<Longrightarrow> valid_utf8 b \<Longrightarrow> valid_utf8 (a @ b)"
proof (induction a rule: valid_utf8.induct)
  case (2 c cs)
  from "2.prems"(1) obtain n where n: "utf8_step c cs = (n, True)" and rest: "valid_utf8 (drop n (c # cs))" and "n \<le> Suc (length cs)"
    by (rule valid_utf8_Cons)
  then have le: "n \<le> length (c # cs)" by simp
  have "valid_utf8 (drop n (c # cs) @ b)" using "2.IH" [OF n [symmetric]] rest "2.prems"(2) by simp
  moreover have "valid_utf8 ((c # cs) @ b) = valid_utf8 (drop n ((c # cs) @ b))" using utf8_step_append [OF n, of b] by simp
  ultimately show ?case using le by (simp only: drop_append) simp
qed simp

lemma valid_utf8_concat: "list_all valid_utf8 bs \<Longrightarrow> valid_utf8 (concat bs)"
  by (induction bs) (auto intro: valid_utf8_append)

lemma read_stream_cut:
  "list_all valid_utf8 bs \<Longrightarrow> valid_utf8 b \<Longrightarrow>
     read_stream step st buf (map Inr (b # bs) @ rest) = read_stream step st buf (Inr (b @ concat bs) # rest)"
proof (induction bs arbitrary: b)
  case (Cons a bs)
  have "read_stream step st buf (map Inr (b # a # bs) @ rest) = read_stream step st buf (map Inr ((b @ a) # bs) @ rest)"
    using read_stream_join [OF Cons.prems(2)] by (simp only: list.map append_Cons)
  also have "\<dots> = read_stream step st buf (Inr ((b @ a) @ concat bs) # rest)"
    using Cons.prems by (intro Cons.IH valid_utf8_append) simp_all
  finally show ?case by simp
qed simp

section \<open>What the server sends\<close>

text \<open>
  A server-sent event is a line with the compact text of a JSON value. Such a text has no line break, begins and ends with
  no blank, and is not the mark of the end.
\<close>

definition wire_ok :: "penv \<Rightarrow> json \<Rightarrow> bool" where
  "wire_ok P v \<longleftrightarrow>
     ae_json_parse P (json_show P v) = Some v \<and> json_show P v \<noteq> [] \<and> json_show P v \<noteq> ''[DONE]'' \<and>
     line_feed \<notin> set (json_show P v) \<and> \<not> is_ws (last (json_show P v))"

definition data_line :: "penv \<Rightarrow> json \<Rightarrow> string" where
  "data_line P v = ''data: '' @ json_show P v"

definition sse_body :: "string list \<Rightarrow> string" where
  "sse_body ls = concat (map (\<lambda>l. l @ [line_feed, line_feed]) ls)"

lemma split_lines_line: "line_feed \<notin> set l \<Longrightarrow> split_lines (l @ line_feed # s) = (l # fst (split_lines s), snd (split_lines s))"
  by (simp add: split_lines_def split_on_append Let_def)

lemma split_lines_body:
  "list_all (\<lambda>l. line_feed \<notin> set l) ls \<Longrightarrow> split_lines (sse_body ls) = (concat (map (\<lambda>l. [l, []]) ls), [])"
proof (induction ls)
  case Nil
  show ?case by (simp add: sse_body_def split_lines_def)
next
  case (Cons l ls)
  have "sse_body (l # ls) = l @ line_feed # ([] @ line_feed # sse_body ls)" by (simp add: sse_body_def)
  with Cons split_lines_line [of l "[] @ line_feed # sse_body ls"] split_lines_line [of "[]" "sse_body ls"]
  show ?case by simp
qed

lemma trim_data_line:
  assumes "wire_ok P v"
  shows "trim (data_line P v) = data_line P v"
proof -
  have "data_line P v \<noteq> []" "\<not> is_ws (hd (data_line P v))" "\<not> is_ws (last (data_line P v))"
    using assms by (simp_all add: data_line_def wire_ok_def) (simp add: is_ws_def)
  then show ?thesis by (simp add: trim_id)
qed

section \<open>The form of OpenAI\<close>

definition opt_field :: "string \<Rightarrow> string option \<Rightarrow> (string \<times> json) list" where
  "opt_field k v = (case v of None \<Rightarrow> [] | Some s \<Rightarrow> [(k, JStr s)])"

fun oa_delta :: "stream_chunk \<Rightarrow> json" where
  "oa_delta (TextDelta s) = JObj [(''content'', JStr s)]"
| "oa_delta (ToolCallDelta i cid name args) =
     JObj [(''tool_calls'', JArr [JObj ((''index'', JInt (int i)) # opt_field ''id'' cid @
       [(''function'', JObj (opt_field ''name'' name @ [(''arguments'', JStr args)]))])])]"
| "oa_delta StreamDone = JObj []"

definition oa_event :: "stream_chunk \<Rightarrow> json" where
  "oa_event c = JObj [(''choices'', JArr [JObj [(''delta'', oa_delta c)]])]"

fun sendable :: "stream_chunk \<Rightarrow> bool" where
  "sendable (TextDelta s) \<longleftrightarrow> s \<noteq> []"
| "sendable (ToolCallDelta i cid name args) \<longleftrightarrow> i < 2 ^ 64"
| "sendable StreamDone \<longleftrightarrow> False"

lemma oa_event_chunks:
  assumes "sendable c"
  shows "\<exists>cs. jget_array (oa_event c) ''choices'' = Some cs \<and> concat (map oa_choice_chunks cs) = [c]"
  using assms
proof (cases c)
  case (ToolCallDelta i cid name args)
  moreover have "unat (word_of_nat i :: u64) = i" using assms ToolCallDelta by (simp add: unsigned_of_nat take_bit_nat_eq_self)
  ultimately show ?thesis
    using assms
    by (auto simp: oa_event_def jget_array_def jget_str_def jget_u64_def as_u64_def oa_choice_chunks_def oa_call_chunk_def
        opt_field_def Let_def split: option.split)
qed (auto simp: oa_event_def jget_array_def jget_str_def oa_choice_chunks_def)

lemma oa_line_event:
  assumes "wire_ok P (oa_event c)" and "sendable c"
  shows "oa_line P () (data_line P (oa_event c)) = GoOn () [c]"
proof -
  obtain cs where cs: "jget_array (oa_event c) ''choices'' = Some cs" "concat (map oa_choice_chunks cs) = [c]"
    using oa_event_chunks [OF assms(2)] by blast
  have "\<not> skipped_line (data_line P (oa_event c))" by (simp add: skipped_line_def data_line_def starts_with_def)
  moreover have "data_line P (oa_event c) \<noteq> ''data: [DONE]''" using assms(1) by (simp add: data_line_def wire_ok_def)
  moreover have "strip_prefix ''data: '' (data_line P (oa_event c)) = Some (json_show P (oa_event c))" by (simp add: data_line_def)
  ultimately show ?thesis using cs assms(1) by (simp add: oa_line_def wire_ok_def)
qed

lemma oa_feed_events:
  assumes "list_all sendable cs" and "list_all (wire_ok P) (map oa_event cs)"
  shows "feed_lines (oa_line P) () (concat (map (\<lambda>c. [data_line P (oa_event c), []]) cs) @ [''data: [DONE]'', []]) = (cs @ [StreamDone], None)"
  using assms
proof (induction cs)
  case Nil
  have "trim ''data: [DONE]'' = ''data: [DONE]''" by (rule trim_id) (simp add: is_ws_def)
  then show ?case by (simp add: oa_line_def skipped_line_def starts_with_def)
next
  case (Cons c cs)
  have "oa_line P () (trim []) = GoOn () []" by (simp add: oa_line_def skipped_line_def trim_def trim_start_def trim_end_def)
  with Cons show ?case by (simp add: trim_data_line oa_line_event)
qed

definition oa_stream_body :: "penv \<Rightarrow> stream_chunk list \<Rightarrow> string" where
  "oa_stream_body P cs = sse_body (map (\<lambda>c. data_line P (oa_event c)) cs @ [''data: [DONE]''])"

text \<open>
  C31. The chunks that a server streams in the form of OpenAI are the chunks the loop of an agent gets, in their order and
  followed by the end, wherever between two characters the network cuts the body and whatever it delivers after the end.
\<close>

theorem stream_reads_back:
  assumes "concat (b # bs) = oa_stream_body P cs" and "list_all valid_utf8 (b # bs)"
    and "list_all sendable cs" and "list_all (wire_ok P) (map oa_event cs)"
  shows "read_stream (oa_line P) () [] (map Inr (b # bs) @ rest) = map Inr (cs @ [StreamDone])"
proof -
  let ?ls = "map (\<lambda>c. data_line P (oa_event c)) cs @ [''data: [DONE]'']"
  have lf: "list_all (\<lambda>l. line_feed \<notin> set l) ?ls"
    using assms(4) by (auto simp: list_all_iff data_line_def wire_ok_def line_feed_def)
  have "utf8_lossy (b @ concat bs) = sse_body ?ls"
    using utf8_lossy_valid [OF valid_utf8_concat [OF assms(2)]] assms(1) by (simp add: oa_stream_body_def)
  then have "split_lines (utf8_lossy (b @ concat bs)) = (concat (map (\<lambda>l. [l, []]) ?ls), [])"
    using split_lines_body [OF lf] by simp
  then have "read_stream (oa_line P) () [] (Inr (b @ concat bs) # rest) = map Inr (cs @ [StreamDone])"
    using oa_feed_events [OF assms(3, 4)] by (simp add: comp_def)
  with assms(2) show ?thesis by (subst read_stream_cut) simp_all
qed

definition demo_wire :: "json \<Rightarrow> penv" where
  "demo_wire v = aenv.extend (demo_texts\<lparr>json_show := (\<lambda>_. ''{}''), ae_json_parse := (\<lambda>s. if s = ''{}'' then Some v else None)\<rparr>)
     (penv.fields show_nat (\<lambda>_. []) (\<lambda>_. JNull) (\<lambda>_. None))"

definition demo_rest :: string where
  "demo_rest = [CHR '':'', CHR '' ''] @ ''{}'' @ [line_feed, line_feed] @ ''data: [DONE]'' @ [line_feed, line_feed]"

theorem stream_reads_back_witness:
  "read_stream (oa_line (demo_wire (oa_event (TextDelta ''hi'')))) () [] [Inr ''data'', Inr demo_rest, Inl ''reset''] =
     [Inr (TextDelta ''hi''), Inr StreamDone]"
proof -
  let ?P = "demo_wire (oa_event (TextDelta ''hi''))"
  have body: "concat (''data'' # [demo_rest]) = oa_stream_body ?P [TextDelta ''hi'']" by code_simp
  have cut: "list_all valid_utf8 (''data'' # [demo_rest])" by code_simp
  have sent: "list_all sendable [TextDelta ''hi'']" by simp
  have "list_all (wire_ok ?P) (map oa_event [TextDelta ''hi''])" by code_simp
  from stream_reads_back [OF body cut sent this, of "[Inl ''reset'']"] show ?thesis by simp
qed

section \<open>A text before a call\<close>

definition an_answer :: "string \<Rightarrow> string \<Rightarrow> string \<Rightarrow> string \<Rightarrow> json list" where
  "an_answer s i name args =
     [JObj [(''type'', JStr ''content_block_start''), (''index'', JInt 0),
            (''content_block'', JObj [(''type'', JStr ''text''), (''text'', JStr [])])],
      JObj [(''type'', JStr ''content_block_delta''), (''index'', JInt 0),
            (''delta'', JObj [(''type'', JStr ''text_delta''), (''text'', JStr s)])],
      JObj [(''type'', JStr ''content_block_start''), (''index'', JInt 1),
            (''content_block'', JObj [(''type'', JStr ''tool_use''), (''id'', JStr i), (''name'', JStr name), (''input'', JObj [])])],
      JObj [(''type'', JStr ''content_block_delta''), (''index'', JInt 1),
            (''delta'', JObj [(''type'', JStr ''input_json_delta''), (''partial_json'', JStr args)])],
      JObj [(''type'', JStr ''message_stop'')]]"

lemma an_line_event:
  assumes "wire_ok P v"
  shows "an_line P idx (trim (data_line P v)) = an_event idx v"
proof -
  have "\<not> skipped_line (data_line P v)" by (simp add: skipped_line_def data_line_def starts_with_def)
  moreover have "data_line P v \<noteq> ''event: message_stop''" by (simp add: data_line_def)
  moreover have "strip_prefix ''data: '' (data_line P v) = Some (json_show P v)" by (simp add: data_line_def)
  ultimately show ?thesis using assms unfolding trim_data_line [OF assms] by (simp add: an_line_def wire_ok_def)
qed

lemma an_line_blank: "an_line P idx (trim []) = GoOn idx []"
  by (simp add: an_line_def skipped_line_def trim_def trim_start_def trim_end_def)

lemma an_feed_answer:
  assumes "list_all (wire_ok P) (an_answer s i name args)"
  shows "feed_lines (an_line P) 0 (concat (map (\<lambda>v. [data_line P v, []]) (an_answer s i name args))) =
    ((if s \<noteq> [] then [TextDelta s] else []) @ [ToolCallDelta 1 (Some i) (Some name) [], ToolCallDelta 1 None None args, StreamDone], None)"
  using assms
  by (simp add: an_answer_def an_line_event an_line_blank an_event_def str_or_def jget_str_def jget_u64_def as_u64_def)

text \<open>
  A model that speaks before it calls a tool, over the streaming interface of Anthropic, makes two calls: the reader
  takes the position of the content block for that of the call, so the loop fills the place of the text with a call of the
  tool with the empty name.
\<close>

theorem text_before_call_adds_a_call:
  assumes "list_all (wire_ok P) (an_answer s i name args)" and "ae_json_parse P [] = None"
    and "valid_utf8 (sse_body (map (data_line P) (an_answer s i name args)))"
  shows "map_sum id (\<lambda>(t, bs). collected_response (aenv.truncate P) t bs)
      (fst (collect_stream (read_stream (an_line P) 0 [] [Inr (sse_body (map (data_line P) (an_answer s i name args)))]) [] [])) =
    Inr (LlmToolCalls [\<lparr>tc_id = [], tc_name = [], tc_args = JObj []\<rparr>,
      \<lparr>tc_id = i, tc_name = name, tc_args = (case ae_json_parse P args of None \<Rightarrow> JObj [] | Some v \<Rightarrow> v)\<rparr>])"
proof -
  let ?ls = "map (data_line P) (an_answer s i name args)"
  have "list_all (\<lambda>l. line_feed \<notin> set l) ?ls"
    using assms(1) by (auto simp: list_all_iff data_line_def wire_ok_def line_feed_def)
  then have "split_lines (utf8_lossy (sse_body ?ls)) = (concat (map (\<lambda>l. [l, []]) ?ls), [])"
    using utf8_lossy_valid [OF assms(3)] by (simp only: split_lines_body)
  then have "read_stream (an_line P) 0 [] [Inr (sse_body ?ls)] =
      map Inr ((if s \<noteq> [] then [TextDelta s] else []) @ [ToolCallDelta 1 (Some i) (Some name) [], ToolCallDelta 1 None None args, StreamDone])"
    using an_feed_answer [OF assms(1)] by (simp add: comp_def)
  then show ?thesis
    using assms(2)
    by (simp add: pad_builders_def update_builder_def builder_default_def collected_response_def build_call_def
        numeral_2_eq_2 aenv.defs)
qed

definition demo_number :: "json \<Rightarrow> string" where
  "demo_number v = show_nat (length (takeWhile (\<lambda>w. w \<noteq> v) (an_answer ''ok'' ''c1'' ''atta-shell'' ''{}'')))"

definition demo_answers :: penv where
  "demo_answers = aenv.extend (demo_texts\<lparr>json_show := demo_number, ae_json_parse := (\<lambda>s.
       List.find (\<lambda>v. demo_number v = s) (an_answer ''ok'' ''c1'' ''atta-shell'' ''{}''))\<rparr>)
     (penv.fields show_nat (\<lambda>_. []) (\<lambda>_. JNull) (\<lambda>_. None))"

theorem text_before_call_adds_a_call_witness:
  "map_sum id (\<lambda>(t, bs). collected_response (aenv.truncate demo_answers) t bs)
      (fst (collect_stream (read_stream (an_line demo_answers) 0 []
         [Inr (sse_body (map (data_line demo_answers) (an_answer ''ok'' ''c1'' ''atta-shell'' ''{}'')))]) [] [])) =
    Inr (LlmToolCalls [\<lparr>tc_id = [], tc_name = [], tc_args = JObj []\<rparr>, \<lparr>tc_id = ''c1'', tc_name = ''atta-shell'', tc_args = JObj []\<rparr>])"
proof -
  have sent: "list_all (wire_ok demo_answers) (an_answer ''ok'' ''c1'' ''atta-shell'' ''{}'')" by code_simp
  have none: "ae_json_parse demo_answers [] = None" by code_simp
  have cut: "valid_utf8 (sse_body (map (data_line demo_answers) (an_answer ''ok'' ''c1'' ''atta-shell'' ''{}'')))" by code_simp
  have "ae_json_parse demo_answers ''{}'' = None" by code_simp
  with text_before_call_adds_a_call [OF sent none cut] show ?thesis by simp
qed

section \<open>Calls in a history\<close>

text \<open>The calls of a message that Anthropic is sent read back from an answer with the same content.\<close>

lemma an_calls_back:
  assumes "cs \<noteq> []"
  shows "an_parse_response (JObj [(''content'', JArr (map an_call cs))]) = Inr (LlmToolCalls cs)"
proof -
  have "List.map_filter an_block_call (map an_call cs) = cs"
    by (induction cs) (simp_all add: an_call_def an_block_call_def mk_obj_def str_or_def jget_str_def map_filter_simps)
  with assms show ?thesis by (simp add: an_parse_response_def jget_array_def)
qed

text \<open>An answer of OpenAI with a text and an empty list of calls is an answer without text.\<close>

lemma oa_empty_calls_hide_text:
  "oa_parse_response P (JObj [(''choices'', JArr [JObj [(''message'',
     JObj [(''content'', JStr s), (''tool_calls'', JArr [])])]])]) = Inr (LlmToolCalls [])"
  by (simp add: oa_parse_response_def jget_array_def)

end
