(* ===== verification/Skills.thy ===== *)
theory Skills
  imports Store_Admin_Facts Tool_Registry Llm
begin

text \<open>
  The skill engine (\<open>crates/core/src/skill_engine\<close>): the parser of \<open>SKILL.md\<close> files, the scan for dangerous texts, the
  registry that loads the directories, the prompt and the tools of a skill, the synchronisation with a remote repository,
  and what the server does with them when it starts (\<open>crates/server/src/services.rs\<close>).

  The YAML parser is an argument. A directory is the list of what its entries hold, up to the first entry that cannot be
  read.
\<close>

section \<open>Parsing\<close>

record skill_variable =
  sv_name :: string
  sv_description :: "string option"
  sv_required :: "bool option"
  sv_default :: "json option"

record skill_frontmatter =
  sf_id :: "string option"
  sf_name :: string
  sf_description :: "string option"
  sf_version :: "string option"
  sf_author :: "string option"
  sf_tags :: "string list option"
  sf_tools :: "string list option"
  sf_requires_approval :: "bool option"
  sf_risk_level :: "string option"
  sf_variables :: "skill_variable list option"

record parsed_skill_md =
  pd_def :: skill_def
  pd_body :: string

type_synonym yaml_parser = "string \<Rightarrow> string + skill_frontmatter"

definition or_else :: "'a \<Rightarrow> 'a option \<Rightarrow> 'a" where
  "or_else d x = (case x of None \<Rightarrow> d | Some v \<Rightarrow> v)"

definition frontmatter_risk :: "string \<Rightarrow> risk_level option" where
  "frontmatter_risk s =
     (if s = ''low'' then Some Low else if s = ''medium'' then Some Medium else if s = ''high'' then Some High else None)"

text \<open>The default risk level is low.\<close>

definition skill_of :: "skill_frontmatter \<Rightarrow> string \<Rightarrow> skill_def" where
  "skill_of fm body =
     \<lparr>sk_id = or_else (sf_name fm) (sf_id fm), sk_version = or_else ''0.1.0'' (sf_version fm), sk_name = Some (sf_name fm),
      sk_description = sf_description fm,
      sk_system_prompt = (if body = [] then or_else [] (sf_description fm) else body),
      sk_tools = or_else [] (sf_tools fm), sk_steps = None, sk_output_format = None,
      sk_requires_approval = or_else False (sf_requires_approval fm),
      sk_risk_level = or_else Low (Option.bind (sf_risk_level fm) frontmatter_risk), sk_tags = or_else [] (sf_tags fm),
      sk_variables = map_option (map (\<lambda>v. \<lparr>vd_name = sv_name v, vd_description = sv_description v,
        vd_required = or_else False (sv_required v), vd_default = sv_default v\<rparr>)) (sf_variables fm),
      sk_author = sf_author fm, sk_source = ''builtin''\<rparr>"

definition fence :: string where
  "fence = ''---''"

definition closing_fence :: string where
  "closing_fence = CHR 0x0A # fence"

definition parse_skill_md :: "yaml_parser \<Rightarrow> string \<Rightarrow> atta_error + parsed_skill_md" where
  "parse_skill_md yaml content =
     (case strip_prefix fence (trim content) of
        None \<Rightarrow> Inl (Validation ''SKILL.md must start with YAML frontmatter (---)'')
      | Some after_first \<Rightarrow>
          (case split_once closing_fence after_first of
             None \<Rightarrow> Inl (Validation ''missing closing --- for YAML frontmatter'')
           | Some (front, rest) \<Rightarrow>
               (case yaml (trim front) of
                  Inl e \<Rightarrow> Inl (Validation e)
                | Inr fm \<Rightarrow> (let body = trim rest in Inr \<lparr>pd_def = skill_of fm body, pd_body = body\<rparr>))))"

section \<open>Validation\<close>

datatype warning_severity = InfoWarning | PlainWarning | CriticalWarning

record validation_warning =
  vw_category :: string
  vw_message :: string
  vw_severity :: warning_severity

definition dangerous_texts :: "(string \<times> string \<times> warning_severity) list" where
  "dangerous_texts =
     [(''ignore previous instructions'', ''prompt injection attempt'', CriticalWarning),
      (''ignore all instructions'', ''prompt injection attempt'', CriticalWarning),
      (''disregard previous'', ''prompt injection attempt'', CriticalWarning),
      (''rm -rf'', ''destructive command'', CriticalWarning),
      (''curl | sh'', ''remote code execution'', CriticalWarning),
      (''curl | bash'', ''remote code execution'', CriticalWarning),
      (''wget | sh'', ''remote code execution'', CriticalWarning),
      (''wget | bash'', ''remote code execution'', CriticalWarning),
      (''eval('', ''dynamic code execution'', PlainWarning),
      (''exec('', ''dynamic code execution'', PlainWarning),
      (''sudo '', ''privilege escalation'', PlainWarning),
      (''chmod 777'', ''insecure permissions'', PlainWarning),
      (''--no-verify'', ''bypassing verification'', InfoWarning),
      (''force push'', ''destructive git operation'', PlainWarning)]"

definition text_warnings :: "skill_def \<Rightarrow> string \<Rightarrow> string \<times> string \<times> warning_severity \<Rightarrow> validation_warning list" where
  "text_warnings s body = (\<lambda>(pat, what, sev).
     (if contains (to_lower body) (to_lower pat)
      then [\<lparr>vw_category = what, vw_message = ''skill '' @ squote (sk_id s) @ '' body contains dangerous pattern: '' @ squote pat, vw_severity = sev\<rparr>]
      else []) @
     (if contains (to_lower (sk_system_prompt s)) (to_lower pat)
      then [\<lparr>vw_category = what, vw_message = ''skill '' @ squote (sk_id s) @ '' system prompt contains dangerous pattern: '' @ squote pat, vw_severity = sev\<rparr>]
      else []))"

definition validate_skill :: "skill_def \<Rightarrow> string \<Rightarrow> validation_warning list" where
  "validate_skill s body =
     concat (map (text_warnings s body) dangerous_texts) @
     (if ''*'' \<in> set (sk_tools s) \<or> ''all'' \<in> set (sk_tools s)
      then [\<lparr>vw_category = ''excessive permissions'',
             vw_message = ''skill '' @ squote (sk_id s) @ '' requests access to all tools '' @ em_dash @ '' consider restricting'',
             vw_severity = PlainWarning\<rparr>]
      else [])"

definition has_critical_warnings :: "validation_warning list \<Rightarrow> bool" where
  "has_critical_warnings ws \<longleftrightarrow> list_ex (\<lambda>w. vw_severity w = CriticalWarning) ws"

section \<open>The registry\<close>

text \<open>
  An entry is a directory or a file, with the content of the \<open>SKILL.md\<close> in it or of itself: absent, not readable, or a
  text. Files of another name are absent.
\<close>

datatype skill_file = NoFile | Unreadable string | FileText string

datatype skill_dir = MissingDir | UnreadableDir string | DirEntries "skill_file list"

type_synonym skill_registry = "(string, skill_def) table"

definition skill_put :: "skill_def \<Rightarrow> skill_registry \<Rightarrow> skill_registry" where
  "skill_put s r = tbl_upsert (sk_id s) s (\<lambda>_. s) r"

definition skill_registered :: "skill_registry \<Rightarrow> string \<Rightarrow> skill_def option" where
  "skill_registered r i = tbl_get r i"

definition skill_list :: "skill_registry \<Rightarrow> skill_def list" where
  "skill_list r = map snd r"

definition skill_count :: "skill_registry \<Rightarrow> nat" where
  "skill_count r = length r"

definition load_file :: "yaml_parser \<Rightarrow> skill_file \<Rightarrow> skill_registry \<Rightarrow> skill_registry" where
  "load_file yaml f r =
     (case f of
        FileText content \<Rightarrow>
          (case parse_skill_md yaml content of
             Inl _ \<Rightarrow> r
           | Inr p \<Rightarrow> if has_critical_warnings (validate_skill (pd_def p) content) then r else skill_put (pd_def p) r)
      | _ \<Rightarrow> r)"

text \<open>The directories in their order; the first that cannot be read ends the loading with its error.\<close>

fun load_all :: "yaml_parser \<Rightarrow> skill_dir list \<Rightarrow> skill_registry \<Rightarrow> (atta_error + unit) \<times> skill_registry" where
  "load_all yaml [] r = (Inr (), r)"
| "load_all yaml (MissingDir # ds) r = load_all yaml ds r"
| "load_all yaml (UnreadableDir e # ds) r = (Inl (OtherError e), r)"
| "load_all yaml (DirEntries fs # ds) r = load_all yaml ds (fold (load_file yaml) fs r)"

section \<open>Prompt and tools\<close>

definition placeholder :: "string \<Rightarrow> string" where
  "placeholder n = ''{{'' @ n @ ''}}''"

definition variable_value :: "json \<Rightarrow> variable_def \<Rightarrow> string" where
  "variable_value vars v =
     (case jget_str vars (vd_name v) of
        Some s \<Rightarrow> s
      | None \<Rightarrow> or_else [] (Option.bind (vd_default v) as_str))"

definition step_line :: "nat \<times> skill_step \<Rightarrow> string" where
  "step_line = (\<lambda>(i, s).
     show_nat (i + 1) @ ''. '' @ ss_action s @
     (case ss_description s of None \<Rightarrow> [] | Some d \<Rightarrow> '' '' @ em_dash @ '' '' @ d) @ [CHR 0x0A])"

definition build_skill_system_prompt :: "skill_def \<Rightarrow> json \<Rightarrow> string" where
  "build_skill_system_prompt s vars =
     fold (\<lambda>v. replace_all (placeholder (vd_name v)) (variable_value vars v)) (or_else [] (sk_variables s)) (sk_system_prompt s) @
     (if sk_tools s \<noteq> []
      then [CHR 0x0A, CHR 0x0A] @ ''## Available Tools'' @ [CHR 0x0A] @
        concat (map (\<lambda>t. ''- '' @ [CHR 0x60] @ t @ [CHR 0x60, CHR 0x0A]) (sk_tools s))
      else []) @
     (case sk_steps s of
        None \<Rightarrow> []
      | Some steps \<Rightarrow> [CHR 0x0A] @ ''## Execution Steps'' @ [CHR 0x0A] @ concat (map step_line (enumerate 0 steps)))"

definition filter_tools_for_skill :: "'w tool_reg \<Rightarrow> skill_def \<Rightarrow> tool_schema list" where
  "filter_tools_for_skill R s =
     (if sk_tools s = [] then reg_list_schemas R else List.map_filter (reg_get_schema R) (sk_tools s))"

section \<open>The remote repository\<close>

record skill_sync_config =
  sc_repo_url :: string
  sc_local_dir :: string
  sc_interval :: nat
  sc_branch :: string
  sc_validate :: bool
  sc_enabled :: bool

definition sync_config_new :: "string \<Rightarrow> string \<Rightarrow> u64 \<Rightarrow> bool \<Rightarrow> skill_sync_config" where
  "sync_config_new dir url secs on =
     \<lparr>sc_repo_url = url, sc_local_dir = dir, sc_interval = unat secs, sc_branch = ''main'', sc_validate = True, sc_enabled = on\<rparr>"

text \<open>
  The marker file: absent, without readable metadata, or with the instant of its last change, which is the epoch where the
  system does not know it. A clock that was set back counts as the longest duration.
\<close>

datatype sync_marker = NoMarker | UnknownMarker | MarkedAt timestamp

definition needs_sync :: "skill_sync_config \<Rightarrow> sync_marker \<Rightarrow> timestamp \<Rightarrow> bool" where
  "needs_sync c m now \<longleftrightarrow>
     sc_enabled c \<and>
     (case m of
        MarkedAt t \<Rightarrow> int (sc_interval c) * 10 ^ 9 \<le> (if now < t then (2 ^ 64 - 1) * 10 ^ 9 else now - t)
      | _ \<Rightarrow> True)"

text \<open>
  The local copy: a directory, whether it is a repository, and the marker. The answers of the system are arguments: errors
  of the file system, and what a run of git leaves, where it does not start, fails, or ends with a new content.
\<close>

record sync_state =
  sy_dir :: skill_dir
  sy_repo :: bool
  sy_marker :: sync_marker

datatype git_run = NotStarted string | GitFailed string | GitDone skill_dir

record git_answers =
  ga_mkdir :: "string option"
  ga_pull :: git_run
  ga_remove :: bool
  ga_clone :: git_run
  ga_mark :: "string option"

definition update_marker :: "git_answers \<Rightarrow> timestamp \<Rightarrow> (sync_state, atta_error, unit) io" where
  "update_marker G now =
     (case ga_mark G of None \<Rightarrow> modifyE (\<lambda>s. s\<lparr>sy_marker := MarkedAt now\<rparr>) | Some e \<Rightarrow> failE (OtherError e))"

definition clone_repo :: "skill_sync_config \<Rightarrow> git_answers \<Rightarrow> timestamp \<Rightarrow> (sync_state, atta_error, string) io" where
  "clone_repo c G now =
     (case ga_clone G of
        NotStarted e \<Rightarrow> failE (OtherError (''git clone failed: '' @ e))
      | GitFailed e \<Rightarrow> failE (OtherError (''git clone failed: '' @ e))
      | GitDone d \<Rightarrow>
          bindE (modifyE (\<lambda>s. s\<lparr>sy_dir := d, sy_repo := True\<rparr>)) (\<lambda>_.
          bindE (update_marker G now) (\<lambda>_. retE (sc_local_dir c))))"

definition sync_skills :: "skill_sync_config \<Rightarrow> git_answers \<Rightarrow> timestamp \<Rightarrow> (sync_state, atta_error, string) io" where
  "sync_skills c G now =
     bindE (liftE (case ga_mkdir G of None \<Rightarrow> Inr () | Some e \<Rightarrow> Inl (OtherError e))) (\<lambda>_.
     bindE getE (\<lambda>s.
     if sy_repo s
     then (case ga_pull G of
             NotStarted e \<Rightarrow> failE (OtherError (''git pull failed: '' @ e))
           | GitFailed _ \<Rightarrow>
               bindE (modifyE (\<lambda>s. if ga_remove G then s\<lparr>sy_dir := MissingDir, sy_repo := False\<rparr> else s)) (\<lambda>_.
               clone_repo c G now)
           | GitDone d \<Rightarrow>
               bindE (modifyE (\<lambda>s. s\<lparr>sy_dir := d\<rparr>)) (\<lambda>_.
               bindE (update_marker G now) (\<lambda>_. retE (sc_local_dir c))))
     else clone_repo c G now))"

section \<open>At the start\<close>

text \<open>
  The server loads the shipped skills, those of extensions, and the synchronised ones, in this order; a later skill takes
  the place of an earlier one of the same identifier.
\<close>

definition startup_dirs :: "skill_sync_config \<Rightarrow> git_answers \<Rightarrow> timestamp \<Rightarrow> skill_dir \<Rightarrow> skill_dir \<Rightarrow> sync_state \<Rightarrow> skill_dir list \<times> sync_state" where
  "startup_dirs c G now lib exts s =
     (if needs_sync c (sy_marker s) now
      then (case sync_skills c G now s of (_, s1) \<Rightarrow> ([lib, exts, sy_dir s1], s1))
      else if sc_enabled c then ([lib, exts, sy_dir s], s)
      else ([lib, exts], s))"

definition startup_skills :: "yaml_parser \<Rightarrow> skill_sync_config \<Rightarrow> git_answers \<Rightarrow> timestamp \<Rightarrow> skill_dir \<Rightarrow> skill_dir \<Rightarrow> sync_state \<Rightarrow> skill_registry" where
  "startup_skills yaml c G now lib exts s = snd (load_all yaml (fst (startup_dirs c G now lib exts s)) [])"

text \<open>The skills that the store does not have in their version are written to it; an error of one is left.\<close>

definition sync_skills_to_store :: "skill_registry \<Rightarrow> timestamp \<Rightarrow> admin_db \<Rightarrow> admin_db" where
  "sync_skills_to_store r now d =
     (case list_skills d of
        (Inl _, d1) \<Rightarrow> d1
      | (Inr stored, d1) \<Rightarrow>
          fold (\<lambda>s d.
            if map_of (rev (map (\<lambda>t. (sk_id t, sk_version t)) stored)) (sk_id s) = Some (sk_version s) then d
            else snd (register_skill s now d)) (skill_list r) d1)"

section \<open>What is loaded\<close>

definition clean_text :: "string \<Rightarrow> bool" where
  "clean_text t \<longleftrightarrow> list_all (\<lambda>(pat, what, sev). sev = CriticalWarning \<longrightarrow> \<not> contains (to_lower t) (to_lower pat)) dangerous_texts"

lemma no_critical_iff:
  "\<not> has_critical_warnings (validate_skill s body) \<longleftrightarrow> clean_text body \<and> clean_text (sk_system_prompt s)"
proof -
  have entry: "list_ex (\<lambda>w. vw_severity w = CriticalWarning) (text_warnings s body (pat, what, sev)) \<longleftrightarrow>
      sev = CriticalWarning \<and> (contains (to_lower body) (to_lower pat) \<or> contains (to_lower (sk_system_prompt s)) (to_lower pat))"
    for pat what sev
    by (auto simp: text_warnings_def)
  have "\<not> list_ex (\<lambda>w. vw_severity w = CriticalWarning) (concat (map (text_warnings s body) ds)) \<longleftrightarrow>
      list_all (\<lambda>(pat, what, sev). sev = CriticalWarning \<longrightarrow> \<not> contains (to_lower body) (to_lower pat)) ds \<and>
      list_all (\<lambda>(pat, what, sev). sev = CriticalWarning \<longrightarrow> \<not> contains (to_lower (sk_system_prompt s)) (to_lower pat)) ds" for ds
    by (induction ds) (auto simp: entry)
  then show ?thesis by (simp add: has_critical_warnings_def validate_skill_def clean_text_def)
qed

text \<open>Where a skill of the registry comes from.\<close>

definition scanned :: "yaml_parser \<Rightarrow> string \<Rightarrow> skill_def \<Rightarrow> bool" where
  "scanned yaml content s \<longleftrightarrow>
     clean_text content \<and> clean_text (sk_system_prompt s) \<and>
     (case parse_skill_md yaml content of Inr p \<Rightarrow> pd_def p = s | Inl _ \<Rightarrow> False)"

text \<open>The files of the directories that can be read.\<close>

definition files_of :: "skill_dir list \<Rightarrow> skill_file set" where
  "files_of ds = {f. \<exists>fs. DirEntries fs \<in> set ds \<and> f \<in> set fs}"

definition registry_ok :: "yaml_parser \<Rightarrow> skill_file set \<Rightarrow> skill_registry \<Rightarrow> bool" where
  "registry_ok yaml F r \<longleftrightarrow> (\<forall>i s. skill_registered r i = Some s \<longrightarrow>
     sk_id s = i \<and> (\<exists>content. FileText content \<in> F \<and> scanned yaml content s))"

lemma load_file_ok:
  assumes "registry_ok yaml F r" and "f \<in> F"
  shows "registry_ok yaml F (load_file yaml f r)"
proof (cases f)
  case (FileText content)
  show ?thesis
  proof (cases "parse_skill_md yaml content")
    case (Inr p)
    have "scanned yaml content (pd_def p)" if "\<not> has_critical_warnings (validate_skill (pd_def p) content)"
      using that Inr by (simp add: scanned_def no_critical_iff)
    with assms Inr FileText show ?thesis
      by (auto simp: load_file_def registry_ok_def skill_registered_def skill_put_def tbl_get_upsert split: if_splits option.splits)
  qed (use assms FileText in \<open>simp add: load_file_def\<close>)
qed (simp_all add: load_file_def assms)

lemma load_files_ok: "registry_ok yaml F r \<Longrightarrow> set fs \<subseteq> F \<Longrightarrow> registry_ok yaml F (fold (load_file yaml) fs r)"
  by (induction fs arbitrary: r) (simp_all add: load_file_ok)

lemma load_all_ok: "registry_ok yaml F r \<Longrightarrow> files_of ds \<subseteq> F \<Longrightarrow> registry_ok yaml F (snd (load_all yaml ds r))"
proof (induction yaml ds r rule: load_all.induct)
  case (4 yaml fs ds r)
  have "set fs \<subseteq> F" "files_of ds \<subseteq> F" using 4(3) by (auto simp: files_of_def)
  with 4(1,2) show ?case by (simp add: load_files_ok)
qed (auto simp: files_of_def)

lemma startup_skills_ok:
  "registry_ok yaml (files_of (fst (startup_dirs c G now lib exts s))) (startup_skills yaml c G now lib exts s)"
  unfolding startup_skills_def by (rule load_all_ok) (simp_all add: registry_ok_def skill_registered_def)

text \<open>
  C32. Every skill that the server has after its start, whatever the directories, the network and git deliver, is under its
  own identifier, and is what the text of one of the files of the directories it loads (the shipped ones, the
  extensions, and the synchronised one where that is enabled) reads as; in that text none of the critical patterns
  occurs in any case of its letters, nor does one in the prompt of the skill.
\<close>

theorem loaded_skills_are_scanned:
  assumes "skill_registered (startup_skills yaml c G now lib exts s) i = Some sk"
  shows "sk_id sk = i \<and>
    (\<exists>content. FileText content \<in> files_of (fst (startup_dirs c G now lib exts s)) \<and> scanned yaml content sk)"
  using startup_skills_ok assms unfolding registry_ok_def by blast

definition demo_frontmatter :: skill_frontmatter where
  "demo_frontmatter = \<lparr>sf_id = None, sf_name = ''greet'', sf_description = None, sf_version = None, sf_author = None,
     sf_tags = None, sf_tools = None, sf_requires_approval = None, sf_risk_level = Some ''high'', sf_variables = None\<rparr>"

definition demo_yaml :: yaml_parser where
  "demo_yaml t = (if t = ''name: greet'' then Inr demo_frontmatter else Inl ''invalid'')"

definition demo_skill_file :: string where
  "demo_skill_file = fence @ [CHR 0x0A] @ ''name: greet'' @ closing_fence @ [CHR 0x0A] @ ''Say hello.''"

theorem loaded_skills_are_scanned_witness:
  "scanned demo_yaml demo_skill_file (skill_of demo_frontmatter ''Say hello.'')"
proof -
  let ?c = "sync_config_new [] [] 0 False" and ?G = "\<lparr>ga_mkdir = None, ga_pull = GitFailed [], ga_remove = True, ga_clone = GitFailed [], ga_mark = None\<rparr>"
  let ?s = "\<lparr>sy_dir = MissingDir, sy_repo = False, sy_marker = NoMarker\<rparr>"
  have "skill_registered (startup_skills demo_yaml ?c ?G 0 (DirEntries [NoFile, FileText demo_skill_file]) MissingDir ?s) ''greet'' =
      Some (skill_of demo_frontmatter ''Say hello.'')"
    by code_simp
  from loaded_skills_are_scanned [OF this] show ?thesis
    by (auto simp: startup_dirs_def needs_sync_def sync_config_new_def files_of_def)
qed

section \<open>Reading back\<close>

lemma split_once_fence: "\<not> contains front closing_fence \<Longrightarrow> split_once closing_fence (front @ closing_fence @ rest) = Some (front, rest)"
proof (induction front)
  case Nil
  show ?case by (simp add: closing_fence_def fence_def)
next
  case (Cons c cs)
  have "\<not> contains cs closing_fence" using Cons.prems contains_appendI2 [of cs closing_fence "[c]"] by auto
  moreover have "strip_prefix closing_fence (c # cs @ closing_fence @ rest) = None"
  proof (rule ccontr)
    assume "strip_prefix closing_fence (c # cs @ closing_fence @ rest) \<noteq> None"
    then obtain r where r: "c # cs @ closing_fence @ rest = closing_fence @ r" by auto
    then obtain ds where "cs = ''---'' @ ds"
      unfolding closing_fence_def fence_def
      by (cases cs; cases "tl cs"; cases "tl (tl cs)") auto
    with r have "c # cs = [] @ closing_fence @ ds" by (simp add: closing_fence_def fence_def)
    with Cons.prems show False unfolding contains_iff by blast
  qed
  ultimately show ?case using Cons.IH by simp
qed

definition skill_md :: "string \<Rightarrow> string \<Rightarrow> string" where
  "skill_md front body = fence @ [CHR 0x0A] @ front @ closing_fence @ [CHR 0x0A] @ body"

lemma is_ws_examples [simp]: "is_ws (CHR 0x0A)" "\<not> is_ws (CHR ''-'')"
  by (simp_all add: is_ws_def)

lemma trim_line_feed: "trim (s @ [CHR 0x0A]) = trim s" if "s \<noteq> []" "\<not> is_ws (hd s)"
  using that by (simp add: trim_def trim_start_def trim_end_def dropWhile_id)

lemma trim_skill_md:
  assumes "trim body = body"
  shows "trim (skill_md front body) = fence @ (CHR 0x0A # front) @ closing_fence @ (if body = [] then [] else CHR 0x0A # body)"
proof (cases "body = []")
  case True
  have "trim ((fence @ (CHR 0x0A # front) @ closing_fence) @ [CHR 0x0A]) = trim (fence @ (CHR 0x0A # front) @ closing_fence)"
    by (rule trim_line_feed) (simp_all add: fence_def)
  also have "\<dots> = fence @ (CHR 0x0A # front) @ closing_fence"
    by (rule trim_id) (simp add: fence_def closing_fence_def)
  finally show ?thesis using True by (simp add: skill_md_def)
next
  case False
  then have "\<not> is_ws (last body)" using assms last_trim [of body] by simp
  then have "trim (skill_md front body) = skill_md front body"
    using False by (intro trim_id) (simp add: skill_md_def fence_def)
  with False show ?thesis by (simp add: skill_md_def)
qed

text \<open>
  A skill that is written as a front matter and a body reads back as exactly these, where the front matter has no line
  that begins with the fence and neither has blanks at its ends.
\<close>

theorem skill_file_reads_back:
  assumes "yaml front = Inr fm" and "trim front = front" and "trim body = body"
    and "\<not> contains (CHR 0x0A # front) closing_fence"
  shows "parse_skill_md yaml (skill_md front body) = Inr \<lparr>pd_def = skill_of fm body, pd_body = body\<rparr>"
proof -
  let ?rest = "if body = [] then [] else CHR 0x0A # body"
  have "strip_prefix fence (trim (skill_md front body)) = Some ((CHR 0x0A # front) @ closing_fence @ ?rest)"
    unfolding trim_skill_md [OF assms(3)] by simp
  moreover have "trim (CHR 0x0A # front) = front"
    using assms(2) by (simp add: trim_def trim_start_def)
  moreover have "trim ?rest = body"
    using assms(3) by (simp add: trim_def trim_start_def trim_end_def)
  ultimately show ?thesis
    using assms(1) split_once_fence [OF assms(4), of ?rest] by (simp add: parse_skill_md_def Let_def del: split_once.simps)
qed

theorem skill_file_reads_back_witness:
  "parse_skill_md demo_yaml (skill_md ''name: greet'' ''Say hello.'') =
     Inr \<lparr>pd_def = skill_of demo_frontmatter ''Say hello.'', pd_body = ''Say hello.''\<rparr>"
proof (rule skill_file_reads_back)
  show "demo_yaml ''name: greet'' = Inr demo_frontmatter" by (simp add: demo_yaml_def)
  show "trim ''name: greet'' = ''name: greet''" "trim ''Say hello.'' = ''Say hello.''" by code_simp+
  show "\<not> contains (CHR 0x0A # ''name: greet'') closing_fence" by code_simp
qed

section \<open>What the loading does not do\<close>

text \<open>A run of git that fails, followed by a clone that fails, leaves the server without the skills it had.\<close>

lemma failed_pull_loses_skills:
  assumes "needs_sync c (sy_marker s) now" and "ga_mkdir G = None" and "sy_repo s" and "ga_pull G = GitFailed e"
    and "ga_remove G" and "ga_clone G = GitFailed e'"
  shows "fst (startup_dirs c G now lib exts s) = [lib, exts, MissingDir]"
  using assms by (simp add: startup_dirs_def sync_skills_def clone_repo_def bindE_def)

text \<open>A synchronised skill takes the place of a shipped one with its identifier.\<close>

lemma synchronised_skill_wins:
  assumes "parse_skill_md yaml content = Inr p" and "\<not> has_critical_warnings (validate_skill (pd_def p) content)"
  shows "skill_registered (snd (load_all yaml [DirEntries lib, DirEntries exts, DirEntries [FileText content]] r)) (sk_id (pd_def p)) = Some (pd_def p)"
  using assms by (simp add: load_file_def skill_put_def skill_registered_def tbl_get_upsert split: option.split)

text \<open>A directory that cannot be read ends the loading of the others.\<close>

lemma unreadable_directory_ends_loading: "load_all yaml (UnreadableDir e # ds) r = (Inl (OtherError e), r)"
  by simp

end
