(* ===== verification/Chat_Api.thy ===== *)
theory Chat_Api
  imports Skills Agent_Props
begin

text \<open>
  The chat endpoint (\<open>crates/core/src/server/handlers/chat.rs\<close>) and the records of token usage
  (\<open>crates/core/src/usage_tracking.rs\<close>): the agent the endpoint builds, the events it forwards, and what of a run reaches
  the client and the store.

  The events of the run are forwarded by a task of their own, an error by the task of the run, so the client sees some
  interleaving of both. A run that panics sends no error. The text form of the tool calls is that of \<open>Llm\<close>.
\<close>

section \<open>The request and its agent\<close>

record chat_request =
  cq_message :: string
  cq_skill_id :: "string option"
  cq_flow_id :: "string option"
  cq_task_id :: "string option"

datatype chat_event =
    ChatThinking u32
  | ChatText string
  | ChatToolStart string string
  | ChatToolComplete string string u64
  | ChatToolError string string string
  | ChatDone u32
  | ChatError string

definition dquote :: "string \<Rightarrow> string" where
  "dquote s = CHR 0x22 # s @ [CHR 0x22]"

definition xml_instructions :: string where
  "xml_instructions = join [CHR 0x0A]
     [''## Tool Calling Format'',
      ''When you need to use a tool, output a tool call in this XML format:'',
      [],
      ''<tool_call>{'' @ dquote ''name'' @ '': '' @ dquote ''tool_name'' @ '', '' @ dquote ''arguments'' @ '': {'' @
        dquote ''param'' @ '': '' @ dquote ''value'' @ ''}}</tool_call>'',
      [],
      ''You may call multiple tools by including multiple <tool_call> blocks.'',
      ''After each tool call, you will receive the result in this format:'',
      [],
      ''<tool_result name='' @ dquote ''tool_name'' @ '' status='' @ dquote ''ok'' @ ''>'',
      ''result content'',
      ''</tool_result>'',
      [],
      ''When you have your final answer, output it as plain text without any tool_call tags.'']"

fun prompt_instructions :: "dispatcher \<Rightarrow> string option" where
  "prompt_instructions NativeDispatcher = None"
| "prompt_instructions XmlDispatcher = Some xml_instructions"

definition with_instructions :: "dispatcher \<Rightarrow> string \<Rightarrow> string" where
  "with_instructions d prompt =
     (case prompt_instructions d of None \<Rightarrow> prompt | Some t \<Rightarrow> prompt @ [CHR 0x0A, CHR 0x0A] @ t)"

definition chat_prompt :: string where
  "chat_prompt = ''You are AttaOS, an AI assistant. Answer the user'' @ [CHR 0x27] @ ''s question helpfully and concisely.''"

text \<open>\<open>T\<close> is the registry whose schemas are shown, \<open>R\<close> the registry that is called.\<close>

definition chat_prompt_and_tools :: "'v tool_reg \<Rightarrow> skill_registry \<Rightarrow> chat_request \<Rightarrow> string \<times> tool_schema list" where
  "chat_prompt_and_tools T S req =
     (case Option.bind (cq_skill_id req) (skill_registered S) of
        None \<Rightarrow> (chat_prompt, reg_list_schemas T)
      | Some s \<Rightarrow> (build_skill_system_prompt s (mk_obj [(''input'', JStr (cq_message req))]), filter_tools_for_skill T s))"

definition chat_agent :: "'w llm \<Rightarrow> 'w tool_registry \<Rightarrow> 'v tool_reg \<Rightarrow> skill_registry \<Rightarrow> chat_request \<Rightarrow> 'w \<Rightarrow> 'w agent_config \<times> 'w agent" where
  "chat_agent L R T S req w =
     (case chat_prompt_and_tools T S req of
        (prompt, tools) \<Rightarrow>
          (let d = select_dispatcher (llm_model_info L);
               ctx = add_user (cq_message req) (set_system (with_instructions d prompt) (context_new 128000))
           in ((react_new L R 10)\<lparr>ac_tools := tools, ac_dispatcher := Some d, ac_usage_callback := True\<rparr>, agent_start ctx w)))"

section \<open>The events\<close>

fun delta_to_chat_event :: "agent_delta \<Rightarrow> chat_event option" where
  "delta_to_chat_event (Thinking i) = Some (ChatThinking i)"
| "delta_to_chat_event (TextChunk t) = None"
| "delta_to_chat_event (ToolStart n c) = Some (ChatToolStart n c)"
| "delta_to_chat_event (ToolComplete n c ms) = Some (ChatToolComplete n c ms)"
| "delta_to_chat_event (ToolError n c e) = Some (ChatToolError n c e)"
| "delta_to_chat_event (DeltaApprovalPending a b c) = None"
| "delta_to_chat_event (DeltaApprovalGranted a b) = None"
| "delta_to_chat_event (DeltaDone i) = Some (ChatDone i)"
| "delta_to_chat_event ClearProgress = None"

fun stream_to_chat_event :: "stream_event \<Rightarrow> chat_event option" where
  "stream_to_chat_event (DeltaEvent d) = delta_to_chat_event d"
| "stream_to_chat_event (ChunkEvent (TextDelta t)) = Some (ChatText t)"
| "stream_to_chat_event (ChunkEvent c) = None"

definition run_chat_agent :: "aenv \<Rightarrow> 'w llm \<Rightarrow> 'w tool_registry \<Rightarrow> 'v tool_reg \<Rightarrow> skill_registry \<Rightarrow> chat_request \<Rightarrow> 'w \<Rightarrow>
    (fault + json) \<times> 'w agent" where
  "run_chat_agent A L R T S req w = (case chat_agent L R T S req w of (C, a) \<Rightarrow> run_streaming A C a)"

definition chat_error :: "fault + json \<Rightarrow> chat_event list" where
  "chat_error r = (case r of Inl (Fails e) \<Rightarrow> [ChatError (error_show e)] | _ \<Rightarrow> [])"

text \<open>What a client that stays connected may receive.\<close>

definition chat_sse :: "aenv \<Rightarrow> 'w llm \<Rightarrow> 'w tool_registry \<Rightarrow> 'v tool_reg \<Rightarrow> skill_registry \<Rightarrow> chat_request \<Rightarrow> 'w \<Rightarrow> chat_event list set" where
  "chat_sse A L R T S req w =
     (case run_chat_agent A L R T S req w of
        (r, a) \<Rightarrow> shuffles (List.map_filter stream_to_chat_event (ag_events a)) (chat_error r))"

section \<open>Usage\<close>

text \<open>
  Prices in hundredths of a dollar for a million tokens, input and output. The cost is computed in doubles, which is an
  argument, as are the identifier and the clock.
\<close>

definition model_price :: "string \<Rightarrow> nat \<times> nat" where
  "model_price m =
     (if starts_with m ''gpt-4o-mini'' then (15, 60)
      else if starts_with m ''gpt-4o'' then (250, 1000)
      else if starts_with m ''gpt-4-turbo'' then (1000, 3000)
      else if starts_with m ''gpt-4'' then (3000, 6000)
      else if starts_with m ''gpt-3.5'' then (50, 150)
      else if starts_with m ''o1-mini'' then (300, 1200)
      else if starts_with m ''o1'' then (1500, 6000)
      else if contains m ''claude-3-5-sonnet'' \<or> contains m ''claude-sonnet-4'' then (300, 1500)
      else if contains m ''claude-3-5-haiku'' then (80, 400)
      else if contains m ''claude-3-opus'' \<or> contains m ''claude-opus-4'' then (1500, 7500)
      else if contains m ''deepseek'' then (27, 110)
      else (0, 0))"

type_synonym cost_function = "nat \<times> nat \<Rightarrow> u64 \<Rightarrow> u64 \<Rightarrow> f64"

definition estimate_cost :: "cost_function \<Rightarrow> string \<Rightarrow> u64 \<Rightarrow> u64 \<Rightarrow> f64" where
  "estimate_cost cost m i out = cost (model_price m) i out"

definition usage_row :: "cost_function \<Rightarrow> string option \<Rightarrow> string \<Rightarrow> timestamp \<Rightarrow> string \<times> token_usage \<Rightarrow> usage_record" where
  "usage_row cost task i now = (\<lambda>(m, u).
     \<lparr>ur_id = i, ur_task_id = task, ur_model = m, ur_input_tokens = tu_input u, ur_output_tokens = tu_output u,
      ur_total_tokens = tu_input u + tu_output u, ur_cost_usd = estimate_cost cost m (tu_input u) (tu_output u),
      ur_created_at = now\<rparr>)"

text \<open>Each call of the callback starts a task that writes one record; an error is logged.\<close>

definition write_usage :: "cost_function \<Rightarrow> string option \<Rightarrow> (nat \<Rightarrow> string) \<Rightarrow> (nat \<Rightarrow> timestamp) \<Rightarrow> (string \<times> token_usage) list \<Rightarrow> admin_db \<Rightarrow> admin_db" where
  "write_usage cost task ids clock us d =
     fold (\<lambda>(k, u) d. snd (record_usage (usage_row cost task (ids k) (clock k) u) d)) (enumerate 0 us) d"

section \<open>What a run reports\<close>

fun is_done :: "stream_event \<Rightarrow> bool" where
  "is_done (DeltaEvent (DeltaDone i)) \<longleftrightarrow> True"
| "is_done _ \<longleftrightarrow> False"

definition dones :: "'w agent \<Rightarrow> nat" where
  "dones a = length (filter is_done (ag_events a))"

text \<open>Nothing but the answer reports the end, and nothing in a streaming run reports usage.\<close>

definition reported :: "nat \<Rightarrow> (string \<times> token_usage) list \<Rightarrow> 'w agent \<Rightarrow> bool" where
  "reported k u a \<longleftrightarrow> dones a = k \<and> ag_usage a = u"

lemma reported_in_context: "keeps (reported k u) (in_context f)"
  unfolding in_context_def by (rule keeps_modifyE) (simp add: reported_def dones_def)

lemma reported_in_world: "keeps (reported k u) (in_world m)"
  by (auto simp: in_world_def keeps_def reported_def dones_def split: prod.split)

lemma reported_emit: "\<not> is_done ev \<Longrightarrow> keeps (reported k u) (emit ev)"
  unfolding emit_def by (rule keeps_modifyE) (simp add: reported_def dones_def)

lemma reported_emits: "list_all (\<lambda>ev. \<not> is_done ev) evs \<Longrightarrow> keeps (reported k u) (emits evs)"
  unfolding emits_def by (rule keeps_modifyE) (auto simp: reported_def dones_def list_all_iff filter_empty_conv)

lemma reported_dispatch: "keeps (reported k u) (dispatch_response A C resp)"
  by (auto simp: dispatch_response_def keeps_def reported_def dones_def retE_def split: option.split prod.split llm_response.split)

lemma reported_delta_check: "keeps (reported k u) (delta_check A calls)"
proof (rule keepsI)
  fix a :: "'w agent" assume a: "reported k u a"
  have err: "reported k u (snd (bindE (emit (call_error_event c e)) (\<lambda>_. retE (Some (result_of c (Inl e)))) (a\<lparr>ag_detector := d\<rparr>)))" for c e d
    using a by (simp add: bindE_def emit_def modifyE_def retE_def reported_def dones_def call_error_event_def)
  show "reported k u (snd (delta_check A calls a))"
    using a err by (auto simp: delta_check_def reported_def dones_def split: prod.split sum.split list.split)
qed

lemma reported_delta_call: "keeps (reported k u) (delta_call A C c)"
  unfolding delta_call_def
  by (intro keeps_bindE reported_emit reported_in_world keeps_getE keeps_retE keeps_modifyE)
    (auto simp: call_error_event_def reported_def dones_def split: sum.split)

lemma reported_delta_calls: "keeps (reported k u) (delta_calls A C calls)"
  by (induction calls) (auto intro!: keeps_intros reported_delta_call)

lemma reported_execute: "keeps (reported k u) (execute_tools_with_deltas A C calls)"
  unfolding execute_tools_with_deltas_def
  by (intro keeps_bindE reported_delta_check) (auto intro!: keeps_intros reported_delta_calls split: option.split)

lemma reported_think: "keeps (reported k u) (think_streaming A C)"
  unfolding think_streaming_def
  by (intro keeps_bindE reported_in_context reported_in_world keeps_getE)
    (auto intro!: keeps_intros reported_emits simp: list_all_iff split: prod.split sum.split)

lemma reported_research: "keeps (reported k u) (maybe_run_research A C)"
  unfolding maybe_run_research_def Let_def
  by (auto intro!: keeps_intros reported_in_world reported_in_context split: option.split)

definition ended :: "'e + 'a option \<Rightarrow> nat" where
  "ended r = (case r of Inr (Some _) \<Rightarrow> 1 | _ \<Rightarrow> 0)"

lemma dones_answer:
  "reported k u a \<Longrightarrow> reported (Suc k) u (snd (bindE (in_context f) (\<lambda>_. bindE (emits (answer_events i t)) (\<lambda>_. retE x)) a))"
  by (simp add: bindE_def in_context_def emits_def modifyE_def retE_def reported_def dones_def answer_events_def filter_map comp_def)

lemma streaming_step_reports:
  assumes "reported k u a" and "streaming_step A C i a = (r, a')"
  shows "reported (k + ended r) u a'"
proof -
  obtain r1 a1 where e: "emit (DeltaEvent (Thinking i)) a = (Inr r1, a1)" by (simp add: emit_def modifyE_def)
  have a1: "reported k u a1" using keeps_run [OF reported_emit e assms(1)] by simp
  obtain s a2 where t: "think_streaming A C a1 = (s, a2)" by fastforce
  have a2: "reported k u a2" using keeps_run [OF reported_think t a1] .
  show ?thesis
  proof (cases s)
    case (Inl x)
    with assms(2) e t a2 show ?thesis by (auto simp: streaming_step_def bindE_def ended_def)
  next
    case (Inr resp)
    obtain d a3 where d: "dispatch_response A C resp a2 = (d, a3)" by fastforce
    have a3: "reported k u a3" using keeps_run [OF reported_dispatch d a2] .
    show ?thesis
    proof (cases d)
      case (Inl x)
      with assms(2) e t Inr d a3 show ?thesis by (auto simp: streaming_step_def bindE_def ended_def)
    next
      case (Inr v)
      show ?thesis
      proof (cases v)
        case (FinalAnswer ans)
        have step: "streaming_step A C i a = bindE (in_context (add_assistant ans)) (\<lambda>_. bindE (emits (answer_events i ans)) (\<lambda>_. retE (Some (answer_json ans)))) a3"
          using e t \<open>s = Inr resp\<close> d Inr FinalAnswer by (simp add: streaming_step_def bindE_def)
        have "ended r = 1"
          using assms(2) step by (auto simp: bindE_def in_context_def emits_def modifyE_def retE_def ended_def)
        moreover have "reported (Suc k) u (snd (streaming_step A C i a))" unfolding step by (rule dones_answer [OF a3])
        ultimately show ?thesis using assms(2) by simp
      next
        case (DispatchCalls calls)
        let ?m = "bindE (in_context (add_assistant_tool_calls calls)) (\<lambda>_. bindE (execute_tools_with_deltas A C calls)
          (\<lambda>rs. bindE (in_context (observe (env.truncate A) rs)) (\<lambda>_. retE (None :: json option))))"
        have run: "?m a3 = (r, a')"
          using assms(2) e t \<open>s = Inr resp\<close> d Inr DispatchCalls by (simp add: streaming_step_def bindE_def)
        have "keeps (reported k u) ?m"
          by (intro keeps_bindE reported_in_context reported_execute keeps_retE)
        from keeps_run [OF this run a3] have "reported k u a'" .
        moreover have "ended r = 0" using run by (auto simp: bindE_def retE_def ended_def split: prod.splits sum.splits)
        ultimately show ?thesis by simp
      qed
    qed
  qed
qed

lemma streaming_loop_reports:
  "reported k u a \<Longrightarrow> streaming_loop A C n i a = (r, a') \<Longrightarrow> reported (k + (case r of Inr _ \<Rightarrow> 1 | Inl _ \<Rightarrow> 0)) u a'"
proof (induction n arbitrary: i a)
  case 0
  then show ?case by (auto simp: failE_def)
next
  case (Suc n)
  obtain s a1 where s: "streaming_step A C i a = (s, a1)" by fastforce
  have a1: "reported (k + ended s) u a1" using streaming_step_reports [OF Suc.prems(1) s] .
  show ?case
  proof (cases "\<exists>x. s = Inr None")
    case True
    then have "reported k u a1" "streaming_loop A C n (i + 1) a1 = (r, a')"
      using a1 s Suc.prems(2) by (auto simp: bindE_def ended_def)
    then show ?thesis by (rule Suc.IH)
  next
    case False
    with a1 s Suc.prems(2) show ?thesis
      by (auto simp: bindE_def ended_def retE_def split: sum.splits option.splits)
  qed
qed

lemma run_streaming_reports:
  assumes "run_streaming A C a = (r, a')"
  shows "reported (dones a + (case r of Inr _ \<Rightarrow> 1 | Inl _ \<Rightarrow> 0)) (ag_usage a) a'"
proof -
  obtain s a1 where s: "maybe_run_research A C a = (s, a1)" by fastforce
  have a1: "reported (dones a) (ag_usage a) a1"
    using keeps_run [OF reported_research s] by (simp add: reported_def)
  show ?thesis
  proof (cases s)
    case (Inl e)
    with assms s a1 show ?thesis by (auto simp: run_streaming_def bindE_def)
  next
    case (Inr x)
    with assms s have "streaming_loop A C (unat (ac_max_iterations C)) 1 a1 = (r, a')" by (simp add: run_streaming_def bindE_def)
    then show ?thesis by (rule streaming_loop_reports [OF a1])
  qed
qed

text \<open>
  C33. The chat endpoint, the coordinator and everything else that runs an agent with a stream never records the tokens the
  run has used: the callback is set and no step of such a run calls it.
\<close>

theorem streaming_records_no_usage: "ag_usage (snd (run_streaming A C a)) = ag_usage a"
  using run_streaming_reports [of A C a] by (cases "run_streaming A C a") (simp add: reported_def)

section \<open>What a client receives\<close>

fun is_end :: "chat_event \<Rightarrow> bool" where
  "is_end (ChatDone i) \<longleftrightarrow> True"
| "is_end (ChatError e) \<longleftrightarrow> True"
| "is_end _ \<longleftrightarrow> False"

lemma is_end_forwarded: "stream_to_chat_event ev = Some e \<Longrightarrow> is_end e = is_done ev"
  by (cases ev rule: stream_to_chat_event.cases; simp) (auto elim!: delta_to_chat_event.elims)

lemma count_forwarded: "length (filter is_end (List.map_filter stream_to_chat_event evs)) = length (filter is_done evs)"
proof (induction evs)
  case (Cons ev evs)
  have "is_done ev \<Longrightarrow> stream_to_chat_event ev \<noteq> None" by (cases ev rule: is_done.cases) auto
  with Cons show ?case
    by (cases "stream_to_chat_event ev") (auto simp: map_filter_simps is_end_forwarded)
qed (simp add: map_filter_simps)

lemma count_shuffled: "zs \<in> shuffles xs ys \<Longrightarrow> length (filter P zs) = length (filter P xs) + length (filter P ys)"
proof -
  assume "zs \<in> shuffles xs ys"
  then have "filter P zs \<in> shuffles (filter P xs) (filter P ys)" by (auto simp flip: filter_shuffles)
  then show ?thesis by (rule length_shuffles)
qed

text \<open>
  C34. A client of the chat endpoint that stays connected receives exactly one event that ends the conversation, a done or an
  error, in every interleaving of the two tasks that send, if the run does not panic.
\<close>

theorem chat_ends_once:
  assumes "fst (run_chat_agent A L R T S req w) \<noteq> Inl Panics" and "evs \<in> chat_sse A L R T S req w"
  shows "length (filter is_end evs) = 1"
proof -
  obtain C a where C: "chat_agent L R T S req w = (C, a)" by fastforce
  then have a0: "dones a = 0" by (auto simp: chat_agent_def Let_def agent_start_def dones_def split: prod.splits)
  obtain r a' where r: "run_streaming A C a = (r, a')" by fastforce
  have "length (filter is_done (ag_events a')) = (case r of Inr _ \<Rightarrow> 1 | Inl _ \<Rightarrow> 0)"
    using run_streaming_reports [OF r] a0 by (simp add: reported_def dones_def)
  moreover have "length (filter is_end (chat_error r)) = (case r of Inr _ \<Rightarrow> 0 | Inl _ \<Rightarrow> 1)"
    using assms(1) C r by (auto simp: chat_error_def run_chat_agent_def split: sum.split fault.split)
  moreover have "length (filter is_end evs) = length (filter is_done (ag_events a')) + length (filter is_end (chat_error r))"
    using assms(2) C r count_shuffled [of evs _ _ is_end] by (simp add: chat_sse_def run_chat_agent_def count_forwarded)
  ultimately show ?thesis by (simp split: sum.splits)
qed

definition greeting_llm :: "nat llm" where
  "greeting_llm = default_llm (env.truncate demo_texts) (\<lambda>ms ts n. (Inr (LlmMessage ''hi''), n + 1))
     \<lparr>mi_id = ''m'', mi_window = 9, mi_tools = True, mi_provider = ''p'', mi_streaming = False\<rparr>"

definition greeting_request :: chat_request where
  "greeting_request = \<lparr>cq_message = ''hello'', cq_skill_id = None, cq_flow_id = None, cq_task_id = None\<rparr>"

lemma greeting_fits: "total_tokens (env.truncate demo_texts) [SystemMsg chat_prompt, UserMsg ''hello''] \<le> 128000"
proof -
  have "total_tokens (env.truncate demo_texts) [SystemMsg chat_prompt, UserMsg ''hello''] \<le> 100" by code_simp
  then show ?thesis by simp
qed

lemma greeting_chunks: "text_chunks ''hi'' = [''hi'']"
  by code_simp

lemma greeting_run:
  "\<exists>a. run_chat_agent demo_texts greeting_llm counting_tools (reg_new :: unit tool_reg) [] greeting_request 0 = (Inr (answer_json ''hi''), a) \<and>
     List.map_filter stream_to_chat_event (ag_events a) = [ChatThinking 1, ChatText ''hi'', ChatDone 1]"
proof -
  have ten: "streaming_loop A C 10 i =
      bindE (streaming_step A C i) (\<lambda>out. case out of Some v \<Rightarrow> retE v | None \<Rightarrow> streaming_loop A C 9 (i + 1))"
    for A and C :: "nat agent_config" and i
    using streaming_loop.simps(2) [of A C 9 i] by simp
  show ?thesis
    by (simp add: run_chat_agent_def chat_agent_def chat_prompt_and_tools_def greeting_request_def greeting_llm_def default_llm_def
        select_dispatcher_def with_instructions_def agent_start_def add_user_def push_msg_def set_system_def context_new_def
        react_new_def run_streaming_def maybe_run_research_def streaming_step_def think_streaming_def truncate_to_fit_def
        greeting_fits greeting_chunks ten bindE_def retE_def getE_def in_context_def in_world_def lift_fault_def emit_def emits_def modifyE_def
        collected_response_def dispatch_response_def answer_events_def map_filter_simps)
qed

theorem chat_ends_once_witness: "length (filter is_end [ChatThinking 1, ChatText ''hi'', ChatDone 1]) = 1"
proof -
  obtain a where "run_chat_agent demo_texts greeting_llm counting_tools (reg_new :: unit tool_reg) [] greeting_request 0 = (Inr (answer_json ''hi''), a)"
    and "List.map_filter stream_to_chat_event (ag_events a) = [ChatThinking 1, ChatText ''hi'', ChatDone 1]"
    using greeting_run by blast
  then have "fst (run_chat_agent demo_texts greeting_llm counting_tools (reg_new :: unit tool_reg) [] greeting_request 0) \<noteq> Inl Panics"
    and "[ChatThinking 1, ChatText ''hi'', ChatDone 1] \<in> chat_sse demo_texts greeting_llm counting_tools (reg_new :: unit tool_reg) [] greeting_request 0"
    by (simp_all add: chat_sse_def chat_error_def)
  then show ?thesis by (rule chat_ends_once)
qed

section \<open>What the tools of a skill are\<close>

text \<open>
  The tools of a skill, and every list of tools, are what the model is shown. A call of another tool is carried out all the
  same.
\<close>

lemma shown_tools_do_not_restrict:
  "execute_tools_with_deltas A (C\<lparr>ac_tools := ts\<rparr>) calls = execute_tools_with_deltas A C calls"
proof -
  have "delta_calls A (C\<lparr>ac_tools := ts\<rparr>) cs = delta_calls A C cs" for cs
    by (induction cs) (simp_all add: delta_call_def cong: sum.case_cong)
  then show ?thesis by (simp add: execute_tools_with_deltas_def cong: option.case_cong)
qed

text \<open>A model without native tools is told how to call a tool and not which tools there are.\<close>

lemma xml_model_sees_no_tools:
  assumes "\<not> mi_tools (llm_model_info L)" and "cq_skill_id req = None"
  shows "tools_for_llm (fst (chat_agent L R T S req w)) = []"
    and "cv_messages (ag_context (snd (chat_agent L R T S req w))) =
      [SystemMsg (chat_prompt @ [CHR 0x0A, CHR 0x0A] @ xml_instructions), UserMsg (cq_message req)]"
  using assms
  by (simp_all add: chat_agent_def chat_prompt_and_tools_def select_dispatcher_def tools_for_llm_def agent_start_def add_user_def
      push_msg_def set_system_def context_new_def with_instructions_def Let_def)

end
