(* ===== verification/Channel_Handler.thy ===== *)
theory Channel_Handler
  imports Dispatch Prompt Chat_Api
begin

text \<open>
  How a chat message is answered (\<open>crates/core/src/channel_handler.rs\<close>): the agent that is built for it, and the reply,
  sent as it is or as a draft that is edited (\<open>crates/channel/src/draft.rs\<close>); the defaults of the channel interface
  (\<open>crates/channel/src/traits.rs\<close>) and the health checks (\<open>crates/channel/src/heartbeat.rs\<close>).

  A channel is a record of functions on a state \<open>'c\<close> of its own; what it listens to is an argument of \<open>Dispatch\<close>. Clock readings of the draft manager are numbered.
\<close>

section \<open>Channels\<close>

record 'c channel =
  ch_name :: string
  ch_send :: "send_message \<Rightarrow> ('c, atta_error, unit) io"
  ch_health :: "('c, atta_error, unit) io"
  ch_start_typing :: "string \<Rightarrow> ('c, atta_error, unit) io"
  ch_stop_typing :: "string \<Rightarrow> ('c, atta_error, unit) io"
  ch_drafts :: bool
  ch_send_draft :: "send_message \<Rightarrow> ('c, atta_error, string) io"
  ch_update_draft :: "string \<Rightarrow> string \<Rightarrow> ('c, atta_error, unit) io"
  ch_finalize_draft :: "string \<Rightarrow> ('c, atta_error, unit) io"
  ch_cancel_draft :: "string \<Rightarrow> ('c, atta_error, unit) io"
  ch_approval_prompt :: "string \<Rightarrow> string \<Rightarrow> string \<Rightarrow> json \<Rightarrow> string option \<Rightarrow> ('c, atta_error, unit) io"
  ch_add_reaction :: "string \<Rightarrow> string \<Rightarrow> ('c, atta_error, unit) io"
  ch_remove_reaction :: "string \<Rightarrow> string \<Rightarrow> ('c, atta_error, unit) io"
  ch_verify :: "(string \<times> string) list \<Rightarrow> string \<Rightarrow> atta_error + bool"
  ch_bot_username :: "string option"

text \<open>A channel that implements only what has no default.\<close>

definition plain_channel :: "string \<Rightarrow> (send_message \<Rightarrow> ('c, atta_error, unit) io) \<Rightarrow> ('c, atta_error, unit) io \<Rightarrow> 'c channel" where
  "plain_channel name send health =
     \<lparr>ch_name = name, ch_send = send, ch_health = health, ch_start_typing = (\<lambda>r. retE ()), ch_stop_typing = (\<lambda>r. retE ()),
      ch_drafts = False, ch_send_draft = (\<lambda>m. bindE (send m) (\<lambda>_. retE [])), ch_update_draft = (\<lambda>i t. retE ()),
      ch_finalize_draft = (\<lambda>i. retE ()), ch_cancel_draft = (\<lambda>i. retE ()), ch_approval_prompt = (\<lambda>r i n a t. retE ()),
      ch_add_reaction = (\<lambda>i e. retE ()), ch_remove_reaction = (\<lambda>i e. retE ()), ch_verify = (\<lambda>hs b. Inr True), ch_bot_username = None\<rparr>"

text \<open>What the code does with a result it only logs.\<close>

definition attempt :: "('c, atta_error, 'a) io \<Rightarrow> 'c \<Rightarrow> 'c" where
  "attempt m c = snd (m c)"

section \<open>Drafts\<close>

record draft_manager =
  dm_interval :: int
  dm_last :: "int option"
  dm_pending :: string

definition draft_new :: "int \<Rightarrow> draft_manager" where
  "draft_new interval = \<lparr>dm_interval = interval, dm_last = None, dm_pending = []\<rparr>"

definition accumulate :: "string \<Rightarrow> int \<Rightarrow> draft_manager \<Rightarrow> string option \<times> draft_manager" where
  "accumulate t now d =
     (let d1 = d\<lparr>dm_pending := dm_pending d @ t\<rparr> in
      if (case dm_last d of None \<Rightarrow> True | Some p \<Rightarrow> now - p \<ge> dm_interval d)
      then (Some (dm_pending d1), d1\<lparr>dm_last := Some now\<rparr>) else (None, d1))"

definition draft_flush :: "int \<Rightarrow> draft_manager \<Rightarrow> string \<times> draft_manager" where
  "draft_flush now d = (dm_pending d, d\<lparr>dm_last := Some now\<rparr>)"

definition draft_peek :: "draft_manager \<Rightarrow> string" where
  "draft_peek d = dm_pending d"

definition draft_reset :: "draft_manager \<Rightarrow> draft_manager" where
  "draft_reset d = d\<lparr>dm_pending := [], dm_last := None\<rparr>"

text \<open>The largest boundary at most \<open>n\<close>.\<close>

fun boundary_below :: "string \<Rightarrow> nat \<Rightarrow> nat" where
  "boundary_below s 0 = 0"
| "boundary_below s (Suc n) = (if \<not> boundary s (Suc n) then boundary_below s n else Suc n)"

definition utf8_truncate :: "string \<Rightarrow> nat \<Rightarrow> string" where
  "utf8_truncate s n = (if length s \<le> n then s else take (boundary_below s n) s)"

section \<open>The agent of a message\<close>

definition chat_type_debug :: "chat_type \<Rightarrow> string" where
  "chat_type_debug t =
     (case t of ChatDm \<Rightarrow> ''Dm'' | ChatGroup \<Rightarrow> ''Group'' | ChatSuperGroup \<Rightarrow> ''SuperGroup'' | ChatChannel \<Rightarrow> ''Channel''
      | ChatUnknown \<Rightarrow> ''Unknown'')"

definition enhance_context :: "channel_message \<Rightarrow> string \<Rightarrow> string" where
  "enhance_context m prompt =
     prompt @ nl @ nl @ ''## Channel Context'' @ nl @ ''- Channel: '' @ cm_channel m @ nl @
     ''- Chat type: '' @ chat_type_debug (cm_chat_type m) @ nl @ ''- Sender: '' @ cm_sender m @ nl @
     (case cm_group_id m of None \<Rightarrow> [] | Some g \<Rightarrow> ''- Group: '' @ g @ nl) @
     (case jget_str (cm_metadata m) ''_session_key'' of None \<Rightarrow> [] | Some k \<Rightarrow> ''- Session: '' @ k @ nl) @
     (if cm_chat_type m = ChatGroup \<or> cm_chat_type m = ChatSuperGroup
      then nl @ ''You are responding in a group chat. Keep responses concise and relevant. '' @
        ''Do not include tool execution details unless specifically asked.'' @ nl
      else [])"

definition build_agent :: "machine \<Rightarrow> 'w llm \<Rightarrow> 'w tool_registry \<Rightarrow> 'v tool_reg \<Rightarrow> channel_message \<Rightarrow> 'w \<Rightarrow> 'w agent_config \<times> 'w agent" where
  "build_agent M L R T m w =
     (let d = select_dispatcher (llm_model_info L);
          px = context_default\<lparr>px_tools := reg_list_schemas T, px_channel := Some (cm_channel m)\<rparr>;
          prompt = enhance_context m (with_instructions d (build_prompt (with_defaults M) px));
          ctx = add_user (cm_content m) (set_system prompt (context_new 128000))
      in ((react_new L R 10)\<lparr>ac_tools := reg_list_schemas T, ac_dispatcher := Some d, ac_usage_callback := True\<rparr>, agent_start ctx w))"

section \<open>The reply\<close>

definition reply_to :: "channel_message \<Rightarrow> string \<Rightarrow> send_message" where
  "reply_to m t =
     \<lparr>sm_recipient = cm_sender m, sm_content = t, sm_subject = None, sm_thread_ts = cm_thread_ts m, sm_metadata = mk_obj []\<rparr>"

definition direct_send :: "'c channel \<Rightarrow> channel_message \<Rightarrow> string \<Rightarrow> 'c \<Rightarrow> 'c" where
  "direct_send X m t c = fst (snd (send_with_retry (ch_send X) (reply_to m t) 3 c))"

text \<open>The first characters of a text.\<close>

definition char_prefix :: "string \<Rightarrow> nat \<Rightarrow> string" where
  "char_prefix s k = (let starts = char_starts s in take (if k < length starts then starts ! k else length s) s)"

definition draft_prefixes :: "string \<Rightarrow> string list" where
  "draft_prefixes s = map (\<lambda>k. char_prefix s (100 * (k + 1))) [0..<length (char_starts s) div 100]"

fun draft_updates :: "'c channel \<Rightarrow> string \<Rightarrow> string list \<Rightarrow> (nat \<Rightarrow> int) \<Rightarrow> nat \<Rightarrow> draft_manager \<Rightarrow> 'c \<Rightarrow> 'c" where
  "draft_updates X i [] clock n d c = c"
| "draft_updates X i (p # ps) clock n d c =
     (case accumulate p (clock n) d of
        (None, d1) \<Rightarrow> draft_updates X i ps clock (Suc n) d1 c
      | (Some t, d1) \<Rightarrow> draft_updates X i ps clock (Suc n) d1 (attempt (ch_update_draft X i t) c))"

definition send_with_draft :: "'c channel \<Rightarrow> (nat \<Rightarrow> int) \<Rightarrow> channel_message \<Rightarrow> string \<Rightarrow> 'c \<Rightarrow> 'c" where
  "send_with_draft X clock m answer c =
     (case ch_send_draft X (reply_to m ''...'') c of
        (Inl _, c1) \<Rightarrow> direct_send X m answer c1
      | (Inr i, c1) \<Rightarrow>
          (let c2 = draft_updates X i (draft_prefixes answer) clock 0 (draft_new 500000000) c1;
               c3 = attempt (ch_update_draft X i answer) c2
           in attempt (ch_finalize_draft X i) c3))"

definition send_response :: "'c channel \<Rightarrow> (nat \<Rightarrow> int) \<Rightarrow> channel_message \<Rightarrow> string \<Rightarrow> 'c \<Rightarrow> 'c" where
  "send_response X clock m answer c =
     (if ch_drafts X \<and> length answer > 100 then send_with_draft X clock m answer c else direct_send X m answer c)"

definition answer_text :: "atta_error + json \<Rightarrow> string" where
  "answer_text r =
     (case r of
        Inr out \<Rightarrow> or_else (''I couldn'' @ [CHR 0x27] @ ''t generate a response.'') (jget_str out ''answer'')
      | Inl e \<Rightarrow> ''Error: '' @ error_show e)"

text \<open>The state of the channel at the end; a run that panics ends the task after the typing indicator was started.\<close>

definition handle_message :: "machine \<Rightarrow> aenv \<Rightarrow> 'w llm \<Rightarrow> 'w tool_registry \<Rightarrow> 'v tool_reg \<Rightarrow> 'c channel \<Rightarrow> (nat \<Rightarrow> int) \<Rightarrow>
    channel_message \<Rightarrow> 'w \<times> 'c \<Rightarrow> (fault + unit) \<times> 'w agent \<times> 'c" where
  "handle_message M A L R T X clock m = (\<lambda>(w, c).
     let c1 = attempt (ch_start_typing X (cm_sender m)) c in
     case build_agent M L R T m w of
       (C, a) \<Rightarrow>
         (case react_run A C a of
            (Inl Panics, a1) \<Rightarrow> (Inl Panics, a1, c1)
          | (Inl (Fails e), a1) \<Rightarrow>
              (Inr (), a1, send_response X clock m (answer_text (Inl e)) (attempt (ch_stop_typing X (cm_sender m)) c1))
          | (Inr out, a1) \<Rightarrow>
              (Inr (), a1, send_response X clock m (answer_text (Inr out)) (attempt (ch_stop_typing X (cm_sender m)) c1))))"

section \<open>Health\<close>

record heartbeat_result =
  hr_channel :: string
  hr_healthy :: bool
  hr_error :: "string option"
  hr_checked_at :: timestamp

fun check_all :: "(nat \<Rightarrow> timestamp) \<Rightarrow> nat \<Rightarrow> 'c channel list \<Rightarrow> 'c \<Rightarrow> heartbeat_result list \<times> 'c" where
  "check_all clock n [] c = ([], c)"
| "check_all clock n (X # Xs) c =
     (case ch_health X c of
        (r, c1) \<Rightarrow>
          (let h = (case r of
                 Inr _ \<Rightarrow> \<lparr>hr_channel = ch_name X, hr_healthy = True, hr_error = None, hr_checked_at = clock n\<rparr>
               | Inl e \<Rightarrow> \<lparr>hr_channel = ch_name X, hr_healthy = False, hr_error = Some (error_show e), hr_checked_at = clock n\<rparr>)
           in case check_all clock (Suc n) Xs c1 of (hs, c2) \<Rightarrow> (h # hs, c2)))"

section \<open>Who is answered\<close>

text \<open>Two channels that treat every message to this recipient alike.\<close>

definition same_towards :: "string \<Rightarrow> 'c channel \<Rightarrow> 'c channel \<Rightarrow> bool" where
  "same_towards r X Y \<longleftrightarrow>
     (\<forall>s. sm_recipient s = r \<longrightarrow> ch_send X s = ch_send Y s \<and> ch_send_draft X s = ch_send_draft Y s) \<and>
     ch_start_typing X r = ch_start_typing Y r \<and> ch_stop_typing X r = ch_stop_typing Y r \<and> ch_drafts X = ch_drafts Y \<and>
     ch_update_draft X = ch_update_draft Y \<and> ch_finalize_draft X = ch_finalize_draft Y"

lemma same_direct_send: "same_towards (cm_sender m) X Y \<Longrightarrow> direct_send X m t = direct_send Y m t"
  by (rule ext) (simp add: direct_send_def send_with_retry_def same_towards_def reply_to_def)

lemma same_draft_updates: "same_towards r X Y \<Longrightarrow> draft_updates X i ps clock n d c = draft_updates Y i ps clock n d c"
  by (induction X i ps clock n d c rule: draft_updates.induct) (auto simp: same_towards_def split: prod.split option.split)

lemma same_send_response: "same_towards (cm_sender m) X Y \<Longrightarrow> send_response X clock m t = send_response Y clock m t"
proof -
  assume s: "same_towards (cm_sender m) X Y"
  then have "ch_send_draft X (reply_to m ''...'') = ch_send_draft Y (reply_to m ''...'')" "ch_drafts X = ch_drafts Y"
    "ch_update_draft X = ch_update_draft Y" "ch_finalize_draft X = ch_finalize_draft Y"
    by (simp_all add: same_towards_def reply_to_def)
  then show ?thesis
    by (intro ext) (simp add: send_response_def send_with_draft_def same_direct_send [OF s] same_draft_updates [OF s] Let_def split: prod.split sum.split)
qed

text \<open>
  C35. Whoever a message was written to, the handler speaks with its sender alone: it does the same on every two channels
  that agree on messages to the sender, so a group never sees the reply to a message in it.
\<close>

theorem replies_go_to_sender:
  assumes "same_towards (cm_sender m) X Y"
  shows "handle_message M A L R T X clock m = handle_message M A L R T Y clock m"
proof -
  have start: "ch_start_typing X (cm_sender m) = ch_start_typing Y (cm_sender m)"
    and stop: "ch_stop_typing X (cm_sender m) = ch_stop_typing Y (cm_sender m)"
    using assms by (simp_all add: same_towards_def)
  show ?thesis unfolding handle_message_def same_send_response [OF assms] start stop ..
qed

definition recording_channel :: "send_message list channel" where
  "recording_channel = plain_channel ''chat'' (\<lambda>s c. (Inr (), c @ [s])) (retE ())"

text \<open>A channel on which nobody but Ann can be reached.\<close>

definition lonely_channel :: "send_message list channel" where
  "lonely_channel = plain_channel ''chat'' (\<lambda>s c. if sm_recipient s = ''ann'' then (Inr (), c @ [s]) else (Inl (ChannelError ''nobody''), c)) (retE ())"

definition group_message :: channel_message where
  "group_message = (message_new ''1'' ''ann'' ''hello'' ''chat'' 0)\<lparr>cm_chat_type := ChatGroup, cm_group_id := Some ''team''\<rparr>"

definition demo_machine :: machine where
  "demo_machine = \<lparr>mh_host = None, mh_os = ''linux'', mh_arch = ''x86_64'', mh_time = [], mh_zone = ''UTC'', mh_file = (\<lambda>r f. None)\<rparr>"

theorem replies_go_to_sender_witness:
  "handle_message demo_machine demo_texts greeting_llm counting_tools (reg_new :: unit tool_reg) recording_channel (\<lambda>n. 0) group_message =
   handle_message demo_machine demo_texts greeting_llm counting_tools (reg_new :: unit tool_reg) lonely_channel (\<lambda>n. 0) group_message"
proof (rule replies_go_to_sender)
  have "cm_sender group_message = ''ann''" by (simp add: group_message_def message_new_def)
  then show "same_towards (cm_sender group_message) recording_channel lonely_channel"
    by (simp add: same_towards_def recording_channel_def lonely_channel_def plain_channel_def)
qed

section \<open>Truncation\<close>

lemma boundary_below_greatest:
  assumes "boundary s 0"
  shows "boundary s (boundary_below s n) \<and> boundary_below s n \<le> n" and "j \<le> n \<Longrightarrow> boundary s j \<Longrightarrow> j \<le> boundary_below s n"
  using assms by (induction n) (auto simp: le_Suc_eq)

text \<open>What \<open>utf8_truncate\<close> keeps is never longer than allowed, unlike what \<open>utf8_safe_truncate\<close> keeps of a file.\<close>

lemma utf8_truncate_bound: "length (utf8_truncate s n) \<le> n"
proof -
  have "boundary_below s n \<le> n" by (induction n) auto
  then show ?thesis by (auto simp: utf8_truncate_def)
qed

section \<open>What a draft shows\<close>

text \<open>
  The handler hands the manager growing prefixes of the answer, and the manager appends what it is handed: what an update
  shows repeats the beginning of the answer. The last update is the answer itself.
\<close>

lemma draft_repeats_prefixes: "dm_pending (snd (accumulate p now d)) = dm_pending d @ p"
  by (simp add: accumulate_def Let_def)

lemma second_update_repeats:
  assumes "dm_interval d \<le> now - t0" and "dm_last d = Some t0" and "dm_pending d = p"
  shows "fst (accumulate (p @ q) now d) = Some (p @ p @ q)"
  using assms by (simp add: accumulate_def Let_def)

text \<open>Updates of one draft are an interval apart.\<close>

lemma updates_are_apart:
  assumes "accumulate p t0 d0 = (Some u, d)" and "accumulate q now d = (Some v, d')"
  shows "dm_interval d0 \<le> now - t0"
  using assms by (auto simp: accumulate_def Let_def split: if_splits option.splits)

end
