(* ===== verification/Channel_Api.thy ===== *)
theory Channel_Api
  imports App Flow_Props Channel_Handler Numbers
begin

text \<open>
  The channels of a running server: their registry (\<open>crates/channel/src/registry.rs\<close>), the factory that makes them from
  their settings (\<open>crates/channel/src/factory.rs\<close>), and the handlers of channels, sessions, takeovers and access lists
  (\<open>crates/core/src/server/handlers/channel.rs\<close>).

  What a channel of each kind does with the service behind it is an argument; the factory gives the kind with its settings.
  \<open>feature\<close> says which kinds are compiled in.
\<close>

section \<open>The registry\<close>

type_synonym 'c channels = "(string, 'c channel) table"

definition channel_insert :: "string \<Rightarrow> 'c channel \<Rightarrow> 'c channels \<Rightarrow> 'c channels" where
  "channel_insert n ch r = tbl_upsert n ch (\<lambda>_. ch) r"

definition channel_get :: "string \<Rightarrow> 'c channels \<Rightarrow> 'c channel option" where
  "channel_get n r = tbl_get r n"

definition channel_names :: "'c channels \<Rightarrow> string list" where
  "channel_names r = map fst r"

definition channel_remove :: "string \<Rightarrow> 'c channels \<Rightarrow> 'c channel option \<times> 'c channels" where
  "channel_remove n r = (tbl_get r n, tbl_delete n r)"

definition channel_count :: "'c channels \<Rightarrow> nat" where
  "channel_count r = length r"

section \<open>The factory\<close>

type_synonym u16 = "16 word"

record channel_config =
  cc_type :: string
  cc_enabled :: bool
  cc_settings :: json

datatype channel_spec =
    TerminalSpec
  | WebhookSpec string string
  | TelegramSpec string "string option" "string option"
  | DiscordSpec string
  | SlackSpec string string
  | LarkSpec string string
  | DingtalkSpec string string
  | EmailSpec string u16 string u16 string string
  | QqSpec string string bool
  | MattermostSpec string string
  | IrcSpec string u16 string string
  | SignalSpec string
  | ImessageSpec
  | WhatsappSpec string string
  | MatrixSpec string string string
  | NostrSpec "string list" string
  | MqttSpec string u16 string string string
  | WatiSpec string string
  | NextcloudTalkSpec string string string string
  | ClawdtalkSpec string string

type_synonym spec_result = "atta_error + channel_spec"

definition required :: "string \<Rightarrow> json \<Rightarrow> string \<Rightarrow> (string \<Rightarrow> spec_result) \<Rightarrow> spec_result" where
  "required ty st k f =
     (case jget_str st k of
        None \<Rightarrow> Inl (Validation (ty @ '' channel requires '' @ squote k @ '' setting''))
      | Some v \<Rightarrow> f v)"

definition setting_or :: "string \<Rightarrow> json \<Rightarrow> string \<Rightarrow> string" where
  "setting_or d st k = or_else d (jget_str st k)"

definition setting_u64 :: "json \<Rightarrow> string \<Rightarrow> u64 option" where
  "setting_u64 st k =
     (case jget st k of Some (JInt i) \<Rightarrow> if 0 \<le> i \<and> i < 2 ^ 64 then Some (of_int i) else None | _ \<Rightarrow> None)"

text \<open>\<open>as u16\<close> keeps the lowest 16 bits.\<close>

definition port_or :: "u64 \<Rightarrow> json \<Rightarrow> string \<Rightarrow> u16" where
  "port_or d st k = ucast (or_else d (setting_u64 st k))"

definition webhook_spec :: "json \<Rightarrow> spec_result" where
  "webhook_spec st = required ''webhook'' st ''outgoing_url'' (\<lambda>u. Inr (WebhookSpec (setting_or ''webhook'' st ''name'') u))"

definition telegram_spec :: "json \<Rightarrow> spec_result" where
  "telegram_spec st = required ''telegram'' st ''bot_token'' (\<lambda>t. Inr (TelegramSpec t (jget_str st ''webhook_secret'') (jget_str st ''bot_username'')))"

definition discord_spec :: "json \<Rightarrow> spec_result" where
  "discord_spec st = required ''discord'' st ''bot_token'' (\<lambda>t. Inr (DiscordSpec t))"

definition slack_spec :: "json \<Rightarrow> spec_result" where
  "slack_spec st = required ''slack'' st ''bot_token'' (\<lambda>b. required ''slack'' st ''app_token'' (\<lambda>a. Inr (SlackSpec b a)))"

definition lark_spec :: "json \<Rightarrow> spec_result" where
  "lark_spec st = required ''lark'' st ''app_id'' (\<lambda>i. required ''lark'' st ''app_secret'' (\<lambda>s. Inr (LarkSpec i s)))"

definition dingtalk_spec :: "json \<Rightarrow> spec_result" where
  "dingtalk_spec st = required ''dingtalk'' st ''app_key'' (\<lambda>k. required ''dingtalk'' st ''app_secret'' (\<lambda>s. Inr (DingtalkSpec k s)))"

definition email_spec :: "json \<Rightarrow> spec_result" where
  "email_spec st =
     required ''email'' st ''imap_host'' (\<lambda>ih. required ''email'' st ''smtp_host'' (\<lambda>sh.
     required ''email'' st ''username'' (\<lambda>u. required ''email'' st ''password'' (\<lambda>p.
     Inr (EmailSpec ih (port_or 993 st ''imap_port'') sh (port_or 587 st ''smtp_port'') u p)))))"

definition qq_spec :: "json \<Rightarrow> spec_result" where
  "qq_spec st = required ''qq'' st ''app_id'' (\<lambda>i. required ''qq'' st ''token'' (\<lambda>t.
     Inr (QqSpec i t (or_else False (Option.bind (jget st ''sandbox'') as_bool)))))"

definition mattermost_spec :: "json \<Rightarrow> spec_result" where
  "mattermost_spec st = required ''mattermost'' st ''url'' (\<lambda>u. required ''mattermost'' st ''token'' (\<lambda>t. Inr (MattermostSpec u t)))"

definition irc_spec :: "json \<Rightarrow> spec_result" where
  "irc_spec st =
     required ''irc'' st ''server'' (\<lambda>s. required ''irc'' st ''nick'' (\<lambda>n. required ''irc'' st ''channel'' (\<lambda>c.
     Inr (IrcSpec s (port_or 6667 st ''port'') n c))))"

definition signal_spec :: "json \<Rightarrow> spec_result" where
  "signal_spec st = required ''signal'' st ''phone_number'' (\<lambda>p. Inr (SignalSpec p))"

definition whatsapp_spec :: "json \<Rightarrow> spec_result" where
  "whatsapp_spec st = required ''whatsapp'' st ''phone_number_id'' (\<lambda>p. required ''whatsapp'' st ''access_token'' (\<lambda>a. Inr (WhatsappSpec a p)))"

definition matrix_spec :: "json \<Rightarrow> spec_result" where
  "matrix_spec st =
     required ''matrix'' st ''homeserver'' (\<lambda>h. required ''matrix'' st ''username'' (\<lambda>u. required ''matrix'' st ''password'' (\<lambda>p. Inr (MatrixSpec h u p))))"

definition nostr_spec :: "json \<Rightarrow> spec_result" where
  "nostr_spec st = required ''nostr'' st ''private_key'' (\<lambda>k. Inr (NostrSpec
     (case Option.bind (jget st ''relay_urls'') as_array of
        Some xs \<Rightarrow> List.map_filter as_str xs | None \<Rightarrow> [''wss://relay.damus.io'']) k))"

definition mqtt_topic :: "json \<Rightarrow> string option" where
  "mqtt_topic st = Option.bind (case jget st ''subscribe_topic'' of Some v \<Rightarrow> Some v | None \<Rightarrow> jget st ''topic'') as_str"

definition mqtt_spec :: "json \<Rightarrow> spec_result" where
  "mqtt_spec st =
     required ''mqtt'' st ''host'' (\<lambda>h.
       case mqtt_topic st of
         None \<Rightarrow> Inl (Validation (''mqtt channel requires '' @ squote ''subscribe_topic'' @ '' or '' @ squote ''topic'' @ '' setting''))
       | Some t \<Rightarrow> Inr (MqttSpec h (port_or 1883 st ''port'') (setting_or ''atta-mqtt'' st ''client_id'') t (setting_or t st ''publish_topic'')))"

definition wati_spec :: "json \<Rightarrow> spec_result" where
  "wati_spec st = required ''wati'' st ''api_url'' (\<lambda>u. required ''wati'' st ''api_key'' (\<lambda>k. Inr (WatiSpec u k)))"

definition nextcloud_talk_spec :: "json \<Rightarrow> spec_result" where
  "nextcloud_talk_spec st =
     required ''nextcloud-talk'' st ''url'' (\<lambda>u. required ''nextcloud-talk'' st ''username'' (\<lambda>n.
     required ''nextcloud-talk'' st ''password'' (\<lambda>p. required ''nextcloud-talk'' st ''conversation_token'' (\<lambda>t.
     Inr (NextcloudTalkSpec u n p t)))))"

definition clawdtalk_spec :: "json \<Rightarrow> spec_result" where
  "clawdtalk_spec st = required ''clawdtalk'' st ''api_url'' (\<lambda>u. required ''clawdtalk'' st ''api_key'' (\<lambda>k. Inr (ClawdtalkSpec u k)))"

definition channel_kinds :: "(string \<times> (json \<Rightarrow> spec_result)) list" where
  "channel_kinds =
     [(''terminal'', \<lambda>st. Inr TerminalSpec), (''webhook'', webhook_spec), (''telegram'', telegram_spec), (''discord'', discord_spec),
      (''slack'', slack_spec), (''lark'', lark_spec), (''dingtalk'', dingtalk_spec), (''email'', email_spec), (''qq'', qq_spec),
      (''mattermost'', mattermost_spec), (''irc'', irc_spec), (''signal'', signal_spec), (''imessage'', \<lambda>st. Inr ImessageSpec),
      (''whatsapp'', whatsapp_spec), (''matrix'', matrix_spec), (''nostr'', nostr_spec), (''mqtt'', mqtt_spec), (''wati'', wati_spec),
      (''nextcloud-talk'', nextcloud_talk_spec), (''clawdtalk'', clawdtalk_spec)]"

definition create_channel :: "(string \<Rightarrow> bool) \<Rightarrow> channel_config \<Rightarrow> spec_result" where
  "create_channel feature cfg =
     (case map_of channel_kinds (cc_type cfg) of
        Some f \<Rightarrow> if feature (cc_type cfg) then f (cc_settings cfg) else Inl (Validation (''unknown channel type: '' @ cc_type cfg))
      | None \<Rightarrow> Inl (Validation (''unknown channel type: '' @ cc_type cfg)))"

text \<open>
  What the server starts with: of the channels it is configured with those that are enabled and can be made, in their
  registry and in the order they are listened to.
\<close>

definition start_channels :: "(string \<Rightarrow> bool) \<Rightarrow> (channel_spec \<Rightarrow> 'c channel) \<Rightarrow> channel_config list \<Rightarrow> 'c channels \<times> 'c channel list" where
  "start_channels feature mk cfgs =
     fold (\<lambda>cfg (r, chs). case create_channel feature cfg of
         Inr sp \<Rightarrow> (channel_insert (ch_name (mk sp)) (mk sp) r, chs @ [mk sp])
       | Inl _ \<Rightarrow> (r, chs)) (filter cc_enabled cfgs) ([], [])"

section \<open>The state of the handlers\<close>

record 'c chan_app = app +
  ca_channels :: "'c channels"
  ca_world :: 'c
  ca_router :: "session_router option"
  ca_access :: "access_policy option"
  ca_ticks :: ticks

record 'c chan_api_env =
  ce_feature :: "string \<Rightarrow> bool"
  ce_make :: "channel_spec \<Rightarrow> 'c channel"
  ce_message :: "string \<Rightarrow> string + channel_message"
  ce_chat :: chat_env

record channel_info =
  ci_name :: string
  ci_healthy :: bool

datatype chan_body =
    ChannelsBody "channel_info list"
  | ChannelStatus string string "string option"
  | SessionsBody "string list"
  | SessionBody session_config
  | WebhookOk
  | NoChanBody

type_synonym 'c chan_request = "('c chan_app, chan_body) request"

definition no_channel :: "string \<Rightarrow> chan_body reply" where
  "no_channel n = err_reply 404 (NotFound ''channel'' n)"

definition no_session :: "string \<Rightarrow> chan_body reply" where
  "no_session k = err_reply 404 (NotFound ''session'' k)"

text \<open>A call of a channel.\<close>

definition on_channel :: "('c, 'e, 'a) io \<Rightarrow> ('c chan_app, 'f, 'e + 'a) io" where
  "on_channel m = (\<lambda>s. case m (ca_world s) of (r, c) \<Rightarrow> (Inr r, s\<lparr>ca_world := c\<rparr>))"

definition look_up :: "string \<Rightarrow> ('c chan_app, chan_body reply, 'c channel) io" where
  "look_up n = bindE getE (\<lambda>s. case channel_get n (ca_channels s) of None \<Rightarrow> failE (no_channel n) | Some ch \<Rightarrow> retE ch)"

lemma look_up_apply:
  "look_up n s = (case channel_get n (ca_channels s) of None \<Rightarrow> (Inl (no_channel n), s) | Some ch \<Rightarrow> (Inr ch, s))"
  by (simp add: look_up_def bindE_apply split: option.split)

section \<open>Channels\<close>

fun health_of :: "'c channels \<Rightarrow> string list \<Rightarrow> 'c \<Rightarrow> channel_info list \<times> 'c" where
  "health_of r [] c = ([], c)"
| "health_of r (n # ns) c =
     (let (ok, c1) = (case channel_get n r of
            None \<Rightarrow> (False, c)
          | Some ch \<Rightarrow> (case ch_health ch c of (res, c1) \<Rightarrow> (\<not> isl res, c1)))
      in case health_of r ns c1 of (is, c2) \<Rightarrow> (\<lparr>ci_name = n, ci_healthy = ok\<rparr> # is, c2))"

definition list_channels :: "checker \<Rightarrow> current_user \<Rightarrow> 'c chan_request" where
  "list_channels chk user =
     bindE (app_authz chk user Read (resource_all RChannel)) (\<lambda>_.
     (\<lambda>s. case health_of (ca_channels s) (channel_names (ca_channels s)) (ca_world s) of
        (is, c) \<Rightarrow> (Inr (OkReply 200 (ChannelsBody is)), s\<lparr>ca_world := c\<rparr>)))"

definition channel_health :: "checker \<Rightarrow> current_user \<Rightarrow> string \<Rightarrow> 'c chan_request" where
  "channel_health chk user n =
     bindE (app_authz chk user Read (resource_new RChannel n)) (\<lambda>_.
     bindE (look_up n) (\<lambda>ch.
     bindE (on_channel (ch_health ch)) (\<lambda>r.
       case r of
         Inr _ \<Rightarrow> retE (OkReply 200 (ChannelStatus n ''healthy'' None))
       | Inl e \<Rightarrow> retE (OkReply 503 (ChannelStatus n ''unhealthy'' (Some (error_show e)))))))"

text \<open>Headers that are text, under their names in lower case; of several of one name the last counts.\<close>

definition header_map :: "(string \<times> string option) list \<Rightarrow> (string \<times> string) list" where
  "header_map hs =
     fold (\<lambda>(k, v) m. case v of None \<Rightarrow> m | Some t \<Rightarrow> tbl_upsert (to_lower k) t (\<lambda>_. t) m) hs []"

definition receive_webhook :: "'c chan_api_env \<Rightarrow> string \<Rightarrow> (string \<times> string option) list \<Rightarrow> string \<Rightarrow> 'c chan_request" where
  "receive_webhook Y n headers body =
     bindE (look_up n) (\<lambda>ch.
     case ch_verify ch (header_map headers) body of
       Inl e \<Rightarrow> failE (err_reply 500 (OtherError (''signature verification error: '' @ error_show e)))
     | Inr False \<Rightarrow> failE (err_reply 401 (Validation ''invalid webhook signature''))
     | Inr True \<Rightarrow>
         (case ce_message Y body of
            Inl e \<Rightarrow> failE (err_reply 400 (Validation (''invalid webhook payload: '' @ e)))
          | Inr m \<Rightarrow>
              if ch_name ch \<noteq> ''webhook'' \<and> \<not> starts_with (ch_name ch) ''webhook''
              then failE (err_reply 400 (Validation (''channel '' @ squote n @ '' does not accept webhook pushes'')))
              else
                bindE (on_channel (ch_send ch \<lparr>sm_recipient = cm_sender m, sm_content = cm_content m, sm_subject = None,
                    sm_thread_ts = cm_thread_ts m, sm_metadata = cm_metadata m\<rparr>)) (\<lambda>r.
                  case r of
                    Inr _ \<Rightarrow> retE (OkReply 202 WebhookOk)
                  | Inl e \<Rightarrow> failE (err_reply 500 e))))"

definition made_channel :: "'c chan_api_env \<Rightarrow> channel_config \<Rightarrow> ('s, chan_body reply, 'c channel) io" where
  "made_channel Y cfg =
     (case create_channel (ce_feature Y) cfg of Inl e \<Rightarrow> failE (err_reply 400 e) | Inr sp \<Rightarrow> retE (ce_make Y sp))"

definition add_channel :: "'c chan_api_env \<Rightarrow> checker \<Rightarrow> current_user \<Rightarrow> channel_config \<Rightarrow> 'c chan_request" where
  "add_channel Y chk user cfg =
     bindE (app_authz chk user Create (resource_all RChannel)) (\<lambda>_.
     bindE (made_channel Y cfg) (\<lambda>ch.
     bindE getE (\<lambda>s.
       if channel_get (ch_name ch) (ca_channels s) \<noteq> None then failE (err_reply 409 (AlreadyExists ''channel'' (ch_name ch)))
       else
         bindE (modifyE (\<lambda>s. s\<lparr>ca_channels := channel_insert (ch_name ch) ch (ca_channels s)\<rparr>)) (\<lambda>_.
         retE (OkReply 201 (ChannelStatus (ch_name ch) ''created'' None))))))"

definition remove_channel :: "checker \<Rightarrow> current_user \<Rightarrow> string \<Rightarrow> 'c chan_request" where
  "remove_channel chk user n =
     bindE (app_authz chk user Delete (resource_new RChannel n)) (\<lambda>_.
     bindE getE (\<lambda>s.
       case channel_remove n (ca_channels s) of
         (None, _) \<Rightarrow> failE (no_channel n)
       | (Some _, r) \<Rightarrow> bindE (modifyE (\<lambda>s. s\<lparr>ca_channels := r\<rparr>)) (\<lambda>_. retE (OkReply 200 (ChannelStatus n ''removed'' None)))))"

definition update_channel :: "'c chan_api_env \<Rightarrow> checker \<Rightarrow> current_user \<Rightarrow> string \<Rightarrow> channel_config \<Rightarrow> 'c chan_request" where
  "update_channel Y chk user n cfg =
     bindE (app_authz chk user Update (resource_new RChannel n)) (\<lambda>_.
     bindE (look_up n) (\<lambda>_.
     bindE (made_channel Y cfg) (\<lambda>ch.
     bindE (modifyE (\<lambda>s. s\<lparr>ca_channels := channel_insert (ch_name ch) ch (snd (channel_remove n (ca_channels s)))\<rparr>)) (\<lambda>_.
     retE (OkReply 200 (ChannelStatus (ch_name ch) ''updated'' None))))))"

section \<open>Sessions\<close>

text \<open>What a request does with the router where there is one.\<close>

definition with_router :: "('c chan_app, chan_body) request \<Rightarrow> (session_router \<Rightarrow> ('c chan_app, chan_body) request) \<Rightarrow> ('c chan_app, chan_body) request" where
  "with_router without f = bindE getE (\<lambda>s. case ca_router s of None \<Rightarrow> without | Some R \<Rightarrow> f R)"

definition put_router :: "session_router \<Rightarrow> ('c chan_app, 'e, unit) io" where
  "put_router R = modifyE (\<lambda>s. s\<lparr>ca_router := Some R\<rparr>)"

definition list_sessions :: "'c chan_request" where
  "list_sessions = with_router (retE (OkReply 200 (SessionsBody []))) (\<lambda>R. retE (OkReply 200 (SessionsBody (session_keys R))))"

definition get_session :: "string \<Rightarrow> 'c chan_request" where
  "get_session k =
     with_router (failE (no_session k)) (\<lambda>R. case get_config k R of
       None \<Rightarrow> failE (no_session k) | Some cfg \<Rightarrow> retE (OkReply 200 (SessionBody cfg)))"

definition update_session :: "checker \<Rightarrow> current_user \<Rightarrow> string \<Rightarrow> session_config \<Rightarrow> 'c chan_request" where
  "update_session chk user k cfg =
     bindE (app_authz chk user Update (resource_new RChannel k)) (\<lambda>_.
     with_router (failE (err_reply 404 (Validation ''session router not configured''))) (\<lambda>R.
       bindE (put_router (set_config k cfg R)) (\<lambda>_. retE (OkReply 200 (SessionBody cfg)))))"

definition delete_session :: "checker \<Rightarrow> current_user \<Rightarrow> string \<Rightarrow> 'c chan_request" where
  "delete_session chk user k =
     bindE (app_authz chk user Delete (resource_new RChannel k)) (\<lambda>_.
     with_router (retE (OkReply 204 NoChanBody)) (\<lambda>R. bindE (put_router (remove_config k R)) (\<lambda>_. retE (OkReply 204 NoChanBody))))"

definition no_router :: "chan_body reply" where
  "no_router = err_reply 400 (Validation ''session router not configured'')"

definition api_start_takeover :: "'c chan_api_env \<Rightarrow> checker \<Rightarrow> current_user \<Rightarrow> string \<Rightarrow> string \<Rightarrow> string option \<Rightarrow> 'c chan_request" where
  "api_start_takeover Y chk user k operator reason =
     bindE (app_authz chk user Update (resource_new RChannel k)) (\<lambda>_.
     with_router (failE no_router) (\<lambda>R.
       (\<lambda>s. case start_takeover (ce_chat Y) k operator reason R (ca_ticks s) of
          (cfg, R', t) \<Rightarrow> (Inr (OkReply 200 (SessionBody cfg)), s\<lparr>ca_router := Some R', ca_ticks := t\<rparr>))))"

definition api_end_takeover :: "checker \<Rightarrow> current_user \<Rightarrow> string \<Rightarrow> 'c chan_request" where
  "api_end_takeover chk user k =
     bindE (app_authz chk user Update (resource_new RChannel k)) (\<lambda>_.
     with_router (failE no_router) (\<lambda>R. case end_takeover k R of
       (None, _) \<Rightarrow> failE (no_session k)
     | (Some cfg, R') \<Rightarrow> bindE (put_router R') (\<lambda>_. retE (OkReply 200 (SessionBody cfg)))))"

section \<open>Access lists\<close>

definition set_access_list :: "(access_policy \<Rightarrow> access_policy) \<Rightarrow> string \<Rightarrow> checker \<Rightarrow> current_user \<Rightarrow> string \<Rightarrow> 'c chan_request" where
  "set_access_list f what chk user n =
     bindE (app_authz chk user Update (resource_new RChannel n)) (\<lambda>_.
     bindE getE (\<lambda>s. case ca_access s of
       None \<Rightarrow> failE (err_reply 400 (Validation ''access control not configured''))
     | Some a \<Rightarrow> bindE (modifyE (\<lambda>s. s\<lparr>ca_access := Some (f a)\<rparr>)) (\<lambda>_. retE (OkReply 200 (ChannelStatus n what None)))))"

definition api_set_allowlist :: "checker \<Rightarrow> current_user \<Rightarrow> string \<Rightarrow> string list \<Rightarrow> 'c chan_request" where
  "api_set_allowlist chk user n senders = set_access_list (set_allowlist n senders) ''allowlist_updated'' chk user n"

definition api_set_blocklist :: "checker \<Rightarrow> current_user \<Rightarrow> string \<Rightarrow> string list \<Rightarrow> 'c chan_request" where
  "api_set_blocklist chk user n senders = set_access_list (set_blocklist n senders) ''blocklist_updated'' chk user n"

section \<open>The registry of a running server\<close>

text \<open>Every channel stands under its own name, and no two under the same.\<close>

definition channels_named :: "'c channels \<Rightarrow> bool" where
  "channels_named r \<longleftrightarrow> tbl_ok r \<and> (\<forall>n ch. tbl_get r n = Some ch \<longrightarrow> ch_name ch = n)"

lemma channels_named_empty [intro]: "channels_named []"
  by (simp add: channels_named_def tbl_ok_def)

lemma channels_named_insert: "channels_named r \<Longrightarrow> channels_named (channel_insert (ch_name ch) ch r)"
  by (auto simp: channels_named_def channel_insert_def tbl_ok_upsert tbl_get_upsert split: option.splits if_splits)

lemma channels_named_remove: "channels_named r \<Longrightarrow> channels_named (snd (channel_remove n r))"
  by (auto simp: channels_named_def channel_remove_def tbl_ok_delete tbl_get_delete split: if_splits)

lemma channels_named_replace: "channels_named r \<Longrightarrow> channels_named (channel_insert (ch_name ch) ch (snd (channel_remove n r)))"
  by (intro channels_named_insert channels_named_remove)

abbreviation names_kept :: "('c chan_app, 'e, 'a) io \<Rightarrow> bool" where
  "names_kept m \<equiv> keeps (\<lambda>s. channels_named (ca_channels s)) m"

lemma names_kept_authz [keeps_intros]: "names_kept (app_authz chk user a res)"
  by (rule keeps_app_authz) simp

lemma names_kept_look_up [keeps_intros]: "names_kept (look_up n)"
  unfolding look_up_def by (auto intro!: keeps_intros split: option.split)

lemma names_kept_made [keeps_intros]: "names_kept (made_channel Y cfg)"
  unfolding made_channel_def by (auto intro!: keeps_intros split: sum.split)

lemma names_kept_add: "names_kept (add_channel Y chk user cfg)"
  unfolding add_channel_def by (intro keeps_intros keeps_modifyE) (simp add: channels_named_insert)

lemma names_kept_update: "names_kept (update_channel Y chk user n cfg)"
  unfolding update_channel_def by (intro keeps_intros keeps_modifyE) (simp add: channels_named_replace)

text \<open>What a removal leaves.\<close>

lemma names_kept_remove: "names_kept (remove_channel chk user n :: 'c chan_request)"
  unfolding remove_channel_def
proof (rule keeps_bindE [OF names_kept_authz], rule keepsI)
  fix u and s :: "'c chan_app"
  assume "channels_named (ca_channels s)"
  with channels_named_remove [OF this, of n] show "channels_named (ca_channels (snd (bindE getE (\<lambda>s. case channel_remove n (ca_channels s) of
        (None, _) \<Rightarrow> failE (no_channel n)
      | (Some _, r) \<Rightarrow> bindE (modifyE (\<lambda>s. s\<lparr>ca_channels := r\<rparr>)) (\<lambda>_. retE (OkReply 200 (ChannelStatus n ''removed'' None)))) s)))"
    by (simp add: bindE_def getE_def channel_remove_def modifyE_def retE_def failE_def split: option.split)
qed

datatype channel_change = AddChannel channel_config | RemoveChannel string | UpdateChannel string channel_config

fun change_request :: "'c chan_api_env \<Rightarrow> checker \<Rightarrow> current_user \<Rightarrow> channel_change \<Rightarrow> 'c chan_request" where
  "change_request Y chk user (AddChannel cfg) = add_channel Y chk user cfg"
| "change_request Y chk user (RemoveChannel n) = remove_channel chk user n"
| "change_request Y chk user (UpdateChannel n cfg) = update_channel Y chk user n cfg"

definition change_channels :: "'c chan_api_env \<Rightarrow> checker \<Rightarrow> current_user \<times> channel_change \<Rightarrow> 'c chan_app \<Rightarrow> 'c chan_app" where
  "change_channels Y chk uc s = snd (reply_of (change_request Y chk (fst uc) (snd uc)) s)"

lemma change_channels_named: "channels_named (ca_channels s) \<Longrightarrow> channels_named (ca_channels (change_channels Y chk uc s))"
  unfolding change_channels_def
  by (rule keeps_reply_of, cases "snd uc") (simp_all add: names_kept_add names_kept_remove names_kept_update)

lemma start_channels_named: "channels_named (fst (start_channels feature mk cfgs))"
proof -
  have "channels_named (fst rc) \<Longrightarrow> channels_named (fst (fold (\<lambda>cfg (r, chs). case create_channel feature cfg of
         Inr sp \<Rightarrow> (channel_insert (ch_name (mk sp)) (mk sp) r, chs @ [mk sp])
       | Inl _ \<Rightarrow> (r, chs)) cs rc))" for cs :: "channel_config list" and rc
    by (induction cs arbitrary: rc) (auto simp: channels_named_insert split: sum.split prod.split)
  from this [of "([], [])"] show ?thesis by (simp add: start_channels_def channels_named_empty)
qed

text \<open>
  From the channels a server is configured with, after any requests of any users that add, remove or update channels
  every channel is registered under its own name, and no two under the same: an update that renames a channel moves it.
\<close>

theorem channels_are_under_their_names:
  "channels_named (ca_channels (fold (change_channels Y chk) requests (s\<lparr>ca_channels := fst (start_channels feature mk cfgs)\<rparr>)))"
proof -
  have "channels_named (ca_channels s') \<Longrightarrow> channels_named (ca_channels (fold (change_channels Y chk) requests s'))" for s'
    by (induction requests arbitrary: s') (simp_all add: change_channels_named)
  then show ?thesis by (simp add: start_channels_named)
qed

text \<open>An update that gives a channel the name of another one replaces that one, without the conflict that adding it would be.\<close>

lemma update_replaces_another:
  "tbl_get (channel_insert (ch_name ch) ch (snd (channel_remove n r))) (ch_name ch) = Some ch"
  by (auto simp: channel_insert_def channel_remove_def tbl_get_upsert tbl_get_delete split: option.split)

section \<open>Webhooks\<close>

text \<open>
  C36. A webhook that is accepted names a registered webhook channel whose check of the signature it passed, and all that
  is done with its message is to hand it to that channel to be sent, to the sender: nothing else of the state changes.
\<close>

theorem accepted_webhook_is_only_sent:
  assumes "reply_of (receive_webhook Y n headers body) s = (OkReply 202 b, s')"
  shows "\<exists>ch m. channel_get n (ca_channels s) = Some ch \<and> ch_verify ch (header_map headers) body = Inr True \<and>
     ce_message Y body = Inr m \<and> starts_with (ch_name ch) ''webhook'' \<and>
     s' = s\<lparr>ca_world := snd (ch_send ch \<lparr>sm_recipient = cm_sender m, sm_content = cm_content m, sm_subject = None,
              sm_thread_ts = cm_thread_ts m, sm_metadata = cm_metadata m\<rparr> (ca_world s))\<rparr>"
proof -
  from assms obtain ch where ch: "channel_get n (ca_channels s) = Some ch"
    by (auto simp: receive_webhook_def reply_bind look_up_apply no_channel_def err_reply_def split: option.splits)
  have found: "look_up n s = (Inr ch, s)" by (simp add: look_up_apply ch)
  from assms have verified: "ch_verify ch (header_map headers) body = Inr True"
    by (auto simp: receive_webhook_def reply_bind found err_reply_def split: sum.splits bool.splits)
  from assms verified obtain m where m: "ce_message Y body = Inr m"
    by (auto simp: receive_webhook_def reply_bind found err_reply_def split: sum.splits)
  from assms verified m have name: "starts_with (ch_name ch) ''webhook''"
    by (auto simp: receive_webhook_def reply_bind found err_reply_def starts_with_iff split: if_splits)
  let ?m = "\<lparr>sm_recipient = cm_sender m, sm_content = cm_content m, sm_subject = None,
              sm_thread_ts = cm_thread_ts m, sm_metadata = cm_metadata m\<rparr>"
  have "s' = s\<lparr>ca_world := snd (ch_send ch ?m (ca_world s))\<rparr>"
    using assms verified m name
    by (cases "ch_send ch ?m (ca_world s)")
       (auto simp: receive_webhook_def reply_bind found on_channel_def split: sum.splits)
  with ch verified m name show ?thesis by blast
qed

definition echo_channel :: "send_message list channel" where
  "echo_channel = plain_channel ''webhook'' (\<lambda>s c. (Inr (), c @ [s])) (retE ())"

definition echo_api :: "send_message list chan_api_env" where
  "echo_api = \<lparr>ce_feature = (\<lambda>_. True), ce_make = (\<lambda>_. echo_channel), ce_message = (\<lambda>b. Inr (message_new ''1'' ''ann'' b ''webhook'' 0)),
     ce_chat = \<lparr>xe_inst = (\<lambda>_. 0), xe_utc = (\<lambda>_. 0), xe_uuid = (\<lambda>_. [])\<rparr>\<rparr>"

definition echo_app :: "send_message list chan_app" where
  "echo_app =
     \<lparr>ap_world = demo_world demo_flow (demo_db ''review'' ''running'' (JObj [])), ap_admin = admin_empty, ap_audit = [],
      ca_channels = [(''webhook'', echo_channel)], ca_world = [], ca_router = None, ca_access = None, ca_ticks = \<lparr>tk_inst = 0, tk_utc = 0, tk_uuid = 0\<rparr>\<rparr>"

theorem accepted_webhook_is_only_sent_witness:
  "\<exists>m. map sm_content (ca_world (snd (reply_of (receive_webhook echo_api ''webhook'' [] ''hi'') echo_app))) = [''hi''] \<and>
     ce_message echo_api ''hi'' = Inr m \<and>
     snd (reply_of (receive_webhook echo_api ''webhook'' [] ''hi'') echo_app) =
       echo_app\<lparr>ca_world := snd (ch_send echo_channel \<lparr>sm_recipient = cm_sender m, sm_content = cm_content m, sm_subject = None,
              sm_thread_ts = cm_thread_ts m, sm_metadata = cm_metadata m\<rparr> [])\<rparr>"
proof -
  let ?r = "reply_of (receive_webhook echo_api ''webhook'' [] ''hi'') echo_app"
  have ok: "fst ?r = OkReply 202 WebhookOk"
    by (simp add: receive_webhook_def reply_bind look_up_apply echo_app_def channel_get_def tbl_get_def
        echo_channel_def plain_channel_def echo_api_def on_channel_def message_new_def starts_with_iff)
  have get: "channel_get ''webhook'' (ca_channels echo_app) = Some echo_channel" "ca_world echo_app = []"
    by (simp_all add: echo_app_def channel_get_def tbl_get_def)
  from ok have "?r = (OkReply 202 WebhookOk, snd ?r)" by (cases ?r) simp
  from accepted_webhook_is_only_sent [OF this] get obtain m where m: "ce_message echo_api ''hi'' = Inr m"
    "snd ?r = echo_app\<lparr>ca_world := snd (ch_send echo_channel \<lparr>sm_recipient = cm_sender m, sm_content = cm_content m, sm_subject = None,
              sm_thread_ts = cm_thread_ts m, sm_metadata = cm_metadata m\<rparr> [])\<rparr>" by auto
  moreover from m(1) have "map sm_content (ca_world (snd ?r)) = [''hi'']"
    unfolding m(2) by (simp add: echo_channel_def plain_channel_def echo_api_def message_new_def) auto
  ultimately show ?thesis by (intro exI [of _ m] conjI)
qed

end
