(* ===== verification/Texts.thy ===== *)
theory Texts
  imports Ip_Address Prompt
begin

text \<open>
  Functions on texts of the Rust standard library that the clients and the tools share: lines, characters, replacement and
  the decimal form of signed integers. Texts are UTF-8.
\<close>

definition show_int :: "int \<Rightarrow> string" where
  "show_int i = (if i < 0 then CHR ''-'' # show_nat (nat (- i)) else show_nat (nat i))"

text \<open>\<open>str::lines\<close>: a line ends at a line feed, and a carriage return before it belongs to the end.\<close>

definition strip_return :: "string \<Rightarrow> string" where
  "strip_return l = (if l \<noteq> [] \<and> last l = CHR 0x0D then butlast l else l)"

definition text_lines :: "string \<Rightarrow> string list" where
  "text_lines s =
     (let ps = split_on (CHR 0x0A) s in map strip_return (butlast ps) @ (if last ps = [] then [] else [last ps]))"

text \<open>The characters of a text.\<close>

definition utf8_chars :: "string \<Rightarrow> string list" where
  "utf8_chars s = map (\<lambda>i. take (char_end s i - i) (drop i s)) (char_starts s)"

text \<open>\<open>matches(p).count()\<close>, \<open>replace\<close> and \<open>replacen(_, _, 1)\<close>; the empty pattern occurs before every character and at the end.\<close>

function count_matches :: "string \<Rightarrow> string \<Rightarrow> nat" where
  "count_matches p s =
     (if p = [] then Suc (length (utf8_chars s))
      else case split_once p s of None \<Rightarrow> 0 | Some (l, rest) \<Rightarrow> Suc (count_matches p rest))"
  by pat_completeness auto
termination
  by (relation "measure (\<lambda>(p, s). length s)") (auto dest: split_once_Some)

declare count_matches.simps [simp del]

definition replace_every :: "string \<Rightarrow> string \<Rightarrow> string \<Rightarrow> string" where
  "replace_every p r s = (if p = [] then r @ concat (map (\<lambda>c. c @ r) (utf8_chars s)) else replace_all p r s)"

definition replace_first :: "string \<Rightarrow> string \<Rightarrow> string \<Rightarrow> string" where
  "replace_first p r s = (case split_once p s of None \<Rightarrow> s | Some (l, rest) \<Rightarrow> l @ r @ rest)"

lemma one_match:
  assumes "count_matches p s = 1" and "p \<noteq> []"
  obtains l rest where "s = l @ p @ rest" and "split_once p s = Some (l, rest)" and "\<not> contains rest p"
proof -
  from assms obtain l rest where s: "split_once p s = Some (l, rest)"
    by (subst (asm) count_matches.simps) (auto split: option.splits prod.splits)
  with assms have "count_matches p rest = 0"
    by (subst (asm) count_matches.simps) simp
  with assms(2) have "\<not> contains rest p"
    by (subst (asm) count_matches.simps) (auto simp: contains_def split: option.splits prod.splits)
  with s that show thesis by (auto dest: split_once_Some)
qed

lemma no_match_iff: "p \<noteq> [] \<Longrightarrow> count_matches p s = 0 \<longleftrightarrow> \<not> contains s p"
  by (subst count_matches.simps) (auto simp: contains_def split: option.splits prod.splits)

end
