(* ===== verification/Mcp.thy ===== *)
theory Mcp
  imports Tool_Registry Texts
begin

text \<open>
  The clients of MCP servers: JSON-RPC messages (\<open>crates/mcp/src/jsonrpc.rs\<close>), a server that is a child process
  (\<open>crates/mcp/src/stdio.rs\<close>) and one behind HTTP (\<open>crates/mcp/src/sse.rs\<close>).

  The reader of JSON texts is an argument; it keeps the fields of an object in the order of the text, repetitions
  included, and \<open>as_value\<close> is the map the program makes of them. A request holds the lock of its client until it ends, so
  requests do not interleave.
\<close>

section \<open>Messages\<close>

record rpc_error =
  re_code :: int
  re_message :: string
  re_data :: "json option"

record rpc_response =
  rp_id :: json
  rp_result :: "json option"
  rp_error :: "rpc_error option"

definition rpc_request :: "u64 \<Rightarrow> string \<Rightarrow> json option \<Rightarrow> json" where
  "rpc_request i method params =
     mk_obj ([(''jsonrpc'', JStr ''2.0''), (''id'', JInt (uint i)), (''method'', JStr method)] @
       (case params of None \<Rightarrow> [] | Some p \<Rightarrow> [(''params'', p)]))"

definition rpc_notification :: "string \<Rightarrow> json option \<Rightarrow> json" where
  "rpc_notification method params =
     mk_obj ([(''jsonrpc'', JStr ''2.0''), (''method'', JStr method)] @ (case params of None \<Rightarrow> [] | Some p \<Rightarrow> [(''params'', p)]))"

fun as_value :: "json \<Rightarrow> json" where
  "as_value (JArr vs) = JArr (map as_value vs)"
| "as_value (JObj m) = mk_obj (map (\<lambda>(k, v). (k, as_value v)) m)"
| "as_value v = v"

text \<open>
  Derived readers: a field that occurs twice is an error, fields of other names are skipped. A struct may also be written
  as an array of its fields.
\<close>

datatype 'a reading = Refused | Reads 'a

fun and_read :: "'a reading \<Rightarrow> ('a \<Rightarrow> 'b reading) \<Rightarrow> 'b reading" where
  "and_read Refused f = Refused"
| "and_read (Reads x) f = f x"

definition field :: "(string \<times> json) list \<Rightarrow> string \<Rightarrow> json option reading" where
  "field m n =
     (case filter (\<lambda>(k, v). k = n) m of [] \<Rightarrow> Reads None | [(k, v)] \<Rightarrow> Reads (Some v) | _ \<Rightarrow> Refused)"

definition needed :: "('a \<Rightarrow> 'b reading) \<Rightarrow> 'a option \<Rightarrow> 'b reading" where
  "needed f v = (case v of None \<Rightarrow> Refused | Some x \<Rightarrow> f x)"

definition optional :: "(json \<Rightarrow> 'b reading) \<Rightarrow> json option \<Rightarrow> 'b option reading" where
  "optional f v =
     (case v of None \<Rightarrow> Reads None | Some JNull \<Rightarrow> Reads None | Some x \<Rightarrow> and_read (f x) (\<lambda>y. Reads (Some y)))"

definition read_text :: "json \<Rightarrow> string reading" where
  "read_text v = (case v of JStr s \<Rightarrow> Reads s | _ \<Rightarrow> Refused)"

definition read_value :: "json \<Rightarrow> json reading" where
  "read_value v = Reads (as_value v)"

definition read_i64 :: "json \<Rightarrow> int reading" where
  "read_i64 v = (case v of JInt i \<Rightarrow> if - (2 ^ 63) \<le> i \<and> i < 2 ^ 63 then Reads i else Refused | _ \<Rightarrow> Refused)"

text \<open>The values of the fields of a struct.\<close>

fun fields :: "(string \<times> json) list \<Rightarrow> string list \<Rightarrow> json option list reading" where
  "fields m [] = Reads []"
| "fields m (n # ns) = and_read (field m n) (\<lambda>v. and_read (fields m ns) (\<lambda>vs. Reads (v # vs)))"

definition struct_fields :: "string list \<Rightarrow> json \<Rightarrow> json option list reading" where
  "struct_fields ns v =
     (case v of
        JObj m \<Rightarrow> fields m ns
      | JArr vs \<Rightarrow> if length vs = length ns then Reads (map Some vs) else Refused
      | _ \<Rightarrow> Refused)"

definition read_error :: "json \<Rightarrow> rpc_error reading" where
  "read_error v =
     and_read (struct_fields [''code'', ''message'', ''data''] v) (\<lambda>fs.
     and_read (needed read_i64 (fs ! 0)) (\<lambda>c.
     and_read (needed read_text (fs ! 1)) (\<lambda>m.
     and_read (optional read_value (fs ! 2)) (\<lambda>d. Reads \<lparr>re_code = c, re_message = m, re_data = d\<rparr>))))"

definition read_response :: "json \<Rightarrow> rpc_response reading" where
  "read_response v =
     and_read (struct_fields [''jsonrpc'', ''id'', ''result'', ''error''] v) (\<lambda>fs.
     and_read (needed read_text (fs ! 0)) (\<lambda>_.
     and_read (needed read_value (fs ! 1)) (\<lambda>i.
     and_read (optional read_value (fs ! 2)) (\<lambda>r.
     and_read (optional read_error (fs ! 3)) (\<lambda>e. Reads \<lparr>rp_id = i, rp_result = r, rp_error = e\<rparr>)))))"

type_synonym json_reader = "string \<Rightarrow> json option"

definition response_of_text :: "json_reader \<Rightarrow> string \<Rightarrow> rpc_response option" where
  "response_of_text jp t =
     (case jp t of None \<Rightarrow> None | Some v \<Rightarrow> (case read_response v of Refused \<Rightarrow> None | Reads r \<Rightarrow> Some r))"

section \<open>Tools and contents\<close>

fun read_all :: "(json \<Rightarrow> 'a reading) \<Rightarrow> json list \<Rightarrow> 'a list reading" where
  "read_all f [] = Reads []"
| "read_all f (v # vs) = and_read (f v) (\<lambda>x. and_read (read_all f vs) (\<lambda>xs. Reads (x # xs)))"

definition read_list :: "(json \<Rightarrow> 'a reading) \<Rightarrow> json \<Rightarrow> 'a list reading" where
  "read_list f v = (case v of JArr vs \<Rightarrow> read_all f vs | _ \<Rightarrow> Refused)"

definition read_tool_info :: "json \<Rightarrow> mcp_tool_info reading" where
  "read_tool_info v =
     and_read (struct_fields [''name'', ''description'', ''input_schema''] v) (\<lambda>fs.
     and_read (needed read_text (fs ! 0)) (\<lambda>n.
     and_read (needed read_text (fs ! 1)) (\<lambda>d.
     and_read (needed read_value (fs ! 2)) (\<lambda>s.
       Reads \<lparr>mt_name = n, mt_description = d, mt_input_schema = s\<rparr>))))"

text \<open>The tag is the field \<open>type\<close>, or the first element of an array.\<close>

definition read_texts :: "string list \<Rightarrow> json \<Rightarrow> string list reading" where
  "read_texts ns v = and_read (struct_fields ns v) (read_all read_text \<circ> map (\<lambda>f. case f of None \<Rightarrow> JNull | Some x \<Rightarrow> x))"

definition tagged :: "json \<Rightarrow> (string \<times> json) reading" where
  "tagged v =
     (case v of
        JObj m \<Rightarrow> and_read (and_read (field m ''type'') (needed read_text)) (\<lambda>t. Reads (t, JObj (filter (\<lambda>(k, x). k \<noteq> ''type'') m)))
      | JArr (t # vs) \<Rightarrow> and_read (read_text t) (\<lambda>t. Reads (t, JArr vs))
      | _ \<Rightarrow> Refused)"

definition read_content :: "json \<Rightarrow> mcp_content reading" where
  "read_content v =
     and_read (tagged v) (\<lambda>(t, rest).
       if t = ''text'' then and_read (read_texts [''text''] rest) (\<lambda>xs. Reads (McpText (xs ! 0)))
       else if t = ''image'' then and_read (read_texts [''data'', ''mime_type''] rest) (\<lambda>xs. Reads (McpImage (xs ! 0) (xs ! 1)))
       else if t = ''resource'' then and_read (read_texts [''uri'', ''text''] rest) (\<lambda>xs. Reads (McpResource (xs ! 0) (xs ! 1)))
       else Refused)"

definition server_text :: "string \<Rightarrow> string" where
  "server_text name = ''MCP server '' @ squote name"

definition rpc_failure :: "string \<Rightarrow> string \<Rightarrow> rpc_error \<Rightarrow> atta_error" where
  "rpc_failure name what e =
     OtherError (server_text name @ '' '' @ what @ '': '' @ re_message e @ '' (code '' @ show_int (re_code e) @ '')'')"

text \<open>The text of a reader's error is an argument.\<close>

definition tools_of_response :: "(json \<Rightarrow> string) \<Rightarrow> string \<Rightarrow> rpc_response \<Rightarrow> atta_error + mcp_tool_info list" where
  "tools_of_response why name r =
     (case rp_error r of
        Some e \<Rightarrow> Inl (rpc_failure name ''tools/list error'' e)
      | None \<Rightarrow>
          (case rp_result r of
             None \<Rightarrow> Inl (OtherError (server_text name @ '' returned empty result for tools/list''))
           | Some v \<Rightarrow>
               (let ts = (case jget v ''tools'' of None \<Rightarrow> JArr [] | Some x \<Rightarrow> x) in
                case read_list read_tool_info ts of
                  Refused \<Rightarrow> Inl (OtherError (''failed to parse tools from MCP server '' @ squote name @ '': '' @ why ts))
                | Reads xs \<Rightarrow> Inr xs)))"

definition call_params :: "string \<Rightarrow> json \<Rightarrow> json" where
  "call_params tool args = mk_obj [(''name'', JStr tool), (''arguments'', args)]"

definition result_of_response :: "(json \<Rightarrow> string) \<Rightarrow> string \<Rightarrow> string \<Rightarrow> rpc_response \<Rightarrow> atta_error + mcp_tool_result" where
  "result_of_response why name tool r =
     (case rp_error r of
        Some e \<Rightarrow> Inl (rpc_failure name (''tools/call error for '' @ squote tool) e)
      | None \<Rightarrow>
          (case rp_result r of
             None \<Rightarrow> Inl (OtherError (server_text name @ '' returned empty result for tools/call '' @ squote tool))
           | Some v \<Rightarrow>
               (let cs = (case jget v ''content'' of None \<Rightarrow> JArr [] | Some x \<Rightarrow> x) in
                case read_list read_content cs of
                  Refused \<Rightarrow> Inl (OtherError (''failed to parse tool result content from MCP server '' @ squote name @ '': '' @ why cs))
                | Reads xs \<Rightarrow> Inr \<lparr>mx_is_error = (jget v ''isError'' = Some (JBool True)), mx_content = xs\<rparr>)))"

definition ping_of_response :: "string \<Rightarrow> rpc_response \<Rightarrow> atta_error + unit" where
  "ping_of_response name r = (case rp_error r of Some e \<Rightarrow> Inl (rpc_failure name ''ping failed'' e) | None \<Rightarrow> Inr ())"

definition initialize_params :: "string \<Rightarrow> json" where
  "initialize_params version =
     mk_obj [(''protocolVersion'', JStr ''2024-11-05''), (''capabilities'', mk_obj []),
             (''clientInfo'', mk_obj [(''name'', JStr ''attaos''), (''version'', JStr version)])]"

section \<open>A server that is a child process\<close>

text \<open>
  A process \<open>'p\<close> takes bytes, and \<open>pr_reads\<close> is what the reader would get in the 30 seconds after a request, one line a
  time, if it went on reading; after \<open>n\<close> reads the process is as \<open>pr_after n\<close> says, where the read after the last one of the
  list is the one that is given up when the time is over.
\<close>

datatype read_event = ReadLine string | ReadFails string | ReadEnd

record 'p process =
  pr_write :: "string \<Rightarrow> 'p \<Rightarrow> (string + unit) \<times> 'p"
  pr_flush :: "'p \<Rightarrow> (string + unit) \<times> 'p"
  pr_reads :: "'p \<Rightarrow> read_event list"
  pr_after :: "nat \<Rightarrow> 'p \<Rightarrow> 'p"

record mcp_texts =
  mt_show :: "json \<Rightarrow> string"
  mt_parse :: json_reader
  mt_why :: "json \<Rightarrow> string"
  mt_version :: string

type_synonym 'p stdio = "'p \<times> u64"

fun await_response :: "json_reader \<Rightarrow> string \<Rightarrow> json \<Rightarrow> string \<Rightarrow> read_event list \<Rightarrow> (atta_error + rpc_response) \<times> nat" where
  "await_response jp name i method [] =
     (Inl (McpServerNotConnected (server_text name @ '' request timed out after 30s (method: '' @ method @ '')'')), 1)"
| "await_response jp name i method (ReadFails e # es) = (Inl (OtherError (''failed to read from '' @ server_text name @ '' stdout'')), 1)"
| "await_response jp name i method (ReadEnd # es) = (Inl (McpServerNotConnected (server_text name @ '' closed stdout unexpectedly'')), 1)"
| "await_response jp name i method (ReadLine l # es) =
     (let skip = (case await_response jp name i method es of (r, n) \<Rightarrow> (r, Suc n)) in
      if trim l = [] then skip
      else (case response_of_text jp (trim l) of
              Some r \<Rightarrow> if rp_id r = i then (Inr r, 1) else skip
            | None \<Rightarrow> skip))"

definition stdio_write :: "'p process \<Rightarrow> (string \<Rightarrow> string) \<Rightarrow> (string \<Rightarrow> string) \<Rightarrow> string \<Rightarrow> ('p stdio, atta_error, unit) io" where
  "stdio_write P wrote flushed l = (\<lambda>(p, n).
     case pr_write P (l @ [CHR 0x0A]) p of
       (Inl e, p1) \<Rightarrow> (Inl (OtherError (wrote e)), p1, n)
     | (Inr _, p1) \<Rightarrow> (case pr_flush P p1 of (Inl e, p2) \<Rightarrow> (Inl (OtherError (flushed e)), p2, n) | (Inr _, p2) \<Rightarrow> (Inr (), p2, n)))"

definition stdio_await :: "mcp_texts \<Rightarrow> 'p process \<Rightarrow> string \<Rightarrow> json \<Rightarrow> string \<Rightarrow> ('p stdio, atta_error, rpc_response) io" where
  "stdio_await T P name i method = (\<lambda>(p, n).
     case await_response (mt_parse T) name i method (pr_reads P p) of (r, k) \<Rightarrow> (r, pr_after P k p, n))"

definition stdio_request :: "mcp_texts \<Rightarrow> 'p process \<Rightarrow> string \<Rightarrow> string \<Rightarrow> json option \<Rightarrow> ('p stdio, atta_error, rpc_response) io" where
  "stdio_request T P name method params =
     bindE getE (\<lambda>(p, i).
     bindE (modifyE (\<lambda>(p, i). (p, i + 1))) (\<lambda>_.
     bindE (stdio_write P (\<lambda>_. ''failed to write to '' @ server_text name @ '' stdin'') (\<lambda>_. ''failed to flush '' @ server_text name @ '' stdin'')
              (mt_show T (rpc_request i method params))) (\<lambda>_.
     stdio_await T P name (JInt (uint i)) method)))"

definition stdio_initialize :: "mcp_texts \<Rightarrow> 'p process \<Rightarrow> string \<Rightarrow> ('p stdio, atta_error, unit) io" where
  "stdio_initialize T P name =
     bindE (stdio_request T P name ''initialize'' (Some (initialize_params (mt_version T)))) (\<lambda>r.
       case rp_error r of
         Some e \<Rightarrow> failE (rpc_failure name ''initialize error'' e)
       | None \<Rightarrow>
           stdio_write P (\<lambda>e. ''failed to send initialized notification: '' @ e) (\<lambda>e. ''failed to flush initialized notification: '' @ e)
             (mt_show T (rpc_notification ''notifications/initialized'' None)))"

text \<open>The outcome of the handshake is logged and dropped. Starting the process is an argument.\<close>

definition stdio_spawn :: "mcp_texts \<Rightarrow> 'p process \<Rightarrow> string \<Rightarrow> string \<Rightarrow> 'p option \<Rightarrow> atta_error + 'p stdio" where
  "stdio_spawn T P name command child =
     (case child of
        None \<Rightarrow> Inl (OtherError (''failed to spawn MCP server '' @ squote name @ '': '' @ command))
      | Some p \<Rightarrow> Inr (snd (stdio_initialize T P name (p, 1))))"

definition stdio_list_tools :: "mcp_texts \<Rightarrow> 'p process \<Rightarrow> string \<Rightarrow> ('p stdio, atta_error, mcp_tool_info list) io" where
  "stdio_list_tools T P name =
     bindE (stdio_request T P name ''tools/list'' (Some (mk_obj []))) (\<lambda>r. liftE (tools_of_response (mt_why T) name r))"

definition stdio_call_tool :: "mcp_texts \<Rightarrow> 'p process \<Rightarrow> string \<Rightarrow> string \<Rightarrow> json \<Rightarrow> ('p stdio, atta_error, mcp_tool_result) io" where
  "stdio_call_tool T P name tool args =
     bindE (stdio_request T P name ''tools/call'' (Some (call_params tool args))) (\<lambda>r. liftE (result_of_response (mt_why T) name tool r))"

definition stdio_ping :: "mcp_texts \<Rightarrow> 'p process \<Rightarrow> string \<Rightarrow> ('p stdio, atta_error, unit) io" where
  "stdio_ping T P name = bindE (stdio_request T P name ''ping'' None) (\<lambda>r. liftE (ping_of_response name r))"

definition stdio_client :: "mcp_texts \<Rightarrow> 'p process \<Rightarrow> string \<Rightarrow> 'p stdio mcp_client" where
  "stdio_client T P name =
     \<lparr>ml_list_tools = stdio_list_tools T P name, ml_call_tool = stdio_call_tool T P name, ml_ping = stdio_ping T P name\<rparr>"

section \<open>A server behind HTTP\<close>

text \<open>
  The HTTP client is a pair of functions on a world \<open>'w\<close>; a reply has a status and a body that may fail. Requests of one
  client do not interleave in the model.
\<close>

record http_reply =
  hy_status :: nat
  hy_text :: "string + string"

record 'w web =
  wb_get :: "string \<Rightarrow> ('w, string, http_reply) io"
  wb_post :: "string \<Rightarrow> json \<Rightarrow> ('w, string, http_reply) io"
  wb_status :: "nat \<Rightarrow> string"

record sse_client =
  se_name :: string
  se_url :: string
  se_endpoint :: "string option"
  se_next :: u64
  se_initialized :: bool

definition sse_new :: "string \<Rightarrow> string \<Rightarrow> sse_client" where
  "sse_new name url = \<lparr>se_name = name, se_url = url, se_endpoint = None, se_next = 1, se_initialized = False\<rparr>"

text \<open>The text before the last slash.\<close>

definition before_last_slash :: "string \<Rightarrow> string option" where
  "before_last_slash s = (if CHR ''/'' \<in> set s then Some (rev (tl (dropWhile (\<lambda>c. c \<noteq> CHR ''/'') (rev s)))) else None)"

definition resolve_endpoint :: "string \<Rightarrow> string \<Rightarrow> string" where
  "resolve_endpoint base path =
     (if starts_with path ''http://'' \<or> starts_with path ''https://'' then path
      else (case before_last_slash base of Some origin \<Rightarrow> origin @ path | None \<Rightarrow> base @ path))"

fun endpoint_in :: "string \<Rightarrow> string \<Rightarrow> string list \<Rightarrow> string option" where
  "endpoint_in base event [] = None"
| "endpoint_in base event (l # ls) =
     (case strip_prefix ''event:'' l of
        Some e \<Rightarrow> endpoint_in base (trim e) ls
      | None \<Rightarrow>
          (case strip_prefix ''data:'' l of
             Some d \<Rightarrow> if event = ''endpoint'' then Some (resolve_endpoint base (trim d)) else endpoint_in base event ls
           | None \<Rightarrow> endpoint_in base event ls))"

definition parse_endpoint_from_sse :: "string \<Rightarrow> string \<Rightarrow> string option" where
  "parse_endpoint_from_sse body base = endpoint_in base [] (text_lines body)"

fun first_some :: "('a \<Rightarrow> 'b option) \<Rightarrow> 'a list \<Rightarrow> 'b option" where
  "first_some f [] = None"
| "first_some f (x # xs) = (case f x of Some y \<Rightarrow> Some y | None \<Rightarrow> first_some f xs)"

text \<open>The body as a whole, its data lines joined, or its first line that is a response. Cutting a text inside a character panics.\<close>

definition parse_jsonrpc_response :: "json_reader \<Rightarrow> string \<Rightarrow> string \<Rightarrow> fault + rpc_response" where
  "parse_jsonrpc_response jp body name =
     (let t = trim body; ls = text_lines t; parts = List.map_filter (\<lambda>l. map_option trim (strip_prefix ''data:'' l)) ls in
      case response_of_text jp t of
        Some r \<Rightarrow> Inr r
      | None \<Rightarrow>
          (case (if parts = [] then None else response_of_text jp (concat parts)) of
             Some r \<Rightarrow> Inr r
           | None \<Rightarrow>
               (case first_some (\<lambda>l. let k = trim l in if k = [] \<or> starts_with k '':'' then None else response_of_text jp k) ls of
                  Some r \<Rightarrow> Inr r
                | None \<Rightarrow>
                    if length t > 200 \<and> \<not> boundary t 200 then Inl Panics
                    else Inl (Fails (OtherError (''failed to parse JSON-RPC response from '' @ server_text name @ '': '' @ take 200 t))))))"

type_synonym 'w sse = "'w \<times> sse_client"

definition on_web :: "('w, string, 'a) io \<Rightarrow> (string \<Rightarrow> atta_error) \<Rightarrow> ('w sse, fault, 'a) io" where
  "on_web m err = (\<lambda>(w, c). case m w of (Inl e, w1) \<Rightarrow> (Inl (Fails (err e)), w1, c) | (Inr x, w1) \<Rightarrow> (Inr x, w1, c))"

definition text_or :: "(string \<Rightarrow> atta_error) \<Rightarrow> http_reply \<Rightarrow> ('w sse, fault, string) io" where
  "text_or err r = (case hy_text r of Inl e \<Rightarrow> failE (Fails (err e)) | Inr t \<Rightarrow> retE t)"

definition is_success :: "nat \<Rightarrow> bool" where
  "is_success st \<longleftrightarrow> 200 \<le> st \<and> st < 300"

definition fresh_id :: "('w sse, fault, u64) io" where
  "fresh_id = (\<lambda>(w, c). (Inr (se_next c), w, c\<lparr>se_next := se_next c + 1\<rparr>))"

definition do_initialize :: "mcp_texts \<Rightarrow> 'w web \<Rightarrow> string \<Rightarrow> string \<Rightarrow> ('w sse, fault, unit) io" where
  "do_initialize T W name endpoint =
     bindE fresh_id (\<lambda>i.
     bindE (on_web (wb_post W endpoint (rpc_request i ''initialize'' (Some (initialize_params (mt_version T)))))
              (\<lambda>e. OtherError (''failed to POST initialize to '' @ server_text name @ '': '' @ e))) (\<lambda>reply.
     bindE (text_or (\<lambda>e. OtherError (''failed to read initialize response from '' @ server_text name @ '': '' @ e)) reply) (\<lambda>body.
     bindE (liftE (parse_jsonrpc_response (mt_parse T) body name)) (\<lambda>r.
       case rp_error r of
         Some e \<Rightarrow> failE (Fails (rpc_failure name ''initialize error'' e))
       | None \<Rightarrow>
           tryE (on_web (wb_post W endpoint (rpc_notification ''notifications/initialized'' None)) OtherError) (\<lambda>_. retE ())))))"

definition ensure_connected :: "mcp_texts \<Rightarrow> 'w web \<Rightarrow> ('w sse, fault, string) io" where
  "ensure_connected T W =
     bindE getE (\<lambda>(w, c).
       case se_endpoint c of
         Some ep \<Rightarrow> retE ep
       | None \<Rightarrow>
           (let name = se_name c in
            bindE (on_web (wb_get W (se_url c))
                     (\<lambda>e. McpServerNotConnected (''failed to connect to SSE endpoint '' @ squote name @ '': '' @ e))) (\<lambda>reply.
            if \<not> is_success (hy_status reply)
            then failE (Fails (McpServerNotConnected (''SSE endpoint '' @ squote name @ '' returned status '' @ wb_status W (hy_status reply))))
            else
              bindE (text_or (\<lambda>e. McpServerNotConnected (''failed to read SSE stream from '' @ squote name @ '': '' @ e)) reply) (\<lambda>body.
                case parse_endpoint_from_sse body (se_url c) of
                  None \<Rightarrow> failE (Fails (McpServerNotConnected (''no '' @ squote ''endpoint'' @ '' event found in SSE stream from '' @ squote name)))
                | Some ep \<Rightarrow>
                    bindE (modifyE (\<lambda>(w, c). (w, c\<lparr>se_endpoint := Some ep\<rparr>))) (\<lambda>_.
                    bindE (if se_initialized c then retE ()
                           else tryE (do_initialize T W name ep) (\<lambda>r.
                             case r of
                               Inl Panics \<Rightarrow> failE Panics
                             | Inl (Fails _) \<Rightarrow> retE ()
                             | Inr _ \<Rightarrow> modifyE (\<lambda>(w, c). (w, c\<lparr>se_initialized := True\<rparr>)))) (\<lambda>_.
                    retE ep))))))"

definition sse_request :: "mcp_texts \<Rightarrow> 'w web \<Rightarrow> string \<Rightarrow> json option \<Rightarrow> ('w sse, fault, rpc_response) io" where
  "sse_request T W method params =
     bindE (ensure_connected T W) (\<lambda>ep.
     bindE fresh_id (\<lambda>i.
     bindE getE (\<lambda>(_, c).
     bindE (on_web (wb_post W ep (rpc_request i method params))
              (\<lambda>e. OtherError (''failed to POST to '' @ server_text (se_name c) @ '' endpoint: '' @ e))) (\<lambda>reply.
     if \<not> is_success (hy_status reply)
     then failE (Fails (OtherError (server_text (se_name c) @ '' POST returned status '' @ wb_status W (hy_status reply) @ '': '' @
            (case hy_text reply of Inl _ \<Rightarrow> [] | Inr t \<Rightarrow> t))))
     else
       bindE (text_or (\<lambda>e. OtherError (''failed to read response body from '' @ server_text (se_name c) @ '': '' @ e)) reply) (\<lambda>body.
       liftE (parse_jsonrpc_response (mt_parse T) body (se_name c)))))))"

definition or_fault :: "atta_error + 'a \<Rightarrow> ('s, fault, 'a) io" where
  "or_fault r = (case r of Inl e \<Rightarrow> failE (Fails e) | Inr x \<Rightarrow> retE x)"

definition sse_list_tools :: "mcp_texts \<Rightarrow> 'w web \<Rightarrow> ('w sse, fault, mcp_tool_info list) io" where
  "sse_list_tools T W =
     bindE getE (\<lambda>(_, c).
     bindE (sse_request T W ''tools/list'' (Some (mk_obj []))) (\<lambda>r. or_fault (tools_of_response (mt_why T) (se_name c) r)))"

definition sse_call_tool :: "mcp_texts \<Rightarrow> 'w web \<Rightarrow> string \<Rightarrow> json \<Rightarrow> ('w sse, fault, mcp_tool_result) io" where
  "sse_call_tool T W tool args =
     bindE getE (\<lambda>(_, c).
     bindE (sse_request T W ''tools/call'' (Some (call_params tool args))) (\<lambda>r. or_fault (result_of_response (mt_why T) (se_name c) tool r)))"

definition sse_ping :: "mcp_texts \<Rightarrow> 'w web \<Rightarrow> ('w sse, fault, unit) io" where
  "sse_ping T W =
     bindE getE (\<lambda>(_, c). bindE (sse_request T W ''ping'' None) (\<lambda>r. or_fault (ping_of_response (se_name c) r)))"

end
