(* ===== verification/Mcp_Props.thy ===== *)
theory Mcp_Props
  imports Mcp
begin

text \<open>
  What the clients of MCP servers make of what a server sends: which line answers a request, and which lists of tools are read.
\<close>

section \<open>Which line is an answer\<close>

text \<open>A line answers a request when it reads as a response with its identifier.\<close>

definition answers :: "json_reader \<Rightarrow> json \<Rightarrow> rpc_response \<Rightarrow> read_event \<Rightarrow> bool" where
  "answers jp i r e \<longleftrightarrow> (\<exists>l. e = ReadLine l \<and> trim l \<noteq> [] \<and> response_of_text jp (trim l) = Some r \<and> rp_id r = i)"

definition passed_over :: "json_reader \<Rightarrow> json \<Rightarrow> read_event \<Rightarrow> bool" where
  "passed_over jp i e \<longleftrightarrow> (\<exists>l. e = ReadLine l) \<and> \<not> (\<exists>r. answers jp i r e)"

lemma await_line:
  "await_response jp name i m (ReadLine l # es) =
     (if passed_over jp i (ReadLine l) then (case await_response jp name i m es of (r, n) \<Rightarrow> (r, Suc n))
      else (Inr (the (response_of_text jp (trim l))), 1))"
  by (auto simp: passed_over_def answers_def Let_def split: option.split)

lemma await_exact:
  "await_response jp name i m es = (Inr r, k) \<longleftrightarrow>
     (\<exists>before e rest. es = before @ e # rest \<and> list_all (passed_over jp i) before \<and> answers jp i r e \<and> k = Suc (length before))"
proof (induction es arbitrary: k)
  case (Cons e es)
  show ?case
  proof (cases "passed_over jp i e")
    case True
    then obtain l where l: "e = ReadLine l" by (auto simp: passed_over_def)
    have "await_response jp name i m (e # es) = (Inr r, k) \<longleftrightarrow> (\<exists>n. await_response jp name i m es = (Inr r, n) \<and> k = Suc n)"
      using True unfolding l await_line by (auto split: prod.splits)
    also have "\<dots> \<longleftrightarrow> (\<exists>before e' rest. es = before @ e' # rest \<and> list_all (passed_over jp i) before \<and> answers jp i r e' \<and>
        k = Suc (Suc (length before)))"
      using Cons.IH by auto
    also have "\<dots> \<longleftrightarrow> (\<exists>before e' rest. e # es = before @ e' # rest \<and> list_all (passed_over jp i) before \<and> answers jp i r e' \<and>
        k = Suc (length before))"
    proof -
      have none: "\<not> answers jp i r e" using True by (auto simp: passed_over_def)
      show ?thesis (is "?L \<longleftrightarrow> ?R")
      proof
        assume ?L
        then obtain before e' rest where "es = before @ e' # rest" "list_all (passed_over jp i) before" "answers jp i r e'"
          "k = Suc (Suc (length before))" by blast
        then show ?R using True by (intro exI [of _ "e # before"] exI [of _ e'] exI [of _ rest]) simp
      next
        assume ?R
        then obtain before e' rest where "e # es = before @ e' # rest" "list_all (passed_over jp i) before" "answers jp i r e'"
          "k = Suc (length before)" by blast
        then show ?L using none by (cases before) auto
      qed
    qed
    finally show ?thesis .
  next
    case False
    have here: "(\<exists>before e' rest. e # es = before @ e' # rest \<and> list_all (passed_over jp i) before \<and> answers jp i r e' \<and> k = Suc (length before)) \<longleftrightarrow>
        answers jp i r e \<and> k = 1"
      using False by (auto simp: Cons_eq_append_conv)
    show ?thesis
    proof (cases e)
      case (ReadLine l)
      with False have "\<exists>r'. answers jp i r' e" by (auto simp: passed_over_def)
      then show ?thesis unfolding here using False unfolding ReadLine await_line by (auto simp: answers_def)
    next
      case (ReadFails x)
      then show ?thesis unfolding here by (simp add: answers_def)
    next
      case ReadEnd
      then show ?thesis unfolding here by (simp add: answers_def)
    qed
  qed
qed simp

lemma await_returns_first:
  "stdio_await T P name i method (p, n) = (Inr r, p', n') \<longleftrightarrow>
     (\<exists>before e rest. pr_reads P p = before @ e # rest \<and> list_all (passed_over (mt_parse T) i) before \<and> answers (mt_parse T) i r e \<and>
        p' = pr_after P (Suc (length before)) p) \<and> n' = n"
proof -
  have "stdio_await T P name i method (p, n) = (Inr r, p', n') \<longleftrightarrow>
      (\<exists>k. await_response (mt_parse T) name i method (pr_reads P p) = (Inr r, k) \<and> p' = pr_after P k p) \<and> n' = n"
    by (auto simp: stdio_await_def split: prod.splits)
  then show ?thesis unfolding await_exact by auto
qed

lemma stdio_write_ok:
  "stdio_write P wrote flushed l (p, n) = (Inr u, p2, n2) \<longleftrightarrow>
     (\<exists>p1. pr_write P (l @ [CHR 0x0A]) p = (Inr (), p1) \<and> pr_flush P p1 = (Inr (), p2)) \<and> n2 = n"
  by (auto simp: stdio_write_def split: prod.splits sum.splits)

lemma request_ok:
  "stdio_request T P name method params (p, n) = (Inr r, s) \<longleftrightarrow>
     (\<exists>p1 p2. pr_write P (mt_show T (rpc_request n method params) @ [CHR 0x0A]) p = (Inr (), p1) \<and> pr_flush P p1 = (Inr (), p2) \<and>
        stdio_await T P name (JInt (uint n)) method (p2, n + 1) = (Inr r, s))"
proof -
  let ?w = "stdio_write P (\<lambda>_. ''failed to write to '' @ server_text name @ '' stdin'') (\<lambda>_. ''failed to flush '' @ server_text name @ '' stdin'')
    (mt_show T (rpc_request n method params)) (p, n + 1)"
  have "stdio_request T P name method params (p, n) = (Inr r, s) \<longleftrightarrow>
      (\<exists>u p2 n2. ?w = (Inr u, p2, n2) \<and> stdio_await T P name (JInt (uint n)) method (p2, n2) = (Inr r, s))"
    by (auto simp: stdio_request_def bindE_def split: prod.splits sum.splits)
  then show ?thesis unfolding stdio_write_ok by auto
qed

text \<open>
  C37. A request to a child process returns a response exactly when the line of the request, with the next identifier, could
  be written and flushed and then, before the time is over, a line arrives that reads as a response with that identifier;
  the response is that of the first such line, every line before it, late answers to earlier requests among them, is
  dropped, and the next request has the identifier after it.
\<close>

theorem first_answer_is_returned:
  "stdio_request T P name method params (p, n) = (Inr r, p', n') \<longleftrightarrow>
     (\<exists>p1 p2. pr_write P (mt_show T (rpc_request n method params) @ [CHR 0x0A]) p = (Inr (), p1) \<and> pr_flush P p1 = (Inr (), p2) \<and>
        (\<exists>before e rest. pr_reads P p2 = before @ e # rest \<and> list_all (passed_over (mt_parse T) (JInt (uint n))) before \<and>
           answers (mt_parse T) (JInt (uint n)) r e \<and> p' = pr_after P (Suc (length before)) p2)) \<and> n' = n + 1"
  unfolding request_ok await_returns_first by blast

text \<open>A request of the server itself that carries the same identifier is taken for the answer, which then has no result.\<close>

lemma server_request_is_taken_for_answer:
  "read_response (JObj [(''jsonrpc'', JStr ''2.0''), (''id'', JInt 1), (''method'', JStr ''ping'')]) =
     Reads \<lparr>rp_id = JInt 1, rp_result = None, rp_error = None\<rparr>"
  by code_simp

section \<open>Lists of tools\<close>

lemma read_all_refuses: "v \<in> set vs \<Longrightarrow> f v = Refused \<Longrightarrow> read_all f vs = Refused"
proof (induction vs)
  case (Cons u vs)
  then show ?case by (cases "f u"; cases "read_all f vs") auto
qed simp

lemma filter_keys_Nil: "map_of m k = None \<Longrightarrow> filter (\<lambda>(k', v). k' = k) m = []"
  by (induction m) (auto split: if_splits)

lemma tool_without_schema_field: "map_of m ''input_schema'' = None \<Longrightarrow> read_tool_info (JObj m) = Refused"
proof -
  assume "map_of m ''input_schema'' = None"
  then have "field m ''input_schema'' = Reads None" by (simp add: field_def filter_keys_Nil)
  then show ?thesis
    by (cases "field m ''name''"; cases "field m ''description''") (auto simp: read_tool_info_def struct_fields_def needed_def read_text_def
        split: option.split json.split)
qed

text \<open>
  C38. MCP servers send the schema of a tool as \<open>inputSchema\<close>. The client looks for \<open>input_schema\<close>: an answer with a tool
  that has no field of this name is refused as a whole, so the list of such a server is always an error.
\<close>

theorem camel_case_tools_are_refused:
  assumes "stdio_request T P name ''tools/list'' (Some (mk_obj [])) st = (Inr r, st')"
    and "rp_error r = None" and "rp_result r = Some v" and "jget v ''tools'' = Some (JArr ts)"
    and "JObj m \<in> set ts" and "map_of m ''input_schema'' = None"
  shows "\<exists>e. stdio_list_tools T P name st = (Inl e, st')"
proof -
  have "read_list read_tool_info (JArr ts) = Refused"
    using read_all_refuses [OF assms(5), of read_tool_info] tool_without_schema_field [OF assms(6)] by (simp add: read_list_def)
  then have "\<exists>e. tools_of_response (mt_why T) name r = Inl e"
    using assms(2-4) by (simp add: tools_of_response_def)
  then show ?thesis using assms(1) by (auto simp: stdio_list_tools_def bindE_def)
qed

definition echo_tool :: json where
  "echo_tool = mk_obj [(''name'', JStr ''echo''), (''description'', JStr ''Echo''), (''inputSchema'', mk_obj [(''type'', JStr ''object'')])]"

definition echo_answer :: json where
  "echo_answer = mk_obj [(''jsonrpc'', JStr ''2.0''), (''id'', JInt 7), (''result'', mk_obj [(''tools'', JArr [echo_tool])])]"

definition echo_texts :: mcp_texts where
  "echo_texts = \<lparr>mt_show = (\<lambda>_. []), mt_parse = (\<lambda>t. if t = ''answer'' then Some echo_answer else None), mt_why = (\<lambda>_. []), mt_version = []\<rparr>"

definition echo_process :: "nat process" where
  "echo_process = \<lparr>pr_write = (\<lambda>_ p. (Inr (), p)), pr_flush = (\<lambda>p. (Inr (), p)),
     pr_reads = (\<lambda>_. [ReadLine ''starting'', ReadLine ''answer'']), pr_after = (\<lambda>k p. p + k)\<rparr>"

theorem camel_case_tools_are_refused_witness:
  "\<exists>e. stdio_list_tools echo_texts echo_process ''echo'' (0, 7) = (Inl e, 2, 8)"
proof -
  have parsed: "response_of_text (mt_parse echo_texts) ''answer'' =
      Some \<lparr>rp_id = JInt 7, rp_result = Some (mk_obj [(''tools'', JArr [echo_tool])]), rp_error = None\<rparr>"
    by code_simp
  have other: "response_of_text (mt_parse echo_texts) ''starting'' = None" by code_simp
  have run: "stdio_request echo_texts echo_process ''echo'' ''tools/list'' (Some (mk_obj [])) (0, 7) =
      (Inr \<lparr>rp_id = JInt 7, rp_result = Some (mk_obj [(''tools'', JArr [echo_tool])]), rp_error = None\<rparr>, 2, 8)"
    using parsed other
    by (simp add: stdio_request_def bindE_def stdio_write_def stdio_await_def echo_process_def trim_def trim_start_def trim_end_def is_ws_def)
  have tools: "jget (mk_obj [(''tools'', JArr [echo_tool])]) ''tools'' = Some (JArr [echo_tool])" by code_simp
  obtain m where m: "echo_tool = JObj m" "map_of m ''input_schema'' = None"
  proof
    show "echo_tool = JObj [(''description'', JStr ''Echo''), (''inputSchema'', JObj [(''type'', JStr ''object'')]), (''name'', JStr ''echo'')]"
      by code_simp
  qed simp
  from camel_case_tools_are_refused [OF run _ _ tools, of m] m show ?thesis by simp
qed

end
