(* ===== verification/Native_Tools.thy ===== *)
theory Native_Tools
  imports Mcp Providers
begin

text \<open>
  The tools of the agents that work on files, processes and the network (\<open>crates/tools/src\<close>), with their names,
  descriptions and parameter schemas.

  The host is an argument: a record of functions on a world \<open>'w\<close>. A tool that panics ends the task that runs it;
  \<open>ho_panic\<close> stands for what the caller then sees.
\<close>

section \<open>The host\<close>

record command =
  cm_program :: string
  cm_args :: "string list"
  cm_dir :: "string option"

record command_output =
  co_code :: "int option"
  co_stdout :: string
  co_stderr :: string

record fetched =
  ft_status :: nat
  ft_headers :: "(string \<times> string option) list"
  ft_text :: "string + string"

datatype http_body = NoBody | TextBody string | JsonBody json

record 'w host =
  ho_read :: "string \<Rightarrow> ('w, string, string) io"
  ho_write :: "string \<Rightarrow> string \<Rightarrow> ('w, string, unit) io"
  ho_append :: "string \<Rightarrow> string \<Rightarrow> ('w, string, unit) io"
  ho_mkdirs :: "string \<Rightarrow> ('w, string, unit) io"
  ho_remove :: "string \<Rightarrow> ('w, string, unit) io"
  ho_size :: "string \<Rightarrow> ('w, string, nat) io"
  ho_glob :: "string \<Rightarrow> ('w, string, string option list) io"
  ho_run :: "command \<Rightarrow> ('w, string, command_output) io"
  ho_run_within :: "u64 \<Rightarrow> command \<Rightarrow> ('w, string, command_output option) io"
  ho_http :: "string \<Rightarrow> string \<Rightarrow> (string \<times> string) list \<Rightarrow> http_body \<Rightarrow> ('w, string, fetched) io"
  ho_uuid :: "'w \<Rightarrow> string \<times> 'w"
  ho_var :: "string \<Rightarrow> string option"
  ho_macos :: bool
  ho_panic :: "'w \<Rightarrow> (atta_error + json) \<times> 'w"

type_synonym 'w tool_run = "('w, fault, json) io"

definition as_seen :: "'w host \<Rightarrow> 'w tool_run \<Rightarrow> ('w, atta_error, json) io" where
  "as_seen H m = (\<lambda>w. case m w of (Inr v, w1) \<Rightarrow> (Inr v, w1) | (Inl (Fails e), w1) \<Rightarrow> (Inl e, w1) | (Inl Panics, w1) \<Rightarrow> ho_panic H w1)"

definition refuse :: "string \<Rightarrow> ('w, fault, 'a) io" where
  "refuse t = failE (Fails (Validation t))"

definition os :: "('w, string, 'a) io \<Rightarrow> ('w, fault, 'a) io" where
  "os m = tryE m (\<lambda>r. case r of Inl e \<Rightarrow> failE (Fails (OtherError e)) | Inr x \<Rightarrow> retE x)"

section \<open>Arguments and schemas\<close>

definition need_text :: "json \<Rightarrow> string \<Rightarrow> string \<Rightarrow> (string \<Rightarrow> 'w tool_run) \<Rightarrow> 'w tool_run" where
  "need_text args k suffix f = (case jget_str args k of None \<Rightarrow> refuse (squote k @ '' is required'' @ suffix) | Some v \<Rightarrow> f v)"

definition flag :: "json \<Rightarrow> string \<Rightarrow> bool" where
  "flag args k \<longleftrightarrow> jget args k = Some (JBool True)"

definition u64_or :: "u64 \<Rightarrow> json \<Rightarrow> string \<Rightarrow> nat" where
  "u64_or d args k = unat (or_else d (jget_u64 args k))"

definition typed :: "string \<Rightarrow> (string \<times> json) list \<Rightarrow> json" where
  "typed ty kvs = mk_obj ((''type'', JStr ty) # kvs)"

definition described :: "string \<Rightarrow> string \<Rightarrow> json" where
  "described ty d = typed ty [(''description'', JStr d)]"

definition described_default :: "string \<Rightarrow> string \<Rightarrow> json \<Rightarrow> json" where
  "described_default ty d v = typed ty [(''description'', JStr d), (''default'', v)]"

definition one_of :: "string list \<Rightarrow> string \<Rightarrow> json" where
  "one_of vs d = typed ''string'' [(''enum'', JArr (map JStr vs)), (''description'', JStr d)]"

definition texts_described :: "string \<Rightarrow> json" where
  "texts_described d = typed ''array'' [(''items'', typed ''string'' []), (''description'', JStr d)]"

definition properties :: "(string \<times> json) list \<Rightarrow> string \<times> json" where
  "properties ps = (''properties'', mk_obj ps)"

definition object_schema :: "(string \<times> json) list \<Rightarrow> string list \<Rightarrow> json" where
  "object_schema ps req = typed ''object'' [properties ps, (''required'', JArr (map JStr req))]"

definition tool :: "'w host \<Rightarrow> string \<Rightarrow> string \<Rightarrow> risk_level \<Rightarrow> json \<Rightarrow> (json \<Rightarrow> 'w tool_run) \<Rightarrow> 'w native_tool" where
  "tool H n d r s run =
     \<lparr>nt_name = n, nt_description = d, nt_risk_level = r, nt_parameters = s, nt_execute = (\<lambda>args. as_seen H (run args))\<rparr>"

section \<open>Files\<close>

definition file_read :: "'w host \<Rightarrow> json \<Rightarrow> 'w tool_run" where
  "file_read H args =
     need_text args ''path'' [] (\<lambda>path.
     bindE (os (ho_read H path)) (\<lambda>content.
       let ls = text_lines content; from = u64_or 0 args ''offset'';
           rest = drop from ls; chosen = (case jget_u64 args ''limit'' of None \<Rightarrow> rest | Some n \<Rightarrow> take (unat n) rest)
       in retE (mk_obj [(''content'', JStr (join [CHR 0x0A] chosen)), (''total_lines'', JInt (int (length ls))),
                        (''offset'', JInt (int from)), (''lines_returned'', JInt (int (length chosen)))])))"

definition FileReadTool :: "'w host \<Rightarrow> 'w native_tool" where
  "FileReadTool H = tool H ''atta-file-read'' ''Read the contents of a file, optionally with line offset and limit'' Low
     (object_schema
        [(''path'', described ''string'' ''Absolute path to the file''),
         (''offset'', described ''integer'' ''Line number to start reading from (0-indexed)''),
         (''limit'', described ''integer'' ''Maximum number of lines to read'')] [''path''])
     (file_read H)"

definition file_write :: "'w host \<Rightarrow> json \<Rightarrow> 'w tool_run" where
  "file_write H args =
     need_text args ''path'' [] (\<lambda>path. need_text args ''content'' [] (\<lambda>content.
       let add = flag args ''append'' in
       bindE (case path_parent path of None \<Rightarrow> retE () | Some p \<Rightarrow> os (ho_mkdirs H p)) (\<lambda>_.
       bindE (os (if add then ho_append H path content else ho_write H path content)) (\<lambda>_.
       retE (mk_obj [(''path'', JStr path), (''bytes_written'', JInt (int (length content))), (''append'', JBool add)])))))"

definition FileWriteTool :: "'w host \<Rightarrow> 'w native_tool" where
  "FileWriteTool H = tool H ''atta-file-write'' ''Write content to a file (creates or overwrites)'' Medium
     (object_schema
        [(''path'', described ''string'' ''Absolute path to the file''),
         (''content'', described ''string'' ''Content to write''),
         (''append'', described_default ''boolean'' ''Append instead of overwrite'' (JBool False))] [''path'', ''content''])
     (file_write H)"

definition file_edit :: "'w host \<Rightarrow> json \<Rightarrow> 'w tool_run" where
  "file_edit H args =
     need_text args ''path'' [] (\<lambda>path. need_text args ''old_string'' [] (\<lambda>old. need_text args ''new_string'' [] (\<lambda>new.
       let everywhere = flag args ''replace_all'' in
       bindE (os (ho_read H path)) (\<lambda>content.
         let n = count_matches old content in
         if n = 0 then refuse (''old_string not found in '' @ path)
         else if \<not> everywhere \<and> n > 1
         then refuse (''old_string found '' @ show_nat n @ '' times in '' @ path @ '' '' @ em_dash @ '' use replace_all or provide more context'')
         else
           bindE (os (ho_write H path (if everywhere then replace_every old new content else replace_first old new content))) (\<lambda>_.
           retE (mk_obj [(''path'', JStr path), (''replacements'', JInt (int (if everywhere then n else 1)))]))))))"

definition FileEditTool :: "'w host \<Rightarrow> 'w native_tool" where
  "FileEditTool H = tool H ''atta-file-edit'' ''Edit a file by replacing a specific string with a new string'' Medium
     (object_schema
        [(''path'', described ''string'' ''Absolute path to the file''),
         (''old_string'', described ''string'' ''Exact string to search for''),
         (''new_string'', described ''string'' ''Replacement string''),
         (''replace_all'', described_default ''boolean'' ''Replace all occurrences (default: false)'' (JBool False))]
        [''path'', ''old_string'', ''new_string''])
     (file_edit H)"

text \<open>Where a command is run to its end: the status and both outputs.\<close>

definition plain_command :: "string \<Rightarrow> string list \<Rightarrow> command" where
  "plain_command p as = \<lparr>cm_program = p, cm_args = as, cm_dir = None\<rparr>"

definition succeeded :: "command_output \<Rightarrow> bool" where
  "succeeded out \<longleftrightarrow> co_code out = Some 0"

definition apply_patch :: "'w host \<Rightarrow> json \<Rightarrow> 'w tool_run" where
  "apply_patch H args =
     need_text args ''path'' [] (\<lambda>path. need_text args ''patch'' [] (\<lambda>patch.
       bindE (\<lambda>w. case ho_uuid H w of (i, w1) \<Rightarrow> (Inr (''/tmp/atta-patch-'' @ i @ ''.diff''), w1)) (\<lambda>tmp.
       bindE (os (ho_write H tmp patch)) (\<lambda>_.
       bindE (os (ho_run H (plain_command ''patch'' [path, tmp]))) (\<lambda>out.
       bindE (tryE (ho_remove H tmp) (\<lambda>_. retE ())) (\<lambda>_.
         if succeeded out then retE (mk_obj [(''success'', JBool True), (''output'', JStr (utf8_lossy (co_stdout out)))])
         else refuse (''patch failed: '' @ utf8_lossy (co_stderr out))))))))"

definition ApplyPatchTool :: "'w host \<Rightarrow> 'w native_tool" where
  "ApplyPatchTool H = tool H ''atta-apply-patch'' ''Apply a unified diff patch to a file'' Medium
     (object_schema [(''path'', described ''string'' ''File path to patch''), (''patch'', described ''string'' ''Unified diff content'')]
        [''path'', ''patch''])
     (apply_patch H)"

definition glob_search :: "'w host \<Rightarrow> json \<Rightarrow> 'w tool_run" where
  "glob_search H args =
     need_text args ''pattern'' [] (\<lambda>pattern.
       let full = (if starts_with pattern ''/'' then pattern else or_else ''.'' (jget_str args ''path'') @ ''/'' @ pattern) in
       bindE (tryE (ho_glob H full) (\<lambda>r. case r of Inl e \<Rightarrow> refuse e | Inr x \<Rightarrow> retE x)) (\<lambda>entries.
         let found = take (u64_or 100 args ''limit'') (List.map_filter id entries) in
         retE (mk_obj [(''matches'', JArr (map JStr found)), (''count'', JInt (int (length found))), (''pattern'', JStr full)])))"

definition GlobSearchTool :: "'w host \<Rightarrow> 'w native_tool" where
  "GlobSearchTool H = tool H ''atta-glob-search'' (''Search for files matching a glob pattern (e.g., '' @ squote ''**/*.rs'' @ '')'') Low
     (object_schema
        [(''pattern'', described ''string'' (''Glob pattern (e.g., '' @ squote ''**/*.rs'' @ '', '' @ squote ''src/**/*.ts'' @ '')'')),
         (''path'', described ''string'' ''Base directory to search in (default: current dir)''),
         (''limit'', described_default ''integer'' ''Maximum number of results'' (JInt 100))] [''pattern''])
     (glob_search H)"

definition which_exists :: "'w host \<Rightarrow> string \<Rightarrow> ('w, fault, bool) io" where
  "which_exists H n = tryE (ho_run H (plain_command ''which'' [n])) (\<lambda>r. case r of Inl _ \<Rightarrow> retE False | Inr out \<Rightarrow> retE (succeeded out))"

definition search_command :: "bool \<Rightarrow> json \<Rightarrow> string \<Rightarrow> command" where
  "search_command rg args pattern =
     (let path = or_else ''.'' (jget_str args ''path''); ci = (if flag args ''case_insensitive'' then [''-i''] else []) in
      if rg
      then plain_command ''rg'' ([''--json'', ''-m'', show_nat (u64_or 50 args ''limit'')] @ ci @
             (case jget_str args ''glob'' of None \<Rightarrow> [] | Some g \<Rightarrow> [''--glob'', g]) @ [pattern, path])
      else plain_command ''grep'' ([''-rn'', ''--include'', or_else ''*'' (jget_str args ''glob'')] @ ci @ [pattern, path]))"

definition content_search :: "'w host \<Rightarrow> json \<Rightarrow> 'w tool_run" where
  "content_search H args =
     need_text args ''pattern'' [] (\<lambda>pattern.
     bindE (which_exists H ''rg'') (\<lambda>rg.
     bindE (os (ho_run H (search_command rg args pattern))) (\<lambda>out.
     bindE (which_exists H ''rg'') (\<lambda>rg2.
       let ls = take (u64_or 50 args ''limit'') (text_lines (utf8_lossy (co_stdout out))) in
       retE (mk_obj [(''matches'', JArr (map JStr ls)), (''count'', JInt (int (length ls))),
                     (''tool'', JStr (if rg2 then ''ripgrep'' else ''grep''))])))))"

definition ContentSearchTool :: "'w host \<Rightarrow> 'w native_tool" where
  "ContentSearchTool H = tool H ''atta-content-search'' ''Search file contents for a pattern using ripgrep (rg) or grep'' Low
     (object_schema
        [(''pattern'', described ''string'' ''Search pattern (regex)''),
         (''path'', described ''string'' ''Directory or file to search in''),
         (''glob'', described ''string'' (''File glob filter (e.g., '' @ squote ''*.rs'' @ '')'')),
         (''case_insensitive'', typed ''boolean'' [(''default'', JBool False)]),
         (''limit'', described_default ''integer'' ''Max number of matches'' (JInt 50))] [''pattern''])
     (content_search H)"

section \<open>Processes\<close>

definition code_json :: "int option \<Rightarrow> json" where
  "code_json c = (case c of None \<Rightarrow> JNull | Some i \<Rightarrow> JInt i)"

definition git_ops :: "'w host \<Rightarrow> json \<Rightarrow> 'w tool_run" where
  "git_ops H args =
     need_text args ''operation'' [] (\<lambda>operation.
       let more = (case jget_array args ''args'' of None \<Rightarrow> [] | Some vs \<Rightarrow> List.map_filter as_str vs) in
       bindE (os (ho_run H \<lparr>cm_program = ''git'', cm_args = operation # more, cm_dir = jget_str args ''working_dir''\<rparr>)) (\<lambda>out.
       retE (mk_obj [(''exit_code'', code_json (co_code out)), (''stdout'', JStr (utf8_lossy (co_stdout out))),
                     (''stderr'', JStr (utf8_lossy (co_stderr out)))])))"

definition GitOpsTool :: "'w host \<Rightarrow> 'w native_tool" where
  "GitOpsTool H = tool H ''atta-git-ops'' ''Perform git operations: status, log, diff, commit, branch, push, pull'' Medium
     (object_schema
        [(''operation'', one_of [''status'', ''log'', ''diff'', ''commit'', ''branch'', ''push'', ''pull'', ''add'', ''checkout''] ''Git operation to perform''),
         (''args'', texts_described ''Additional arguments for the git command''),
         (''working_dir'', described ''string'' ''Repository directory'')] [''operation''])
     (git_ops H)"

definition process_run :: "'w host \<Rightarrow> json \<Rightarrow> 'w tool_run" where
  "process_run H args =
     need_text args ''action'' [] (\<lambda>action.
       if action = ''list'' then
         (let pattern = or_else [] (jget_str args ''filter'') in
          bindE (os (ho_run H (plain_command ''ps'' [''aux'']))) (\<lambda>out.
            let all_lines = text_lines (utf8_lossy (co_stdout out));
                ls = (if pattern = [] then all_lines else filter (\<lambda>l. contains l pattern) all_lines)
            in retE (mk_obj [(''processes'', JArr (map JStr ls)), (''count'', JInt (int (length ls)))])))
       else if action = ''kill'' then
         (case jget_u64 args ''pid'' of
            None \<Rightarrow> refuse (squote ''pid'' @ '' is required for kill'')
          | Some pid \<Rightarrow>
              bindE (os (ho_run H (plain_command ''kill'' [show_nat (unat pid)]))) (\<lambda>out.
              retE (mk_obj [(''success'', JBool (succeeded out)), (''pid'', JInt (uint pid))])))
       else refuse (''unknown action: '' @ action))"

definition ProcessTool :: "'w host \<Rightarrow> 'w native_tool" where
  "ProcessTool H = tool H ''atta-process'' ''List or manage system processes (list, kill)'' High
     (object_schema
        [(''action'', one_of [''list'', ''kill''] ''Action to perform''),
         (''pid'', described ''integer'' ''Process ID (for kill action)''),
         (''filter'', described ''string'' ''Filter pattern for list action'')] [''action''])
     (process_run H)"

text \<open>A text that is too long is cut, which panics inside a character.\<close>

definition cut_at :: "nat \<Rightarrow> string \<Rightarrow> ('w, fault, string) io" where
  "cut_at n s =
     (if length s > n then (if boundary s n then retE (take n s @ ''...[truncated]'') else failE Panics) else retE s)"

definition shell_run :: "'w host \<Rightarrow> json \<Rightarrow> 'w tool_run" where
  "shell_run H args =
     need_text args ''command'' [] (\<lambda>cmd.
       let secs = or_else 30 (jget_u64 args ''timeout_seconds'') in
       bindE (os (ho_run_within H secs \<lparr>cm_program = ''sh'', cm_args = [''-c'', cmd], cm_dir = jget_str args ''working_dir''\<rparr>)) (\<lambda>res.
         case res of
           None \<Rightarrow> failE (Fails (Runtime (ExecutionTimeout (unat secs))))
         | Some out \<Rightarrow>
             bindE (cut_at 100000 (utf8_lossy (co_stdout out))) (\<lambda>so.
             bindE (cut_at 100000 (utf8_lossy (co_stderr out))) (\<lambda>se.
             retE (mk_obj [(''exit_code'', code_json (co_code out)), (''stdout'', JStr so), (''stderr'', JStr se)])))))"

definition ShellTool :: "'w host \<Rightarrow> 'w native_tool" where
  "ShellTool H = tool H ''atta-shell'' ''Execute a shell command and return its output'' High
     (object_schema
        [(''command'', described ''string'' ''Shell command to execute''),
         (''working_dir'', described ''string'' ''Working directory for the command''),
         (''timeout_seconds'', described_default ''integer'' ''Timeout in seconds (default: 30)'' (JInt 30))] [''command''])
     (shell_run H)"

definition pdf_read :: "'w host \<Rightarrow> json \<Rightarrow> 'w tool_run" where
  "pdf_read H args =
     need_text args ''path'' [] (\<lambda>path.
       let pages = (case jget_str args ''pages'' of
              None \<Rightarrow> []
            | Some p \<Rightarrow> (case split_once ''-'' p of Some (a, b) \<Rightarrow> [''-f'', a, ''-l'', b] | None \<Rightarrow> [''-f'', p, ''-l'', p])) in
       bindE (os (ho_run H (plain_command ''pdftotext'' ([path, ''-''] @ pages)))) (\<lambda>out.
         if succeeded out
         then (let t = utf8_lossy (co_stdout out) in retE (mk_obj [(''text'', JStr t), (''length'', JInt (int (length t)))]))
         else failE (Fails (OtherError (''pdftotext failed: '' @ utf8_lossy (co_stderr out))))))"

definition PdfReadTool :: "'w host \<Rightarrow> 'w native_tool" where
  "PdfReadTool H = tool H ''atta-pdf-read'' ''Extract text content from a PDF file'' Low
     (object_schema
        [(''path'', described ''string'' ''Path to the PDF file''),
         (''pages'', described ''string'' (''Page range (e.g., '' @ squote ''1-5'' @ '', '' @ squote ''3'' @ '', '' @ squote ''10-20'' @ '')''))]
        [''path''])
     (pdf_read H)"

definition screenshot :: "'w host \<Rightarrow> json \<Rightarrow> 'w tool_run" where
  "screenshot H args =
     (let path = or_else ''/tmp/atta-screenshot.png'' (jget_str args ''output_path'') in
      bindE (os (ho_run H (if ho_macos H then plain_command ''screencapture'' [''-x'', path] else plain_command ''scrot'' [path]))) (\<lambda>out.
        if succeeded out then retE (mk_obj [(''path'', JStr path), (''success'', JBool True)])
        else failE (Fails (OtherError (''screenshot failed: '' @ utf8_lossy (co_stderr out))))))"

definition ScreenshotTool :: "'w host \<Rightarrow> 'w native_tool" where
  "ScreenshotTool H = tool H ''atta-screenshot'' ''Take a screenshot of the desktop or a specific region'' Low
     (typed ''object'' [properties
        [(''output_path'', described ''string'' ''Path to save the screenshot (default: /tmp/screenshot.png)''),
         (''region'', typed ''object'' [(''description'', JStr ''Capture region (x, y, width, height)''), properties
            [(''x'', typed ''integer'' []), (''y'', typed ''integer'' []), (''width'', typed ''integer'' []), (''height'', typed ''integer'' [])]])]])
     (screenshot H)"

fun mapE :: "('a \<Rightarrow> ('s, 'e, 'b) io) \<Rightarrow> 'a list \<Rightarrow> ('s, 'e, 'b list) io" where
  "mapE f [] = retE []"
| "mapE f (x # xs) = bindE (f x) (\<lambda>y. bindE (mapE f xs) (\<lambda>ys. retE (y # ys)))"

definition cli_discovery :: "'w host \<Rightarrow> json \<Rightarrow> 'w tool_run" where
  "cli_discovery H args =
     (case jget_array args ''tools'' of
        None \<Rightarrow> refuse (squote ''tools'' @ '' array is required'')
      | Some vs \<Rightarrow>
          bindE (mapE (\<lambda>n. bindE (which_exists H n) (\<lambda>b. retE (mk_obj [(''name'', JStr n), (''available'', JBool b)])))
                   (filter (\<lambda>n. n \<noteq> []) (map (\<lambda>v. or_else [] (as_str v)) vs))) (\<lambda>rs.
          retE (mk_obj [(''tools'', JArr rs)])))"

definition CliDiscoveryTool :: "'w host \<Rightarrow> 'w native_tool" where
  "CliDiscoveryTool H = tool H ''atta-cli-discovery'' ''Discover available CLI tools on the system (checks PATH)'' Low
     (object_schema
        [(''tools'', texts_described (''List of tool names to check for (e.g. ['' @ join '', '' (map squote [''git'', ''docker'', ''node'']) @ ''])''))]
        [''tools''])
     (cli_discovery H)"

definition image_info :: "'w host \<Rightarrow> json \<Rightarrow> 'w tool_run" where
  "image_info H args =
     need_text args ''path'' [] (\<lambda>path.
     bindE (tryE (ho_size H path) (\<lambda>r. case r of Inl e \<Rightarrow> failE (Fails (OtherError (''failed to read file: '' @ e))) | Inr n \<Rightarrow> retE n)) (\<lambda>n.
     retE (mk_obj [(''path'', JStr path), (''size_bytes'', JInt (int n)),
                   (''message'', JStr ''Basic file metadata returned. Full image parsing requires image crate.'')])))"

definition ImageInfoTool :: "'w host \<Rightarrow> 'w native_tool" where
  "ImageInfoTool H = tool H ''atta-image-info'' ''Extract metadata from an image file (dimensions, format, color space)'' Low
     (object_schema [(''path'', described ''string'' ''Path to the image file'')] [''path''])
     (image_info H)"

section \<open>The network\<close>

definition request_headers :: "json \<Rightarrow> (string \<times> string) list" where
  "request_headers args =
     (case Option.bind (jget args ''headers'') as_object of
        None \<Rightarrow> []
      | Some m \<Rightarrow> List.map_filter (\<lambda>(k, v). map_option (\<lambda>t. (k, t)) (as_str v)) m)"

definition web_fetch :: "'w host \<Rightarrow> json \<Rightarrow> 'w tool_run" where
  "web_fetch H args =
     need_text args ''url'' [] (\<lambda>url.
       let limit = u64_or 100000 args ''max_length'' in
       bindE (os (ho_http H ''GET'' url (request_headers args) NoBody)) (\<lambda>r.
       bindE (os (liftE (ft_text r))) (\<lambda>body.
       bindE (cut_at limit body) (\<lambda>content.
       retE (mk_obj
         [(''status'', JInt (int (ft_status r))),
          (''content_type'', JStr (or_else [] (Option.bind (map_of (ft_headers r) ''content-type'') id))),
          (''content'', JStr content), (''truncated'', JBool (length body > limit))])))))"

definition WebFetchTool :: "'w host \<Rightarrow> 'w native_tool" where
  "WebFetchTool H = tool H ''atta-web-fetch'' ''Fetch content from a URL and return as text'' Medium
     (object_schema
        [(''url'', described ''string'' ''URL to fetch''), (''headers'', described ''object'' ''Custom HTTP headers''),
         (''max_length'', described_default ''integer'' ''Maximum response length in bytes'' (JInt 100000))] [''url''])
     (web_fetch H)"

definition http_methods :: "string list" where
  "http_methods = [''GET'', ''POST'', ''PUT'', ''PATCH'', ''DELETE'', ''HEAD'']"

definition http_request :: "'w host \<Rightarrow> json \<Rightarrow> 'w tool_run" where
  "http_request H args =
     need_text args ''url'' [] (\<lambda>url.
       let method = or_else ''GET'' (jget_str args ''method'');
           body = (case jget args ''json'' of
                     Some v \<Rightarrow> if v \<noteq> JNull then JsonBody v else (case jget_str args ''body'' of Some t \<Rightarrow> TextBody t | None \<Rightarrow> NoBody)
                   | None \<Rightarrow> (case jget_str args ''body'' of Some t \<Rightarrow> TextBody t | None \<Rightarrow> NoBody))
       in if method \<notin> set http_methods then refuse (''unsupported method: '' @ method)
       else
         bindE (os (ho_http H method url (request_headers args) body)) (\<lambda>r.
         bindE (os (liftE (ft_text r))) (\<lambda>text.
         retE (mk_obj
           [(''status'', JInt (int (ft_status r))),
            (''headers'', mk_obj (List.map_filter (\<lambda>(k, v). map_option (\<lambda>t. (k, JStr t)) v) (ft_headers r))),
            (''body'', JStr text)]))))"

definition HttpRequestTool :: "'w host \<Rightarrow> 'w native_tool" where
  "HttpRequestTool H = tool H ''atta-http-request'' ''Make an HTTP request with custom method, headers, and body'' Medium
     (object_schema
        [(''url'', described ''string'' ''Request URL''),
         (''method'', typed ''string'' [(''enum'', JArr (map JStr http_methods)), (''default'', JStr ''GET'')]),
         (''headers'', described ''object'' ''Custom HTTP headers''), (''body'', described ''string'' ''Request body''),
         (''json'', mk_obj [(''description'', JStr ''JSON request body (overrides body)'')])] [''url''])
     (http_request H)"

definition web_search :: "json \<Rightarrow> 'w tool_run" where
  "web_search args =
     need_text args ''query'' [] (\<lambda>_.
     retE (mk_obj [(''status'', JStr ''not_implemented''),
                   (''message'', JStr ''web search requires a search API key (e.g., SerpAPI, Brave Search)'')]))"

definition WebSearchTool :: "'w host \<Rightarrow> 'w native_tool" where
  "WebSearchTool H = tool H ''atta-web-search'' ''Search the web and return results'' Medium
     (object_schema
        [(''query'', described ''string'' ''Search query''),
         (''num_results'', described_default ''integer'' ''Number of results to return'' (JInt 10))] [''query''])
     web_search"

definition suspicious_url :: "string \<Rightarrow> bool" where
  "suspicious_url url \<longleftrightarrow>
     (CHR ''@'' \<in> set url \<and> contains url ''://'') \<or> contains url ''localhost'' \<or> contains url ''127.0.0.1'' \<or>
     contains url ''0.0.0.0'' \<or> contains url ''169.254.'' \<or> contains url ''[::1]''"

definition url_validation :: "json \<Rightarrow> 'w tool_run" where
  "url_validation args =
     need_text args ''url'' [] (\<lambda>url.
       let https = starts_with url ''https://''; valid = (https \<or> starts_with url ''http://'') in
       retE (mk_obj [(''url'', JStr url), (''valid_protocol'', JBool valid), (''is_https'', JBool https),
                     (''suspicious'', JBool (suspicious_url url)), (''safe'', JBool (valid \<and> \<not> suspicious_url url))]))"

definition UrlValidationTool :: "'w host \<Rightarrow> 'w native_tool" where
  "UrlValidationTool H = tool H ''atta-url-validation'' ''Validate a URL for safety: check format, domain reputation, and protocol'' Low
     (object_schema [(''url'', described ''string'' ''URL to validate'')] [''url''])
     url_validation"

end
