(* ===== verification/Native_More.thy ===== *)
theory Native_More
  imports Native_Tools Cron Agent_Registry
begin

text \<open>
  The tools of the agents that act on the program itself (\<open>crates/tools/src\<close>): cron jobs, sub-agents, delegation and
  flows. The services behind them are records of functions on the world;
  the cron engine, the agent registry and the flow engine implement three of them.
\<close>

section \<open>Cron\<close>

record 'w cron_scheduler =
  cs_schedule :: "string \<Rightarrow> string \<Rightarrow> string \<Rightarrow> ('w, atta_error, json) io"
  cs_list :: "string option \<Rightarrow> ('w, atta_error, json) io"
  cs_cancel :: "string \<Rightarrow> ('w, atta_error, unit) io"
  cs_trigger :: "string \<Rightarrow> ('w, atta_error, json) io"
  cs_history :: "string \<Rightarrow> nat \<Rightarrow> ('w, atta_error, json) io"
  cs_update :: "string \<Rightarrow> string option \<Rightarrow> bool option \<Rightarrow> ('w, atta_error, json) io"

definition lifted :: "('w, atta_error, 'a) io \<Rightarrow> ('w, fault, 'a) io" where
  "lifted m = tryE m (\<lambda>r. case r of Inl e \<Rightarrow> failE (Fails e) | Inr x \<Rightarrow> retE x)"

definition no_cron :: "string \<Rightarrow> 'w tool_run" where
  "no_cron what =
     retE (mk_obj [(''status'', JStr ''error''),
       (''message'', JStr (''CronEngine is not available. '' @ what @ '' requires the cron engine to be configured.''))])"

definition with_cron :: "'w cron_scheduler option \<Rightarrow> string \<Rightarrow> ('w cron_scheduler \<Rightarrow> 'w tool_run) \<Rightarrow> 'w tool_run" where
  "with_cron S what f = (case S of None \<Rightarrow> no_cron what | Some s \<Rightarrow> f s)"

definition cron_tool_run :: "'w cron_scheduler option \<Rightarrow> json \<Rightarrow> 'w tool_run" where
  "cron_tool_run S args =
     need_text args ''action'' [] (\<lambda>action. with_cron S ''Cron scheduling'' (\<lambda>s.
       if action = ''schedule'' then
         need_text args ''schedule'' '' for schedule action'' (\<lambda>expr. need_text args ''command'' '' for schedule action'' (\<lambda>cmd.
         bindE (lifted (cs_schedule s cmd expr cmd)) (\<lambda>job. retE (mk_obj [(''status'', JStr ''scheduled''), (''job'', job)]))))
       else if action = ''list'' then
         bindE (lifted (cs_list s None)) (\<lambda>jobs. retE (mk_obj [(''jobs'', jobs)]))
       else if action = ''cancel'' then
         need_text args ''job_id'' '' for cancel action'' (\<lambda>i.
         bindE (lifted (cs_cancel s i)) (\<lambda>_. retE (mk_obj [(''status'', JStr ''cancelled''), (''job_id'', JStr i)])))
       else refuse (''unknown action: '' @ action)))"

definition CronTool :: "'w host \<Rightarrow> 'w cron_scheduler option \<Rightarrow> 'w native_tool" where
  "CronTool H S = tool H ''atta-cron'' ''Schedule, list, or cancel periodic tasks'' Medium
     (object_schema
        [(''action'', one_of [''schedule'', ''list'', ''cancel''] ''Cron action''),
         (''schedule'', described ''string'' (''Cron expression (e.g., '' @ squote ''*/5 * * * *'' @ '')'')),
         (''command'', described ''string'' ''Command to schedule''),
         (''job_id'', described ''string'' ''Job ID for cancel action'')] [''action''])
     (cron_tool_run S)"

definition cron_list_run :: "'w cron_scheduler option \<Rightarrow> json \<Rightarrow> 'w tool_run" where
  "cron_list_run S args =
     with_cron S ''Cron listing'' (\<lambda>s.
       let status = or_else ''all'' (jget_str args ''status'') in
       bindE (lifted (cs_list s (if status = ''all'' then None else Some status))) (\<lambda>jobs. retE (mk_obj [(''tasks'', jobs)])))"

definition CronListTool :: "'w host \<Rightarrow> 'w cron_scheduler option \<Rightarrow> 'w native_tool" where
  "CronListTool H S = tool H ''atta-cron-list'' ''List all registered scheduled/cron tasks with their schedules and status'' Low
     (object_schema
        [(''status'', typed ''string'' [(''description'', JStr ''Filter by status: active, paused, all''),
            (''enum'', JArr (map JStr [''active'', ''paused'', ''all'']))])] [])
     (cron_list_run S)"

definition cron_remove_run :: "'w cron_scheduler option \<Rightarrow> json \<Rightarrow> 'w tool_run" where
  "cron_remove_run S args =
     need_text args ''task_id'' [] (\<lambda>i. with_cron S ''Removing cron tasks'' (\<lambda>s.
       bindE (lifted (cs_cancel s i)) (\<lambda>_. retE (mk_obj [(''status'', JStr ''removed''), (''task_id'', JStr i)]))))"

definition CronRemoveTool :: "'w host \<Rightarrow> 'w cron_scheduler option \<Rightarrow> 'w native_tool" where
  "CronRemoveTool H S = tool H ''atta-cron-remove'' ''Remove a scheduled/cron task by its ID'' Medium
     (object_schema [(''task_id'', described ''string'' ''ID of the cron task to remove'')] [''task_id''])
     (cron_remove_run S)"

definition cron_run_run :: "'w cron_scheduler option \<Rightarrow> json \<Rightarrow> 'w tool_run" where
  "cron_run_run S args =
     need_text args ''task_id'' [] (\<lambda>i. with_cron S ''Triggering cron tasks'' (\<lambda>s.
       bindE (lifted (cs_trigger s i)) (\<lambda>run. retE (mk_obj [(''status'', JStr ''triggered''), (''run'', run)]))))"

definition CronRunTool :: "'w host \<Rightarrow> 'w cron_scheduler option \<Rightarrow> 'w native_tool" where
  "CronRunTool H S = tool H ''atta-cron-run'' ''Manually trigger a scheduled cron task for immediate execution'' Medium
     (object_schema [(''task_id'', described ''string'' ''ID of the cron task to run'')] [''task_id''])
     (cron_run_run S)"

definition cron_runs_run :: "'w cron_scheduler option \<Rightarrow> json \<Rightarrow> 'w tool_run" where
  "cron_runs_run S args =
     need_text args ''task_id'' [] (\<lambda>i. with_cron S ''Viewing cron history'' (\<lambda>s.
       bindE (lifted (cs_history s i (u64_or 10 args ''limit''))) (\<lambda>runs. retE (mk_obj [(''task_id'', JStr i), (''runs'', runs)]))))"

definition CronRunsTool :: "'w host \<Rightarrow> 'w cron_scheduler option \<Rightarrow> 'w native_tool" where
  "CronRunsTool H S = tool H ''atta-cron-runs'' ''View execution history and logs for a scheduled cron task'' Low
     (object_schema
        [(''task_id'', described ''string'' ''ID of the cron task''),
         (''limit'', described_default ''integer'' ''Max number of runs to return'' (JInt 10))] [''task_id''])
     (cron_runs_run S)"

definition cron_update_run :: "'w cron_scheduler option \<Rightarrow> json \<Rightarrow> 'w tool_run" where
  "cron_update_run S args =
     need_text args ''task_id'' [] (\<lambda>i. with_cron S ''Updating cron tasks'' (\<lambda>s.
       let schedule = jget_str args ''schedule''; enabled = Option.bind (jget args ''enabled'') as_bool in
       if schedule = None \<and> enabled = None
       then refuse (''at least one of '' @ squote ''schedule'' @ '' or '' @ squote ''enabled'' @ '' must be provided'')
       else bindE (lifted (cs_update s i schedule enabled)) (\<lambda>job. retE (mk_obj [(''status'', JStr ''updated''), (''job'', job)]))))"

definition CronUpdateTool :: "'w host \<Rightarrow> 'w cron_scheduler option \<Rightarrow> 'w native_tool" where
  "CronUpdateTool H S = tool H ''atta-cron-update'' ''Update the schedule or configuration of an existing cron task'' Medium
     (object_schema
        [(''task_id'', described ''string'' ''ID of the cron task''),
         (''schedule'', described ''string'' (''New cron expression (e.g. '' @ squote ''0 */6 * * *'' @ '')'')),
         (''enabled'', described ''boolean'' ''Enable or disable the task'')] [''task_id''])
     (cron_update_run S)"

text \<open>The cron engine as a scheduler; the JSON forms of jobs and runs are arguments, and the spawned publication is part of triggering.\<close>

definition engine_schedule :: "genv \<Rightarrow> string \<Rightarrow> string \<Rightarrow> string \<Rightarrow> cron_job wio" where
  "engine_schedule E name expr cmd =
     bindE (fresh_uuid E) (\<lambda>i. bindE (now_io E) (\<lambda>t1. bindE (now_io E) (\<lambda>t2.
     cron_schedule E \<lparr>cj_id = uuid_show E i, cj_name = name, cj_schedule = expr, cj_command = cmd, cj_config = mk_obj [],
       cj_enabled = True, cj_created_by = ''agent'', cj_created_at = t1, cj_updated_at = t2, cj_last_run_at = None, cj_next_run_at = None\<rparr>)))"

definition engine_scheduler :: "genv \<Rightarrow> (cron_job \<Rightarrow> json) \<Rightarrow> (cron_run \<Rightarrow> json) \<Rightarrow> world cron_scheduler" where
  "engine_scheduler E jj rj =
     \<lparr>cs_schedule = (\<lambda>name expr cmd. bindE (engine_schedule E name expr cmd) (\<lambda>j. retE (jj j))),
      cs_list = (\<lambda>st. bindE (cron_list E st) (\<lambda>js. retE (JArr (map jj js)))),
      cs_cancel = cron_cancel E,
      cs_trigger = (\<lambda>i. bindE (trigger_job E i ''manual'') (\<lambda>(run, ev). bindE (cron_publish E run ev) (\<lambda>_. retE (rj run)))),
      cs_history = (\<lambda>i n. bindE (cron_history E i n) (\<lambda>rs. retE (JArr (map rj rs)))),
      cs_update = (\<lambda>i expr on. bindE (cron_update E i expr on) (\<lambda>j. retE (jj j)))\<rparr>"

section \<open>Sub-agents\<close>

record 'w sub_agents =
  sa_spawn :: "string \<Rightarrow> 'w \<Rightarrow> string \<times> 'w"
  sa_list :: "'w \<Rightarrow> json"
  sa_pause :: "string \<Rightarrow> ('w, string, unit) io"
  sa_resume :: "string \<Rightarrow> ('w, string, unit) io"
  sa_terminate :: "string \<Rightarrow> ('w, string, unit) io"

definition no_registry :: "('w, fault, 'a) io" where
  "no_registry = refuse ''AgentRegistry not available''"

definition subagent_spawn :: "'w sub_agents option \<Rightarrow> json \<Rightarrow> 'w tool_run" where
  "subagent_spawn R args =
     need_text args ''task'' [] (\<lambda>task.
       case R of
         None \<Rightarrow> no_registry
       | Some r \<Rightarrow>
           bindE (\<lambda>w. case sa_spawn r task w of (i, w1) \<Rightarrow> (Inr i, w1)) (\<lambda>i.
           retE (mk_obj [(''subagent_id'', JStr i), (''task'', JStr task), (''status'', JStr ''spawned''),
                         (''message'', JStr (''Sub-agent '' @ i @ '' spawned for task''))])))"

definition SubagentSpawnTool :: "'w host \<Rightarrow> 'w sub_agents option \<Rightarrow> 'w native_tool" where
  "SubagentSpawnTool H R = tool H ''atta-subagent-spawn'' ''Spawn a new sub-agent to handle a delegated task in parallel'' High
     (object_schema
        [(''task'', described ''string'' ''Task description for the sub-agent''),
         (''tools'', texts_described ''Tools available to the sub-agent (empty = all)''),
         (''max_iterations'', described_default ''integer'' ''Max ReAct iterations'' (JInt 5))] [''task''])
     (subagent_spawn R)"

definition subagent_list :: "'w sub_agents option \<Rightarrow> 'w tool_run" where
  "subagent_list R =
     (case R of
        None \<Rightarrow> retE (mk_obj [(''subagents'', JArr []), (''message'', JStr ''AgentRegistry not available'')])
      | Some r \<Rightarrow> bindE getE (\<lambda>w. retE (mk_obj [(''subagents'', sa_list r w), (''message'', JStr ''sub-agents listed'')])))"

definition SubagentListTool :: "'w host \<Rightarrow> 'w sub_agents option \<Rightarrow> 'w native_tool" where
  "SubagentListTool H R = tool H ''atta-subagent-list'' ''List all active sub-agents and their current status'' Low
     (object_schema [] []) (\<lambda>_. subagent_list R)"

definition subagent_action :: "'w sub_agents \<Rightarrow> string \<Rightarrow> string \<Rightarrow> ('w, string, unit) io" where
  "subagent_action r action i =
     (if action = ''pause'' then sa_pause r i
      else if action = ''resume'' then sa_resume r i
      else if action = ''terminate'' then sa_terminate r i
      else failE (''unknown action: '' @ action))"

definition subagent_manage :: "'w sub_agents option \<Rightarrow> json \<Rightarrow> 'w tool_run" where
  "subagent_manage R args =
     need_text args ''subagent_id'' [] (\<lambda>i. need_text args ''action'' [] (\<lambda>action.
       case R of
         None \<Rightarrow> no_registry
       | Some r \<Rightarrow>
           bindE (tryE (subagent_action r action i) (\<lambda>res. case res of Inl e \<Rightarrow> refuse e | Inr u \<Rightarrow> retE u)) (\<lambda>_.
           retE (mk_obj [(''subagent_id'', JStr i), (''action'', JStr action), (''status'', JStr ''completed''),
                         (''message'', JStr (''Sub-agent '' @ i @ '' '' @ action))]))))"

definition SubagentManageTool :: "'w host \<Rightarrow> 'w sub_agents option \<Rightarrow> 'w native_tool" where
  "SubagentManageTool H R = tool H ''atta-subagent-manage'' ''Manage a sub-agent: pause, resume, or terminate it'' High
     (object_schema
        [(''subagent_id'', described ''string'' ''ID of the sub-agent''),
         (''action'', typed ''string'' [(''description'', JStr ''Action to perform''),
            (''enum'', JArr (map JStr [''pause'', ''resume'', ''terminate'']))])] [''subagent_id'', ''action''])
     (subagent_manage R)"

text \<open>The registry of agents as the service: the fresh identifier and the clock are arguments.\<close>

definition agent_service :: "(agent_reg \<Rightarrow> string) \<Rightarrow> timestamp \<Rightarrow> (agent_summary list \<Rightarrow> json) \<Rightarrow> agent_reg sub_agents" where
  "agent_service fresh now js =
     \<lparr>sa_spawn = (\<lambda>task A. let i = fresh A in (i, spawn_enter now i task (spawn_task i task A))),
      sa_list = (\<lambda>A. js (agents_list now A)),
      sa_pause = agents_pause, sa_resume = agents_resume, sa_terminate = agents_terminate\<rparr>"

section \<open>Delegation\<close>

record delegate_config =
  dc_max_depth :: u32
  dc_timeout :: nat
  dc_depth :: u32

definition delegate_default :: delegate_config where
  "delegate_default = \<lparr>dc_max_depth = 3, dc_timeout = 300, dc_depth = 0\<rparr>"

type_synonym 'w sub_runner = "string \<Rightarrow> string option \<Rightarrow> string list option \<Rightarrow> nat \<Rightarrow> u32 \<Rightarrow> ('w, atta_error, json) io"

definition delegation :: "delegate_config \<Rightarrow> 'w sub_runner option \<Rightarrow> json \<Rightarrow> 'w tool_run" where
  "delegation C R args =
     need_text args ''task'' [] (\<lambda>task.
       if dc_max_depth C \<le> dc_depth C
       then failE (Fails (SecurityViolation
         (''delegation depth limit reached ('' @ show_nat (unat (dc_depth C)) @ ''/'' @ show_nat (unat (dc_max_depth C)) @ '')'')))
       else (case R of
           None \<Rightarrow>
             retE (mk_obj [(''status'', JStr ''delegated''), (''task'', JStr task), (''depth'', JInt (uint (dc_depth C))),
               (''max_depth'', JInt (uint (dc_max_depth C))), (''timeout_secs'', JInt (int (dc_timeout C))),
               (''message'', JStr ''delegation requires SubAgentRunner to be configured'')])
         | Some run \<Rightarrow>
             bindE (lifted (run task (jget_str args ''model'') (map_option (List.map_filter as_str) (jget_array args ''allowed_tools''))
                      (dc_timeout C) (dc_depth C + 1))) (\<lambda>res.
             retE (mk_obj [(''status'', JStr ''completed''), (''task'', JStr task), (''depth'', JInt (uint (dc_depth C + 1))), (''result'', res)]))))"

definition DelegationTool :: "'w host \<Rightarrow> delegate_config \<Rightarrow> 'w sub_runner option \<Rightarrow> 'w native_tool" where
  "DelegationTool H C R = tool H ''atta-delegation'' ''Delegate a sub-task to another agent for parallel or specialized processing'' Medium
     (object_schema
        [(''task'', described ''string'' ''Task description for the sub-agent''),
         (''model'', described ''string'' ''LLM model to use for the sub-agent (optional)''),
         (''allowed_tools'', texts_described ''Tools available to the sub-agent (empty = all)'')] [''task''])
     (delegation C R)"

section \<open>Flows\<close>

record 'w flow_runner =
  fr_start :: "string \<Rightarrow> json \<Rightarrow> actor \<Rightarrow> ('w, atta_error, task) io"
  fr_list :: "('w, atta_error, (string \<times> string option) list) io"

fun status_name :: "task_status \<Rightarrow> string" where
  "status_name Running = ''running''"
| "status_name WaitingApproval = ''waiting_approval''"
| "status_name Completed = ''completed''"
| "status_name (Failed e) = ''failed''"
| "status_name Cancelled = ''cancelled''"

definition start_flow :: "(uuid \<Rightarrow> string) \<Rightarrow> 'w flow_runner option \<Rightarrow> json \<Rightarrow> 'w tool_run" where
  "start_flow show_id R args =
     (case R of
        None \<Rightarrow> refuse ''FlowRunner not configured''
      | Some r \<Rightarrow>
          (let action = or_else ''start'' (jget_str args ''action'') in
           if action = ''list_flows'' then
             bindE (lifted (fr_list r)) (\<lambda>fs.
             retE (mk_obj [(''flows'', JArr (map (\<lambda>(i, n). mk_obj [(''id'', JStr i), (''name'', JStr (or_else [] n))]) fs))]))
           else if action = ''start'' then
             (case jget_str args ''flow_id'' of
                None \<Rightarrow> refuse (''flow_id is required for '' @ squote ''start'' @ '' action'')
              | Some f \<Rightarrow>
                  bindE (lifted (fr_start r f (or_else (mk_obj []) (jget args ''input'')) actor_system)) (\<lambda>t.
                  retE (mk_obj [(''task_id'', JStr (show_id (t_id t))), (''flow_id'', JStr (t_flow_id t)),
                    (''status'', JStr (status_name (t_status t))), (''current_state'', JStr (t_current_state t)),
                    (''message'', JStr (''Flow '' @ squote f @ '' started, task ID: '' @ show_id (t_id t)))])))
           else refuse (''Unknown action: '' @ action)))"

definition StartFlowTool :: "'w host \<Rightarrow> (uuid \<Rightarrow> string) \<Rightarrow> 'w flow_runner option \<Rightarrow> 'w native_tool" where
  "StartFlowTool H show_id R = tool H ''atta-start-flow''
     (''Start a workflow (Flow) by creating a new Task. Returns the task ID for tracking progress. Use '' @ tick ''list_flows'' @
        '' action to see available flows first.'') Medium
     (object_schema
        [(''action'', one_of [''start'', ''list_flows''] (''Action to perform: '' @ squote ''start'' @ '' creates a new task, '' @
            squote ''list_flows'' @ '' lists available flows'')),
         (''flow_id'', described ''string'' (''Flow ID to start (required for '' @ squote ''start'' @ '' action)'')),
         (''input'', described ''object'' ''Input data for the flow (passed as task input)'')] [''action''])
     (start_flow show_id R)"

definition engine_runner :: "genv \<Rightarrow> (string \<Rightarrow> tool_def option) \<Rightarrow> world flow_runner" where
  "engine_runner E tools = \<lparr>fr_start = engine_create_task E tools, fr_list = list_flows\<rparr>"

end
