(* ===== verification/Shipped_Tools.thy ===== *)
theory Shipped_Tools
  imports Native_More
begin

text \<open>
  The rest of the shipped tools (\<open>crates/tools/src\<close>): memories, the browser, and those that answer without a service behind
  them; and the list of all tools (\<open>registry.rs\<close>).
\<close>

section \<open>Memories\<close>

datatype memory_type = TaskResultMemory | SkillExperienceMemory | UserPreferenceMemory | KnowledgeMemory

text \<open>Scores and vectors are 32-bit floats, kept as their bits.\<close>

definition memory_type_text :: "memory_type \<Rightarrow> string" where
  "memory_type_text t =
     (case t of TaskResultMemory \<Rightarrow> ''task_result'' | SkillExperienceMemory \<Rightarrow> ''skill_experience''
      | UserPreferenceMemory \<Rightarrow> ''user_preference'' | KnowledgeMemory \<Rightarrow> ''knowledge'')"

definition memory_type_named :: "string \<Rightarrow> memory_type option" where
  "memory_type_named s =
     map_of (map (\<lambda>t. (memory_type_text t, t)) [TaskResultMemory, SkillExperienceMemory, UserPreferenceMemory, KnowledgeMemory]) s"

text \<open>The name is put between quotes and read as JSON; the reader is an argument.\<close>

definition memory_type_of :: "json_reader \<Rightarrow> string \<Rightarrow> memory_type option" where
  "memory_type_of jp s = (case jp (in_quotes s) of Some (JStr n) \<Rightarrow> memory_type_named n | _ \<Rightarrow> None)"

record memory_metadata =
  mm_task_id :: "uuid option"
  mm_skill_id :: "string option"
  mm_tags :: "string list"
  mm_source :: "string option"
  mm_relevance :: "u32 option"

record memory_entry =
  me_id :: uuid
  me_type :: memory_type
  me_content :: string
  me_embedding :: "u32 list option"
  me_metadata :: memory_metadata
  me_created_at :: timestamp
  me_last_accessed :: timestamp
  me_access_count :: u32

record rrf_params =
  rr_k :: u32
  rr_vector_weight :: u32
  rr_fts_weight :: u32

record mmr_params =
  mr_enabled :: bool
  mr_lambda :: u32

record decay_params =
  dp_enabled :: bool
  dp_half_life_days :: u32

record search_options =
  so_limit :: nat
  so_memory_types :: "memory_type list option"
  so_min_score :: "u32 option"
  so_tags :: "string list option"
  so_time_range :: "(timestamp \<times> timestamp) option"
  so_task_id :: "uuid option"
  so_skill_id :: "string option"
  so_offset :: "nat option"
  so_rrf_params :: "rrf_params option"
  so_mmr :: "mmr_params option"
  so_decay :: "decay_params option"

definition search_default :: search_options where
  "search_default =
     \<lparr>so_limit = 10, so_memory_types = None, so_min_score = None, so_tags = None, so_time_range = None, so_task_id = None,
      so_skill_id = None, so_offset = None, so_rrf_params = None, so_mmr = None, so_decay = None\<rparr>"

datatype match_source = VectorMatch | FullTextMatch | HybridMatch

definition match_source_debug :: "match_source \<Rightarrow> string" where
  "match_source_debug m = (case m of VectorMatch \<Rightarrow> ''Vector'' | FullTextMatch \<Rightarrow> ''FullText'' | HybridMatch \<Rightarrow> ''Hybrid'')"

record search_result =
  sr_entry :: memory_entry
  sr_score :: u32
  sr_source :: match_source

record 'w memory_store =
  ms_store :: "memory_entry \<Rightarrow> ('w, atta_error, unit) io"
  ms_search :: "string \<Rightarrow> search_options \<Rightarrow> ('w, atta_error, search_result list) io"
  ms_get :: "uuid \<Rightarrow> ('w, atta_error, memory_entry option) io"
  ms_delete :: "uuid \<Rightarrow> ('w, atta_error, unit) io"
  ms_cleanup :: "timestamp \<Rightarrow> ('w, atta_error, nat) io"

text \<open>The store that stores nothing.\<close>

definition noop_memory :: "'w memory_store" where
  "noop_memory =
     \<lparr>ms_store = (\<lambda>_. retE ()), ms_search = (\<lambda>_ _. retE []), ms_get = (\<lambda>_. retE None), ms_delete = (\<lambda>_. retE ()), ms_cleanup = (\<lambda>_. retE 0)\<rparr>"

text \<open>What the memory tools read from outside: identifiers and the clock on the world, and the texts of dates and scores.\<close>

record 'w memory_env =
  mv_uuid :: "'w \<Rightarrow> uuid \<times> 'w"
  mv_now :: "'w \<Rightarrow> timestamp \<times> 'w"
  mv_show :: "uuid \<Rightarrow> string"
  mv_parse :: "string \<Rightarrow> string + uuid"
  mv_date :: "timestamp \<Rightarrow> string"
  mv_score :: "u32 \<Rightarrow> json"
  mv_json :: json_reader

definition need_store :: "'w memory_store option \<Rightarrow> ('w memory_store \<Rightarrow> 'w tool_run) \<Rightarrow> 'w tool_run" where
  "need_store S f = (case S of None \<Rightarrow> refuse ''MemoryStore not available'' | Some s \<Rightarrow> f s)"

definition ask :: "('w \<Rightarrow> 'a \<times> 'w) \<Rightarrow> ('w, 'e, 'a) io" where
  "ask f = (\<lambda>w. case f w of (x, w1) \<Rightarrow> (Inr x, w1))"

definition memory_store_run :: "'w memory_env \<Rightarrow> 'w memory_store option \<Rightarrow> json \<Rightarrow> 'w tool_run" where
  "memory_store_run V S args =
     need_store S (\<lambda>s. need_text args ''content'' [] (\<lambda>content.
       let tags = (case jget_array args ''tags'' of None \<Rightarrow> [] | Some vs \<Rightarrow> List.map_filter as_str vs);
           ty = or_else KnowledgeMemory (Option.bind (jget_str args ''memory_type'') (memory_type_of (mv_json V)))
       in bindE (ask (mv_uuid V)) (\<lambda>i. bindE (ask (mv_now V)) (\<lambda>now.
          bindE (lifted (ms_store s
            \<lparr>me_id = i, me_type = ty, me_content = content, me_embedding = None,
             me_metadata = \<lparr>mm_task_id = None, mm_skill_id = None, mm_tags = tags, mm_source = None, mm_relevance = None\<rparr>,
             me_created_at = now, me_last_accessed = now, me_access_count = 0\<rparr>)) (\<lambda>_.
          retE (mk_obj [(''status'', JStr ''stored''), (''id'', JStr (mv_show V i))]))))))"

definition MemoryStoreTool :: "'w host \<Rightarrow> 'w memory_env \<Rightarrow> 'w memory_store option \<Rightarrow> 'w native_tool" where
  "MemoryStoreTool H V S = tool H ''atta-memory-store'' ''Store information in long-term memory for later recall'' Low
     (object_schema
        [(''content'', described ''string'' ''Content to store in memory''),
         (''tags'', texts_described ''Tags for categorization''),
         (''memory_type'', one_of [''knowledge'', ''episodic'', ''procedural'', ''semantic''] ''Type of memory (default: knowledge)'')]
        [''content''])
     (memory_store_run V S)"

definition recalled_json :: "'w memory_env \<Rightarrow> search_result \<Rightarrow> json" where
  "recalled_json V r =
     mk_obj [(''id'', JStr (mv_show V (me_id (sr_entry r)))), (''content'', JStr (me_content (sr_entry r))),
       (''score'', mv_score V (sr_score r)), (''match_source'', JStr (match_source_debug (sr_source r))),
       (''memory_type'', JStr (memory_type_text (me_type (sr_entry r)))),
       (''tags'', JArr (map JStr (mm_tags (me_metadata (sr_entry r))))),
       (''created_at'', JStr (mv_date V (me_created_at (sr_entry r))))]"

definition memory_recall_run :: "'w memory_env \<Rightarrow> 'w memory_store option \<Rightarrow> json \<Rightarrow> 'w tool_run" where
  "memory_recall_run V S args =
     need_store S (\<lambda>s. need_text args ''query'' [] (\<lambda>query.
       let types = map_option (List.map_filter (\<lambda>v. Option.bind (as_str v) (memory_type_of (mv_json V)))) (jget_array args ''memory_types'')
       in bindE (lifted (ms_search s query (search_default\<lparr>so_limit := u64_or 5 args ''limit'', so_memory_types := types\<rparr>))) (\<lambda>rs.
          retE (mk_obj [(''status'', JStr ''ok''), (''count'', JInt (int (length rs))), (''results'', JArr (map (recalled_json V) rs))]))))"

definition MemoryRecallTool :: "'w host \<Rightarrow> 'w memory_env \<Rightarrow> 'w memory_store option \<Rightarrow> 'w native_tool" where
  "MemoryRecallTool H V S = tool H ''atta-memory-recall'' ''Recall information from long-term memory by semantic search'' Low
     (object_schema
        [(''query'', described ''string'' ''Search query (semantic or keyword)''),
         (''limit'', described_default ''integer'' ''Maximum results (default: 5)'' (JInt 5)),
         (''memory_types'', texts_described ''Filter by memory type'')] [''query''])
     (memory_recall_run V S)"

definition memory_forget_run :: "'w memory_env \<Rightarrow> 'w memory_store option \<Rightarrow> json \<Rightarrow> 'w tool_run" where
  "memory_forget_run V S args =
     need_store S (\<lambda>s. need_text args ''id'' [] (\<lambda>t.
       case mv_parse V t of
         Inl e \<Rightarrow> refuse (''invalid UUID: '' @ e)
       | Inr i \<Rightarrow> bindE (lifted (ms_delete s i)) (\<lambda>_. retE (mk_obj [(''status'', JStr ''deleted''), (''id'', JStr t)]))))"

definition MemoryForgetTool :: "'w host \<Rightarrow> 'w memory_env \<Rightarrow> 'w memory_store option \<Rightarrow> 'w native_tool" where
  "MemoryForgetTool H V S = tool H ''atta-memory-forget'' ''Delete a memory entry by ID'' Low
     (object_schema [(''id'', described ''string'' ''Memory entry UUID to delete'')] [''id''])
     (memory_forget_run V S)"

section \<open>The browser\<close>

record 'w browser =
  br_navigate :: "string \<Rightarrow> ('w, atta_error, json) io"
  br_click :: "string \<Rightarrow> ('w, atta_error, json) io"
  br_type_text :: "string \<Rightarrow> string \<Rightarrow> ('w, atta_error, json) io"
  br_extract :: "string option \<Rightarrow> ('w, atta_error, json) io"
  br_screenshot :: "('w, atta_error, json) io"
  br_close :: "('w, atta_error, unit) io"

definition stub_answer :: "string \<Rightarrow> (string \<times> json) list \<Rightarrow> ('w, atta_error, json) io" where
  "stub_answer action kvs =
     retE (mk_obj ([(''status'', JStr ''not_implemented''), (''action'', JStr action)] @ kvs @
       [(''message'', JStr ''browser backend not configured'')]))"

definition stub_browser :: "'w browser" where
  "stub_browser =
     \<lparr>br_navigate = (\<lambda>u. stub_answer ''navigate'' [(''url'', JStr u)]), br_click = (\<lambda>s. stub_answer ''click'' [(''selector'', JStr s)]),
      br_type_text = (\<lambda>s t. stub_answer ''type'' [(''selector'', JStr s), (''text'', JStr t)]),
      br_extract = (\<lambda>s. stub_answer ''extract'' [(''selector'', case s of None \<Rightarrow> JNull | Some x \<Rightarrow> JStr x)]),
      br_screenshot = stub_answer ''screenshot'' [], br_close = retE ()\<rparr>"

definition browser_run :: "'w browser \<Rightarrow> json \<Rightarrow> 'w tool_run" where
  "browser_run B args =
     need_text args ''action'' [] (\<lambda>action.
       if action = ''navigate'' then need_text args ''url'' '' for navigate'' (\<lambda>u. lifted (br_navigate B u))
       else if action = ''click'' then need_text args ''selector'' '' for click'' (\<lambda>s. lifted (br_click B s))
       else if action = ''type'' then
         need_text args ''selector'' '' for type'' (\<lambda>s. need_text args ''text'' '' for type'' (\<lambda>t. lifted (br_type_text B s t)))
       else if action = ''extract'' then lifted (br_extract B (jget_str args ''selector''))
       else if action = ''screenshot'' then lifted (br_screenshot B)
       else if action = ''close'' then bindE (lifted (br_close B)) (\<lambda>_. retE (mk_obj [(''status'', JStr ''closed'')]))
       else refuse (''unknown browser action: '' @ squote action))"

definition BrowserTool :: "'w host \<Rightarrow> 'w browser \<Rightarrow> 'w native_tool" where
  "BrowserTool H B = tool H ''atta-browser'' ''Automate browser actions: navigate, click, type, extract content, screenshot'' Medium
     (object_schema
        [(''action'', one_of [''navigate'', ''click'', ''type'', ''extract'', ''screenshot'', ''close''] ''Browser action to perform''),
         (''url'', described ''string'' (''URL to navigate to (required for '' @ squote ''navigate'' @ '')'')),
         (''selector'', described ''string'' (''CSS selector for element interaction (required for '' @ squote ''click'' @ '' and '' @ squote ''type'' @ '')'')),
         (''text'', described ''string'' (''Text to type (required for '' @ squote ''type'' @ '')''))] [''action''])
     (browser_run B)"

section \<open>Tools that only answer\<close>

definition AgentsInboxTool :: "'w host \<Rightarrow> 'w native_tool" where
  "AgentsInboxTool H = tool H ''atta-agents-inbox'' ''Check the inbox for messages received from other agents'' Low
     (object_schema
        [(''limit'', described_default ''integer'' ''Max messages to return'' (JInt 10)),
         (''unread_only'', described_default ''boolean'' ''Only show unread messages'' (JBool True))] [])
     (\<lambda>_. retE (mk_obj [(''messages'', JArr []), (''unread_count'', JInt 0)]))"

definition AgentsListTool :: "'w host \<Rightarrow> 'w native_tool" where
  "AgentsListTool H = tool H ''atta-agents-list'' ''List all running agents and their current state (IPC)'' Low
     (object_schema [] []) (\<lambda>_. retE (mk_obj [(''agents'', JArr []), (''message'', JStr ''No agents currently running'')]))"

definition agents_send :: "json \<Rightarrow> 'w tool_run" where
  "agents_send args =
     need_text args ''target_agent'' [] (\<lambda>t. need_text args ''message'' [] (\<lambda>m.
       retE (mk_obj [(''sent_to'', JStr t), (''message_length'', JInt (int (length m))), (''status'', JStr ''delivered'')])))"

definition AgentsSendTool :: "'w host \<Rightarrow> 'w native_tool" where
  "AgentsSendTool H = tool H ''atta-agents-send'' ''Send a message to another agent via inter-process communication'' Medium
     (object_schema
        [(''target_agent'', described ''string'' ''Target agent ID''), (''message'', described ''string'' ''Message content to send'')]
        [''target_agent'', ''message''])
     agents_send"

definition state_get :: "json \<Rightarrow> 'w tool_run" where
  "state_get args =
     need_text args ''key'' [] (\<lambda>k. retE (mk_obj [(''key'', JStr k), (''value'', JNull), (''found'', JBool False)]))"

definition StateGetTool :: "'w host \<Rightarrow> 'w native_tool" where
  "StateGetTool H = tool H ''atta-state-get'' ''Read a value from the shared state store by key'' Low
     (object_schema [(''key'', described ''string'' ''State key to read'')] [''key'']) state_get"

definition state_set :: "json \<Rightarrow> 'w tool_run" where
  "state_set args =
     need_text args ''key'' [] (\<lambda>k.
     retE (mk_obj [(''key'', JStr k), (''value'', or_else JNull (jget args ''value'')), (''stored'', JBool True)]))"

definition StateSetTool :: "'w host \<Rightarrow> 'w native_tool" where
  "StateSetTool H = tool H ''atta-state-set'' ''Write a value to the shared state store'' Medium
     (object_schema
        [(''key'', described ''string'' ''State key''), (''value'', mk_obj [(''description'', JStr ''Value to store (any JSON)'')])]
        [''key'', ''value''])
     state_set"

definition delegate_status :: "json \<Rightarrow> 'w tool_run" where
  "delegate_status args =
     need_text args ''delegation_id'' [] (\<lambda>i.
     retE (mk_obj [(''delegation_id'', JStr i), (''status'', JStr ''unknown''), (''message'', JStr ''Delegation not found'')]))"

definition DelegateStatusTool :: "'w host \<Rightarrow> 'w native_tool" where
  "DelegateStatusTool H = tool H ''atta-delegate-status'' ''Query the status of a delegated task or coordination group'' Medium
     (object_schema [(''delegation_id'', described ''string'' ''ID of the delegation to query'')] [''delegation_id'']) delegate_status"

definition task_plan :: "json \<Rightarrow> 'w tool_run" where
  "task_plan args =
     need_text args ''task'' [] (\<lambda>t.
     retE (mk_obj [(''task'', JStr t), (''subtasks'', JArr []),
       (''message'', JStr (''Task planning requires LLM integration '' @ em_dash @ '' returning empty plan''))]))"

definition TaskPlanTool :: "'w host \<Rightarrow> 'w native_tool" where
  "TaskPlanTool H = tool H ''atta-task-plan'' ''Decompose a complex task into ordered sub-tasks with dependencies'' Low
     (object_schema
        [(''task'', described ''string'' ''The task to decompose''),
         (''max_subtasks'', described_default ''integer'' ''Maximum number of sub-tasks'' (JInt 10))] [''task''])
     task_plan"

definition as_i64 :: "json \<Rightarrow> int option" where
  "as_i64 v = (case v of JInt i \<Rightarrow> if - (2 ^ 63) \<le> i \<and> i < 2 ^ 63 then Some i else None | _ \<Rightarrow> None)"

definition pushover :: "'w host \<Rightarrow> json \<Rightarrow> 'w tool_run" where
  "pushover H args =
     need_text args ''message'' [] (\<lambda>m.
       if ho_var H ''PUSHOVER_TOKEN'' = None then refuse ''PUSHOVER_TOKEN env var not set''
       else if ho_var H ''PUSHOVER_USER'' = None then refuse ''PUSHOVER_USER env var not set''
       else retE (mk_obj [(''sent'', JBool True), (''title'', JStr (or_else ''AttaOS Notification'' (jget_str args ''title''))),
         (''message'', JStr m), (''priority'', JInt (or_else 0 (Option.bind (jget args ''priority'') as_i64))),
         (''note'', JStr ''Pushover notification queued (requires network access)'')]))"

definition PushoverTool :: "'w host \<Rightarrow> 'w native_tool" where
  "PushoverTool H = tool H ''atta-pushover''
     ''Send a push notification via Pushover (requires PUSHOVER_TOKEN and PUSHOVER_USER env vars)'' Medium
     (object_schema
        [(''title'', described ''string'' ''Notification title''), (''message'', described ''string'' ''Notification message''),
         (''priority'', described_default ''integer'' ''Priority: -2 (lowest) to 2 (emergency)'' (JInt 0))] [''message''])
     (pushover H)"

definition schedule :: "'w host \<Rightarrow> json \<Rightarrow> 'w tool_run" where
  "schedule H args =
     need_text args ''task'' [] (\<lambda>t. need_text args ''run_at'' [] (\<lambda>at.
     bindE (ask (ho_uuid H)) (\<lambda>i.
     retE (mk_obj [(''schedule_id'', JStr i), (''task'', JStr t), (''run_at'', JStr at), (''status'', JStr ''scheduled'')]))))"

definition ScheduleTool :: "'w host \<Rightarrow> 'w native_tool" where
  "ScheduleTool H = tool H ''atta-schedule'' ''Schedule a task for future execution with persistent storage and retry support'' Medium
     (object_schema
        [(''task'', described ''string'' ''Task description''),
         (''run_at'', described ''string'' (''ISO 8601 datetime to run (e.g. '' @ squote ''2024-12-25T10:00:00Z'' @ '')'')),
         (''retry_count'', described_default ''integer'' ''Number of retry attempts on failure'' (JInt 0)),
         (''retry_delay_secs'', described_default ''integer'' ''Delay between retries in seconds'' (JInt 60))] [''task'', ''run_at''])
     (schedule H)"

definition model_routing :: "json \<Rightarrow> 'w tool_run" where
  "model_routing args =
     need_text args ''action'' [] (\<lambda>a.
       if a = ''query'' then retE (mk_obj [(''status'', JStr ''not_implemented''), (''message'', JStr ''model routing requires LLM provider integration'')])
       else if a = ''switch'' then retE (mk_obj [(''status'', JStr ''not_implemented''), (''message'', JStr ''model switching requires LLM provider integration'')])
       else refuse (''unknown action: '' @ a))"

definition ModelRoutingTool :: "'w host \<Rightarrow> 'w native_tool" where
  "ModelRoutingTool H = tool H ''atta-model-routing'' ''Switch or query the active LLM model for the current conversation'' Low
     (object_schema
        [(''action'', one_of [''query'', ''switch''] ''Action to perform''),
         (''model_id'', described ''string'' ''Model ID to switch to (for switch action)'')] [''action''])
     model_routing"

definition proxy_config :: "'w host \<Rightarrow> json \<Rightarrow> 'w tool_run" where
  "proxy_config H args =
     need_text args ''action'' [] (\<lambda>a.
       if a = ''get'' then
         retE (mk_obj [(''http_proxy'', JStr (or_else [] (ho_var H ''HTTP_PROXY''))), (''https_proxy'', JStr (or_else [] (ho_var H ''HTTPS_PROXY''))),
                       (''no_proxy'', JStr (or_else [] (ho_var H ''NO_PROXY'')))])
       else if a = ''set'' then
         retE (mk_obj [(''status'', JStr ''not_implemented''), (''message'', JStr ''proxy configuration requires runtime integration'')])
       else refuse (''unknown action: '' @ a))"

definition ProxyConfigTool :: "'w host \<Rightarrow> 'w native_tool" where
  "ProxyConfigTool H = tool H ''atta-proxy-config'' ''Query or configure HTTP proxy settings'' Low
     (object_schema
        [(''action'', one_of [''get'', ''set''] ''Action to perform''), (''http_proxy'', described ''string'' ''HTTP proxy URL''),
         (''https_proxy'', described ''string'' ''HTTPS proxy URL''),
         (''no_proxy'', described ''string'' ''Comma-separated list of hosts to bypass'')] [''action''])
     (proxy_config H)"

section \<open>All tools\<close>

definition register_core_tools :: "'w host \<Rightarrow> bool \<Rightarrow> bool \<Rightarrow> (uuid \<Rightarrow> string) \<Rightarrow> 'w native_tool list" where
  "register_core_tools H web browser show_id =
     [ShellTool H, FileReadTool H, FileWriteTool H, FileEditTool H, ApplyPatchTool H, GlobSearchTool H, ContentSearchTool H,
      GitOpsTool H, ProcessTool H, CronTool H None, DelegationTool H delegate_default None,
      CronListTool H None, CronRemoveTool H None, CronUpdateTool H None, CronRunTool H None, CronRunsTool H None,
      SubagentSpawnTool H None, SubagentListTool H None, SubagentManageTool H None, DelegateStatusTool H,
      AgentsListTool H, AgentsSendTool H, AgentsInboxTool H, StateGetTool H, StateSetTool H, TaskPlanTool H, ImageInfoTool H,
      UrlValidationTool H, CliDiscoveryTool H, PushoverTool H, ScheduleTool H, ScreenshotTool H, PdfReadTool H,
      ModelRoutingTool H, ProxyConfigTool H, StartFlowTool H show_id None] @
     (if web then [WebFetchTool H, WebSearchTool H, HttpRequestTool H] else []) @
     (if browser then [BrowserTool H stub_browser] else [])"

definition register_all_tools :: "'w host \<Rightarrow> bool \<Rightarrow> bool \<Rightarrow> (uuid \<Rightarrow> string) \<Rightarrow> 'w memory_env \<Rightarrow> 'w memory_store option \<Rightarrow> 'w native_tool list" where
  "register_all_tools H web browser show_id V S =
     register_core_tools H web browser show_id @ [MemoryStoreTool H V S, MemoryRecallTool H V S, MemoryForgetTool H V S]"

end
