(* ===== verification/Server_Tools.thy ===== *)
theory Server_Tools
  imports Shipped_Tools React
begin

text \<open>
  The tools of a running server: the built-in ones (\<open>crates/core/src/builtin_tools.rs\<close>), the shipped ones, and the ones that
  are put in their place when the services they call exist (\<open>crates/server/src/services.rs\<close>, \<open>crates/server/src/main.rs\<close>);
  the agent of a delegated task. Then what the security guard makes of the names of all these tools, and what an edit does.
\<close>

section \<open>The registry of the server\<close>

definition echo_handler :: "json \<Rightarrow> ('w, atta_error, json) io" where
  "echo_handler args = retE (mk_obj [(''echoed'', args)])"

definition time_handler :: "('w \<Rightarrow> string \<times> 'w) \<Rightarrow> json \<Rightarrow> ('w, atta_error, json) io" where
  "time_handler now args = bindE (ask now) (\<lambda>t. retE (mk_obj [(''utc'', JStr t)]))"

definition echo_def :: tool_def where
  "echo_def =
     \<lparr>tool_name = ''builtin-echo'', tool_description = ''Echo back the input arguments. Useful for testing.'',
      tool_binding = BuiltinBinding ''echo'', tool_risk = Low,
      tool_parameters = typed ''object'' [properties [(''text'', described ''string'' ''Text to echo back'')]]\<rparr>"

definition time_def :: tool_def where
  "time_def =
     \<lparr>tool_name = ''builtin-get_current_time'', tool_description = ''Get the current UTC time.'',
      tool_binding = BuiltinBinding ''get_current_time'', tool_risk = Low, tool_parameters = typed ''object'' [properties []]\<rparr>"

definition register_builtins :: "('w \<Rightarrow> string \<times> 'w) \<Rightarrow> 'w tool_reg \<Rightarrow> 'w tool_reg" where
  "register_builtins now R =
     reg_register time_def (reg_register_builtin ''get_current_time'' (time_handler now)
       (reg_register echo_def (reg_register_builtin ''echo'' echo_handler R)))"

text \<open>What the tools of a server reach: the host, the stores and the services.\<close>

record 'w tool_services =
  ts_host :: "'w host"
  ts_now :: "'w \<Rightarrow> string \<times> 'w"
  ts_show_id :: "uuid \<Rightarrow> string"
  ts_memory_env :: "'w memory_env"
  ts_memory :: "'w memory_store"
  ts_runner :: "'w sub_runner"
  ts_cron :: "'w cron_scheduler"
  ts_agents :: "'w sub_agents"
  ts_flows :: "'w flow_runner"
  ts_mcp :: "'w mcp_clients"
  ts_web :: bool
  ts_browser :: bool

definition shipped_tools :: "'w tool_services \<Rightarrow> 'w native_tool list" where
  "shipped_tools T = register_all_tools (ts_host T) (ts_web T) (ts_browser T) (ts_show_id T) (ts_memory_env T) (Some (ts_memory T))"

text \<open>The registry of \<open>build_services\<close>, and the tools that \<open>run_server\<close> puts in the place of those without a service.\<close>

definition startup_registry :: "'w tool_services \<Rightarrow> 'w tool_reg" where
  "startup_registry T =
     fold reg_register_native (shipped_tools T) (register_builtins (ts_now T) (with_mcp_registry (ts_mcp T) reg_new))"

definition late_bound :: "'w tool_services \<Rightarrow> 'w native_tool list" where
  "late_bound T =
     (let H = ts_host T; S = Some (ts_cron T); A = Some (ts_agents T) in
      [DelegationTool H delegate_default (Some (ts_runner T)),
       CronTool H S, CronListTool H S, CronRemoveTool H S, CronUpdateTool H S, CronRunTool H S, CronRunsTool H S,
       SubagentSpawnTool H A, SubagentListTool H A, SubagentManageTool H A,
       StartFlowTool H (ts_show_id T) (Some (ts_flows T))])"

definition server_registry :: "'w tool_services \<Rightarrow> 'w tool_reg" where
  "server_registry T = fold reg_replace_native (late_bound T) (startup_registry T)"

text \<open>
  The agent of a delegated task. \<open>late\<close> says what the world is when the time is over before the agent has ended; the model
  that is asked for and the depth have no effect but for the number in the prompt.
\<close>

definition sub_agent_prompt :: "u32 \<Rightarrow> string" where
  "sub_agent_prompt d = ''You are a sub-agent (depth '' @ show_nat (unat d) @ ''). Complete the following task concisely.''"

definition sub_agent_tools :: "tool_schema list \<Rightarrow> string list option \<Rightarrow> tool_schema list" where
  "sub_agent_tools all_tools allowed =
     (case allowed of None \<Rightarrow> all_tools | Some ns \<Rightarrow> filter (\<lambda>t. List.member ns (schema_name t)) all_tools)"

definition run_sub_agent :: "aenv \<Rightarrow> 'w llm \<Rightarrow> 'w tool_registry \<Rightarrow> tool_schema list \<Rightarrow> 'w host \<Rightarrow> (nat \<Rightarrow> 'w \<Rightarrow> 'w option) \<Rightarrow> 'w sub_runner" where
  "run_sub_agent A L R schemas H late task model allowed timeout depth =
     (\<lambda>w. case late timeout w of
            Some w1 \<Rightarrow> (Inl (Agent (AgentTimeout timeout)), w1)
          | None \<Rightarrow>
              as_seen H (\<lambda>w. case react_run A ((react_new L R 10)\<lparr>ac_tools := sub_agent_tools schemas allowed\<rparr>)
                                 (agent_start (add_user task (set_system (sub_agent_prompt depth) (context_new 4096))) w)
                          of (r, a) \<Rightarrow> (r, ag_world a)) w)"

section \<open>The guard and the tools of the server\<close>

text \<open>Every native tool of a registry is found under its own name.\<close>

definition natives_stand :: "(string \<Rightarrow> bool) \<Rightarrow> 'w tool_reg \<Rightarrow> bool" where
  "natives_stand P R \<longleftrightarrow> (\<forall>n t. tbl_get (rg_natives R) n = Some t \<longrightarrow> nt_name t = n \<and> P n \<and> own_entry R t)"

lemma natives_stand_added: "natives_stand P R \<Longrightarrow> P (nt_name t) \<Longrightarrow> natives_stand P (reg_register_native t R)"
proof -
  assume R: "natives_stand P R" and t: "P (nt_name t)"
  have get: "tbl_get (rg_natives (reg_register_native t R)) n = (if n = nt_name t then Some t else tbl_get (rg_natives R) n)" for n
    by (simp add: reg_register_native_def reg_register_def tbl_get_upsert split: option.split)
  show ?thesis
    unfolding natives_stand_def get using R t
    by (auto simp: natives_stand_def own_entry_added intro: own_entry_other)
qed

lemma natives_stand_more:
  "natives_stand P R \<Longrightarrow> \<forall>t\<in>set ts. P (nt_name t) \<Longrightarrow> natives_stand P (fold reg_register_native ts R)"
  by (induction ts arbitrary: R) (simp_all add: natives_stand_added)

lemma natives_stand_builtins: "natives_stand P (register_builtins now (with_mcp_registry m reg_new))"
  by (simp add: natives_stand_def register_builtins_def reg_register_def reg_register_builtin_def with_mcp_registry_def reg_new_def)

lemmas file_tool_defs =
  FileReadTool_def FileWriteTool_def FileEditTool_def ApplyPatchTool_def GlobSearchTool_def ContentSearchTool_def GitOpsTool_def
  ProcessTool_def ShellTool_def PdfReadTool_def ScreenshotTool_def CliDiscoveryTool_def ImageInfoTool_def WebFetchTool_def
  HttpRequestTool_def WebSearchTool_def UrlValidationTool_def

lemmas service_tool_defs =
  CronTool_def CronListTool_def CronRemoveTool_def CronRunTool_def CronRunsTool_def CronUpdateTool_def SubagentSpawnTool_def
  SubagentListTool_def SubagentManageTool_def DelegationTool_def StartFlowTool_def MemoryStoreTool_def MemoryRecallTool_def
  MemoryForgetTool_def BrowserTool_def

lemmas answer_tool_defs =
  AgentsInboxTool_def AgentsListTool_def AgentsSendTool_def StateGetTool_def StateSetTool_def DelegateStatusTool_def TaskPlanTool_def
  PushoverTool_def ScheduleTool_def ModelRoutingTool_def ProxyConfigTool_def

lemma name_of_tool: "nt_name (tool H n d r s run) = n"
  by (simp add: tool_def)

lemmas tool_names = file_tool_defs [THEN arg_cong, of nt_name, unfolded name_of_tool]
  service_tool_defs [THEN arg_cong, of nt_name, unfolded name_of_tool] answer_tool_defs [THEN arg_cong, of nt_name, unfolded name_of_tool]

lemma shipped_names: "\<forall>t\<in>set (shipped_tools T). starts_with (nt_name t) ''atta-''"
  unfolding list_all_iff [symmetric] shipped_tools_def register_all_tools_def register_core_tools_def
  by (simp add: tool_names starts_with_def split: if_split)

lemma late_names: "\<forall>t\<in>set (late_bound T). starts_with (nt_name t) ''atta-''"
  unfolding list_all_iff [symmetric] late_bound_def Let_def by (simp add: tool_names starts_with_def)

lemma replace_is_register: "reg_replace_native = reg_register_native"
  by (intro ext) (simp add: reg_replace_native_def)

lemma server_natives_stand: "natives_stand (\<lambda>n. starts_with n ''atta-'') (server_registry T)"
  unfolding server_registry_def startup_registry_def replace_is_register
  by (intro natives_stand_more natives_stand_builtins shipped_names late_names)

text \<open>
  C39. A call of any native tool of a running server under its name passes the guard with its arguments as they are: no
  command, path or URL is checked against the policy, a policy without network and a stop of all network tools do not
  matter, and nobody is asked for approval. The exceptions, which look at the name or at the arguments of any tool, are: the
  policy is read-only, the rate of calls is exceeded, or the emergency stop is for all tools, freezes this tool, or blocks a
  domain that occurs in the argument \<open>url\<close> of the call.
\<close>

theorem server_tools_escape_guard:
  assumes "tbl_get (rg_natives (server_registry T)) n = Some t" and "sp_autonomy (gc_policy cfg) \<noteq> ReadOnly"
    and "clear_of_stops g n args" and "within_rate G cfg g"
    and "guard_invoke G cfg (reg_invoke js (server_registry T)) n args g = (result, g')"
  shows "gd_inner g' = snd (nt_execute t args (gd_inner g)) \<and> gd_asks g' = gd_asks g"
proof -
  have t: "nt_name t = n" "starts_with n ''atta-''" "own_entry (server_registry T) t"
    using assms(1) server_natives_stand [of T] unfolding natives_stand_def by blast+
  show ?thesis
    by (rule native_calls_escape_guard [OF t(3) _ assms(2)]) (use assms(3-5) t in simp_all)
qed

definition wipe_command :: json where
  "wipe_command = mk_obj [(''command'', JStr ''rm -rf /'')]"

text \<open>A host that notes the commands it is given, and a server on it.\<close>

definition noting :: "command \<Rightarrow> (command list, string, command_output) io" where
  "noting c = (\<lambda>ran. (Inr \<lparr>co_code = Some 0, co_stdout = [], co_stderr = []\<rparr>, ran @ [c]))"

definition noting_host :: "command list host" where
  "noting_host =
     \<lparr>ho_read = (\<lambda>_. failE []), ho_write = (\<lambda>_ _. retE ()), ho_append = (\<lambda>_ _. retE ()), ho_mkdirs = (\<lambda>_. retE ()),
      ho_remove = (\<lambda>_. retE ()), ho_size = (\<lambda>_. retE 0), ho_glob = (\<lambda>_. retE []), ho_run = noting,
      ho_run_within = (\<lambda>_ c. bindE (noting c) (\<lambda>out. retE (Some out))), ho_http = (\<lambda>_ _ _ _. failE []),
      ho_uuid = (\<lambda>w. ([], w)), ho_var = (\<lambda>_. None), ho_macos = False, ho_panic = (\<lambda>w. (Inl (OtherError []), w))\<rparr>"

definition noting_services :: "command list tool_services" where
  "noting_services =
     \<lparr>ts_host = noting_host, ts_now = (\<lambda>w. ([], w)), ts_show_id = (\<lambda>_. []),
      ts_memory_env = \<lparr>mv_uuid = (\<lambda>w. (0, w)), mv_now = (\<lambda>w. (0, w)), mv_show = (\<lambda>_. []), mv_parse = (\<lambda>_. Inl []),
        mv_date = (\<lambda>_. []), mv_score = (\<lambda>_. JNull), mv_json = (\<lambda>_. None)\<rparr>,
      ts_memory = noop_memory, ts_runner = (\<lambda>_ _ _ _ _. retE JNull),
      ts_cron = \<lparr>cs_schedule = (\<lambda>_ _ _. retE JNull), cs_list = (\<lambda>_. retE JNull), cs_cancel = (\<lambda>_. retE ()),
        cs_trigger = (\<lambda>_. retE JNull), cs_history = (\<lambda>_ _. retE JNull), cs_update = (\<lambda>_ _ _. retE JNull)\<rparr>,
      ts_agents = \<lparr>sa_spawn = (\<lambda>_ w. ([], w)), sa_list = (\<lambda>_. JNull), sa_pause = (\<lambda>_. retE ()), sa_resume = (\<lambda>_. retE ()),
        sa_terminate = (\<lambda>_. retE ())\<rparr>,
      ts_flows = \<lparr>fr_start = (\<lambda>_ _ _. failE (OtherError [])), fr_list = retE []\<rparr>, ts_mcp = [], ts_web = True, ts_browser = True\<rparr>"

text \<open>The shell tool is registered first and no tool after it has its name.\<close>

lemma shell_is_first:
  "\<exists>us. shipped_tools T = ShellTool (ts_host T) # us \<and> list_all (\<lambda>u. nt_name u \<noteq> ''atta-shell'') us"
  by (simp add: shipped_tools_def register_all_tools_def register_core_tools_def tool_names split: if_split)

lemma shell_not_replaced: "list_all (\<lambda>u. nt_name u \<noteq> ''atta-shell'') (late_bound T)"
  by (simp add: late_bound_def Let_def tool_names)

lemma shell_stays: "own_entry (server_registry T) (ShellTool (ts_host T))"
proof -
  obtain us where us: "shipped_tools T = ShellTool (ts_host T) # us" and other: "list_all (\<lambda>u. nt_name u \<noteq> ''atta-shell'') us"
    using shell_is_first by blast
  have "nt_name (ShellTool (ts_host T)) \<notin> nt_name ` set us" "nt_name (ShellTool (ts_host T)) \<notin> nt_name ` set (late_bound T)"
    using other shell_not_replaced [of T] by (auto simp: tool_names list_all_iff)
  then show ?thesis
    unfolding server_registry_def startup_registry_def replace_is_register us
    by (auto intro!: natives.present_more own_entry_added)
qed

definition idle_guard :: "command list guard" where
  "idle_guard =
     \<lparr>gd_estop = None, gd_tracker = \<lparr>tk_calls = [], tk_high = []\<rparr>, gd_allow = [], gd_events = [], gd_ticks = 0, gd_asks = 0,
      gd_sends = 0, gd_inner = []\<rparr>"

definition server_config :: guard_config where
  "server_config = \<lparr>gc_policy = policy_default\<lparr>sp_allow_network := False\<rparr>, gc_manager = None, gc_events = False\<rparr>"

lemma wipe_command_reads:
  "jget_str wipe_command ''command'' = Some ''rm -rf /''" "jget_str wipe_command ''working_dir'' = None"
  "jget_u64 wipe_command ''timeout_seconds'' = None"
  by (simp_all add: wipe_command_def jget_str_def jget_u64_def mk_obj_def)

lemma nothing_to_cut: "utf8_lossy [] = []" "cut_at 100000 [] = retE []"
  by (code_simp, simp add: cut_at_def)

lemma shell_runs:
  "snd (nt_execute (ShellTool noting_host) wipe_command []) = [\<lparr>cm_program = ''sh'', cm_args = [''-c'', ''rm -rf /''], cm_dir = None\<rparr>]"
  by (simp add: ShellTool_def tool_def as_seen_def shell_run_def need_text_def wipe_command_reads Let_def bindE_apply os_def tryE_apply
      noting_host_def noting_def retE_def nothing_to_cut)

text \<open>The same command under the old name of the tool is refused.\<close>

theorem server_tools_escape_guard_witness:
  "gd_inner (snd (guard_invoke plain_env server_config (reg_invoke (\<lambda>_. []) (server_registry noting_services)) ''atta-shell'' wipe_command idle_guard)) =
     [\<lparr>cm_program = ''sh'', cm_args = [''-c'', ''rm -rf /''], cm_dir = None\<rparr>] \<and>
   fst (check_permission plain_env server_config ''shell'' wipe_command idle_guard) =
     Inl (PermissionDenied (''tool '' @ squote ''shell'' @ '' is high-risk and requires approval in Supervised mode''))"
proof
  have host: "ts_host noting_services = noting_host" by (simp add: noting_services_def)
  have tool: "tbl_get (rg_natives (server_registry noting_services)) ''atta-shell'' = Some (ShellTool noting_host)"
    using shell_stays [of noting_services] by (simp add: own_entry_def host tool_names)
  obtain r g' where run: "guard_invoke plain_env server_config (reg_invoke (\<lambda>_. []) (server_registry noting_services)) ''atta-shell''
      wipe_command idle_guard = (r, g')" by fastforce
  have "gd_inner g' = snd (nt_execute (ShellTool noting_host) wipe_command (gd_inner idle_guard)) \<and> gd_asks g' = gd_asks idle_guard"
    by (rule server_tools_escape_guard [OF tool _ _ _ run])
      (simp_all add: server_config_def policy_default_def clear_of_stops_def idle_guard_def within_rate_def record_call_def
        record_at_def expire_def plain_env_def)
  then show "gd_inner (snd (guard_invoke plain_env server_config (reg_invoke (\<lambda>_. []) (server_registry noting_services)) ''atta-shell''
      wipe_command idle_guard)) = [\<lparr>cm_program = ''sh'', cm_args = [''-c'', ''rm -rf /''], cm_dir = None\<rparr>]"
    using run shell_runs by (simp add: idle_guard_def)
  show "fst (check_permission plain_env server_config ''shell'' wipe_command idle_guard) =
     Inl (PermissionDenied (''tool '' @ squote ''shell'' @ '' is high-risk and requires approval in Supervised mode''))"
    by (simp add: check_permission_def bindE_def idle_guard_def Let_def classify_def check_autonomy_def server_config_def policy_default_def)
qed

section \<open>An edit\<close>

text \<open>
  C40. An edit that is not for all places changes a file only where the old text occurs once and no second time after it:
  what stands before and behind it is written back as it was. In every other case, the file unreadable, the text absent or
  found again, the tool fails and writes nothing.
\<close>

theorem edit_changes_one_place:
  assumes "jget_str args ''path'' = Some path" and "jget_str args ''old_string'' = Some old" and "jget_str args ''new_string'' = Some new"
    and "old \<noteq> []" and "\<not> flag args ''replace_all''"
  shows "case ho_read H path w of
      (Inl e, w1) \<Rightarrow> file_edit H args w = (Inl (Fails (OtherError e)), w1)
    | (Inr held, w1) \<Rightarrow>
        (case split_once old held of
           None \<Rightarrow> \<exists>t. file_edit H args w = (Inl (Fails (Validation t)), w1)
         | Some (before, rest) \<Rightarrow>
             held = before @ old @ rest \<and>
             (if contains rest old then \<exists>t. file_edit H args w = (Inl (Fails (Validation t)), w1)
              else snd (file_edit H args w) = snd (ho_write H path (before @ new @ rest) w1)))"
proof -
  have count: "count_matches old s = (case split_once old s of None \<Rightarrow> 0 | Some (l, rest) \<Rightarrow> Suc (count_matches old rest))" for s
    using assms(4) by (subst count_matches.simps) simp
  have again: "count_matches old rest = 0 \<longleftrightarrow> \<not> contains rest old" for rest
    using assms(4) by (rule no_match_iff)
  note run = file_edit_def need_text_def assms(1-3,5) Let_def bindE_apply os_def tryE_apply refuse_def failE_def retE_def
  show ?thesis
  proof (cases "ho_read H path w")
    case (Pair r w1)
    show ?thesis
    proof (cases r)
      case (Inl e)
      with Pair show ?thesis by (simp add: run)
    next
      case (Inr held)
      show ?thesis
      proof (cases "split_once old held")
        case None
        with Pair Inr show ?thesis by (simp add: run count)
      next
        case (Some x)
        obtain before rest where x: "x = (before, rest)" by fastforce
        have n: "count_matches old held = Suc (count_matches old rest)" using Some x by (subst count) simp
        show ?thesis
        proof (cases "contains rest old")
          case True
          then have "count_matches old rest \<noteq> 0" using again [of rest] by blast
          with Pair Inr Some x n True split_once_Some [of old held before rest] show ?thesis by (simp add: run)
        next
          case False
          then have "count_matches old held = 1" using again [of rest] n by linarith
          with Pair Inr Some x False split_once_Some [of old held before rest] show ?thesis
            by (simp add: run replace_first_def split: prod.split sum.split)
        qed
      qed
    qed
  qed
qed

definition edit_args :: json where
  "edit_args = mk_obj [(''path'', JStr ''f''), (''old_string'', JStr ''b''), (''new_string'', JStr ''xy'')]"

text \<open>A host with one file, which is its world.\<close>

definition one_file :: "string host" where
  "one_file =
     \<lparr>ho_read = (\<lambda>_ w. (Inr w, w)), ho_write = (\<lambda>_ t w. (Inr (), t)), ho_append = (\<lambda>_ t w. (Inr (), w @ t)), ho_mkdirs = (\<lambda>_. retE ()),
      ho_remove = (\<lambda>_ w. (Inr (), [])), ho_size = (\<lambda>_ w. (Inr (length w), w)), ho_glob = (\<lambda>_. retE []), ho_run = (\<lambda>_. failE []),
      ho_run_within = (\<lambda>_ _. failE []), ho_http = (\<lambda>_ _ _ _. failE []),
      ho_uuid = (\<lambda>w. ([], w)), ho_var = (\<lambda>_. None), ho_macos = False, ho_panic = (\<lambda>w. (Inl (OtherError []), w))\<rparr>"

theorem edit_changes_one_place_witness:
  "snd (file_edit one_file edit_args ''abc'') = ''axyc'' \<and> (\<exists>t. file_edit one_file edit_args ''abcb'' = (Inl (Fails (Validation t)), ''abcb''))"
proof -
  have args: "jget_str edit_args ''path'' = Some ''f''" "jget_str edit_args ''old_string'' = Some ''b''"
    "jget_str edit_args ''new_string'' = Some ''xy''" "\<not> flag edit_args ''replace_all''"
    by code_simp+
  have parts: "split_once ''b'' ''abc'' = Some (''a'', ''c'')" "split_once ''b'' ''abcb'' = Some (''a'', ''cb'')"
    "\<not> contains ''c'' ''b''" "contains ''cb'' ''b''"
    by code_simp+
  note edit = edit_changes_one_place [OF args(1-3) _ args(4), of one_file]
  have "snd (file_edit one_file edit_args ''abc'') = ''axyc''"
    using edit [of "''abc''"] parts by (simp add: one_file_def)
  moreover have "\<exists>t. file_edit one_file edit_args ''abcb'' = (Inl (Fails (Validation t)), ''abcb'')"
    using edit [of "''abcb''"] parts by (simp add: one_file_def)
  ultimately show ?thesis by blast
qed

end
