(* ===== verification/Spec2Isabelle.thy ===== *)
theory Spec2Isabelle
  imports Flow_Props Api_Props Cron Guard_Props Coordinator_Props Reliable Bus Dispatch_Props Remote_Props Admin_Props Store_Readback Tool_Api
    Agent_Registry Middleware Provider_Props Channel_Api Mcp_Props Server_Tools
begin

text \<open>
  A verification development for OpenAtta, the control plane of an agent operating system (Rust workspace under
  \<open>src/crates\<close>). Tasks run through flows: state machines whose transitions are automatic, or guarded by
  conditions on the outcome of agents and approvals. The state lives in a store, the parts talk over an event bus, and
  HTTP handlers drive both. The coordinator listens to the bus: it starts an agent where a flow has entered an agent
  state and moves the task when the agent is done. An agent is a loop of a language model and tools; the guard stands
  between them and checks every call against the security policy, the emergency stop and the people asked for approval.

  Conventions. Strings are byte lists, time stamps integers (nanoseconds), identifiers 128-bit words, versions and
  counters words of the width the source gives them. An operation that may fail returns \<open>error + value\<close>
  with the errors of \<open>crates/types/src/error.rs\<close>, and threads its state; \<open>bindE\<close> is the \<open>?\<close>
  of the source. The environment (\<open>env\<close>, \<open>genv\<close>) answers what the program reads from outside by the
  number of the question: clock readings, fresh identifiers, failures of the driver and of the bus, and what other requests
  do to the database between two store calls. So a theorem about all environments is one about all failures and
  interleavings; \<open>quiet\<close> environments have neither. Text forms of identifiers, dates, JSON and cron
  expressions are parameters with the round trips the code relies on as hypotheses (\<open>env_texts_ok\<close>).

  The theories, bottom up:
  \<^item> \<open>Atta_Prelude\<close>: the error monad with a triple calculus, strings, JSON values.
  \<^item> \<open>Atta_Types\<close>, \<open>Error_Text\<close>: the domain types (\<open>crates/types/src\<close>) and the texts of errors.
  \<^item> \<open>Table\<close>, \<open>Store_Core\<close>: keyed rows (locale \<open>keyed_rows\<close>); the SQLite store for tasks, flows,
    approvals, roles and cron jobs (\<open>crates/store/src/sqlite.rs\<close>); what every operation keeps, and the
    locale \<open>versioned_rows\<close> of an optimistic lock, interpreted on \<open>advance_task\<close>.
  \<^item> \<open>World\<close>: the database with the outside: store calls, publications, event constructors
    (\<open>crates/types/src/event.rs\<close>).
  \<^item> \<open>Condition\<close>: parser and evaluator of conditions (\<open>crates/core/src/condition.rs\<close>).
  \<^item> \<open>Flow_Engine\<close>: the flow engine (\<open>crates/core/src/flow_engine.rs\<close>). \<open>Flow_Facts\<close>: well-formed flows
    and the invariants every operation keeps (locales \<open>side_inv\<close>, \<open>store_inv\<close>). \<open>Flow_Safety\<close>:
    histories are paths under interference. \<open>Flow_Quiet\<close>: refinement of an abstract state machine,
    for flows without parallel states.
    \<open>Flow_Limits\<close>: what the engine does not do (gates, joins, retries). \<open>Flow_Props\<close>: the properties.
  \<^item> \<open>Auth\<close>: authorisation (\<open>crates/auth/src\<close>), locale \<open>authorizer\<close>. \<open>Api\<close>, \<open>Api_Props\<close>: the
    handlers of tasks, flows and approvals (\<open>crates/core/src/server\<close>).
  \<^item> \<open>Cron\<close>: the cron engine and its handlers (\<open>crates/core/src/cron_engine.rs\<close>).
  \<^item> \<open>Classifier\<close>, \<open>Security_State\<close>, \<open>Scrub\<close>, \<open>Ip_Address\<close>, \<open>Guard\<close>, \<open>Guard_Props\<close>
    (\<open>crates/security/src\<close>): risk classes and the validation of shell commands; the rate windows, the emergency
    stop with its file, and the tool approvals with their four backends (locale \<open>approval_backend\<close>); the removal of
    secrets from results; the private address ranges; the guard that composes all of them, and what passes it.
  \<^item> \<open>Loop_Detector\<close>, \<open>Conversation\<close>, \<open>Tool_Executor\<close>, \<open>Llm\<close>, \<open>React\<close> (\<open>crates/agent/src\<close>): the
    three loop detectors; messages and the truncation to the token budget with its declarative specification
    \<open>truncated\<close>; the executors with hooks, time limits and parallel calls; the dispatchers of answers and the
    reassembly of streams; the research phase and the plain and the streaming run.
  \<^item> \<open>Agent_Facts\<close>: the locales \<open>tool_provider\<close> (tools that keep a property of the world) and \<open>agent_world\<close> (a model
    that does too), in which every run keeps it. \<open>Agent_Props\<close> interprets them on the guarded registry under an emergency
    stop, and holds the properties of the loop. \<open>Agent_Stream\<close>: the streaming run simulates the plain one.
  \<^item> \<open>Reliable\<close>: the failover chain of providers with its backoff, and the router by hints.
  \<^item> \<open>Bus\<close>: the in-process event bus and the hub of web socket clients (\<open>crates/bus/src\<close>).
  \<^item> \<open>Coordinator\<close>, \<open>Coordinator_Props\<close> (\<open>crates/core/src/coordinator.rs\<close>): its handlers and the tasks they spawn;
    how an event reaches an agent and its result the flow, and a shipped flow that does not wait for its agent.
  \<^item> \<open>Channel_Policy\<close>, \<open>Debounce\<close>, \<open>Chat_Session\<close>, \<open>Dispatch\<close> (\<open>crates/channel/src\<close>): the policies a
    chat message passes (locale \<open>message_gate\<close>, interpreted on every chain of policies), the debouncer and its
    loss-free refinement, the session keys and takeovers, the message store, and the dispatch loop with its handler, retry
    and clean-up tasks as events of one state. \<open>Dispatch_Props\<close>: invariants of every run (locale \<open>gated_pipe\<close>,
    interpreted on the chain of policies): blocked messages, held messages, buffered messages.

  \<^item> \<open>Store_Admin\<close>, \<open>Store_Admin_Facts\<close>: the rest of the SQLite store: tools, skills, packages, MCP servers, service
    accounts, nodes, usage records, approvals by filter, remote agents; usage reports account for what was recorded.
    \<open>Store_Readback\<close>: after any sequence of statements the readers show what an abstract registry, a map from keys to
    entries, holds. \<open>Audit_Log\<close> (\<open>crates/audit/src\<close>, locale \<open>audit_sink\<close>): the log, its filters, its exports and what
    an entry loses on the way back; times and details are the texts of their columns.
  \<^item> \<open>App\<close>: the state the administrative handlers share and the calculus of their replies. \<open>Remote\<close>, \<open>Remote_Props\<close>: the hub
    of remote agents, their connections and handlers (\<open>crates/core/src/remote_agent_hub.rs\<close>,
    \<open>server/handlers/remote.rs\<close>). \<open>Tool_Registry\<close> (locale \<open>native_registry\<close>), \<open>Tool_Api\<close>: registration and dispatch of tools,
    the handlers of tools, MCP servers and the security policy. \<open>Agent_Registry\<close>: sub-agents and their tasks.
    \<open>Middleware\<close>: authentication. \<open>Numbers\<close>: the parsing of integers. \<open>Admin_Api\<close>, \<open>Admin_Props\<close>: the handlers of nodes,
    packages, skills and usage.
  \<^item> \<open>Schema_Clean\<close>, \<open>Providers\<close>, \<open>Provider_Props\<close> (\<open>crates/agent/src/provider\<close>): the cleaning of tool schemas, and the
    clients of OpenAI, DeepSeek and Anthropic with their streams.
  \<^item> \<open>Skills\<close> (\<open>crates/core/src/skill_engine\<close>): skill files, their validation, loading and synchronisation; what the server
    loads was scanned. \<open>Prompt\<close> (\<open>crates/agent/src/prompt\<close>): the sections of a system prompt, truncation, the prompt guard.
    \<open>Chat_Api\<close> (\<open>core/src/server/handlers/chat.rs\<close>, \<open>usage_tracking.rs\<close>): the agent of a chat and its event stream.
  \<^item> \<open>Channel_Handler\<close> (\<open>crates/core/src/channel_handler.rs\<close>, \<open>crates/channel/src/draft.rs\<close>): the agent of a chat
    message and its reply. \<open>Channel_Api\<close>: the registry and the factory of channels and their HTTP handlers.
  \<^item> \<open>Texts\<close>: decimals, lines, characters and replacement. \<open>Mcp\<close> (\<open>crates/mcp/src\<close>): the JSON-RPC messages, and the
    clients of MCP servers over the pipes of a child process and over server-sent events, each with its hand-shake, its
    identifiers and its errors. \<open>Mcp_Props\<close>: which line answers a request, and which lists of tools are read.
  \<^item> \<open>Native_Tools\<close>, \<open>Native_More\<close>, \<open>Shipped_Tools\<close> (\<open>crates/tools/src\<close>): the tools the server ships, one
    definition for the body of each and one for its name, schema and risk: files, processes and the web over a record of the
    machine (\<open>host\<close>); cron jobs, sub-agents, delegation and flows over the services they call; memory, the browser,
    and the tools that only answer. \<open>register_core_tools\<close>, \<open>register_all_tools\<close>: all of them.
    \<open>Server_Tools\<close> (\<open>crates/server/src\<close>): the registry of a running server, the agent of a delegated task, what the
    guard makes of the names of the tools, and what an edit of a file changes.

  Bounds. \<open>advance_by_id\<close> makes at most 100 rounds, the constant of the source; the loop is recursion on that
  number, so every operation terminates. The loop of an agent makes at most \<open>max_iterations\<close> rounds, a number of
  its configuration, and is recursion on it; the research phase likewise. The other loops run over lists or
  consume their text, with a termination proof where the recursion is not structural.

  Not modelled. The PostgreSQL backend repeats the SQLite one on another driver. The clients of chat services, the
  desktop shell and the command line are input and output. The memory stores rank by 32-bit floats. Tool calls are atomic: two
  calls of a parallel batch do not interleave inside a tool, only in their order. Locks are not poisoned. The texts of
  log lines are left out.
\<close>

end
